(* ===== verification/Go_Prelude.thy ===== *)
theory Go_Prelude imports Main "HOL-Library.Word" "HOL-Library.Char_ord" "HOL-Library.List_Lexorder" "HOL-Library.Product_Lexorder" begin

section \<open>Shared vocabulary of the core API model\<close>

text \<open>
  What every component theory uses: the types that stand for Go's and PostgreSQL's base
  types, the \<open>strings\<close> and \<open>sort\<close> functions the code calls, the result type of fallible
  functions, and the generic lemmas about them.

  A Go \<open>uuid.UUID\<close> is sixteen bytes; PostgreSQL's order on uuid and the order of the
  canonical text form are both the order of these bytes, so a uuid is a 128-bit word
  compared as an unsigned number and \<open>uuid.Nil\<close> is 0.  An instant counts nanoseconds from
  Go's zero time, so \<open>time.Time.IsZero\<close> is equality with 0; a \<open>time.Duration\<close> counts
  nanoseconds.  A Go string is a sequence of bytes, which is Isabelle's \<open>string\<close>; the order
  \<open>\<le>\<close> on it (HOL-Library.List_Lexorder over HOL-Library.Char_ord) is Go's byte-wise order.
\<close>

type_synonym uuid = "128 word"
type_synonym instant = int
type_synonym duration = int

abbreviation uuid_Nil :: uuid where
  "uuid_Nil \<equiv> 0"

abbreviation (input) zero_time :: instant where
  "zero_time \<equiv> 0"

definition time_Microsecond :: duration where
  "time_Microsecond = 1000"

definition time_Millisecond :: duration where
  "time_Millisecond = 1000000"

definition time_Second :: duration where
  "time_Second = 1000000000"

definition time_Minute :: duration where
  "time_Minute = 60000000000"

definition time_Hour :: duration where
  "time_Hour = 3600000000000"

lemmas time_units = time_Microsecond_def time_Millisecond_def time_Second_def
  time_Minute_def time_Hour_def

text \<open>
  \<open>Duration.Milliseconds\<close> divides towards zero, as every integer division of Go does.
\<close>

definition go_quot :: "int \<Rightarrow> int \<Rightarrow> int" where
  "go_quot a b = sgn a * sgn b * (\<bar>a\<bar> div \<bar>b\<bar>)"

definition duration_Milliseconds :: "duration \<Rightarrow> int" where
  "duration_Milliseconds d = go_quot d time_Millisecond"

lemma go_quot_pos: "0 \<le> a \<Longrightarrow> 0 < b \<Longrightarrow> go_quot a b = a div b"
  by (cases "a = 0") (simp_all add: go_quot_def)

lemma duration_Milliseconds_nonneg: "0 \<le> d \<Longrightarrow> 0 \<le> duration_Milliseconds d"
  by (simp add: duration_Milliseconds_def go_quot_pos time_units pos_imp_zdiv_nonneg_iff)

lemma duration_Milliseconds_pos: "time_Millisecond \<le> d \<Longrightarrow> 0 < duration_Milliseconds d"
  by (simp add: duration_Milliseconds_def go_quot_pos time_units pos_imp_zdiv_pos_iff)

subsection \<open>Results of fallible functions\<close>

text \<open>
  A Go function returning \<open>(value, error)\<close> is a function into \<open>'e + 'a\<close>, the error on the
  left.  \<open>try_res\<close> is the early return \<open>if err != nil { return ..., err }\<close>, \<open>guard_err\<close> the
  guard \<open>if cond { return ..., err }\<close>.
\<close>

definition try_res :: "'e + 'a \<Rightarrow> ('a \<Rightarrow> 'e + 'b) \<Rightarrow> 'e + 'b" where
  "try_res r k = (case r of Inl e \<Rightarrow> Inl e | Inr x \<Rightarrow> k x)"

definition guard_err :: "bool \<Rightarrow> 'e \<Rightarrow> 'e + 'b \<Rightarrow> 'e + 'b" where
  "guard_err c e k = (if c then Inl e else k)"

definition is_ok :: "'e + 'a \<Rightarrow> bool" where
  "is_ok r = (case r of Inl _ \<Rightarrow> False | Inr _ \<Rightarrow> True)"

lemma try_res_simps [simp]:
  "try_res (Inl e) k = Inl e"
  "try_res (Inr x) k = k x"
  by (simp_all add: try_res_def)

lemma guard_err_simps [simp]:
  "guard_err True e k = Inl e"
  "guard_err False e k = k"
  by (simp_all add: guard_err_def)

lemma is_ok_simps [simp]: "is_ok (Inl e) = False" "is_ok (Inr x) = True"
  by (simp_all add: is_ok_def)

lemma try_res_eq_Inr [simp]: "try_res r k = Inr y \<longleftrightarrow> (\<exists>x. r = Inr x \<and> k x = Inr y)"
  by (cases r) simp_all

lemma guard_err_eq_Inr [simp]: "guard_err c e k = Inr y \<longleftrightarrow> \<not> c \<and> k = Inr y"
  by (cases c) simp_all

lemma try_res_eq_Inl: "try_res r k = Inl e \<longleftrightarrow> r = Inl e \<or> (\<exists>x. r = Inr x \<and> k x = Inl e)"
  by (cases r) simp_all

lemma guard_err_eq_Inl: "guard_err c e k = Inl e' \<longleftrightarrow> (c \<and> e = e') \<or> (\<not> c \<and> k = Inl e')"
  by (cases c) simp_all

lemma is_ok_conv: "is_ok r \<longleftrightarrow> (\<exists>x. r = Inr x)"
  by (cases r) simp_all

text \<open>A loop that maps a fallible function over a slice and returns its first error.\<close>

fun map_res :: "('a \<Rightarrow> 'e + 'b) \<Rightarrow> 'a list \<Rightarrow> 'e + 'b list" where
  "map_res f [] = Inr []"
| "map_res f (x # xs) = try_res (f x) (\<lambda>y. try_res (map_res f xs) (\<lambda>ys. Inr (y # ys)))"

text \<open>A loop that threads an accumulator and stops at the first error.\<close>

fun fold_res :: "('s \<Rightarrow> 'a \<Rightarrow> 'e + 's) \<Rightarrow> 's \<Rightarrow> 'a list \<Rightarrow> 'e + 's" where
  "fold_res f s [] = Inr s"
| "fold_res f s (x # xs) = try_res (f s x) (\<lambda>s'. fold_res f s' xs)"

lemma fold_res_append:
  "fold_res f s (xs @ ys) = try_res (fold_res f s xs) (\<lambda>s'. fold_res f s' ys)"
  by (induction xs arbitrary: s) (auto simp: try_res_def split: sum.splits)

lemma fold_res_invariant:
  assumes "fold_res f s xs = Inr s'" and "P s"
    and "\<And>s x t. x \<in> set xs \<Longrightarrow> P s \<Longrightarrow> f s x = Inr t \<Longrightarrow> P t"
  shows "P s'"
  using assms
proof (induction xs arbitrary: s)
  case Nil
  then show ?case by simp
next
  case (Cons x xs)
  then obtain t where t: "f s x = Inr t" "fold_res f t xs = Inr s'" by auto
  with Cons.prems have "P t" by (meson list.set_intros(1))
  with t(2) show ?case using Cons.prems(3) by (intro Cons.IH) auto
qed

lemma map_res_length: "map_res f xs = Inr ys \<Longrightarrow> length ys = length xs"
  by (induction xs arbitrary: ys) auto

lemma map_res_list_all2: "map_res f xs = Inr ys \<Longrightarrow> list_all2 (\<lambda>x y. f x = Inr y) xs ys"
  by (induction xs arbitrary: ys) auto

lemma map_res_in_set: "map_res f xs = Inr ys \<Longrightarrow> y \<in> set ys \<Longrightarrow> \<exists>x\<in>set xs. f x = Inr y"
  by (induction xs arbitrary: ys) auto

lemma map_res_map:
  assumes "map_res f xs = Inr ys" and "\<And>x y. f x = Inr y \<Longrightarrow> g y = h x"
  shows "map g ys = map h xs"
  using assms(1) by (induction xs arbitrary: ys) (auto simp: assms(2))

lemma map_res_ok: "is_ok (map_res f xs) \<longleftrightarrow> (\<forall>x\<in>set xs. is_ok (f x))"
  by (induction xs) (auto simp: is_ok_def try_res_def split: sum.splits)

end
