(* ===== verification/Go_Strings.thy ===== *)
theory Go_Strings imports Go_Prelude begin

section \<open>The string functions the code calls\<close>

text \<open>
  Character classes of the code's anchored regular expressions, \<open>strings.TrimSpace\<close> and the
  decimal conversions of \<open>strconv\<close>, all on bytes.  \<open>trim_space\<close> strips the UTF-8 encodings of
  exactly the code points for which \<open>unicode.IsSpace\<close> holds; each of them is recognised by
  its byte sequence, so an invalid encoding is never stripped, as in Go.
\<close>

subsection \<open>Character classes\<close>

definition is_lower :: "char \<Rightarrow> bool" where
  "is_lower c \<longleftrightarrow> CHR ''a'' \<le> c \<and> c \<le> CHR ''z''"

definition is_upper :: "char \<Rightarrow> bool" where
  "is_upper c \<longleftrightarrow> CHR ''A'' \<le> c \<and> c \<le> CHR ''Z''"

definition is_digit :: "char \<Rightarrow> bool" where
  "is_digit c \<longleftrightarrow> CHR ''0'' \<le> c \<and> c \<le> CHR ''9''"

lemmas char_classes = is_lower_def is_upper_def is_digit_def

subsection \<open>strings.TrimSpace\<close>

definition space_encodings :: "string list" where
  "space_encodings =
    [[CHR 0x09], [CHR 0x0A], [CHR 0x0B], [CHR 0x0C], [CHR 0x0D], [CHR 0x20],
     [CHR 0xC2, CHR 0x85], [CHR 0xC2, CHR 0xA0], [CHR 0xE1, CHR 0x9A, CHR 0x80],
     [CHR 0xE2, CHR 0x80, CHR 0x80], [CHR 0xE2, CHR 0x80, CHR 0x81],
     [CHR 0xE2, CHR 0x80, CHR 0x82], [CHR 0xE2, CHR 0x80, CHR 0x83],
     [CHR 0xE2, CHR 0x80, CHR 0x84], [CHR 0xE2, CHR 0x80, CHR 0x85],
     [CHR 0xE2, CHR 0x80, CHR 0x86], [CHR 0xE2, CHR 0x80, CHR 0x87],
     [CHR 0xE2, CHR 0x80, CHR 0x88], [CHR 0xE2, CHR 0x80, CHR 0x89],
     [CHR 0xE2, CHR 0x80, CHR 0x8A], [CHR 0xE2, CHR 0x80, CHR 0xA8],
     [CHR 0xE2, CHR 0x80, CHR 0xA9], [CHR 0xE2, CHR 0x80, CHR 0xAF],
     [CHR 0xE2, CHR 0x81, CHR 0x9F], [CHR 0xE3, CHR 0x80, CHR 0x80]]"

fun strip_prefix :: "'a list \<Rightarrow> 'a list \<Rightarrow> 'a list option" where
  "strip_prefix [] s = Some s"
| "strip_prefix (p # ps) [] = None"
| "strip_prefix (p # ps) (c # cs) = (if p = c then strip_prefix ps cs else None)"

fun strip_first :: "'a list list \<Rightarrow> 'a list \<Rightarrow> 'a list option" where
  "strip_first [] s = None"
| "strip_first (p # ps) s =
     (case strip_prefix p s of Some r \<Rightarrow> Some r | None \<Rightarrow> strip_first ps s)"

lemma strip_prefix_Some: "strip_prefix p s = Some r \<longleftrightarrow> s = p @ r"
  by (induction p s rule: strip_prefix.induct) auto

lemma strip_first_Some:
  "strip_first ps s = Some r \<Longrightarrow> \<exists>p\<in>set ps. s = p @ r"
  by (induction ps) (auto simp: strip_prefix_Some split: option.splits)

lemma strip_first_None:
  "strip_first ps s = None \<longleftrightarrow> (\<forall>p\<in>set ps. \<forall>r. s \<noteq> p @ r)"
proof (induction ps)
  case (Cons p ps)
  have "strip_prefix p s = None \<longleftrightarrow> (\<forall>r. s \<noteq> p @ r)"
    by (metis strip_prefix_Some not_Some_eq)
  with Cons show ?case by (auto split: option.splits)
qed simp

text \<open>The loop removes one leading space per step; the fuel is the number of bytes left.\<close>

function trim_with :: "'a list list \<Rightarrow> 'a list \<Rightarrow> 'a list" where
  "trim_with ps s = (case strip_first ps s of
      Some r \<Rightarrow> if length r < length s then trim_with ps r else s
    | None \<Rightarrow> s)"
  by pat_completeness auto
termination
  by (relation "measure (\<lambda>(ps, s). length s)") auto

declare trim_with.simps [simp del]

definition trim_left :: "string \<Rightarrow> string" where
  "trim_left = trim_with space_encodings"

definition trim_right :: "string \<Rightarrow> string" where
  "trim_right s = rev (trim_with (map rev space_encodings) (rev s))"

definition trim_space :: "string \<Rightarrow> string" where
  "trim_space s = trim_right (trim_left s)"

lemma trim_with_suffix: "\<exists>p. s = p @ trim_with ps s"
proof (induction ps s rule: trim_with.induct)
  case (1 ps s)
  show ?case
  proof (cases "strip_first ps s")
    case None
    then show ?thesis by (subst trim_with.simps) simp
  next
    case (Some r)
    then obtain q where q: "s = q @ r" by (blast dest: strip_first_Some)
    from Some "1.IH" have "length r < length s \<Longrightarrow> \<exists>p. r = p @ trim_with ps r" by simp
    with Some q show ?thesis
      by (subst trim_with.simps) (auto, metis append.assoc)
  qed
qed

lemma trim_with_fixed:
  assumes "\<forall>p\<in>set ps. p \<noteq> []"
  shows "strip_first ps (trim_with ps s) = None"
  using assms
proof (induction ps s rule: trim_with.induct)
  case (1 ps s)
  show ?case
  proof (cases "strip_first ps s")
    case None
    then show ?thesis by (subst trim_with.simps) simp
  next
    case (Some r)
    then obtain p where p: "p \<in> set ps" "s = p @ r" by (blast dest: strip_first_Some)
    with "1.prems" have "length r < length s" by auto
    with Some 1 have "strip_first ps (trim_with ps r) = None" by simp
    with Some \<open>length r < length s\<close> show ?thesis by (subst trim_with.simps) simp
  qed
qed

lemma trim_with_id: "strip_first ps s = None \<Longrightarrow> trim_with ps s = s"
  by (subst trim_with.simps) simp

lemma space_encodings_nonempty: "\<forall>p\<in>set space_encodings. p \<noteq> []"
  by (simp add: space_encodings_def)

lemma trim_right_prefix: "\<exists>q. s = trim_right s @ q"
proof -
  obtain p where "rev s = p @ trim_with (map rev space_encodings) (rev s)"
    using trim_with_suffix by blast
  then have "s = rev (trim_with (map rev space_encodings) (rev s)) @ rev p"
    by (metis rev_append rev_rev_ident)
  then show ?thesis by (auto simp: trim_right_def)
qed

lemma trim_space_idem [simp]: "trim_space (trim_space s) = trim_space s"
proof -
  define u where "u = trim_space s"
  obtain q where q: "trim_left s = u @ q"
    using trim_right_prefix[of "trim_left s"] by (auto simp: u_def trim_space_def)
  have "strip_first space_encodings (trim_left s) = None"
    unfolding trim_left_def by (rule trim_with_fixed) (rule space_encodings_nonempty)
  with q have "strip_first space_encodings u = None"
    by (auto simp: strip_first_None)
  then have left: "trim_left u = u" by (simp add: trim_left_def trim_with_id)
  have "strip_first (map rev space_encodings) (rev u) = None"
    unfolding u_def trim_space_def trim_right_def rev_rev_ident
    by (rule trim_with_fixed) (use space_encodings_nonempty in auto)
  then have "trim_right u = u" by (simp add: trim_right_def trim_with_id)
  with left show ?thesis by (simp add: u_def trim_space_def)
qed

lemma trim_space_length: "length (trim_space s) \<le> length s"
proof -
  obtain p where "s = p @ trim_left s"
    unfolding trim_left_def using trim_with_suffix by blast
  then have "length (trim_left s) \<le> length s" by (metis length_append le_add2)
  moreover obtain q where "trim_left s = trim_space s @ q"
    using trim_right_prefix by (auto simp: trim_space_def)
  ultimately show ?thesis by simp
qed

text \<open>A string of visible ASCII characters is its own trimming.\<close>

definition visible_ascii :: "char \<Rightarrow> bool" where
  "visible_ascii c \<longleftrightarrow> CHR 0x21 \<le> c \<and> c \<le> CHR 0x7E"

lemma strip_first_visible:
  assumes "list_all visible_ascii s" and "\<forall>p\<in>set ps. \<exists>c\<in>set p. \<not> visible_ascii c"
  shows "strip_first ps s = None"
  using assms by (fastforce simp: strip_first_None list_all_iff)

lemma space_encodings_invisible: "\<forall>p\<in>set space_encodings. \<exists>c\<in>set p. \<not> visible_ascii c"
  by (simp add: space_encodings_def visible_ascii_def less_eq_char_def)

lemma trim_space_visible: "list_all visible_ascii s \<Longrightarrow> trim_space s = s"
proof -
  assume s: "list_all visible_ascii s"
  have "strip_first space_encodings s = None"
    by (rule strip_first_visible[OF s space_encodings_invisible])
  moreover have "strip_first (map rev space_encodings) (rev s) = None"
    by (rule strip_first_visible) (use s space_encodings_invisible in auto)
  ultimately show ?thesis
    by (simp add: trim_space_def trim_left_def trim_right_def trim_with_id)
qed

subsection \<open>Decimal conversions of strconv\<close>

definition digit_char :: "nat \<Rightarrow> char" where
  "digit_char d = char_of (48 + d)"

definition digit_value :: "char \<Rightarrow> nat" where
  "digit_value c = of_char c - 48"

fun format_uint :: "nat \<Rightarrow> string" where
  "format_uint n = (if n < 10 then [digit_char n]
                    else format_uint (n div 10) @ [digit_char (n mod 10)])"

declare format_uint.simps [simp del]

text \<open>
  \<open>strconv.ParseUint(s, 10, bits)\<close>: digits only, at least one, and a value below \<open>2 ^ bits\<close>.
\<close>

definition digits_value :: "string \<Rightarrow> nat" where
  "digits_value s = foldl (\<lambda>n c. 10 * n + digit_value c) 0 s"

definition parse_uint :: "nat \<Rightarrow> string \<Rightarrow> nat option" where
  "parse_uint bits s =
     (if s \<noteq> [] \<and> list_all is_digit s \<and> digits_value s < 2 ^ bits
      then Some (digits_value s) else None)"

lemma digit_char_is_digit: "d < 10 \<Longrightarrow> is_digit (digit_char d)"
  by (auto simp: is_digit_def digit_char_def less_eq_char_def of_char_of)

lemma digit_value_char: "d < 10 \<Longrightarrow> digit_value (digit_char d) = d"
  by (simp add: digit_value_def digit_char_def of_char_of)

lemma format_uint_nonempty [simp]: "format_uint n \<noteq> []"
  by (subst format_uint.simps) simp

lemma format_uint_digits: "list_all is_digit (format_uint n)"
proof (induction n rule: format_uint.induct)
  case (1 n)
  show ?case
    using 1 by (subst format_uint.simps) (auto simp: digit_char_is_digit)
qed

lemma digits_value_snoc: "digits_value (s @ [c]) = 10 * digits_value s + digit_value c"
  by (simp add: digits_value_def)

lemma digits_value_format [simp]: "digits_value (format_uint n) = n"
proof (induction n rule: format_uint.induct)
  case (1 n)
  show ?case
  proof (cases "n < 10")
    case True
    then show ?thesis
      by (subst format_uint.simps) (simp add: digits_value_def digit_value_char)
  next
    case False
    with 1 have "digits_value (format_uint (n div 10)) = n div 10" by simp
    with False show ?thesis
      by (subst format_uint.simps) (simp add: digits_value_snoc digit_value_char)
  qed
qed

lemma parse_format_uint: "n < 2 ^ bits \<Longrightarrow> parse_uint bits (format_uint n) = Some n"
  by (simp add: parse_uint_def format_uint_digits)

lemma parse_uint_bound: "parse_uint bits s = Some n \<Longrightarrow> n < 2 ^ bits"
  by (auto simp: parse_uint_def split: if_splits)

lemma is_digit_visible: "is_digit c \<Longrightarrow> visible_ascii c"
  by (auto simp: is_digit_def visible_ascii_def less_eq_char_def)

lemma is_lower_visible: "is_lower c \<Longrightarrow> visible_ascii c"
  by (auto simp: is_lower_def visible_ascii_def less_eq_char_def)

lemma visible_ascii_marks [simp]:
  "visible_ascii (CHR ''.'')" "visible_ascii (CHR ''_'')" "visible_ascii (CHR ''-'')"
  "visible_ascii (CHR ''v'')" "visible_ascii (CHR '':'')"
  by (simp_all add: visible_ascii_def less_eq_char_def)

text \<open>\<open>strconv.Itoa\<close>.\<close>

definition itoa :: "int \<Rightarrow> string" where
  "itoa n = (if n < 0 then CHR ''-'' # format_uint (nat (- n)) else format_uint (nat n))"

definition join_with :: "string \<Rightarrow> string list \<Rightarrow> string" where
  "join_with sep xs = (case xs of [] \<Rightarrow> [] | y # ys \<Rightarrow> y @ concat (map (\<lambda>z. sep @ z) ys))"

subsection \<open>strings.Split\<close>

text \<open>\<open>split_on\<close> cuts a string at every occurrence of a character.\<close>

fun split_on :: "char \<Rightarrow> string \<Rightarrow> string list" where
  "split_on d [] = [[]]"
| "split_on d (c # cs) =
     (if c = d then [] # split_on d cs
      else case split_on d cs of [] \<Rightarrow> [[c]] | seg # segs \<Rightarrow> (c # seg) # segs)"

lemma split_on_nonempty [simp]: "split_on d s \<noteq> []"
  by (induction d s rule: split_on.induct) (auto split: list.splits)

lemma split_on_chars:
  "list_all (\<lambda>seg. list_all P seg) (split_on d s) \<Longrightarrow> list_all (\<lambda>c. P c \<or> c = d) s"
proof (induction d s rule: split_on.induct)
  case (2 d c cs)
  then show ?case
    by (cases "split_on d cs") (auto split: if_splits simp: list_all_iff)
qed simp

lemma split_on_single: "d \<notin> set x \<Longrightarrow> split_on d x = [x]"
  by (induction x) auto

lemma split_on_append: "d \<notin> set x \<Longrightarrow> split_on d (x @ d # s) = x # split_on d s"
  by (induction x) (auto split: list.splits)

lemma split_on_join:
  assumes "xs \<noteq> []" and "\<forall>x\<in>set xs. d \<notin> set x"
  shows "split_on d (join_with [d] xs) = xs"
  using assms
proof (induction xs)
  case (Cons x xs)
  show ?case
  proof (cases xs)
    case Nil
    with Cons show ?thesis by (simp add: join_with_def split_on_single)
  next
    case (Cons y ys)
    then have "join_with [d] (x # xs) = x @ d # join_with [d] xs" by (simp add: join_with_def)
    with Cons.IH Cons.prems Cons show ?thesis by (simp add: split_on_append)
  qed
qed simp

text \<open>\<open>strconv.Atoi\<close> on a 64-bit platform.\<close>

definition atoi :: "string \<Rightarrow> int option" where
  "atoi s = (let neg = (case s of c # _ \<Rightarrow> c = CHR ''-'' | [] \<Rightarrow> False);
       digits = (case s of c # r \<Rightarrow> if c = CHR ''-'' \<or> c = CHR ''+'' then r else s | [] \<Rightarrow> []) in
     if digits = [] \<or> \<not> list_all is_digit digits then None
     else let n = (if neg then - int (digits_value digits) else int (digits_value digits)) in
       if n < - (2 ^ 63) \<or> 2 ^ 63 \<le> n then None else Some n)"

lemma digit_not_sign: "is_digit c \<Longrightarrow> c \<noteq> CHR ''-'' \<and> c \<noteq> CHR ''+''"
  by (auto simp: is_digit_def less_eq_char_def)

lemma atoi_itoa: "- (2 ^ 63) \<le> n \<Longrightarrow> n < 2 ^ 63 \<Longrightarrow> atoi (itoa n) = Some n"
proof -
  assume n: "- (2 ^ 63) \<le> n" "n < 2 ^ 63"
  have d: "list_all is_digit (format_uint k)" for k by (rule format_uint_digits)
  show ?thesis
  proof (cases "n < 0")
    case True
    then show ?thesis using n d[of "nat (- n)"] by (simp add: atoi_def itoa_def)
  next
    case False
    obtain c s where "format_uint (nat n) = c # s" by (cases "format_uint (nat n)") auto
    with False n d[of "nat n"] digits_value_format[of "nat n"] digit_not_sign[of c] show ?thesis
      by (auto simp: atoi_def itoa_def simp del: digits_value_format)
  qed
qed

subsection \<open>Case\<close>

text \<open>
  \<open>strings.EqualFold(zone, "local")\<close>: none of these letters has a fold partner outside ASCII.
\<close>

definition ascii_lower :: "char \<Rightarrow> char" where
  "ascii_lower c = (if is_upper c then char_of (of_char c + (32 :: nat)) else c)"

definition equal_fold_local :: "string \<Rightarrow> bool" where
  "equal_fold_local s \<longleftrightarrow> map ascii_lower s = ''local''"

text \<open>
  \<open>strings.ToUpper\<close> and \<open>strings.ToLower\<close>.  Of the code points outside ASCII, U+0131 and U+017F
  have an ASCII capital, U+0130 and U+212A an ASCII small letter.  All others stay outside
  ASCII and are left as they are: the code only compares the results with ASCII words.
\<close>

definition ascii_upper :: "char \<Rightarrow> char" where
  "ascii_upper c = (if is_lower c then char_of (of_char c - (32 :: nat)) else c)"

fun to_upper :: "string \<Rightarrow> string" where
  "to_upper [] = []"
| "to_upper [c] = [ascii_upper c]"
| "to_upper (c # d # s) =
     (if c = CHR 0xC4 \<and> d = CHR 0xB1 then CHR ''I'' # to_upper s
      else if c = CHR 0xC5 \<and> d = CHR 0xBF then CHR ''S'' # to_upper s
      else ascii_upper c # to_upper (d # s))"

fun to_lower :: "string \<Rightarrow> string" where
  "to_lower [] = []"
| "to_lower (c # s) =
     (if c = CHR 0xC4 \<and> take 1 s = [CHR 0xB0] then CHR ''i'' # to_lower (drop 1 s)
      else if c = CHR 0xE2 \<and> take 2 s = [CHR 0x84, CHR 0xAA] then CHR ''k'' # to_lower (drop 2 s)
      else ascii_lower c # to_lower s)"

end
