(* ===== verification/Policy_Engine.thy ===== *)
theory Policy_Engine imports Go_Strings begin

section \<open>Authorization policy (internal/policy/policy.go)\<close>

text \<open>
  The role and permission vocabulary, the permission tables, the policy engine
  (\<open>EffectivePermissions\<close>, \<open>Authorize\<close>) and the roster hierarchy (\<open>CanMutateRoster\<close>).
  The string types of the code become datatypes whose last constructor carries every other
  string, so the default branches of the code's switches are branches here.  An \<open>Action\<close> is
  the string of a permission, or a string that names none.  The Go interface \<open>Authorizer\<close> is
  the locale \<open>authorizer\<close>, interpreted on the engine; the services that call it are proved
  against the locale.
\<close>

subsection \<open>Vocabulary\<close>

datatype organization_role =
    OrganizationRoleAdmin
  | OrganizationRoleTeacher
  | OrganizationRoleStudent
  | OrganizationRoleGuest
  | OrganizationRoleOther string

datatype class_role =
    ClassRoleOwner
  | ClassRoleCoTeacher
  | ClassRoleTeachingAssistant
  | ClassRoleStudent
  | ClassRoleOther string

datatype permission =
    PermissionTenantView
  | PermissionTenantManage
  | PermissionTenantManageMembers
  | PermissionTenantManageFeatures
  | PermissionClassCreate
  | PermissionClassUpdate
  | PermissionClassArchive
  | PermissionClassTransferOwner
  | PermissionClassView
  | PermissionConversationCreateDirect
  | PermissionMessageWriteDirect
  | PermissionAvailabilityPollCreate
  | PermissionAvailabilityPollManageOwn
  | PermissionAvailabilityPollPublishToClass
  | PermissionStudyMeetingScheduleOwn
  | PermissionRoomCreateInstant
  | PermissionEnrollmentManage
  | PermissionEnrollmentLeave
  | PermissionSessionSchedule
  | PermissionSessionStart
  | PermissionSessionEnd
  | PermissionSessionJoin
  | PermissionParticipantAdmit
  | PermissionParticipantRemove
  | PermissionMediaPublish
  | PermissionMediaShareScreen
  | PermissionMediaLock
  | PermissionMediaModerate
  | PermissionChatSend
  | PermissionFileView
  | PermissionFileUpload
  | PermissionAuditView

datatype action = ActionOf permission | ActionOther string

datatype resource_state =
    ResourceStateUnknown
  | ResourceStateDraft
  | ResourceStateActive
  | ResourceStateArchived
  | ResourceStateOther string

record subject =
  ActorID :: uuid
  ActiveTenantID :: uuid
  MembershipActive :: bool
  OrganizationRoles :: "organization_role list"
  ClassRoles :: "class_role list"

record resource =
  res_TenantID :: uuid
  res_ClassID :: uuid
  res_State :: resource_state

record authz_input =
  in_Subject :: subject
  in_Action :: action
  in_Resource :: resource

datatype denial_reason =
    DenialNone
  | DenialInvalidSubject
  | DenialInactiveMembership
  | DenialResourceScope
  | DenialPermission
  | DenialResourceState

record decision =
  Allowed :: bool
  Reason :: denial_reason
  ConcealResource :: bool

text \<open>The composite literal \<open>Decision{Reason: r}\<close> leaves the other fields zero.\<close>

definition deny :: "denial_reason \<Rightarrow> decision" where
  "deny r = \<lparr>Allowed = False, Reason = r, ConcealResource = False\<rparr>"

subsection \<open>Permission tables\<close>

definition permissionOrder :: "permission list" where
  "permissionOrder =
    [PermissionTenantView, PermissionTenantManage, PermissionTenantManageMembers,
     PermissionTenantManageFeatures, PermissionClassCreate, PermissionClassUpdate,
     PermissionClassArchive, PermissionClassTransferOwner, PermissionClassView,
     PermissionConversationCreateDirect, PermissionMessageWriteDirect,
     PermissionAvailabilityPollCreate, PermissionAvailabilityPollManageOwn,
     PermissionAvailabilityPollPublishToClass, PermissionStudyMeetingScheduleOwn,
     PermissionRoomCreateInstant, PermissionEnrollmentManage, PermissionEnrollmentLeave,
     PermissionSessionSchedule, PermissionSessionStart, PermissionSessionEnd,
     PermissionSessionJoin, PermissionParticipantAdmit, PermissionParticipantRemove,
     PermissionMediaPublish, PermissionMediaShareScreen, PermissionMediaLock,
     PermissionMediaModerate, PermissionChatSend, PermissionFileView, PermissionFileUpload,
     PermissionAuditView]"

fun organizationPermissions :: "organization_role \<Rightarrow> permission list" where
  "organizationPermissions OrganizationRoleAdmin = permissionOrder"
| "organizationPermissions OrganizationRoleTeacher =
    [PermissionTenantView, PermissionClassCreate, PermissionClassUpdate,
     PermissionClassView, PermissionConversationCreateDirect, PermissionMessageWriteDirect,
     PermissionAvailabilityPollCreate, PermissionAvailabilityPollManageOwn,
     PermissionAvailabilityPollPublishToClass, PermissionStudyMeetingScheduleOwn,
     PermissionRoomCreateInstant, PermissionEnrollmentManage, PermissionSessionSchedule,
     PermissionSessionStart, PermissionSessionEnd, PermissionSessionJoin,
     PermissionParticipantAdmit, PermissionParticipantRemove, PermissionMediaPublish,
     PermissionMediaShareScreen, PermissionMediaLock, PermissionMediaModerate,
     PermissionChatSend, PermissionFileView, PermissionFileUpload]"
| "organizationPermissions OrganizationRoleStudent =
    [PermissionTenantView, PermissionConversationCreateDirect, PermissionMessageWriteDirect,
     PermissionAvailabilityPollCreate, PermissionAvailabilityPollManageOwn,
     PermissionStudyMeetingScheduleOwn, PermissionRoomCreateInstant]"
| "organizationPermissions OrganizationRoleGuest =
    [PermissionTenantView, PermissionConversationCreateDirect, PermissionMessageWriteDirect,
     PermissionAvailabilityPollCreate, PermissionAvailabilityPollManageOwn,
     PermissionStudyMeetingScheduleOwn, PermissionRoomCreateInstant]"
| "organizationPermissions (OrganizationRoleOther _) = []"

fun classPermissions :: "class_role \<Rightarrow> permission list" where
  "classPermissions ClassRoleOwner =
    [PermissionClassUpdate, PermissionClassArchive, PermissionClassTransferOwner,
     PermissionClassView, PermissionAvailabilityPollPublishToClass,
     PermissionEnrollmentManage, PermissionEnrollmentLeave, PermissionSessionSchedule,
     PermissionSessionStart, PermissionSessionEnd, PermissionSessionJoin,
     PermissionParticipantAdmit, PermissionParticipantRemove, PermissionMediaPublish,
     PermissionMediaShareScreen, PermissionMediaLock, PermissionMediaModerate,
     PermissionChatSend, PermissionFileView, PermissionFileUpload]"
| "classPermissions ClassRoleCoTeacher =
    [PermissionClassUpdate, PermissionClassView, PermissionAvailabilityPollPublishToClass,
     PermissionEnrollmentManage, PermissionEnrollmentLeave, PermissionSessionSchedule,
     PermissionSessionStart, PermissionSessionEnd, PermissionSessionJoin,
     PermissionParticipantAdmit, PermissionParticipantRemove, PermissionMediaPublish,
     PermissionMediaShareScreen, PermissionMediaLock, PermissionMediaModerate,
     PermissionChatSend, PermissionFileView, PermissionFileUpload]"
| "classPermissions ClassRoleTeachingAssistant =
    [PermissionClassView, PermissionEnrollmentLeave, PermissionSessionJoin,
     PermissionParticipantAdmit, PermissionMediaPublish, PermissionMediaShareScreen,
     PermissionMediaModerate, PermissionChatSend, PermissionFileView]"
| "classPermissions ClassRoleStudent =
    [PermissionClassView, PermissionEnrollmentLeave, PermissionSessionJoin,
     PermissionMediaPublish, PermissionChatSend, PermissionFileView]"
| "classPermissions (ClassRoleOther _) = []"

text \<open>The string of each permission, and of an action.\<close>

fun permission_string :: "permission \<Rightarrow> string" where
  "permission_string PermissionTenantView = ''tenant.view''"
| "permission_string PermissionTenantManage = ''tenant.manage''"
| "permission_string PermissionTenantManageMembers = ''tenant.manage_members''"
| "permission_string PermissionTenantManageFeatures = ''tenant.manage_features''"
| "permission_string PermissionClassCreate = ''class.create''"
| "permission_string PermissionClassUpdate = ''class.update''"
| "permission_string PermissionClassArchive = ''class.archive''"
| "permission_string PermissionClassTransferOwner = ''class.transfer_ownership''"
| "permission_string PermissionClassView = ''class.view''"
| "permission_string PermissionConversationCreateDirect = ''conversation.create_direct''"
| "permission_string PermissionMessageWriteDirect = ''message.write_direct''"
| "permission_string PermissionAvailabilityPollCreate = ''availability.poll.create''"
| "permission_string PermissionAvailabilityPollManageOwn = ''availability.poll.manage_own''"
| "permission_string PermissionAvailabilityPollPublishToClass = ''availability.poll.publish_to_class''"
| "permission_string PermissionStudyMeetingScheduleOwn = ''study_meeting.schedule_own''"
| "permission_string PermissionRoomCreateInstant = ''room.create.instant''"
| "permission_string PermissionEnrollmentManage = ''enrollment.manage''"
| "permission_string PermissionEnrollmentLeave = ''enrollment.leave''"
| "permission_string PermissionSessionSchedule = ''session.schedule''"
| "permission_string PermissionSessionStart = ''session.start''"
| "permission_string PermissionSessionEnd = ''session.end''"
| "permission_string PermissionSessionJoin = ''session.join''"
| "permission_string PermissionParticipantAdmit = ''participant.admit''"
| "permission_string PermissionParticipantRemove = ''participant.remove''"
| "permission_string PermissionMediaPublish = ''media.publish''"
| "permission_string PermissionMediaShareScreen = ''media.share_screen''"
| "permission_string PermissionMediaLock = ''media.lock''"
| "permission_string PermissionMediaModerate = ''media.moderate''"
| "permission_string PermissionChatSend = ''chat.send''"
| "permission_string PermissionFileView = ''file.view''"
| "permission_string PermissionFileUpload = ''file.upload''"
| "permission_string PermissionAuditView = ''audit.view''"

definition PermissionStrings :: "permission list \<Rightarrow> string list" where
  "PermissionStrings ps = map permission_string ps"

text \<open>The conversion \<open>Action(value)\<close> of an arbitrary string.\<close>

definition action_of_string :: "string \<Rightarrow> action" where
  "action_of_string s = (case find (\<lambda>p. permission_string p = s) permissionOrder of
      Some p \<Rightarrow> ActionOf p
    | None \<Rightarrow> ActionOther s)"

subsection \<open>The engine\<close>

datatype engine = Engine

definition validSubject :: "subject \<Rightarrow> bool" where
  "validSubject s \<longleftrightarrow> ActorID s \<noteq> uuid_Nil \<and> ActiveTenantID s \<noteq> uuid_Nil \<and>
     0 < length (OrganizationRoles s)"

definition validAction :: "action \<Rightarrow> bool" where
  "validAction a \<longleftrightarrow> list_ex (\<lambda>p. a = ActionOf p) permissionOrder"

definition actionRequiresClass :: "action \<Rightarrow> bool" where
  "actionRequiresClass a =
     (a \<notin> {ActionOf PermissionTenantView, ActionOf PermissionTenantManage,
           ActionOf PermissionTenantManageMembers, ActionOf PermissionTenantManageFeatures,
           ActionOf PermissionClassCreate, ActionOf PermissionClassView,
           ActionOf PermissionConversationCreateDirect, ActionOf PermissionMessageWriteDirect,
           ActionOf PermissionAuditView, ActionOf PermissionAvailabilityPollCreate,
           ActionOf PermissionAvailabilityPollManageOwn,
           ActionOf PermissionStudyMeetingScheduleOwn, ActionOf PermissionRoomCreateInstant})"

fun actionBlockedForResourceState :: "action \<Rightarrow> resource_state \<Rightarrow> bool" where
  "actionBlockedForResourceState a ResourceStateUnknown = False"
| "actionBlockedForResourceState a ResourceStateActive = False"
| "actionBlockedForResourceState a ResourceStateDraft =
     (if a \<in> {ActionOf PermissionClassView, ActionOf PermissionClassUpdate,
              ActionOf PermissionClassArchive, ActionOf PermissionClassTransferOwner}
      then False else actionRequiresClass a)"
| "actionBlockedForResourceState a ResourceStateArchived =
     (if a \<in> {ActionOf PermissionClassView, ActionOf PermissionClassArchive,
              ActionOf PermissionClassTransferOwner, ActionOf PermissionFileView}
      then False
      else if a \<in> {ActionOf PermissionEnrollmentManage, ActionOf PermissionEnrollmentLeave}
      then False
      else actionRequiresClass a)"
| "actionBlockedForResourceState a (ResourceStateOther _) = actionRequiresClass a"

text \<open>
  \<open>granted\<close> is the Go map used as a set: the permissions of every organization role, then
  those of every class role.  A nil receiver is \<open>None\<close>.
\<close>

definition granted_permissions :: "subject \<Rightarrow> permission list" where
  "granted_permissions s =
     concat (map organizationPermissions (OrganizationRoles s)) @
     concat (map classPermissions (ClassRoles s))"

definition EffectivePermissions :: "engine option \<Rightarrow> subject \<Rightarrow> permission list" where
  "EffectivePermissions eng s =
     (if eng = None \<or> \<not> validSubject s \<or> \<not> MembershipActive s then []
      else let granted = set (granted_permissions s)
           in filter (\<lambda>p. p \<in> granted) permissionOrder)"

definition Authorize :: "engine option \<Rightarrow> authz_input \<Rightarrow> decision" where
  "Authorize eng i =
     (let s = in_Subject i; a = in_Action i; r = in_Resource i in
      if eng = None \<or> \<not> validSubject s then deny DenialInvalidSubject
      else if \<not> MembershipActive s then deny DenialInactiveMembership
      else if res_TenantID r = uuid_Nil \<or> res_TenantID r \<noteq> ActiveTenantID s
        then (deny DenialResourceScope)\<lparr>ConcealResource := True\<rparr>
      else if \<not> validAction a then deny DenialPermission
      else if actionRequiresClass a \<and> res_ClassID r = uuid_Nil
        then (deny DenialResourceScope)\<lparr>ConcealResource := True\<rparr>
      else if \<not> list_ex (\<lambda>p. ActionOf p = a) (EffectivePermissions eng s)
        then deny DenialPermission
      else if actionBlockedForResourceState a (res_State r) then deny DenialResourceState
      else \<lparr>Allowed = True, Reason = DenialNone, ConcealResource = False\<rparr>)"

subsection \<open>Roster mutations\<close>

datatype roster_mutation_action =
    RosterMutationUpdateRole
  | RosterMutationSuspend
  | RosterMutationRemove
  | RosterMutationOther string






text \<open>A level and its validity flag, \<open>(int, bool)\<close> in the code, is an \<open>int option\<close>.\<close>

fun organizationRosterLevel :: "organization_role \<Rightarrow> int option" where
  "organizationRosterLevel OrganizationRoleAdmin = Some 4"
| "organizationRosterLevel OrganizationRoleTeacher = Some 2"
| "organizationRosterLevel OrganizationRoleStudent = Some 0"
| "organizationRosterLevel OrganizationRoleGuest = Some 0"
| "organizationRosterLevel (OrganizationRoleOther _) = None"

fun classRosterLevel :: "class_role \<Rightarrow> int option" where
  "classRosterLevel ClassRoleOwner = Some 3"
| "classRosterLevel ClassRoleCoTeacher = Some 2"
| "classRosterLevel ClassRoleTeachingAssistant = Some 1"
| "classRosterLevel ClassRoleStudent = Some 0"
| "classRosterLevel (ClassRoleOther _) = None"


fun raise_level :: "('r \<Rightarrow> int option) \<Rightarrow> int \<Rightarrow> 'r list \<Rightarrow> int option" where
  "raise_level lev level [] = Some level"
| "raise_level lev level (r # rs) = (case lev r of
      None \<Rightarrow> None
    | Some roleLevel \<Rightarrow> raise_level lev (if level < roleLevel then roleLevel else level) rs)"



subsection \<open>Facts about the tables\<close>

lemma permissionOrder_complete [simp]: "p \<in> set permissionOrder"
  by (cases p) (simp_all add: permissionOrder_def)

lemma permissionOrder_distinct: "distinct permissionOrder"
  by (simp add: permissionOrder_def)

lemma validAction_iff: "validAction a \<longleftrightarrow> (\<exists>p. a = ActionOf p)"
  by (auto simp: validAction_def list_ex_iff)

lemma set_EffectivePermissions:
  "set (EffectivePermissions eng s) =
     (if eng = None \<or> \<not> validSubject s \<or> \<not> MembershipActive s then {}
      else (\<Union>r\<in>set (OrganizationRoles s). set (organizationPermissions r)) \<union>
           (\<Union>r\<in>set (ClassRoles s). set (classPermissions r)))"
  by (auto simp: EffectivePermissions_def granted_permissions_def Let_def)

lemma classPermissions_level_mono:
  assumes "classRosterLevel r = Some l" and "classRosterLevel r' = Some l'" and "l \<le> l'"
  shows "set (classPermissions r) \<subseteq> set (classPermissions r')"
  using assms by (cases r; cases r') simp_all

lemma organizationPermissions_level_mono:
  assumes "organizationRosterLevel r = Some l" and "organizationRosterLevel r' = Some l'"
    and "l \<le> l'"
  shows "set (organizationPermissions r) \<subseteq> set (organizationPermissions r')"
  using assms by (cases r; cases r') (simp_all add: subset_iff)

lemma Authorize_Allowed_iff:
  "Allowed (Authorize eng i) \<longleftrightarrow>
     (\<exists>p. in_Action i = ActionOf p \<and>
        eng \<noteq> None \<and> validSubject (in_Subject i) \<and> MembershipActive (in_Subject i) \<and>
        res_TenantID (in_Resource i) = ActiveTenantID (in_Subject i) \<and>
        \<not> (actionRequiresClass (ActionOf p) \<and> res_ClassID (in_Resource i) = uuid_Nil) \<and>
        p \<in> set (EffectivePermissions eng (in_Subject i)) \<and>
        \<not> actionBlockedForResourceState (ActionOf p) (res_State (in_Resource i)))"
  by (auto simp: Authorize_def Let_def deny_def validAction_iff list_ex_iff validSubject_def)

subsection \<open>The Authorizer interface\<close>

text \<open>
  What the services rely on when they call the Go interface \<open>Authorizer\<close>: a permitted action
  is one of the subject's effective permissions, inside the subject's tenant, and a denial
  that conceals the resource never permits.
\<close>

locale authorizer =
  fixes effective :: "subject \<Rightarrow> permission list"
    and authorize :: "authz_input \<Rightarrow> decision"
  assumes allowed_tenant:
      "Allowed (authorize i) \<Longrightarrow> res_TenantID (in_Resource i) = ActiveTenantID (in_Subject i)"
    and allowed_effective:
      "Allowed (authorize i) \<Longrightarrow> \<exists>p\<in>set (effective (in_Subject i)). in_Action i = ActionOf p"
    and allowed_reason: "Reason (authorize i) = DenialNone \<longleftrightarrow> Allowed (authorize i)"
    and effective_active:
      "effective s \<noteq> [] \<Longrightarrow> MembershipActive s \<and> ActorID s \<noteq> uuid_Nil \<and> ActiveTenantID s \<noteq> uuid_Nil"
begin

lemma allowed_active:
  assumes "Allowed (authorize i)"
  shows "MembershipActive (in_Subject i) \<and> ActorID (in_Subject i) \<noteq> uuid_Nil"
proof -
  from allowed_effective[OF assms] have "effective (in_Subject i) \<noteq> []" by auto
  then show ?thesis using effective_active by blast
qed

lemma foreign_tenant_denied:
  "res_TenantID (in_Resource i) \<noteq> ActiveTenantID (in_Subject i) \<Longrightarrow>
   \<not> Allowed (authorize i) \<and> Reason (authorize i) \<noteq> DenialNone"
  using allowed_tenant allowed_reason by blast

lemma allowed_tenant_nonnil:
  assumes "Allowed (authorize i)"
  shows "res_TenantID (in_Resource i) \<noteq> uuid_Nil"
proof -
  from allowed_effective[OF assms] have "effective (in_Subject i) \<noteq> []" by auto
  then show ?thesis using effective_active allowed_tenant[OF assms] by metis
qed

end

interpretation engine: authorizer "EffectivePermissions eng" "Authorize eng"
proof
  fix i :: authz_input
  show "Allowed (Authorize eng i) \<Longrightarrow> res_TenantID (in_Resource i) = ActiveTenantID (in_Subject i)"
    by (simp add: Authorize_Allowed_iff) blast
  show "Allowed (Authorize eng i) \<Longrightarrow>
      \<exists>p\<in>set (EffectivePermissions eng (in_Subject i)). in_Action i = ActionOf p"
    by (simp add: Authorize_Allowed_iff) blast
  show "Reason (Authorize eng i) = DenialNone \<longleftrightarrow> Allowed (Authorize eng i)"
    by (simp add: Authorize_def Let_def deny_def)
next
  fix s :: subject
  show "EffectivePermissions eng s \<noteq> [] \<Longrightarrow>
      MembershipActive s \<and> ActorID s \<noteq> uuid_Nil \<and> ActiveTenantID s \<noteq> uuid_Nil"
    by (auto simp: EffectivePermissions_def validSubject_def split: if_splits)
qed

subsection \<open>Facts about the roster hierarchy\<close>



lemma raise_level_attained:
  "raise_level lev l rs = Some l' \<Longrightarrow> l' = l \<or> (\<exists>r\<in>set rs. lev r = Some l')"
proof (induction lev l rs rule: raise_level.induct)
  case (2 lev level r' rs)
  then obtain m where m: "lev r' = Some m"
    and rec: "raise_level lev (if level < m then m else level) rs = Some l'"
    by (auto split: option.splits)
  from "2.IH"[OF m rec] m show ?case by (auto split: if_splits)
qed simp




subsection \<open>Properties of the engine\<close>

text \<open>
  The permission matrix of docs/DOMAIN\_MODEL.md (sections 3.1 to 3.3) by ranks: the least level of the
  roster hierarchy at which an organization role, and a class role, carries a permission.
\<close>

fun organization_rank :: "permission \<Rightarrow> int" where
  "organization_rank PermissionTenantView = 0"
| "organization_rank PermissionConversationCreateDirect = 0"
| "organization_rank PermissionMessageWriteDirect = 0"
| "organization_rank PermissionAvailabilityPollCreate = 0"
| "organization_rank PermissionAvailabilityPollManageOwn = 0"
| "organization_rank PermissionStudyMeetingScheduleOwn = 0"
| "organization_rank PermissionRoomCreateInstant = 0"
| "organization_rank PermissionTenantManage = 4"
| "organization_rank PermissionTenantManageMembers = 4"
| "organization_rank PermissionTenantManageFeatures = 4"
| "organization_rank PermissionClassArchive = 4"
| "organization_rank PermissionClassTransferOwner = 4"
| "organization_rank PermissionEnrollmentLeave = 4"
| "organization_rank PermissionAuditView = 4"
| "organization_rank _ = 2"

definition class_rank :: "permission \<Rightarrow> int option" where
  "class_rank p =
     (if p \<in> {PermissionClassView, PermissionEnrollmentLeave, PermissionSessionJoin, PermissionMediaPublish,
          PermissionChatSend, PermissionFileView} then Some 0
      else if p \<in> {PermissionParticipantAdmit, PermissionMediaShareScreen, PermissionMediaModerate} then Some 1
      else if p \<in> {PermissionClassArchive, PermissionClassTransferOwner} then Some 3
      else if organization_rank p = 2 \<and> p \<noteq> PermissionClassCreate then Some 2
      else None)"

definition ranked_permission :: "subject \<Rightarrow> permission \<Rightarrow> bool" where
  "ranked_permission s p \<longleftrightarrow>
     (\<exists>r l. r \<in> set (OrganizationRoles s) \<and> organizationRosterLevel r = Some l \<and> organization_rank p \<le> l) \<or>
     (\<exists>r l n. r \<in> set (ClassRoles s) \<and> classRosterLevel r = Some l \<and> class_rank p = Some n \<and> n \<le> l)"

text \<open>An action is about a class when a class role can carry it; a list of classes can be viewed without one.\<close>

definition class_scoped :: "permission \<Rightarrow> bool" where
  "class_scoped p \<longleftrightarrow> class_rank p \<noteq> None \<and> p \<noteq> PermissionClassView"

text \<open>
  What the state of a class leaves possible: a draft may be changed as a class, an archived class may be
  read and wound up, in a state that the code does not know nothing happens to the class.
\<close>

fun state_permits :: "resource_state \<Rightarrow> permission \<Rightarrow> bool" where
  "state_permits ResourceStateUnknown p \<longleftrightarrow> True"
| "state_permits ResourceStateActive p \<longleftrightarrow> True"
| "state_permits ResourceStateDraft p \<longleftrightarrow> \<not> class_scoped p \<or>
     p \<in> {PermissionClassUpdate, PermissionClassArchive, PermissionClassTransferOwner}"
| "state_permits ResourceStateArchived p \<longleftrightarrow> \<not> class_scoped p \<or>
     p \<in> {PermissionClassArchive, PermissionClassTransferOwner, PermissionFileView, PermissionEnrollmentManage,
       PermissionEnrollmentLeave}"
| "state_permits (ResourceStateOther _) p \<longleftrightarrow> \<not> class_scoped p"

text \<open>An active member with an organization role asks, in the own tenant and for a class where one is needed.\<close>

definition request_in_scope :: "authz_input \<Rightarrow> permission \<Rightarrow> bool" where
  "request_in_scope i p \<longleftrightarrow> in_Action i = ActionOf p \<and> MembershipActive (in_Subject i) \<and>
     ActorID (in_Subject i) \<noteq> uuid_Nil \<and> OrganizationRoles (in_Subject i) \<noteq> [] \<and>
     res_TenantID (in_Resource i) \<noteq> uuid_Nil \<and> res_TenantID (in_Resource i) = ActiveTenantID (in_Subject i) \<and>
     (\<not> class_scoped p \<or> res_ClassID (in_Resource i) \<noteq> uuid_Nil)"

lemma organizationPermissions_rank:
  "p \<in> set (organizationPermissions r) \<longleftrightarrow>
     (\<exists>l. organizationRosterLevel r = Some l \<and> organization_rank p \<le> l)"
  by (cases r; cases p) simp_all

lemma classPermissions_rank:
  "p \<in> set (classPermissions r) \<longleftrightarrow>
     (\<exists>l n. classRosterLevel r = Some l \<and> class_rank p = Some n \<and> n \<le> l)"
  by (cases r; cases p) (simp_all add: class_rank_def)

lemma actionRequiresClass_scoped: "actionRequiresClass (ActionOf p) \<longleftrightarrow> class_scoped p"
  by (cases p) (simp_all add: actionRequiresClass_def class_scoped_def class_rank_def)

lemma actionBlocked_state: "actionBlockedForResourceState (ActionOf p) st \<longleftrightarrow> \<not> state_permits st p"
  by (cases st; cases p) (simp_all add: actionRequiresClass_def class_scoped_def class_rank_def)

lemma EffectivePermissions_rank:
  "p \<in> set (EffectivePermissions eng s) \<longleftrightarrow>
     eng \<noteq> None \<and> validSubject s \<and> MembershipActive s \<and> ranked_permission s p"
  by (auto simp: set_EffectivePermissions ranked_permission_def organizationPermissions_rank classPermissions_rank)

text \<open>
  C19.  Authorization follows the permission matrix: \<open>Authorize\<close> permits an action exactly when an active
  member of the resource's tenant asks (naming a class where the action is about one), the rank of one
  of the member's organization or class roles reaches the rank of the permission, and the state of the
  class leaves the action possible.  That the state forbids something is told only to those who hold
  the permission.
\<close>

theorem Authorize_follows_matrix:
  "(Allowed (Authorize (Some Engine) i) \<longleftrightarrow>
     (\<exists>p. request_in_scope i p \<and> ranked_permission (in_Subject i) p \<and> state_permits (res_State (in_Resource i)) p)) \<and>
   (Reason (Authorize (Some Engine) i) = DenialResourceState \<longleftrightarrow>
     (\<exists>p. request_in_scope i p \<and> ranked_permission (in_Subject i) p \<and> \<not> state_permits (res_State (in_Resource i)) p))"
proof -
  have state: "Reason (Authorize (Some Engine) i) = DenialResourceState \<longleftrightarrow>
     (\<exists>p. in_Action i = ActionOf p \<and> validSubject (in_Subject i) \<and> MembershipActive (in_Subject i) \<and>
        res_TenantID (in_Resource i) = ActiveTenantID (in_Subject i) \<and>
        \<not> (actionRequiresClass (ActionOf p) \<and> res_ClassID (in_Resource i) = uuid_Nil) \<and>
        p \<in> set (EffectivePermissions (Some Engine) (in_Subject i)) \<and>
        actionBlockedForResourceState (ActionOf p) (res_State (in_Resource i)))"
    by (auto simp: Authorize_def Let_def deny_def validAction_iff list_ex_iff validSubject_def)
  have scope: "request_in_scope i p \<longleftrightarrow> in_Action i = ActionOf p \<and> validSubject (in_Subject i) \<and>
      MembershipActive (in_Subject i) \<and> res_TenantID (in_Resource i) = ActiveTenantID (in_Subject i) \<and>
      \<not> (class_scoped p \<and> res_ClassID (in_Resource i) = uuid_Nil)" for p
    by (auto simp: request_in_scope_def validSubject_def)
  show ?thesis
    unfolding Authorize_Allowed_iff state scope actionRequiresClass_scoped actionBlocked_state EffectivePermissions_rank
    by blast
qed

text \<open>
  Tenant isolation: a resource of another tenant is never permitted, and a valid, active
  subject is told nothing about it: the decision conceals the resource whatever the action,
  the roles and the state of the resource are.
\<close>

theorem Authorize_tenant_isolation:
  assumes "res_TenantID (in_Resource i) \<noteq> ActiveTenantID (in_Subject i)"
  shows "\<not> Allowed (Authorize eng i) \<and>
    (eng \<noteq> None \<and> validSubject (in_Subject i) \<and> MembershipActive (in_Subject i) \<longrightarrow>
      Authorize eng i = \<lparr>Allowed = False, Reason = DenialResourceScope, ConcealResource = True\<rparr>)"
  using assms engine.foreign_tenant_denied[of i eng]
  by (auto simp: Authorize_def deny_def Let_def)

definition example_subject :: subject where
  "example_subject = \<lparr>ActorID = 7, ActiveTenantID = 1, MembershipActive = True,
     OrganizationRoles = [OrganizationRoleTeacher], ClassRoles = [ClassRoleCoTeacher]\<rparr>"

definition example_input :: "uuid \<Rightarrow> uuid \<Rightarrow> permission \<Rightarrow> authz_input" where
  "example_input tenant class p = \<lparr>in_Subject = example_subject, in_Action = ActionOf p,
     in_Resource = \<lparr>res_TenantID = tenant, res_ClassID = class, res_State = ResourceStateActive\<rparr>\<rparr>"

theorem Authorize_tenant_isolation_witness:
  "Authorize (Some Engine) (example_input 2 3 PermissionClassView) =
     \<lparr>Allowed = False, Reason = DenialResourceScope, ConcealResource = True\<rparr>"
  using Authorize_tenant_isolation[of "example_input 2 3 PermissionClassView" "Some Engine"]
  by (simp add: example_input_def example_subject_def validSubject_def)

text \<open>
  The permission tables agree with the roster hierarchy: replacing a class role of the
  subject by one of the same or a higher roster level never turns a permitted action into a
  denied one, whatever the action and the resource.
\<close>

theorem Authorize_class_role_upgrade:
  assumes "Allowed (Authorize eng i)"
    and "ClassRoles (in_Subject i) = xs @ r # ys"
    and "classRosterLevel r = Some l" and "classRosterLevel r' = Some l'" and "l \<le> l'"
  shows "Allowed (Authorize eng (i\<lparr>in_Subject := (in_Subject i)\<lparr>ClassRoles := xs @ r' # ys\<rparr>\<rparr>))"
proof -
  have "set (EffectivePermissions eng (in_Subject i)) \<subseteq>
      set (EffectivePermissions eng ((in_Subject i)\<lparr>ClassRoles := xs @ r' # ys\<rparr>))"
    using classPermissions_level_mono[OF assms(3-5)] assms(2)
    by (auto simp: set_EffectivePermissions validSubject_def)
  with assms(1) show ?thesis
    unfolding Authorize_Allowed_iff by (auto simp: validSubject_def)
qed

theorem Authorize_class_role_upgrade_witness:
  "Allowed (Authorize (Some Engine) ((example_input 1 3 PermissionSessionStart)
     \<lparr>in_Subject := example_subject\<lparr>ClassRoles := [ClassRoleOwner]\<rparr>\<rparr>))"
proof -
  have "Allowed (Authorize (Some Engine) (example_input 1 3 PermissionSessionStart))"
    by (simp add: Authorize_Allowed_iff set_EffectivePermissions example_input_def
        example_subject_def validSubject_def)
  from Authorize_class_role_upgrade[OF this, where xs = "[]" and ys = "[]"
      and r = ClassRoleCoTeacher and r' = ClassRoleOwner]
  show ?thesis by (simp add: example_input_def example_subject_def)
qed




text \<open>
  An archived class is read-only: of the actions that need a class, the engine permits
  on an archived resource only archiving, ownership transfer, file viewing and leaving or
  managing the enrollment.
\<close>

theorem Authorize_archived_read_only:
  assumes "Allowed (Authorize eng i)" and "res_State (in_Resource i) = ResourceStateArchived"
    and "actionRequiresClass (in_Action i)"
  shows "in_Action i \<in> {ActionOf PermissionClassArchive, ActionOf PermissionClassTransferOwner,
    ActionOf PermissionFileView, ActionOf PermissionEnrollmentManage,
    ActionOf PermissionEnrollmentLeave}"
  using assms unfolding Authorize_Allowed_iff
  by (auto simp: actionRequiresClass_def split: if_splits)

definition example_archived_input :: "permission \<Rightarrow> authz_input" where
  "example_archived_input p = (example_input 1 3 p)\<lparr>in_Resource :=
    \<lparr>res_TenantID = 1, res_ClassID = 3, res_State = ResourceStateArchived\<rparr>\<rparr>"

theorem Authorize_archived_read_only_witness:
  "Allowed (Authorize (Some Engine) (example_archived_input PermissionFileView)) \<and>
   \<not> Allowed (Authorize (Some Engine) (example_archived_input PermissionFileUpload))"
proof -
  have "\<not> Allowed (Authorize (Some Engine) (example_archived_input PermissionFileUpload))"
    using Authorize_archived_read_only[of "Some Engine" "example_archived_input PermissionFileUpload"]
    by (auto simp: example_archived_input_def example_input_def actionRequiresClass_def)
  then show ?thesis
    by (simp add: Authorize_Allowed_iff set_EffectivePermissions example_archived_input_def
        example_input_def example_subject_def validSubject_def actionRequiresClass_def)
qed

end
