(* ===== verification/Outbox_Events.thy ===== *)
theory Outbox_Events imports Go_Strings Complex_Main begin

section \<open>Outbox events, failures and backoff (internal/platform/outboxworker)\<close>

text \<open>
  The value types of the outbox worker: event types and their text form (event.go), handler
  failures and their classification (failure.go) and the retry delay (backoff.go).
\<close>

subsection \<open>Event types (event.go)\<close>

datatype outbox_error =
    EventNameInvalid
  | EventVersionInvalid
  | EventTypeSuffixInvalid
  | LeaseIncomplete
  | BackoffInvalid
  | JitterInvalid

record event_type =
  et_name :: string
  et_version :: nat

definition zero_event_type :: event_type where
  "zero_event_type = \<lparr>et_name = [], et_version = 0\<rparr>"

text \<open>
  \<open>eventNamePattern\<close> is \<open>^[a-z][a-z0-9_]*(\.[a-z][a-z0-9_]*)+$\<close>: at least two segments
  separated by dots, each a lowercase identifier.
\<close>

definition ident_char :: "char \<Rightarrow> bool" where
  "ident_char c \<longleftrightarrow> is_lower c \<or> is_digit c \<or> c = CHR ''_''"

definition ident_segment :: "string \<Rightarrow> bool" where
  "ident_segment s = (case s of [] \<Rightarrow> False | c # cs \<Rightarrow> is_lower c \<and> list_all ident_char cs)"

definition eventNamePattern :: "string \<Rightarrow> bool" where
  "eventNamePattern s =
     (let segs = split_on (CHR ''.'') s in 2 \<le> length segs \<and> list_all ident_segment segs)"

definition NewEventType :: "string \<Rightarrow> nat \<Rightarrow> outbox_error + event_type" where
  "NewEventType name version =
     (let name = trim_space name in
      if \<not> eventNamePattern name then Inl EventNameInvalid
      else if version = 0 then Inl EventVersionInvalid
      else Inr \<lparr>et_name = name, et_version = version\<rparr>)"

text \<open>\<open>strings.LastIndex(value, ".v")\<close>: the last position at which the suffix starts with \<open>.v\<close>.\<close>

fun last_index_v :: "string \<Rightarrow> nat option" where
  "last_index_v [] = None"
| "last_index_v (c # cs) = (case last_index_v cs of
      Some i \<Rightarrow> Some (Suc i)
    | None \<Rightarrow> if c = CHR ''.'' \<and> take 1 cs = ''v'' then Some 0 else None)"

definition ParseEventType :: "string \<Rightarrow> outbox_error + event_type" where
  "ParseEventType value =
     (let value = trim_space value in
      case last_index_v value of
        None \<Rightarrow> Inl EventTypeSuffixInvalid
      | Some separator \<Rightarrow>
          if separator < 1 \<or> length value \<le> separator + 2 then Inl EventTypeSuffixInvalid
          else case parse_uint 16 (drop (separator + 2) value) of
            None \<Rightarrow> Inl EventVersionInvalid
          | Some version \<Rightarrow>
              if version = 0 then Inl EventVersionInvalid
              else NewEventType (take separator value) version)"

definition EventType_String :: "event_type \<Rightarrow> string" where
  "EventType_String et =
     (if et_name et = [] \<or> et_version et = 0 then []
      else et_name et @ ''.v'' @ format_uint (et_version et))"

text \<open>What \<open>NewEventType\<close> lets through, with the 16-bit width of the version.\<close>

definition valid_event_type :: "event_type \<Rightarrow> bool" where
  "valid_event_type et \<longleftrightarrow>
     eventNamePattern (et_name et) \<and> 0 < et_version et \<and> et_version et < 2 ^ 16"

lemma ident_segment_visible: "ident_segment s \<Longrightarrow> list_all (\<lambda>c. ident_char c) s"
  by (cases s) (simp_all add: ident_segment_def, simp add: ident_char_def)

lemma eventNamePattern_chars:
  assumes "eventNamePattern s"
  shows "list_all (\<lambda>c. ident_char c \<or> c = CHR ''.'') s"
proof (rule split_on_chars)
  show "list_all (\<lambda>seg. list_all ident_char seg) (split_on (CHR ''.'') s)"
    using assms by (auto simp: eventNamePattern_def Let_def list_all_iff
        dest!: ident_segment_visible[unfolded list_all_iff])
qed

lemma eventNamePattern_nonempty: "eventNamePattern s \<Longrightarrow> s \<noteq> []"
  by (auto simp: eventNamePattern_def)

lemma ident_char_visible: "ident_char c \<Longrightarrow> visible_ascii c"
  by (auto simp: ident_char_def is_lower_visible is_digit_visible)

lemma eventNamePattern_visible: "eventNamePattern s \<Longrightarrow> list_all visible_ascii s"
  by (drule eventNamePattern_chars) (auto simp: list_all_iff ident_char_visible)

lemma eventNamePattern_trim: "eventNamePattern s \<Longrightarrow> trim_space s = s"
  by (intro trim_space_visible eventNamePattern_visible)

text \<open>A version suffix \<open>.vN\<close> holds no second \<open>.v\<close>, so the last separator is the appended one.\<close>

lemma last_index_v_digits: "list_all is_digit s \<Longrightarrow> last_index_v s = None"
  by (induction s) (auto simp: is_digit_def less_eq_char_def)

lemma last_index_v_append:
  "last_index_v t = Some i \<Longrightarrow> last_index_v (s @ t) = Some (length s + i)"
  by (induction s) auto

lemma last_index_v_suffix: "list_all is_digit s \<Longrightarrow> last_index_v (''.v'' @ s) = Some 0"
  by (simp add: last_index_v_digits)

lemma ParseEventType_String_ok:
  assumes "valid_event_type et"
  shows "ParseEventType (EventType_String et) = Inr et"
proof -
  let ?d = "format_uint (et_version et)"
  have name: "eventNamePattern (et_name et)" and v: "0 < et_version et" "et_version et < 2 ^ 16"
    using assms by (auto simp: valid_event_type_def)
  then have str: "EventType_String et = et_name et @ ''.v'' @ ?d"
    by (simp add: EventType_String_def eventNamePattern_nonempty)
  have "list_all visible_ascii (et_name et @ ''.v'' @ ?d)"
    using eventNamePattern_visible[OF name] format_uint_digits[of "et_version et"]
    by (auto simp: list_all_iff is_digit_visible)
  then have trim: "trim_space (et_name et @ ''.v'' @ ?d) = et_name et @ ''.v'' @ ?d"
    by (rule trim_space_visible)
  have "last_index_v (et_name et @ ''.v'' @ ?d) = Some (length (et_name et))"
    using last_index_v_append[OF last_index_v_suffix[OF format_uint_digits]] by simp
  moreover have "0 < length (et_name et)" "0 < length ?d"
    using eventNamePattern_nonempty[OF name] by auto
  moreover have "parse_uint 16 ?d = Some (et_version et)"
    by (rule parse_format_uint) (rule v(2))
  ultimately show ?thesis
    using name v unfolding str ParseEventType_def trim Let_def
    by (simp add: NewEventType_def eventNamePattern_trim)
qed

lemma NewEventType_valid:
  "NewEventType n v = Inr et \<Longrightarrow> v < 2 ^ 16 \<Longrightarrow> valid_event_type et"
  by (auto simp: NewEventType_def Let_def valid_event_type_def split: if_splits)

lemma ParseEventType_valid: "ParseEventType s = Inr et \<Longrightarrow> valid_event_type et"
  by (auto simp: ParseEventType_def Let_def split: option.splits if_splits
      dest!: parse_uint_bound intro: NewEventType_valid)

end
