(* ===== verification/Outbox_Failures.thy ===== *)
theory Outbox_Failures imports Outbox_Events begin

section \<open>Failure classification and retry delay (failure.go, backoff.go)\<close>

text \<open>
  Handler failures with their bounded error codes, and the exponential backoff.  The backoff
  computes in float64: \<open>fl\<close> is the rounding of one float64 operation, a parameter with the
  documented facts of IEEE 754 rounding that the code relies on (\<open>float64_rounding\<close>: monotone,
  and exact on integers up to \<open>2 ^ 53\<close>).  The value drawn from \<open>randomUnit\<close> is an argument.
\<close>

subsection \<open>Error codes\<close>

definition ErrorCodeHandlerFailed :: string where
  "ErrorCodeHandlerFailed = ''handler_failed''"

definition ErrorCodeHandlerPanicked :: string where
  "ErrorCodeHandlerPanicked = ''handler_panicked''"

definition ErrorCodeHandlerTimeout :: string where
  "ErrorCodeHandlerTimeout = ''handler_timeout''"

definition ErrorCodeInvalidPayload :: string where
  "ErrorCodeInvalidPayload = ''invalid_payload''"

definition ErrorCodeInvalidEventContext :: string where
  "ErrorCodeInvalidEventContext = ''invalid_event_context''"

definition ErrorCodeAttemptsExhausted :: string where
  "ErrorCodeAttemptsExhausted = ''attempts_exhausted''"

lemmas error_codes = ErrorCodeHandlerFailed_def ErrorCodeHandlerPanicked_def
  ErrorCodeHandlerTimeout_def ErrorCodeInvalidPayload_def ErrorCodeInvalidEventContext_def
  ErrorCodeAttemptsExhausted_def

text \<open>\<open>errorCodePattern\<close> is \<open>^[a-z][a-z0-9._-]{0,99}$\<close>.\<close>

definition error_code_char :: "char \<Rightarrow> bool" where
  "error_code_char c \<longleftrightarrow> is_lower c \<or> is_digit c \<or> c = CHR ''.'' \<or> c = CHR ''_'' \<or> c = CHR ''-''"

definition errorCodePattern :: "string \<Rightarrow> bool" where
  "errorCodePattern s = (case s of [] \<Rightarrow> False
     | c # cs \<Rightarrow> is_lower c \<and> length cs \<le> 99 \<and> list_all error_code_char cs)"

definition normalizedErrorCode :: "string \<Rightarrow> string" where
  "normalizedErrorCode code =
     (if \<not> errorCodePattern code then ErrorCodeHandlerFailed else code)"

subsection \<open>Handler errors\<close>

text \<open>
  An error returned by a handler is a \<open>HandlerError\<close>, an error that wraps another one, or any
  other error; \<open>errors.As\<close> searches the chain.  A disposition is a byte.
\<close>

type_synonym failure_disposition = "8 word"

definition FailureRetry :: failure_disposition where
  "FailureRetry = 1"

definition FailurePermanent :: failure_disposition where
  "FailurePermanent = 2"

datatype handler_error =
    HandlerError string failure_disposition
  | WrappedError handler_error
  | ForeignError string

definition Retryable :: "string \<Rightarrow> handler_error" where
  "Retryable code = HandlerError (normalizedErrorCode code) FailureRetry"

definition Permanent :: "string \<Rightarrow> handler_error" where
  "Permanent code = HandlerError (normalizedErrorCode code) FailurePermanent"

fun errors_As_HandlerError :: "handler_error \<Rightarrow> (string \<times> failure_disposition) option" where
  "errors_As_HandlerError (HandlerError code disposition) = Some (code, disposition)"
| "errors_As_HandlerError (WrappedError e) = errors_As_HandlerError e"
| "errors_As_HandlerError (ForeignError _) = None"

definition ClassifyFailure :: "handler_error option \<Rightarrow> string \<times> failure_disposition" where
  "ClassifyFailure err = (case err of
      None \<Rightarrow> ([], 0)
    | Some e \<Rightarrow> (case errors_As_HandlerError e of
        Some (code, disposition) \<Rightarrow> (normalizedErrorCode code, disposition)
      | None \<Rightarrow> (ErrorCodeHandlerFailed, FailureRetry)))"

lemma errorCodePattern_codes [simp]:
  "errorCodePattern ErrorCodeHandlerFailed" "errorCodePattern ErrorCodeHandlerPanicked"
  "errorCodePattern ErrorCodeHandlerTimeout" "errorCodePattern ErrorCodeInvalidPayload"
  "errorCodePattern ErrorCodeInvalidEventContext" "errorCodePattern ErrorCodeAttemptsExhausted"
  by (simp_all add: error_codes errorCodePattern_def error_code_char_def is_lower_def
      is_digit_def less_eq_char_def)

lemma normalizedErrorCode_pattern [simp]: "errorCodePattern (normalizedErrorCode code)"
  by (simp add: normalizedErrorCode_def)

lemma normalizedErrorCode_idem [simp]: "errorCodePattern c \<Longrightarrow> normalizedErrorCode c = c"
  by (simp add: normalizedErrorCode_def)

lemma ClassifyFailure_pattern: "ClassifyFailure (Some e) = (c, d) \<Longrightarrow> errorCodePattern c"
  by (auto simp: ClassifyFailure_def split: option.splits)

lemma errorCodePattern_visible:
  assumes "errorCodePattern s"
  shows "list_all visible_ascii s" and "1 \<le> length s" and "length s \<le> 100"
proof -
  obtain c cs where s: "s = c # cs" "is_lower c" "length cs \<le> 99" "list_all error_code_char cs"
    using assms by (auto simp: errorCodePattern_def split: list.splits)
  then show "1 \<le> length s" "length s \<le> 100" by simp_all
  from s(4) have "list_all visible_ascii cs"
    by (auto simp: list_all_iff error_code_char_def is_lower_visible is_digit_visible)
  with s show "list_all visible_ascii s" by (simp add: is_lower_visible)
qed

subsection \<open>Backoff (backoff.go)\<close>

record backoff =
  bo_base :: duration
  bo_maximum :: duration
  bo_jitter :: real

definition newBackoff ::
  "duration \<Rightarrow> duration \<Rightarrow> real \<Rightarrow> bool \<Rightarrow> outbox_error + backoff" where
  "newBackoff base maximum jitter has_random =
     (if base \<le> 0 \<or> maximum \<le> 0 \<or> maximum < base then Inl BackoffInvalid
      else if jitter < 0 \<or> 1 \<le> jitter then Inl JitterInvalid
      else if \<not> has_random then Inl BackoffInvalid
      else Inr \<lparr>bo_base = base, bo_maximum = maximum, bo_jitter = jitter\<rparr>)"

text \<open>The conversion \<open>time.Duration(f)\<close> of a float64 truncates towards zero.\<close>

definition truncate_float :: "real \<Rightarrow> duration" where
  "truncate_float r = (if 0 \<le> r then \<lfloor>r\<rfloor> else \<lceil>r\<rceil>)"

definition Delay :: "(real \<Rightarrow> real) \<Rightarrow> backoff \<Rightarrow> int \<Rightarrow> real \<Rightarrow> duration" where
  "Delay fl b attempt unit =
     (let attempt = (if attempt < 1 then 1 else attempt);
          exponent = (if attempt - 1 > 62 then 62 else attempt - 1);
          multiplier = 2 ^ nat exponent;
          delay = truncate_float
            (min (fl (of_int (bo_maximum b))) (fl (fl (of_int (bo_base b)) * multiplier)))
      in if bo_jitter b = 0 then delay
         else
           let unit = (if unit < 0 then 0 else if unit > 1 then 1 else unit);
               factor = fl (fl (1 - bo_jitter b) + fl (fl (2 * bo_jitter b) * unit));
               jittered = truncate_float (fl (fl (of_int delay) * factor))
           in if jittered \<le> 0 then time_Millisecond
              else if jittered > bo_maximum b then bo_maximum b
              else jittered)"

definition float64_rounding :: "(real \<Rightarrow> real) \<Rightarrow> bool" where
  "float64_rounding fl \<longleftrightarrow>
     mono fl \<and> (\<forall>n::int. \<bar>n\<bar> \<le> 2 ^ 53 \<longrightarrow> fl (of_int n) = of_int n)"

definition valid_backoff :: "backoff \<Rightarrow> bool" where
  "valid_backoff b \<longleftrightarrow> 0 < bo_base b \<and> bo_base b \<le> bo_maximum b \<and>
     0 \<le> bo_jitter b \<and> bo_jitter b < 1"

definition delay_exponent :: "int \<Rightarrow> nat" where
  "delay_exponent attempt = nat (min 62 (max 0 (attempt - 1)))"

lemma newBackoff_valid: "newBackoff base maximum j h = Inr b \<Longrightarrow> valid_backoff b"
  by (auto simp: newBackoff_def valid_backoff_def split: if_splits)

lemma float64_rounding_int: "float64_rounding fl \<Longrightarrow> \<bar>n\<bar> \<le> 2 ^ 53 \<Longrightarrow> fl (of_int n) = of_int n"
  by (simp add: float64_rounding_def)

lemma float64_rounding_mono: "float64_rounding fl \<Longrightarrow> x \<le> y \<Longrightarrow> fl x \<le> fl y"
  by (simp add: float64_rounding_def monoD)

lemma truncate_float_of_int [simp]: "truncate_float (of_int n) = n"
  by (simp add: truncate_float_def)

lemma exponential_delay:
  assumes fl: "float64_rounding fl" and b: "0 < base" "base \<le> maximum" "maximum \<le> 2 ^ 53"
  shows "truncate_float (min (fl (of_int maximum)) (fl (fl (of_int base) * 2 ^ e))) =
    min maximum (base * 2 ^ e)"
proof -
  have base: "fl (of_int base) = of_int base" and maxi: "fl (of_int maximum) = of_int maximum"
    using fl b by (auto intro!: float64_rounding_int)
  have prod: "(of_int base :: real) * 2 ^ e = of_int (base * 2 ^ e)" by simp
  show ?thesis
  proof (cases "base * 2 ^ e \<le> maximum")
    case True
    then have "fl (of_int (base * 2 ^ e)) = of_int (base * 2 ^ e)"
      using fl b by (intro float64_rounding_int) auto
    moreover have "(of_int (base * 2 ^ e) :: real) \<le> of_int maximum"
      using True by (simp only: of_int_le_iff)
    ultimately have "min (fl (of_int maximum)) (fl (fl (of_int base) * 2 ^ e)) =
        (of_int (base * 2 ^ e) :: real)"
      unfolding base maxi prod by simp
    then show ?thesis using True by (metis truncate_float_of_int min_absorb2)
  next
    case False
    then have "fl (of_int maximum) \<le> fl (of_int (base * 2 ^ e))"
      by (intro float64_rounding_mono[OF fl]) (simp only: of_int_le_iff)
    then have "min (fl (of_int maximum)) (fl (fl (of_int base) * 2 ^ e)) = of_int maximum"
      unfolding base prod by (simp add: maxi)
    then show ?thesis using False by simp
  qed
qed

lemma Delay_exponent: "nat (if (if attempt < 1 then 1 else attempt) - 1 > (62::int) then 62
    else (if attempt < 1 then 1 else attempt) - 1) = delay_exponent attempt"
  by (simp add: delay_exponent_def)

lemma Delay_unfold:
  "Delay fl b attempt unit =
     (let delay = truncate_float
            (min (fl (of_int (bo_maximum b)))
              (fl (fl (of_int (bo_base b)) * 2 ^ delay_exponent attempt)))
      in if bo_jitter b = 0 then delay
         else
           let unit = (if unit < 0 then 0 else if unit > 1 then 1 else unit);
               factor = fl (fl (1 - bo_jitter b) + fl (fl (2 * bo_jitter b) * unit));
               jittered = truncate_float (fl (fl (of_int delay) * factor))
           in if jittered \<le> 0 then time_Millisecond
              else if jittered > bo_maximum b then bo_maximum b
              else jittered)"
  unfolding Delay_def Let_def Delay_exponent by (rule refl)

lemma Delay_plain:
  assumes "float64_rounding fl" and "valid_backoff b" and "bo_maximum b \<le> 2 ^ 53"
    and "bo_jitter b = 0"
  shows "Delay fl b attempt unit = min (bo_maximum b) (bo_base b * 2 ^ delay_exponent attempt)"
  unfolding Delay_unfold Let_def if_P[OF assms(4)]
  by (rule exponential_delay[OF assms(1)]) (use assms(2,3) in \<open>simp_all add: valid_backoff_def\<close>)

lemma jitter_clamp:
  fixes j maximum :: int
  assumes "0 < maximum"
  shows "0 < (if j \<le> 0 then time_Millisecond else if j > maximum then maximum else j) \<and>
    (if j \<le> 0 then time_Millisecond else if j > maximum then maximum else j)
      \<le> max maximum time_Millisecond"
  using assms by (auto simp: time_units max_def)

lemma delay_exponent_mono: "a \<le> a' \<Longrightarrow> delay_exponent a \<le> delay_exponent a'"
  by (simp add: delay_exponent_def nat_le_eq_zle min_def max_def)

lemma Delay_range:
  assumes "valid_backoff b" and "float64_rounding fl" and "bo_maximum b \<le> 2 ^ 53"
  shows "0 < Delay fl b attempt unit \<and>
    Delay fl b attempt unit \<le> max (bo_maximum b) time_Millisecond"
proof (cases "bo_jitter b = 0")
  case True
  have "0 < bo_base b * 2 ^ delay_exponent attempt" using assms(1) by (simp add: valid_backoff_def)
  with True assms show ?thesis
    by (simp add: Delay_plain[OF assms(2) assms(1) assms(3) True] valid_backoff_def)
next
  case False
  have "0 < bo_maximum b" using assms(1) by (simp add: valid_backoff_def)
  then show ?thesis
    unfolding Delay_unfold Let_def if_not_P[OF False] by (rule jitter_clamp)
qed

subsection \<open>Properties of the backoff\<close>

text \<open>
  Without jitter the delay of an attempt is the exponential \<open>base * 2 ^ (attempt - 1)\<close>
  (the exponent capped at 62) cut at the maximum, exactly, for every rounding of float64 and
  every maximum up to \<open>2 ^ 53\<close> nanoseconds (104 days); so it never falls as attempts grow.
\<close>

theorem Delay_exponential:
  assumes "float64_rounding fl" and "valid_backoff b" and "bo_maximum b \<le> 2 ^ 53"
    and "bo_jitter b = 0" and "attempt \<le> attempt'"
  shows "Delay fl b attempt unit = min (bo_maximum b) (bo_base b * 2 ^ delay_exponent attempt) \<and>
    Delay fl b attempt unit \<le> Delay fl b attempt' unit'"
proof -
  have "bo_base b * 2 ^ delay_exponent attempt \<le> bo_base b * 2 ^ delay_exponent attempt'"
    using delay_exponent_mono[OF assms(5)] assms(2)
    by (intro mult_left_mono power_increasing) (simp_all add: valid_backoff_def)
  then show ?thesis by (simp add: Delay_plain[OF assms(1-4)] min_le_iff_disj)
qed

text \<open>A rounding of the kind assumed: exact arithmetic.\<close>

lemma exact_rounding: "float64_rounding (\<lambda>x. x)"
  by (simp add: float64_rounding_def mono_def)

theorem Delay_exponential_witness:
  "Delay (\<lambda>x. x) \<lparr>bo_base = 1000, bo_maximum = 5000, bo_jitter = 0\<rparr> 3 0 = 4000"
  using Delay_exponential[OF exact_rounding,
      of "\<lparr>bo_base = 1000, bo_maximum = 5000, bo_jitter = 0\<rparr>" 3 4 0 0]
  by (simp add: valid_backoff_def delay_exponent_def)

text \<open>
  Every delay of a backoff that the constructor returned is positive and at most the
  configured maximum, or one millisecond where the maximum is shorter: whatever the attempt,
  the jitter and the drawn value are, a retry is neither immediate nor unbounded.
\<close>

theorem Delay_bounds:
  assumes "newBackoff base maximum jitter True = Inr b" and "float64_rounding fl"
    and "maximum \<le> 2 ^ 53"
  shows "0 < Delay fl b attempt unit \<and>
    Delay fl b attempt unit \<le> max maximum time_Millisecond"
proof -
  have "valid_backoff b" by (rule newBackoff_valid) (rule assms(1))
  moreover have "bo_maximum b = maximum" using assms(1) by (auto simp: newBackoff_def split: if_splits)
  ultimately show ?thesis using Delay_range assms(2,3) by blast
qed

theorem Delay_bounds_witness:
  "newBackoff 1 1 (1/2) True = Inr \<lparr>bo_base = 1, bo_maximum = 1, bo_jitter = 1/2\<rparr> \<and>
   0 < Delay (\<lambda>x. x) \<lparr>bo_base = 1, bo_maximum = 1, bo_jitter = 1/2\<rparr> 1 0"
proof -
  have b: "newBackoff 1 1 (1/2) True = Inr \<lparr>bo_base = 1, bo_maximum = 1, bo_jitter = 1/2\<rparr>"
    by (simp add: newBackoff_def)
  from Delay_bounds[OF b exact_rounding, of 1 0] b show ?thesis by simp
qed

text \<open>
  The one-millisecond floor is applied after the cut at the maximum: with a maximum
  shorter than a millisecond the jittered delay can exceed the configured maximum.
\<close>

theorem Delay_floor_exceeds_maximum:
  "Delay (\<lambda>x. x) \<lparr>bo_base = 1, bo_maximum = 1, bo_jitter = 1/2\<rparr> 1 0 = time_Millisecond \<and>
   bo_maximum \<lparr>bo_base = 1, bo_maximum = 1, bo_jitter = 1/2\<rparr> < time_Millisecond"
  by (simp add: Delay_def truncate_float_def time_units)

end
