(* ===== verification/Outbox_Store.thy ===== *)
theory Outbox_Store imports Outbox_Failures begin

section \<open>The leased outbox table (store.go, migrations 000003 and 000015)\<close>

text \<open>
  The table \<open>tutorhub.outbox_events\<close> as a list of rows, and every statement of store.go as a
  function on it: a conditional UPDATE changes exactly the rows its WHERE clause selects and
  reports their number.  \<open>now\<close> is the statement's reading of \<open>clock_timestamp()\<close>; \<open>locked\<close>
  are the ids of rows that other transactions hold at that moment, which \<open>SKIP LOCKED\<close> passes
  over.  A SQL NULL is \<open>None\<close>, and a comparison with NULL is not true.  A failure of the
  database leaves the table as it is (\<open>db_ok\<close> false).
\<close>

subsection \<open>Rows and their CHECK constraints\<close>

record outbox_row =
  row_id :: uuid
  row_tenant_id :: "uuid option"
  row_aggregate_type :: string
  row_aggregate_id :: uuid
  row_event_type :: string
  row_payload :: string
  row_occurred_at :: instant
  row_available_at :: instant
  row_attempts :: int
  row_published_at :: "instant option"
  row_last_error :: "string option"
  row_lease_owner :: "uuid option"
  row_lease_token :: int
  row_leased_at :: "instant option"
  row_leased_until :: "instant option"
  row_dead_lettered_at :: "instant option"

type_synonym outbox_table = "outbox_row list"

definition lease_state_valid :: "outbox_row \<Rightarrow> bool" where
  "lease_state_valid r \<longleftrightarrow>
     (row_lease_owner r = None \<and> row_leased_at r = None \<and> row_leased_until r = None) \<or>
     (row_lease_owner r \<noteq> None \<and> 0 < row_lease_token r \<and>
      (case (row_leased_at r, row_leased_until r) of
         (Some since, Some til) \<Rightarrow> since < til | _ \<Rightarrow> False))"

definition terminal_state_exclusive :: "outbox_row \<Rightarrow> bool" where
  "terminal_state_exclusive r \<longleftrightarrow> row_published_at r = None \<or> row_dead_lettered_at r = None"

definition terminal_has_no_lease :: "outbox_row \<Rightarrow> bool" where
  "terminal_has_no_lease r \<longleftrightarrow>
     (row_published_at r = None \<and> row_dead_lettered_at r = None) \<or>
     (row_lease_owner r = None \<and> row_leased_at r = None \<and> row_leased_until r = None)"

definition dead_letter_state_valid :: "outbox_row \<Rightarrow> bool" where
  "dead_letter_state_valid r \<longleftrightarrow>
     row_dead_lettered_at r = None \<or> (0 < row_attempts r \<and> row_last_error r \<noteq> None)"

definition last_error_code_valid :: "outbox_row \<Rightarrow> bool" where
  "last_error_code_valid r = (case row_last_error r of None \<Rightarrow> True
     | Some e \<Rightarrow> trim_space e = e \<and> 1 \<le> length e \<and> length e \<le> 100 \<and> errorCodePattern e)"

definition row_check :: "outbox_row \<Rightarrow> bool" where
  "row_check r \<longleftrightarrow> 0 \<le> row_attempts r \<and> 0 \<le> row_lease_token r \<and> lease_state_valid r \<and>
     terminal_state_exclusive r \<and> terminal_has_no_lease r \<and> dead_letter_state_valid r \<and>
     last_error_code_valid r"

lemmas row_check_defs = row_check_def lease_state_valid_def terminal_state_exclusive_def
  terminal_has_no_lease_def dead_letter_state_valid_def last_error_code_valid_def

text \<open>The table's invariant: the primary key and the CHECK constraints.\<close>

definition table_ok :: "outbox_table \<Rightarrow> bool" where
  "table_ok t \<longleftrightarrow> distinct (map row_id t) \<and> list_all row_check t"

subsection \<open>Leases and events\<close>

record lease_ref =
  lr_EventID :: uuid
  lr_OwnerID :: uuid
  lr_Token :: int

definition LeaseRef_Validate :: "lease_ref \<Rightarrow> bool" where
  "LeaseRef_Validate l \<longleftrightarrow>
     \<not> (lr_EventID l = uuid_Nil \<or> lr_OwnerID l = uuid_Nil \<or> lr_Token l < 1)"

record outbox_event =
  ev_ID :: uuid
  ev_TenantID :: "uuid option"
  ev_AggregateType :: string
  ev_AggregateID :: uuid
  ev_Type :: event_type
  ev_Payload :: string
  ev_OccurredAt :: instant
  ev_AvailableAt :: instant
  ev_Attempts :: int
  ev_Lease :: lease_ref
  ev_Reclaimed :: bool
  ev_LeasedAt :: instant
  ev_LeasedUntil :: instant

datatype store_error =
    ErrLeaseLost
  | StoreInvalid string
  | StoreDatabase

record claim_request =
  cr_EventTypes :: "string list"
  cr_OwnerID :: uuid
  cr_BatchSize :: int
  cr_LeaseDuration :: duration
  cr_MaxAttempts :: int

record backlog_stats =
  bs_Pending :: int
  bs_Ready :: int
  bs_Leased :: int
  bs_DeadLettered :: int
  bs_OldestPendingAge :: duration
  bs_DueLag :: duration

definition zero_backlog :: backlog_stats where
  "zero_backlog = \<lparr>bs_Pending = 0, bs_Ready = 0, bs_Leased = 0, bs_DeadLettered = 0,
     bs_OldestPendingAge = 0, bs_DueLag = 0\<rparr>"

subsection \<open>Request validation\<close>

fun validate_event_types_loop :: "string list \<Rightarrow> string list \<Rightarrow> store_error + unit" where
  "validate_event_types_loop seen [] = Inr ()"
| "validate_event_types_loop seen (value # values) =
     (case ParseEventType value of
        Inl _ \<Rightarrow> Inl (StoreInvalid value)
      | Inr parsed \<Rightarrow>
          if EventType_String parsed \<noteq> value then Inl (StoreInvalid value)
          else if value \<in> set seen then Inl (StoreInvalid value)
          else validate_event_types_loop (value # seen) values)"

definition validateEventTypes :: "string list \<Rightarrow> store_error + unit" where
  "validateEventTypes = validate_event_types_loop []"

definition validateClaimRequest :: "claim_request \<Rightarrow> store_error + unit" where
  "validateClaimRequest q =
     try_res (validateEventTypes (cr_EventTypes q)) (\<lambda>_.
     guard_err (cr_OwnerID q = uuid_Nil) (StoreInvalid ''owner'')
     (guard_err (cr_BatchSize q < 1 \<or> 1000 < cr_BatchSize q) (StoreInvalid ''batch'')
     (guard_err (cr_LeaseDuration q \<le> 0) (StoreInvalid ''lease'')
     (guard_err (cr_MaxAttempts q < 1) (StoreInvalid ''attempts'')
     (Inr ())))))"

subsection \<open>The statements\<close>

definition sql_le :: "instant option \<Rightarrow> instant \<Rightarrow> bool" where
  "sql_le x now = (case x of None \<Rightarrow> False | Some t \<Rightarrow> t \<le> now)"

definition sql_gt :: "instant option \<Rightarrow> instant \<Rightarrow> bool" where
  "sql_gt x now = (case x of None \<Rightarrow> False | Some t \<Rightarrow> now < t)"

definition unsettled :: "outbox_row \<Rightarrow> bool" where
  "unsettled r \<longleftrightarrow> row_published_at r = None \<and> row_dead_lettered_at r = None"

definition lease_free :: "instant \<Rightarrow> outbox_row \<Rightarrow> bool" where
  "lease_free now r \<longleftrightarrow> row_lease_owner r = None \<or> sql_le (row_leased_until r) now"

definition claimable :: "instant \<Rightarrow> string list \<Rightarrow> int \<Rightarrow> outbox_row \<Rightarrow> bool" where
  "claimable now types max_attempts r \<longleftrightarrow>
     row_event_type r \<in> set types \<and> unsettled r \<and> row_available_at r \<le> now \<and>
     lease_free now r \<and> row_attempts r < max_attempts"

definition claim_candidates ::
  "uuid list \<Rightarrow> instant \<Rightarrow> claim_request \<Rightarrow> outbox_table \<Rightarrow> outbox_row list" where
  "claim_candidates locked now q t =
     take (nat (cr_BatchSize q))
       (sort_key (\<lambda>r. (row_available_at r, row_occurred_at r, row_id r))
         (filter (\<lambda>r. claimable now (cr_EventTypes q) (cr_MaxAttempts q) r \<and>
                      row_id r \<notin> set locked) t))"

definition claim_row :: "instant \<Rightarrow> claim_request \<Rightarrow> outbox_row \<Rightarrow> outbox_row" where
  "claim_row now q r = r\<lparr>row_lease_owner := Some (cr_OwnerID q),
     row_lease_token := row_lease_token r + 1,
     row_leased_at := Some now,
     row_leased_until :=
       Some (now + duration_Milliseconds (cr_LeaseDuration q) * time_Millisecond)\<rparr>"

text \<open>The UPDATE of every row whose id is among \<open>ids\<close>.\<close>

definition update_ids :: "uuid list \<Rightarrow> (outbox_row \<Rightarrow> outbox_row) \<Rightarrow> outbox_table \<Rightarrow> outbox_table" where
  "update_ids ids f t = map (\<lambda>r. if row_id r \<in> set ids then f r else r) t"

definition scan_event :: "instant \<Rightarrow> claim_request \<Rightarrow> outbox_row \<Rightarrow> store_error + outbox_event" where
  "scan_event now q r =
     (case ParseEventType (row_event_type r) of
        Inl _ \<Rightarrow> Inl (StoreInvalid (row_event_type r))
      | Inr parsedType \<Rightarrow> Inr
          \<lparr>ev_ID = row_id r, ev_TenantID = row_tenant_id r,
           ev_AggregateType = row_aggregate_type r, ev_AggregateID = row_aggregate_id r,
           ev_Type = parsedType, ev_Payload = row_payload r,
           ev_OccurredAt = row_occurred_at r, ev_AvailableAt = row_available_at r,
           ev_Attempts = row_attempts r,
           ev_Lease = \<lparr>lr_EventID = row_id r, lr_OwnerID = cr_OwnerID q,
             lr_Token = row_lease_token r + 1\<rparr>,
           ev_Reclaimed = (row_lease_owner r \<noteq> None),
           ev_LeasedAt = now,
           ev_LeasedUntil =
             now + duration_Milliseconds (cr_LeaseDuration q) * time_Millisecond\<rparr>)"

text \<open>
  \<open>Claim\<close>: an error after the UPDATE rolls the transaction back, so the table is unchanged
  in every error case.
\<close>

definition store_Claim ::
  "bool \<Rightarrow> uuid list \<Rightarrow> instant \<Rightarrow> claim_request \<Rightarrow> outbox_table \<Rightarrow>
   (store_error + outbox_event list) \<times> outbox_table" where
  "store_Claim db_ok locked now q t =
     (case validateClaimRequest q of
        Inl e \<Rightarrow> (Inl e, t)
      | Inr _ \<Rightarrow>
          if cr_EventTypes q = [] then (Inr [], t)
          else if \<not> db_ok then (Inl StoreDatabase, t)
          else
            let candidates = claim_candidates locked now q t in
            case map_res (scan_event now q) candidates of
              Inl e \<Rightarrow> (Inl e, t)
            | Inr events \<Rightarrow> (Inr events, update_ids (map row_id candidates) (claim_row now q) t))"

text \<open>The WHERE clause shared by ackSQL, retrySQL and deadLetterSQL.\<close>

definition lease_current :: "instant \<Rightarrow> lease_ref \<Rightarrow> outbox_row \<Rightarrow> bool" where
  "lease_current now l r \<longleftrightarrow>
     row_id r = lr_EventID l \<and> row_lease_owner r = Some (lr_OwnerID l) \<and>
     row_lease_token r = lr_Token l \<and> sql_gt (row_leased_until r) now \<and>
     row_published_at r = None \<and> row_dead_lettered_at r = None"

definition clear_lease :: "outbox_row \<Rightarrow> outbox_row" where
  "clear_lease r = r\<lparr>row_lease_owner := None, row_leased_at := None, row_leased_until := None\<rparr>"

definition ack_row :: "instant \<Rightarrow> outbox_row \<Rightarrow> outbox_row" where
  "ack_row now r = clear_lease (r\<lparr>row_published_at := Some now, row_last_error := None\<rparr>)"

definition retry_row :: "instant \<Rightarrow> int \<Rightarrow> string \<Rightarrow> outbox_row \<Rightarrow> outbox_row" where
  "retry_row now ms code r = clear_lease (r\<lparr>row_available_at := now + ms * time_Millisecond,
     row_last_error := Some code, row_attempts := row_attempts r + 1\<rparr>)"

definition dead_letter_row :: "instant \<Rightarrow> string \<Rightarrow> outbox_row \<Rightarrow> outbox_row" where
  "dead_letter_row now code r = clear_lease (r\<lparr>row_dead_lettered_at := Some now,
     row_last_error := Some code, row_attempts := row_attempts r + 1\<rparr>)"

definition sweep_row :: "instant \<Rightarrow> outbox_row \<Rightarrow> outbox_row" where
  "sweep_row now r = clear_lease (r\<lparr>row_dead_lettered_at := Some now,
     row_last_error := Some ErrorCodeAttemptsExhausted\<rparr>)"

lemmas row_updates = claim_row_def ack_row_def retry_row_def dead_letter_row_def sweep_row_def
  clear_lease_def

definition store_complete ::
  "bool \<Rightarrow> instant \<Rightarrow> lease_ref \<Rightarrow> (outbox_row \<Rightarrow> outbox_row) \<Rightarrow> outbox_table \<Rightarrow>
   (store_error + unit) \<times> outbox_table" where
  "store_complete db_ok now l f t =
     (if \<not> LeaseRef_Validate l then (Inl (StoreInvalid ''lease reference''), t)
      else if \<not> db_ok then (Inl StoreDatabase, t)
      else
        let affected = length (filter (lease_current now l) t);
            t' = map (\<lambda>r. if lease_current now l r then f r else r) t
        in (if affected \<noteq> 1 then Inl ErrLeaseLost else Inr (), t'))"

definition store_Ack ::
  "bool \<Rightarrow> instant \<Rightarrow> lease_ref \<Rightarrow> outbox_table \<Rightarrow> (store_error + unit) \<times> outbox_table" where
  "store_Ack db_ok now l t = store_complete db_ok now l (ack_row now) t"

definition store_Retry ::
  "bool \<Rightarrow> instant \<Rightarrow> lease_ref \<Rightarrow> duration \<Rightarrow> string \<Rightarrow> outbox_table \<Rightarrow>
   (store_error + unit) \<times> outbox_table" where
  "store_Retry db_ok now l delay errorCode t =
     (if delay \<le> 0 then (Inl (StoreInvalid ''delay''), t)
      else store_complete db_ok now l
        (retry_row now (duration_Milliseconds delay) (normalizedErrorCode errorCode)) t)"

definition store_DeadLetter ::
  "bool \<Rightarrow> instant \<Rightarrow> lease_ref \<Rightarrow> string \<Rightarrow> outbox_table \<Rightarrow>
   (store_error + unit) \<times> outbox_table" where
  "store_DeadLetter db_ok now l errorCode t =
     store_complete db_ok now l (dead_letter_row now (normalizedErrorCode errorCode)) t"

definition exhausted :: "instant \<Rightarrow> string list \<Rightarrow> int \<Rightarrow> outbox_row \<Rightarrow> bool" where
  "exhausted now types max_attempts r \<longleftrightarrow>
     row_event_type r \<in> set types \<and> unsettled r \<and> max_attempts \<le> row_attempts r \<and>
     lease_free now r"

definition sweep_candidates ::
  "uuid list \<Rightarrow> instant \<Rightarrow> string list \<Rightarrow> int \<Rightarrow> int \<Rightarrow> outbox_table \<Rightarrow> outbox_row list" where
  "sweep_candidates locked now types max_attempts limit t =
     take (nat limit)
       (sort_key (\<lambda>r. (row_occurred_at r, row_id r))
         (filter (\<lambda>r. exhausted now types max_attempts r \<and> row_id r \<notin> set locked) t))"

definition store_SweepExhausted ::
  "bool \<Rightarrow> uuid list \<Rightarrow> instant \<Rightarrow> string list \<Rightarrow> int \<Rightarrow> int \<Rightarrow> outbox_table \<Rightarrow>
   (store_error + int) \<times> outbox_table" where
  "store_SweepExhausted db_ok locked now types max_attempts limit t =
     (case validateEventTypes types of
        Inl e \<Rightarrow> (Inl e, t)
      | Inr _ \<Rightarrow>
          if max_attempts < 1 \<or> limit < 1 \<or> 1000 < limit then (Inl (StoreInvalid ''sweep''), t)
          else if types = [] then (Inr 0, t)
          else if \<not> db_ok then (Inl StoreDatabase, t)
          else
            let candidates = sweep_candidates locked now types max_attempts limit t;
                ids = map row_id candidates;
                affected = length (filter (\<lambda>r. row_id r \<in> set ids) t)
            in (Inr (int affected), update_ids ids (sweep_row now) t))"

text \<open>
  \<open>backlogSQL\<close>.  The milliseconds are \<open>extract(epoch ...) * 1000\<close> cast to bigint, which rounds
  to the nearest integer; GREATEST and COALESCE make them nonnegative and total.
\<close>

definition rounded_ms :: "duration \<Rightarrow> int" where
  "rounded_ms d = (max 0 d + 500000) div time_Millisecond"

definition oldest :: "instant \<Rightarrow> instant list \<Rightarrow> int" where
  "oldest now ts = (case ts of [] \<Rightarrow> 0 | x # xs \<Rightarrow> rounded_ms (now - foldr min xs x))"

definition count_rows :: "(outbox_row \<Rightarrow> bool) \<Rightarrow> outbox_table \<Rightarrow> int" where
  "count_rows P t = int (length (filter P t))"

definition backlog_query :: "instant \<Rightarrow> string list \<Rightarrow> int \<Rightarrow> outbox_table \<Rightarrow> backlog_stats" where
  "backlog_query now types max_attempts t =
     (let rows = filter (\<lambda>r. row_event_type r \<in> set types) t;
          pending = (\<lambda>r. unsettled r);
          ready = (\<lambda>r. unsettled r \<and> row_available_at r \<le> now \<and> lease_free now r \<and>
            row_attempts r < max_attempts);
          leased = (\<lambda>r. unsettled r \<and> row_lease_owner r \<noteq> None \<and>
            sql_gt (row_leased_until r) now)
      in \<lparr>bs_Pending = count_rows pending rows, bs_Ready = count_rows ready rows,
          bs_Leased = count_rows leased rows,
          bs_DeadLettered = count_rows (\<lambda>r. row_dead_lettered_at r \<noteq> None) rows,
          bs_OldestPendingAge =
            oldest now (map row_occurred_at (filter pending rows)) * time_Millisecond,
          bs_DueLag =
            oldest now (map row_available_at (filter ready rows)) * time_Millisecond\<rparr>)"

definition store_Backlog ::
  "bool \<Rightarrow> instant \<Rightarrow> string list \<Rightarrow> int \<Rightarrow> outbox_table \<Rightarrow> store_error + backlog_stats" where
  "store_Backlog db_ok now types max_attempts t =
     (case validateEventTypes types of
        Inl e \<Rightarrow> Inl e
      | Inr _ \<Rightarrow>
          if max_attempts < 1 then Inl (StoreInvalid ''attempts'')
          else if types = [] then Inr zero_backlog
          else if \<not> db_ok then Inl StoreDatabase
          else Inr (backlog_query now types max_attempts t))"

subsection \<open>Row updates keep the CHECK constraints\<close>

lemma errorCodePattern_trim: "errorCodePattern s \<Longrightarrow> trim_space s = s"
  by (intro trim_space_visible errorCodePattern_visible(1))

lemma code_check:
  "errorCodePattern c \<Longrightarrow> trim_space c = c \<and> Suc 0 \<le> length c \<and> length c \<le> 100"
  using errorCodePattern_visible[of c] errorCodePattern_trim[of c] by simp

lemma row_check_claim:
  "row_check r \<Longrightarrow> unsettled r \<Longrightarrow> time_Millisecond \<le> cr_LeaseDuration q \<Longrightarrow>
   row_check (claim_row now q r)"
  using duration_Milliseconds_pos[of "cr_LeaseDuration q"]
  by (auto simp: row_check_defs claim_row_def unsettled_def time_Millisecond_def
      split: option.splits)

lemma row_check_ack: "row_check r \<Longrightarrow> unsettled r \<Longrightarrow> row_check (ack_row now r)"
  by (auto simp: row_check_defs ack_row_def clear_lease_def unsettled_def)

lemma row_check_retry:
  "row_check r \<Longrightarrow> unsettled r \<Longrightarrow> errorCodePattern c \<Longrightarrow> row_check (retry_row now ms c r)"
  using code_check[of c] by (auto simp: row_check_defs retry_row_def clear_lease_def unsettled_def)

lemma row_check_dead_letter:
  "row_check r \<Longrightarrow> unsettled r \<Longrightarrow> errorCodePattern c \<Longrightarrow> row_check (dead_letter_row now c r)"
  using code_check[of c]
  by (auto simp: row_check_defs dead_letter_row_def clear_lease_def unsettled_def)

lemma row_check_sweep:
  "row_check r \<Longrightarrow> unsettled r \<Longrightarrow> 0 < row_attempts r \<Longrightarrow> row_check (sweep_row now r)"
  using code_check[of ErrorCodeAttemptsExhausted]
  by (auto simp: row_check_defs sweep_row_def clear_lease_def unsettled_def)

lemma row_update_ids [simp]:
  "row_id (claim_row now q r) = row_id r" "row_id (ack_row now r) = row_id r"
  "row_id (retry_row now ms c r) = row_id r" "row_id (dead_letter_row now c r) = row_id r"
  "row_id (sweep_row now r) = row_id r"
  by (simp_all add: row_updates)

lemma lease_current_unsettled: "lease_current now l r \<Longrightarrow> unsettled r"
  by (simp add: lease_current_def unsettled_def)

subsection \<open>Updates of the table\<close>

lemma map_row_id_update:
  "(\<And>r. row_id (f r) = row_id r) \<Longrightarrow> map row_id (map (\<lambda>r. if P r then f r else r) t) = map row_id t"
  by (induction t) auto

lemma table_ok_update:
  assumes "table_ok t" and "\<And>r. row_id (f r) = row_id r"
    and "\<And>r. r \<in> set t \<Longrightarrow> P r \<Longrightarrow> row_check r \<Longrightarrow> row_check (f r)"
  shows "table_ok (map (\<lambda>r. if P r then f r else r) t)"
proof -
  have "list_all row_check (map (\<lambda>r. if P r then f r else r) t)"
    using assms(1,3) by (auto simp: table_ok_def list_all_iff)
  with assms(1) show ?thesis
    unfolding table_ok_def map_row_id_update[of f P t, OF assms(2)] by blast
qed

lemma table_ok_unique:
  "table_ok t \<Longrightarrow> r \<in> set t \<Longrightarrow> r' \<in> set t \<Longrightarrow> row_id r = row_id r' \<Longrightarrow> r = r'"
  by (auto simp: table_ok_def distinct_map inj_on_def)

lemma table_ok_row: "table_ok t \<Longrightarrow> r \<in> set t \<Longrightarrow> row_check r"
  by (simp add: table_ok_def list_all_iff)

lemma filter_unique_length:
  assumes "distinct (map row_id t)" and "\<And>r. P r \<Longrightarrow> row_id r = k"
  shows "length (filter P t) \<le> 1"
  using assms
proof (induction t)
  case (Cons a t)
  show ?case
  proof (cases "P a")
    case True
    then have "row_id a = k" by (rule Cons.prems(2))
    then have "filter P t = []"
      using Cons.prems by (fastforce simp: filter_empty_conv image_iff)
    with True show ?thesis by simp
  next
    case False
    with Cons show ?thesis by simp
  qed
qed simp

lemma affected_at_most_one:
  "table_ok t \<Longrightarrow> length (filter (lease_current now l) t) \<le> 1"
  by (rule filter_unique_length[where k = "lr_EventID l"]) (auto simp: table_ok_def lease_current_def)

lemma map_if_none: "(\<And>r. r \<in> set t \<Longrightarrow> \<not> P r) \<Longrightarrow> map (\<lambda>r. if P r then f r else r) t = t"
  by (induction t) auto

text \<open>The completion of a lease, case by case.\<close>

lemma store_complete_cases:
  assumes "table_ok t"
  obtains (failed) e where "store_complete db_ok now l f t = (Inl e, t)"
      "e = ErrLeaseLost \<longleftrightarrow> LeaseRef_Validate l \<and> db_ok"
      "e = ErrLeaseLost \<Longrightarrow> \<forall>r\<in>set t. \<not> lease_current now l r"
  | (completed) r where "store_complete db_ok now l f t =
        (Inr (), map (\<lambda>r. if lease_current now l r then f r else r) t)"
      "r \<in> set t" "lease_current now l r" "LeaseRef_Validate l"
proof (cases "LeaseRef_Validate l \<and> db_ok")
  case False
  then show ?thesis
    by (cases "LeaseRef_Validate l") (auto intro: failed simp: store_complete_def)
next
  case True
  show ?thesis
  proof (cases "\<exists>r\<in>set t. lease_current now l r")
    case False
    then have "filter (lease_current now l) t = []" by (simp add: filter_empty_conv)
    with True False show ?thesis
      by (intro failed[of ErrLeaseLost]) (simp_all add: store_complete_def Let_def map_if_none)
  next
    case ex: True
    then obtain r where r: "r \<in> set t" "lease_current now l r" by blast
    then have "filter (lease_current now l) t \<noteq> []" by (auto simp: filter_empty_conv)
    with affected_at_most_one[OF assms, of now l]
    have "length (filter (lease_current now l) t) = 1"
      by (cases "filter (lease_current now l) t") auto
    with True r show ?thesis by (intro completed) (auto simp: store_complete_def Let_def)
  qed
qed

lemma store_complete_table_ok:
  assumes "table_ok t" and "\<And>r. row_id (f r) = row_id r"
    and "\<And>r. row_check r \<Longrightarrow> unsettled r \<Longrightarrow> row_check (f r)"
    and "store_complete db_ok now l f t = (res, t')"
  shows "table_ok t'"
  using assms(1)
proof (cases rule: store_complete_cases[where db_ok = db_ok and now = now and l = l and f = f])
  case (failed e)
  with assms show ?thesis by simp
next
  case (completed r)
  with assms(4) have "t' = map (\<lambda>r. if lease_current now l r then f r else r) t" by simp
  with table_ok_update[OF assms(1,2)] assms(3) show ?thesis
    by (simp add: lease_current_unsettled)
qed

subsection \<open>Every operation keeps the constraints\<close>

lemma map_of_candidates_subset:
  "set (take n (sort_key k (filter P t))) \<subseteq> {r \<in> set t. P r}"
  by (auto dest: in_set_takeD)

lemma claim_candidates_in:
  assumes "r \<in> set (claim_candidates locked now q t)"
  shows "r \<in> set t \<and> claimable now (cr_EventTypes q) (cr_MaxAttempts q) r \<and> row_id r \<notin> set locked"
  using assms map_of_candidates_subset unfolding claim_candidates_def by fastforce

lemma sweep_candidates_in:
  assumes "r \<in> set (sweep_candidates locked now types m n t)"
  shows "r \<in> set t \<and> exhausted now types m r \<and> row_id r \<notin> set locked"
  using assms map_of_candidates_subset unfolding sweep_candidates_def by fastforce

lemma update_ids_candidates:
  assumes "table_ok t" and "r \<in> set t" and "set cs \<subseteq> set t"
  shows "row_id r \<in> set (map row_id cs) \<longleftrightarrow> r \<in> set cs"
  unfolding set_map image_iff using table_ok_unique[OF assms(1,2)] assms(3) by blast

lemma table_ok_update_ids:
  assumes "table_ok t" and "set cs \<subseteq> set t" and "\<And>r. row_id (f r) = row_id r"
    and "\<And>r. r \<in> set cs \<Longrightarrow> row_check r \<Longrightarrow> row_check (f r)"
  shows "table_ok (update_ids (map row_id cs) f t)"
  unfolding update_ids_def
proof (rule table_ok_update[OF assms(1,3)])
  fix r
  assume "r \<in> set t" "row_id r \<in> set (map row_id cs)" "row_check r"
  with update_ids_candidates[OF assms(1) _ assms(2)] show "row_check (f r)"
    by (blast intro: assms(4))
qed

lemma store_Claim_cases:
  obtains (failed) e where "store_Claim db_ok locked now q t = (Inl e, t)"
  | (empty) "store_Claim db_ok locked now q t = (Inr [], t)" "cr_EventTypes q = []"
  | (claimed) events where
      "store_Claim db_ok locked now q t = (Inr events,
         update_ids (map row_id (claim_candidates locked now q t)) (claim_row now q) t)"
      "map_res (scan_event now q) (claim_candidates locked now q t) = Inr events"
      "validateClaimRequest q = Inr ()"
proof (cases "validateClaimRequest q")
  case (Inl e)
  then show ?thesis by (intro failed) (simp add: store_Claim_def)
next
  case (Inr u)
  show ?thesis
  proof (cases "cr_EventTypes q = [] \<or> \<not> db_ok")
    case True
    with Inr show ?thesis
      by (cases "cr_EventTypes q = []") (auto simp: store_Claim_def intro: failed empty)
  next
    case False
    show ?thesis
    proof (cases "map_res (scan_event now q) (claim_candidates locked now q t)")
      case (Inl e)
      with Inr False show ?thesis by (intro failed) (simp add: store_Claim_def)
    next
      case (Inr events)
      with \<open>validateClaimRequest q = Inr u\<close> False show ?thesis
        by (intro claimed) (simp_all add: store_Claim_def)
    qed
  qed
qed

lemma store_Claim_table_ok:
  assumes "table_ok t" and "time_Millisecond \<le> cr_LeaseDuration q"
    and "store_Claim db_ok locked now q t = (res, t')"
  shows "table_ok t'"
proof (cases rule: store_Claim_cases[of db_ok locked now q t])
  case (claimed events)
  with assms(3) have t': "t' = update_ids (map row_id (claim_candidates locked now q t))
    (claim_row now q) t" by simp
  show ?thesis
    unfolding t'
    by (rule table_ok_update_ids[OF assms(1)])
      (use claim_candidates_in assms(2) in \<open>auto simp: claimable_def intro!: row_check_claim\<close>)
qed (use assms in auto)

lemma store_Ack_table_ok:
  "table_ok t \<Longrightarrow> store_Ack db_ok now l t = (res, t') \<Longrightarrow> table_ok t'"
  unfolding store_Ack_def by (rule store_complete_table_ok) (auto intro: row_check_ack)

lemma store_Retry_table_ok:
  "table_ok t \<Longrightarrow> store_Retry db_ok now l d c t = (res, t') \<Longrightarrow> table_ok t'"
  unfolding store_Retry_def
  by (auto split: if_splits intro: row_check_retry elim!: store_complete_table_ok[rotated 3])

lemma store_DeadLetter_table_ok:
  "table_ok t \<Longrightarrow> store_DeadLetter db_ok now l c t = (res, t') \<Longrightarrow> table_ok t'"
  unfolding store_DeadLetter_def
  by (rule store_complete_table_ok) (auto intro: row_check_dead_letter)

lemma store_SweepExhausted_table_ok:
  assumes "table_ok t" and "store_SweepExhausted db_ok locked now types m n t = (res, t')"
  shows "table_ok t'"
proof (cases "t' = t")
  case False
  then have m: "1 \<le> m" and
    t': "t' = update_ids (map row_id (sweep_candidates locked now types m n t)) (sweep_row now) t"
    using assms(2) by (auto simp: store_SweepExhausted_def Let_def split: sum.splits if_splits)
  show ?thesis
    unfolding t'
  proof (rule table_ok_update_ids[OF assms(1)])
    show "set (sweep_candidates locked now types m n t) \<subseteq> set t"
      using sweep_candidates_in by blast
    fix r
    assume "r \<in> set (sweep_candidates locked now types m n t)" "row_check r"
    with m sweep_candidates_in show "row_check (sweep_row now r)"
      by (fastforce simp: exhausted_def intro!: row_check_sweep)
  qed simp
qed (use assms in simp)

end
