(* ===== verification/Outbox_Runner.thy ===== *)
theory Outbox_Runner imports Outbox_Store begin

section \<open>Handler registry, metrics and runner (registry.go, metrics.go, runner.go)\<close>

text \<open>
  The worker that drives the store.  The Go interface \<open>Store\<close> is a record of operations over an
  abstract state, which the runner uses as the code does; the store of the previous theory is
  one such record, and the locale \<open>leased_store\<close> states what the runner relies on.  The JSON
  decoder is a parameter (\<open>json_decoder\<close>): encoding/json is generic in the payload type.
  What the environment decides while one event is processed (the handler's run, whether a
  context was cancelled or ran out of time, the elapsed time, the random draw, the clock and
  the health of the database at the store call) is a record argument.
\<close>

subsection \<open>Registry (registry.go)\<close>

datatype handler_run = HandlerReturned "handler_error option" | HandlerPanicked

datatype json_next = JsonEOF | JsonValue string | JsonError

record 'p json_decoder =
  jd_first :: "string \<Rightarrow> ('p \<times> string) option"
  jd_next :: "string \<Rightarrow> json_next"

type_synonym tenant_mode = "8 word"

definition TenantRequired :: tenant_mode where
  "TenantRequired = 1"

definition TenantOptional :: tenant_mode where
  "TenantOptional = 2"

record 'p handler_spec =
  hs_EventType :: event_type
  hs_HandlerName :: string
  hs_AggregateType :: string
  hs_TenantMode :: tenant_mode
  hs_Validate :: "(outbox_event \<Rightarrow> 'p \<Rightarrow> bool) option"
  hs_Handle :: "(outbox_event \<Rightarrow> 'p \<Rightarrow> handler_run) option"

record registered_handler =
  rh_EventType :: event_type
  rh_HandlerName :: string
  rh_handle :: "(outbox_event \<Rightarrow> handler_run) option"

type_synonym registry = "(string \<times> registered_handler) list"

datatype registry_error = RegistryRequired | RegistryEventType | RegistryHandlerName
  | RegistryAggregateType | RegistryTenantMode | RegistryHandler | RegistryDuplicate

text \<open>\<open>handlerNamePattern\<close> and \<open>aggregateTypePattern\<close> are both \<open>^[a-z][a-z0-9_]{0,63}$\<close>.\<close>

definition handlerNamePattern :: "string \<Rightarrow> bool" where
  "handlerNamePattern s \<longleftrightarrow> ident_segment s \<and> length s \<le> 64"

definition RegisteredHandler_Handle :: "registered_handler \<Rightarrow> outbox_event \<Rightarrow> handler_run" where
  "RegisteredHandler_Handle h ev = (case rh_handle h of
      None \<Rightarrow> HandlerReturned (Some (Permanent ErrorCodeInvalidEventContext))
    | Some f \<Rightarrow> f ev)"

definition ensureJSONEOF :: "'p json_decoder \<Rightarrow> string \<Rightarrow> bool" where
  "ensureJSONEOF d rest = (case jd_next d rest of
      JsonEOF \<Rightarrow> True
    | JsonValue extra \<Rightarrow> \<not> 0 < length (trim_space extra)
    | JsonError \<Rightarrow> False)"

text \<open>The closure that \<open>RegisterJSON\<close> stores.\<close>

definition json_handler :: "'p json_decoder \<Rightarrow> 'p handler_spec \<Rightarrow> outbox_event \<Rightarrow> handler_run" where
  "json_handler d spec ev =
     (let context_error = HandlerReturned (Some (Permanent ErrorCodeInvalidEventContext));
          payload_error = HandlerReturned (Some (Permanent ErrorCodeInvalidPayload)) in
      if ev_Type ev \<noteq> hs_EventType spec \<or> ev_AggregateType ev \<noteq> hs_AggregateType spec
        then context_error
      else if hs_TenantMode spec = TenantRequired \<and> ev_TenantID ev = None then context_error
      else case jd_first d (ev_Payload ev) of
        None \<Rightarrow> payload_error
      | Some (payload, rest) \<Rightarrow>
          if \<not> ensureJSONEOF d rest then payload_error
          else if (case hs_Validate spec of None \<Rightarrow> False | Some v \<Rightarrow> \<not> v ev payload)
            then payload_error
          else case hs_Handle spec of None \<Rightarrow> HandlerPanicked | Some handle \<Rightarrow> handle ev payload)"

definition RegisterJSON ::
  "'p json_decoder \<Rightarrow> registry option \<Rightarrow> 'p handler_spec \<Rightarrow> registry_error + registry" where
  "RegisterJSON d reg spec = (case reg of
      None \<Rightarrow> Inl RegistryRequired
    | Some handlers \<Rightarrow>
        let eventType = EventType_String (hs_EventType spec) in
        if eventType = [] then Inl RegistryEventType
        else if \<not> handlerNamePattern (hs_HandlerName spec) then Inl RegistryHandlerName
        else if \<not> handlerNamePattern (hs_AggregateType spec) then Inl RegistryAggregateType
        else if hs_TenantMode spec \<noteq> TenantRequired \<and> hs_TenantMode spec \<noteq> TenantOptional
          then Inl RegistryTenantMode
        else if hs_Handle spec = None then Inl RegistryHandler
        else if map_of handlers eventType \<noteq> None then Inl RegistryDuplicate
        else Inr ((eventType, \<lparr>rh_EventType = hs_EventType spec,
               rh_HandlerName = hs_HandlerName spec,
               rh_handle = Some (json_handler d spec)\<rparr>) # handlers))"

definition Registry_Resolve :: "registry option \<Rightarrow> event_type \<Rightarrow> registered_handler option" where
  "Registry_Resolve reg et = (case reg of None \<Rightarrow> None
     | Some handlers \<Rightarrow> map_of handlers (EventType_String et))"

definition Registry_Allowlist :: "registry option \<Rightarrow> string list" where
  "Registry_Allowlist reg = (case reg of None \<Rightarrow> [] | Some handlers \<Rightarrow> sort (map fst handlers))"

definition Registry_HandlerNames :: "registry option \<Rightarrow> (string \<times> string) list" where
  "Registry_HandlerNames reg = (case reg of None \<Rightarrow> []
     | Some handlers \<Rightarrow> map (\<lambda>(et, h). (et, rh_HandlerName h)) handlers)"

subsection \<open>Metrics (metrics.go)\<close>

datatype outcome =
    OutcomeClaimed | OutcomeReclaimed | OutcomeSuccess | OutcomeRetry | OutcomeDeadLetter
  | OutcomeLeaseLost | OutcomeStoreError | OutcomeAbandoned

type_synonym metric_key = "string \<times> string \<times> outcome"

record metrics =
  mt_handlers :: "(string \<times> string) list"
  mt_points :: "metric_key \<Rightarrow> (int \<times> duration) option"
  mt_backlog :: backlog_stats

definition NewMetrics :: "(string \<times> string) list \<Rightarrow> metrics" where
  "NewMetrics handlerNames =
     \<lparr>mt_handlers = handlerNames, mt_points = (\<lambda>_. None), mt_backlog = zero_backlog\<rparr>"

definition metrics_Observe ::
  "metrics option \<Rightarrow> string \<Rightarrow> string \<Rightarrow> outcome \<Rightarrow> duration \<Rightarrow> metrics option" where
  "metrics_Observe mt eventType handler outcome dur = (case mt of None \<Rightarrow> None
     | Some m \<Rightarrow>
         if map_of (mt_handlers m) eventType \<noteq> Some handler then Some m
         else
           let key = (eventType, handler, outcome);
               (count, total) = (case mt_points m key of None \<Rightarrow> (0, 0) | Some v \<Rightarrow> v)
           in Some (m\<lparr>mt_points := (mt_points m)(key \<mapsto> (count + 1, total + dur))\<rparr>))"

definition metrics_SetBacklog :: "metrics option \<Rightarrow> backlog_stats \<Rightarrow> metrics option" where
  "metrics_SetBacklog mt stats = (case mt of None \<Rightarrow> None | Some m \<Rightarrow> Some (m\<lparr>mt_backlog := stats\<rparr>))"

definition metric_count :: "metrics option \<Rightarrow> metric_key \<Rightarrow> int" where
  "metric_count mt key = (case mt of None \<Rightarrow> 0
     | Some m \<Rightarrow> (case mt_points m key of None \<Rightarrow> 0 | Some (count, _) \<Rightarrow> count))"

subsection \<open>The Store interface\<close>

text \<open>A call of the store: the health of the database and the clock at that moment.\<close>

type_synonym store_call = "bool \<times> instant"

record 's store =
  st_Ack :: "store_call \<Rightarrow> lease_ref \<Rightarrow> 's \<Rightarrow> (store_error + unit) \<times> 's"
  st_Retry :: "store_call \<Rightarrow> lease_ref \<Rightarrow> duration \<Rightarrow> string \<Rightarrow> 's \<Rightarrow> (store_error + unit) \<times> 's"
  st_DeadLetter :: "store_call \<Rightarrow> lease_ref \<Rightarrow> string \<Rightarrow> 's \<Rightarrow> (store_error + unit) \<times> 's"

definition postgres_store :: "outbox_table store" where
  "postgres_store = \<lparr>
     st_Ack = (\<lambda>(db_ok, now) l t. store_Ack db_ok now l t),
     st_Retry = (\<lambda>(db_ok, now) l d c t. store_Retry db_ok now l d c t),
     st_DeadLetter = (\<lambda>(db_ok, now) l c t. store_DeadLetter db_ok now l c t)\<rparr>"

subsection \<open>Runner (runner.go)\<close>

record runner_config =
  rc_OwnerID :: uuid
  rc_BatchSize :: int
  rc_Concurrency :: int
  rc_PollInterval :: duration
  rc_MetricsInterval :: duration
  rc_LeaseDuration :: duration
  rc_HandlerTimeout :: duration
  rc_ShutdownTimeout :: duration
  rc_MaxAttempts :: int
  rc_Backoff :: backoff
  rc_HasStore :: bool
  rc_Registry :: "registry option"

datatype runner_error = RunnerDependencies | RunnerBounds | RunnerTiming | RunnerBackoff

definition NewRunner :: "runner_config \<Rightarrow> runner_error + (runner_config \<times> string list)" where
  "NewRunner c =
     (if rc_OwnerID c = uuid_Nil \<or> \<not> rc_HasStore c \<or> rc_Registry c = None
        then Inl RunnerDependencies
      else if rc_BatchSize c < 1 \<or> rc_BatchSize c > 100 \<or>
          rc_Concurrency c < 1 \<or> rc_Concurrency c > rc_BatchSize c \<or>
          rc_MaxAttempts c < 1 then Inl RunnerBounds
      else if rc_PollInterval c \<le> 0 \<or> rc_MetricsInterval c \<le> 0 \<or> rc_LeaseDuration c \<le> 0 \<or>
          rc_HandlerTimeout c \<le> 0 \<or> rc_HandlerTimeout c \<ge> rc_LeaseDuration c \<or>
          rc_ShutdownTimeout c < rc_HandlerTimeout c then Inl RunnerTiming
      else if bo_base (rc_Backoff c) \<le> 0 \<or> bo_maximum (rc_Backoff c) \<le> 0 then Inl RunnerBackoff
      else Inr (c, Registry_Allowlist (rc_Registry c)))"

definition claimBatchSize :: "runner_config \<Rightarrow> int" where
  "claimBatchSize c =
     (if rc_Concurrency c < rc_BatchSize c then rc_Concurrency c else rc_BatchSize c)"

record process_env =
  pe_cancelled :: bool
  pe_deadline :: bool
  pe_elapsed :: duration
  pe_call :: store_call
  pe_unit :: real
  pe_fl :: "real \<Rightarrow> real"

definition invokeHandler :: "registered_handler \<Rightarrow> outbox_event \<Rightarrow> handler_error option" where
  "invokeHandler h ev = (case RegisteredHandler_Handle h ev of
      HandlerReturned err \<Rightarrow> err
    | HandlerPanicked \<Rightarrow> Some (Retryable ErrorCodeHandlerPanicked))"

definition observeWithHandler ::
  "outbox_event \<Rightarrow> string \<Rightarrow> outcome \<Rightarrow> duration \<Rightarrow> metrics option \<Rightarrow> metrics option" where
  "observeWithHandler ev name outcome dur m =
     metrics_Observe m (EventType_String (ev_Type ev)) name outcome dur"

definition observe ::
  "runner_config \<Rightarrow> outbox_event \<Rightarrow> outcome \<Rightarrow> duration \<Rightarrow> metrics option \<Rightarrow> metrics option" where
  "observe c ev outcome dur m = (case Registry_Resolve (rc_Registry c) (ev_Type ev) of
      None \<Rightarrow> m
    | Some h \<Rightarrow> observeWithHandler ev (rh_HandlerName h) outcome dur m)"

definition observeStoreCompletion ::
  "outbox_event \<Rightarrow> string \<Rightarrow> store_error \<Rightarrow> duration \<Rightarrow> metrics option \<Rightarrow> metrics option" where
  "observeStoreCompletion ev name err dur m =
     observeWithHandler ev name
       (if err = ErrLeaseLost then OutcomeLeaseLost else OutcomeStoreError) dur m"

definition finishDeadLetter ::
  "'s store \<Rightarrow> process_env \<Rightarrow> outbox_event \<Rightarrow> string \<Rightarrow> string \<Rightarrow>
   's \<times> metrics option \<Rightarrow> 's \<times> metrics option" where
  "finishDeadLetter st env ev name code = (\<lambda>(s, m).
     case st_DeadLetter st (pe_call env) (ev_Lease ev) code s of
       (Inl err, s') \<Rightarrow> (s', observeStoreCompletion ev name err (pe_elapsed env) m)
     | (Inr _, s') \<Rightarrow> (s', observeWithHandler ev name OutcomeDeadLetter (pe_elapsed env) m))"

text \<open>
  What \<open>processEvent\<close> does once the handler has returned and its context was neither
  cancelled nor out of time: acknowledge, dead-letter or schedule the retry.
\<close>

definition processOutcome ::
  "runner_config \<Rightarrow> 's store \<Rightarrow> process_env \<Rightarrow> outbox_event \<Rightarrow> string \<Rightarrow> handler_error option \<Rightarrow>
   's \<times> metrics option \<Rightarrow> 's \<times> metrics option" where
  "processOutcome c st env ev name err = (\<lambda>(s, m). case err of
      None \<Rightarrow>
        (case st_Ack st (pe_call env) (ev_Lease ev) s of
           (Inl e, s') \<Rightarrow> (s', observeStoreCompletion ev name e (pe_elapsed env) m)
         | (Inr _, s') \<Rightarrow> (s', observeWithHandler ev name OutcomeSuccess (pe_elapsed env) m))
    | Some _ \<Rightarrow>
        let (errorCode, disposition) = ClassifyFailure err;
            failureAttempt = ev_Attempts ev + 1 in
        if disposition = FailurePermanent then finishDeadLetter st env ev name errorCode (s, m)
        else if failureAttempt \<ge> rc_MaxAttempts c
          then finishDeadLetter st env ev name ErrorCodeAttemptsExhausted (s, m)
        else
          (case st_Retry st (pe_call env) (ev_Lease ev)
              (Delay (pe_fl env) (rc_Backoff c) failureAttempt (pe_unit env)) errorCode s of
             (Inl e, s') \<Rightarrow> (s', observeStoreCompletion ev name e (pe_elapsed env) m)
           | (Inr _, s') \<Rightarrow> (s', observeWithHandler ev name OutcomeRetry (pe_elapsed env) m)))"

definition processEvent ::
  "runner_config \<Rightarrow> 's store \<Rightarrow> process_env \<Rightarrow> outbox_event \<Rightarrow>
   's \<times> metrics option \<Rightarrow> 's \<times> metrics option" where
  "processEvent c st env ev = (\<lambda>(s, m).
     case Registry_Resolve (rc_Registry c) (ev_Type ev) of
       None \<Rightarrow> finishDeadLetter st env ev [] ErrorCodeInvalidEventContext (s, m)
     | Some handler \<Rightarrow>
         let err = invokeHandler handler ev in
         if pe_cancelled env
           then (s, observeWithHandler ev (rh_HandlerName handler) OutcomeAbandoned (pe_elapsed env) m)
         else
           let err = (if pe_deadline env then Some (Retryable ErrorCodeHandlerTimeout) else err)
           in processOutcome c st env ev (rh_HandlerName handler) err (s, m))"

text \<open>
  \<open>processBatch\<close> runs its events in goroutines; each makes at most one store call, so an
  execution is an order of these calls.  An event whose goroutine sees the cancelled context
  before a slot is free (\<open>None\<close>) is only observed as abandoned.
\<close>

fun processBatch ::
  "runner_config \<Rightarrow> 's store \<Rightarrow> (outbox_event \<times> process_env option) list \<Rightarrow>
   's \<times> metrics option \<Rightarrow> 's \<times> metrics option" where
  "processBatch c st [] sm = sm"
| "processBatch c st ((ev, Some env) # rest) sm = processBatch c st rest (processEvent c st env ev sm)"
| "processBatch c st ((ev, None) # rest) sm =
     processBatch c st rest (fst sm, observe c ev OutcomeAbandoned 0 (snd sm))"

fun observeClaims :: "runner_config \<Rightarrow> outbox_event list \<Rightarrow> metrics option \<Rightarrow> metrics option" where
  "observeClaims c [] m = m"
| "observeClaims c (ev # evs) m = (case Registry_Resolve (rc_Registry c) (ev_Type ev) of
      None \<Rightarrow> observeClaims c evs m
    | Some h \<Rightarrow>
        let m = observeWithHandler ev (rh_HandlerName h) OutcomeClaimed 0 m;
            m = (if ev_Reclaimed ev
                 then observeWithHandler ev (rh_HandlerName h) OutcomeReclaimed 0 m else m)
        in observeClaims c evs m)"

definition runner_claim_request :: "runner_config \<Rightarrow> string list \<Rightarrow> claim_request" where
  "runner_claim_request c allowlist = \<lparr>cr_EventTypes = allowlist, cr_OwnerID = rc_OwnerID c,
     cr_BatchSize = claimBatchSize c, cr_LeaseDuration = rc_LeaseDuration c,
     cr_MaxAttempts = rc_MaxAttempts c\<rparr>"

end
