(* ===== verification/Outbox_Contract.thy ===== *)
theory Outbox_Contract imports Outbox_Runner begin

section \<open>What the runner relies on: the leased store contract\<close>

text \<open>
  The contract of the Go interface \<open>Store\<close> as the runner uses it, over an abstract state: which
  leases are live, which events are settled (published or dead-lettered).  Its lemmas about
  \<open>processEvent\<close> and \<open>processBatch\<close> are proved once from the contract; the interpretation
  discharges it for the statements of store.go.
\<close>

text \<open>\<open>completes\<close>: some completion of a lease was called with that result and next state.\<close>

definition completes ::
  "'s store \<Rightarrow> lease_ref \<Rightarrow> 's \<Rightarrow> store_error + unit \<Rightarrow> 's \<Rightarrow> bool" where
  "completes st l s res s' \<longleftrightarrow>
     (\<exists>c. st_Ack st c l s = (res, s')) \<or>
     (\<exists>c d code. st_Retry st c l d code s = (res, s')) \<or>
     (\<exists>c code. st_DeadLetter st c l code s = (res, s'))"

lemma completesI:
  "st_Ack st c l s = (res, s') \<Longrightarrow> completes st l s res s'"
  "st_Retry st c l d code s = (res, s') \<Longrightarrow> completes st l s res s'"
  "st_DeadLetter st c l code s = (res, s') \<Longrightarrow> completes st l s res s'"
  unfolding completes_def by blast+

locale leased_store =
  fixes st :: "'s store"
    and inv :: "'s \<Rightarrow> bool"
    and live :: "'s \<Rightarrow> lease_ref \<Rightarrow> bool"
    and settled :: "'s \<Rightarrow> uuid \<Rightarrow> bool"
  assumes keeps_inv: "inv s \<Longrightarrow> completes st l s res s' \<Longrightarrow> inv s'"
    and failed_same: "inv s \<Longrightarrow> completes st l s (Inl e) s' \<Longrightarrow> s' = s"
    and was_live: "inv s \<Longrightarrow> completes st l s (Inr u) s' \<Longrightarrow> live s l"
    and released: "inv s \<Longrightarrow> completes st l s (Inr u) s' \<Longrightarrow> \<not> live s' l"
    and no_new_lease: "inv s \<Longrightarrow> completes st l s res s' \<Longrightarrow> live s' l' \<Longrightarrow> live s l'"
    and settled_stays: "inv s \<Longrightarrow> completes st l s res s' \<Longrightarrow> settled s k \<Longrightarrow> settled s' k"
    and ack_settles: "inv s \<Longrightarrow> st_Ack st c l s = (Inr u, s') \<Longrightarrow> settled s' (lr_EventID l)"
    and dead_settles:
      "inv s \<Longrightarrow> st_DeadLetter st c l code s = (Inr u, s') \<Longrightarrow> settled s' (lr_EventID l)"
    and live_unsettled: "inv s \<Longrightarrow> live s l \<Longrightarrow> \<not> settled s (lr_EventID l)"
begin

text \<open>
  One store effect: the state is unchanged, or one successful completion of the event's
  lease was made; every client action below is such an effect.
\<close>

definition effect :: "lease_ref \<Rightarrow> 's \<Rightarrow> 's \<Rightarrow> bool" where
  "effect l s s' \<longleftrightarrow> s' = s \<or> completes st l s (Inr ()) s'"

lemma effect_inv: "inv s \<Longrightarrow> effect l s s' \<Longrightarrow> inv s'"
  unfolding effect_def using keeps_inv by blast

lemma effect_changed: "inv s \<Longrightarrow> effect l s s' \<Longrightarrow> s' \<noteq> s \<Longrightarrow> live s l \<and> \<not> live s' l"
  unfolding effect_def using was_live released by blast

lemma effect_live: "inv s \<Longrightarrow> effect l s s' \<Longrightarrow> live s' l' \<Longrightarrow> live s l'"
  unfolding effect_def using no_new_lease by blast

lemma effect_settled: "inv s \<Longrightarrow> effect l s s' \<Longrightarrow> settled s k \<Longrightarrow> settled s' k"
  unfolding effect_def using settled_stays by blast

lemma effect_dead_lease: "inv s \<Longrightarrow> \<not> live s l \<Longrightarrow> effect l s s' \<Longrightarrow> s' = s"
  using effect_changed by blast

lemma completes_effect: "inv s \<Longrightarrow> completes st l s res s' \<Longrightarrow> effect l s s'"
  by (cases res) (auto simp: effect_def dest: failed_same)

lemma finishDeadLetter_effect:
  assumes "inv s"
  shows "effect (ev_Lease ev) s (fst (finishDeadLetter st env ev name code (s, m)))"
proof -
  obtain res s' where r: "st_DeadLetter st (pe_call env) (ev_Lease ev) code s = (res, s')"
    by fastforce
  from completes_effect[OF assms completesI(3)[OF r]] r show ?thesis
    by (cases res) (simp_all add: finishDeadLetter_def)
qed

lemma processOutcome_effect:
  assumes "inv s"
  shows "effect (ev_Lease ev) s (fst (processOutcome c st env ev name err (s, m)))"
proof (cases err)
  case None
  obtain res s' where r: "st_Ack st (pe_call env) (ev_Lease ev) s = (res, s')" by fastforce
  from completes_effect[OF assms completesI(1)[OF r]] r None show ?thesis
    by (cases res) (simp_all add: processOutcome_def)
next
  case (Some e)
  obtain code disp where cd: "ClassifyFailure err = (code, disp)" by fastforce
  obtain res s' where r: "st_Retry st (pe_call env) (ev_Lease ev)
    (Delay (pe_fl env) (rc_Backoff c) (ev_Attempts ev + 1) (pe_unit env)) code s = (res, s')"
    by fastforce
  from Some cd r completes_effect[OF assms completesI(2)[OF r]] show ?thesis
    by (cases res) (simp_all add: processOutcome_def Let_def finishDeadLetter_effect[OF assms])
qed

lemma processEvent_effect:
  assumes "inv s"
  shows "effect (ev_Lease ev) s (fst (processEvent c st env ev (s, m)))"
  by (cases "Registry_Resolve (rc_Registry c) (ev_Type ev)")
    (auto simp: processEvent_def Let_def finishDeadLetter_effect processOutcome_effect assms
      effect_def[of _ s s])

lemma processEvent_inv: "inv s \<Longrightarrow> inv (fst (processEvent c st env ev (s, m)))"
  using processEvent_effect effect_inv by blast

text \<open>A second completion of the same lease never changes the store.\<close>

lemma processEvent_at_most_once:
  assumes "inv s" and "fst (processEvent c st env ev (s, m)) = s'" and "s' \<noteq> s"
    and "ev_Lease ev' = ev_Lease ev"
  shows "fst (processEvent c' st env' ev' (s', m')) = s'"
proof -
  have "effect (ev_Lease ev) s s'" using processEvent_effect[OF assms(1)] assms(2) by blast
  then have "inv s'" "\<not> live s' (ev_Lease ev)"
    using effect_inv effect_changed assms(1,3) by blast+
  then show ?thesis
    using effect_dead_lease[of s' "ev_Lease ev'"] processEvent_effect[of s' ev'] assms(4) by simp
qed

text \<open>A batch is a sequence of such effects, so it keeps what each of them keeps.\<close>

lemma processBatch_keeps:
  assumes keep: "\<And>l s s'. inv s \<Longrightarrow> P s \<Longrightarrow> effect l s s' \<Longrightarrow> P s'"
  shows "inv (fst sm) \<Longrightarrow> P (fst sm) \<Longrightarrow>
    inv (fst (processBatch c st evs sm)) \<and> P (fst (processBatch c st evs sm))"
proof (induction evs arbitrary: sm)
  case (Cons x evs)
  obtain ev e s m where x: "x = (ev, e)" and sm: "sm = (s, m)" by (metis surj_pair)
  show ?case
  proof (cases e)
    case None
    with Cons x sm show ?thesis by simp
  next
    case (Some env)
    let ?sm = "processEvent c st env ev (s, m)"
    have "effect (ev_Lease ev) s (fst ?sm)"
      using processEvent_effect Cons.prems(1) sm by simp
    then have "inv (fst ?sm)" "P (fst ?sm)"
      using effect_inv keep Cons.prems sm by (metis fst_conv)+
    then show ?thesis using Cons.IH[of ?sm] by (simp add: x sm Some)
  qed
qed simp

lemma processBatch_settled:
  assumes "inv s" and "settled s k"
  shows "settled (fst (processBatch c st evs (s, m))) k"
  using processBatch_keeps[of "\<lambda>s. settled s k" "(s, m)" c evs] assms effect_settled by simp

end

subsection \<open>The statements of store.go keep the contract\<close>

text \<open>
  A lease is live while its row still carries its owner and token and is neither published
  nor dead-lettered, whether or not the lease has run out; an event is settled when its row
  is published or dead-lettered.
\<close>

definition lease_live :: "outbox_table \<Rightarrow> lease_ref \<Rightarrow> bool" where
  "lease_live t l \<longleftrightarrow> (\<exists>r\<in>set t. row_id r = lr_EventID l \<and>
     row_lease_owner r = Some (lr_OwnerID l) \<and> row_lease_token r = lr_Token l \<and> unsettled r)"

definition event_settled :: "outbox_table \<Rightarrow> uuid \<Rightarrow> bool" where
  "event_settled t k \<longleftrightarrow> (\<exists>r\<in>set t. row_id r = k \<and> \<not> unsettled r)"

text \<open>
  What an UPDATE through a lease may do to a row: keep the id, the token and a settled state,
  and give up the lease.
\<close>

definition releasing :: "(outbox_row \<Rightarrow> outbox_row) \<Rightarrow> bool" where
  "releasing f \<longleftrightarrow> (\<forall>r. row_id (f r) = row_id r \<and> row_lease_token (f r) = row_lease_token r \<and>
     row_lease_owner (f r) = None \<and> (unsettled (f r) \<longrightarrow> unsettled r))"

lemma releasing_updates [simp]:
  "releasing (ack_row now)" "releasing (retry_row now ms code)" "releasing (dead_letter_row now code)"
  by (simp_all add: releasing_def row_updates unsettled_def)

lemma store_complete_released:
  assumes "table_ok t" and f: "releasing f"
    and "store_complete db_ok now l f t = (res, t')"
  shows "case res of
      Inl e \<Rightarrow> t' = t
    | Inr _ \<Rightarrow> lease_live t l \<and> \<not> lease_live t' l \<and>
        ((\<forall>r. \<not> unsettled (f r)) \<longrightarrow> event_settled t' (lr_EventID l))"
    and "lease_live t' l' \<Longrightarrow> lease_live t l'"
    and "event_settled t k \<Longrightarrow> event_settled t' k"
proof -
  let ?g = "\<lambda>r. if lease_current now l r then f r else r"
  have id: "row_id (?g r) = row_id r" for r using f by (simp add: releasing_def)
  consider (fail) e where "res = Inl e" "t' = t"
    | (ok) r where "res = Inr ()" "t' = map ?g t" "r \<in> set t" "lease_current now l r"
    using assms(1)
    by (cases rule: store_complete_cases[where db_ok = db_ok and now = now and l = l and f = f])
      (use assms(3) in auto)
  note split = this
  show "case res of Inl e \<Rightarrow> t' = t
    | Inr _ \<Rightarrow> lease_live t l \<and> \<not> lease_live t' l \<and>
        ((\<forall>r. \<not> unsettled (f r)) \<longrightarrow> event_settled t' (lr_EventID l))"
  proof (cases rule: split)
    case (ok r)
    have "lease_live t l"
      using ok(3,4) by (auto simp: lease_live_def lease_current_def unsettled_def)
    moreover have "\<not> lease_live t' l"
    proof
      assume "lease_live t' l"
      then obtain r' where r': "r' \<in> set t" "row_id (?g r') = lr_EventID l"
        "row_lease_owner (?g r') \<noteq> None"
        unfolding lease_live_def ok(2) by auto
      moreover have "row_id r' = row_id r" using ok(4) r' id by (simp add: lease_current_def)
      ultimately have "r' = r" using table_ok_unique[OF assms(1) _ ok(3)] by blast
      with r'(3) ok(4) f show False by (simp add: releasing_def)
    qed
    moreover have "(\<forall>r. \<not> unsettled (f r)) \<longrightarrow> event_settled t' (lr_EventID l)"
    proof
      assume settles: "\<forall>r. \<not> unsettled (f r)"
      have "f r \<in> set t'" "row_id (f r) = lr_EventID l"
        using ok(2-4) f by (auto simp: lease_current_def releasing_def)
      with settles show "event_settled t' (lr_EventID l)" unfolding event_settled_def by blast
    qed
    ultimately show ?thesis using ok(1) by simp
  qed simp
  show "lease_live t' l' \<Longrightarrow> lease_live t l'"
  proof (cases rule: split)
    case (ok r)
    assume "lease_live t' l'"
    then obtain r' where r': "r' \<in> set t" "row_id (?g r') = lr_EventID l'"
      "row_lease_owner (?g r') = Some (lr_OwnerID l')" "row_lease_token (?g r') = lr_Token l'"
      "unsettled (?g r')"
      unfolding lease_live_def ok(2) by auto
    then have "\<not> lease_current now l r'" using f by (auto simp: releasing_def)
    with r' show "lease_live t l'" unfolding lease_live_def by auto
  qed simp
  show "event_settled t k \<Longrightarrow> event_settled t' k"
  proof (cases rule: split)
    case (ok r)
    assume "event_settled t k"
    then obtain r' where "r' \<in> set t" "row_id r' = k" "\<not> unsettled r'"
      unfolding event_settled_def by blast
    then have "?g r' \<in> set t'" "row_id (?g r') = k" "\<not> unsettled (?g r')"
      using ok(2) id f by (auto simp: releasing_def)
    then show "event_settled t' k" unfolding event_settled_def by blast
  qed simp
qed

lemma store_Retry_complete:
  "store_Retry db_ok now l d c t = (if d \<le> 0 then (Inl (StoreInvalid ''delay''), t)
     else store_complete db_ok now l
       (retry_row now (duration_Milliseconds d) (normalizedErrorCode c)) t)"
  by (simp add: store_Retry_def)

lemma settling_updates:
  "\<not> unsettled (ack_row now r)" "\<not> unsettled (dead_letter_row now c r)"
  by (simp_all add: row_updates unsettled_def)

lemma live_not_settled: "table_ok t \<Longrightarrow> lease_live t l \<Longrightarrow> \<not> event_settled t (lr_EventID l)"
  unfolding lease_live_def event_settled_def by (metis table_ok_unique)

lemma postgres_completes:
  assumes "completes postgres_store l t res t'"
  obtains (update) db_ok now f where "store_complete db_ok now l f t = (res, t')" "releasing f"
      "\<And>r. row_check r \<Longrightarrow> unsettled r \<Longrightarrow> row_check (f r)"
  | (invalid) e where "res = Inl e" "t' = t"
  using assms unfolding completes_def postgres_store_def
proof (elim disjE exE, goal_cases)
  case (1 c)
  then show ?case
    by (cases c) (auto simp: store_Ack_def intro!: update row_check_ack)
next
  case (2 c d code)
  obtain db_ok now where c: "c = (db_ok, now)" by fastforce
  show ?case
  proof (cases "d \<le> 0")
    case True
    with 2 c show ?thesis by (auto simp: store_Retry_def intro: invalid)
  next
    case False
    with 2 c show ?thesis by (auto simp: store_Retry_def intro!: update row_check_retry)
  qed
next
  case (3 c code)
  then show ?case
    by (cases c) (auto simp: store_DeadLetter_def intro!: update row_check_dead_letter)
qed

interpretation pg: leased_store postgres_store table_ok lease_live event_settled
proof
  fix t t' :: outbox_table and l l' res e u k
  assume ok: "table_ok t"
  show "table_ok t'" if "completes postgres_store l t res t'"
    using that
    by (cases rule: postgres_completes)
      (use ok in \<open>auto simp: releasing_def intro: store_complete_table_ok\<close>)
  show "t' = t" if "completes postgres_store l t (Inl e) t'"
    using that
  proof (cases rule: postgres_completes)
    case (update db_ok now f)
    from store_complete_released(1)[OF ok update(2,1)] show ?thesis by simp
  qed
  show "lease_live t l" if "completes postgres_store l t (Inr u) t'"
    using that
  proof (cases rule: postgres_completes)
    case (update db_ok now f)
    from store_complete_released(1)[OF ok update(2,1)] show ?thesis by simp
  qed simp
  show "\<not> lease_live t' l" if "completes postgres_store l t (Inr u) t'"
    using that
  proof (cases rule: postgres_completes)
    case (update db_ok now f)
    from store_complete_released(1)[OF ok update(2,1)] show ?thesis by simp
  qed simp
  show "lease_live t l'" if "completes postgres_store l t res t'" "lease_live t' l'"
    using that(1)
  proof (cases rule: postgres_completes)
    case (update db_ok now f)
    from store_complete_released(2)[OF ok update(2,1) that(2)] show ?thesis .
  qed (use that in simp)
  show "event_settled t' k" if "completes postgres_store l t res t'" "event_settled t k"
    using that(1)
  proof (cases rule: postgres_completes)
    case (update db_ok now f)
    from store_complete_released(3)[OF ok update(2,1) that(2)] show ?thesis .
  qed (use that in simp)
  show "event_settled t' (lr_EventID l)" if "st_Ack postgres_store c l t = (Inr u, t')" for c
    using that store_complete_released(1)[OF ok, of "ack_row (snd c)" "fst c" "snd c" l "Inr u" t']
    by (simp add: postgres_store_def store_Ack_def settling_updates split: prod.splits)
  show "event_settled t' (lr_EventID l)"
    if "st_DeadLetter postgres_store c l code t = (Inr u, t')" for c code
    using that store_complete_released(1)[OF ok,
        of "dead_letter_row (snd c) (normalizedErrorCode code)" "fst c" "snd c" l "Inr u" t']
    by (simp add: postgres_store_def store_DeadLetter_def settling_updates split: prod.splits)
  show "\<not> event_settled t (lr_EventID l)" if "lease_live t l"
    by (rule live_not_settled) (use ok that in auto)
qed

end
