(* ===== verification/Outbox_System.thy ===== *)
theory Outbox_System imports Outbox_Contract begin

section \<open>The outbox with its workers\<close>

text \<open>
  Any number of workers over one table, as a step relation: an application inserts an event,
  time passes, a worker claims a batch (and may crash before it sees the answer), sweeps, or
  finishes one of the events it holds; a worker may also crash and forget an event.  The
  workers share the attempt limit \<open>M\<close>, and claim with leases of at least a millisecond.  The
  events in flight are those that some worker holds and has not finished.
\<close>

record outbox_sys =
  sy_table :: outbox_table
  sy_now :: instant
  sy_inflight :: "outbox_event list"

definition fresh_row :: "outbox_table \<Rightarrow> outbox_row \<Rightarrow> bool" where
  "fresh_row t r \<longleftrightarrow> row_id r \<notin> set (map row_id t) \<and> row_attempts r = 0 \<and>
     row_published_at r = None \<and> row_last_error r = None \<and> row_lease_owner r = None \<and>
     row_lease_token r = 0 \<and> row_leased_at r = None \<and> row_leased_until r = None \<and>
     row_dead_lettered_at r = None"

inductive outbox_step :: "int \<Rightarrow> outbox_sys \<Rightarrow> outbox_sys \<Rightarrow> bool" for M :: int where
  insert_event: "fresh_row (sy_table s) r \<Longrightarrow>
    outbox_step M s (s\<lparr>sy_table := sy_table s @ [r]\<rparr>)"
| tick: "sy_now s \<le> now \<Longrightarrow> outbox_step M s (s\<lparr>sy_now := now\<rparr>)"
| claim: "store_Claim db_ok locked (sy_now s) q (sy_table s) = (res, t') \<Longrightarrow>
    cr_MaxAttempts q = M \<Longrightarrow> time_Millisecond \<le> cr_LeaseDuration q \<Longrightarrow>
    held = [] \<or> res = Inr held \<Longrightarrow>
    outbox_step M s (s\<lparr>sy_table := t', sy_inflight := sy_inflight s @ held\<rparr>)"
| finish: "sy_inflight s = xs @ ev # ys \<Longrightarrow> rc_MaxAttempts c = M \<Longrightarrow>
    snd (pe_call env) = sy_now s \<Longrightarrow>
    processEvent c postgres_store env ev (sy_table s, m) = (t', m') \<Longrightarrow>
    outbox_step M s (s\<lparr>sy_table := t', sy_inflight := xs @ ys\<rparr>)"
| crash: "sy_inflight s = xs @ ev # ys \<Longrightarrow> outbox_step M s (s\<lparr>sy_inflight := xs @ ys\<rparr>)"
| sweep: "store_SweepExhausted db_ok locked (sy_now s) types M limit (sy_table s) = (res, t') \<Longrightarrow>
    outbox_step M s (s\<lparr>sy_table := t'\<rparr>)"

definition outbox_init :: "outbox_sys" where
  "outbox_init = \<lparr>sy_table = [], sy_now = 0, sy_inflight = []\<rparr>"

inductive outbox_reachable :: "int \<Rightarrow> outbox_sys \<Rightarrow> bool" for M :: int where
  start: "outbox_reachable M outbox_init"
| step: "outbox_reachable M s \<Longrightarrow> outbox_step M s s' \<Longrightarrow> outbox_reachable M s'"

subsection \<open>How the rows of the table evolve\<close>

text \<open>
  Every step turns each row into itself, a claimed, released or swept version; the relation
  below records what all of them have in common.  \<open>lo\<close> is the lease a worker completed in
  that step, if it completed one.
\<close>

definition row_evolves ::
  "int \<Rightarrow> instant \<Rightarrow> lease_ref option \<Rightarrow> outbox_row \<Rightarrow> outbox_row \<Rightarrow> bool" where
  "row_evolves M now lo r r' \<longleftrightarrow> row_id r' = row_id r \<and>
     (r' = r \<or>
      (\<exists>q. claimable now (cr_EventTypes q) M r \<and> r' = claim_row now q r) \<or>
      (\<exists>l. lo = Some l \<and> lr_EventID l = row_id r \<and> lr_Token l = row_lease_token r \<and>
         unsettled r \<and> row_lease_owner r \<noteq> None \<and> row_lease_owner r' = None \<and>
         row_lease_token r' = row_lease_token r \<and> row_attempts r' \<le> row_attempts r + 1) \<or>
      (unsettled r \<and> lease_free now r \<and> r' = sweep_row now r))"

definition table_evolves ::
  "int \<Rightarrow> instant \<Rightarrow> lease_ref option \<Rightarrow> outbox_table \<Rightarrow> outbox_table \<Rightarrow> bool" where
  "table_evolves M now lo t t' \<longleftrightarrow> list_all2 (row_evolves M now lo) t t'"

lemma row_evolves_refl [simp]: "row_evolves M now lo r r"
  by (simp add: row_evolves_def)

lemma table_evolves_refl [simp]: "table_evolves M now lo t t"
  by (simp add: table_evolves_def list_all2_refl)

lemma table_evolves_map:
  "(\<And>r. r \<in> set t \<Longrightarrow> row_evolves M now lo r (g r)) \<Longrightarrow> table_evolves M now lo t (map g t)"
  by (simp add: table_evolves_def list_all2_map2 list_all2_same)

lemma claim_evolves:
  assumes "table_ok t" and "store_Claim db_ok locked now q t = (res, t')" and "cr_MaxAttempts q = M"
  shows "table_evolves M now lo t t'"
proof (cases rule: store_Claim_cases[of db_ok locked now q t])
  case (claimed events)
  let ?cs = "claim_candidates locked now q t"
  have "set ?cs \<subseteq> set t" using claim_candidates_in by blast
  note in_cs = update_ids_candidates[OF assms(1) _ this]
  have t': "t' = update_ids (map row_id ?cs) (claim_row now q) t" using claimed(1) assms(2) by simp
  show ?thesis
    unfolding t' update_ids_def
  proof (rule table_evolves_map)
    fix r
    assume r: "r \<in> set t"
    show "row_evolves M now lo r (if row_id r \<in> set (map row_id ?cs) then claim_row now q r else r)"
    proof (cases "r \<in> set ?cs")
      case True
      then have "claimable now (cr_EventTypes q) M r"
        using claim_candidates_in[OF True] assms(3) by simp
      then show ?thesis by (auto simp: row_evolves_def)
    next
      case False
      then show ?thesis unfolding in_cs[OF r] by simp
    qed
  qed
qed (use assms in simp_all)

lemma sweep_evolves:
  assumes "table_ok t" and "store_SweepExhausted db_ok locked now types m n t = (res, t')"
  shows "table_evolves M now lo t t'"
proof (cases "t' = t")
  case False
  let ?cs = "sweep_candidates locked now types m n t"
  have t': "t' = update_ids (map row_id ?cs) (sweep_row now) t"
    using False assms(2) by (auto simp: store_SweepExhausted_def Let_def split: sum.splits if_splits)
  have "set ?cs \<subseteq> set t" using sweep_candidates_in by blast
  note in_cs = update_ids_candidates[OF assms(1) _ this]
  show ?thesis
    unfolding t' update_ids_def
  proof (rule table_evolves_map)
    fix r
    assume r: "r \<in> set t"
    show "row_evolves M now lo r (if row_id r \<in> set (map row_id ?cs) then sweep_row now r else r)"
    proof (cases "r \<in> set ?cs")
      case True
      from sweep_candidates_in[OF True] show ?thesis by (simp add: row_evolves_def exhausted_def)
    next
      case False
      then show ?thesis unfolding in_cs[OF r] by simp
    qed
  qed
qed simp

lemma row_evolves_release:
  assumes "releasing f" and "lease_current clk l r" and "row_attempts (f r) \<le> row_attempts r + 1"
  shows "row_evolves M now (Some l) r (f r)"
proof -
  have "unsettled r" "row_lease_owner r \<noteq> None" "lr_EventID l = row_id r"
    "lr_Token l = row_lease_token r"
    using assms(2) by (simp_all add: lease_current_def unsettled_def)
  moreover have "row_id (f r) = row_id r" "row_lease_owner (f r) = None"
    "row_lease_token (f r) = row_lease_token r" using assms(1) by (simp_all add: releasing_def)
  ultimately show ?thesis unfolding row_evolves_def using assms(3) by blast
qed

lemma complete_evolves:
  assumes "table_ok t" and "completes postgres_store l t res t'"
  shows "table_evolves M now (Some l) t t'"
  using assms(2) unfolding completes_def
proof (elim disjE exE)
  have main: "table_evolves M now (Some l) t t'"
    if "store_complete db_ok clk l f t = (res, t')" "releasing f"
      "\<And>r. row_attempts (f r) \<le> row_attempts r + 1" for db_ok clk f
    using assms(1)
  proof (cases rule: store_complete_cases[where db_ok = db_ok and now = clk and l = l and f = f])
    case (failed e)
    with that show ?thesis by simp
  next
    case (completed r)
    with that have t': "t' = map (\<lambda>r. if lease_current clk l r then f r else r) t" by simp
    show ?thesis
      unfolding t'
      by (rule table_evolves_map) (simp add: row_evolves_release that(2,3))
  qed
  show "table_evolves M now (Some l) t t'" if "st_Ack postgres_store c l t = (res, t')" for c
    using that main by (cases c) (force simp: postgres_store_def store_Ack_def row_updates)
  show "table_evolves M now (Some l) t t'" if "st_DeadLetter postgres_store c l code t = (res, t')" for c code
    using that main by (cases c) (force simp: postgres_store_def store_DeadLetter_def row_updates)
  show "table_evolves M now (Some l) t t'" if "st_Retry postgres_store c l d code t = (res, t')" for c d code
  proof (cases "d \<le> 0")
    case True
    with that show ?thesis by (cases c) (simp add: postgres_store_def store_Retry_def)
  next
    case False
    with that main show ?thesis
      by (cases c) (force simp: postgres_store_def store_Retry_def row_updates)
  qed
qed

lemma finish_evolves:
  assumes "table_ok t" and "processEvent c postgres_store env ev (t, m) = (t', m')"
  shows "table_evolves M now (Some (ev_Lease ev)) t t'"
  using pg.processEvent_effect[OF assms(1), of ev c env m] assms complete_evolves
  by (auto simp: pg.effect_def)

text \<open>
  The shape of a step: at most one fresh row is appended, or the rows evolve with the
  completed lease, if any, of an event that leaves the workers' hands.
\<close>

lemma outbox_step_evolves:
  assumes "outbox_step M s s'" and "table_ok (sy_table s)"
  obtains (appended) r where "sy_table s' = sy_table s @ [r]" "fresh_row (sy_table s) r"
  | (evolved) lo where "table_evolves M (sy_now s) lo (sy_table s) (sy_table s')"
  using assms
proof (induction rule: outbox_step.induct)
  case (claim db_ok locked s q res t' held)
  from claim_evolves[OF claim.prems(3) claim.hyps(1,2)] claim.prems(2)[of None]
  show ?case by simp
next
  case (finish s xs ev ys c env m t' m')
  from finish_evolves[OF finish.prems(3) finish.hyps(4)]
    finish.prems(2)[of "Some (ev_Lease ev)"] show ?case by simp
next
  case (sweep db_ok locked s types limit res t')
  from sweep_evolves[OF sweep.prems(3) sweep.hyps(1)] sweep.prems(2)[of None]
  show ?case by simp
qed (auto intro: table_evolves_refl)

lemma outbox_step_time: "outbox_step M s s' \<Longrightarrow> sy_now s \<le> sy_now s'"
  by (induction rule: outbox_step.induct) auto

lemma fresh_row_check: "fresh_row t r \<Longrightarrow> row_check r"
  by (simp add: fresh_row_def row_check_defs)

lemma outbox_step_table_ok:
  assumes "outbox_step M s s'" and "table_ok (sy_table s)"
  shows "table_ok (sy_table s')"
  using assms
proof (induction rule: outbox_step.induct)
  case (insert_event s r)
  then show ?case by (auto simp: table_ok_def fresh_row_check) (auto simp: fresh_row_def)
next
  case (finish s xs ev ys c env m t' m')
  then show ?case using pg.processEvent_inv[of "sy_table s" c env ev m] by simp
qed (auto intro: store_Claim_table_ok store_SweepExhausted_table_ok)

lemma reachable_table_ok: "outbox_reachable M s \<Longrightarrow> table_ok (sy_table s)"
proof (induction rule: outbox_reachable.induct)
  case start
  show ?case by (simp add: outbox_init_def table_ok_def)
next
  case (step s s')
  then show ?case using outbox_step_table_ok by blast
qed

subsection \<open>Invariants of the reachable states\<close>

text \<open>Attempts stay within the limit, and a leased row has attempts left.\<close>

definition attempts_ok :: "int \<Rightarrow> outbox_row \<Rightarrow> bool" where
  "attempts_ok M r \<longleftrightarrow> row_attempts r \<le> M \<and> (row_lease_owner r \<noteq> None \<longrightarrow> row_attempts r < M)"

lemma row_evolves_attempts: "row_evolves M now lo r r' \<Longrightarrow> attempts_ok M r \<Longrightarrow> attempts_ok M r'"
  unfolding row_evolves_def by (auto simp: attempts_ok_def claimable_def row_updates)

text \<open>
  What holds of an event in some worker's hands: its lease has run out, or its row carries
  exactly this lease.
\<close>

definition held_row :: "instant \<Rightarrow> outbox_row \<Rightarrow> outbox_event \<Rightarrow> bool" where
  "held_row now r ev \<longleftrightarrow> row_id r = ev_ID ev \<and> lr_Token (ev_Lease ev) \<le> row_lease_token r \<and>
     (ev_LeasedUntil ev \<le> now \<or>
      (row_lease_owner r = Some (lr_OwnerID (ev_Lease ev)) \<and>
       row_lease_token r = lr_Token (ev_Lease ev) \<and>
       row_leased_until r = Some (ev_LeasedUntil ev)))"

definition held_ok :: "instant \<Rightarrow> outbox_table \<Rightarrow> outbox_event \<Rightarrow> bool" where
  "held_ok now t ev \<longleftrightarrow> lr_EventID (ev_Lease ev) = ev_ID ev \<and> (\<exists>r\<in>set t. held_row now r ev)"

definition lease_key :: "outbox_event \<Rightarrow> uuid \<times> int" where
  "lease_key ev = (ev_ID ev, lr_Token (ev_Lease ev))"

lemma row_evolves_held:
  assumes "row_evolves M now lo r r'" and "held_row now r ev"
    and "\<forall>l. lo = Some l \<longrightarrow> (lr_EventID l, lr_Token l) \<noteq> lease_key ev"
  shows "held_row now r' ev"
  using assms unfolding row_evolves_def
  by (auto simp: held_row_def lease_free_def sql_le_def row_updates claimable_def lease_key_def
      split: option.splits)

lemma table_evolves_held:
  assumes "table_evolves M now lo t t'" and "held_ok now t ev"
    and "\<forall>l. lo = Some l \<longrightarrow> (lr_EventID l, lr_Token l) \<noteq> lease_key ev"
  shows "held_ok now t' ev"
proof -
  obtain r where r: "r \<in> set t" "held_row now r ev" using assms(2) by (auto simp: held_ok_def)
  then obtain r' where "r' \<in> set t'" "row_evolves M now lo r r'"
    using assms(1) unfolding table_evolves_def
    by (metis list_all2_conv_all_nth in_set_conv_nth)
  with r row_evolves_held assms(2,3) show ?thesis unfolding held_ok_def by blast
qed

definition inv_sys :: "int \<Rightarrow> outbox_sys \<Rightarrow> bool" where
  "inv_sys M s \<longleftrightarrow> table_ok (sy_table s) \<and> list_all (attempts_ok M) (sy_table s) \<and>
     list_all (held_ok (sy_now s) (sy_table s)) (sy_inflight s) \<and>
     distinct (map lease_key (sy_inflight s))"

lemma table_evolves_attempts:
  "table_evolves M now lo t t' \<Longrightarrow> list_all (attempts_ok M) t \<Longrightarrow> list_all (attempts_ok M) t'"
  unfolding table_evolves_def
  by (induction rule: list_all2_induct) (auto dest: row_evolves_attempts)

lemma held_ok_later: "held_ok now t ev \<Longrightarrow> now \<le> now' \<Longrightarrow> held_ok now' t ev"
  by (force simp: held_ok_def held_row_def)

lemma held_ok_append: "held_ok now t ev \<Longrightarrow> held_ok now (t @ rs) ev"
  by (auto simp: held_ok_def)

lemma scan_event_Inr:
  assumes "scan_event now q r = Inr ev"
  shows "ev_ID ev = row_id r" and "lease_key ev = (row_id r, row_lease_token r + 1)"
    and "lr_EventID (ev_Lease ev) = ev_ID ev" and "held_row now (claim_row now q r) ev"
    and "ev_Attempts ev = row_attempts r"
  using assms by (auto simp: scan_event_def lease_key_def held_row_def claim_row_def split: sum.splits)

lemma distinct_candidates:
  assumes "distinct (map row_id t)"
  shows "distinct (map row_id (take n (sort_key k (filter P t))))"
proof -
  have "distinct (map row_id (filter P t))" using assms by (rule distinct_map_filter)
  then have "distinct (map row_id (sort_key k (filter P t)))"
    by (metis distinct_map distinct_sort set_sort)
  then show ?thesis by (metis distinct_take take_map)
qed

lemma held_old_token:
  assumes "table_ok t" and "held_ok now t ev" and "r \<in> set t" and "ev_ID ev = row_id r"
  shows "lr_Token (ev_Lease ev) \<le> row_lease_token r"
proof -
  obtain r' where "r' \<in> set t" "held_row now r' ev" using assms(2) by (auto simp: held_ok_def)
  moreover from this have "r' = r"
    using table_ok_unique[OF assms(1) _ assms(3)] assms(4) by (simp add: held_row_def)
  ultimately show ?thesis by (simp add: held_row_def)
qed

lemma claim_new_events:
  assumes ok: "table_ok t" and claim: "store_Claim db_ok locked now q t = (Inr evs, t')"
  shows "list_all (held_ok now t') evs" and "distinct (map lease_key evs)"
    and "held_ok now t ev \<Longrightarrow> lease_key ev \<notin> set (map lease_key evs)"
proof -
  let ?cs = "claim_candidates locked now q t"
  have "evs = [] \<or> (map_res (scan_event now q) ?cs = Inr evs \<and>
      t' = update_ids (map row_id ?cs) (claim_row now q) t)"
    by (cases rule: store_Claim_cases[of db_ok locked now q t]) (use claim in auto)
  then consider "evs = []" | (new) "map_res (scan_event now q) ?cs = Inr evs"
      "t' = update_ids (map row_id ?cs) (claim_row now q) t" by blast
  note split = this
  show "list_all (held_ok now t') evs"
  proof (cases rule: split)
    case new
    have "held_ok now t' ev" if ev: "ev \<in> set evs" for ev
    proof -
      obtain r where r: "r \<in> set ?cs" "scan_event now q r = Inr ev"
        using map_res_in_set[OF new(1) ev] by blast
      then have "r \<in> set t" using claim_candidates_in by blast
      then have "claim_row now q r \<in> set t'" using r(1) new(2) by (force simp: update_ids_def)
      then show ?thesis using scan_event_Inr[OF r(2)] by (auto simp: held_ok_def)
    qed
    then show ?thesis by (simp add: list_all_iff)
  qed simp
  have keys: "map lease_key evs = map (\<lambda>r. (row_id r, row_lease_token r + 1)) ?cs"
    if "map_res (scan_event now q) ?cs = Inr evs"
    using that by (rule map_res_map) (rule scan_event_Inr)
  show "distinct (map lease_key evs)"
  proof (cases rule: split)
    case new
    have "distinct (map row_id ?cs)"
      unfolding claim_candidates_def using ok
      by (intro distinct_candidates) (simp add: table_ok_def)
    then show ?thesis unfolding keys[OF new(1)] by (auto simp: distinct_map inj_on_def)
  qed simp
  assume old: "held_ok now t ev"
  show "lease_key ev \<notin> set (map lease_key evs)"
  proof (cases rule: split)
    case new
    show ?thesis
    proof
      assume "lease_key ev \<in> set (map lease_key evs)"
      then obtain r where r: "r \<in> set ?cs" "lease_key ev = (row_id r, row_lease_token r + 1)"
        unfolding keys[OF new(1)] by auto
      then have "lr_Token (ev_Lease ev) \<le> row_lease_token r"
        using held_old_token[OF ok old, of r] claim_candidates_in[OF r(1)]
        by (simp add: lease_key_def)
      with r(2) show False by (simp add: lease_key_def)
    qed
  qed simp
qed

lemma list_all_mono': "list_all P xs \<Longrightarrow> (\<And>x. x \<in> set xs \<Longrightarrow> P x \<Longrightarrow> Q x) \<Longrightarrow> list_all Q xs"
  by (simp add: list_all_iff)

lemma inv_sys_step:
  assumes "outbox_step M s s'" and "inv_sys M s" and "0 \<le> M"
  shows "inv_sys M s'"
proof -
  from assms(2) have ok: "table_ok (sy_table s)"
    and att: "list_all (attempts_ok M) (sy_table s)"
    and held: "list_all (held_ok (sy_now s) (sy_table s)) (sy_inflight s)"
    and dist: "distinct (map lease_key (sy_inflight s))" by (simp_all add: inv_sys_def)
  have ok': "table_ok (sy_table s')" by (rule outbox_step_table_ok[OF assms(1) ok])
  have att': "list_all (attempts_ok M) (sy_table s')"
    using assms(1) ok
  proof (cases rule: outbox_step_evolves)
    case (appended r)
    with att assms(3) show ?thesis by (simp add: fresh_row_def attempts_ok_def)
  next
    case (evolved lo)
    then show ?thesis using table_evolves_attempts att by blast
  qed
  have "list_all (held_ok (sy_now s') (sy_table s')) (sy_inflight s') \<and>
      distinct (map lease_key (sy_inflight s'))"
    using assms(1)
  proof (cases rule: outbox_step.cases)
    case (insert_event r)
    then show ?thesis using held dist by (auto elim: list_all_mono' intro: held_ok_append)
  next
    case (tick now)
    then show ?thesis using held dist by (auto elim: list_all_mono' intro: held_ok_later)
  next
    case (claim db_ok locked q res t' new)
    have "list_all (held_ok (sy_now s) t') (sy_inflight s)"
      using held by (rule list_all_mono')
        (rule table_evolves_held[OF claim_evolves[OF ok claim(2,3), of None]], simp_all)
    moreover have "list_all (held_ok (sy_now s) t') new \<and> distinct (map lease_key new) \<and>
        lease_key ` set (sy_inflight s) \<inter> lease_key ` set new = {}"
    proof (cases "new = []")
      case False
      with claim have res: "store_Claim db_ok locked (sy_now s) q (sy_table s) = (Inr new, t')" by simp
      have "lease_key ev \<notin> lease_key ` set new" if "ev \<in> set (sy_inflight s)" for ev
        using claim_new_events(3)[OF ok res, of ev] held that by (simp add: list_all_iff)
      with claim_new_events(1,2)[OF ok res] show ?thesis by blast
    qed simp
    ultimately show ?thesis using claim(1) dist by simp
  next
    case (finish xs ev ys c env m t' m')
    have "list_all (held_ok (sy_now s) t') (xs @ ys)"
    proof (rule list_all_mono'[where P = "held_ok (sy_now s) (sy_table s)"])
      show "list_all (held_ok (sy_now s) (sy_table s)) (xs @ ys)" using held finish(2) by simp
      fix e
      assume e: "e \<in> set (xs @ ys)" "held_ok (sy_now s) (sy_table s) e"
      have "lease_key ev \<noteq> lease_key e" using dist finish(2) e(1) by force
      moreover have "lr_EventID (ev_Lease ev) = ev_ID ev"
        using held finish(2) by (simp add: held_ok_def)
      ultimately show "held_ok (sy_now s) t' e"
        using table_evolves_held[OF finish_evolves[OF ok finish(5)] e(2)]
        by (simp add: lease_key_def)
    qed
    then show ?thesis using finish(1,2) dist by auto
  next
    case (crash xs ev ys)
    then show ?thesis using held dist by auto
  next
    case (sweep db_ok locked types limit res t')
    have "list_all (held_ok (sy_now s) t') (sy_inflight s)"
      using held by (rule list_all_mono')
        (rule table_evolves_held[OF sweep_evolves[OF ok sweep(2), of M None]], simp_all)
    then show ?thesis using sweep dist by simp
  qed
  with ok' att' show ?thesis by (simp add: inv_sys_def)
qed

lemma reachable_inv_sys: "outbox_reachable M s \<Longrightarrow> 0 \<le> M \<Longrightarrow> inv_sys M s"
proof (induction rule: outbox_reachable.induct)
  case start
  show ?case by (simp add: inv_sys_def outbox_init_def table_ok_def)
next
  case (step s s')
  then show ?case using inv_sys_step by blast
qed

lemma row_evolves_settled: "row_evolves M now lo r r' \<Longrightarrow> \<not> unsettled r \<Longrightarrow> r' = r"
  by (auto simp: row_evolves_def claimable_def)

lemma stale_lease_dead:
  assumes "inv_sys M s" and "ev \<in> set (sy_inflight s)" and "ev' \<in> set (sy_inflight s)"
    and "ev_ID ev = ev_ID ev'" and "lr_Token (ev_Lease ev) < lr_Token (ev_Lease ev')"
  shows "\<not> lease_live (sy_table s) (ev_Lease ev)"
proof
  assume "lease_live (sy_table s) (ev_Lease ev)"
  then obtain r where r: "r \<in> set (sy_table s)" "row_id r = lr_EventID (ev_Lease ev)"
    "row_lease_token r = lr_Token (ev_Lease ev)" by (auto simp: lease_live_def)
  have held: "held_ok (sy_now s) (sy_table s) e" if "e \<in> set (sy_inflight s)" for e
    using assms(1) that by (simp add: inv_sys_def list_all_iff)
  have "ev_ID ev' = row_id r" using r(2) held[OF assms(2)] assms(4) by (simp add: held_ok_def)
  then have "lr_Token (ev_Lease ev') \<le> row_lease_token r"
    using held_old_token[OF _ held[OF assms(3)] r(1)] assms(1) by (simp add: inv_sys_def)
  with r(3) assms(5) show False by simp
qed

subsection \<open>Properties of the outbox\<close>

text \<open>
  The database constraints always hold: in every reachable state of the table and its
  workers the primary key is unique, every CHECK constraint of migrations 000003 and 000015
  holds of every row, and no row has been attempted more often than the limit.
\<close>

theorem outbox_constraints_invariant:
  assumes "outbox_reachable M s" and "0 \<le> M"
  shows "table_ok (sy_table s) \<and> list_all (\<lambda>r. row_attempts r \<le> M) (sy_table s)"
  using reachable_inv_sys[OF assms] by (auto simp: inv_sys_def attempts_ok_def list_all_iff)

definition example_row :: outbox_row where
  "example_row = \<lparr>row_id = 5, row_tenant_id = Some 1, row_aggregate_type = ''class'',
     row_aggregate_id = 9, row_event_type = ''class.created.v1'', row_payload = ''{}'',
     row_occurred_at = 0, row_available_at = 0, row_attempts = 0, row_published_at = None,
     row_last_error = None, row_lease_owner = None, row_lease_token = 0, row_leased_at = None,
     row_leased_until = None, row_dead_lettered_at = None\<rparr>"

definition example_sys :: outbox_sys where
  "example_sys = outbox_init\<lparr>sy_table := [example_row]\<rparr>"

lemma example_sys_reachable: "outbox_reachable M example_sys"
proof -
  have "outbox_step M outbox_init (outbox_init\<lparr>sy_table := sy_table outbox_init @ [example_row]\<rparr>)"
    by (rule outbox_step.insert_event) (simp add: fresh_row_def outbox_init_def example_row_def)
  then have "outbox_step M outbox_init example_sys"
    by (simp add: example_sys_def outbox_init_def)
  with outbox_reachable.start show ?thesis by (rule outbox_reachable.step)
qed

theorem outbox_constraints_invariant_witness:
  "outbox_reachable 3 example_sys \<and> table_ok (sy_table example_sys) \<and>
   sy_table example_sys = [example_row]"
  using outbox_constraints_invariant[OF example_sys_reachable[of 3]] example_sys_reachable[of 3]
  by (simp add: example_sys_def outbox_init_def)

text \<open>
  The run the witnesses use: an event is inserted, worker 7 claims it for a millisecond, the
  millisecond passes, and worker 8 claims it again while worker 7 still holds it.
\<close>

definition example_request :: "uuid \<Rightarrow> claim_request" where
  "example_request owner = \<lparr>cr_EventTypes = [''class.created.v1''], cr_OwnerID = owner,
     cr_BatchSize = 1, cr_LeaseDuration = time_Millisecond, cr_MaxAttempts = 3\<rparr>"

definition example_claimed_row :: "uuid \<Rightarrow> int \<Rightarrow> instant \<Rightarrow> outbox_row" where
  "example_claimed_row owner token now = example_row\<lparr>row_lease_owner := Some owner,
     row_lease_token := token, row_leased_at := Some now,
     row_leased_until := Some (now + time_Millisecond)\<rparr>"

definition example_event :: "uuid \<Rightarrow> int \<Rightarrow> instant \<Rightarrow> bool \<Rightarrow> outbox_event" where
  "example_event owner token now reclaimed = \<lparr>ev_ID = 5, ev_TenantID = Some 1,
     ev_AggregateType = ''class'', ev_AggregateID = 9,
     ev_Type = \<lparr>et_name = ''class.created'', et_version = 1\<rparr>, ev_Payload = ''{}'',
     ev_OccurredAt = 0, ev_AvailableAt = 0, ev_Attempts = 0,
     ev_Lease = \<lparr>lr_EventID = 5, lr_OwnerID = owner, lr_Token = token\<rparr>,
     ev_Reclaimed = reclaimed, ev_LeasedAt = now, ev_LeasedUntil = now + time_Millisecond\<rparr>"

lemma digit_char_1 [simp]: "digit_char (Suc 0) = CHR ''1''"
  by code_simp

lemma example_event_type:
  "valid_event_type \<lparr>et_name = ''class.created'', et_version = 1\<rparr>"
  "EventType_String \<lparr>et_name = ''class.created'', et_version = 1\<rparr> = ''class.created.v1''"
  by (simp_all add: valid_event_type_def EventType_String_def eventNamePattern_def ident_segment_def
      ident_char_def is_lower_def is_digit_def format_uint.simps[of "Suc 0"])

lemmas example_event_string [simp] = example_event_type(2) [simplified]

lemma example_parse:
  "ParseEventType ''class.created.v1'' = Inr \<lparr>et_name = ''class.created'', et_version = 1\<rparr>"
  using ParseEventType_String_ok[OF example_event_type(1)] unfolding example_event_type(2) .

lemma example_ms: "duration_Milliseconds time_Millisecond = 1"
  by (simp add: duration_Milliseconds_def go_quot_def time_units)

lemma example_request_fields [simp]:
  "cr_EventTypes (example_request w) = [''class.created.v1'']" "cr_OwnerID (example_request w) = w"
  "cr_BatchSize (example_request w) = 1" "cr_LeaseDuration (example_request w) = time_Millisecond"
  "cr_MaxAttempts (example_request w) = 3"
  by (simp_all add: example_request_def)

lemma example_validate: "owner \<noteq> 0 \<Longrightarrow> validateClaimRequest (example_request owner) = Inr ()"
  by (simp add: validateClaimRequest_def validateEventTypes_def example_parse time_units)

lemma example_candidates_first: "claim_candidates [] 0 (example_request 7) [example_row] = [example_row]"
  by (simp add: claim_candidates_def claimable_def unsettled_def lease_free_def example_row_def)

lemma example_candidates_second:
  "claim_candidates [] time_Millisecond (example_request 8) [example_claimed_row 7 1 0] =
     [example_claimed_row 7 1 0]"
  by (simp add: claim_candidates_def claimable_def unsettled_def lease_free_def sql_le_def
      example_claimed_row_def example_row_def time_units)

lemma example_claim_first:
  "store_Claim True [] 0 (example_request 7) [example_row] =
     (Inr [example_event 7 1 0 False], [example_claimed_row 7 1 0])"
  by (simp add: store_Claim_def Let_def example_validate example_candidates_first update_ids_def)
    (simp add: scan_event_def claim_row_def example_row_def example_parse
      example_event_def example_claimed_row_def example_ms update_ids_def)

lemma example_claim_second:
  "store_Claim True [] time_Millisecond (example_request 8) [example_claimed_row 7 1 0] =
     (Inr [example_event 8 2 time_Millisecond True], [example_claimed_row 8 2 time_Millisecond])"
  by (simp add: store_Claim_def Let_def example_validate example_candidates_second update_ids_def)
    (simp add: scan_event_def claim_row_def example_row_def example_parse
      example_event_def example_claimed_row_def example_ms update_ids_def)

definition example_sys_claimed :: outbox_sys where
  "example_sys_claimed = \<lparr>sy_table = [example_claimed_row 7 1 0], sy_now = 0,
     sy_inflight = [example_event 7 1 0 False]\<rparr>"

definition example_sys_reclaimed :: outbox_sys where
  "example_sys_reclaimed = \<lparr>sy_table = [example_claimed_row 8 2 time_Millisecond],
     sy_now = time_Millisecond,
     sy_inflight = [example_event 7 1 0 False, example_event 8 2 time_Millisecond True]\<rparr>"

lemma example_request_limits:
  "cr_MaxAttempts (example_request w) = 3" "time_Millisecond \<le> cr_LeaseDuration (example_request w)"
  by simp_all

lemma example_sys_claimed_reachable: "outbox_reachable 3 example_sys_claimed"
proof -
  have "outbox_step 3 example_sys (example_sys\<lparr>sy_table := [example_claimed_row 7 1 0],
      sy_inflight := sy_inflight example_sys @ [example_event 7 1 0 False]\<rparr>)"
    by (rule outbox_step.claim[where db_ok = True and locked = "[]" and q = "example_request 7"
          and res = "Inr [example_event 7 1 0 False]"])
      (simp_all add: example_sys_def outbox_init_def example_claim_first example_request_limits)
  then have "outbox_step 3 example_sys example_sys_claimed"
    by (simp add: example_sys_def example_sys_claimed_def outbox_init_def)
  with example_sys_reachable show ?thesis by (rule outbox_reachable.step)
qed

lemma example_sys_reclaimed_reachable: "outbox_reachable 3 example_sys_reclaimed"
proof -
  let ?s = "example_sys_claimed\<lparr>sy_now := time_Millisecond\<rparr>"
  have "outbox_step 3 example_sys_claimed ?s"
    by (rule outbox_step.tick) (simp add: example_sys_claimed_def time_units)
  with example_sys_claimed_reachable have later: "outbox_reachable 3 ?s"
    by (rule outbox_reachable.step)
  have "outbox_step 3 ?s (?s\<lparr>sy_table := [example_claimed_row 8 2 time_Millisecond],
      sy_inflight := sy_inflight ?s @ [example_event 8 2 time_Millisecond True]\<rparr>)"
    by (rule outbox_step.claim[where db_ok = True and locked = "[]" and q = "example_request 8"
          and res = "Inr [example_event 8 2 time_Millisecond True]"])
      (simp_all add: example_sys_claimed_def example_claim_second example_request_limits)
  then have "outbox_step 3 ?s example_sys_reclaimed"
    by (simp add: example_sys_claimed_def example_sys_reclaimed_def)
  with later show ?thesis by (rule outbox_reachable.step)
qed

lemma example_events [simp]:
  "ev_ID (example_event w k n b) = 5" "lr_Token (ev_Lease (example_event w k n b)) = k"
  "ev_LeasedUntil (example_event w k n b) = n + time_Millisecond"
  by (simp_all add: example_event_def)

text \<open>
  A settled event is final: a row that is published or dead-lettered is never changed by
  any later step, so an event is published or dead-lettered at most once and never both.
\<close>

theorem outbox_settled_final:
  assumes "outbox_reachable M s" and "outbox_step M s s'"
    and "r \<in> set (sy_table s)" and "\<not> (row_published_at r = None \<and> row_dead_lettered_at r = None)"
  shows "r \<in> set (sy_table s')"
  using assms(2) reachable_table_ok[OF assms(1)]
proof (cases rule: outbox_step_evolves)
  case (evolved lo)
  then obtain r' where "r' \<in> set (sy_table s')" "row_evolves M (sy_now s) lo r r'"
    using assms(3) unfolding table_evolves_def
    by (metis list_all2_conv_all_nth in_set_conv_nth)
  then show ?thesis
    using row_evolves_settled[of M "sy_now s" lo r r'] assms(4) by (auto simp: unsettled_def)
qed (use assms(3) in simp)

text \<open>The state in which worker 7 has published the event.\<close>

definition example_sys_published :: outbox_sys where
  "example_sys_published =
     \<lparr>sy_table = [ack_row 0 (example_claimed_row 7 1 0)], sy_now = 0, sy_inflight = []\<rparr>"

definition example_config :: runner_config where
  "example_config = \<lparr>rc_OwnerID = 7, rc_BatchSize = 1, rc_Concurrency = 1, rc_PollInterval = 1,
     rc_MetricsInterval = 1, rc_LeaseDuration = time_Millisecond, rc_HandlerTimeout = 1,
     rc_ShutdownTimeout = 1, rc_MaxAttempts = 3,
     rc_Backoff = \<lparr>bo_base = 1, bo_maximum = 1, bo_jitter = 0\<rparr>, rc_HasStore = True,
     rc_Registry = Some [(''class.created.v1'',
       \<lparr>rh_EventType = \<lparr>et_name = ''class.created'', et_version = 1\<rparr>, rh_HandlerName = ''h'',
        rh_handle = Some (\<lambda>_. HandlerReturned None)\<rparr>)]\<rparr>"

definition example_env :: process_env where
  "example_env = \<lparr>pe_cancelled = False, pe_deadline = False, pe_elapsed = 0,
     pe_call = (True, 0), pe_unit = 0, pe_fl = (\<lambda>x. x)\<rparr>"

lemma example_resolve: "Registry_Resolve (rc_Registry example_config)
    (ev_Type (example_event w k n b)) = Some \<lparr>rh_EventType = \<lparr>et_name = ''class.created'',
      et_version = 1\<rparr>, rh_HandlerName = ''h'', rh_handle = Some (\<lambda>_. HandlerReturned None)\<rparr>"
  by (simp add: Registry_Resolve_def example_config_def example_event_def)

lemma example_publish: "fst (processEvent example_config postgres_store example_env
    (example_event 7 1 0 False) ([example_claimed_row 7 1 0], None)) =
    [ack_row 0 (example_claimed_row 7 1 0)]"
  by (simp add: processEvent_def example_resolve example_env_def invokeHandler_def
      RegisteredHandler_Handle_def processOutcome_def postgres_store_def store_Ack_def
      store_complete_def LeaseRef_Validate_def)
    (simp add: example_event_def lease_current_def example_claimed_row_def example_row_def
      sql_gt_def time_units)

lemma example_sys_published_reachable: "outbox_reachable 3 example_sys_published"
proof -
  obtain m' where p: "processEvent example_config postgres_store example_env
      (example_event 7 1 0 False) ([example_claimed_row 7 1 0], None) =
      ([ack_row 0 (example_claimed_row 7 1 0)], m')"
    using example_publish by (metis prod.collapse)
  have "outbox_step 3 example_sys_claimed (example_sys_claimed\<lparr>
      sy_table := [ack_row 0 (example_claimed_row 7 1 0)], sy_inflight := [] @ []\<rparr>)"
    by (rule outbox_step.finish[where c = example_config and env = example_env and m = None
          and ev = "example_event 7 1 0 False" and m' = m'])
      (simp_all add: example_sys_claimed_def p example_config_def[THEN arg_cong[of _ _ rc_MaxAttempts]]
        example_env_def[THEN arg_cong[of _ _ pe_call]])
  then have "outbox_step 3 example_sys_claimed example_sys_published"
    by (simp add: example_sys_claimed_def example_sys_published_def)
  with example_sys_claimed_reachable show ?thesis by (rule outbox_reachable.step)
qed

theorem outbox_settled_final_witness:
  "ack_row 0 (example_claimed_row 7 1 0) \<in> set (sy_table (example_sys_published\<lparr>sy_now := 9\<rparr>))"
proof -
  have "outbox_step 3 example_sys_published (example_sys_published\<lparr>sy_now := 9\<rparr>)"
    by (rule outbox_step.tick) (simp add: example_sys_published_def)
  from outbox_settled_final[OF example_sys_published_reachable this] show ?thesis
    by (simp add: example_sys_published_def row_updates)
qed

text \<open>
  C20.  A lease excludes every other worker while it runs: of two events with the same id in
  workers' hands, the lease tokens differ and at least one of the two leases has run out.
\<close>

theorem outbox_lease_exclusive:
  assumes "outbox_reachable M s" and "0 \<le> M"
    and "sy_inflight s = xs @ ev # ys @ ev' # zs" and "ev_ID ev = ev_ID ev'"
  shows "lr_Token (ev_Lease ev) \<noteq> lr_Token (ev_Lease ev') \<and>
    (ev_LeasedUntil ev \<le> sy_now s \<or> ev_LeasedUntil ev' \<le> sy_now s)"
proof -
  have inv: "inv_sys M s" by (rule reachable_inv_sys[OF assms(1,2)])
  have "lease_key ev \<noteq> lease_key ev'" using inv assms(3) by (auto simp: inv_sys_def)
  then have tokens: "lr_Token (ev_Lease ev) \<noteq> lr_Token (ev_Lease ev')"
    using assms(4) by (simp add: lease_key_def)
  obtain r r' where "r \<in> set (sy_table s)" "held_row (sy_now s) r ev"
    "r' \<in> set (sy_table s)" "held_row (sy_now s) r' ev'"
    using inv assms(3) by (auto simp: inv_sys_def held_ok_def)
  moreover from this have "r = r'"
    using table_ok_unique[of "sy_table s"] inv assms(4) by (auto simp: inv_sys_def held_row_def)
  ultimately show ?thesis using tokens by (auto simp: held_row_def)
qed

theorem outbox_lease_exclusive_witness:
  "outbox_reachable 3 example_sys_reclaimed \<and>
   (\<exists>ev ev'. sy_inflight example_sys_reclaimed = [ev, ev'] \<and> ev_ID ev = ev_ID ev' \<and>
      ev_LeasedUntil ev \<le> sy_now example_sys_reclaimed)"
  using outbox_lease_exclusive[OF example_sys_reclaimed_reachable, of "[]"
      "example_event 7 1 0 False" "[]" "example_event 8 2 time_Millisecond True" "[]"]
    example_sys_reclaimed_reachable
  by (simp add: example_sys_reclaimed_def time_units)

text \<open>
  C21.  Fencing: once an event has been claimed again, the worker that still holds the older
  lease can change nothing, whatever its handler returned and however late it comes.
\<close>

theorem outbox_fencing:
  assumes "outbox_reachable M s" and "0 \<le> M"
    and "ev \<in> set (sy_inflight s)" and "ev' \<in> set (sy_inflight s)" and "ev_ID ev = ev_ID ev'"
    and "lr_Token (ev_Lease ev) < lr_Token (ev_Lease ev')"
  shows "fst (processEvent c postgres_store env ev (sy_table s, m)) = sy_table s"
proof -
  have inv: "inv_sys M s" by (rule reachable_inv_sys[OF assms(1,2)])
  then have "table_ok (sy_table s)" by (simp add: inv_sys_def)
  then show ?thesis
    using pg.effect_dead_lease[OF _ stale_lease_dead[OF inv assms(3-6)]]
      pg.processEvent_effect by blast
qed

theorem outbox_fencing_witness:
  "fst (processEvent example_config postgres_store example_env (example_event 7 1 0 False)
     (sy_table example_sys_reclaimed, None)) = sy_table example_sys_reclaimed"
  by (rule outbox_fencing[OF example_sys_reclaimed_reachable,
        of _ "example_event 8 2 time_Millisecond True"])
    (simp_all add: example_sys_reclaimed_def)

text \<open>
  C40.  What a worker decides about an event it holds: with a current lease and a healthy
  database, \<open>processEvent\<close> publishes the row when the handler succeeds, dead-letters it when the
  failure is permanent or the attempts are used up, and otherwise schedules the retry after
  the backoff delay; a timeout counts as a retryable failure, and a cancelled context leaves
  the row alone.
\<close>

theorem processEvent_decides:
  assumes "table_ok t" and "r \<in> set t" and "lease_current now (ev_Lease ev) r"
    and "LeaseRef_Validate (ev_Lease ev)" and "pe_call env = (True, now)"
    and "Registry_Resolve (rc_Registry c) (ev_Type ev) = Some h" and "\<not> pe_cancelled env"
    and "err = (if pe_deadline env then Some (Retryable ErrorCodeHandlerTimeout) else invokeHandler h ev)"
    and "delay = Delay (pe_fl env) (rc_Backoff c) (ev_Attempts ev + 1) (pe_unit env)"
    and "0 < delay"
  shows "fst (processEvent c postgres_store env ev (t, m)) =
    map (\<lambda>r. if lease_current now (ev_Lease ev) r then
        (if err = None then ack_row now r
         else if snd (ClassifyFailure err) = FailurePermanent
           then dead_letter_row now (normalizedErrorCode (fst (ClassifyFailure err))) r
         else if rc_MaxAttempts c \<le> ev_Attempts ev + 1
           then dead_letter_row now ErrorCodeAttemptsExhausted r
         else retry_row now (duration_Milliseconds delay)
           (normalizedErrorCode (fst (ClassifyFailure err))) r)
      else r) t"
proof -
  have len: "length (filter (lease_current now (ev_Lease ev)) t) = 1"
    using affected_at_most_one[OF assms(1), of now "ev_Lease ev"] assms(2,3)
    by (cases "filter (lease_current now (ev_Lease ev)) t")
      (auto simp: filter_empty_conv)
  have complete: "store_complete True now (ev_Lease ev) f t =
      (Inr (), map (\<lambda>r. if lease_current now (ev_Lease ev) r then f r else r) t)" for f
    using len assms(4) by (simp add: store_complete_def)
  obtain code disp where cd: "ClassifyFailure err = (code, disp)" by fastforce
  have proc: "fst (processEvent c postgres_store env ev (t, m)) =
      fst (processOutcome c postgres_store env ev (rh_HandlerName h) err (t, m))"
    using assms(6-8) by (simp add: processEvent_def Let_def)
  show ?thesis
  proof (cases err)
    case None
    then show ?thesis
      unfolding proc
      by (simp add: processOutcome_def postgres_store_def store_Ack_def complete assms(5))
  next
    case (Some e)
    then show ?thesis
      unfolding proc using cd assms(9,10)
      by (simp add: processOutcome_def finishDeadLetter_def postgres_store_def store_Retry_def
          store_DeadLetter_def complete assms(5) Let_def)
  qed
qed

theorem processEvent_decides_witness:
  "fst (processEvent example_config postgres_store example_env (example_event 7 1 0 False)
     ([example_claimed_row 7 1 0], None)) = [ack_row 0 (example_claimed_row 7 1 0)]"
proof -
  have current: "lease_current 0 (ev_Lease (example_event 7 1 0 False)) (example_claimed_row 7 1 0)"
    by (simp add: example_event_def lease_current_def example_claimed_row_def example_row_def
        sql_gt_def time_units)
  have check: "table_ok [example_claimed_row 7 1 0]"
    by (simp add: table_ok_def row_check_defs example_claimed_row_def example_row_def time_units)
  have valid: "LeaseRef_Validate (ev_Lease (example_event 7 1 0 False))"
    by (simp add: LeaseRef_Validate_def example_event_def)
  have run: "None = (if pe_deadline example_env then Some (Retryable ErrorCodeHandlerTimeout)
      else invokeHandler \<lparr>rh_EventType = \<lparr>et_name = ''class.created'', et_version = 1\<rparr>,
        rh_HandlerName = ''h'', rh_handle = Some (\<lambda>_. HandlerReturned None)\<rparr>
        (example_event 7 1 0 False))"
    by (simp add: example_env_def invokeHandler_def RegisteredHandler_Handle_def)
  have delay: "0 < Delay (pe_fl example_env) (rc_Backoff example_config)
      (ev_Attempts (example_event 7 1 0 False) + 1) (pe_unit example_env)"
    by (simp add: Delay_def example_env_def example_config_def example_event_def truncate_float_def)
  from processEvent_decides[OF check _ current valid _ example_resolve _ run refl delay, of None]
  show ?thesis using current by (simp add: example_env_def)
qed

end
