(* ===== verification/Feature_Catalog.thy ===== *)
theory Feature_Catalog imports Go_Strings Policy_Engine begin

section \<open>The catalogue of feature controls (internal/modules/featurecontrol/catalog.go)\<close>

text \<open>
  The compiled catalogue of features and quotas, the deployment guardrails that the
  constructor checks, the evaluation of a feature or a quota for a tenant, and the
  normalisation of the overrides a tenant asks for (service.go).  A Go map is a list of pairs
  with distinct keys where the code iterates over it, and a function into options where it
  only looks keys up.  A key outside the catalogue is \<open>FeatureOther\<close> or \<open>QuotaOther\<close>.
\<close>

subsection \<open>Keys and definitions\<close>

datatype feature_key =
    FeatureMembershipInvitations | FeatureClassManagement | FeatureClassInviteLinks
  | FeatureClassSessionScheduling | FeatureClassSessionRecurrence | FeatureInAppNotifications
  | FeatureAvailabilityPolls | FeatureConversations | FeatureFileUploads
  | FeatureClassroomMediaRooms | FeatureInstantStudyRooms | FeatureClassroomWhiteboards
  | FeatureOther string

datatype quota_key =
    QuotaMembers | QuotaActiveClasses | QuotaInviteCreationsPerHour
  | QuotaActiveAvailabilityPolls | QuotaAvailabilityPollRangeDays | QuotaAvailabilityPollSlots
  | QuotaAvailabilityPollParticipants | QuotaAvailabilityPollCreationsPerHour
  | QuotaAvailabilityPollCapabilityCreationsPerHour | QuotaActiveStudyMeetings
  | QuotaStudyMeetingCreationsPerHour | QuotaMessagesPerTenant | QuotaMessageSendsPerHour
  | QuotaFilesPerTenant | QuotaFileBytesPerTenant | QuotaSingleFileBytes
  | QuotaFileUploadIntentsPerHour | QuotaActiveMediaSpaces | QuotaMediaParticipantsPerSpace
  | QuotaActiveMediaParticipants | QuotaMediaSpaceStartsPerHour
  | QuotaWhiteboardDocumentsPerTenant | QuotaWhiteboardConnectionsPerTenant
  | QuotaWhiteboardStorageBytesPerTenant | QuotaWhiteboardOperationsPerMinute
  | QuotaOther string

fun feature_key_string :: "feature_key \<Rightarrow> string" where
  "feature_key_string FeatureMembershipInvitations = ''membership_invitations''"
| "feature_key_string FeatureClassManagement = ''class_management''"
| "feature_key_string FeatureClassInviteLinks = ''class_invite_links''"
| "feature_key_string FeatureClassSessionScheduling = ''class_session_scheduling''"
| "feature_key_string FeatureClassSessionRecurrence = ''class_session_recurrence''"
| "feature_key_string FeatureInAppNotifications = ''in_app_notifications''"
| "feature_key_string FeatureAvailabilityPolls = ''availability_polls''"
| "feature_key_string FeatureConversations = ''conversations''"
| "feature_key_string FeatureFileUploads = ''file_uploads''"
| "feature_key_string FeatureClassroomMediaRooms = ''classroom_media_rooms''"
| "feature_key_string FeatureInstantStudyRooms = ''instant_study_rooms''"
| "feature_key_string FeatureClassroomWhiteboards = ''classroom_whiteboards''"
| "feature_key_string (FeatureOther s) = s"

fun quota_key_string :: "quota_key \<Rightarrow> string" where
  "quota_key_string QuotaMembers = ''members''"
| "quota_key_string QuotaActiveClasses = ''active_classes''"
| "quota_key_string QuotaInviteCreationsPerHour = ''invite_creations_per_hour''"
| "quota_key_string QuotaActiveAvailabilityPolls = ''active_availability_polls''"
| "quota_key_string QuotaAvailabilityPollRangeDays = ''availability_poll_range_days''"
| "quota_key_string QuotaAvailabilityPollSlots = ''availability_poll_slots''"
| "quota_key_string QuotaAvailabilityPollParticipants = ''availability_poll_participants''"
| "quota_key_string QuotaAvailabilityPollCreationsPerHour = ''availability_poll_creations_per_hour''"
| "quota_key_string QuotaAvailabilityPollCapabilityCreationsPerHour = ''availability_poll_capability_creations_per_hour''"
| "quota_key_string QuotaActiveStudyMeetings = ''active_study_meetings''"
| "quota_key_string QuotaStudyMeetingCreationsPerHour = ''study_meeting_creations_per_hour''"
| "quota_key_string QuotaMessagesPerTenant = ''messages_per_tenant''"
| "quota_key_string QuotaMessageSendsPerHour = ''message_sends_per_hour''"
| "quota_key_string QuotaFilesPerTenant = ''files_per_tenant''"
| "quota_key_string QuotaFileBytesPerTenant = ''file_bytes_per_tenant''"
| "quota_key_string QuotaSingleFileBytes = ''single_file_bytes''"
| "quota_key_string QuotaFileUploadIntentsPerHour = ''file_upload_intents_per_hour''"
| "quota_key_string QuotaActiveMediaSpaces = ''active_media_spaces''"
| "quota_key_string QuotaMediaParticipantsPerSpace = ''media_participants_per_space''"
| "quota_key_string QuotaActiveMediaParticipants = ''active_media_participants''"
| "quota_key_string QuotaMediaSpaceStartsPerHour = ''media_space_starts_per_hour''"
| "quota_key_string QuotaWhiteboardDocumentsPerTenant = ''whiteboard_documents_per_tenant''"
| "quota_key_string QuotaWhiteboardConnectionsPerTenant = ''whiteboard_connections_per_tenant''"
| "quota_key_string QuotaWhiteboardStorageBytesPerTenant = ''whiteboard_storage_bytes_per_tenant''"
| "quota_key_string QuotaWhiteboardOperationsPerMinute = ''whiteboard_operations_per_minute''"
| "quota_key_string (QuotaOther s) = s"

datatype value_source =
    ValueSourceCatalogDefault | ValueSourceTenantOverride | ValueSourceDeploymentGuardrail

record quota_definition =
  qd_DefaultLimit :: int
  qd_MinimumLimit :: int
  qd_MaximumLimit :: int

text \<open>\<open>featureDefinitions\<close>: the default of every feature of the catalogue.\<close>

fun featureDefinitions :: "feature_key \<Rightarrow> bool option" where
  "featureDefinitions FeatureMembershipInvitations = Some True"
| "featureDefinitions FeatureClassManagement = Some True"
| "featureDefinitions FeatureClassInviteLinks = Some True"
| "featureDefinitions FeatureClassSessionScheduling = Some True"
| "featureDefinitions FeatureClassSessionRecurrence = Some True"
| "featureDefinitions FeatureInAppNotifications = Some True"
| "featureDefinitions FeatureAvailabilityPolls = Some True"
| "featureDefinitions FeatureConversations = Some True"
| "featureDefinitions FeatureFileUploads = Some True"
| "featureDefinitions FeatureClassroomMediaRooms = Some False"
| "featureDefinitions FeatureInstantStudyRooms = Some False"
| "featureDefinitions FeatureClassroomWhiteboards = Some False"
| "featureDefinitions (FeatureOther s) = None"

abbreviation quota_limits :: "int \<Rightarrow> int \<Rightarrow> int \<Rightarrow> quota_definition option" where
  "quota_limits d lo hi \<equiv> Some \<lparr>qd_DefaultLimit = d, qd_MinimumLimit = lo, qd_MaximumLimit = hi\<rparr>"

fun quotaDefinitions :: "quota_key \<Rightarrow> quota_definition option" where
  "quotaDefinitions QuotaMembers = quota_limits 100 1 10000"
| "quotaDefinitions QuotaActiveClasses = quota_limits 25 1 1000"
| "quotaDefinitions QuotaInviteCreationsPerHour = quota_limits 60 1 10000"
| "quotaDefinitions QuotaActiveAvailabilityPolls = quota_limits 20 1 200"
| "quotaDefinitions QuotaAvailabilityPollRangeDays = quota_limits 31 1 90"
| "quotaDefinitions QuotaAvailabilityPollSlots = quota_limits 336 1 1000"
| "quotaDefinitions QuotaAvailabilityPollParticipants = quota_limits 100 1 500"
| "quotaDefinitions QuotaAvailabilityPollCreationsPerHour = quota_limits 20 1 200"
| "quotaDefinitions QuotaAvailabilityPollCapabilityCreationsPerHour = quota_limits 60 1 1000"
| "quotaDefinitions QuotaActiveStudyMeetings = quota_limits 20 1 200"
| "quotaDefinitions QuotaStudyMeetingCreationsPerHour = quota_limits 20 1 200"
| "quotaDefinitions QuotaMessagesPerTenant = quota_limits 100000 1 10000000"
| "quotaDefinitions QuotaMessageSendsPerHour = quota_limits 5000 1 100000"
| "quotaDefinitions QuotaFilesPerTenant = quota_limits 10000 1 1000000"
| "quotaDefinitions QuotaFileBytesPerTenant = quota_limits 10737418240 1 10995116277760"
| "quotaDefinitions QuotaSingleFileBytes = quota_limits 104857600 1 5368709120"
| "quotaDefinitions QuotaFileUploadIntentsPerHour = quota_limits 1000 1 100000"
| "quotaDefinitions QuotaActiveMediaSpaces = quota_limits 10 1 100"
| "quotaDefinitions QuotaMediaParticipantsPerSpace = quota_limits 50 1 50"
| "quotaDefinitions QuotaActiveMediaParticipants = quota_limits 100 1 500"
| "quotaDefinitions QuotaMediaSpaceStartsPerHour = quota_limits 20 1 200"
| "quotaDefinitions QuotaWhiteboardDocumentsPerTenant = quota_limits 10 1 100"
| "quotaDefinitions QuotaWhiteboardConnectionsPerTenant = quota_limits 50 1 100"
| "quotaDefinitions QuotaWhiteboardStorageBytesPerTenant = quota_limits 1073741824 1 10737418240"
| "quotaDefinitions QuotaWhiteboardOperationsPerMinute = quota_limits 6000 1 60000"
| "quotaDefinitions (QuotaOther s) = None"

text \<open>The keys of the two maps.\<close>

definition feature_keys :: "feature_key list" where
  "feature_keys = [
      FeatureMembershipInvitations, FeatureClassManagement, FeatureClassInviteLinks
   , FeatureClassSessionScheduling, FeatureClassSessionRecurrence
   , FeatureInAppNotifications, FeatureAvailabilityPolls, FeatureConversations
   , FeatureFileUploads, FeatureClassroomMediaRooms, FeatureInstantStudyRooms
   , FeatureClassroomWhiteboards]"

definition quota_keys :: "quota_key list" where
  "quota_keys = [
      QuotaMembers, QuotaActiveClasses, QuotaInviteCreationsPerHour
   , QuotaActiveAvailabilityPolls, QuotaAvailabilityPollRangeDays
   , QuotaAvailabilityPollSlots, QuotaAvailabilityPollParticipants
   , QuotaAvailabilityPollCreationsPerHour, QuotaAvailabilityPollCapabilityCreationsPerHour
   , QuotaActiveStudyMeetings, QuotaStudyMeetingCreationsPerHour, QuotaMessagesPerTenant
   , QuotaMessageSendsPerHour, QuotaFilesPerTenant, QuotaFileBytesPerTenant
   , QuotaSingleFileBytes, QuotaFileUploadIntentsPerHour, QuotaActiveMediaSpaces
   , QuotaMediaParticipantsPerSpace, QuotaActiveMediaParticipants
   , QuotaMediaSpaceStartsPerHour, QuotaWhiteboardDocumentsPerTenant
   , QuotaWhiteboardConnectionsPerTenant, QuotaWhiteboardStorageBytesPerTenant
   , QuotaWhiteboardOperationsPerMinute]"

lemma feature_keys_complete: "featureDefinitions k \<noteq> None \<longleftrightarrow> k \<in> set feature_keys"
  by (cases k) (simp_all add: feature_keys_def)

lemma quota_keys_complete: "quotaDefinitions k \<noteq> None \<longleftrightarrow> k \<in> set quota_keys"
  by (cases k) (simp_all add: quota_keys_def)

subsection \<open>Guardrails and the catalogue\<close>

datatype control_error =
    ErrInvalidControl | ErrControlAccessDenied | ErrControlTenantNotFound | ErrControlUnavailable
  | FeatureDisabledError feature_key
  | QuotaExceededError quota_key int int "(instant \<times> duration) option"
  | VersionConflictError int int

record guardrails =
  ForcedOffFeatures :: "(feature_key \<times> bool) list"
  TenantAllowlists :: "(feature_key \<times> uuid list) list"
  QuotaCeilings :: "(quota_key \<times> int) list"
  TenantQuotaCeilings :: "(quota_key \<times> (uuid \<times> int) list) list"

record catalog =
  cat_forcedOff :: "feature_key \<Rightarrow> bool"
  cat_allowlists :: "feature_key \<Rightarrow> uuid list option"
  cat_ceilings :: "quota_key \<Rightarrow> int option"
  cat_tenantCeilings :: "quota_key \<Rightarrow> (uuid \<Rightarrow> int option) option"

definition empty_catalog :: catalog where
  "empty_catalog = \<lparr>cat_forcedOff = (\<lambda>_. False), cat_allowlists = (\<lambda>_. None),
     cat_ceilings = (\<lambda>_. None), cat_tenantCeilings = (\<lambda>_. None)\<rparr>"

definition validateQuotaLimit :: "quota_definition \<Rightarrow> int \<Rightarrow> control_error + unit" where
  "validateQuotaLimit d limit =
     (if limit < qd_MinimumLimit d \<or> limit > qd_MaximumLimit d then Inl ErrInvalidControl else Inr ())"

text \<open>The bodies of the four loops of \<open>NewCatalog\<close>, with the inner loops of two of them.\<close>

definition add_forced_off :: "catalog \<Rightarrow> feature_key \<times> bool \<Rightarrow> control_error + catalog" where
  "add_forced_off c = (\<lambda>(key, forcedOff).
     if featureDefinitions key = None \<or> \<not> forcedOff then Inl ErrInvalidControl
     else Inr (c\<lparr>cat_forcedOff := (cat_forcedOff c)(key := True)\<rparr>))"

definition add_allowed_tenant :: "uuid list \<Rightarrow> uuid \<Rightarrow> control_error + uuid list" where
  "add_allowed_tenant allowlist tenantID =
     (if tenantID = uuid_Nil then Inl ErrInvalidControl
      else if tenantID \<in> set allowlist then Inl ErrInvalidControl
      else Inr (tenantID # allowlist))"

definition add_allowlist :: "catalog \<Rightarrow> feature_key \<times> uuid list \<Rightarrow> control_error + catalog" where
  "add_allowlist c = (\<lambda>(key, tenantIDs).
     if featureDefinitions key = None then Inl ErrInvalidControl
     else try_res (fold_res add_allowed_tenant [] tenantIDs) (\<lambda>allowlist.
       Inr (c\<lparr>cat_allowlists := (cat_allowlists c)(key \<mapsto> allowlist)\<rparr>)))"

definition add_ceiling :: "catalog \<Rightarrow> quota_key \<times> int \<Rightarrow> control_error + catalog" where
  "add_ceiling c = (\<lambda>(key, ceiling). case quotaDefinitions key of
      None \<Rightarrow> Inl ErrInvalidControl
    | Some d \<Rightarrow>
        if ceiling < qd_MinimumLimit d \<or> ceiling > qd_MaximumLimit d then Inl ErrInvalidControl
        else Inr (c\<lparr>cat_ceilings := (cat_ceilings c)(key \<mapsto> ceiling)\<rparr>))"

definition add_tenant_ceiling ::
  "quota_definition \<Rightarrow> (uuid \<Rightarrow> int option) \<Rightarrow> uuid \<times> int \<Rightarrow> control_error + (uuid \<Rightarrow> int option)" where
  "add_tenant_ceiling d copied = (\<lambda>(tenantID, ceiling).
     if tenantID = uuid_Nil then Inl ErrInvalidControl
     else try_res (validateQuotaLimit d ceiling) (\<lambda>_. Inr (copied(tenantID \<mapsto> ceiling))))"

definition add_tenant_ceilings ::
  "catalog \<Rightarrow> quota_key \<times> (uuid \<times> int) list \<Rightarrow> control_error + catalog" where
  "add_tenant_ceilings c = (\<lambda>(key, ceilings). case quotaDefinitions key of
      None \<Rightarrow> Inl ErrInvalidControl
    | Some d \<Rightarrow> try_res (fold_res (add_tenant_ceiling d) (\<lambda>_. None) ceilings) (\<lambda>copied.
        Inr (c\<lparr>cat_tenantCeilings := (cat_tenantCeilings c)(key \<mapsto> copied)\<rparr>)))"

definition NewCatalog :: "guardrails \<Rightarrow> control_error + catalog" where
  "NewCatalog g =
     try_res (fold_res add_forced_off empty_catalog (ForcedOffFeatures g)) (\<lambda>c.
     try_res (fold_res add_allowlist c (TenantAllowlists g)) (\<lambda>c.
     try_res (fold_res add_ceiling c (QuotaCeilings g)) (\<lambda>c.
     fold_res add_tenant_ceilings c (TenantQuotaCeilings g))))"

definition Catalog_Features :: "(feature_key \<times> bool) list" where
  "Catalog_Features = sort_key (\<lambda>d. feature_key_string (fst d))
     (map (\<lambda>k. (k, the (featureDefinitions k))) feature_keys)"

definition QuotaKeys :: "quota_key list" where
  "QuotaKeys = sort_key quota_key_string quota_keys"

definition Catalog_Quotas :: "(quota_key \<times> quota_definition) list" where
  "Catalog_Quotas = map (\<lambda>k. (k, the (quotaDefinitions k))) QuotaKeys"

subsection \<open>Evaluation\<close>

record effective_feature =
  ef_Key :: feature_key
  ef_Enabled :: bool
  ef_Source :: value_source

record effective_quota =
  ql_Key :: quota_key
  ql_Limit :: int
  ql_Source :: value_source

definition evaluateFeature ::
  "catalog option \<Rightarrow> uuid \<Rightarrow> feature_key \<Rightarrow> bool option \<Rightarrow> control_error + effective_feature" where
  "evaluateFeature cat tenantID key tenantOverride =
     (case (featureDefinitions key, cat) of
        (Some defaultEnabled, Some c) \<Rightarrow>
          if cat_forcedOff c key
            then Inr \<lparr>ef_Key = key, ef_Enabled = False, ef_Source = ValueSourceDeploymentGuardrail\<rparr>
          else if (case cat_allowlists c key of None \<Rightarrow> False | Some l \<Rightarrow> tenantID \<notin> set l)
            then Inr \<lparr>ef_Key = key, ef_Enabled = False, ef_Source = ValueSourceDeploymentGuardrail\<rparr>
          else (case tenantOverride of
              Some b \<Rightarrow> Inr \<lparr>ef_Key = key, ef_Enabled = b, ef_Source = ValueSourceTenantOverride\<rparr>
            | None \<Rightarrow> Inr \<lparr>ef_Key = key, ef_Enabled = defaultEnabled,
                ef_Source = ValueSourceCatalogDefault\<rparr>)
      | _ \<Rightarrow> Inl ErrInvalidControl)"

text \<open>A ceiling applies where it is below the limit found so far.\<close>

definition apply_ceiling :: "int option \<Rightarrow> int \<times> value_source \<Rightarrow> int \<times> value_source" where
  "apply_ceiling ceiling = (\<lambda>(limit, source). case ceiling of
      Some c \<Rightarrow> if c < limit then (c, ValueSourceDeploymentGuardrail) else (limit, source)
    | None \<Rightarrow> (limit, source))"

definition evaluateQuota ::
  "catalog option \<Rightarrow> uuid \<Rightarrow> quota_key \<Rightarrow> int option \<Rightarrow> control_error + effective_quota" where
  "evaluateQuota cat tenantID key tenantOverride =
     (case (quotaDefinitions key, cat) of
        (Some d, Some c) \<Rightarrow>
          try_res
            (case tenantOverride of
               None \<Rightarrow> Inr (qd_DefaultLimit d, ValueSourceCatalogDefault)
             | Some l \<Rightarrow> try_res (validateQuotaLimit d l) (\<lambda>_. Inr (l, ValueSourceTenantOverride)))
            (\<lambda>start.
               let tenantCeiling = (case cat_tenantCeilings c key of None \<Rightarrow> None | Some m \<Rightarrow> m tenantID);
                   (limit, source) = apply_ceiling tenantCeiling (apply_ceiling (cat_ceilings c key) start)
               in Inr \<lparr>ql_Key = key, ql_Limit = limit, ql_Source = source\<rparr>)
      | _ \<Rightarrow> Inl ErrInvalidControl)"

subsection \<open>Overrides asked for by a tenant (service.go)\<close>

record put_overrides =
  po_ExpectedVersion :: int
  po_FeatureOverrides :: "(feature_key \<times> bool) list"
  po_QuotaOverrides :: "(quota_key \<times> int) list"

definition check_feature_override ::
  "feature_key list \<Rightarrow> feature_key \<times> bool \<Rightarrow> control_error + feature_key list" where
  "check_feature_override seen = (\<lambda>(key, _).
     if featureDefinitions key = None then Inl ErrInvalidControl
     else if key \<in> set seen then Inl ErrInvalidControl
     else Inr (key # seen))"

definition check_quota_override ::
  "quota_key list \<Rightarrow> quota_key \<times> int \<Rightarrow> control_error + quota_key list" where
  "check_quota_override seen = (\<lambda>(key, limit). case quotaDefinitions key of
      None \<Rightarrow> Inl ErrInvalidControl
    | Some d \<Rightarrow>
        if key \<in> set seen then Inl ErrInvalidControl
        else try_res (validateQuotaLimit d limit) (\<lambda>_. Inr (key # seen)))"

definition normalizeOverrides ::
  "catalog option \<Rightarrow> put_overrides \<Rightarrow> control_error + put_overrides" where
  "normalizeOverrides cat input =
     (if cat = None \<or> po_ExpectedVersion input < 0 then Inl ErrInvalidControl
      else
        try_res (fold_res check_feature_override [] (po_FeatureOverrides input)) (\<lambda>_.
        try_res (fold_res check_quota_override [] (po_QuotaOverrides input)) (\<lambda>_.
        Inr \<lparr>po_ExpectedVersion = po_ExpectedVersion input,
          po_FeatureOverrides =
            sort_key (\<lambda>o'. feature_key_string (fst o')) (po_FeatureOverrides input),
          po_QuotaOverrides =
            sort_key (\<lambda>o'. quota_key_string (fst o')) (po_QuotaOverrides input)\<rparr>)))"

subsection \<open>Lemmas about the catalogue\<close>

text \<open>What \<open>NewCatalog\<close> guarantees: every ceiling lies within the definition of its quota.\<close>

definition catalog_ok :: "catalog \<Rightarrow> bool" where
  "catalog_ok c \<longleftrightarrow>
     (\<forall>k x. cat_ceilings c k = Some x \<longrightarrow>
        (\<exists>d. quotaDefinitions k = Some d \<and> qd_MinimumLimit d \<le> x \<and> x \<le> qd_MaximumLimit d)) \<and>
     (\<forall>k m t x. cat_tenantCeilings c k = Some m \<longrightarrow> m t = Some x \<longrightarrow>
        (\<exists>d. quotaDefinitions k = Some d \<and> qd_MinimumLimit d \<le> x \<and> x \<le> qd_MaximumLimit d))"

lemma validateQuotaLimit_Inr [simp]:
  "validateQuotaLimit d l = Inr u \<longleftrightarrow> qd_MinimumLimit d \<le> l \<and> l \<le> qd_MaximumLimit d"
  by (auto simp: validateQuotaLimit_def)

lemma quotaDefinitions_default:
  "quotaDefinitions k = Some d \<Longrightarrow>
     1 \<le> qd_MinimumLimit d \<and> qd_MinimumLimit d \<le> qd_DefaultLimit d \<and>
     qd_DefaultLimit d \<le> qd_MaximumLimit d"
  by (cases k) auto

lemma add_tenant_ceiling_bounds:
  assumes "fold_res (add_tenant_ceiling d) (\<lambda>_. None) xs = Inr m" and "m t = Some x"
  shows "qd_MinimumLimit d \<le> x" and "x \<le> qd_MaximumLimit d"
proof -
  have "\<forall>t x. m t = Some x \<longrightarrow> qd_MinimumLimit d \<le> x \<and> x \<le> qd_MaximumLimit d"
    using assms(1)
    by (rule fold_res_invariant)
      (auto simp: add_tenant_ceiling_def split: if_splits)
  with assms(2) show "qd_MinimumLimit d \<le> x" and "x \<le> qd_MaximumLimit d" by blast+
qed

lemma NewCatalog_ok: "NewCatalog g = Inr c \<Longrightarrow> catalog_ok c"
proof -
  assume "NewCatalog g = Inr c"
  then obtain c1 c2 c3 where steps:
    "fold_res add_forced_off empty_catalog (ForcedOffFeatures g) = Inr c1"
    "fold_res add_allowlist c1 (TenantAllowlists g) = Inr c2"
    "fold_res add_ceiling c2 (QuotaCeilings g) = Inr c3"
    "fold_res add_tenant_ceilings c3 (TenantQuotaCeilings g) = Inr c"
    by (auto simp: NewCatalog_def)
  have "catalog_ok c1"
    using steps(1) by (rule fold_res_invariant)
      (auto simp: catalog_ok_def empty_catalog_def add_forced_off_def split: if_splits)
  with steps(2) have "catalog_ok c2"
    by (rule fold_res_invariant) (auto simp: catalog_ok_def add_allowlist_def split: if_splits)
  with steps(3) have "catalog_ok c3"
    by (rule fold_res_invariant)
      (auto simp: catalog_ok_def add_ceiling_def split: if_splits option.splits)
  with steps(4) show ?thesis
  proof (rule fold_res_invariant)
    fix s kc t
    assume "catalog_ok s" and "add_tenant_ceilings s kc = Inr t"
    then obtain k xs d m where step: "kc = (k, xs)" "quotaDefinitions k = Some d"
      "fold_res (add_tenant_ceiling d) (\<lambda>_. None) xs = Inr m"
      "t = s\<lparr>cat_tenantCeilings := (cat_tenantCeilings s)(k \<mapsto> m)\<rparr>"
      by (cases kc) (auto simp: add_tenant_ceilings_def split: option.splits)
    with \<open>catalog_ok s\<close> add_tenant_ceiling_bounds[OF step(3)] show "catalog_ok t"
      by (auto simp: catalog_ok_def)
  qed
qed

lemma fst_apply_ceiling:
  "fst (apply_ceiling ceiling p) = (case ceiling of None \<Rightarrow> fst p | Some c \<Rightarrow> min c (fst p))"
  by (cases p) (auto simp: apply_ceiling_def min_def split: option.splits)

lemma evaluateFeature_Inr:
  assumes "evaluateFeature cat t k ov = Inr e"
  shows "ef_Key e = k" and "\<exists>c d. cat = Some c \<and> featureDefinitions k = Some d \<and>
    (ef_Enabled e \<longleftrightarrow> \<not> cat_forcedOff c k \<and>
       (\<forall>l. cat_allowlists c k = Some l \<longrightarrow> t \<in> set l) \<and>
       (case ov of None \<Rightarrow> d | Some b \<Rightarrow> b))"
  using assms by (auto simp: evaluateFeature_def split: option.splits if_splits)

end
