(* ===== verification/Rate_Windows.thy ===== *)
theory Rate_Windows imports Go_Prelude begin

section \<open>Fixed-window rate limits\<close>

text \<open>
  The statement that every rate limit of the code uses, \<open>INSERT ... ON CONFLICT DO UPDATE SET
  used_count = used_count + 1 WHERE used_count < limit RETURNING used_count\<close>, and the contract
  its callers rely on, as a locale: within one window exactly as many calls are admitted as
  the limit leaves room for.
\<close>

text \<open>\<open>Time.Truncate\<close>, for instants counted from Go's zero time.\<close>

definition time_Truncate :: "instant \<Rightarrow> duration \<Rightarrow> instant" where
  "time_Truncate t d = t - t mod d"

type_synonym 'k windows = "'k \<times> instant \<Rightarrow> int option"

definition upsert_window :: "'k \<Rightarrow> instant \<Rightarrow> int \<Rightarrow> 'k windows \<Rightarrow> int option \<times> 'k windows" where
  "upsert_window k start limit w =
     (case w (k, start) of
        None \<Rightarrow> (Some 1, w((k, start) \<mapsto> 1))
      | Some used \<Rightarrow>
          if used < limit then (Some (used + 1), w((k, start) \<mapsto> used + 1)) else (None, w))"

definition window_used :: "'k windows \<Rightarrow> 'k \<Rightarrow> instant \<Rightarrow> int" where
  "window_used w k start = (case w (k, start) of None \<Rightarrow> 0 | Some u \<Rightarrow> u)"

text \<open>A stored counter is positive, since the row is inserted with the first use.\<close>

definition windows_ok :: "'k windows \<Rightarrow> bool" where
  "windows_ok w \<longleftrightarrow> (\<forall>kf u. w kf = Some u \<longrightarrow> 1 \<le> u)"

lemma window_used_nonneg: "windows_ok w \<Longrightarrow> 0 \<le> window_used w k start"
  by (force simp: windows_ok_def window_used_def split: option.splits)

lemma upsert_window_Some:
  assumes "upsert_window k start limit w = (Some u, w')" and "1 \<le> limit"
  shows "u = window_used w k start + 1" and "u \<le> limit" and "w' = w((k, start) \<mapsto> u)"
  using assms by (auto simp: upsert_window_def window_used_def split: option.splits if_splits)

lemma upsert_window_None:
  "upsert_window k start limit w = (None, w') \<longleftrightarrow>
     w' = w \<and> (\<exists>used. w (k, start) = Some used \<and> limit \<le> used)"
  by (auto simp: upsert_window_def split: option.splits)

lemma upsert_window_ok:
  "upsert_window k start limit w = (r, w') \<Longrightarrow> windows_ok w \<Longrightarrow> windows_ok w'"
  by (force simp: upsert_window_def windows_ok_def split: option.splits if_splits)

lemma window_used_update:
  "window_used (w((k, start) \<mapsto> u)) k' start' = (if (k', start') = (k, start) then u else window_used w k' start')"
  by (auto simp: window_used_def)

subsection \<open>The contract of a windowed limit\<close>

locale windowed_limit =
  fixes consume :: "'s \<Rightarrow> 'k \<Rightarrow> instant \<Rightarrow> 's option"
    and used :: "'s \<Rightarrow> 'k \<Rightarrow> instant \<Rightarrow> int"
    and limit :: "'s \<Rightarrow> 'k \<Rightarrow> int"
    and size :: duration
    and inv :: "'s \<Rightarrow> bool"
  assumes used_nonneg: "inv s \<Longrightarrow> 0 \<le> used s k start"
    and consume_keeps: "inv s \<Longrightarrow> consume s k now = Some s' \<Longrightarrow> inv s' \<and> limit s' = limit s"
    and consume_counts: "inv s \<Longrightarrow> consume s k now = Some s' \<Longrightarrow>
      used s' k' start = used s k' start + (if (k', start) = (k, time_Truncate now size) then 1 else 0)"
    and consume_admits: "inv s \<Longrightarrow> now \<noteq> 0 \<Longrightarrow>
      consume s k now \<noteq> None \<longleftrightarrow> used s k (time_Truncate now size) < limit s k"
begin

text \<open>A run of calls: a refused call leaves the state alone.\<close>

fun run_calls :: "'s \<Rightarrow> ('k \<times> instant) list \<Rightarrow> 's" where
  "run_calls s [] = s"
| "run_calls s ((k, now) # calls) =
     run_calls (case consume s k now of None \<Rightarrow> s | Some s' \<Rightarrow> s') calls"

text \<open>The calls for key \<open>k\<close> in the window starting at \<open>start\<close>.\<close>

definition calls_in :: "'k \<Rightarrow> instant \<Rightarrow> ('k \<times> instant) list \<Rightarrow> int" where
  "calls_in k start calls =
     int (length (filter (\<lambda>(k', now). k' = k \<and> time_Truncate now size = start) calls))"

lemma run_calls_keeps:
  "inv s \<Longrightarrow> inv (run_calls s calls) \<and> limit (run_calls s calls) = limit s"
proof (induction s calls rule: run_calls.induct)
  case (2 s k now calls)
  then show ?case
    using consume_keeps[of s k now] by (cases "consume s k now") auto
qed simp

text \<open>
  Exactly the room that is left is used: after any run of calls the counter has grown by the
  number of calls in the window, up to the limit.
\<close>

lemma run_calls_used:
  assumes "inv s" and "\<forall>(k, now)\<in>set calls. now \<noteq> 0"
  shows "used (run_calls s calls) k start =
    max (used s k start) (min (used s k start + calls_in k start calls) (limit s k))"
  using assms
proof (induction s calls rule: run_calls.induct)
  case (1 s)
  then show ?case by (simp add: calls_in_def)
next
  case (2 s k' now calls)
  have now: "now \<noteq> 0" using 2(3) by simp
  show ?case
  proof (cases "consume s k' now")
    case None
    then have "limit s k' \<le> used s k' (time_Truncate now size)"
      using consume_admits[OF 2(2) now, of k'] by force
    with 2 None show ?thesis by (auto simp: calls_in_def)
  next
    case (Some s')
    then have "used s k' (time_Truncate now size) < limit s k'"
      using consume_admits[OF 2(2) now, of k'] by force
    moreover have "used (run_calls s' calls) k start =
        max (used s' k start) (min (used s' k start + calls_in k start calls) (limit s' k))"
      using 2 Some consume_keeps[OF 2(2) Some] by simp
    ultimately show ?thesis
      using Some consume_keeps[OF 2(2) Some] consume_counts[OF 2(2) Some, of k start]
      by (auto simp: calls_in_def)
  qed
qed

lemma run_calls_bounded:
  assumes "inv s" and "\<forall>(k, now)\<in>set calls. now \<noteq> 0" and "used s k start \<le> limit s k"
  shows "used (run_calls s calls) k start \<le> limit s k"
  using run_calls_used[OF assms(1,2), of k start] assms(3) by simp

end

end
