(* ===== verification/Feature_Enforcement.thy ===== *)
theory Feature_Enforcement imports Feature_Catalog Rate_Windows begin

section \<open>Enforcement of feature controls (featurecontrol/postgres\_repository.go)\<close>

text \<open>
  The tables of the tenant controls and the operations of the repository over them.  Each
  operation runs in one transaction under the tenant's advisory lock; its model maps the
  tables to an error, where the transaction is rolled back, or to a result with the new
  tables.  A failing database makes every operation return \<open>ErrControlUnavailable\<close> without
  effect and is left out.  The row counts of other components' tables are a function
  (\<open>cd_usage\<close>).  The authorizer is the policy engine.
\<close>

subsection \<open>Tables\<close>

record control_db =
  cd_tenants :: "uuid \<Rightarrow> string option"
  cd_memberships :: "uuid \<times> uuid \<Rightarrow> (organization_role \<times> string) option"
  cd_features :: "uuid \<Rightarrow> feature_key \<Rightarrow> bool option"
  cd_quotas :: "uuid \<Rightarrow> quota_key \<Rightarrow> int option"
  cd_windows :: "(uuid \<times> quota_key) windows"
  cd_revisions :: "uuid \<Rightarrow> int option"
  cd_usage :: "uuid \<Rightarrow> quota_key \<Rightarrow> instant \<Rightarrow> int"
  cd_updates :: "(uuid \<times> uuid \<times> int \<times> nat \<times> nat \<times> instant) list"

record tenant_context =
  tc_TenantID :: uuid
  tc_ActorID :: uuid

definition TenantContext_Validate :: "tenant_context \<Rightarrow> bool" where
  "TenantContext_Validate tc \<longleftrightarrow> tc_TenantID tc \<noteq> uuid_Nil \<and> tc_ActorID tc \<noteq> uuid_Nil"

definition quotaRateWindow :: duration where
  "quotaRateWindow = time_Hour"

subsection \<open>Requirements\<close>

definition ensureActiveControlTenant :: "control_db \<Rightarrow> uuid \<Rightarrow> control_error + unit" where
  "ensureActiveControlTenant db tenantID = (case cd_tenants db tenantID of
      None \<Rightarrow> Inl ErrControlTenantNotFound
    | Some status \<Rightarrow> if status \<noteq> ''active'' then Inl ErrControlAccessDenied else Inr ())"

definition readEffectiveFeatureValue ::
  "catalog option \<Rightarrow> control_db \<Rightarrow> uuid \<Rightarrow> feature_key \<Rightarrow> control_error + effective_feature" where
  "readEffectiveFeatureValue cat db tenantID key =
     evaluateFeature cat tenantID key (cd_features db tenantID key)"

definition readEffectiveFeature ::
  "catalog option \<Rightarrow> control_db \<Rightarrow> uuid \<Rightarrow> feature_key \<Rightarrow> control_error + effective_feature" where
  "readEffectiveFeature cat db tenantID key =
     try_res (readEffectiveFeatureValue cat db tenantID key) (\<lambda>effective.
       if key \<noteq> FeatureInstantStudyRooms \<or> \<not> ef_Enabled effective then Inr effective
       else try_res (readEffectiveFeatureValue cat db tenantID FeatureClassroomMediaRooms) (\<lambda>parent.
         Inr (if \<not> ef_Enabled parent
              then effective\<lparr>ef_Enabled := False, ef_Source := ef_Source parent\<rparr>
              else effective)))"

definition readEffectiveQuota ::
  "catalog option \<Rightarrow> control_db \<Rightarrow> uuid \<Rightarrow> quota_key \<Rightarrow> control_error + effective_quota" where
  "readEffectiveQuota cat db tenantID key =
     evaluateQuota cat tenantID key (cd_quotas db tenantID key)"

definition RequireFeature ::
  "catalog option \<Rightarrow> control_db \<Rightarrow> uuid \<Rightarrow> feature_key \<Rightarrow> control_error + unit" where
  "RequireFeature cat db tenantID key =
     (if tenantID = uuid_Nil then Inl ErrInvalidControl
      else if featureDefinitions key = None then Inl ErrInvalidControl
      else try_res (ensureActiveControlTenant db tenantID) (\<lambda>_.
        try_res (readEffectiveFeature cat db tenantID key) (\<lambda>effective.
          if \<not> ef_Enabled effective then Inl (FeatureDisabledError key) else Inr ())))"

definition RequireQuotaAtMost ::
  "catalog option \<Rightarrow> control_db \<Rightarrow> uuid \<Rightarrow> quota_key \<Rightarrow> int \<Rightarrow> control_error + unit" where
  "RequireQuotaAtMost cat db tenantID key requested =
     (if tenantID = uuid_Nil \<or> requested < 0 then Inl ErrInvalidControl
      else if quotaDefinitions key = None then Inl ErrInvalidControl
      else try_res (ensureActiveControlTenant db tenantID) (\<lambda>_.
        try_res (readEffectiveQuota cat db tenantID key) (\<lambda>effective.
          if requested > ql_Limit effective
            then Inl (QuotaExceededError key (ql_Limit effective) requested None) else Inr ())))"

definition ResolveQuota ::
  "catalog option \<Rightarrow> control_db \<Rightarrow> uuid \<Rightarrow> quota_key \<Rightarrow> control_error + effective_quota" where
  "ResolveQuota cat db tenantID key =
     (if tenantID = uuid_Nil then Inl ErrInvalidControl
      else if quotaDefinitions key = None then Inl ErrInvalidControl
      else try_res (ensureActiveControlTenant db tenantID) (\<lambda>_. readEffectiveQuota cat db tenantID key))"

text \<open>\<open>requireCapacity\<close> with the two counts it is called for.\<close>

definition requireCapacity ::
  "catalog option \<Rightarrow> control_db \<Rightarrow> uuid \<Rightarrow> quota_key \<Rightarrow> int \<Rightarrow> control_error + unit" where
  "requireCapacity cat db tenantID key used =
     (if tenantID = uuid_Nil then Inl ErrInvalidControl
      else try_res (ensureActiveControlTenant db tenantID) (\<lambda>_.
        try_res (readEffectiveQuota cat db tenantID key) (\<lambda>effective.
          if used \<ge> ql_Limit effective
            then Inl (QuotaExceededError key (ql_Limit effective) used None) else Inr ())))"

definition RequireMemberCapacity :: "catalog option \<Rightarrow> control_db \<Rightarrow> uuid \<Rightarrow> control_error + unit" where
  "RequireMemberCapacity cat db tenantID =
     requireCapacity cat db tenantID QuotaMembers (cd_usage db tenantID QuotaMembers 0)"

definition RequireActiveClassCapacity :: "catalog option \<Rightarrow> control_db \<Rightarrow> uuid \<Rightarrow> control_error + unit" where
  "RequireActiveClassCapacity cat db tenantID =
     requireCapacity cat db tenantID QuotaActiveClasses (cd_usage db tenantID QuotaActiveClasses 0)"

definition isRateQuota :: "quota_key \<Rightarrow> bool" where
  "isRateQuota key \<longleftrightarrow> key \<in> {QuotaInviteCreationsPerHour, QuotaAvailabilityPollCreationsPerHour,
     QuotaAvailabilityPollCapabilityCreationsPerHour, QuotaStudyMeetingCreationsPerHour,
     QuotaMessageSendsPerHour, QuotaFileUploadIntentsPerHour, QuotaMediaSpaceStartsPerHour}"

record rate_limit_result =
  rl_Limit :: int
  rl_Used :: int
  rl_Remaining :: int
  rl_WindowFrom :: instant
  rl_ResetAt :: instant
  rl_RetryAfter :: duration

definition nonNegative :: "int \<Rightarrow> int" where
  "nonNegative value = (if value < 0 then 0 else value)"

definition newRateLimitResult ::
  "int \<Rightarrow> int \<Rightarrow> instant \<Rightarrow> instant \<Rightarrow> instant \<Rightarrow> rate_limit_result" where
  "newRateLimitResult limit used windowFrom resetAt now =
     \<lparr>rl_Limit = limit, rl_Used = used, rl_Remaining = nonNegative (limit - used),
      rl_WindowFrom = windowFrom, rl_ResetAt = resetAt,
      rl_RetryAfter = (let retryAfter = resetAt - now in if retryAfter < 0 then 0 else retryAfter)\<rparr>"

text \<open>
  \<open>ConsumeRateQuota\<close>.  A refused use reports the counter of the window; the code reads it in a
  second statement under the same lock.
\<close>

definition ConsumeRateQuota ::
  "catalog option \<Rightarrow> control_db \<Rightarrow> uuid \<Rightarrow> quota_key \<Rightarrow> instant \<Rightarrow>
   control_error + rate_limit_result \<times> control_db" where
  "ConsumeRateQuota cat db tenantID key now =
     (if tenantID = uuid_Nil \<or> now = zero_time then Inl ErrInvalidControl
      else if \<not> isRateQuota key then Inl ErrInvalidControl
      else try_res (ensureActiveControlTenant db tenantID) (\<lambda>_.
        try_res (readEffectiveQuota cat db tenantID key) (\<lambda>effective.
          let limit = ql_Limit effective;
              windowFrom = time_Truncate now quotaRateWindow;
              resetAt = windowFrom + quotaRateWindow in
          case upsert_window (tenantID, key) windowFrom limit (cd_windows db) of
            (Some used, windows) \<Rightarrow>
              Inr (newRateLimitResult limit used windowFrom resetAt now, db\<lparr>cd_windows := windows\<rparr>)
          | (None, _) \<Rightarrow>
              let used = window_used (cd_windows db) (tenantID, key) windowFrom
              in Inl (QuotaExceededError key limit used (Some (resetAt,
                   rl_RetryAfter (newRateLimitResult limit used windowFrom resetAt now)))))))"

definition ConsumeInviteCreation ::
  "catalog option \<Rightarrow> control_db \<Rightarrow> uuid \<Rightarrow> instant \<Rightarrow> control_error + rate_limit_result \<times> control_db" where
  "ConsumeInviteCreation cat db tenantID now =
     ConsumeRateQuota cat db tenantID QuotaInviteCreationsPerHour now"

subsection \<open>Capabilities of a tenant\<close>

definition controls_subject :: "tenant_context \<Rightarrow> organization_role \<Rightarrow> string \<Rightarrow> subject" where
  "controls_subject tc role status = \<lparr>ActorID = tc_ActorID tc, ActiveTenantID = tc_TenantID tc,
     MembershipActive = (status = ''active''), OrganizationRoles = [role], ClassRoles = []\<rparr>"

definition controls_input :: "tenant_context \<Rightarrow> organization_role \<Rightarrow> string \<Rightarrow> permission \<Rightarrow> authz_input" where
  "controls_input tc role status p = \<lparr>in_Subject = controls_subject tc role status,
     in_Action = ActionOf p,
     in_Resource = \<lparr>res_TenantID = tc_TenantID tc, res_ClassID = uuid_Nil,
       res_State = ResourceStateActive\<rparr>\<rparr>"

text \<open>The result is \<open>canManageControls\<close>.\<close>

definition authorizeLockedTenant ::
  "control_db \<Rightarrow> tenant_context \<Rightarrow> permission \<Rightarrow> control_error + bool" where
  "authorizeLockedTenant db tc p = (case cd_tenants db (tc_TenantID tc) of
      None \<Rightarrow> Inl ErrControlTenantNotFound
    | Some tenantStatus \<Rightarrow>
        if tenantStatus \<noteq> ''active'' then Inl ErrControlAccessDenied
        else case cd_memberships db (tc_TenantID tc, tc_ActorID tc) of
          None \<Rightarrow> Inl ErrControlAccessDenied
        | Some (role, status) \<Rightarrow>
            if \<not> Allowed (Authorize (Some Engine) (controls_input tc role status p))
              then Inl ErrControlAccessDenied
            else Inr (Allowed (Authorize (Some Engine)
              (controls_input tc role status PermissionTenantManageFeatures))))"

record feature_capability = effective_feature +
  fc_ConfiguredEnabled :: bool

record quota_capability = effective_quota +
  qc_ConfiguredLimit :: int
  qc_Used :: int
  qc_Remaining :: int
  qc_Window :: "(instant \<times> instant) option"

record capabilities =
  cp_TenantID :: uuid
  cp_Version :: int
  cp_ManageControls :: bool
  cp_Features :: "feature_capability list"
  cp_Quotas :: "quota_capability list"

text \<open>
  \<open>applyFeatureDependencies\<close> remembers the last media entry and the position of the last
  instant-room entry of the slice.
\<close>

definition applyFeatureDependencies :: "feature_capability list \<Rightarrow> feature_capability list" where
  "applyFeatureDependencies features =
     (let parents = filter (\<lambda>f. ef_Key f = FeatureClassroomMediaRooms) features;
          instants = filter (\<lambda>i. ef_Key (features ! i) = FeatureInstantStudyRooms) [0..<length features]
      in if parents \<noteq> [] \<and> instants \<noteq> [] \<and> \<not> ef_Enabled (last parents)
         then features[last instants := (features ! last instants)\<lparr>ef_Enabled := False\<rparr>]
         else features)"

text \<open>\<open>readQuotaUsage\<close>: the use of a quota and, for a rate quota, its window.\<close>

definition readQuotaUsage ::
  "control_db \<Rightarrow> uuid \<Rightarrow> quota_key \<Rightarrow> instant \<Rightarrow> control_error + int \<times> (instant \<times> instant) option" where
  "readQuotaUsage db tenantID key now =
     (if key \<in> {QuotaMembers, QuotaActiveClasses, QuotaActiveAvailabilityPolls,
          QuotaActiveStudyMeetings, QuotaActiveMediaSpaces, QuotaActiveMediaParticipants,
          QuotaMessagesPerTenant, QuotaFilesPerTenant, QuotaFileBytesPerTenant,
          QuotaWhiteboardDocumentsPerTenant, QuotaWhiteboardStorageBytesPerTenant}
        then Inr (cd_usage db tenantID key now, None)
      else if key \<in> {QuotaAvailabilityPollRangeDays, QuotaAvailabilityPollSlots,
          QuotaAvailabilityPollParticipants, QuotaMediaParticipantsPerSpace, QuotaSingleFileBytes,
          QuotaWhiteboardConnectionsPerTenant, QuotaWhiteboardOperationsPerMinute}
        then Inr (0, None)
      else if isRateQuota key
        then let windowStart = time_Truncate now quotaRateWindow
             in Inr (window_used (cd_windows db) (tenantID, key) windowStart,
                     Some (windowStart, windowStart + quotaRateWindow))
      else Inl ErrInvalidControl)"

definition readFeatureCapability ::
  "catalog option \<Rightarrow> control_db \<Rightarrow> uuid \<Rightarrow> feature_key \<times> bool \<Rightarrow> control_error + feature_capability" where
  "readFeatureCapability cat db tenantID = (\<lambda>(key, defaultEnabled).
     let override = cd_features db tenantID key;
         configured = (case override of None \<Rightarrow> defaultEnabled | Some b \<Rightarrow> b)
     in try_res (evaluateFeature cat tenantID key override) (\<lambda>e.
          Inr (effective_feature.extend e (feature_capability.fields configured))))"

definition readQuotaCapability ::
  "catalog option \<Rightarrow> control_db \<Rightarrow> uuid \<Rightarrow> instant \<Rightarrow> quota_key \<times> quota_definition \<Rightarrow>
   control_error + quota_capability" where
  "readQuotaCapability cat db tenantID now = (\<lambda>(key, d).
     let override = cd_quotas db tenantID key;
         configured = (case override of None \<Rightarrow> qd_DefaultLimit d | Some l \<Rightarrow> l)
     in try_res (evaluateQuota cat tenantID key override) (\<lambda>e.
        try_res (readQuotaUsage db tenantID key now) (\<lambda>(usage, window).
          Inr (effective_quota.extend e (quota_capability.fields configured usage
            (nonNegative (ql_Limit e - usage)) window)))))"

definition readControlRevision :: "control_db \<Rightarrow> uuid \<Rightarrow> int" where
  "readControlRevision db tenantID = (case cd_revisions db tenantID of None \<Rightarrow> 0 | Some v \<Rightarrow> v)"

definition readCapabilities ::
  "catalog option \<Rightarrow> control_db \<Rightarrow> uuid \<Rightarrow> bool \<Rightarrow> instant \<Rightarrow> control_error + capabilities" where
  "readCapabilities cat db tenantID canManage now =
     try_res (map_res (readFeatureCapability cat db tenantID) Catalog_Features) (\<lambda>features.
     try_res (map_res (readQuotaCapability cat db tenantID now) Catalog_Quotas) (\<lambda>quotas.
       Inr \<lparr>cp_TenantID = tenantID, cp_Version = readControlRevision db tenantID,
         cp_ManageControls = canManage, cp_Features = applyFeatureDependencies features,
         cp_Quotas = quotas\<rparr>))"

definition GetCapabilities ::
  "catalog option \<Rightarrow> control_db \<Rightarrow> tenant_context \<Rightarrow> instant \<Rightarrow> control_error + capabilities" where
  "GetCapabilities cat db tc now =
     (if \<not> TenantContext_Validate tc then Inl ErrControlAccessDenied
      else try_res (authorizeLockedTenant db tc PermissionTenantView) (\<lambda>canManage.
        readCapabilities cat db (tc_TenantID tc) canManage now))"

subsection \<open>Replacing the overrides\<close>

definition lockControlRevision :: "control_db \<Rightarrow> tenant_context \<Rightarrow> int \<times> control_db" where
  "lockControlRevision db tc = (case cd_revisions db (tc_TenantID tc) of
      Some v \<Rightarrow> (v, db)
    | None \<Rightarrow> (0, db\<lparr>cd_revisions := (cd_revisions db)(tc_TenantID tc \<mapsto> 0)\<rparr>))"

definition replaceFeatureOverrides ::
  "uuid \<Rightarrow> (feature_key \<times> bool) list \<Rightarrow> control_db \<Rightarrow> control_db" where
  "replaceFeatureOverrides tenantID overrides db =
     db\<lparr>cd_features := (cd_features db)(tenantID :=
       foldl (\<lambda>m (k, b). m(k \<mapsto> b)) (\<lambda>_. None) overrides)\<rparr>"

definition replaceQuotaOverrides ::
  "uuid \<Rightarrow> (quota_key \<times> int) list \<Rightarrow> control_db \<Rightarrow> control_db" where
  "replaceQuotaOverrides tenantID overrides db =
     db\<lparr>cd_quotas := (cd_quotas db)(tenantID :=
       foldl (\<lambda>m (k, l). m(k \<mapsto> l)) (\<lambda>_. None) overrides)\<rparr>"

definition appendFeatureControlUpdate ::
  "tenant_context \<Rightarrow> int \<Rightarrow> nat \<Rightarrow> nat \<Rightarrow> instant \<Rightarrow> control_db \<Rightarrow> control_db" where
  "appendFeatureControlUpdate tc version featureCount quotaCount now db =
     db\<lparr>cd_updates := cd_updates db @
       [(tc_TenantID tc, tc_ActorID tc, version, featureCount, quotaCount, now)]\<rparr>"

definition PutOverrides ::
  "catalog option \<Rightarrow> control_db \<Rightarrow> tenant_context \<Rightarrow> put_overrides \<Rightarrow> instant \<Rightarrow>
   control_error + capabilities \<times> control_db" where
  "PutOverrides cat db tc input now =
     (if \<not> TenantContext_Validate tc then Inl ErrControlAccessDenied
      else try_res (normalizeOverrides cat input) (\<lambda>normalized.
        try_res (authorizeLockedTenant db tc PermissionTenantManageFeatures) (\<lambda>_.
          let (currentVersion, db) = lockControlRevision db tc in
          if currentVersion \<noteq> po_ExpectedVersion normalized
            then Inl (VersionConflictError (po_ExpectedVersion normalized) currentVersion)
          else
            let db = replaceFeatureOverrides (tc_TenantID tc) (po_FeatureOverrides normalized) db;
                db = replaceQuotaOverrides (tc_TenantID tc) (po_QuotaOverrides normalized) db;
                newVersion = currentVersion + 1;
                db = db\<lparr>cd_revisions := (cd_revisions db)(tc_TenantID tc \<mapsto> newVersion)\<rparr>;
                db = appendFeatureControlUpdate tc newVersion
                  (length (po_FeatureOverrides normalized)) (length (po_QuotaOverrides normalized)) now db
            in try_res (readCapabilities cat db (tc_TenantID tc) True now) (\<lambda>capabilities.
                 if cp_Version capabilities \<noteq> newVersion then Inl ErrControlUnavailable
                 else Inr (capabilities, db)))))"

end
