(* ===== verification/Feature_Properties.thy ===== *)
theory Feature_Properties imports Feature_Enforcement begin

section \<open>What the feature controls guarantee\<close>

text \<open>
  The effective value of a feature and of a quota in closed form, the agreement of what a
  tenant is shown with what is enforced, the rate quotas as an instance of the windowed
  limit, and the optimistic replacement of the overrides.
\<close>

subsection \<open>Features\<close>

text \<open>A feature is on when no guardrail excludes the tenant and its override, or default, says so.\<close>

definition feature_on :: "catalog \<Rightarrow> control_db \<Rightarrow> uuid \<Rightarrow> feature_key \<Rightarrow> bool" where
  "feature_on c db t k \<longleftrightarrow> \<not> cat_forcedOff c k \<and>
     (case cat_allowlists c k of None \<Rightarrow> True | Some l \<Rightarrow> t \<in> set l) \<and>
     (case cd_features db t k of Some b \<Rightarrow> b | None \<Rightarrow> featureDefinitions k = Some True)"

lemma readEffectiveFeatureValue_cases:
  assumes "featureDefinitions k = Some d"
  obtains e where "readEffectiveFeatureValue (Some c) db t k = Inr e" "ef_Key e = k"
    "ef_Enabled e \<longleftrightarrow> feature_on c db t k"
proof -
  have "\<exists>e. readEffectiveFeatureValue (Some c) db t k = Inr e \<and> ef_Key e = k \<and>
      (ef_Enabled e \<longleftrightarrow> feature_on c db t k)"
    using assms
    by (cases "cat_forcedOff c k"; cases "cat_allowlists c k"; cases "cd_features db t k")
      (simp_all add: readEffectiveFeatureValue_def evaluateFeature_def feature_on_def)
  with that show ?thesis by blast
qed

lemma readEffectiveFeature_cases:
  assumes "featureDefinitions k = Some d"
  obtains e where "readEffectiveFeature (Some c) db t k = Inr e" "ef_Key e = k"
    "ef_Enabled e \<longleftrightarrow> feature_on c db t k \<and>
       (k = FeatureInstantStudyRooms \<longrightarrow> feature_on c db t FeatureClassroomMediaRooms)"
proof -
  obtain e where e: "readEffectiveFeatureValue (Some c) db t k = Inr e" "ef_Key e = k"
    "ef_Enabled e \<longleftrightarrow> feature_on c db t k"
    using readEffectiveFeatureValue_cases[OF assms] .
  obtain p where "readEffectiveFeatureValue (Some c) db t FeatureClassroomMediaRooms = Inr p"
    "ef_Enabled p \<longleftrightarrow> feature_on c db t FeatureClassroomMediaRooms"
    using readEffectiveFeatureValue_cases[of FeatureClassroomMediaRooms False c db t] by auto
  with e show ?thesis
    using that[of "if k = FeatureInstantStudyRooms \<and> ef_Enabled e \<and> \<not> ef_Enabled p
      then e\<lparr>ef_Enabled := False, ef_Source := ef_Source p\<rparr> else e"]
    by (cases "k = FeatureInstantStudyRooms"; cases "ef_Enabled e"; cases "ef_Enabled p")
      (auto simp: readEffectiveFeature_def)
qed

lemma ensureActive_Inr [simp]:
  "ensureActiveControlTenant db t = Inr u \<longleftrightarrow> cd_tenants db t = Some ''active''"
  by (auto simp: ensureActiveControlTenant_def split: option.splits)

lemma RequireFeature_Inr:
  "RequireFeature (Some c) db t k = Inr u \<longleftrightarrow> t \<noteq> uuid_Nil \<and> featureDefinitions k \<noteq> None \<and>
     cd_tenants db t = Some ''active'' \<and> feature_on c db t k \<and>
     (k = FeatureInstantStudyRooms \<longrightarrow> feature_on c db t FeatureClassroomMediaRooms)"
proof (cases "featureDefinitions k")
  case (Some d)
  then show ?thesis
    by (cases rule: readEffectiveFeature_cases[of k d c db t]) (auto simp: RequireFeature_def)
qed (simp add: RequireFeature_def)

text \<open>
  C38.  Guardrails dominate overrides: a feature is granted exactly when the tenant is active,
  no deployment guardrail forces it off or keeps the tenant out, and the tenant's override (or
  the catalogue's default) enables it; instant study rooms need the classroom media rooms too.
\<close>

theorem RequireFeature_granted_exactly:
  "RequireFeature (Some c) db t k = Inr () \<longleftrightarrow>
     t \<noteq> uuid_Nil \<and> cd_tenants db t = Some ''active'' \<and> k \<in> set feature_keys \<and>
     (\<forall>k' \<in> (if k = FeatureInstantStudyRooms then {k, FeatureClassroomMediaRooms} else {k}).
        \<not> cat_forcedOff c k' \<and>
        (case cat_allowlists c k' of None \<Rightarrow> True | Some l \<Rightarrow> t \<in> set l) \<and>
        (case cd_features db t k' of Some b \<Rightarrow> b | None \<Rightarrow> featureDefinitions k' = Some True))"
  unfolding RequireFeature_Inr feature_keys_complete[symmetric] feature_on_def by auto

definition example_controls :: control_db where
  "example_controls = \<lparr>cd_tenants = [1 \<mapsto> ''active''],
     cd_memberships = [(1, 7) \<mapsto> (OrganizationRoleAdmin, ''active'')],
     cd_features = (\<lambda>t. if t = 1 then [FeatureClassroomMediaRooms \<mapsto> True] else Map.empty),
     cd_quotas = (\<lambda>_. Map.empty), cd_windows = Map.empty, cd_revisions = Map.empty,
     cd_usage = (\<lambda>_ _ _. 0), cd_updates = []\<rparr>"

theorem RequireFeature_granted_exactly_witness:
  "RequireFeature (Some empty_catalog) example_controls 1 FeatureClassroomMediaRooms = Inr () \<and>
   RequireFeature (Some empty_catalog) example_controls 1 FeatureInstantStudyRooms \<noteq> Inr ()"
  unfolding RequireFeature_granted_exactly
  by (simp add: example_controls_def empty_catalog_def feature_keys_def)

subsection \<open>Quotas\<close>

text \<open>The limit before the ceilings, and after them.\<close>

definition quota_start :: "control_db \<Rightarrow> uuid \<Rightarrow> quota_key \<Rightarrow> quota_definition \<Rightarrow> int" where
  "quota_start db t k d = (case cd_quotas db t k of None \<Rightarrow> qd_DefaultLimit d | Some l \<Rightarrow> l)"

definition ceilings_for :: "catalog \<Rightarrow> uuid \<Rightarrow> quota_key \<Rightarrow> int list" where
  "ceilings_for c t k =
     (case cat_ceilings c k of None \<Rightarrow> [] | Some x \<Rightarrow> [x]) @
     (case cat_tenantCeilings c k of None \<Rightarrow> [] | Some m \<Rightarrow> (case m t of None \<Rightarrow> [] | Some x \<Rightarrow> [x]))"

lemma evaluateQuota_Inr:
  assumes "evaluateQuota (Some c) t k ov = Inr e"
  obtains d start where "quotaDefinitions k = Some d" "ql_Key e = k"
    "start = (case ov of None \<Rightarrow> qd_DefaultLimit d | Some l \<Rightarrow> l)"
    "qd_MinimumLimit d \<le> start" "start \<le> qd_MaximumLimit d"
    "ql_Limit e = foldr min (ceilings_for c t k) start"
proof -
  from assms obtain d where d: "quotaDefinitions k = Some d"
    by (auto simp: evaluateQuota_def split: option.splits)
  define start where "start = (case ov of None \<Rightarrow> qd_DefaultLimit d | Some l \<Rightarrow> l)"
  define tc where "tc = (case cat_tenantCeilings c k of None \<Rightarrow> None | Some m \<Rightarrow> m t)"
  obtain src where p: "(case ov of None \<Rightarrow> Inr (qd_DefaultLimit d, ValueSourceCatalogDefault)
      | Some l \<Rightarrow> try_res (validateQuotaLimit d l) (\<lambda>_. Inr (l, ValueSourceTenantOverride))) =
      (Inr (start, src) :: control_error + _)"
    and bounds: "qd_MinimumLimit d \<le> start" "start \<le> qd_MaximumLimit d"
    using assms d quotaDefinitions_default[OF d]
    by (auto simp: evaluateQuota_def start_def split: option.splits)
  define fin where "fin = apply_ceiling tc (apply_ceiling (cat_ceilings c k) (start, src))"
  have e: "e = \<lparr>ql_Key = k, ql_Limit = fst fin, ql_Source = snd fin\<rparr>"
    using assms d p by (simp add: evaluateQuota_def Let_def fin_def tc_def split: prod.splits)
  have "fst fin = foldr min (ceilings_for c t k) start"
    unfolding fin_def fst_apply_ceiling ceilings_for_def tc_def
    by (auto simp: min.left_commute split: option.splits)
  with that[OF d _ start_def bounds] e show ?thesis by simp
qed

lemma foldr_min_le: "x \<in> set xs \<Longrightarrow> foldr min xs (a::int) \<le> x"
  by (induction xs) (auto simp: min_le_iff_disj)

lemma foldr_min_le_start: "foldr min xs (a::int) \<le> a"
  by (induction xs) (auto simp: min_le_iff_disj)

lemma foldr_min_ge: "\<forall>x\<in>set xs. (b::int) \<le> x \<Longrightarrow> b \<le> a \<Longrightarrow> b \<le> foldr min xs a"
  by (induction xs) auto

lemma ceilings_within:
  assumes "catalog_ok c" and "quotaDefinitions k = Some d" and "x \<in> set (ceilings_for c t k)"
  shows "qd_MinimumLimit d \<le> x"
proof -
  have "cat_ceilings c k = Some x \<or> (\<exists>m. cat_tenantCeilings c k = Some m \<and> m t = Some x)"
    using assms(3)
    by (cases "cat_ceilings c k"; cases "cat_tenantCeilings c k")
      (auto simp: ceilings_for_def split: option.splits)
  with assms(1,2) show ?thesis unfolding catalog_ok_def by (metis option.inject)
qed

lemma evaluateQuota_bounds:
  assumes "evaluateQuota (Some c) t k ov = Inr e" and "catalog_ok c" and "quotaDefinitions k = Some d"
  shows "qd_MinimumLimit d \<le> ql_Limit e" and "ql_Limit e \<le> qd_MaximumLimit d"
    and "\<forall>x\<in>set (ceilings_for c t k). ql_Limit e \<le> x"
proof -
  obtain start where start: "qd_MinimumLimit d \<le> start" "start \<le> qd_MaximumLimit d"
    "ql_Limit e = foldr min (ceilings_for c t k) start"
    using evaluateQuota_Inr[OF assms(1)] assms(3) by (metis option.inject)
  show "qd_MinimumLimit d \<le> ql_Limit e"
    unfolding start(3) using ceilings_within[OF assms(2,3)] start(1) by (intro foldr_min_ge) auto
  show "ql_Limit e \<le> qd_MaximumLimit d"
    unfolding start(3) using foldr_min_le_start start(2) by (rule order_trans)
  show "\<forall>x\<in>set (ceilings_for c t k). ql_Limit e \<le> x"
    unfolding start(3) by (simp add: foldr_min_le)
qed

text \<open>
  Quota limits respect the catalogue: with a catalogue that the constructor accepted, every
  limit that is enforced for a tenant lies between the minimum and the maximum of the quota's
  definition and below every deployment ceiling, whatever overrides the tenant has stored.
\<close>

theorem ResolveQuota_within_guardrails:
  assumes "NewCatalog g = Inr c" and "ResolveQuota (Some c) db t k = Inr e"
  shows "\<exists>d. quotaDefinitions k = Some d \<and> qd_MinimumLimit d \<le> ql_Limit e \<and>
    ql_Limit e \<le> qd_MaximumLimit d \<and>
    (\<forall>x. cat_ceilings c k = Some x \<longrightarrow> ql_Limit e \<le> x) \<and>
    (\<forall>m x. cat_tenantCeilings c k = Some m \<longrightarrow> m t = Some x \<longrightarrow> ql_Limit e \<le> x)"
proof -
  have ev: "evaluateQuota (Some c) t k (cd_quotas db t k) = Inr e"
    using assms(2) by (auto simp: ResolveQuota_def readEffectiveQuota_def split: if_splits)
  then obtain d where d: "quotaDefinitions k = Some d" by (rule evaluateQuota_Inr)
  with evaluateQuota_bounds[OF ev NewCatalog_ok[OF assms(1)] d] show ?thesis
    by (auto simp: ceilings_for_def)
qed

definition example_guardrails :: guardrails where
  "example_guardrails = \<lparr>ForcedOffFeatures = [], TenantAllowlists = [],
     QuotaCeilings = [(QuotaMembers, 50)], TenantQuotaCeilings = [(QuotaMembers, [(1, 20)])]\<rparr>"

lemma example_catalog: "NewCatalog example_guardrails = Inr
    (empty_catalog\<lparr>cat_ceilings := [QuotaMembers \<mapsto> 50],
       cat_tenantCeilings := [QuotaMembers \<mapsto> [1 \<mapsto> 20]]\<rparr>)"
  by (simp add: NewCatalog_def example_guardrails_def add_ceiling_def add_tenant_ceilings_def
      add_tenant_ceiling_def validateQuotaLimit_def empty_catalog_def)

theorem ResolveQuota_within_guardrails_witness:
  "\<exists>e. ResolveQuota (Some (empty_catalog\<lparr>cat_ceilings := [QuotaMembers \<mapsto> 50],
       cat_tenantCeilings := [QuotaMembers \<mapsto> [1 \<mapsto> 20]]\<rparr>)) example_controls 1 QuotaMembers = Inr e \<and>
     ql_Limit e \<le> 20"
proof -
  have r: "ResolveQuota (Some (empty_catalog\<lparr>cat_ceilings := [QuotaMembers \<mapsto> 50],
       cat_tenantCeilings := [QuotaMembers \<mapsto> [1 \<mapsto> 20]]\<rparr>)) example_controls 1 QuotaMembers =
     Inr \<lparr>ql_Key = QuotaMembers, ql_Limit = 20, ql_Source = ValueSourceDeploymentGuardrail\<rparr>"
    by (simp add: ResolveQuota_def readEffectiveQuota_def evaluateQuota_def apply_ceiling_def
        empty_catalog_def example_controls_def)
  from ResolveQuota_within_guardrails[OF example_catalog r] show ?thesis using r by auto
qed

subsection \<open>Rate quotas\<close>

text \<open>
  The state of the limiter is the catalogue with the tables, its keys are a tenant with a
  quota.  A call that the repository refuses for another reason has limit 0.
\<close>

type_synonym rate_state = "catalog \<times> control_db"

definition rate_consume :: "rate_state \<Rightarrow> uuid \<times> quota_key \<Rightarrow> instant \<Rightarrow> rate_state option" where
  "rate_consume = (\<lambda>(c, db) (t, k) now. case ConsumeRateQuota (Some c) db t k now of
      Inl _ \<Rightarrow> None | Inr (_, db') \<Rightarrow> Some (c, db'))"

definition rate_used :: "rate_state \<Rightarrow> uuid \<times> quota_key \<Rightarrow> instant \<Rightarrow> int" where
  "rate_used = (\<lambda>(c, db). window_used (cd_windows db))"

definition rate_limit_of :: "rate_state \<Rightarrow> uuid \<times> quota_key \<Rightarrow> int" where
  "rate_limit_of = (\<lambda>(c, db) (t, k).
     if t = uuid_Nil \<or> \<not> isRateQuota k \<or> cd_tenants db t \<noteq> Some ''active'' then 0
     else case readEffectiveQuota (Some c) db t k of Inl _ \<Rightarrow> 0 | Inr e \<Rightarrow> ql_Limit e)"

definition rate_inv :: "rate_state \<Rightarrow> bool" where
  "rate_inv = (\<lambda>(c, db). catalog_ok c \<and> windows_ok (cd_windows db))"

lemma readEffectiveQuota_pos:
  "catalog_ok c \<Longrightarrow> readEffectiveQuota (Some c) db t k = Inr e \<Longrightarrow> 1 \<le> ql_Limit e"
  unfolding readEffectiveQuota_def
  by (metis evaluateQuota_Inr evaluateQuota_bounds(1) quotaDefinitions_default order_trans)

lemma ConsumeRateQuota_Inr:
  assumes "ConsumeRateQuota (Some c) db t k now = Inr (r, db')"
  obtains e u where "t \<noteq> uuid_Nil" "isRateQuota k" "cd_tenants db t = Some ''active''"
    "readEffectiveQuota (Some c) db t k = Inr e"
    "upsert_window (t, k) (time_Truncate now quotaRateWindow) (ql_Limit e) (cd_windows db) =
       (Some u, cd_windows db')"
    "db' = db\<lparr>cd_windows := cd_windows db'\<rparr>"
    "r = newRateLimitResult (ql_Limit e) u (time_Truncate now quotaRateWindow)
       (time_Truncate now quotaRateWindow + quotaRateWindow) now"
proof -
  have pre: "t \<noteq> uuid_Nil" "now \<noteq> 0" "isRateQuota k" "cd_tenants db t = Some ''active''"
    using assms by (auto simp: ConsumeRateQuota_def split: if_splits)
  obtain e where e: "readEffectiveQuota (Some c) db t k = Inr e"
    using assms pre
    by (cases "readEffectiveQuota (Some c) db t k")
      (simp_all add: ConsumeRateQuota_def ensureActiveControlTenant_def)
  obtain res w' where u: "upsert_window (t, k) (time_Truncate now quotaRateWindow) (ql_Limit e)
      (cd_windows db) = (res, w')" by fastforce
  show ?thesis
    using assms pre e u that
    by (cases res) (auto simp: ConsumeRateQuota_def ensureActiveControlTenant_def Let_def)
qed

lemma rate_consume_Some:
  assumes "rate_consume (c, db) (t, k) now = Some s'" and "rate_inv (c, db)"
  obtains e u where "s' = (c, db\<lparr>cd_windows := (cd_windows db)
      (((t, k), time_Truncate now quotaRateWindow) \<mapsto> u)\<rparr>)"
    "u = window_used (cd_windows db) (t, k) (time_Truncate now quotaRateWindow) + 1"
    "windows_ok ((cd_windows db)(((t, k), time_Truncate now quotaRateWindow) \<mapsto> u))"
proof -
  obtain r db' where c: "ConsumeRateQuota (Some c) db t k now = Inr (r, db')" "s' = (c, db')"
    using assms(1) by (auto simp: rate_consume_def split: sum.splits)
  then obtain e u where e: "readEffectiveQuota (Some c) db t k = Inr e"
    "upsert_window (t, k) (time_Truncate now quotaRateWindow) (ql_Limit e) (cd_windows db) =
       (Some u, cd_windows db')" "db' = db\<lparr>cd_windows := cd_windows db'\<rparr>"
    using ConsumeRateQuota_Inr[OF c(1)] by metis
  have "1 \<le> ql_Limit e" using readEffectiveQuota_pos[OF _ e(1)] assms(2) by (simp add: rate_inv_def)
  note upd = upsert_window_Some[OF e(2) this]
  have "windows_ok (cd_windows db')"
    using upsert_window_ok[OF e(2)] assms(2) by (simp add: rate_inv_def)
  then show ?thesis using that c(2) e(3) upd by metis
qed

lemma rate_admits:
  assumes "rate_inv (c, db)" and "now \<noteq> 0"
  shows "rate_consume (c, db) (t, k) now \<noteq> None \<longleftrightarrow>
    rate_used (c, db) (t, k) (time_Truncate now quotaRateWindow) < rate_limit_of (c, db) (t, k)"
proof -
  let ?w = "time_Truncate now quotaRateWindow"
  have pos: "0 \<le> window_used (cd_windows db) (t, k) ?w"
    using assms(1) by (simp add: rate_inv_def window_used_nonneg)
  show ?thesis
  proof (cases "t \<noteq> uuid_Nil \<and> isRateQuota k \<and> cd_tenants db t = Some ''active'' \<and>
      is_ok (readEffectiveQuota (Some c) db t k)")
    case True
    then obtain e where e: "readEffectiveQuota (Some c) db t k = Inr e" by (auto simp: is_ok_conv)
    have lim: "1 \<le> ql_Limit e" using readEffectiveQuota_pos[OF _ e] assms(1) by (simp add: rate_inv_def)
    obtain res w' where u: "upsert_window (t, k) ?w (ql_Limit e) (cd_windows db) = (res, w')"
      by fastforce
    have "rate_consume (c, db) (t, k) now \<noteq> None \<longleftrightarrow> res \<noteq> None"
      using True e u assms(2)
      by (cases res) (simp_all add: rate_consume_def ConsumeRateQuota_def Let_def
          ensureActiveControlTenant_def)
    moreover have "res = None \<longleftrightarrow> ql_Limit e \<le> window_used (cd_windows db) (t, k) ?w"
      using u lim by (auto simp: upsert_window_def window_used_def split: option.splits if_splits)
    moreover have "rate_limit_of (c, db) (t, k) = ql_Limit e"
      using True e by (simp add: rate_limit_of_def)
    ultimately show ?thesis by (auto simp: rate_used_def)
  next
    case False
    have "rate_limit_of (c, db) (t, k) = 0"
      using False by (auto simp: rate_limit_of_def is_ok_def split: sum.splits)
    moreover have "rate_consume (c, db) (t, k) now = None"
    proof (rule ccontr)
      assume "rate_consume (c, db) (t, k) now \<noteq> None"
      then obtain r db' where "ConsumeRateQuota (Some c) db t k now = Inr (r, db')"
        by (auto simp: rate_consume_def split: sum.splits)
      with False show False by (elim ConsumeRateQuota_Inr) simp
    qed
    ultimately show ?thesis using pos by (simp add: rate_used_def)
  qed
qed

interpretation rate: windowed_limit rate_consume rate_used rate_limit_of quotaRateWindow rate_inv
proof unfold_locales
  fix s :: rate_state and k start
  assume "rate_inv s"
  then show "0 \<le> rate_used s k start"
    by (cases s) (simp add: rate_used_def rate_inv_def window_used_nonneg)
next
  fix s :: rate_state and tk now s'
  assume s: "rate_inv s" "rate_consume s tk now = Some s'"
  obtain c db t k where [simp]: "s = (c, db)" "tk = (t, k)" by (metis prod.collapse)
  obtain u where s': "s' = (c, db\<lparr>cd_windows := (cd_windows db)
      (((t, k), time_Truncate now quotaRateWindow) \<mapsto> u)\<rparr>)"
    "u = window_used (cd_windows db) (t, k) (time_Truncate now quotaRateWindow) + 1"
    "windows_ok ((cd_windows db)(((t, k), time_Truncate now quotaRateWindow) \<mapsto> u))"
    using rate_consume_Some[of c db t k now s'] s by auto
  have "rate_limit_of s' = rate_limit_of s"
    by (rule ext) (simp add: s'(1) rate_limit_of_def readEffectiveQuota_def split: prod.splits)
  with s s'(1,3) show "rate_inv s' \<and> rate_limit_of s' = rate_limit_of s"
    by (simp add: rate_inv_def)
  fix k' start
  show "rate_used s' k' start =
    rate_used s k' start + (if (k', start) = (tk, time_Truncate now quotaRateWindow) then 1 else 0)"
    using s'(1,2) by (auto simp: rate_used_def window_used_update)
next
  fix s :: rate_state and now :: instant and tk
  assume "rate_inv s" and "now \<noteq> 0"
  then show "(rate_consume s tk now \<noteq> None) =
      (rate_used s tk (time_Truncate now quotaRateWindow) < rate_limit_of s tk)"
    by (cases s, cases tk) (simp only: rate_admits)
qed

text \<open>A run of calls of \<open>ConsumeRateQuota\<close>; a refused call changes nothing.\<close>

fun consume_calls :: "catalog \<Rightarrow> control_db \<Rightarrow> ((uuid \<times> quota_key) \<times> instant) list \<Rightarrow> control_db" where
  "consume_calls c db [] = db"
| "consume_calls c db (((t, k), now) # calls) =
     consume_calls c (case ConsumeRateQuota (Some c) db t k now of
        Inl _ \<Rightarrow> db | Inr (_, db') \<Rightarrow> db') calls"

lemma rate_consume_pair: "rate_consume (c, db) (t, k) now =
    (case ConsumeRateQuota (Some c) db t k now of Inl _ \<Rightarrow> None | Inr (_, db') \<Rightarrow> Some (c, db'))"
  by (simp add: rate_consume_def)

lemma consume_calls_run: "rate.run_calls (c, db) calls = (c, consume_calls c db calls)"
  by (induction c db calls rule: consume_calls.induct)
    (auto simp: rate_consume_pair split: sum.splits)

text \<open>
  Rate quotas are exact: in any run of calls for any tenants and quotas, the counter of a
  quota's window grows by the number of calls that fell into that window, up to the effective
  limit of the tenant and never above it.
\<close>

theorem ConsumeRateQuota_exact:
  assumes "NewCatalog g = Inr c" and "windows_ok (cd_windows db)"
    and "\<forall>(k, now)\<in>set calls. now \<noteq> 0"
    and "cd_tenants db t = Some ''active''" and "t \<noteq> uuid_Nil" and "isRateQuota k"
    and "readEffectiveQuota (Some c) db t k = Inr e"
    and "before = window_used (cd_windows db) (t, k) start" and "before \<le> ql_Limit e"
  shows "window_used (cd_windows (consume_calls c db calls)) (t, k) start =
    min (before + int (length (filter (\<lambda>(tk, now). tk = (t, k) \<and>
      time_Truncate now quotaRateWindow = start) calls))) (ql_Limit e)"
proof -
  have inv: "rate_inv (c, db)" using NewCatalog_ok[OF assms(1)] assms(2) by (simp add: rate_inv_def)
  have "rate_limit_of (c, db) (t, k) = ql_Limit e" using assms by (simp add: rate_limit_of_def)
  with rate.run_calls_used[OF inv assms(3), of "(t, k)" start] assms(8,9) show ?thesis
    by (simp add: consume_calls_run rate_used_def rate.calls_in_def max_def min_def)
qed

theorem ConsumeRateQuota_exact_witness:
  "window_used (cd_windows (consume_calls empty_catalog example_controls
     (replicate 25 ((1, QuotaMediaSpaceStartsPerHour), 7)))) (1, QuotaMediaSpaceStartsPerHour) 0 = 20"
proof -
  have g: "NewCatalog \<lparr>ForcedOffFeatures = [], TenantAllowlists = [], QuotaCeilings = [],
      TenantQuotaCeilings = []\<rparr> = Inr empty_catalog"
    by (simp add: NewCatalog_def)
  have e: "readEffectiveQuota (Some empty_catalog) example_controls 1 QuotaMediaSpaceStartsPerHour =
      Inr \<lparr>ql_Key = QuotaMediaSpaceStartsPerHour, ql_Limit = 20, ql_Source = ValueSourceCatalogDefault\<rparr>"
    by (simp add: readEffectiveQuota_def evaluateQuota_def example_controls_def empty_catalog_def
        apply_ceiling_def)
  show ?thesis
    using ConsumeRateQuota_exact[OF g, of example_controls
        "replicate 25 ((1, QuotaMediaSpaceStartsPerHour), 7)" 1 QuotaMediaSpaceStartsPerHour _ 0 0, OF _ _ _ _ _ e]
    by (simp add: example_controls_def windows_ok_def isRateQuota_def window_used_def
        time_Truncate_def quotaRateWindow_def time_units)
qed

subsection \<open>What a tenant is shown is what is enforced\<close>

lemma Catalog_Features_keys:
  "set (map fst Catalog_Features) = set feature_keys" "distinct (map fst Catalog_Features)"
  unfolding Catalog_Features_def
  by (simp add: image_image) (simp add: distinct_map inj_on_def feature_keys_def)

lemma applyFeatureDependencies_map:
  assumes "distinct (map ef_Key fs)" and "p \<in> set fs" and "ef_Key p = FeatureClassroomMediaRooms"
  shows "applyFeatureDependencies fs = map (\<lambda>f. if ef_Key f = FeatureInstantStudyRooms \<and> \<not> ef_Enabled p
    then f\<lparr>ef_Enabled := False\<rparr> else f) fs" (is "_ = map ?g fs")
proof -
  let ?parents = "filter (\<lambda>f. ef_Key f = FeatureClassroomMediaRooms) fs"
  let ?instants = "filter (\<lambda>i. ef_Key (fs ! i) = FeatureInstantStudyRooms) [0..<length fs]"
  have ne: "?parents \<noteq> []" using assms(2,3) by (auto simp: filter_empty_conv)
  have "last ?parents \<in> set ?parents" using ne by (rule last_in_set)
  then have last: "last ?parents = p"
    using assms inj_onD[of ef_Key "set fs" "last ?parents" p] by (auto simp: distinct_map)
  show ?thesis
  proof (cases "?instants \<noteq> [] \<and> \<not> ef_Enabled p")
    case True
    then have off: "\<not> ef_Enabled p" by simp
    obtain i where i_def: "i = last ?instants" by blast
    have i: "i < length fs" "ef_Key (fs ! i) = FeatureInstantStudyRooms"
      using last_in_set[of ?instants] True unfolding i_def by auto
    have only: "j = i" if "j < length fs" "ef_Key (fs ! j) = FeatureInstantStudyRooms" for j
      using nth_eq_iff_index_eq[OF assms(1), of j i] that i by simp
    have "applyFeatureDependencies fs = fs[i := (fs ! i)\<lparr>ef_Enabled := False\<rparr>]"
      using True ne last unfolding i_def by (simp add: applyFeatureDependencies_def Let_def)
    also have "\<dots> = map ?g fs"
    proof (rule nth_equalityI)
      fix j
      assume "j < length (fs[i := (fs ! i)\<lparr>ef_Enabled := False\<rparr>])"
      then have j: "j < length fs" by simp
      show "fs[i := (fs ! i)\<lparr>ef_Enabled := False\<rparr>] ! j = map ?g fs ! j"
      proof (cases "j = i")
        case True
        then show ?thesis using off i by simp
      next
        case False
        then have "ef_Key (fs ! j) \<noteq> FeatureInstantStudyRooms" using only j by blast
        with False j show ?thesis by simp
      qed
    qed simp
    finally show ?thesis .
  next
    case False
    have "map ?g fs = fs"
    proof (rule map_idI)
      fix f
      assume "f \<in> set fs"
      then obtain j where "j < length fs" "f = fs ! j" by (metis in_set_conv_nth)
      with False show "?g f = f" by (auto simp: filter_empty_conv)
    qed
    with False ne last show ?thesis by (auto simp: applyFeatureDependencies_def)
  qed
qed

lemma readFeatureCapability_Inr:
  assumes "readFeatureCapability (Some c) db t kd = Inr f" and "featureDefinitions (fst kd) = Some d"
  shows "ef_Key f = fst kd" and "ef_Enabled f \<longleftrightarrow> feature_on c db t (fst kd)"
proof -
  obtain k b where kd: "kd = (k, b)" by fastforce
  obtain e where e: "readEffectiveFeatureValue (Some c) db t k = Inr e" "ef_Key e = k"
    "ef_Enabled e \<longleftrightarrow> feature_on c db t k"
    using readEffectiveFeatureValue_cases assms(2) kd by (metis fst_conv)
  then show "ef_Key f = fst kd" and "ef_Enabled f \<longleftrightarrow> feature_on c db t (fst kd)"
    using assms(1) kd
    by (auto simp: readFeatureCapability_def readEffectiveFeatureValue_def effective_feature.defs
        feature_capability.defs Let_def)
qed

lemma GetCapabilities_Inr:
  assumes "GetCapabilities (Some c) db tc now = Inr cp"
  obtains fs where "tc_TenantID tc \<noteq> uuid_Nil" "cd_tenants db (tc_TenantID tc) = Some ''active''"
    "map_res (readFeatureCapability (Some c) db (tc_TenantID tc)) Catalog_Features = Inr fs"
    "cp_Features cp = applyFeatureDependencies fs"
    "map_res (readQuotaCapability (Some c) db (tc_TenantID tc) now) Catalog_Quotas = Inr (cp_Quotas cp)"
    "cp_TenantID cp = tc_TenantID tc" "cp_Version cp = readControlRevision db (tc_TenantID tc)"
proof -
  from assms obtain m where a: "TenantContext_Validate tc"
    "authorizeLockedTenant db tc PermissionTenantView = Inr m"
    "readCapabilities (Some c) db (tc_TenantID tc) m now = Inr cp"
    by (auto simp: GetCapabilities_def split: if_splits)
  then have "tc_TenantID tc \<noteq> uuid_Nil" "cd_tenants db (tc_TenantID tc) = Some ''active''"
    by (auto simp: TenantContext_Validate_def authorizeLockedTenant_def split: option.splits if_splits)
  with a(3) that show ?thesis by (auto simp: readCapabilities_def)
qed

text \<open>
  The capabilities a tenant is shown are the ones enforced: every feature of the catalogue
  is listed, it is listed as enabled exactly when \<open>RequireFeature\<close> grants it, and a request
  within the listed limit of a quota is exactly one that \<open>RequireQuotaAtMost\<close> admits.
\<close>

theorem GetCapabilities_agrees_with_enforcement:
  assumes "GetCapabilities (Some c) db tc now = Inr cp"
  shows "ef_Key ` set (cp_Features cp) = set feature_keys \<and>
    (\<forall>f\<in>set (cp_Features cp).
       ef_Enabled f \<longleftrightarrow> RequireFeature (Some c) db (tc_TenantID tc) (ef_Key f) = Inr ()) \<and>
    (\<forall>q\<in>set (cp_Quotas cp). \<forall>n\<ge>0.
       RequireQuotaAtMost (Some c) db (tc_TenantID tc) (ql_Key q) n = Inr () \<longleftrightarrow> n \<le> ql_Limit q)"
proof -
  obtain fs where g: "tc_TenantID tc \<noteq> uuid_Nil" "cd_tenants db (tc_TenantID tc) = Some ''active''"
    "map_res (readFeatureCapability (Some c) db (tc_TenantID tc)) Catalog_Features = Inr fs"
    "cp_Features cp = applyFeatureDependencies fs"
    "map_res (readQuotaCapability (Some c) db (tc_TenantID tc) now) Catalog_Quotas = Inr (cp_Quotas cp)"
    using GetCapabilities_Inr[OF assms] by metis
  have known: "featureDefinitions k \<noteq> None" if "k \<in> fst ` set Catalog_Features" for k
    using that Catalog_Features_keys(1) feature_keys_complete[of k] by simp
  have read: "ef_Key f \<in> fst ` set Catalog_Features \<and>
      (ef_Enabled f \<longleftrightarrow> feature_on c db (tc_TenantID tc) (ef_Key f))" if "f \<in> set fs" for f
    using map_res_in_set[OF g(3) that] readFeatureCapability_Inr[of c db "tc_TenantID tc" _ f] known
    by (metis imageI not_None_eq)
  have keys: "map ef_Key fs = map fst Catalog_Features"
    using map_res_list_all2[OF g(3)]
  proof (induction rule: list_all2_induct)
    case (Cons kd kds f fs)
    then show ?case by (auto simp: readFeatureCapability_def Let_def evaluateFeature_Inr(1)
          effective_feature.defs feature_capability.defs split: prod.splits)
  qed simp
  have distinct: "distinct (map ef_Key fs)" unfolding keys by (rule Catalog_Features_keys(2))
  have all: "ef_Key ` set fs = set feature_keys"
    using arg_cong[OF keys, of set] Catalog_Features_keys(1) by simp
  then obtain p where p: "p \<in> set fs" "ef_Key p = FeatureClassroomMediaRooms"
    by (force simp: feature_keys_def)
  have shown: "cp_Features cp = map (\<lambda>f. if ef_Key f = FeatureInstantStudyRooms \<and> \<not> ef_Enabled p
      then f\<lparr>ef_Enabled := False\<rparr> else f) fs"
    unfolding g(4) by (rule applyFeatureDependencies_map[OF distinct p])
  have "\<forall>f\<in>set (cp_Features cp).
      ef_Enabled f \<longleftrightarrow> RequireFeature (Some c) db (tc_TenantID tc) (ef_Key f) = Inr ()"
    using read read[OF p(1)] known p(2) g(1,2) unfolding shown by (auto simp: RequireFeature_Inr)
  moreover have "ef_Key ` set (cp_Features cp) = set feature_keys"
    unfolding shown all[symmetric] set_map image_image by (rule image_cong) simp_all
  moreover have "RequireQuotaAtMost (Some c) db (tc_TenantID tc) (ql_Key q) n = Inr () \<longleftrightarrow>
      n \<le> ql_Limit q" if q: "q \<in> set (cp_Quotas cp)" and "0 \<le> n" for q n
  proof -
    obtain k d where "readQuotaCapability (Some c) db (tc_TenantID tc) now (k, d) = Inr q"
      using map_res_in_set[OF g(5) q] by auto
    then obtain e where e: "evaluateQuota (Some c) (tc_TenantID tc) k (cd_quotas db (tc_TenantID tc) k) = Inr e"
      "ql_Key q = ql_Key e" "ql_Limit q = ql_Limit e"
      by (auto simp: readQuotaCapability_def Let_def effective_quota.defs quota_capability.defs)
    moreover obtain d where "quotaDefinitions k = Some d" "ql_Key e = k"
      using evaluateQuota_Inr[OF e(1)] by metis
    ultimately show ?thesis
      using g(1,2) \<open>0 \<le> n\<close>
      by (simp add: RequireQuotaAtMost_def readEffectiveQuota_def ensureActiveControlTenant_def)
  qed
  ultimately show ?thesis by blast
qed

lemma readFeatureCapability_ok:
  assumes "featureDefinitions (fst kd) \<noteq> None"
  shows "is_ok (readFeatureCapability (Some c) db t kd)"
proof -
  obtain k b where kd: "kd = (k, b)" by fastforce
  then obtain e where "readEffectiveFeatureValue (Some c) db t k = Inr e"
    using assms readEffectiveFeatureValue_cases by (metis fst_conv option.exhaust_sel)
  with kd show ?thesis by (simp add: readFeatureCapability_def readEffectiveFeatureValue_def Let_def)
qed

lemma isRateQuota_or_usage:
  "quotaDefinitions k = Some d \<Longrightarrow> is_ok (readQuotaUsage db t k now)"
  by (cases k) (simp_all add: readQuotaUsage_def isRateQuota_def Let_def)

lemma evaluateQuota_ok:
  "quotaDefinitions k = Some d \<Longrightarrow>
     (case ov of None \<Rightarrow> True | Some l \<Rightarrow> qd_MinimumLimit d \<le> l \<and> l \<le> qd_MaximumLimit d) \<Longrightarrow>
     is_ok (evaluateQuota (Some c) t k ov)"
  by (auto simp: evaluateQuota_def is_ok_conv validateQuotaLimit_def Let_def split: option.splits prod.splits)

lemma readQuotaCapability_ok:
  assumes "quotaDefinitions (fst kd) = Some d"
    and "case cd_quotas db t (fst kd) of None \<Rightarrow> True | Some l \<Rightarrow> qd_MinimumLimit d \<le> l \<and> l \<le> qd_MaximumLimit d"
  shows "is_ok (readQuotaCapability (Some c) db t now kd)"
proof -
  obtain k x where [simp]: "kd = (k, x)" by fastforce
  obtain e where "evaluateQuota (Some c) t k (cd_quotas db t k) = Inr e"
    using evaluateQuota_ok[of k d] assms by (fastforce simp: is_ok_conv)
  moreover obtain u w where "readQuotaUsage db t k now = Inr (u, w)"
    using isRateQuota_or_usage[of k d db t now] assms by (auto simp: is_ok_conv)
  ultimately show ?thesis by (simp add: readQuotaCapability_def Let_def)
qed

lemma Catalog_Quotas_keys: "kd \<in> set Catalog_Quotas \<Longrightarrow> \<exists>d. quotaDefinitions (fst kd) = Some d"
  using quota_keys_complete by (auto simp: Catalog_Quotas_def QuotaKeys_def)

text \<open>The stored quota overrides are within their definitions, as the CHECK constraint says.\<close>

definition overrides_ok :: "control_db \<Rightarrow> uuid \<Rightarrow> bool" where
  "overrides_ok db t \<longleftrightarrow> (\<forall>k d l. quotaDefinitions k = Some d \<longrightarrow> cd_quotas db t k = Some l \<longrightarrow>
     qd_MinimumLimit d \<le> l \<and> l \<le> qd_MaximumLimit d)"

lemma readCapabilities_ok:
  assumes "overrides_ok db t"
  shows "\<exists>cp. readCapabilities (Some c) db t m now = Inr cp \<and> cp_Version cp = readControlRevision db t"
proof -
  have "is_ok (map_res (readFeatureCapability (Some c) db t) Catalog_Features)"
    using Catalog_Features_keys(1) feature_keys_complete
    by (force simp: map_res_ok intro!: readFeatureCapability_ok)
  moreover have "is_ok (map_res (readQuotaCapability (Some c) db t now) Catalog_Quotas)"
    unfolding map_res_ok
  proof
    fix kd
    assume "kd \<in> set Catalog_Quotas"
    then obtain d where "quotaDefinitions (fst kd) = Some d" using Catalog_Quotas_keys by blast
    with assms show "is_ok (readQuotaCapability (Some c) db t now kd)"
      by (intro readQuotaCapability_ok) (auto simp: overrides_ok_def split: option.splits)
  qed
  ultimately show ?thesis by (auto simp: is_ok_conv readCapabilities_def)
qed

definition example_context :: tenant_context where
  "example_context = \<lparr>tc_TenantID = 1, tc_ActorID = 7\<rparr>"

lemma example_capabilities:
  "\<exists>cp. GetCapabilities (Some empty_catalog) example_controls example_context 9 = Inr cp"
proof -
  have "overrides_ok example_controls 1" by (simp add: overrides_ok_def example_controls_def)
  from readCapabilities_ok[OF this] show ?thesis
    by (fastforce simp: GetCapabilities_def TenantContext_Validate_def example_context_def
        authorizeLockedTenant_def example_controls_def Authorize_Allowed_iff set_EffectivePermissions
        controls_input_def controls_subject_def validSubject_def actionRequiresClass_def)
qed

theorem GetCapabilities_agrees_with_enforcement_witness:
  "\<exists>cp. GetCapabilities (Some empty_catalog) example_controls example_context 9 = Inr cp \<and>
     (\<exists>f\<in>set (cp_Features cp). ef_Key f = FeatureClassroomMediaRooms \<and> ef_Enabled f)"
proof -
  obtain cp where cp: "GetCapabilities (Some empty_catalog) example_controls example_context 9 = Inr cp"
    using example_capabilities by blast
  have "RequireFeature (Some empty_catalog) example_controls 1 FeatureClassroomMediaRooms = Inr ()"
    by (simp add: RequireFeature_Inr feature_on_def empty_catalog_def example_controls_def)
  moreover have "FeatureClassroomMediaRooms \<in> set feature_keys" by (simp add: feature_keys_def)
  moreover note agree = GetCapabilities_agrees_with_enforcement[OF cp]
  ultimately obtain f where f: "f \<in> set (cp_Features cp)" "ef_Key f = FeatureClassroomMediaRooms"
    by (metis imageE)
  with agree \<open>RequireFeature _ _ _ _ = Inr ()\<close> have "ef_Enabled f"
    by (simp add: example_context_def)
  with f cp show ?thesis by blast
qed

subsection \<open>Replacing the overrides\<close>

lemma foldl_update_map_of:
  assumes "distinct (map fst xs)"
  shows "foldl (\<lambda>m (k, b). m(k \<mapsto> b)) m xs k = (case map_of xs k of None \<Rightarrow> m k | Some b \<Rightarrow> Some b)"
  using assms
proof (induction xs arbitrary: m)
  case (Cons x xs)
  then have "fst x \<notin> set (map fst xs)" by simp
  then have "map_of xs (fst x) = None" by (simp add: map_of_eq_None_iff)
  with Cons show ?case by (cases x) (auto split: option.splits)
qed simp

lemma map_of_sort_key:
  assumes "distinct (map fst xs)"
  shows "map_of (sort_key f xs) = map_of xs"
proof -
  have "distinct (map fst (sort_key f xs))" using assms by (simp add: distinct_map)
  with assms show ?thesis by (simp add: map_of_inject_set)
qed

lemma check_overrides_distinct:
  assumes "fold_res step seen xs = Inr seen'" and "distinct seen"
    and step: "\<And>seen x seen'. step seen x = Inr seen' \<Longrightarrow> fst x \<notin> set seen \<and> seen' = fst x # seen"
  shows "distinct (map fst xs) \<and> set (map fst xs) \<inter> set seen = {}"
  using assms(1,2)
proof (induction xs arbitrary: seen)
  case (Cons x xs)
  then obtain s where "step seen x = Inr s" "fold_res step s xs = Inr seen'" by auto
  with Cons.prems(2) step[of seen x s] Cons.IH[of s] show ?case by auto
qed simp

lemma distinct_nil: "distinct []" by simp

lemma normalizeOverrides_Inr:
  assumes "normalizeOverrides (Some c) input = Inr n"
  shows "po_ExpectedVersion n = po_ExpectedVersion input"
    and "distinct (map fst (po_FeatureOverrides n))" and "distinct (map fst (po_QuotaOverrides n))"
    and "map_of (po_FeatureOverrides n) = map_of (po_FeatureOverrides input)"
    and "map_of (po_QuotaOverrides n) = map_of (po_QuotaOverrides input)"
proof -
  obtain s1 s2 where s: "fold_res check_feature_override [] (po_FeatureOverrides input) = Inr s1"
    "fold_res check_quota_override [] (po_QuotaOverrides input) = Inr s2"
    and n: "n = \<lparr>po_ExpectedVersion = po_ExpectedVersion input,
      po_FeatureOverrides = sort_key (\<lambda>o'. feature_key_string (fst o')) (po_FeatureOverrides input),
      po_QuotaOverrides = sort_key (\<lambda>o'. quota_key_string (fst o')) (po_QuotaOverrides input)\<rparr>"
    using assms by (auto simp: normalizeOverrides_def split: if_splits)
  have f: "distinct (map fst (po_FeatureOverrides input))"
    using check_overrides_distinct[OF s(1) distinct_nil]
    by (fastforce simp: check_feature_override_def split: if_splits)
  have q: "distinct (map fst (po_QuotaOverrides input))"
    using check_overrides_distinct[OF s(2) distinct_nil]
    by (fastforce simp: check_quota_override_def split: if_splits option.splits)
  show "po_ExpectedVersion n = po_ExpectedVersion input" by (simp add: n)
  show "distinct (map fst (po_FeatureOverrides n))" using f by (simp add: n distinct_map)
  show "distinct (map fst (po_QuotaOverrides n))" using q by (simp add: n distinct_map)
  show "map_of (po_FeatureOverrides n) = map_of (po_FeatureOverrides input)"
    using f by (simp add: n map_of_sort_key)
  show "map_of (po_QuotaOverrides n) = map_of (po_QuotaOverrides input)"
    using q by (simp add: n map_of_sort_key)
qed

lemma PutOverrides_Inr:
  assumes "PutOverrides (Some c) db tc input now = Inr (cp, db')"
  shows "readControlRevision db (tc_TenantID tc) = po_ExpectedVersion input"
    and "readControlRevision db' (tc_TenantID tc) = po_ExpectedVersion input + 1"
    and "cd_features db' = (cd_features db)(tc_TenantID tc := map_of (po_FeatureOverrides input))"
    and "cd_quotas db' = (cd_quotas db)(tc_TenantID tc := map_of (po_QuotaOverrides input))"
    and "cd_windows db' = cd_windows db" and "cd_tenants db' = cd_tenants db"
    and "\<exists>m. authorizeLockedTenant db tc PermissionTenantManageFeatures = Inr m"
proof -
  obtain n m where n: "normalizeOverrides (Some c) input = Inr n"
    and auth: "authorizeLockedTenant db tc PermissionTenantManageFeatures = Inr m"
    using assms by (auto simp: PutOverrides_def split: if_splits)
  obtain v1 db1 where v1: "lockControlRevision db tc = (v1, db1)" by fastforce
  define v where "v = po_ExpectedVersion n"
  have v: "lockControlRevision db tc = (v, db1)" "v = po_ExpectedVersion n"
    using assms n auth v1 by (auto simp: PutOverrides_def Let_def v_def split: if_splits)
  have db': "db' = appendFeatureControlUpdate tc (v + 1) (length (po_FeatureOverrides n))
      (length (po_QuotaOverrides n)) now
      ((replaceQuotaOverrides (tc_TenantID tc) (po_QuotaOverrides n)
        (replaceFeatureOverrides (tc_TenantID tc) (po_FeatureOverrides n) db1))
        \<lparr>cd_revisions := (cd_revisions db1)(tc_TenantID tc \<mapsto> v + 1)\<rparr>)"
    using assms n auth v
    by (auto simp: PutOverrides_def Let_def replaceQuotaOverrides_def replaceFeatureOverrides_def
        split: if_splits)
  note norm = normalizeOverrides_Inr[OF n]
  have db1: "cd_features db1 = cd_features db" "cd_quotas db1 = cd_quotas db"
    "cd_windows db1 = cd_windows db" "cd_tenants db1 = cd_tenants db"
    "readControlRevision db (tc_TenantID tc) = v"
    using v(1) by (auto simp: lockControlRevision_def readControlRevision_def split: option.splits)
  have upd: "foldl (\<lambda>m (k, b). m(k \<mapsto> b)) (\<lambda>_. None) xs = map_of xs" if "distinct (map fst xs)" for xs
    by (rule ext) (simp add: foldl_update_map_of[OF that] split: option.splits)
  show "readControlRevision db (tc_TenantID tc) = po_ExpectedVersion input"
    using db1(5) v(2) norm(1) by simp
  show "readControlRevision db' (tc_TenantID tc) = po_ExpectedVersion input + 1"
    using v(2) norm(1) by (simp add: db' appendFeatureControlUpdate_def readControlRevision_def)
  show "cd_features db' = (cd_features db)(tc_TenantID tc := map_of (po_FeatureOverrides input))"
    using upd[OF norm(2)] norm(4) db1
    by (simp add: db' appendFeatureControlUpdate_def replaceQuotaOverrides_def replaceFeatureOverrides_def)
  show "cd_quotas db' = (cd_quotas db)(tc_TenantID tc := map_of (po_QuotaOverrides input))"
    using upd[OF norm(3)] norm(5) db1
    by (simp add: db' appendFeatureControlUpdate_def replaceQuotaOverrides_def replaceFeatureOverrides_def)
  show "cd_windows db' = cd_windows db" and "cd_tenants db' = cd_tenants db"
    using db1 by (simp_all add: db' appendFeatureControlUpdate_def replaceQuotaOverrides_def
        replaceFeatureOverrides_def)
  show "\<exists>m. authorizeLockedTenant db tc PermissionTenantManageFeatures = Inr m" using auth by blast
qed

text \<open>
  C39.  Overrides are replaced optimistically and without lost updates: an update that succeeds
  found the expected revision and advanced it by one, the tenant's overrides are then exactly
  the ones asked for, no other tenant's change, and a second update against the same revision
  is refused.
\<close>

theorem PutOverrides_optimistic:
  assumes "PutOverrides (Some c) db tc input now = Inr (cp, db')"
  shows "readControlRevision db (tc_TenantID tc) = po_ExpectedVersion input \<and>
    readControlRevision db' (tc_TenantID tc) = po_ExpectedVersion input + 1 \<and>
    cd_features db' = (cd_features db)(tc_TenantID tc := map_of (po_FeatureOverrides input)) \<and>
    cd_quotas db' = (cd_quotas db)(tc_TenantID tc := map_of (po_QuotaOverrides input)) \<and>
    (tc_TenantID tc' = tc_TenantID tc \<and> po_ExpectedVersion input' = po_ExpectedVersion input \<longrightarrow>
       \<not> is_ok (PutOverrides (Some c) db' tc' input' now'))"
proof -
  have "\<not> is_ok (PutOverrides (Some c) db' tc' input' now')"
    if "tc_TenantID tc' = tc_TenantID tc" "po_ExpectedVersion input' = po_ExpectedVersion input"
  proof
    assume "is_ok (PutOverrides (Some c) db' tc' input' now')"
    then obtain cp' db'' where "PutOverrides (Some c) db' tc' input' now' = Inr (cp', db'')"
      by (auto simp: is_ok_conv)
    from PutOverrides_Inr(1)[OF this] PutOverrides_Inr(2)[OF assms] that show False by simp
  qed
  then show ?thesis using PutOverrides_Inr(1-4)[OF assms] by blast
qed

definition example_overrides :: put_overrides where
  "example_overrides = \<lparr>po_ExpectedVersion = 0,
     po_FeatureOverrides = [(FeatureInstantStudyRooms, True)], po_QuotaOverrides = [(QuotaMembers, 5)]\<rparr>"

lemma example_fields:
  "tc_TenantID example_context = 1" "tc_ActorID example_context = 7"
  "po_ExpectedVersion example_overrides = 0"
  "po_FeatureOverrides example_overrides = [(FeatureInstantStudyRooms, True)]"
  "po_QuotaOverrides example_overrides = [(QuotaMembers, 5)]"
  by (simp_all add: example_context_def example_overrides_def)

lemma PutOverrides_success:
  assumes "TenantContext_Validate tc" and "normalizeOverrides cat input = Inr n"
    and "authorizeLockedTenant db tc PermissionTenantManageFeatures = Inr m"
    and "lockControlRevision db tc = (v, db1)" and "v = po_ExpectedVersion n"
    and "db2 = appendFeatureControlUpdate tc (v + 1) (length (po_FeatureOverrides n))
      (length (po_QuotaOverrides n)) now
      ((replaceQuotaOverrides (tc_TenantID tc) (po_QuotaOverrides n)
        (replaceFeatureOverrides (tc_TenantID tc) (po_FeatureOverrides n) db1))
        \<lparr>cd_revisions := (cd_revisions db1)(tc_TenantID tc \<mapsto> v + 1)\<rparr>)"
    and "readCapabilities cat db2 (tc_TenantID tc) True now = Inr cp" and "cp_Version cp = v + 1"
  shows "PutOverrides cat db tc input now = Inr (cp, db2)"
  using assms
  by (simp add: PutOverrides_def Let_def replaceQuotaOverrides_def replaceFeatureOverrides_def)

lemma example_put: "\<exists>r. PutOverrides (Some empty_catalog) example_controls example_context
    example_overrides 9 = Inr r"
proof -
  have auth: "authorizeLockedTenant example_controls example_context PermissionTenantManageFeatures = Inr True"
    by (simp add: authorizeLockedTenant_def example_controls_def example_context_def
        Authorize_Allowed_iff set_EffectivePermissions controls_input_def controls_subject_def
        validSubject_def actionRequiresClass_def)
  have norm: "normalizeOverrides (Some empty_catalog) example_overrides = Inr example_overrides"
    by (simp add: normalizeOverrides_def example_overrides_def check_feature_override_def
        check_quota_override_def validateQuotaLimit_def)
  define db1 where "db1 = appendFeatureControlUpdate example_context 1 1 1 9
      ((replaceQuotaOverrides 1 [(QuotaMembers, 5)]
        (replaceFeatureOverrides 1 [(FeatureInstantStudyRooms, True)]
          (snd (lockControlRevision example_controls example_context))))
        \<lparr>cd_revisions := [1 \<mapsto> 1]\<rparr>)"
  have "overrides_ok db1 1" and rev: "readControlRevision db1 1 = 1"
    by (auto simp: db1_def overrides_ok_def appendFeatureControlUpdate_def replaceQuotaOverrides_def
        readControlRevision_def split: if_splits)
  then obtain cp where cp: "readCapabilities (Some empty_catalog) db1 1 True 9 = Inr cp"
    "cp_Version cp = 1"
    using readCapabilities_ok[of db1 1 empty_catalog True 9] by auto
  have lock: "lockControlRevision example_controls example_context =
      (0, snd (lockControlRevision example_controls example_context))"
    "cd_revisions (snd (lockControlRevision example_controls example_context)) = [1 \<mapsto> 0]"
    by (simp_all add: lockControlRevision_def example_controls_def example_context_def)
  have "PutOverrides (Some empty_catalog) example_controls example_context example_overrides 9 =
      Inr (cp, db1)"
    by (rule PutOverrides_success[OF _ norm auth lock(1)])
      (use cp lock(2) in \<open>simp_all add: TenantContext_Validate_def example_context_def[symmetric]
        example_fields db1_def\<close>)
  then show ?thesis by blast
qed

theorem PutOverrides_optimistic_witness:
  "\<exists>cp db'. PutOverrides (Some empty_catalog) example_controls example_context example_overrides 9 =
     Inr (cp, db') \<and> cd_features db' 1 = [FeatureInstantStudyRooms \<mapsto> True] \<and>
     readControlRevision db' 1 = 1"
proof -
  obtain cp db' where p: "PutOverrides (Some empty_catalog) example_controls example_context
      example_overrides 9 = Inr (cp, db')" using example_put by auto
  from PutOverrides_optimistic[OF p, of example_context example_overrides 9] p show ?thesis
    by (auto simp: example_context_def example_overrides_def)
qed

end
