(* ===== verification/Sql_Tables.thy ===== *)
theory Sql_Tables imports Go_Prelude begin

section \<open>Rows of a table\<close>

text \<open>
  The statements the repositories issue on one table, over the list of its rows: an UPDATE with
  its WHERE clause, the row count it reports, and the constraints, which make a statement fail
  before it takes effect.  The lemmas say what an update leaves alone and when it preserves a
  (partial) unique index.
\<close>

definition update_where :: "('r \<Rightarrow> bool) \<Rightarrow> ('r \<Rightarrow> 'r) \<Rightarrow> 'r list \<Rightarrow> 'r list" where
  "update_where P f rows = map (\<lambda>r. if P r then f r else r) rows"

definition count_where :: "('r \<Rightarrow> bool) \<Rightarrow> 'r list \<Rightarrow> int" where
  "count_where P rows = int (length (filter P rows))"

definition constrained :: "('r list \<Rightarrow> bool) \<Rightarrow> 'e \<Rightarrow> 'r list \<Rightarrow> 'e + 'r list" where
  "constrained ok e rows = (if ok rows then Inr rows else Inl e)"

text \<open>A unique index on \<open>key\<close> over the rows with \<open>cond\<close>.\<close>

definition unique_index :: "('r \<Rightarrow> bool) \<Rightarrow> ('r \<Rightarrow> 'k) \<Rightarrow> 'r list \<Rightarrow> bool" where
  "unique_index cond key rows \<longleftrightarrow> distinct (map key (filter cond rows))"

lemma constrained_Inr [simp]: "constrained ok e rows = Inr rows' \<longleftrightarrow> ok rows \<and> rows' = rows"
  by (auto simp: constrained_def)

lemma update_where_Nil [simp]: "update_where P f [] = []"
  by (simp add: update_where_def)

lemma update_where_Cons [simp]:
  "update_where P f (r # rs) = (if P r then f r else r) # update_where P f rs"
  by (simp add: update_where_def)

lemma update_where_append [simp]:
  "update_where P f (rs @ rs') = update_where P f rs @ update_where P f rs'"
  by (simp add: update_where_def)

lemma set_update_where:
  "r' \<in> set (update_where P f rows) \<longleftrightarrow>
     (\<exists>r\<in>set rows. r' = (if P r then f r else r))"
  by (auto simp: update_where_def)

lemma update_where_untouched: "r \<in> set rows \<Longrightarrow> \<not> P r \<Longrightarrow> r \<in> set (update_where P f rows)"
  by (force simp: update_where_def)

lemma update_where_touched: "r \<in> set rows \<Longrightarrow> P r \<Longrightarrow> f r \<in> set (update_where P f rows)"
  by (force simp: update_where_def)

lemma update_where_none: "\<forall>r\<in>set rows. \<not> P r \<Longrightarrow> update_where P f rows = rows"
  by (induction rows) auto

lemma length_update_where [simp]: "length (update_where P f rows) = length rows"
  by (simp add: update_where_def)

lemma map_update_where:
  assumes "\<And>r. P r \<Longrightarrow> key (f r) = key r"
  shows "map key (update_where P f rows) = map key rows"
  using assms by (simp add: update_where_def)

lemma filter_update_where:
  assumes "\<And>r. P r \<Longrightarrow> C (f r) = C r"
  shows "filter C (update_where P f rows) = update_where P f (filter C rows)"
  using assms by (induction rows) auto

lemma filter_update_where_other:
  assumes "\<And>r. P r \<Longrightarrow> \<not> C r \<and> \<not> C (f r)"
  shows "filter C (update_where P f rows) = filter C rows"
  using assms by (induction rows) auto

lemma find_update_where_other:
  assumes "\<And>r. P r \<Longrightarrow> \<not> C r \<and> \<not> C (f r)"
  shows "find C (update_where P f rows) = find C rows"
  using assms by (induction rows) auto

lemma find_update_where:
  assumes "\<And>r. P r \<Longrightarrow> C (f r) = C r"
  shows "find C (update_where P f rows) = map_option (\<lambda>r. if P r then f r else r) (find C rows)"
  using assms by (induction rows) auto

lemma find_in_set: "find P rows = Some r \<Longrightarrow> r \<in> set rows \<and> P r"
  by (auto simp: find_Some_iff)

lemma find_NoneD: "find P rows = None \<Longrightarrow> r \<in> set rows \<Longrightarrow> \<not> P r"
  by (auto simp: find_None_iff)

lemma find_append:
  "find P (rows @ rows') = (case find P rows of None \<Rightarrow> find P rows' | Some r \<Rightarrow> Some r)"
  by (induction rows) auto

lemma count_where_zero: "count_where P rows = 0 \<longleftrightarrow> (\<forall>r\<in>set rows. \<not> P r)"
  by (auto simp: count_where_def filter_empty_conv)

lemma count_where_nonneg: "0 \<le> count_where P rows"
  by (simp add: count_where_def)

lemma count_where_append [simp]: "count_where P (rows @ rows') = count_where P rows + count_where P rows'"
  by (simp add: count_where_def)

lemma count_where_Cons [simp]:
  "count_where P [] = 0"
  "count_where P (r # rs) = (if P r then 1 else 0) + count_where P rs"
  by (simp_all add: count_where_def)

lemma count_where_update_mono:
  assumes "\<And>r. P r \<Longrightarrow> C (f r) \<Longrightarrow> C r"
  shows "count_where C (update_where P f rows) \<le> count_where C rows"
  using assms by (induction rows) auto

subsection \<open>Unique indexes\<close>

lemma unique_indexD:
  assumes "unique_index C k rows" and "r \<in> set rows" and "r' \<in> set rows"
    and "C r" and "C r'" and "k r = k r'"
  shows "r = r'"
  using assms by (auto simp: unique_index_def distinct_map inj_on_def)

lemma unique_index_find:
  assumes "unique_index (\<lambda>_. True) k rows" and "r \<in> set rows"
  shows "find (\<lambda>r'. k r' = k r) rows = Some r"
proof -
  have "find (\<lambda>r'. k r' = k r) rows \<noteq> None"
    using assms(2) by (auto simp: find_None_iff)
  then obtain r' where "find (\<lambda>r'. k r' = k r) rows = Some r'" by auto
  with find_in_set[OF this] unique_indexD[OF assms(1), of r' r] assms(2) show ?thesis by auto
qed

lemma unique_index_append:
  "unique_index C k (rows @ [r]) \<longleftrightarrow>
     unique_index C k rows \<and> (C r \<longrightarrow> (\<forall>r'\<in>set rows. C r' \<longrightarrow> k r' \<noteq> k r))"
  by (auto simp: unique_index_def image_iff eq_commute[of "k r"])

text \<open>An update that keeps the key and adds no row to the index keeps it unique.\<close>

lemma unique_index_update:
  assumes "unique_index C k rows" and "\<And>r. P r \<Longrightarrow> k (f r) = k r"
    and "\<And>r. P r \<Longrightarrow> C (f r) \<Longrightarrow> C r"
  shows "unique_index C k (update_where P f rows)"
  using assms(1)
proof (induction rows)
  case Nil
  then show ?case by (simp add: unique_index_def)
next
  case (Cons r rows)
  have sub: "k ` set (filter C (update_where P f rows)) \<subseteq> k ` set (filter C rows)"
  proof
    fix x assume "x \<in> k ` set (filter C (update_where P f rows))"
    then obtain r where "r \<in> set rows" and "x = k (if P r then f r else r)"
      and "C (if P r then f r else r)"
      by (auto simp: set_update_where)
    then show "x \<in> k ` set (filter C rows)"
      using assms(2,3)[of r] by (cases "P r") simp_all
  qed
  show ?case
  proof (cases "C (if P r then f r else r)")
    case True
    then have "C r" using assms(3)[of r] by (auto split: if_splits)
    moreover have "k (if P r then f r else r) = k r" using assms(2) by simp
    ultimately show ?thesis
      using Cons True sub by (auto simp: unique_index_def)
  next
    case False
    then show ?thesis using Cons by (auto simp: unique_index_def split: if_splits)
  qed
qed

end
