(* ===== verification/Go_Encoding.thy ===== *)
theory Go_Encoding imports Go_Strings begin

unbundle bit_operations_syntax

section \<open>Byte encodings\<close>

text \<open>
  UTF-8 validity and rune counting (package unicode/utf8), the text and byte forms of a uuid,
  big-endian 64-bit integers, and 64-bit wrap-around.
\<close>

subsection \<open>UTF-8\<close>

definition in_range :: "nat \<Rightarrow> nat \<Rightarrow> nat \<Rightarrow> bool" where
  "in_range lo hi b \<longleftrightarrow> lo \<le> b \<and> b \<le> hi"

text \<open>The number of runes of a valid UTF-8 byte sequence, \<open>None\<close> for an invalid one.\<close>

fun utf8_runes :: "nat list \<Rightarrow> nat option" where
  "utf8_runes [] = Some 0"
| "utf8_runes (b0 # bs) =
    (if b0 < 128 then map_option Suc (utf8_runes bs)
     else if in_range 194 223 b0 then
       (case bs of b1 # rest \<Rightarrow>
           if in_range 128 191 b1 then map_option Suc (utf8_runes rest) else None
         | _ \<Rightarrow> None)
     else if in_range 224 239 b0 then
       (case bs of b1 # b2 # rest \<Rightarrow>
           if in_range (if b0 = 224 then 160 else 128) (if b0 = 237 then 159 else 191) b1 \<and>
              in_range 128 191 b2
           then map_option Suc (utf8_runes rest) else None
         | _ \<Rightarrow> None)
     else if in_range 240 244 b0 then
       (case bs of b1 # b2 # b3 # rest \<Rightarrow>
           if in_range (if b0 = 240 then 144 else 128) (if b0 = 244 then 143 else 191) b1 \<and>
              in_range 128 191 b2 \<and> in_range 128 191 b3
           then map_option Suc (utf8_runes rest) else None
         | _ \<Rightarrow> None)
     else None)"

definition utf8_ValidString :: "string \<Rightarrow> bool" where
  "utf8_ValidString s \<longleftrightarrow> utf8_runes (map of_char s) \<noteq> None"

text \<open>\<open>utf8.RuneCountInString\<close>, which the code calls on valid strings only.\<close>

definition utf8_RuneCount :: "string \<Rightarrow> nat" where
  "utf8_RuneCount s = (case utf8_runes (map of_char s) of None \<Rightarrow> length s | Some n \<Rightarrow> n)"

lemma utf8_runes_ascii: "\<forall>b\<in>set bs. b < 128 \<Longrightarrow> utf8_runes bs = Some (length bs)"
  by (induction bs) auto

subsection \<open>Integers and identifiers as bytes\<close>

definition wrap64 :: "int \<Rightarrow> int" where
  "wrap64 x = (x + 2 ^ 63) mod 2 ^ 64 - 2 ^ 63"

text \<open>The \<open>n\<close> lowest base-\<open>2 ^ w\<close> digits of a number, most significant first.\<close>

fun digits_be :: "nat \<Rightarrow> nat \<Rightarrow> nat \<Rightarrow> nat list" where
  "digits_be w 0 x = []"
| "digits_be w (Suc n) x = digits_be w n (x div 2 ^ w) @ [x mod 2 ^ w]"

definition uint64_bytes :: "int \<Rightarrow> string" where
  "uint64_bytes x = map char_of (digits_be 8 8 (nat (x mod 2 ^ 64)))"

definition uuid_bytes :: "uuid \<Rightarrow> string" where
  "uuid_bytes u = map char_of (digits_be 8 16 (unat u))"

text \<open>The canonical text of a uuid without its dashes.\<close>

definition hex_digit :: "nat \<Rightarrow> char" where
  "hex_digit d = ''0123456789abcdef'' ! d"

definition uuid_hex :: "uuid \<Rightarrow> string" where
  "uuid_hex u = map hex_digit (digits_be 4 32 (unat u))"

text \<open>\<open>uuid.UUID.String\<close>: the digits in groups of 8, 4, 4, 4 and 12.\<close>

definition uuid_String :: "uuid \<Rightarrow> string" where
  "uuid_String u = (let h = uuid_hex u in
     take 8 h @ ''-'' @ take 4 (drop 8 h) @ ''-'' @ take 4 (drop 12 h) @ ''-'' @
     take 4 (drop 16 h) @ ''-'' @ drop 20 h)"

lemma length_digits_be [simp]: "length (digits_be w n x) = n"
  by (induction n arbitrary: x) auto

lemma digits_be_bound: "d \<in> set (digits_be w n x) \<Longrightarrow> d < 2 ^ w"
  by (induction n arbitrary: x) auto

lemma digits_be_inject:
  "x < 2 ^ (w * n) \<Longrightarrow> y < 2 ^ (w * n) \<Longrightarrow> digits_be w n x = digits_be w n y \<Longrightarrow> x = y"
proof (induction n arbitrary: x y)
  case 0
  then show ?case by simp
next
  case (Suc n)
  have "x div 2 ^ w < 2 ^ (w * n)" "y div 2 ^ w < 2 ^ (w * n)"
    using Suc.prems(1,2) by (simp_all add: less_mult_imp_div_less power_add mult.commute)
  then have "x div 2 ^ w = y div 2 ^ w" using Suc by simp
  moreover have "x mod 2 ^ w = y mod 2 ^ w" using Suc.prems(3) by simp
  ultimately show ?case by (metis div_mult_mod_eq)
qed

lemma map_char_of_inject:
  assumes "map char_of xs = (map char_of ys :: string)"
    and "\<forall>x\<in>set xs. x < (256::nat)" and "\<forall>y\<in>set ys. y < (256::nat)"
  shows "xs = ys"
proof -
  have "map of_char (map char_of xs :: string) = xs"
    using assms(2) by (induction xs) (simp_all add: of_char_of)
  moreover have "map of_char (map char_of ys :: string) = ys"
    using assms(3) by (induction ys) (simp_all add: of_char_of)
  ultimately show ?thesis using assms(1) by metis
qed

lemma digits_be_char_inject:
  assumes "map char_of (digits_be 8 n x) = (map char_of (digits_be 8 n y) :: string)"
    and "x < 2 ^ (8 * n)" and "y < 2 ^ (8 * n)"
  shows "x = y"
proof -
  have "digits_be 8 n x = digits_be 8 n y"
    using digits_be_bound[of _ 8 n] by (intro map_char_of_inject[OF assms(1)]) fastforce+
  then show ?thesis using digits_be_inject assms(2,3) by blast
qed

lemma unat_uuid: "unat (u :: uuid) < 2 ^ 128"
  by (rule order_less_le_trans[OF unsigned_less]) simp

lemma length_uuid_bytes [simp]: "length (uuid_bytes u) = 16"
  by (simp add: uuid_bytes_def)

lemma length_uint64_bytes [simp]: "length (uint64_bytes x) = 8"
  by (simp add: uint64_bytes_def)

lemma uuid_bytes_inject [simp]: "uuid_bytes u = uuid_bytes v \<longleftrightarrow> u = v"
proof
  assume "uuid_bytes u = uuid_bytes v"
  then have "unat u = unat v"
    unfolding uuid_bytes_def
    by (rule digits_be_char_inject) (use unat_uuid[of u] unat_uuid[of v] in simp_all)
  then show "u = v" by (rule unsigned_word_eqI)
qed simp

lemma uint64_bytes_inject:
  assumes "uint64_bytes x = uint64_bytes y" and "0 \<le> x" and "x < 2 ^ 64" and "0 \<le> y" and "y < 2 ^ 64"
  shows "x = y"
proof -
  have "nat (x mod 2 ^ 64) = nat (y mod 2 ^ 64)"
    using assms(1) unfolding uint64_bytes_def by (rule digits_be_char_inject) simp_all
  with assms(2-5) show ?thesis by simp
qed

lemma hex_digit_inject: "i < 16 \<Longrightarrow> j < 16 \<Longrightarrow> hex_digit i = hex_digit j \<Longrightarrow> i = j"
  unfolding hex_digit_def by (subst (asm) nth_eq_iff_index_eq) simp_all

lemma length_uuid_hex [simp]: "length (uuid_hex u) = 32"
  by (simp add: uuid_hex_def)

lemma uuid_hex_inject [simp]: "uuid_hex u = uuid_hex v \<longleftrightarrow> u = v"
proof
  assume eq: "uuid_hex u = uuid_hex v"
  have "inj_on hex_digit (set (digits_be 4 32 (unat u)) \<union> set (digits_be 4 32 (unat v)))"
    using digits_be_bound[of _ 4 32] by (auto intro!: inj_onI hex_digit_inject)
  then have "digits_be 4 32 (unat u) = digits_be 4 32 (unat v)"
    using eq unfolding uuid_hex_def by (simp add: inj_on_map_eq_map)
  then have "unat u = unat v"
    by (rule digits_be_inject[rotated 2]) (use unat_uuid[of u] unat_uuid[of v] in simp_all)
  then show "u = v" by (rule unsigned_word_eqI)
qed simp

end
