(* ===== verification/Media_Model.thy ===== *)
theory Media_Model imports Go_Encoding Feature_Enforcement begin

section \<open>Media spaces: data and requests (modules/media/lifecycle\_model.go, lifecycle\_service.go)\<close>

text \<open>
  The values of the media lifecycle, and what the service does before it calls the
  repository: normalising and validating a request, and the fingerprint that makes a retry
  recognisable.  The time zone database is a parameter (\<open>zone_known\<close>), and so is SHA-256, which
  the fingerprints apply to the byte strings defined here.
\<close>

subsection \<open>Values\<close>

datatype source_kind =
    SourceClassSession | SourceClassSessionOccurrence | SourceStudyMeeting | SourceInstant
  | SourceKindOther string

datatype space_status =
  SpaceStatusScheduled | SpaceStatusOpen | SpaceStatusEnded | SpaceStatusCancelled

datatype room_status =
    RoomInstanceProvisioning | RoomInstanceActive | RoomInstanceClosing | RoomInstanceEnded
  | RoomInstanceFailed

datatype lifecycle_error =
    ErrLifecycleUnavailable | ErrInvalidSpaceRequest | ErrSpaceAccessDenied | ErrSpaceNotFound
  | ErrSourceUnavailable | ErrSpaceVersionConflict | ErrSpaceIdempotency | ErrSpaceTransition
  | ErrRoomActivationTerminal | ErrRoomNotOpen | ErrRoomLocked | ErrJoinAttemptStale
  | ErrInvalidJoinAttempt | ErrInvalidCredentialRequest | ErrParticipantConflict
  | ErrAdmissionRequired | CredentialRateLimitError duration
  | LifecycleControl control_error | LifecycleOther

record source_reference =
  sr_Kind :: source_kind
  sr_ClassSessionID :: "uuid option"
  sr_SeriesID :: "uuid option"
  sr_OccurrenceKey :: string
  sr_StudyMeetingID :: "uuid option"

record instant_input =
  ii_Title :: string
  ii_DurationMinutes :: int
  ii_Timezone :: string

record create_source =
  cs_Kind :: source_kind
  cs_ClassSessionID :: uuid
  cs_SeriesID :: uuid
  cs_OccurrenceKey :: string
  cs_StudyMeetingID :: uuid
  cs_Instant :: instant_input

record create_space_input =
  ci_Source :: create_source
  ci_IdempotencyKey :: string

record transition_input =
  ti_ExpectedVersion :: int
  ti_IdempotencyKey :: string
  ti_ReasonCode :: string

record recover_input =
  ri_ExpectedSpaceVersion :: int
  ri_ExpectedRoomInstanceID :: uuid
  ri_ExpectedRoomInstanceVersion :: int
  ri_IdempotencyKey :: string

record create_command =
  cc_SpaceID :: uuid
  cc_InstantMeetingID :: uuid
  cc_Source :: create_source
  cc_IdempotencyKey :: string
  cc_Fingerprint :: string
  cc_CreatedAt :: instant

record transition_command =
  tr_SpaceID :: uuid
  tr_RoomInstanceID :: uuid
  tr_ProviderRoomName :: string
  tr_Operation :: string
  tr_ExpectedVersion :: int
  tr_ExpectedRoomInstanceID :: uuid
  tr_ExpectedRoomInstanceVersion :: int
  tr_IdempotencyKey :: string
  tr_ReasonCode :: string
  tr_Fingerprint :: string
  tr_OccurredAt :: instant

record access_context =
  ac_TenantID :: uuid
  ac_ActorID :: uuid
  ac_SessionID :: uuid
  ac_DisplayName :: string
  ac_MembershipActive :: bool
  ac_OrganizationRoles :: "organization_role list"

subsection \<open>Validation of requests\<close>

definition idempotency_char :: "char \<Rightarrow> bool" where
  "idempotency_char c \<longleftrightarrow> is_lower c \<or> is_upper c \<or> is_digit c \<or>
     c \<in> {CHR ''.'', CHR ''_'', CHR '':'', CHR ''-''}"

text \<open>\<open>^[A-Za-z0-9][A-Za-z0-9._:-]{15,127}$\<close> and \<open>^[a-z][a-z0-9_.-]{0,63}$\<close>.\<close>

definition mediaIdempotencyPattern :: "string \<Rightarrow> bool" where
  "mediaIdempotencyPattern s = (case s of [] \<Rightarrow> False
     | c # cs \<Rightarrow> (is_lower c \<or> is_upper c \<or> is_digit c) \<and> 15 \<le> length cs \<and> length cs \<le> 127 \<and>
         list_all idempotency_char cs)"

definition mediaReasonCodePattern :: "string \<Rightarrow> bool" where
  "mediaReasonCodePattern s = (case s of [] \<Rightarrow> False
     | c # cs \<Rightarrow> is_lower c \<and> length cs \<le> 63 \<and>
         list_all (\<lambda>c. is_lower c \<or> is_digit c \<or> c \<in> {CHR ''_'', CHR ''.'', CHR ''-''}) cs)"

definition maximumInstantTitleRunes :: nat where
  "maximumInstantTitleRunes = 200"

definition maximumInstantDuration :: duration where
  "maximumInstantDuration = 24 * time_Hour"

definition emptyInstantInput :: "instant_input \<Rightarrow> bool" where
  "emptyInstantInput i \<longleftrightarrow> ii_Title i = [] \<and> ii_DurationMinutes i = 0 \<and> ii_Timezone i = []"

definition validLifecycleAccess :: "access_context \<Rightarrow> bool" where
  "validLifecycleAccess ac \<longleftrightarrow> ac_TenantID ac \<noteq> uuid_Nil \<and> ac_ActorID ac \<noteq> uuid_Nil \<and>
     ac_MembershipActive ac \<and> ac_OrganizationRoles ac \<noteq> []"

text \<open>
  The checks of an instant source.  The duration is multiplied as an int64, which wraps.
\<close>

definition instant_invalid :: "(string \<Rightarrow> bool) \<Rightarrow> instant_input \<Rightarrow> bool" where
  "instant_invalid zone_known i \<longleftrightarrow>
     \<not> utf8_ValidString (ii_Title i) \<or> ii_Title i = [] \<or>
     utf8_RuneCount (ii_Title i) > maximumInstantTitleRunes \<or>
     ii_DurationMinutes i < 1 \<or>
     wrap64 (ii_DurationMinutes i * time_Minute) > maximumInstantDuration \<or>
     length (ii_Timezone i) < 1 \<or> length (ii_Timezone i) > 100 \<or>
     equal_fold_local (ii_Timezone i) \<or> \<not> zone_known (ii_Timezone i)"

definition normalizeCreateSpaceInput ::
  "(string \<Rightarrow> bool) \<Rightarrow> create_space_input \<Rightarrow> lifecycle_error + create_space_input" where
  "normalizeCreateSpaceInput zone_known input =
     (let key = trim_space (ci_IdempotencyKey input);
          src = (ci_Source input)\<lparr>cs_OccurrenceKey := trim_space (cs_OccurrenceKey (ci_Source input))\<rparr>;
          ok = Inr \<lparr>ci_Source = src, ci_IdempotencyKey = key\<rparr>;
          invalid = Inl ErrInvalidSpaceRequest in
      if \<not> mediaIdempotencyPattern key then invalid
      else case cs_Kind src of
        SourceClassSession \<Rightarrow>
          if cs_ClassSessionID src = uuid_Nil \<or> cs_SeriesID src \<noteq> uuid_Nil \<or>
             cs_OccurrenceKey src \<noteq> [] \<or> cs_StudyMeetingID src \<noteq> uuid_Nil \<or>
             \<not> emptyInstantInput (cs_Instant src) then invalid else ok
      | SourceClassSessionOccurrence \<Rightarrow>
          if cs_SeriesID src = uuid_Nil \<or> length (cs_OccurrenceKey src) < 8 \<or>
             length (cs_OccurrenceKey src) > 128 \<or> cs_ClassSessionID src \<noteq> uuid_Nil \<or>
             cs_StudyMeetingID src \<noteq> uuid_Nil \<or> \<not> emptyInstantInput (cs_Instant src)
          then invalid else ok
      | SourceStudyMeeting \<Rightarrow>
          if cs_StudyMeetingID src = uuid_Nil \<or> cs_ClassSessionID src \<noteq> uuid_Nil \<or>
             cs_SeriesID src \<noteq> uuid_Nil \<or> cs_OccurrenceKey src \<noteq> [] \<or>
             \<not> emptyInstantInput (cs_Instant src) then invalid else ok
      | SourceInstant \<Rightarrow>
          if cs_ClassSessionID src \<noteq> uuid_Nil \<or> cs_SeriesID src \<noteq> uuid_Nil \<or>
             cs_OccurrenceKey src \<noteq> [] \<or> cs_StudyMeetingID src \<noteq> uuid_Nil then invalid
          else
            let i = (cs_Instant src)\<lparr>ii_Title := trim_space (ii_Title (cs_Instant src)),
                  ii_Timezone := trim_space (ii_Timezone (cs_Instant src))\<rparr> in
            if instant_invalid zone_known i then invalid
            else Inr \<lparr>ci_Source = src\<lparr>cs_Instant := i\<rparr>, ci_IdempotencyKey = key\<rparr>
      | SourceKindOther _ \<Rightarrow> invalid)"

definition normalizeResolveSpaceSource :: "source_reference \<Rightarrow> lifecycle_error + source_reference" where
  "normalizeResolveSpaceSource source0 =
     (let source = source0\<lparr>sr_OccurrenceKey := trim_space (sr_OccurrenceKey source0)\<rparr>;
          invalid = Inl ErrInvalidSpaceRequest in
      case sr_Kind source of
        SourceClassSession \<Rightarrow>
          if sr_ClassSessionID source \<in> {None, Some uuid_Nil} \<or> sr_SeriesID source \<noteq> None \<or>
             sr_OccurrenceKey source \<noteq> [] \<or> sr_StudyMeetingID source \<noteq> None
          then invalid else Inr source
      | SourceClassSessionOccurrence \<Rightarrow>
          if sr_ClassSessionID source \<noteq> None \<or> sr_SeriesID source \<in> {None, Some uuid_Nil} \<or>
             length (sr_OccurrenceKey source) < 8 \<or> length (sr_OccurrenceKey source) > 128 \<or>
             sr_StudyMeetingID source \<noteq> None then invalid else Inr source
      | SourceStudyMeeting \<Rightarrow>
          if sr_ClassSessionID source \<noteq> None \<or> sr_SeriesID source \<noteq> None \<or>
             sr_OccurrenceKey source \<noteq> [] \<or> sr_StudyMeetingID source \<in> {None, Some uuid_Nil}
          then invalid else Inr source
      | _ \<Rightarrow> invalid)"

definition normalizeTransitionInput :: "transition_input \<Rightarrow> lifecycle_error + transition_input" where
  "normalizeTransitionInput input =
     (let key = trim_space (ti_IdempotencyKey input); reason = trim_space (ti_ReasonCode input) in
      if ti_ExpectedVersion input < 1 \<or> \<not> mediaIdempotencyPattern key \<or>
         (reason \<noteq> [] \<and> \<not> mediaReasonCodePattern reason)
      then Inl ErrInvalidSpaceRequest
      else Inr (input\<lparr>ti_IdempotencyKey := key, ti_ReasonCode := reason\<rparr>))"

definition normalizeRecoverSpaceInput :: "recover_input \<Rightarrow> lifecycle_error + recover_input" where
  "normalizeRecoverSpaceInput input =
     (let key = trim_space (ri_IdempotencyKey input) in
      if ri_ExpectedSpaceVersion input < 1 \<or> ri_ExpectedRoomInstanceID input = uuid_Nil \<or>
         ri_ExpectedRoomInstanceVersion input < 1 \<or> \<not> mediaIdempotencyPattern key
      then Inl ErrInvalidSpaceRequest
      else Inr (input\<lparr>ri_IdempotencyKey := key\<rparr>))"

subsection \<open>Fingerprints and commands\<close>

fun source_kind_string :: "source_kind \<Rightarrow> string" where
  "source_kind_string SourceClassSession = ''class_session''"
| "source_kind_string SourceClassSessionOccurrence = ''class_session_occurrence''"
| "source_kind_string SourceStudyMeeting = ''study_meeting''"
| "source_kind_string SourceInstant = ''instant''"
| "source_kind_string (SourceKindOther s) = s"

text \<open>The bytes that \<open>createSpaceFingerprint\<close> and \<open>transitionFingerprint\<close> hash.\<close>

definition create_preimage :: "create_space_input \<Rightarrow> string" where
  "create_preimage input = (let s = ci_Source input in
     source_kind_string (cs_Kind s) @ [CHR 0x00] @ uuid_bytes (cs_ClassSessionID s) @
     uuid_bytes (cs_SeriesID s) @ cs_OccurrenceKey s @ uuid_bytes (cs_StudyMeetingID s) @
     ii_Title (cs_Instant s) @ [CHR 0x00] @ uint64_bytes (ii_DurationMinutes (cs_Instant s)) @
     ii_Timezone (cs_Instant s))"

definition createSpaceFingerprint :: "(string \<Rightarrow> string) \<Rightarrow> create_space_input \<Rightarrow> string" where
  "createSpaceFingerprint sha256 input = sha256 (create_preimage input)"

definition transition_preimage :: "transition_command \<Rightarrow> string" where
  "transition_preimage c = tr_Operation c @ uuid_bytes (tr_SpaceID c) @
     uint64_bytes (tr_ExpectedVersion c) @ tr_ReasonCode c @
     (if tr_Operation c = ''recover''
      then uuid_bytes (tr_ExpectedRoomInstanceID c) @ uint64_bytes (tr_ExpectedRoomInstanceVersion c)
      else [])"

definition transitionFingerprint :: "(string \<Rightarrow> string) \<Rightarrow> transition_command \<Rightarrow> string" where
  "transitionFingerprint sha256 c = sha256 (transition_preimage c)"

definition opaqueProviderRoomName :: "uuid \<Rightarrow> string" where
  "opaqueProviderRoomName instanceID = ''r_'' @ uuid_hex instanceID"

text \<open>
  The commands the service builds; \<open>new_id\<close> and \<open>now\<close> are the drawn uuid and the clock.
\<close>

definition build_create_command ::
  "(string \<Rightarrow> string) \<Rightarrow> (string \<Rightarrow> bool) \<Rightarrow> uuid \<Rightarrow> uuid \<Rightarrow> instant \<Rightarrow> access_context \<Rightarrow>
   create_space_input \<Rightarrow> lifecycle_error + create_command" where
  "build_create_command sha256 zone_known new_id meeting_id now access input =
     (if \<not> validLifecycleAccess access then Inl ErrSpaceAccessDenied
      else try_res (normalizeCreateSpaceInput zone_known input) (\<lambda>normalized.
        Inr \<lparr>cc_SpaceID = new_id,
          cc_InstantMeetingID =
            (if cs_Kind (ci_Source normalized) = SourceInstant then meeting_id else uuid_Nil),
          cc_Source = ci_Source normalized,
          cc_IdempotencyKey = ci_IdempotencyKey normalized,
          cc_Fingerprint = createSpaceFingerprint sha256 normalized, cc_CreatedAt = now\<rparr>))"

definition build_transition_command ::
  "(string \<Rightarrow> string) \<Rightarrow> uuid \<Rightarrow> instant \<Rightarrow> access_context \<Rightarrow> uuid \<Rightarrow> string \<Rightarrow>
   transition_input \<Rightarrow> lifecycle_error + transition_command" where
  "build_transition_command sha256 new_id now access spaceID operation input =
     (if \<not> validLifecycleAccess access then Inl ErrSpaceAccessDenied
      else if spaceID = uuid_Nil then Inl ErrSpaceNotFound
      else try_res (normalizeTransitionInput input) (\<lambda>normalized.
        let c = \<lparr>tr_SpaceID = spaceID,
              tr_RoomInstanceID = (if operation = ''start'' then new_id else uuid_Nil),
              tr_ProviderRoomName =
                (if operation = ''start'' then opaqueProviderRoomName new_id else []),
              tr_Operation = operation, tr_ExpectedVersion = ti_ExpectedVersion normalized,
              tr_ExpectedRoomInstanceID = uuid_Nil, tr_ExpectedRoomInstanceVersion = 0,
              tr_IdempotencyKey = ti_IdempotencyKey normalized,
              tr_ReasonCode = ti_ReasonCode normalized, tr_Fingerprint = [], tr_OccurredAt = now\<rparr>
        in Inr (c\<lparr>tr_Fingerprint := transitionFingerprint sha256 c\<rparr>)))"

definition build_recover_command ::
  "(string \<Rightarrow> string) \<Rightarrow> uuid \<Rightarrow> instant \<Rightarrow> access_context \<Rightarrow> uuid \<Rightarrow>
   recover_input \<Rightarrow> lifecycle_error + transition_command" where
  "build_recover_command sha256 new_id now access spaceID input =
     (if \<not> validLifecycleAccess access then Inl ErrSpaceAccessDenied
      else if spaceID = uuid_Nil then Inl ErrSpaceNotFound
      else try_res (normalizeRecoverSpaceInput input) (\<lambda>normalized.
        let c = \<lparr>tr_SpaceID = spaceID, tr_RoomInstanceID = new_id,
              tr_ProviderRoomName = opaqueProviderRoomName new_id,
              tr_Operation = ''recover'', tr_ExpectedVersion = ri_ExpectedSpaceVersion normalized,
              tr_ExpectedRoomInstanceID = ri_ExpectedRoomInstanceID normalized,
              tr_ExpectedRoomInstanceVersion = ri_ExpectedRoomInstanceVersion normalized,
              tr_IdempotencyKey = ri_IdempotencyKey normalized,
              tr_ReasonCode = [], tr_Fingerprint = [], tr_OccurredAt = now\<rparr>
        in Inr (c\<lparr>tr_Fingerprint := transitionFingerprint sha256 c\<rparr>)))"

subsection \<open>Properties of the requests\<close>

lemma opaqueProviderRoomName_inject [simp]:
  "opaqueProviderRoomName u = opaqueProviderRoomName v \<longleftrightarrow> u = v"
  by (simp add: opaqueProviderRoomName_def)

lemma opaqueProviderRoomName_nonempty [simp]: "opaqueProviderRoomName u \<noteq> []"
  by (simp add: opaqueProviderRoomName_def)

definition operations :: "string set" where
  "operations = {''start'', ''end'', ''cancel'', ''recover''}"

text \<open>A command as the service builds it, for one of the four operations.\<close>

definition service_command :: "transition_command \<Rightarrow> bool" where
  "service_command c \<longleftrightarrow> tr_Operation c \<in> operations \<and>
     1 \<le> tr_ExpectedVersion c \<and> tr_ExpectedVersion c < 2 ^ 63 \<and>
     (if tr_Operation c = ''recover''
      then tr_ReasonCode c = [] \<and> 1 \<le> tr_ExpectedRoomInstanceVersion c \<and>
        tr_ExpectedRoomInstanceVersion c < 2 ^ 63
      else tr_ExpectedRoomInstanceID c = uuid_Nil \<and> tr_ExpectedRoomInstanceVersion c = 0)"

lemma operations_prefix:
  assumes "a \<in> operations" and "b \<in> operations" and "a @ xs = b @ ys"
  shows "a = b"
  using assms by (auto simp: operations_def)

text \<open>
  A fingerprint identifies the request: the bytes hashed for two commands that the service
  can build are equal only if both ask for the same operation on the same space at the same
  versions with the same reason, so (short of a SHA-256 collision) a replayed idempotency key
  is accepted only for the same request.
\<close>

theorem transition_preimage_injective:
  assumes "service_command c" and "service_command d"
    and "transition_preimage c = transition_preimage d"
  shows "tr_Operation c = tr_Operation d \<and> tr_SpaceID c = tr_SpaceID d \<and>
    tr_ExpectedVersion c = tr_ExpectedVersion d \<and> tr_ReasonCode c = tr_ReasonCode d \<and>
    tr_ExpectedRoomInstanceID c = tr_ExpectedRoomInstanceID d \<and>
    tr_ExpectedRoomInstanceVersion c = tr_ExpectedRoomInstanceVersion d"
proof -
  have op: "tr_Operation c = tr_Operation d"
    by (rule operations_prefix[OF _ _ assms(3)[unfolded transition_preimage_def]])
      (use assms(1,2) in \<open>simp_all add: service_command_def\<close>)
  have rest: "uuid_bytes (tr_SpaceID c) @ uint64_bytes (tr_ExpectedVersion c) @ tr_ReasonCode c @
      (if tr_Operation c = ''recover'' then uuid_bytes (tr_ExpectedRoomInstanceID c) @
        uint64_bytes (tr_ExpectedRoomInstanceVersion c) else []) =
    uuid_bytes (tr_SpaceID d) @ uint64_bytes (tr_ExpectedVersion d) @ tr_ReasonCode d @
      (if tr_Operation d = ''recover'' then uuid_bytes (tr_ExpectedRoomInstanceID d) @
        uint64_bytes (tr_ExpectedRoomInstanceVersion d) else [])"
    using assms(3) op unfolding transition_preimage_def by simp
  then have sp: "tr_SpaceID c = tr_SpaceID d" by (subst (asm) append_eq_append_conv) auto
  from rest have v: "uint64_bytes (tr_ExpectedVersion c) = uint64_bytes (tr_ExpectedVersion d)"
    and tail: "tr_ReasonCode c @ (if tr_Operation c = ''recover''
        then uuid_bytes (tr_ExpectedRoomInstanceID c) @ uint64_bytes (tr_ExpectedRoomInstanceVersion c)
        else []) = tr_ReasonCode d @ (if tr_Operation d = ''recover''
        then uuid_bytes (tr_ExpectedRoomInstanceID d) @ uint64_bytes (tr_ExpectedRoomInstanceVersion d)
        else [])"
    unfolding sp by (auto simp: append_eq_append_conv)
  have "tr_ExpectedVersion c = tr_ExpectedVersion d"
    using assms(1,2) by (intro uint64_bytes_inject[OF v]) (auto simp: service_command_def)
  moreover have "tr_ReasonCode c = tr_ReasonCode d \<and>
      tr_ExpectedRoomInstanceID c = tr_ExpectedRoomInstanceID d \<and>
      tr_ExpectedRoomInstanceVersion c = tr_ExpectedRoomInstanceVersion d"
  proof (cases "tr_Operation c = ''recover''")
    case True
    then have "uuid_bytes (tr_ExpectedRoomInstanceID c) = uuid_bytes (tr_ExpectedRoomInstanceID d)"
      and w: "uint64_bytes (tr_ExpectedRoomInstanceVersion c) = uint64_bytes (tr_ExpectedRoomInstanceVersion d)"
      using tail op assms(1,2) by (auto simp: service_command_def append_eq_append_conv)
    moreover have "tr_ExpectedRoomInstanceVersion c = tr_ExpectedRoomInstanceVersion d"
      using assms(1,2) True op by (intro uint64_bytes_inject[OF w]) (auto simp: service_command_def)
    ultimately show ?thesis using True op assms(1,2) by (simp add: service_command_def)
  next
    case False
    then show ?thesis using tail op assms(1,2) by (simp add: service_command_def)
  qed
  ultimately show ?thesis using op sp by blast
qed

definition example_end :: "transition_command" where
  "example_end = \<lparr>tr_SpaceID = 3, tr_RoomInstanceID = 0, tr_ProviderRoomName = [],
     tr_Operation = ''end'', tr_ExpectedVersion = 2, tr_ExpectedRoomInstanceID = 0,
     tr_ExpectedRoomInstanceVersion = 0, tr_IdempotencyKey = ''0123456789abcdef'',
     tr_ReasonCode = ''done'', tr_Fingerprint = [], tr_OccurredAt = 5\<rparr>"

theorem transition_preimage_injective_witness:
  "transition_preimage example_end \<noteq> transition_preimage (example_end\<lparr>tr_ExpectedVersion := 3\<rparr>)"
proof
  assume eq: "transition_preimage example_end = transition_preimage (example_end\<lparr>tr_ExpectedVersion := 3\<rparr>)"
  have "service_command example_end" "service_command (example_end\<lparr>tr_ExpectedVersion := 3\<rparr>)"
    by (simp_all add: service_command_def example_end_def operations_def)
  from transition_preimage_injective[OF this eq] show False by (simp add: example_end_def)
qed

text \<open>
  The bound on the length of an instant meeting can be passed by: the duration is
  multiplied in 64 bits before it is compared with 24 hours, so a duration of 307445735
  minutes wraps to less than a minute and is accepted; the bound does hold for every duration
  below \<open>2 ^ 63\<close> nanoseconds.
\<close>

definition example_instant :: "int \<Rightarrow> instant_input" where
  "example_instant minutes = \<lparr>ii_Title = ''Study'', ii_DurationMinutes = minutes, ii_Timezone = ''UTC''\<rparr>"

theorem instant_duration_wraps:
  "\<not> instant_invalid (\<lambda>z. z = ''UTC'') (example_instant 307445735) \<and>
   (\<forall>zone_known i. \<not> instant_invalid zone_known i \<and> ii_DurationMinutes i * time_Minute < 2 ^ 63 \<longrightarrow>
      1 \<le> ii_DurationMinutes i \<and> ii_DurationMinutes i \<le> 1440)"
proof
  have runes: "utf8_runes (map of_char ''Study'') = Some 5"
    by (simp add: utf8_runes_ascii)
  have zone: "\<not> equal_fold_local ''UTC''"
    by (simp add: equal_fold_local_def)
  show "\<not> instant_invalid (\<lambda>z. z = ''UTC'') (example_instant 307445735)"
    using runes zone
    by (simp add: instant_invalid_def example_instant_def utf8_ValidString_def utf8_RuneCount_def
        maximumInstantTitleRunes_def maximumInstantDuration_def wrap64_def time_units)
  show "\<forall>zone_known i. \<not> instant_invalid zone_known i \<and> ii_DurationMinutes i * time_Minute < 2 ^ 63 \<longrightarrow>
      1 \<le> ii_DurationMinutes i \<and> ii_DurationMinutes i \<le> 1440"
    by (auto simp: instant_invalid_def wrap64_def maximumInstantDuration_def time_units)
qed

lemma example_instant_valid: "\<not> instant_invalid (\<lambda>z. z = ''UTC'') (example_instant 90)"
proof -
  have "utf8_runes (map of_char ''Study'') = Some 5"
    by (simp add: utf8_runes_ascii)
  moreover have "\<not> equal_fold_local ''UTC''"
    by (simp add: equal_fold_local_def)
  ultimately show ?thesis
    by (simp add: instant_invalid_def example_instant_def utf8_ValidString_def utf8_RuneCount_def
        maximumInstantTitleRunes_def maximumInstantDuration_def wrap64_def time_units)
qed

theorem instant_duration_wraps_witness:
  "\<not> instant_invalid (\<lambda>z. z = ''UTC'') (example_instant 90) \<and>
   1 \<le> ii_DurationMinutes (example_instant 90) \<and> ii_DurationMinutes (example_instant 90) \<le> 1440"
proof -
  have "ii_DurationMinutes (example_instant 90) * time_Minute < 2 ^ 63"
    by (simp add: example_instant_def time_units)
  with instant_duration_wraps example_instant_valid show ?thesis by blast
qed

end
