(* ===== verification/Media_Sources.thy ===== *)
theory Media_Sources imports Media_Model begin

section \<open>Class sources of media spaces (modules/classroom/media\_source.go)\<close>

text \<open>
  The classroom's side of a media space: the authority that reloads the class, the actor's
  membership and enrollment and the class session.  The media repository uses it through the Go
  interface \<open>ClassSourceAuthority\<close>, here the record \<open>class_sources\<close>; the classroom's
  implementation is modelled over its tables.  The occurrences of a recurring series, with its
  exceptions applied, are computed by the calendar and are a value of the series row.
\<close>

datatype class_error =
    ErrSessionNotFound | ErrSeriesNotFound | ErrClassNotFound | ErrClassAccessDenied
  | ErrSessionAccessDenied | ErrInvalidClassTransition | ErrInvalidSessionTransition | ErrClassOther

datatype session_status =
  SessionStatusScheduled | SessionStatusCancelled | SessionStatusLive | SessionStatusEnded

datatype enrollment_status =
    EnrollmentStatusInvited | EnrollmentStatusActive | EnrollmentStatusSuspended
  | EnrollmentStatusLeft | EnrollmentStatusRemoved

record media_source_reference =
  mr_Kind :: source_kind
  mr_ClassSessionID :: uuid
  mr_SeriesID :: uuid
  mr_OccurrenceKey :: string

record media_source_snapshot =
  mn_Kind :: source_kind
  mn_ClassID :: uuid
  mn_ClassSessionID :: uuid
  mn_SeriesID :: uuid
  mn_OccurrenceKey :: string
  mn_Status :: session_status
  mn_StartsAt :: instant
  mn_EndsAt :: instant
  mn_ClassRole :: "class_role option"
  mn_CanPublishMedia :: bool
  mn_CanShareScreen :: bool

record 'c class_sources =
  src_AuthorizeMediaClass ::
    "control_db \<Rightarrow> 'c \<Rightarrow> tenant_context \<Rightarrow> uuid \<Rightarrow> permission \<Rightarrow> class_error + resource_state"
  src_ResolveMediaSource ::
    "control_db \<Rightarrow> 'c \<Rightarrow> tenant_context \<Rightarrow> media_source_reference \<Rightarrow> permission \<Rightarrow>
     class_error + media_source_snapshot"
  src_TransitionMediaSession ::
    "tenant_context \<Rightarrow> uuid \<Rightarrow> session_status \<Rightarrow> session_status \<Rightarrow> instant \<Rightarrow> 'c \<Rightarrow> class_error + 'c"

subsection \<open>The classroom's tables\<close>

record class_row =
  cl_ID :: uuid
  cl_TenantID :: uuid
  cl_OwnerUserID :: uuid
  cl_Status :: resource_state

record session_row =
  cn_ClassID :: uuid
  cn_SeriesID :: "uuid option"
  cn_Status :: session_status
  cn_Version :: int
  cn_StartsAt :: instant
  cn_EndsAt :: instant
  cn_UpdatedBy :: uuid
  cn_UpdatedAt :: instant

record series_row =
  cr_ClassID :: uuid
  cr_Scheduled :: bool
  cr_Occurrences :: "class_error + (string \<times> instant \<times> instant) list"

record class_tables =
  kt_classes :: "uuid \<times> uuid \<Rightarrow> class_row option"
  kt_enrollments :: "uuid \<times> uuid \<times> uuid \<Rightarrow> (class_role \<times> enrollment_status) option"
  kt_sessions :: "uuid \<times> uuid \<Rightarrow> session_row option"
  kt_series :: "uuid \<times> uuid \<Rightarrow> series_row option"

record locked_membership =
  lm_Role :: organization_role
  lm_Active :: bool
  lm_ClassRole :: "class_role option"

definition lockActiveClassEnrollmentRole ::
  "class_tables \<Rightarrow> uuid \<Rightarrow> uuid \<Rightarrow> uuid \<Rightarrow> class_role option" where
  "lockActiveClassEnrollmentRole kt tenantID classID userID =
     (case kt_enrollments kt (tenantID, classID, userID) of
        None \<Rightarrow> None
      | Some (role, status) \<Rightarrow> if status \<noteq> EnrollmentStatusActive then None else Some role)"

definition lockClassMembership :: "control_db \<Rightarrow> uuid \<Rightarrow> uuid \<Rightarrow> locked_membership option" where
  "lockClassMembership db tenantID userID = (case cd_memberships db (tenantID, userID) of
      None \<Rightarrow> None
    | Some (role, status) \<Rightarrow>
        Some \<lparr>lm_Role = role, lm_Active = (status = ''active''), lm_ClassRole = None\<rparr>)"

definition lockClassMutation ::
  "control_db \<Rightarrow> class_tables \<Rightarrow> tenant_context \<Rightarrow> uuid \<Rightarrow> class_error + class_row \<times> locked_membership" where
  "lockClassMutation db kt tc classID =
     (if cd_tenants db (tc_TenantID tc) \<noteq> Some ''active'' then Inl ErrClassNotFound
      else case kt_classes kt (tc_TenantID tc, classID) of
        None \<Rightarrow> Inl ErrClassNotFound
      | Some class \<Rightarrow>
          (case lockClassMembership db (tc_TenantID tc) (tc_ActorID tc) of
             None \<Rightarrow> Inl ErrClassAccessDenied
           | Some membership \<Rightarrow>
               if \<not> lm_Active membership then Inl ErrClassAccessDenied
               else Inr (class, membership\<lparr>lm_ClassRole :=
                 lockActiveClassEnrollmentRole kt (tc_TenantID tc) classID (tc_ActorID tc)\<rparr>)))"

definition authorizeLockedClass ::
  "tenant_context \<Rightarrow> locked_membership \<Rightarrow> class_row \<Rightarrow> permission \<Rightarrow> class_error + unit" where
  "authorizeLockedClass tc membership class p =
     (let classRoles = (if cl_OwnerUserID class = tc_ActorID tc then [ClassRoleOwner] else []) @
            (case lm_ClassRole membership of None \<Rightarrow> [] | Some r \<Rightarrow> [r]);
          decision = Authorize (Some Engine)
            \<lparr>in_Subject = \<lparr>ActorID = tc_ActorID tc, ActiveTenantID = tc_TenantID tc,
               MembershipActive = True, OrganizationRoles = [lm_Role membership],
               ClassRoles = classRoles\<rparr>,
             in_Action = ActionOf p,
             in_Resource = \<lparr>res_TenantID = cl_TenantID class, res_ClassID = cl_ID class,
               res_State = cl_Status class\<rparr>\<rparr>
      in if \<not> Allowed decision then
           (if ConcealResource decision then Inl ErrClassNotFound
            else if Reason decision = DenialResourceState then Inl ErrInvalidClassTransition
            else Inl ErrClassAccessDenied)
         else Inr ())"

definition AuthorizeMediaClass ::
  "control_db \<Rightarrow> class_tables \<Rightarrow> tenant_context \<Rightarrow> uuid \<Rightarrow> permission \<Rightarrow> class_error + resource_state" where
  "AuthorizeMediaClass db kt tc classID p =
     (if \<not> TenantContext_Validate tc \<or> classID = uuid_Nil then Inl ErrClassAccessDenied
      else try_res (lockClassMutation db kt tc classID) (\<lambda>(class, membership).
        try_res (authorizeLockedClass tc membership class p) (\<lambda>_. Inr (cl_Status class))))"

text \<open>The projected class role with the two media grants of the policy.\<close>

definition mediaSourceGrants ::
  "tenant_context \<Rightarrow> class_row \<Rightarrow> locked_membership \<Rightarrow> class_role option \<times> bool \<times> bool" where
  "mediaSourceGrants tc class membership =
     (let projectedRole =
            (if cl_OwnerUserID class = tc_ActorID tc then Some ClassRoleOwner
             else lm_ClassRole membership);
          subject = \<lparr>ActorID = tc_ActorID tc, ActiveTenantID = tc_TenantID tc,
            MembershipActive = True, OrganizationRoles = [lm_Role membership],
            ClassRoles = (case projectedRole of None \<Rightarrow> [] | Some r \<Rightarrow> [r])\<rparr>;
          resource = \<lparr>res_TenantID = cl_TenantID class, res_ClassID = cl_ID class,
            res_State = cl_Status class\<rparr>
      in (projectedRole,
          Allowed (Authorize (Some Engine) \<lparr>in_Subject = subject,
            in_Action = ActionOf PermissionMediaPublish, in_Resource = resource\<rparr>),
          Allowed (Authorize (Some Engine) \<lparr>in_Subject = subject,
            in_Action = ActionOf PermissionMediaShareScreen, in_Resource = resource\<rparr>)))"

definition resolveOneTimeMediaSource ::
  "control_db \<Rightarrow> class_tables \<Rightarrow> tenant_context \<Rightarrow> media_source_reference \<Rightarrow> permission \<Rightarrow>
   class_error + media_source_snapshot" where
  "resolveOneTimeMediaSource db kt tc ref p =
     (if mr_ClassSessionID ref = uuid_Nil \<or> mr_SeriesID ref \<noteq> uuid_Nil \<or>
         trim_space (mr_OccurrenceKey ref) \<noteq> [] then Inl ErrSessionNotFound
      else case kt_sessions kt (tc_TenantID tc, mr_ClassSessionID ref) of
        None \<Rightarrow> Inl ErrSessionNotFound
      | Some session \<Rightarrow>
          if cn_SeriesID session \<noteq> None then Inl ErrSessionNotFound
          else try_res (lockClassMutation db kt tc (cn_ClassID session)) (\<lambda>(class, membership).
            try_res (authorizeLockedClass tc membership class p) (\<lambda>_.
              let (classRole, canPublish, canShareScreen) = mediaSourceGrants tc class membership
              in Inr \<lparr>mn_Kind = SourceClassSession, mn_ClassID = cn_ClassID session,
                   mn_ClassSessionID = mr_ClassSessionID ref, mn_SeriesID = uuid_Nil,
                   mn_OccurrenceKey = [], mn_Status = cn_Status session,
                   mn_StartsAt = cn_StartsAt session, mn_EndsAt = cn_EndsAt session,
                   mn_ClassRole = classRole, mn_CanPublishMedia = canPublish,
                   mn_CanShareScreen = canShareScreen\<rparr>)))"

definition resolveRecurringMediaSource ::
  "control_db \<Rightarrow> class_tables \<Rightarrow> tenant_context \<Rightarrow> media_source_reference \<Rightarrow> permission \<Rightarrow>
   class_error + media_source_snapshot" where
  "resolveRecurringMediaSource db kt tc ref p =
     (let key = trim_space (mr_OccurrenceKey ref) in
      if mr_SeriesID ref = uuid_Nil \<or> mr_ClassSessionID ref \<noteq> uuid_Nil \<or> length key < 8 \<or>
         length key > 128 then Inl ErrSessionNotFound
      else case kt_series kt (tc_TenantID tc, mr_SeriesID ref) of
        None \<Rightarrow> Inl ErrSeriesNotFound
      | Some series \<Rightarrow>
          try_res (lockClassMutation db kt tc (cr_ClassID series)) (\<lambda>(class, membership).
          try_res (authorizeLockedClass tc membership class p) (\<lambda>_.
            if \<not> cr_Scheduled series then Inl ErrInvalidSessionTransition
            else try_res (cr_Occurrences series) (\<lambda>occurrences.
              case find (\<lambda>(k, _). k = key) occurrences of
                None \<Rightarrow> Inl ErrSessionNotFound
              | Some (_, startsAt, endsAt) \<Rightarrow>
                  let (classRole, canPublish, canShareScreen) = mediaSourceGrants tc class membership
                  in Inr \<lparr>mn_Kind = SourceClassSessionOccurrence, mn_ClassID = cr_ClassID series,
                       mn_ClassSessionID = uuid_Nil, mn_SeriesID = mr_SeriesID ref,
                       mn_OccurrenceKey = key, mn_Status = SessionStatusScheduled,
                       mn_StartsAt = startsAt, mn_EndsAt = endsAt, mn_ClassRole = classRole,
                       mn_CanPublishMedia = canPublish, mn_CanShareScreen = canShareScreen\<rparr>))))"

definition ResolveMediaSource ::
  "control_db \<Rightarrow> class_tables \<Rightarrow> tenant_context \<Rightarrow> media_source_reference \<Rightarrow> permission \<Rightarrow>
   class_error + media_source_snapshot" where
  "ResolveMediaSource db kt tc ref p =
     (if \<not> TenantContext_Validate tc then Inl ErrSessionAccessDenied
      else case mr_Kind ref of
        SourceClassSession \<Rightarrow> resolveOneTimeMediaSource db kt tc ref p
      | SourceClassSessionOccurrence \<Rightarrow> resolveRecurringMediaSource db kt tc ref p
      | _ \<Rightarrow> Inl ErrSessionNotFound)"

definition TransitionMediaSession ::
  "tenant_context \<Rightarrow> uuid \<Rightarrow> session_status \<Rightarrow> session_status \<Rightarrow> instant \<Rightarrow> class_tables \<Rightarrow>
   class_error + class_tables" where
  "TransitionMediaSession tc sessionID src tgt now kt =
     (if \<not> TenantContext_Validate tc \<or> sessionID = uuid_Nil \<or>
         \<not> ((src = SessionStatusScheduled \<and> tgt = SessionStatusLive) \<or>
            (src = SessionStatusLive \<and> tgt = SessionStatusEnded))
      then Inl ErrInvalidSessionTransition
      else case kt_sessions kt (tc_TenantID tc, sessionID) of
        None \<Rightarrow> Inl ErrInvalidSessionTransition
      | Some session \<Rightarrow>
          if cn_Status session \<noteq> src then Inl ErrInvalidSessionTransition
          else Inr (kt\<lparr>kt_sessions := (kt_sessions kt)((tc_TenantID tc, sessionID) \<mapsto>
            session\<lparr>cn_Status := tgt, cn_Version := cn_Version session + 1,
              cn_UpdatedBy := tc_ActorID tc, cn_UpdatedAt := now\<rparr>)\<rparr>))"

definition classroom_sources :: "class_tables class_sources" where
  "classroom_sources = \<lparr>src_AuthorizeMediaClass = AuthorizeMediaClass,
     src_ResolveMediaSource = ResolveMediaSource,
     src_TransitionMediaSession = TransitionMediaSession\<rparr>"

subsection \<open>What the media repository relies on\<close>

text \<open>
  \<open>status\<close> is the status of a one-time session, \<open>class_of\<close> the class that the source belongs to,
  \<open>class_role\<close> the actor's role in a class, and \<open>entitled\<close> what the policy grants on a class.
\<close>

locale class_authority =
  fixes cs :: "'c class_sources"
    and status :: "'c \<Rightarrow> uuid \<times> uuid \<Rightarrow> session_status option"
    and entitled :: "control_db \<Rightarrow> 'c \<Rightarrow> tenant_context \<Rightarrow> uuid \<Rightarrow> permission \<Rightarrow> bool"
    and class_of :: "'c \<Rightarrow> uuid \<Rightarrow> media_source_reference \<Rightarrow> uuid option"
    and class_role :: "'c \<Rightarrow> tenant_context \<Rightarrow> uuid \<Rightarrow> class_role option"
  assumes resolve_status:
      "src_ResolveMediaSource cs db c tc ref p = Inr sn \<Longrightarrow> mr_Kind ref = SourceClassSession \<Longrightarrow>
       status c (tc_TenantID tc, mr_ClassSessionID ref) = Some (mn_Status sn) \<and>
       mn_ClassSessionID sn = mr_ClassSessionID ref"
    and resolve_entitled:
      "src_ResolveMediaSource cs db c tc ref p = Inr sn \<Longrightarrow> entitled db c tc (mn_ClassID sn) p"
    and resolve_class:
      "src_ResolveMediaSource cs db c tc ref p = Inr sn \<Longrightarrow>
       class_of c (tc_TenantID tc) ref = Some (mn_ClassID sn) \<and>
       mn_ClassRole sn = class_role c tc (mn_ClassID sn)"
    and authorize_entitled:
      "src_AuthorizeMediaClass cs db c tc classID p = Inr st \<Longrightarrow> entitled db c tc classID p"
    and transition_moves:
      "src_TransitionMediaSession cs tc sid src tgt now c = Inr c' \<Longrightarrow>
       status c (tc_TenantID tc, sid) = Some src \<and>
       status c' = (status c)((tc_TenantID tc, sid) \<mapsto> tgt)"
    and transition_forward:
      "src_TransitionMediaSession cs tc sid src tgt now c = Inr c' \<Longrightarrow>
       (src = SessionStatusScheduled \<and> tgt = SessionStatusLive) \<or>
       (src = SessionStatusLive \<and> tgt = SessionStatusEnded)"
begin

text \<open>A session never returns to a status it has left, and a finished one stays finished.\<close>

lemma transition_not_again:
  assumes "src_TransitionMediaSession cs tc sid src tgt now c = Inr c'"
    and "src_TransitionMediaSession cs tc sid src tgt now' c' = Inr c''"
  shows False
  using transition_moves[OF assms(1)] transition_moves[OF assms(2)] transition_forward[OF assms(1)]
  by auto

lemma transition_other:
  "src_TransitionMediaSession cs tc sid src tgt now c = Inr c' \<Longrightarrow> (t, i) \<noteq> (tc_TenantID tc, sid) \<Longrightarrow>
   status c' (t, i) = status c (t, i)"
  by (auto dest: transition_moves)

end

definition session_status_of :: "class_tables \<Rightarrow> uuid \<times> uuid \<Rightarrow> session_status option" where
  "session_status_of kt ti = map_option cn_Status (kt_sessions kt ti)"

text \<open>The policy's grant to the actor on a class, with the roles the tables hold.\<close>

definition class_entitled ::
  "control_db \<Rightarrow> class_tables \<Rightarrow> tenant_context \<Rightarrow> uuid \<Rightarrow> permission \<Rightarrow> bool" where
  "class_entitled db kt tc classID p \<longleftrightarrow>
     (\<exists>class membership. lockClassMutation db kt tc classID = Inr (class, membership) \<and>
        authorizeLockedClass tc membership class p = Inr ())"

text \<open>The class of a reference to a session or a series, and the actor's role in a class.\<close>

definition class_of_source :: "class_tables \<Rightarrow> uuid \<Rightarrow> media_source_reference \<Rightarrow> uuid option" where
  "class_of_source kt tenantID ref =
     (case mr_Kind ref of
        SourceClassSession \<Rightarrow> if mr_ClassSessionID ref = uuid_Nil then None
          else map_option cn_ClassID (kt_sessions kt (tenantID, mr_ClassSessionID ref))
      | SourceClassSessionOccurrence \<Rightarrow> if mr_SeriesID ref = uuid_Nil then None
          else map_option cr_ClassID (kt_series kt (tenantID, mr_SeriesID ref))
      | _ \<Rightarrow> None)"

definition class_role_of :: "class_tables \<Rightarrow> tenant_context \<Rightarrow> uuid \<Rightarrow> class_role option" where
  "class_role_of kt tc classID =
     (case kt_classes kt (tc_TenantID tc, classID) of
        None \<Rightarrow> None
      | Some class \<Rightarrow> if cl_OwnerUserID class = tc_ActorID tc then Some ClassRoleOwner
          else lockActiveClassEnrollmentRole kt (tc_TenantID tc) classID (tc_ActorID tc))"

lemma mediaSourceGrants_role:
  assumes "lockClassMutation db kt tc classID = Inr (cls, membership)"
  shows "fst (mediaSourceGrants tc cls membership) = class_role_of kt tc classID"
  using assms by (auto simp: lockClassMutation_def mediaSourceGrants_def class_role_of_def Let_def
      split: if_split_asm option.split_asm)

lemma try_pair_Inr:
  "try_res r (\<lambda>(a, b). f a b) = Inr y \<longleftrightarrow> (\<exists>a b. r = Inr (a, b) \<and> f a b = Inr y)"
  by (cases r) auto

lemma resolveOneTime_Inr:
  assumes "resolveOneTimeMediaSource db kt tc ref p = Inr sn"
  obtains session cls membership where
    "kt_sessions kt (tc_TenantID tc, mr_ClassSessionID ref) = Some session"
    and "lockClassMutation db kt tc (cn_ClassID session) = Inr (cls, membership)"
    and "authorizeLockedClass tc membership cls p = Inr ()"
    and "mn_ClassID sn = cn_ClassID session" and "mn_Status sn = cn_Status session"
    and "mn_ClassSessionID sn = mr_ClassSessionID ref" and "mr_ClassSessionID ref \<noteq> uuid_Nil"
    and "mn_ClassRole sn = fst (mediaSourceGrants tc cls membership)"
  using assms unfolding resolveOneTimeMediaSource_def
  by (auto simp: case_prod_beta Let_def split: if_splits option.splits)

lemma resolveRecurring_Inr:
  assumes "resolveRecurringMediaSource db kt tc ref p = Inr sn"
  obtains series cls membership where
    "kt_series kt (tc_TenantID tc, mr_SeriesID ref) = Some series" and "mr_SeriesID ref \<noteq> uuid_Nil"
    and "mn_ClassID sn = cr_ClassID series"
    and "lockClassMutation db kt tc (mn_ClassID sn) = Inr (cls, membership)"
    and "authorizeLockedClass tc membership cls p = Inr ()"
    and "mn_ClassRole sn = fst (mediaSourceGrants tc cls membership)"
  using assms unfolding resolveRecurringMediaSource_def
  by (auto simp: case_prod_beta Let_def split: if_splits option.splits)

interpretation classroom: class_authority classroom_sources session_status_of class_entitled
  class_of_source class_role_of
proof unfold_locales
  fix db kt tc ref p sn
  assume r: "src_ResolveMediaSource classroom_sources db kt tc ref p = Inr sn"
  show "class_entitled db kt tc (mn_ClassID sn) p"
    using r unfolding classroom_sources_def class_entitled_def
    by (auto simp: ResolveMediaSource_def split: source_kind.splits if_splits
        elim!: resolveOneTime_Inr resolveRecurring_Inr)
  show "class_of_source kt (tc_TenantID tc) ref = Some (mn_ClassID sn) \<and>
      mn_ClassRole sn = class_role_of kt tc (mn_ClassID sn)"
    using r mediaSourceGrants_role
    unfolding classroom_sources_def class_of_source_def
    by (auto simp: ResolveMediaSource_def split: source_kind.splits if_splits
        elim!: resolveOneTime_Inr resolveRecurring_Inr)
  assume "mr_Kind ref = SourceClassSession"
  with r show "session_status_of kt (tc_TenantID tc, mr_ClassSessionID ref) = Some (mn_Status sn) \<and>
      mn_ClassSessionID sn = mr_ClassSessionID ref"
    unfolding classroom_sources_def session_status_of_def
    by (auto simp: ResolveMediaSource_def split: if_splits elim!: resolveOneTime_Inr)
next
  fix db kt tc classID p st
  assume "src_AuthorizeMediaClass classroom_sources db kt tc classID p = Inr st"
  then show "class_entitled db kt tc classID p"
    unfolding classroom_sources_def class_entitled_def
    by (auto simp: AuthorizeMediaClass_def try_pair_Inr split: if_splits)
next
  fix tc sid src tgt now kt kt'
  assume "src_TransitionMediaSession classroom_sources tc sid src tgt now kt = Inr kt'"
  then show "session_status_of kt (tc_TenantID tc, sid) = Some src \<and>
      session_status_of kt' = (session_status_of kt)((tc_TenantID tc, sid) \<mapsto> tgt)"
    and "(src = SessionStatusScheduled \<and> tgt = SessionStatusLive) \<or>
      (src = SessionStatusLive \<and> tgt = SessionStatusEnded)"
    by (auto simp: classroom_sources_def TransitionMediaSession_def session_status_of_def fun_eq_iff
        split: if_splits option.splits)
qed

end
