(* ===== verification/Media_Tables.thy ===== *)
theory Media_Tables imports Sql_Tables Media_Sources begin

section \<open>Tables of the media component (migrations 000022, 000029 to 000035)\<close>

text \<open>
  One record per table, with the columns the modelled code reads or writes, the CHECK
  constraints and unique indexes of the migrations as executable predicates, and the database
  of the media repositories.  A statement that breaks a constraint fails and the transaction is
  rolled back.  Foreign keys are left out: every reference a modelled statement writes is to a
  row the same transaction has read or inserted, and no modelled operation deletes rows.
\<close>

subsection \<open>Spaces\<close>

record space_row =
  ms_ID :: uuid
  ms_TenantID :: uuid
  ms_Source :: source_reference
  ms_ClassID :: "uuid option"
  ms_Status :: space_status
  ms_Version :: int
  ms_LobbyEnabled :: bool
  ms_Locked :: bool
  ms_CreateKey :: string
  ms_CreateFingerprint :: string
  ms_CreatedBy :: uuid
  ms_UpdatedBy :: uuid
  ms_OpenedAt :: "instant option"
  ms_OpenedBy :: "uuid option"
  ms_EndedAt :: "instant option"
  ms_EndedBy :: "uuid option"
  ms_CancelledAt :: "instant option"
  ms_CancelledBy :: "uuid option"
  ms_CreatedAt :: instant
  ms_UpdatedAt :: instant

text \<open>\<open>a <= b\<close> on nullable columns inside a branch that requires both to be present.\<close>

fun nullable_le :: "instant option \<Rightarrow> instant option \<Rightarrow> bool" where
  "nullable_le (Some a) (Some b) \<longleftrightarrow> a \<le> b"
| "nullable_le _ _ \<longleftrightarrow> False"

definition source_union_valid :: "space_row \<Rightarrow> bool" where
  "source_union_valid r = (let s = ms_Source r in case sr_Kind s of
      SourceClassSession \<Rightarrow> ms_ClassID r \<noteq> None \<and> sr_ClassSessionID s \<noteq> None \<and>
        sr_SeriesID s = None \<and> sr_OccurrenceKey s = [] \<and> sr_StudyMeetingID s = None
    | SourceClassSessionOccurrence \<Rightarrow> ms_ClassID r \<noteq> None \<and> sr_ClassSessionID s = None \<and>
        sr_SeriesID s \<noteq> None \<and> 8 \<le> length (sr_OccurrenceKey s) \<and>
        length (sr_OccurrenceKey s) \<le> 128 \<and> sr_StudyMeetingID s = None
    | SourceStudyMeeting \<Rightarrow> ms_ClassID r = None \<and> sr_ClassSessionID s = None \<and>
        sr_SeriesID s = None \<and> sr_OccurrenceKey s = [] \<and> sr_StudyMeetingID s \<noteq> None
    | _ \<Rightarrow> False)"

definition space_lifecycle_consistent :: "space_row \<Rightarrow> bool" where
  "space_lifecycle_consistent r = (case ms_Status r of
      SpaceStatusScheduled \<Rightarrow> \<not> ms_Locked r \<and> ms_OpenedAt r = None \<and> ms_OpenedBy r = None \<and>
        ms_EndedAt r = None \<and> ms_EndedBy r = None \<and> ms_CancelledAt r = None \<and> ms_CancelledBy r = None
    | SpaceStatusOpen \<Rightarrow> ms_OpenedBy r \<noteq> None \<and> nullable_le (Some (ms_CreatedAt r)) (ms_OpenedAt r) \<and>
        nullable_le (ms_OpenedAt r) (Some (ms_UpdatedAt r)) \<and>
        ms_EndedAt r = None \<and> ms_EndedBy r = None \<and> ms_CancelledAt r = None \<and> ms_CancelledBy r = None
    | SpaceStatusEnded \<Rightarrow> \<not> ms_Locked r \<and> ms_OpenedBy r \<noteq> None \<and> ms_EndedBy r \<noteq> None \<and>
        nullable_le (Some (ms_CreatedAt r)) (ms_OpenedAt r) \<and> nullable_le (ms_OpenedAt r) (ms_EndedAt r) \<and>
        nullable_le (ms_EndedAt r) (Some (ms_UpdatedAt r)) \<and> ms_CancelledAt r = None \<and> ms_CancelledBy r = None
    | SpaceStatusCancelled \<Rightarrow> \<not> ms_Locked r \<and> ms_OpenedAt r = None \<and> ms_OpenedBy r = None \<and>
        ms_EndedAt r = None \<and> ms_EndedBy r = None \<and> ms_CancelledBy r \<noteq> None \<and>
        nullable_le (Some (ms_CreatedAt r)) (ms_CancelledAt r) \<and>
        nullable_le (ms_CancelledAt r) (Some (ms_UpdatedAt r)))"

definition space_check :: "space_row \<Rightarrow> bool" where
  "space_check r \<longleftrightarrow> source_union_valid r \<and> 0 < ms_Version r \<and>
     mediaIdempotencyPattern (ms_CreateKey r) \<and> length (ms_CreateFingerprint r) = 32 \<and>
     ms_CreatedAt r \<le> ms_UpdatedAt r \<and> space_lifecycle_consistent r"

text \<open>The three unique indexes on the source are one: their rows have different kinds.\<close>

definition space_source_key :: "space_row \<Rightarrow> uuid \<times> source_reference" where
  "space_source_key r = (ms_TenantID r, ms_Source r)"

definition spaces_ok :: "space_row list \<Rightarrow> bool" where
  "spaces_ok rows \<longleftrightarrow> list_all space_check rows \<and> unique_index (\<lambda>_. True) ms_ID rows \<and>
     unique_index (\<lambda>_. True) (\<lambda>r. (ms_TenantID r, ms_CreatedBy r, ms_CreateKey r)) rows \<and>
     unique_index (\<lambda>_. True) space_source_key rows"

subsection \<open>Room instances\<close>

record room_row =
  rm_ID :: uuid
  rm_TenantID :: uuid
  rm_SpaceID :: uuid
  rm_AttemptNumber :: int
  rm_Status :: room_status
  rm_Version :: int
  rm_ProviderRoomName :: string
  rm_ProviderRoomSID :: "string option"
  rm_CreatedBy :: uuid
  rm_UpdatedBy :: uuid
  rm_ActivatedAt :: "instant option"
  rm_ClosingAt :: "instant option"
  rm_EndedAt :: "instant option"
  rm_FailedAt :: "instant option"
  rm_FailureCode :: "string option"
  rm_ProjectionVersion :: int
  rm_NextRosterSequence :: int
  rm_CreatedAt :: instant
  rm_UpdatedAt :: instant

definition failure_code_valid :: "string option \<Rightarrow> bool" where
  "failure_code_valid fc = (case fc of None \<Rightarrow> True
     | Some [] \<Rightarrow> False
     | Some (c # cs) \<Rightarrow> is_lower c \<and> length cs \<le> 63 \<and>
         list_all (\<lambda>c. is_lower c \<or> is_digit c \<or> c = CHR ''_'') cs)"

definition provider_name_char :: "char \<Rightarrow> bool" where
  "provider_name_char c \<longleftrightarrow> is_lower c \<or> is_upper c \<or> is_digit c \<or> c = CHR ''_'' \<or> c = CHR ''-''"

definition provider_name_valid :: "string \<Rightarrow> bool" where
  "provider_name_valid s \<longleftrightarrow> 16 \<le> length s \<and> length s \<le> 128 \<and> list_all provider_name_char s"

definition room_lifecycle_consistent :: "room_row \<Rightarrow> bool" where
  "room_lifecycle_consistent r = (case rm_Status r of
      RoomInstanceProvisioning \<Rightarrow> rm_ActivatedAt r = None \<and> rm_ClosingAt r = None \<and>
        rm_EndedAt r = None \<and> rm_FailedAt r = None \<and> rm_FailureCode r = None
    | RoomInstanceActive \<Rightarrow> nullable_le (Some (rm_CreatedAt r)) (rm_ActivatedAt r) \<and>
        nullable_le (rm_ActivatedAt r) (Some (rm_UpdatedAt r)) \<and> rm_ClosingAt r = None \<and>
        rm_EndedAt r = None \<and> rm_FailedAt r = None \<and> rm_FailureCode r = None
    | RoomInstanceClosing \<Rightarrow> nullable_le (Some (rm_CreatedAt r)) (rm_ActivatedAt r) \<and>
        nullable_le (rm_ActivatedAt r) (rm_ClosingAt r) \<and> nullable_le (rm_ClosingAt r) (Some (rm_UpdatedAt r)) \<and>
        rm_EndedAt r = None \<and> rm_FailedAt r = None \<and> rm_FailureCode r = None
    | RoomInstanceEnded \<Rightarrow> nullable_le (Some (rm_CreatedAt r)) (rm_ActivatedAt r) \<and>
        nullable_le (rm_ActivatedAt r) (rm_ClosingAt r) \<and> nullable_le (rm_ClosingAt r) (rm_EndedAt r) \<and>
        nullable_le (rm_EndedAt r) (Some (rm_UpdatedAt r)) \<and> rm_FailedAt r = None \<and> rm_FailureCode r = None
    | RoomInstanceFailed \<Rightarrow> rm_EndedAt r = None \<and> nullable_le (Some (rm_CreatedAt r)) (rm_FailedAt r) \<and>
        nullable_le (rm_FailedAt r) (Some (rm_UpdatedAt r)) \<and> rm_FailureCode r \<noteq> None \<and>
        (rm_ActivatedAt r = None \<or> nullable_le (Some (rm_CreatedAt r)) (rm_ActivatedAt r)) \<and>
        (rm_ClosingAt r = None \<or> nullable_le (rm_ActivatedAt r) (rm_ClosingAt r)))"

text \<open>The checks on the provider's room identifier hold for every identifier the code accepts.\<close>

definition room_check :: "room_row \<Rightarrow> bool" where
  "room_check r \<longleftrightarrow> 0 < rm_AttemptNumber r \<and> 0 < rm_Version r \<and>
     provider_name_valid (rm_ProviderRoomName r) \<and> failure_code_valid (rm_FailureCode r) \<and>
     0 < rm_ProjectionVersion r \<and> 0 \<le> rm_NextRosterSequence r \<and>
     rm_CreatedAt r \<le> rm_UpdatedAt r \<and> room_lifecycle_consistent r"

definition room_live :: "room_row \<Rightarrow> bool" where
  "room_live r \<longleftrightarrow> rm_Status r \<in> {RoomInstanceProvisioning, RoomInstanceActive, RoomInstanceClosing}"

abbreviation room_space :: "room_row \<Rightarrow> uuid \<times> uuid" where
  "room_space r \<equiv> (rm_TenantID r, rm_SpaceID r)"

definition rooms_ok :: "room_row list \<Rightarrow> bool" where
  "rooms_ok rows \<longleftrightarrow> list_all room_check rows \<and> unique_index (\<lambda>_. True) rm_ID rows \<and>
     unique_index (\<lambda>_. True) (\<lambda>r. (rm_TenantID r, rm_SpaceID r, rm_AttemptNumber r)) rows \<and>
     unique_index (\<lambda>_. True) rm_ProviderRoomName rows \<and>
     unique_index (\<lambda>r. rm_ProviderRoomSID r \<noteq> None) rm_ProviderRoomSID rows \<and>
     unique_index room_live room_space rows"

subsection \<open>Admissions and participants\<close>

datatype admission_status =
    AdmissionWaiting | AdmissionAdmitted | AdmissionDenied | AdmissionCancelled | AdmissionExpired

record admission_row =
  ad_ID :: uuid
  ad_TenantID :: uuid
  ad_SpaceID :: uuid
  ad_RoomID :: uuid
  ad_UserID :: uuid
  ad_Status :: admission_status
  ad_Version :: int
  ad_IdempotencyKey :: string
  ad_Fingerprint :: string
  ad_ResolvedAt :: "instant option"
  ad_ResolvedBy :: "uuid option"
  ad_ResolutionCode :: "string option"
  ad_CreatedAt :: instant
  ad_UpdatedAt :: instant

definition admission_lifecycle_consistent :: "admission_row \<Rightarrow> bool" where
  "admission_lifecycle_consistent r =
     (let resolved = nullable_le (Some (ad_CreatedAt r)) (ad_ResolvedAt r) \<and>
            nullable_le (ad_ResolvedAt r) (Some (ad_UpdatedAt r)) in
      case ad_Status r of
        AdmissionWaiting \<Rightarrow> ad_ResolvedAt r = None \<and> ad_ResolvedBy r = None \<and> ad_ResolutionCode r = None
      | AdmissionAdmitted \<Rightarrow> resolved \<and> ad_ResolvedBy r \<noteq> None
      | AdmissionDenied \<Rightarrow> resolved \<and> ad_ResolvedBy r \<noteq> None \<and> ad_ResolutionCode r \<noteq> None
      | _ \<Rightarrow> resolved \<and> ad_ResolutionCode r \<noteq> None)"

definition admission_check :: "admission_row \<Rightarrow> bool" where
  "admission_check r \<longleftrightarrow> 0 < ad_Version r \<and> mediaIdempotencyPattern (ad_IdempotencyKey r) \<and>
     length (ad_Fingerprint r) = 32 \<and> failure_code_valid (ad_ResolutionCode r) \<and>
     ad_CreatedAt r \<le> ad_UpdatedAt r \<and> admission_lifecycle_consistent r"

definition admissions_ok :: "admission_row list \<Rightarrow> bool" where
  "admissions_ok rows \<longleftrightarrow> list_all admission_check rows \<and> unique_index (\<lambda>_. True) ad_ID rows \<and>
     unique_index (\<lambda>_. True)
       (\<lambda>r. (ad_TenantID r, ad_RoomID r, ad_UserID r, ad_IdempotencyKey r)) rows \<and>
     unique_index (\<lambda>r. ad_Status r = AdmissionWaiting)
       (\<lambda>r. (ad_TenantID r, ad_RoomID r, ad_UserID r)) rows"

datatype instance_role =
    InstanceRoleHost | InstanceRoleCoHost | InstanceRoleTeachingAssistant | InstanceRoleAttendee

datatype participant_status =
    ParticipantWaiting | ParticipantAdmitted | ParticipantJoining | ParticipantConnected
  | ParticipantReconnecting | ParticipantLeft | ParticipantRemoved | ParticipantFailed

record participant_row =
  pa_ID :: uuid
  pa_TenantID :: uuid
  pa_SpaceID :: uuid
  pa_RoomID :: uuid
  pa_UserID :: uuid
  pa_AdmissionID :: "uuid option"
  pa_JoinAttemptID :: uuid
  pa_ProviderIdentity :: string
  pa_ParticipantKey :: uuid
  pa_RosterSequence :: int
  pa_InstanceRole :: instance_role
  pa_Status :: participant_status
  pa_CapacityReserved :: bool
  pa_Version :: int
  pa_AdmittedAt :: "instant option"
  pa_JoiningAt :: "instant option"
  pa_ConnectedAt :: "instant option"
  pa_ReconnectingAt :: "instant option"
  pa_TerminalAt :: "instant option"
  pa_RemovedBy :: "uuid option"
  pa_FailureCode :: "string option"
  pa_RejoinRestoredAt :: "instant option"
  pa_RejoinRestoredBy :: "uuid option"
  pa_CreatedAt :: instant
  pa_UpdatedAt :: instant

fun activeParticipantStatus :: "participant_status \<Rightarrow> bool" where
  "activeParticipantStatus ParticipantWaiting = True"
| "activeParticipantStatus ParticipantAdmitted = True"
| "activeParticipantStatus ParticipantJoining = True"
| "activeParticipantStatus ParticipantConnected = True"
| "activeParticipantStatus ParticipantReconnecting = True"
| "activeParticipantStatus _ = False"

definition participant_active :: "participant_row \<Rightarrow> bool" where
  "participant_active r \<longleftrightarrow> activeParticipantStatus (pa_Status r)"

definition participant_open_consistent :: "participant_row \<Rightarrow> bool" where
  "participant_open_consistent r \<longleftrightarrow> pa_CapacityReserved r \<and> pa_TerminalAt r = None \<and>
     pa_RemovedBy r = None \<and> pa_FailureCode r = None \<and>
     (case pa_Status r of
        ParticipantWaiting \<Rightarrow> pa_AdmittedAt r = None \<and> pa_JoiningAt r = None \<and>
          pa_ConnectedAt r = None \<and> pa_ReconnectingAt r = None
      | ParticipantAdmitted \<Rightarrow> nullable_le (Some (pa_CreatedAt r)) (pa_AdmittedAt r) \<and>
          nullable_le (pa_AdmittedAt r) (Some (pa_UpdatedAt r)) \<and> pa_JoiningAt r = None \<and>
          pa_ConnectedAt r = None \<and> pa_ReconnectingAt r = None
      | ParticipantJoining \<Rightarrow> nullable_le (pa_AdmittedAt r) (pa_JoiningAt r) \<and>
          nullable_le (pa_JoiningAt r) (Some (pa_UpdatedAt r)) \<and>
          pa_ConnectedAt r = None \<and> pa_ReconnectingAt r = None
      | ParticipantConnected \<Rightarrow> nullable_le (pa_AdmittedAt r) (pa_JoiningAt r) \<and>
          nullable_le (pa_JoiningAt r) (pa_ConnectedAt r) \<and>
          nullable_le (pa_ConnectedAt r) (Some (pa_UpdatedAt r)) \<and> pa_ReconnectingAt r = None
      | ParticipantReconnecting \<Rightarrow> nullable_le (pa_AdmittedAt r) (pa_JoiningAt r) \<and>
          nullable_le (pa_JoiningAt r) (pa_ConnectedAt r) \<and>
          nullable_le (pa_ConnectedAt r) (pa_ReconnectingAt r) \<and>
          nullable_le (pa_ReconnectingAt r) (Some (pa_UpdatedAt r))
      | _ \<Rightarrow> False)"

definition participant_lifecycle_consistent :: "participant_row \<Rightarrow> bool" where
  "participant_lifecycle_consistent r =
     (let terminal = \<not> pa_CapacityReserved r \<and> nullable_le (Some (pa_CreatedAt r)) (pa_TerminalAt r) \<and>
            nullable_le (pa_TerminalAt r) (Some (pa_UpdatedAt r)) in
      case pa_Status r of
        ParticipantLeft \<Rightarrow> terminal \<and> pa_RemovedBy r = None \<and> pa_FailureCode r = None
      | ParticipantRemoved \<Rightarrow> terminal \<and> pa_RemovedBy r \<noteq> None \<and> pa_FailureCode r = None
      | ParticipantFailed \<Rightarrow> terminal \<and> pa_RemovedBy r = None \<and> pa_FailureCode r \<noteq> None
      | _ \<Rightarrow> participant_open_consistent r)"

definition participant_check :: "participant_row \<Rightarrow> bool" where
  "participant_check r \<longleftrightarrow> provider_name_valid (pa_ProviderIdentity r) \<and> 0 < pa_Version r \<and>
     failure_code_valid (pa_FailureCode r) \<and> pa_CreatedAt r \<le> pa_UpdatedAt r \<and>
     0 < pa_RosterSequence r \<and> participant_lifecycle_consistent r \<and>
     (pa_RejoinRestoredAt r = None \<and> pa_RejoinRestoredBy r = None \<or>
      pa_Status r = ParticipantRemoved \<and> pa_RejoinRestoredBy r \<noteq> None \<and>
        nullable_le (pa_TerminalAt r) (pa_RejoinRestoredAt r) \<and>
        nullable_le (pa_RejoinRestoredAt r) (Some (pa_UpdatedAt r)))"

abbreviation participant_room :: "participant_row \<Rightarrow> uuid \<times> uuid" where
  "participant_room r \<equiv> (pa_TenantID r, pa_RoomID r)"

definition participants_ok :: "participant_row list \<Rightarrow> bool" where
  "participants_ok rows \<longleftrightarrow> list_all participant_check rows \<and> unique_index (\<lambda>_. True) pa_ID rows \<and>
     unique_index (\<lambda>_. True) (\<lambda>r. (participant_room r, pa_UserID r, pa_JoinAttemptID r)) rows \<and>
     unique_index (\<lambda>_. True) (\<lambda>r. (participant_room r, pa_ProviderIdentity r)) rows \<and>
     unique_index (\<lambda>_. True) (\<lambda>r. (participant_room r, pa_ParticipantKey r)) rows \<and>
     unique_index (\<lambda>_. True) (\<lambda>r. (participant_room r, pa_RosterSequence r)) rows \<and>
     unique_index participant_active (\<lambda>r. (participant_room r, pa_UserID r)) rows"

record hand_row =
  hs_TenantID :: uuid
  hs_SpaceID :: uuid
  hs_RoomID :: uuid
  hs_ParticipantID :: uuid
  hs_Raised :: bool

subsection \<open>Receipts and meetings\<close>

datatype provider_effect_status =
    ProviderEffectNone | ProviderEffectPending | ProviderEffectApplying | ProviderEffectApplied
  | ProviderEffectRetryableFailed | ProviderEffectPermanentFailed

record receipt_row =
  rc_TenantID :: uuid
  rc_ActorID :: uuid
  rc_IdempotencyKey :: string
  rc_Fingerprint :: string
  rc_Operation :: string
  rc_SpaceID :: uuid
  rc_ResultVersion :: int
  rc_ResultRoomID :: "uuid option"
  rc_CreatedAt :: instant
  rc_TargetID :: "uuid option"
  rc_RoomVersion :: "int option"
  rc_ProjectionVersion :: "int option"
  rc_ParticipantVersion :: "int option"
  rc_RoleVersion :: "int option"
  rc_InstanceRole :: "instance_role option"
  rc_Locked :: "bool option"
  rc_EffectRequired :: bool
  rc_EffectStatus :: provider_effect_status
  rc_EffectAttempts :: int
  rc_EffectErrorCode :: "string option"
  rc_EffectLeaseUntil :: "instant option"
  rc_EffectUpdatedAt :: "instant option"

text \<open>The operations of a receipt: of the lifecycle, of the lobby and of moderation.\<close>

definition participant_operations :: "string set" where
  "participant_operations = {''participant_promote'', ''participant_demote'', ''participant_mute'',
     ''participant_remove''}"

definition receipt_operations :: "string set" where
  "receipt_operations = {''start'', ''end'', ''cancel'', ''member_invite'', ''member_revoke'',
     ''member_restore'', ''admission_admit'', ''admission_deny'', ''admission_cancel'',
     ''admission_restore'', ''lock'', ''unlock'', ''recover''} \<union> participant_operations"

definition positive_or_null :: "int option \<Rightarrow> bool" where
  "positive_or_null v \<longleftrightarrow> (case v of None \<Rightarrow> True | Some n \<Rightarrow> 0 < n)"

text \<open>What a receipt of an operation on a participant stores of its target and its result.\<close>

definition receipt_target_consistent :: "receipt_row \<Rightarrow> bool" where
  "receipt_target_consistent r =
     (if rc_Operation r \<in> participant_operations
      then rc_TargetID r \<noteq> None \<and> rc_ResultRoomID r \<noteq> None \<and> rc_RoomVersion r \<noteq> None \<and>
        rc_ProjectionVersion r \<noteq> None \<and> rc_ParticipantVersion r \<noteq> None \<and> rc_EffectRequired r
      else rc_TargetID r = None \<and> rc_ParticipantVersion r = None)"

definition receipt_result_consistent :: "receipt_row \<Rightarrow> bool" where
  "receipt_result_consistent r \<longleftrightarrow>
     (if rc_Operation r \<in> {''participant_promote'', ''participant_demote''}
      then rc_RoleVersion r \<noteq> None \<and> rc_InstanceRole r \<noteq> None
      else rc_RoleVersion r = None \<and> rc_InstanceRole r = None) \<and>
     rc_Locked r = (if rc_Operation r = ''lock'' then Some True
       else if rc_Operation r = ''unlock'' then Some False else None) \<and>
     positive_or_null (rc_RoomVersion r) \<and> positive_or_null (rc_ProjectionVersion r) \<and>
     positive_or_null (rc_ParticipantVersion r) \<and> positive_or_null (rc_RoleVersion r)"

definition effect_consistent :: "receipt_row \<Rightarrow> bool" where
  "effect_consistent r =
     (if rc_EffectRequired r
      then rc_Operation r \<in> {''end'', ''participant_promote'', ''participant_demote'',
             ''participant_mute'', ''participant_remove''} \<and>
        rc_EffectStatus r \<noteq> ProviderEffectNone \<and> rc_EffectUpdatedAt r \<noteq> None \<and>
        (rc_EffectStatus r = ProviderEffectApplying \<longleftrightarrow> rc_EffectLeaseUntil r \<noteq> None) \<and>
        (rc_EffectStatus r \<in> {ProviderEffectRetryableFailed, ProviderEffectPermanentFailed} \<longleftrightarrow>
           rc_EffectErrorCode r \<noteq> None)
      else rc_EffectStatus r = ProviderEffectNone \<and> rc_EffectAttempts r = 0 \<and>
        rc_EffectErrorCode r = None \<and> rc_EffectLeaseUntil r = None \<and> rc_EffectUpdatedAt r = None)"

definition receipt_check :: "receipt_row \<Rightarrow> bool" where
  "receipt_check r \<longleftrightarrow> mediaIdempotencyPattern (rc_IdempotencyKey r) \<and>
     length (rc_Fingerprint r) = 32 \<and> rc_Operation r \<in> receipt_operations \<and>
     0 < rc_ResultVersion r \<and>
     (rc_Operation r \<in> {''start'', ''recover''} \<longrightarrow> rc_ResultRoomID r \<noteq> None) \<and>
     receipt_target_consistent r \<and> receipt_result_consistent r \<and>
     0 \<le> rc_EffectAttempts r \<and> failure_code_valid (rc_EffectErrorCode r) \<and> effect_consistent r"

definition receipt_key :: "receipt_row \<Rightarrow> uuid \<times> uuid \<times> string" where
  "receipt_key r = (rc_TenantID r, rc_ActorID r, rc_IdempotencyKey r)"

definition receipts_ok :: "receipt_row list \<Rightarrow> bool" where
  "receipts_ok rows \<longleftrightarrow> list_all receipt_check rows \<and> unique_index (\<lambda>_. True) receipt_key rows"

record meeting_row =
  mt_ID :: uuid
  mt_TenantID :: uuid
  mt_OwnerUserID :: uuid
  mt_ClassID :: "uuid option"
  mt_Title :: string
  mt_StartsAt :: instant
  mt_EndsAt :: instant
  mt_Timezone :: string
  mt_Status :: string
  mt_CreateKey :: string
  mt_CreateFingerprint :: string

text \<open>The constraints that depend on more than the normalised title and zone.\<close>

definition meeting_check :: "meeting_row \<Rightarrow> bool" where
  "meeting_check r \<longleftrightarrow> mt_StartsAt r < mt_EndsAt r \<and> mt_EndsAt r \<le> mt_StartsAt r + 24 * time_Hour \<and>
     length (mt_CreateFingerprint r) = 32"

definition meetings_ok :: "meeting_row list \<Rightarrow> bool" where
  "meetings_ok rows \<longleftrightarrow> list_all meeting_check rows \<and> unique_index (\<lambda>_. True) mt_ID rows \<and>
     unique_index (\<lambda>_. True) (\<lambda>r. (mt_TenantID r, mt_OwnerUserID r, mt_CreateKey r)) rows"

subsection \<open>Members, roles and users\<close>

datatype member_status = LobbyMemberActive | LobbyMemberRevoked

record member_row =
  mb_TenantID :: uuid
  mb_SpaceID :: uuid
  mb_UserID :: uuid
  mb_Status :: member_status
  mb_Version :: int
  mb_InvitedBy :: uuid
  mb_RevokedAt :: "instant option"
  mb_RevokedBy :: "uuid option"
  mb_CreatedAt :: instant
  mb_UpdatedAt :: instant

definition member_check :: "member_row \<Rightarrow> bool" where
  "member_check r \<longleftrightarrow> 0 < mb_Version r \<and> mb_CreatedAt r \<le> mb_UpdatedAt r \<and>
     (case mb_Status r of
        LobbyMemberActive \<Rightarrow> mb_RevokedAt r = None \<and> mb_RevokedBy r = None
      | LobbyMemberRevoked \<Rightarrow> mb_RevokedBy r \<noteq> None \<and>
          nullable_le (Some (mb_CreatedAt r)) (mb_RevokedAt r) \<and>
          nullable_le (mb_RevokedAt r) (Some (mb_UpdatedAt r)))"

definition member_key :: "member_row \<Rightarrow> uuid \<times> uuid \<times> uuid" where
  "member_key r = (mb_TenantID r, mb_SpaceID r, mb_UserID r)"

definition members_ok :: "member_row list \<Rightarrow> bool" where
  "members_ok rows \<longleftrightarrow> list_all member_check rows \<and> unique_index (\<lambda>_. True) member_key rows"

text \<open>The dynamic co-hosts of a room (migration 000033).\<close>

datatype assignment_status = AssignmentActive | AssignmentRevoked

record assignment_row =
  ra_TenantID :: uuid
  ra_SpaceID :: uuid
  ra_RoomID :: uuid
  ra_UserID :: uuid
  ra_Role :: instance_role
  ra_Status :: assignment_status
  ra_Version :: int
  ra_AssignedBy :: uuid
  ra_AssignedAt :: instant
  ra_RevokedBy :: "uuid option"
  ra_RevokedAt :: "instant option"
  ra_ReasonCode :: "string option"
  ra_UpdatedAt :: instant

definition assignment_check :: "assignment_row \<Rightarrow> bool" where
  "assignment_check r \<longleftrightarrow> ra_Role r = InstanceRoleCoHost \<and> 0 < ra_Version r \<and>
     (case ra_ReasonCode r of None \<Rightarrow> True | Some c \<Rightarrow> mediaReasonCodePattern c) \<and>
     ra_AssignedAt r \<le> ra_UpdatedAt r \<and>
     (case ra_Status r of
        AssignmentActive \<Rightarrow> ra_RevokedBy r = None \<and> ra_RevokedAt r = None
      | AssignmentRevoked \<Rightarrow> ra_RevokedBy r \<noteq> None \<and>
          nullable_le (Some (ra_AssignedAt r)) (ra_RevokedAt r) \<and>
          nullable_le (ra_RevokedAt r) (Some (ra_UpdatedAt r)))"

definition assignment_key :: "assignment_row \<Rightarrow> uuid \<times> uuid \<times> uuid" where
  "assignment_key r = (ra_TenantID r, ra_RoomID r, ra_UserID r)"

definition assignments_ok :: "assignment_row list \<Rightarrow> bool" where
  "assignments_ok rows \<longleftrightarrow> list_all assignment_check rows \<and> unique_index (\<lambda>_. True) assignment_key rows"

record user_row =
  us_ID :: uuid
  us_Email :: string
  us_DisplayName :: string
  us_Status :: string

subsection \<open>Events, webhooks and the database\<close>

text \<open>An outbox event of the component, with the audit record written beside it.\<close>

record media_event =
  ev_Type :: string
  ev_TenantID :: uuid
  ev_AggregateID :: uuid
  ev_ActorID :: uuid
  ev_SpaceID :: "uuid option"
  ev_RoomID :: "uuid option"
  ev_TargetID :: "uuid option"
  ev_Status :: string
  ev_Version :: int
  ev_ReasonCode :: string
  ev_SafetyAction :: bool
  ev_OccurredAt :: instant

datatype disposition =
    WebhookApplied | IgnoredStale | IgnoredMismatch | IgnoredTerminal | IgnoredUnknownParticipant
  | IgnoredUnsupportedEvent

record webhook_receipt =
  wr_EventID :: string
  wr_TenantID :: uuid
  wr_SpaceID :: uuid
  wr_RoomID :: uuid
  wr_ParticipantID :: "uuid option"
  wr_EventType :: string
  wr_Disposition :: disposition
  wr_OccurredAt :: instant
  wr_ReceivedAt :: instant
  wr_RetentionUntil :: instant

text \<open>
  The database: the tables above, the controls, the class tables \<open>'c\<close>, and the windows of the
  rate limits on credentials and on moderation.
\<close>

record 'c media_db =
  md_controls :: control_db
  md_classes :: 'c
  md_spaces :: "space_row list"
  md_rooms :: "room_row list"
  md_participants :: "participant_row list"
  md_admissions :: "admission_row list"
  md_hands :: "hand_row list"
  md_receipts :: "receipt_row list"
  md_meetings :: "meeting_row list"
  md_members :: "member_row list"
  md_roles :: "assignment_row list"
  md_users :: "user_row list"
  md_webhooks :: "webhook_receipt list"
  md_credentials :: "(uuid \<times> uuid \<times> uuid) windows"
  md_moderations :: "(string \<times> uuid \<times> uuid \<times> uuid) windows"
  md_events :: "media_event list"

lemma participant_check_capacity:
  "participant_check r \<Longrightarrow> pa_CapacityReserved r \<longleftrightarrow> participant_active r"
  by (cases "pa_Status r")
    (auto simp: participant_check_def participant_lifecycle_consistent_def Let_def
      participant_open_consistent_def participant_active_def)

end
