(* ===== verification/Media_Authority.thy ===== *)
theory Media_Authority imports Media_Tables begin

section \<open>Authority over a media space (modules/media/postgres\_lifecycle\_repository.go)\<close>

text \<open>
  The parts of the lifecycle repository that decide who may do what: the locked scope of the
  actor, the authorization through the source of a space, the projection of a space for its
  viewer, and the loads they use.  They read the database and change nothing.  The row locks
  and advisory locks of the code serialise the transactions and have no other effect.
\<close>

record 'c lifecycle_repository =
  rp_Controls :: "catalog option"
  rp_ClassSources :: "'c class_sources"

definition lift_control :: "control_error + 'a \<Rightarrow> lifecycle_error + 'a" where
  "lift_control r = (case r of Inl e \<Rightarrow> Inl (LifecycleControl e) | Inr x \<Rightarrow> Inr x)"

lemma lift_control_Inr [simp]: "lift_control r = Inr x \<longleftrightarrow> r = Inr x"
  by (cases r) (simp_all add: lift_control_def)

definition require_feature ::
  "'c lifecycle_repository \<Rightarrow> 'c media_db \<Rightarrow> uuid \<Rightarrow> feature_key \<Rightarrow> lifecycle_error + unit" where
  "require_feature rp db tenantID key =
     lift_control (RequireFeature (rp_Controls rp) (md_controls db) tenantID key)"

subsection \<open>Scope and loads\<close>

definition requireActiveScope ::
  "'c media_db \<Rightarrow> access_context \<Rightarrow> lifecycle_error + access_context \<times> tenant_context" where
  "requireActiveScope db access =
     (if ac_TenantID access = uuid_Nil \<or> ac_ActorID access = uuid_Nil then Inl ErrSpaceAccessDenied
      else case cd_memberships (md_controls db) (ac_TenantID access, ac_ActorID access) of
        None \<Rightarrow> Inl ErrSpaceAccessDenied
      | Some (role, status) \<Rightarrow>
          if status \<noteq> ''active'' \<or> cd_tenants (md_controls db) (ac_TenantID access) \<noteq> Some ''active''
          then Inl ErrSpaceAccessDenied
          else Inr (access\<lparr>ac_MembershipActive := True, ac_OrganizationRoles := [role]\<rparr>,
            \<lparr>tc_TenantID = ac_TenantID access, tc_ActorID = ac_ActorID access\<rparr>))"

definition loadSpace :: "'c media_db \<Rightarrow> uuid \<Rightarrow> uuid \<Rightarrow> space_row option" where
  "loadSpace db tenantID spaceID =
     find (\<lambda>r. ms_TenantID r = tenantID \<and> ms_ID r = spaceID) (md_spaces db)"

definition loadSpaceByCreateKey :: "'c media_db \<Rightarrow> uuid \<Rightarrow> uuid \<Rightarrow> string \<Rightarrow> space_row option" where
  "loadSpaceByCreateKey db tenantID actorID key =
     find (\<lambda>r. ms_TenantID r = tenantID \<and> ms_CreatedBy r = actorID \<and> ms_CreateKey r = key) (md_spaces db)"

text \<open>A nil source column would make the code dereference a nil pointer; no caller has one.\<close>

definition findSpaceBySource ::
  "'c media_db \<Rightarrow> uuid \<Rightarrow> source_reference \<Rightarrow> lifecycle_error + space_row option" where
  "findSpaceBySource db tenantID s = (case sr_Kind s of
      SourceClassSession \<Rightarrow> Inr (find (\<lambda>r. ms_TenantID r = tenantID \<and>
        sr_Kind (ms_Source r) = SourceClassSession \<and>
        sr_ClassSessionID (ms_Source r) = sr_ClassSessionID s) (md_spaces db))
    | SourceClassSessionOccurrence \<Rightarrow> Inr (find (\<lambda>r. ms_TenantID r = tenantID \<and>
        sr_Kind (ms_Source r) = SourceClassSessionOccurrence \<and>
        sr_SeriesID (ms_Source r) = sr_SeriesID s \<and>
        sr_OccurrenceKey (ms_Source r) = sr_OccurrenceKey s) (md_spaces db))
    | SourceStudyMeeting \<Rightarrow> Inr (find (\<lambda>r. ms_TenantID r = tenantID \<and>
        sr_Kind (ms_Source r) = SourceStudyMeeting \<and>
        sr_StudyMeetingID (ms_Source r) = sr_StudyMeetingID s) (md_spaces db))
    | _ \<Rightarrow> Inl ErrInvalidSpaceRequest)"

definition loadStudyMeeting :: "'c media_db \<Rightarrow> uuid \<Rightarrow> uuid \<Rightarrow> meeting_row option" where
  "loadStudyMeeting db tenantID meetingID =
     find (\<lambda>r. mt_TenantID r = tenantID \<and> mt_ID r = meetingID) (md_meetings db)"

text \<open>\<open>ORDER BY attempt_number DESC LIMIT 1\<close>.\<close>

fun latest_attempt :: "room_row list \<Rightarrow> room_row option" where
  "latest_attempt [] = None"
| "latest_attempt (r # rs) = (case latest_attempt rs of
      None \<Rightarrow> Some r
    | Some s \<Rightarrow> Some (if rm_AttemptNumber s \<le> rm_AttemptNumber r then r else s))"

definition rooms_of :: "'c media_db \<Rightarrow> uuid \<Rightarrow> uuid \<Rightarrow> room_row list" where
  "rooms_of db tenantID spaceID =
     filter (\<lambda>r. rm_TenantID r = tenantID \<and> rm_SpaceID r = spaceID) (md_rooms db)"

definition loadActiveRoom :: "'c media_db \<Rightarrow> uuid \<Rightarrow> uuid \<Rightarrow> room_row option" where
  "loadActiveRoom db tenantID spaceID = find room_live (rooms_of db tenantID spaceID)"

definition loadRoomForTermination :: "'c media_db \<Rightarrow> uuid \<Rightarrow> uuid \<Rightarrow> room_row option" where
  "loadRoomForTermination db tenantID spaceID =
     latest_attempt (filter (\<lambda>r. room_live r \<or> rm_Status r = RoomInstanceFailed)
       (rooms_of db tenantID spaceID))"

definition loadLatestRoom :: "'c media_db \<Rightarrow> uuid \<Rightarrow> uuid \<Rightarrow> room_row option" where
  "loadLatestRoom db tenantID spaceID = latest_attempt (rooms_of db tenantID spaceID)"

subsection \<open>Authorization through the source\<close>

record authorized_source =
  as_Kind :: source_kind
  as_ClassSessionID :: uuid
  as_Status :: string
  as_Owner :: bool
  as_SafetyAdmin :: bool
  as_CanJoin :: bool
  as_InstanceRole :: instance_role
  as_CanPublishCameraMicrophone :: bool
  as_CanShareScreen :: bool

fun session_status_string :: "session_status \<Rightarrow> string" where
  "session_status_string SessionStatusScheduled = ''scheduled''"
| "session_status_string SessionStatusCancelled = ''cancelled''"
| "session_status_string SessionStatusLive = ''live''"
| "session_status_string SessionStatusEnded = ''ended''"

fun mapClassSourceError :: "class_error \<Rightarrow> bool \<Rightarrow> lifecycle_error" where
  "mapClassSourceError ErrSessionNotFound _ = ErrSourceUnavailable"
| "mapClassSourceError ErrSeriesNotFound _ = ErrSourceUnavailable"
| "mapClassSourceError ErrClassNotFound _ = ErrSourceUnavailable"
| "mapClassSourceError ErrClassAccessDenied conceal =
     (if conceal then ErrSpaceNotFound else ErrSpaceAccessDenied)"
| "mapClassSourceError ErrSessionAccessDenied conceal =
     (if conceal then ErrSpaceNotFound else ErrSpaceAccessDenied)"
| "mapClassSourceError ErrInvalidClassTransition _ = ErrSourceUnavailable"
| "mapClassSourceError ErrInvalidSessionTransition _ = ErrSourceUnavailable"
| "mapClassSourceError ErrClassOther _ = LifecycleOther"

definition try_class :: "class_error + 'a \<Rightarrow> bool \<Rightarrow> ('a \<Rightarrow> lifecycle_error + 'b) \<Rightarrow> lifecycle_error + 'b" where
  "try_class r conceal k = (case r of Inl e \<Rightarrow> Inl (mapClassSourceError e conceal) | Inr x \<Rightarrow> k x)"

lemma try_class_Inr [simp]: "try_class r b k = Inr y \<longleftrightarrow> (\<exists>x. r = Inr x \<and> k x = Inr y)"
  by (cases r) (simp_all add: try_class_def)

lemma try_class_simps [simp]:
  "try_class (Inr x) b k = k x" "try_class (Inl e) b k = Inl (mapClassSourceError e b)"
  by (simp_all add: try_class_def)

definition hasOrganizationRole :: "organization_role list \<Rightarrow> organization_role \<Rightarrow> bool" where
  "hasOrganizationRole roles expected \<longleftrightarrow> expected \<in> set roles"

definition instanceRoleForClass :: "class_role option \<Rightarrow> organization_role list \<Rightarrow> instance_role" where
  "instanceRoleForClass classRole roles =
     (let byOrganization = (if hasOrganizationRole roles OrganizationRoleTeacher
            then InstanceRoleCoHost else InstanceRoleAttendee) in
      case classRole of
        Some ClassRoleOwner \<Rightarrow> InstanceRoleHost
      | Some ClassRoleCoTeacher \<Rightarrow> InstanceRoleCoHost
      | Some ClassRoleTeachingAssistant \<Rightarrow> InstanceRoleTeachingAssistant
      | _ \<Rightarrow> byOrganization)"

definition classSafetyAdmin :: "class_role option \<Rightarrow> organization_role list \<Rightarrow> bool" where
  "classSafetyAdmin classRole roles =
     (if \<not> hasOrganizationRole roles OrganizationRoleAdmin \<or>
         hasOrganizationRole roles OrganizationRoleTeacher then False
      else case classRole of
        None \<Rightarrow> True
      | Some r \<Rightarrow> r \<noteq> ClassRoleOwner \<and> r \<noteq> ClassRoleCoTeacher)"

definition media_reference :: "space_row \<Rightarrow> media_source_reference" where
  "media_reference row = (let s = ms_Source row in
     \<lparr>mr_Kind = sr_Kind s,
      mr_ClassSessionID = (case sr_ClassSessionID s of None \<Rightarrow> uuid_Nil | Some i \<Rightarrow> i),
      mr_SeriesID = (case sr_SeriesID s of None \<Rightarrow> uuid_Nil | Some i \<Rightarrow> i),
      mr_OccurrenceKey = sr_OccurrenceKey s\<rparr>)"

definition authorizeClassSource ::
  "'c lifecycle_repository \<Rightarrow> 'c media_db \<Rightarrow> access_context \<Rightarrow> tenant_context \<Rightarrow> space_row \<Rightarrow>
   permission \<Rightarrow> bool \<Rightarrow> lifecycle_error + authorized_source" where
  "authorizeClassSource rp db access scope row action mutating =
     (let resolve = src_ResolveMediaSource (rp_ClassSources rp) (md_controls db) (md_classes db) scope
            (media_reference row);
          visible = (if mutating \<and> action \<noteq> PermissionClassView
            then try_class (resolve PermissionClassView) True (\<lambda>_. Inr ()) else Inr ())
      in try_res visible (\<lambda>_.
         try_class (resolve action) (\<not> mutating) (\<lambda>snapshot.
           Inr \<lparr>as_Kind = sr_Kind (ms_Source row), as_ClassSessionID = mn_ClassSessionID snapshot,
             as_Status = session_status_string (mn_Status snapshot), as_Owner = False,
             as_SafetyAdmin = classSafetyAdmin (mn_ClassRole snapshot) (ac_OrganizationRoles access),
             as_CanJoin = True,
             as_InstanceRole = instanceRoleForClass (mn_ClassRole snapshot) (ac_OrganizationRoles access),
             as_CanPublishCameraMicrophone = mn_CanPublishMedia snapshot,
             as_CanShareScreen = mn_CanShareScreen snapshot\<rparr>)))"

text \<open>\<open>EXISTS (SELECT 1 FROM media_space_members ... AND status = 'active')\<close>.\<close>

definition active_member :: "'c media_db \<Rightarrow> uuid \<Rightarrow> uuid \<Rightarrow> uuid \<Rightarrow> bool" where
  "active_member db tenantID spaceID userID \<longleftrightarrow>
     list_ex (\<lambda>r. mb_TenantID r = tenantID \<and> mb_SpaceID r = spaceID \<and> mb_UserID r = userID \<and>
       mb_Status r = LobbyMemberActive) (md_members db)"

definition authorizeMeetingSource ::
  "'c lifecycle_repository \<Rightarrow> 'c media_db \<Rightarrow> access_context \<Rightarrow> tenant_context \<Rightarrow> space_row \<Rightarrow>
   permission \<Rightarrow> bool \<Rightarrow> bool \<Rightarrow> meeting_row \<Rightarrow> lifecycle_error + authorized_source" where
  "authorizeMeetingSource rp db access scope row action mutating allowSafetyEnd meeting =
     (let owner = (mt_OwnerUserID meeting = tc_ActorID scope);
          safetyAdmin = hasOrganizationRole (ac_OrganizationRoles access) OrganizationRoleAdmin;
          explicitMember = (\<not> owner \<and> active_member db (tc_TenantID scope) (ms_ID row) (tc_ActorID scope));
          classAction = (if action = PermissionSessionStart \<or> action = PermissionSessionJoin
            then action else PermissionClassView);
          result = Inr \<lparr>as_Kind = SourceStudyMeeting, as_ClassSessionID = uuid_Nil,
            as_Status = mt_Status meeting, as_Owner = owner,
            as_SafetyAdmin = (safetyAdmin \<and> \<not> owner), as_CanJoin = (owner \<or> explicitMember),
            as_InstanceRole = (if owner then InstanceRoleHost else InstanceRoleAttendee),
            as_CanPublishCameraMicrophone = True, as_CanShareScreen = owner\<rparr>
      in if \<not> (owner \<or> safetyAdmin \<or> explicitMember) then Inl ErrSpaceNotFound
         else if mutating \<and> \<not> owner \<and> \<not> (allowSafetyEnd \<and> safetyAdmin) then Inl ErrSpaceAccessDenied
         else case mt_ClassID meeting of
           None \<Rightarrow> result
         | Some classID \<Rightarrow>
             try_class (src_AuthorizeMediaClass (rp_ClassSources rp) (md_controls db) (md_classes db)
                 scope classID classAction) (\<not> mutating) (\<lambda>_. result))"

definition authorizeSource ::
  "'c lifecycle_repository \<Rightarrow> 'c media_db \<Rightarrow> access_context \<Rightarrow> tenant_context \<Rightarrow> space_row \<Rightarrow>
   permission \<Rightarrow> bool \<Rightarrow> bool \<Rightarrow> lifecycle_error + authorized_source" where
  "authorizeSource rp db access scope row action mutating allowSafetyEnd =
     (if sr_Kind (ms_Source row) \<in> {SourceClassSession, SourceClassSessionOccurrence}
        then authorizeClassSource rp db access scope row action mutating
      else if sr_Kind (ms_Source row) = SourceStudyMeeting then
        (case sr_StudyMeetingID (ms_Source row) of
           None \<Rightarrow> Inl LifecycleOther
         | Some meetingID \<Rightarrow>
             (case loadStudyMeeting db (tc_TenantID scope) meetingID of
                None \<Rightarrow> Inl ErrSourceUnavailable
              | Some meeting \<Rightarrow>
                  authorizeMeetingSource rp db access scope row action mutating allowSafetyEnd meeting))
      else Inl ErrSourceUnavailable)"

text \<open>Which source statuses a recovery accepts.\<close>

definition recoverySourceStatusAllowed :: "authorized_source \<Rightarrow> bool" where
  "recoverySourceStatusAllowed s = (case as_Kind s of
      SourceClassSession \<Rightarrow> as_Status s = ''live''
    | SourceClassSessionOccurrence \<Rightarrow> as_Status s = ''scheduled'' \<or> as_Status s = ''live''
    | SourceStudyMeeting \<Rightarrow> as_Status s = ''scheduled'' \<or> as_Status s = ''live''
    | _ \<Rightarrow> False)"

definition authorizeTransition ::
  "'c lifecycle_repository \<Rightarrow> 'c media_db \<Rightarrow> access_context \<Rightarrow> tenant_context \<Rightarrow> space_row \<Rightarrow>
   string \<Rightarrow> lifecycle_error + unit" where
  "authorizeTransition rp db access scope row operation =
     (if operation = ''start'' \<or> operation = ''recover'' then
        try_res (authorizeSource rp db access scope row PermissionSessionStart True False) (\<lambda>_. Inr ())
      else if operation = ''end'' then
        try_res (authorizeSource rp db access scope row PermissionSessionEnd True True) (\<lambda>_. Inr ())
      else if operation = ''cancel'' then
        try_res (authorizeSource rp db access scope row PermissionSessionEnd True False) (\<lambda>_. Inr ())
      else Inl ErrInvalidSpaceRequest)"

definition authorizeInstant :: "access_context \<Rightarrow> lifecycle_error + unit" where
  "authorizeInstant access =
     (if \<not> Allowed (Authorize (Some Engine)
           \<lparr>in_Subject = \<lparr>ActorID = ac_ActorID access, ActiveTenantID = ac_TenantID access,
              MembershipActive = True, OrganizationRoles = ac_OrganizationRoles access,
              ClassRoles = []\<rparr>,
            in_Action = ActionOf PermissionRoomCreateInstant,
            in_Resource = \<lparr>res_TenantID = ac_TenantID access, res_ClassID = uuid_Nil,
              res_State = ResourceStateActive\<rparr>\<rparr>)
      then Inl ErrSpaceAccessDenied else Inr ())"

subsection \<open>The space as its viewer sees it\<close>

record viewer_operations =
  vo_CanStart :: bool
  vo_CanRecover :: bool
  vo_CanEnd :: bool
  vo_CanCancel :: bool
  vo_CanManageAdmissions :: bool
  vo_CanManageInvites :: bool

record room_instance =
  rn_ID :: uuid
  rn_Status :: room_status
  rn_Version :: int
  rn_CreatedAt :: instant
  rn_UpdatedAt :: instant
  rn_ProviderRoomName :: string
  rn_ProviderRoomSID :: string

record media_space =
  sp_ID :: uuid
  sp_Source :: source_reference
  sp_Status :: space_status
  sp_Version :: int
  sp_ActiveRoomInstance :: "room_instance option"
  sp_RecoveryRoomInstance :: "room_instance option"
  sp_ViewerOperations :: viewer_operations
  sp_ViewerRole :: instance_role
  sp_CreatedAt :: instant
  sp_UpdatedAt :: instant

definition room_project :: "room_row \<Rightarrow> room_instance" where
  "room_project r = \<lparr>rn_ID = rm_ID r, rn_Status = rm_Status r, rn_Version = rm_Version r,
     rn_CreatedAt = rm_CreatedAt r, rn_UpdatedAt = rm_UpdatedAt r,
     rn_ProviderRoomName = rm_ProviderRoomName r,
     rn_ProviderRoomSID = (case rm_ProviderRoomSID r of None \<Rightarrow> [] | Some s \<Rightarrow> s)\<rparr>"

definition viewer_operations_of ::
  "'c lifecycle_repository \<Rightarrow> 'c media_db \<Rightarrow> access_context \<Rightarrow> tenant_context \<Rightarrow> space_row \<Rightarrow>
   authorized_source \<Rightarrow> viewer_operations" where
  "viewer_operations_of rp db access scope row viewer =
     (let featureEnabled = is_ok (require_feature rp db (tc_TenantID scope) FeatureClassroomMediaRooms);
          allowed = (\<lambda>action safety. is_ok (authorizeSource rp db access scope row action True safety));
          scheduled = (ms_Status row = SpaceStatusScheduled);
          isOpen = (ms_Status row = SpaceStatusOpen);
          recovery = (case loadLatestRoom db (tc_TenantID scope) (ms_ID row) of
            None \<Rightarrow> False | Some r \<Rightarrow> rm_Status r = RoomInstanceFailed) in
      \<lparr>vo_CanStart = (scheduled \<and> featureEnabled \<and> allowed PermissionSessionStart False),
       vo_CanRecover = (loadActiveRoom db (tc_TenantID scope) (ms_ID row) = None \<and> recovery \<and>
         isOpen \<and> \<not> ms_Locked row \<and> featureEnabled \<and>
         (case authorizeSource rp db access scope row PermissionSessionStart True False of
            Inl _ \<Rightarrow> False | Inr source \<Rightarrow> recoverySourceStatusAllowed source)),
       vo_CanEnd = (isOpen \<and> allowed PermissionSessionEnd True),
       vo_CanCancel = (scheduled \<and> allowed PermissionSessionEnd False),
       vo_CanManageAdmissions = (isOpen \<and> featureEnabled \<and> allowed PermissionParticipantAdmit False),
       vo_CanManageInvites = (featureEnabled \<and> (scheduled \<or> isOpen) \<and>
         sr_Kind (ms_Source row) = SourceStudyMeeting \<and> as_Owner viewer)\<rparr>)"

definition projectAuthorizedSpace ::
  "'c lifecycle_repository \<Rightarrow> 'c media_db \<Rightarrow> access_context \<Rightarrow> tenant_context \<Rightarrow> space_row \<Rightarrow>
   lifecycle_error + media_space" where
  "projectAuthorizedSpace rp db access scope row =
     (case authorizeSource rp db access scope row PermissionClassView False False of
        Inl e \<Rightarrow> Inl (if e = ErrSpaceAccessDenied then ErrSpaceNotFound else e)
      | Inr viewer \<Rightarrow>
          let active = loadActiveRoom db (tc_TenantID scope) (ms_ID row);
              latest = loadLatestRoom db (tc_TenantID scope) (ms_ID row) in
          Inr \<lparr>sp_ID = ms_ID row, sp_Source = ms_Source row, sp_Status = ms_Status row,
            sp_Version = ms_Version row, sp_ActiveRoomInstance = map_option room_project active,
            sp_RecoveryRoomInstance = (case (active, latest) of
               (None, Some r) \<Rightarrow> if rm_Status r = RoomInstanceFailed then Some (room_project r) else None
             | _ \<Rightarrow> None),
            sp_ViewerOperations = viewer_operations_of rp db access scope row viewer,
            sp_ViewerRole = as_InstanceRole viewer,
            sp_CreatedAt = ms_CreatedAt row, sp_UpdatedAt = ms_UpdatedAt row\<rparr>)"

end
