(* ===== verification/Media_Lifecycle.thy ===== *)
theory Media_Lifecycle imports Media_Authority begin

section \<open>Lifecycle of a media space (modules/media/postgres\_lifecycle\_repository.go)\<close>

text \<open>
  The transactions of the lifecycle repository that create, read and resolve a space, and the
  statements its transitions share.  An operation maps the
  database to an error, where the transaction is rolled back, or to its result and the new
  database.  A statement that breaks a constraint is an error; a lost connection, which is an
  error at any statement without an effect, is left out.
\<close>

subsection \<open>Statements\<close>

definition as_unavailable :: "lifecycle_error + 'a \<Rightarrow> lifecycle_error + 'a" where
  "as_unavailable r = (case r of Inl _ \<Rightarrow> Inl ErrLifecycleUnavailable | Inr x \<Rightarrow> Inr x)"

lemma as_unavailable_Inr [simp]: "as_unavailable r = Inr x \<longleftrightarrow> r = Inr x"
  by (cases r) (simp_all add: as_unavailable_def)

definition insert_space :: "space_row \<Rightarrow> 'c media_db \<Rightarrow> lifecycle_error + 'c media_db" where
  "insert_space row db =
     try_res (constrained spaces_ok ErrLifecycleUnavailable (md_spaces db @ [row])) (\<lambda>rows.
       Inr (db\<lparr>md_spaces := rows\<rparr>))"

definition insert_room :: "room_row \<Rightarrow> 'c media_db \<Rightarrow> lifecycle_error + 'c media_db" where
  "insert_room row db =
     try_res (constrained rooms_ok ErrLifecycleUnavailable (md_rooms db @ [row])) (\<lambda>rows.
       Inr (db\<lparr>md_rooms := rows\<rparr>))"

text \<open>\<open>UPDATE ... RETURNING\<close> on one space; no row is a version conflict for every caller.\<close>

definition update_space ::
  "(space_row \<Rightarrow> bool) \<Rightarrow> (space_row \<Rightarrow> space_row) \<Rightarrow> 'c media_db \<Rightarrow>
   lifecycle_error + space_row \<times> 'c media_db" where
  "update_space P f db = (case find P (md_spaces db) of
      None \<Rightarrow> Inl ErrSpaceVersionConflict
    | Some r \<Rightarrow>
        try_res (constrained spaces_ok ErrLifecycleUnavailable (update_where P f (md_spaces db)))
          (\<lambda>rows. Inr (f r, db\<lparr>md_spaces := rows\<rparr>)))"

text \<open>An UPDATE of rooms that must affect exactly one row; \<open>e\<close> is the error of the statement.\<close>

definition update_room ::
  "lifecycle_error \<Rightarrow> (room_row \<Rightarrow> bool) \<Rightarrow> (room_row \<Rightarrow> room_row) \<Rightarrow> 'c media_db \<Rightarrow>
   lifecycle_error + 'c media_db" where
  "update_room e P f db =
     try_res (constrained rooms_ok e (update_where P f (md_rooms db))) (\<lambda>rows.
       if count_where P (md_rooms db) \<noteq> 1 then Inl ErrSpaceTransition
       else Inr (db\<lparr>md_rooms := rows\<rparr>))"

definition append_event :: "media_event \<Rightarrow> 'c media_db \<Rightarrow> 'c media_db" where
  "append_event ev db = db\<lparr>md_events := md_events db @ [ev]\<rparr>"

fun space_status_string :: "space_status \<Rightarrow> string" where
  "space_status_string SpaceStatusScheduled = ''scheduled''"
| "space_status_string SpaceStatusOpen = ''open''"
| "space_status_string SpaceStatusEnded = ''ended''"
| "space_status_string SpaceStatusCancelled = ''cancelled''"

definition appendMediaSpaceEvent ::
  "tenant_context \<Rightarrow> space_row \<Rightarrow> string \<Rightarrow> string \<Rightarrow> bool \<Rightarrow> instant \<Rightarrow> 'c media_db \<Rightarrow> 'c media_db" where
  "appendMediaSpaceEvent scope space eventType reasonCode safetyAction now =
     append_event \<lparr>ev_Type = eventType, ev_TenantID = tc_TenantID scope, ev_AggregateID = ms_ID space,
       ev_ActorID = tc_ActorID scope, ev_SpaceID = Some (ms_ID space), ev_RoomID = None,
       ev_TargetID = None, ev_Status = space_status_string (ms_Status space),
       ev_Version = ms_Version space, ev_ReasonCode = reasonCode, ev_SafetyAction = safetyAction,
       ev_OccurredAt = now\<rparr>"

subsection \<open>Capacity and rates\<close>

definition active_space_of :: "uuid \<Rightarrow> space_row \<Rightarrow> bool" where
  "active_space_of tenantID r \<longleftrightarrow>
     ms_TenantID r = tenantID \<and> ms_Status r \<in> {SpaceStatusScheduled, SpaceStatusOpen}"

definition requireActiveSpaceCapacity ::
  "'c lifecycle_repository \<Rightarrow> 'c media_db \<Rightarrow> uuid \<Rightarrow> int \<Rightarrow> lifecycle_error + unit" where
  "requireActiveSpaceCapacity rp db tenantID additional =
     lift_control (RequireQuotaAtMost (rp_Controls rp) (md_controls db) tenantID QuotaActiveMediaSpaces
       (count_where (active_space_of tenantID) (md_spaces db) + additional))"

definition requireStudyMeetingCapacity ::
  "'c lifecycle_repository \<Rightarrow> 'c media_db \<Rightarrow> uuid \<Rightarrow> instant \<Rightarrow> lifecycle_error + unit" where
  "requireStudyMeetingCapacity rp db tenantID now =
     lift_control (RequireQuotaAtMost (rp_Controls rp) (md_controls db) tenantID QuotaActiveStudyMeetings
       (count_where (\<lambda>r. mt_TenantID r = tenantID \<and> mt_Status r = ''scheduled'' \<and> mt_EndsAt r > now)
          (md_meetings db) + 1))"

definition consume_rate ::
  "'c lifecycle_repository \<Rightarrow> uuid \<Rightarrow> quota_key \<Rightarrow> instant \<Rightarrow> 'c media_db \<Rightarrow>
   lifecycle_error + 'c media_db" where
  "consume_rate rp tenantID key now db =
     try_res (lift_control (ConsumeRateQuota (rp_Controls rp) (md_controls db) tenantID key now))
       (\<lambda>(_, controls). Inr (db\<lparr>md_controls := controls\<rparr>))"

subsection \<open>Creating a space\<close>

definition insertInstantStudyMeeting ::
  "tenant_context \<Rightarrow> create_command \<Rightarrow> 'c media_db \<Rightarrow> lifecycle_error + 'c media_db" where
  "insertInstantStudyMeeting scope command db =
     (let i = cs_Instant (cc_Source command);
          endsAt = cc_CreatedAt command + wrap64 (ii_DurationMinutes i * time_Minute);
          row = \<lparr>mt_ID = cc_InstantMeetingID command, mt_TenantID = tc_TenantID scope,
            mt_OwnerUserID = tc_ActorID scope, mt_ClassID = None, mt_Title = ii_Title i,
            mt_StartsAt = cc_CreatedAt command, mt_EndsAt = endsAt, mt_Timezone = ii_Timezone i,
            mt_Status = ''scheduled'', mt_CreateKey = cc_IdempotencyKey command,
            mt_CreateFingerprint = cc_Fingerprint command\<rparr>
      in try_res (constrained meetings_ok ErrLifecycleUnavailable (md_meetings db @ [row])) (\<lambda>rows.
           Inr (append_event \<lparr>ev_Type = ''study_meeting.scheduled.v1'', ev_TenantID = tc_TenantID scope,
             ev_AggregateID = cc_InstantMeetingID command, ev_ActorID = tc_ActorID scope,
             ev_SpaceID = None, ev_RoomID = None, ev_TargetID = None, ev_Status = ''scheduled'', ev_Version = 1, ev_ReasonCode = [], ev_SafetyAction = False,
             ev_OccurredAt = cc_CreatedAt command\<rparr> (db\<lparr>md_meetings := rows\<rparr>))))"

definition resolveCreateSource ::
  "'c lifecycle_repository \<Rightarrow> 'c media_db \<Rightarrow> tenant_context \<Rightarrow> create_source \<Rightarrow>
   lifecycle_error + source_reference \<times> uuid" where
  "resolveCreateSource rp db scope input =
     (let reference = \<lparr>mr_Kind = cs_Kind input, mr_ClassSessionID = cs_ClassSessionID input,
            mr_SeriesID = cs_SeriesID input, mr_OccurrenceKey = cs_OccurrenceKey input\<rparr>;
          blank = \<lparr>sr_Kind = cs_Kind input, sr_ClassSessionID = None, sr_SeriesID = None,
            sr_OccurrenceKey = [], sr_StudyMeetingID = None\<rparr> in
      case cs_Kind input of
        SourceStudyMeeting \<Rightarrow>
          (case loadStudyMeeting db (tc_TenantID scope) (cs_StudyMeetingID input) of
             None \<Rightarrow> Inl ErrSourceUnavailable
           | Some meeting \<Rightarrow>
               if mt_OwnerUserID meeting \<noteq> tc_ActorID scope then Inl ErrSpaceAccessDenied
               else if mt_Status meeting \<noteq> ''scheduled'' then Inl ErrSourceUnavailable
               else
                 let ok = Inr (blank\<lparr>sr_StudyMeetingID := Some (cs_StudyMeetingID input)\<rparr>, uuid_Nil) in
                 (case mt_ClassID meeting of
                    None \<Rightarrow> ok
                  | Some classID \<Rightarrow>
                      try_class (src_AuthorizeMediaClass (rp_ClassSources rp) (md_controls db)
                          (md_classes db) scope classID PermissionSessionStart) False (\<lambda>status.
                        if status \<noteq> ResourceStateActive then Inl ErrSourceUnavailable else ok)))
      | SourceInstant \<Rightarrow> Inl ErrInvalidSpaceRequest
      | SourceKindOther _ \<Rightarrow> Inl ErrInvalidSpaceRequest
      | _ \<Rightarrow>
          try_class (src_ResolveMediaSource (rp_ClassSources rp) (md_controls db) (md_classes db) scope
              reference PermissionSessionStart) False (\<lambda>snapshot.
            if mn_Status snapshot \<noteq> SessionStatusScheduled then Inl ErrSourceUnavailable
            else Inr
              (if cs_Kind input = SourceClassSession
               then blank\<lparr>sr_ClassSessionID := Some (cs_ClassSessionID input)\<rparr>
               else blank\<lparr>sr_SeriesID := Some (cs_SeriesID input),
                      sr_OccurrenceKey := cs_OccurrenceKey input\<rparr>, mn_ClassID snapshot)))"

definition nullableLifecycleUUID :: "uuid \<Rightarrow> uuid option" where
  "nullableLifecycleUUID i = (if i = uuid_Nil then None else Some i)"

definition nullableLifecycleUUIDPointer :: "uuid option \<Rightarrow> uuid option" where
  "nullableLifecycleUUIDPointer p = (case p of None \<Rightarrow> None | Some i \<Rightarrow> nullableLifecycleUUID i)"

definition new_space_row :: "tenant_context \<Rightarrow> create_command \<Rightarrow> source_reference \<Rightarrow> uuid \<Rightarrow> space_row" where
  "new_space_row scope command source classID =
     \<lparr>ms_ID = cc_SpaceID command, ms_TenantID = tc_TenantID scope,
      ms_Source = source\<lparr>sr_ClassSessionID := nullableLifecycleUUIDPointer (sr_ClassSessionID source),
        sr_SeriesID := nullableLifecycleUUIDPointer (sr_SeriesID source),
        sr_StudyMeetingID := nullableLifecycleUUIDPointer (sr_StudyMeetingID source)\<rparr>,
      ms_ClassID = nullableLifecycleUUID classID, ms_Status = SpaceStatusScheduled, ms_Version = 1,
      ms_LobbyEnabled = True, ms_Locked = False, ms_CreateKey = cc_IdempotencyKey command,
      ms_CreateFingerprint = cc_Fingerprint command, ms_CreatedBy = tc_ActorID scope,
      ms_UpdatedBy = tc_ActorID scope, ms_OpenedAt = None, ms_OpenedBy = None, ms_EndedAt = None,
      ms_EndedBy = None, ms_CancelledAt = None, ms_CancelledBy = None,
      ms_CreatedAt = cc_CreatedAt command, ms_UpdatedAt = cc_CreatedAt command\<rparr>"

definition loadCreateReplay ::
  "'c lifecycle_repository \<Rightarrow> 'c media_db \<Rightarrow> access_context \<Rightarrow> tenant_context \<Rightarrow> create_command \<Rightarrow>
   lifecycle_error + media_space option" where
  "loadCreateReplay rp db access scope command =
     (case loadSpaceByCreateKey db (ac_TenantID access) (ac_ActorID access) (cc_IdempotencyKey command) of
        None \<Rightarrow> Inr None
      | Some row \<Rightarrow>
          if ms_CreateFingerprint row \<noteq> cc_Fingerprint command then Inl ErrSpaceIdempotency
          else try_res (projectAuthorizedSpace rp db access scope row) (\<lambda>space. Inr (Some space)))"

text \<open>The end of \<open>CreateSpace\<close>, once the source of the new space is known.\<close>

definition create_row ::
  "'c lifecycle_repository \<Rightarrow> access_context \<Rightarrow> tenant_context \<Rightarrow> create_command \<Rightarrow>
   source_reference \<Rightarrow> uuid \<Rightarrow> 'c media_db \<Rightarrow> lifecycle_error + (media_space \<times> bool) \<times> 'c media_db" where
  "create_row rp access scope command source classID db =
     try_res (requireActiveSpaceCapacity rp db (tc_TenantID scope) 1) (\<lambda>_.
     let created = new_space_row scope command source classID in
     try_res (insert_space created db) (\<lambda>db1.
     let db2 = appendMediaSpaceEvent scope created ''media_space.created.v1'' [] False
           (cc_CreatedAt command) db1 in
     try_res (projectAuthorizedSpace rp db2 access scope created) (\<lambda>projected.
       Inr ((projected, True), db2))))"

text \<open>The result is the space, whether it was created, and the database.\<close>

definition CreateSpace ::
  "'c lifecycle_repository \<Rightarrow> access_context \<Rightarrow> create_command \<Rightarrow> 'c media_db \<Rightarrow>
   lifecycle_error + (media_space \<times> bool) \<times> 'c media_db" where
  "CreateSpace rp access0 command db =
     try_res (requireActiveScope db access0) (\<lambda>(access, scope).
     try_res (loadCreateReplay rp db access scope command) (\<lambda>replay.
     case replay of
       Some space \<Rightarrow> Inr ((space, False), db)
     | None \<Rightarrow>
         try_res (require_feature rp db (tc_TenantID scope) FeatureClassroomMediaRooms) (\<lambda>_.
         if cs_Kind (cc_Source command) = SourceInstant then
           try_res (require_feature rp db (tc_TenantID scope) FeatureInstantStudyRooms) (\<lambda>_.
           try_res (authorizeInstant access) (\<lambda>_.
           try_res (requireStudyMeetingCapacity rp db (tc_TenantID scope) (cc_CreatedAt command)) (\<lambda>_.
           try_res (consume_rate rp (tc_TenantID scope) QuotaStudyMeetingCreationsPerHour
               (cc_CreatedAt command) db) (\<lambda>db1.
           try_res (insertInstantStudyMeeting scope command db1) (\<lambda>db2.
             create_row rp access scope command
               \<lparr>sr_Kind = SourceStudyMeeting, sr_ClassSessionID = None, sr_SeriesID = None,
                sr_OccurrenceKey = [], sr_StudyMeetingID = Some (cc_InstantMeetingID command)\<rparr>
               uuid_Nil db2)))))
         else
           try_res (resolveCreateSource rp db scope (cc_Source command)) (\<lambda>(source, classID).
           try_res (as_unavailable (findSpaceBySource db (tc_TenantID scope) source)) (\<lambda>existing.
             case existing of
               Some row \<Rightarrow>
                 try_res (projectAuthorizedSpace rp db access scope row) (\<lambda>projected.
                   Inr ((projected, False), db))
             | None \<Rightarrow> create_row rp access scope command source classID db)))))"

definition GetSpace ::
  "'c lifecycle_repository \<Rightarrow> access_context \<Rightarrow> uuid \<Rightarrow> 'c media_db \<Rightarrow> lifecycle_error + media_space" where
  "GetSpace rp access0 spaceID db =
     try_res (requireActiveScope db access0) (\<lambda>(access, scope).
     case loadSpace db (tc_TenantID scope) spaceID of
       None \<Rightarrow> Inl ErrSpaceNotFound
     | Some row \<Rightarrow> projectAuthorizedSpace rp db access scope row)"

definition ResolveSpace ::
  "'c lifecycle_repository \<Rightarrow> access_context \<Rightarrow> source_reference \<Rightarrow> 'c media_db \<Rightarrow>
   lifecycle_error + media_space" where
  "ResolveSpace rp access0 source db =
     try_res (requireActiveScope db access0) (\<lambda>(access, scope).
     try_res (as_unavailable (findSpaceBySource db (tc_TenantID scope) source)) (\<lambda>found.
     case found of
       None \<Rightarrow> Inl ErrSpaceNotFound
     | Some row \<Rightarrow>
         try_res (projectAuthorizedSpace rp db access scope row) (\<lambda>space.
         try_res (require_feature rp db (tc_TenantID scope) FeatureClassroomMediaRooms) (\<lambda>_.
           Inr space))))"

subsection \<open>Ending the use of a room\<close>

definition terminateRoomIntent ::
  "tenant_context \<Rightarrow> room_row \<Rightarrow> instant \<Rightarrow> 'c media_db \<Rightarrow> lifecycle_error + 'c media_db" where
  "terminateRoomIntent scope room now db =
     (if rm_Status room = RoomInstanceFailed then Inr db
      else if rm_Status room = RoomInstanceProvisioning then
        update_room LifecycleOther
          (\<lambda>r. rm_TenantID r = tc_TenantID scope \<and> rm_ID r = rm_ID room \<and>
             rm_Status r = RoomInstanceProvisioning)
          (\<lambda>r. r\<lparr>rm_Status := RoomInstanceFailed, rm_Version := rm_Version r + 1,
             rm_UpdatedBy := tc_ActorID scope, rm_FailedAt := Some now,
             rm_FailureCode := Some ''ended_before_activation'', rm_UpdatedAt := now\<rparr>) db
      else
        update_room LifecycleOther
          (\<lambda>r. rm_TenantID r = tc_TenantID scope \<and> rm_ID r = rm_ID room \<and>
             rm_Status r \<in> {RoomInstanceActive, RoomInstanceClosing})
          (\<lambda>r. r\<lparr>rm_Status := RoomInstanceEnded, rm_Version := rm_Version r + 1,
             rm_UpdatedBy := tc_ActorID scope,
             rm_ClosingAt := (case rm_ClosingAt r of None \<Rightarrow> Some now | Some t \<Rightarrow> Some t),
             rm_EndedAt := Some now, rm_UpdatedAt := now\<rparr>) db)"

text \<open>
  \<open>expireOutstandingLobbyAdmissions\<close> (postgres\_lobby\_repository.go), with one event per expired
  admission in the order of the table.
\<close>

definition waiting_admission :: "uuid \<Rightarrow> uuid \<Rightarrow> uuid \<Rightarrow> admission_row \<Rightarrow> bool" where
  "waiting_admission tenantID spaceID roomID r \<longleftrightarrow> ad_TenantID r = tenantID \<and>
     ad_SpaceID r = spaceID \<and> ad_RoomID r = roomID \<and> ad_Status r = AdmissionWaiting"

definition expire_admission :: "uuid option \<Rightarrow> string \<Rightarrow> instant \<Rightarrow> admission_row \<Rightarrow> admission_row" where
  "expire_admission resolver code now r = r\<lparr>ad_Status := AdmissionExpired,
     ad_Version := ad_Version r + 1, ad_ResolvedAt := Some now, ad_ResolvedBy := resolver,
     ad_ResolutionCode := Some code, ad_UpdatedAt := now\<rparr>"

definition appendExpiredLobbyAdmissionEvent ::
  "uuid \<Rightarrow> uuid \<Rightarrow> admission_row \<Rightarrow> string \<Rightarrow> instant \<Rightarrow> 'c media_db \<Rightarrow> 'c media_db" where
  "appendExpiredLobbyAdmissionEvent tenantID actorID r code now =
     append_event \<lparr>ev_Type = ''media_admission.expired.v1'', ev_TenantID = tenantID,
       ev_AggregateID = ad_ID r, ev_ActorID = actorID, ev_SpaceID = Some (ad_SpaceID r),
       ev_RoomID = None, ev_TargetID = Some (ad_UserID r), ev_Status = ''expired'',
       ev_Version = ad_Version r, ev_ReasonCode = code, ev_SafetyAction = False,
       ev_OccurredAt = now\<rparr>"

definition expireOutstandingLobbyAdmissions ::
  "uuid \<Rightarrow> uuid \<Rightarrow> uuid \<Rightarrow> uuid option \<Rightarrow> string \<Rightarrow> instant \<Rightarrow> 'c media_db \<Rightarrow>
   lifecycle_error + 'c media_db" where
  "expireOutstandingLobbyAdmissions tenantID spaceID roomID resolver code now db =
     (let P = waiting_admission tenantID spaceID roomID;
          f = expire_admission (nullableLifecycleUUIDPointer resolver) code now;
          actorID = (case resolver of None \<Rightarrow> uuid_Nil | Some a \<Rightarrow> a) in
      try_res (constrained admissions_ok ErrLifecycleUnavailable (update_where P f (md_admissions db)))
        (\<lambda>rows. Inr (fold (\<lambda>r. appendExpiredLobbyAdmissionEvent tenantID actorID (f r) code now)
           (filter P (md_admissions db)) (db\<lparr>md_admissions := rows\<rparr>))))"

text \<open>\<open>advanceMediaRosterProjection\<close> (postgres\_instance\_repository.go).\<close>

definition advanceMediaRosterProjection ::
  "uuid \<Rightarrow> uuid \<Rightarrow> uuid \<Rightarrow> 'c media_db \<Rightarrow> lifecycle_error + 'c media_db" where
  "advanceMediaRosterProjection tenantID spaceID roomID =
     update_room ErrLifecycleUnavailable
       (\<lambda>r. rm_TenantID r = tenantID \<and> rm_SpaceID r = spaceID \<and> rm_ID r = roomID)
       (\<lambda>r. r\<lparr>rm_ProjectionVersion := rm_ProjectionVersion r + 1\<rparr>)"

definition active_participant_of :: "uuid \<Rightarrow> uuid \<Rightarrow> uuid \<Rightarrow> participant_row \<Rightarrow> bool" where
  "active_participant_of tenantID spaceID roomID r \<longleftrightarrow> pa_TenantID r = tenantID \<and>
     pa_SpaceID r = spaceID \<and> pa_RoomID r = roomID \<and> participant_active r"

text \<open>
  The three statements that \<open>terminateRoomParticipants\<close> and \<open>failRoomParticipants\<close> share; \<open>f\<close> is
  the SET clause of the first.
\<close>

definition settle_participants ::
  "uuid \<Rightarrow> uuid \<Rightarrow> uuid \<Rightarrow> (participant_row \<Rightarrow> participant_row) \<Rightarrow> 'c media_db \<Rightarrow>
   lifecycle_error + 'c media_db" where
  "settle_participants tenantID spaceID roomID f db =
     (let P = active_participant_of tenantID spaceID roomID in
      try_res (constrained participants_ok ErrLifecycleUnavailable (update_where P f (md_participants db)))
        (\<lambda>rows.
        let db1 = db\<lparr>md_participants := rows, md_hands := update_where
              (\<lambda>h. hs_TenantID h = tenantID \<and> hs_SpaceID h = spaceID \<and> hs_RoomID h = roomID \<and> hs_Raised h)
              (\<lambda>h. h\<lparr>hs_Raised := False\<rparr>) (md_hands db)\<rparr>
        in if count_where P (md_participants db) = 0 then Inr db1
           else advanceMediaRosterProjection tenantID spaceID roomID db1))"

definition terminateRoomParticipants ::
  "uuid \<Rightarrow> uuid \<Rightarrow> uuid \<Rightarrow> instant \<Rightarrow> 'c media_db \<Rightarrow> lifecycle_error + 'c media_db" where
  "terminateRoomParticipants tenantID spaceID roomID now =
     settle_participants tenantID spaceID roomID
       (\<lambda>r. r\<lparr>pa_Status := ParticipantLeft, pa_Version := pa_Version r + 1,
          pa_CapacityReserved := False, pa_TerminalAt := Some now, pa_ReconnectingAt := None,
          pa_UpdatedAt := now\<rparr>)"

definition failRoomParticipants ::
  "uuid \<Rightarrow> uuid \<Rightarrow> uuid \<Rightarrow> string \<Rightarrow> instant \<Rightarrow> 'c media_db \<Rightarrow> lifecycle_error + 'c media_db" where
  "failRoomParticipants tenantID spaceID roomID failureCode now =
     settle_participants tenantID spaceID roomID
       (\<lambda>r. r\<lparr>pa_Status := ParticipantFailed, pa_Version := pa_Version r + 1,
          pa_CapacityReserved := False, pa_TerminalAt := Some now, pa_ReconnectingAt := None,
          pa_FailureCode := Some failureCode, pa_UpdatedAt := now\<rparr>)"

end
