(* ===== verification/Media_Transitions.thy ===== *)
theory Media_Transitions imports Media_Lifecycle begin

section \<open>Transitions of a media space (modules/media/postgres\_lifecycle\_repository.go)\<close>

text \<open>
  \<open>TransitionSpace\<close>: start, end, cancel and recover, with the idempotency receipts.
\<close>

subsection \<open>Changes of one row\<close>

text \<open>The SET clauses on the space.\<close>

definition open_row :: "uuid \<Rightarrow> instant \<Rightarrow> space_row \<Rightarrow> space_row" where
  "open_row actor now r = r\<lparr>ms_Status := SpaceStatusOpen, ms_Version := ms_Version r + 1,
     ms_UpdatedBy := actor, ms_OpenedAt := Some now, ms_OpenedBy := Some actor, ms_UpdatedAt := now\<rparr>"

definition end_row :: "uuid \<Rightarrow> instant \<Rightarrow> space_row \<Rightarrow> space_row" where
  "end_row actor now r = r\<lparr>ms_Status := SpaceStatusEnded, ms_Version := ms_Version r + 1,
     ms_Locked := False, ms_UpdatedBy := actor, ms_EndedAt := Some now, ms_EndedBy := Some actor,
     ms_UpdatedAt := now\<rparr>"

definition cancel_row :: "uuid \<Rightarrow> instant \<Rightarrow> space_row \<Rightarrow> space_row" where
  "cancel_row actor now r = r\<lparr>ms_Status := SpaceStatusCancelled, ms_Version := ms_Version r + 1,
     ms_UpdatedBy := actor, ms_CancelledAt := Some now, ms_CancelledBy := Some actor, ms_UpdatedAt := now\<rparr>"

definition recover_row :: "uuid \<Rightarrow> instant \<Rightarrow> space_row \<Rightarrow> space_row" where
  "recover_row actor now r = r\<lparr>ms_Version := ms_Version r + 1, ms_UpdatedBy := actor, ms_UpdatedAt := now\<rparr>"

definition space_at :: "tenant_context \<Rightarrow> space_row \<Rightarrow> int \<Rightarrow> space_status \<Rightarrow> space_row \<Rightarrow> bool" where
  "space_at scope row version status r \<longleftrightarrow> ms_TenantID r = tc_TenantID scope \<and> ms_ID r = ms_ID row \<and>
     ms_Version r = version \<and> ms_Status r = status"

text \<open>A room intent: the row that \<open>startSpace\<close> and \<open>recoverSpace\<close> insert.\<close>

definition room_intent :: "tenant_context \<Rightarrow> space_row \<Rightarrow> transition_command \<Rightarrow> int \<Rightarrow> room_row" where
  "room_intent scope row command attempt =
     \<lparr>rm_ID = tr_RoomInstanceID command, rm_TenantID = tc_TenantID scope, rm_SpaceID = ms_ID row,
      rm_AttemptNumber = attempt, rm_Status = RoomInstanceProvisioning, rm_Version = 1,
      rm_ProviderRoomName = tr_ProviderRoomName command, rm_ProviderRoomSID = None,
      rm_CreatedBy = tc_ActorID scope, rm_UpdatedBy = tc_ActorID scope, rm_ActivatedAt = None,
      rm_ClosingAt = None, rm_EndedAt = None, rm_FailedAt = None, rm_FailureCode = None,
      rm_ProjectionVersion = 1, rm_NextRosterSequence = 0,
      rm_CreatedAt = tr_OccurredAt command, rm_UpdatedAt = tr_OccurredAt command\<rparr>"

definition transition_session ::
  "'c lifecycle_repository \<Rightarrow> tenant_context \<Rightarrow> uuid \<Rightarrow> session_status \<Rightarrow> session_status \<Rightarrow> instant \<Rightarrow>
   'c media_db \<Rightarrow> lifecycle_error + 'c media_db" where
  "transition_session rp scope sessionID src tgt now db =
     try_class (src_TransitionMediaSession (rp_ClassSources rp) scope sessionID src tgt now (md_classes db))
       False (\<lambda>classes. Inr (db\<lparr>md_classes := classes\<rparr>))"

text \<open>The class session follows its space.\<close>

definition start_session ::
  "'c lifecycle_repository \<Rightarrow> tenant_context \<Rightarrow> authorized_source \<Rightarrow> instant \<Rightarrow> 'c media_db \<Rightarrow>
   lifecycle_error + 'c media_db" where
  "start_session rp scope source now db =
     (if as_Kind source = SourceClassSession
      then transition_session rp scope (as_ClassSessionID source) SessionStatusScheduled
        SessionStatusLive now db
      else Inr db)"

definition end_session ::
  "'c lifecycle_repository \<Rightarrow> tenant_context \<Rightarrow> authorized_source \<Rightarrow> instant \<Rightarrow> 'c media_db \<Rightarrow>
   lifecycle_error + 'c media_db" where
  "end_session rp scope source now db =
     (if as_Kind source = SourceClassSession \<and> as_Status source = ''live''
      then transition_session rp scope (as_ClassSessionID source) SessionStatusLive
        SessionStatusEnded now db
      else Inr db)"

subsection \<open>The four operations\<close>

text \<open>Each returns the updated space, the room of its receipt and the database.\<close>

definition startSpace ::
  "'c lifecycle_repository \<Rightarrow> access_context \<Rightarrow> tenant_context \<Rightarrow> space_row \<Rightarrow> transition_command \<Rightarrow>
   'c media_db \<Rightarrow> lifecycle_error + (space_row \<times> uuid) \<times> 'c media_db" where
  "startSpace rp access scope row command db =
     (if ms_Status row \<noteq> SpaceStatusScheduled \<or> tr_RoomInstanceID command = uuid_Nil \<or>
         tr_ProviderRoomName command = [] then Inl ErrSpaceTransition
      else
        try_res (require_feature rp db (tc_TenantID scope) FeatureClassroomMediaRooms) (\<lambda>_.
        try_res (authorizeSource rp db access scope row PermissionSessionStart True False) (\<lambda>source.
        if as_Status source \<noteq> ''scheduled'' then Inl ErrSourceUnavailable
        else
          try_res (requireActiveSpaceCapacity rp db (tc_TenantID scope) 0) (\<lambda>_.
          try_res (consume_rate rp (tc_TenantID scope) QuotaMediaSpaceStartsPerHour
              (tr_OccurredAt command) db) (\<lambda>db1.
          try_res (insert_room (room_intent scope row command 1) db1) (\<lambda>db2.
          try_res (update_space (space_at scope row (tr_ExpectedVersion command) SpaceStatusScheduled)
              (open_row (tc_ActorID scope) (tr_OccurredAt command)) db2) (\<lambda>(updated, db3).
          try_res (start_session rp scope source (tr_OccurredAt command) db3) (\<lambda>db4.
            Inr ((updated, tr_RoomInstanceID command),
              appendMediaSpaceEvent scope updated ''media_space.started.v1'' (tr_ReasonCode command)
                False (tr_OccurredAt command) db4)))))))))"

definition endSpace ::
  "'c lifecycle_repository \<Rightarrow> access_context \<Rightarrow> tenant_context \<Rightarrow> space_row \<Rightarrow> transition_command \<Rightarrow>
   'c media_db \<Rightarrow> lifecycle_error + (space_row \<times> uuid) \<times> 'c media_db" where
  "endSpace rp access scope row command db =
     (if ms_Status row \<noteq> SpaceStatusOpen then Inl ErrSpaceTransition
      else
        try_res (authorizeSource rp db access scope row PermissionSessionEnd True True) (\<lambda>source.
        let safetyEnd = (as_Kind source = SourceStudyMeeting \<and> as_SafetyAdmin source \<and> \<not> as_Owner source);
            now = tr_OccurredAt command in
        if safetyEnd \<and> tr_ReasonCode command = [] then Inl ErrInvalidSpaceRequest
        else case loadRoomForTermination db (tc_TenantID scope) (ms_ID row) of
          None \<Rightarrow> Inl ErrSpaceTransition
        | Some room \<Rightarrow>
            try_res (terminateRoomIntent scope room now db) (\<lambda>db1.
            try_res (as_unavailable (expireOutstandingLobbyAdmissions (tc_TenantID scope) (ms_ID row)
                (rm_ID room) (Some (tc_ActorID scope)) ''meeting_ended'' now db1)) (\<lambda>db2.
            try_res (as_unavailable (terminateRoomParticipants (tc_TenantID scope) (ms_ID row)
                (rm_ID room) now db2)) (\<lambda>db3.
            try_res (update_space (space_at scope row (tr_ExpectedVersion command) SpaceStatusOpen)
                (end_row (tc_ActorID scope) now) db3) (\<lambda>(updated, db4).
            try_res (end_session rp scope source now db4) (\<lambda>db5.
              Inr ((updated, rm_ID room),
                appendMediaSpaceEvent scope updated ''media_space.ended.v1'' (tr_ReasonCode command)
                  safetyEnd now db5))))))))"

definition cancelSpace ::
  "'c lifecycle_repository \<Rightarrow> access_context \<Rightarrow> tenant_context \<Rightarrow> space_row \<Rightarrow> transition_command \<Rightarrow>
   'c media_db \<Rightarrow> lifecycle_error + (space_row \<times> uuid) \<times> 'c media_db" where
  "cancelSpace rp access scope row command db =
     (if ms_Status row \<noteq> SpaceStatusScheduled then Inl ErrSpaceTransition
      else
        try_res (authorizeSource rp db access scope row PermissionSessionEnd True False) (\<lambda>_.
        try_res (update_space (space_at scope row (tr_ExpectedVersion command) SpaceStatusScheduled)
            (cancel_row (tc_ActorID scope) (tr_OccurredAt command)) db) (\<lambda>(updated, db1).
          Inr ((updated, uuid_Nil),
            appendMediaSpaceEvent scope updated ''media_space.cancelled.v1'' (tr_ReasonCode command)
              False (tr_OccurredAt command) db1))))"

definition recoverSpace ::
  "'c lifecycle_repository \<Rightarrow> access_context \<Rightarrow> tenant_context \<Rightarrow> space_row \<Rightarrow> transition_command \<Rightarrow>
   'c media_db \<Rightarrow> lifecycle_error + (space_row \<times> uuid) \<times> 'c media_db" where
  "recoverSpace rp access scope row command db =
     (if ms_Status row \<noteq> SpaceStatusOpen \<or> ms_Locked row \<or> tr_RoomInstanceID command = uuid_Nil \<or>
         tr_ProviderRoomName command = [] \<or> tr_ExpectedRoomInstanceID command = uuid_Nil \<or>
         tr_ExpectedRoomInstanceVersion command < 1 then Inl ErrSpaceTransition
      else
        try_res (require_feature rp db (tc_TenantID scope) FeatureClassroomMediaRooms) (\<lambda>_.
        try_res (authorizeSource rp db access scope row PermissionSessionStart True False) (\<lambda>source.
        if \<not> recoverySourceStatusAllowed source then Inl ErrSourceUnavailable
        else case loadLatestRoom db (tc_TenantID scope) (ms_ID row) of
          None \<Rightarrow> Inl ErrSpaceTransition
        | Some previous \<Rightarrow>
            if rm_ID previous \<noteq> tr_ExpectedRoomInstanceID command \<or>
               rm_Version previous \<noteq> tr_ExpectedRoomInstanceVersion command
              then Inl ErrSpaceVersionConflict
            else if rm_Status previous \<noteq> RoomInstanceFailed then Inl ErrSpaceTransition
            else
              try_res (insert_room (room_intent scope row command (rm_AttemptNumber previous + 1)) db)
                (\<lambda>db1.
              try_res (update_space (space_at scope row (tr_ExpectedVersion command) SpaceStatusOpen)
                  (recover_row (tc_ActorID scope) (tr_OccurredAt command)) db1) (\<lambda>(updated, db2).
                Inr ((updated, tr_RoomInstanceID command),
                  appendMediaSpaceEvent scope updated ''media_space.recovered.v1'' [] False
                    (tr_OccurredAt command) db2))))))"

subsection \<open>Receipts\<close>

definition transition_receipt :: "tenant_context \<Rightarrow> transition_command \<Rightarrow> int \<Rightarrow> uuid \<Rightarrow> receipt_row" where
  "transition_receipt scope command resultVersion instanceID =
     (let providerRequired = (tr_Operation command = ''end'') in
      \<lparr>rc_TenantID = tc_TenantID scope, rc_ActorID = tc_ActorID scope,
       rc_IdempotencyKey = tr_IdempotencyKey command, rc_Fingerprint = tr_Fingerprint command,
       rc_Operation = tr_Operation command, rc_SpaceID = tr_SpaceID command,
       rc_ResultVersion = resultVersion, rc_ResultRoomID = nullableLifecycleUUID instanceID,
       rc_CreatedAt = tr_OccurredAt command, rc_TargetID = None, rc_RoomVersion = None,
       rc_ProjectionVersion = None, rc_ParticipantVersion = None, rc_RoleVersion = None,
       rc_InstanceRole = None, rc_Locked = None, rc_EffectRequired = providerRequired,
       rc_EffectStatus = (if providerRequired then ProviderEffectPending else ProviderEffectNone),
       rc_EffectAttempts = 0, rc_EffectErrorCode = None, rc_EffectLeaseUntil = None,
       rc_EffectUpdatedAt = (if providerRequired then Some (tr_OccurredAt command) else None)\<rparr>)"

definition insertTransitionReceipt ::
  "tenant_context \<Rightarrow> transition_command \<Rightarrow> int \<Rightarrow> uuid \<Rightarrow> 'c media_db \<Rightarrow> lifecycle_error + 'c media_db" where
  "insertTransitionReceipt scope command resultVersion instanceID db =
     try_res (constrained receipts_ok ErrLifecycleUnavailable
         (md_receipts db @ [transition_receipt scope command resultVersion instanceID])) (\<lambda>rows.
       Inr (db\<lparr>md_receipts := rows\<rparr>))"

definition find_receipt :: "'c media_db \<Rightarrow> tenant_context \<Rightarrow> string \<Rightarrow> receipt_row option" where
  "find_receipt db scope key =
     find (\<lambda>r. receipt_key r = (tc_TenantID scope, tc_ActorID scope, key)) (md_receipts db)"

definition loadTransitionReplay ::
  "'c lifecycle_repository \<Rightarrow> 'c media_db \<Rightarrow> access_context \<Rightarrow> tenant_context \<Rightarrow> transition_command \<Rightarrow>
   lifecycle_error + media_space option" where
  "loadTransitionReplay rp db access scope command =
     (case find_receipt db scope (tr_IdempotencyKey command) of
        None \<Rightarrow> Inr None
      | Some r \<Rightarrow>
          if rc_Operation r \<noteq> tr_Operation command \<or> rc_SpaceID r \<noteq> tr_SpaceID command \<or>
             rc_ActorID r \<noteq> tc_ActorID scope \<or> rc_Fingerprint r \<noteq> tr_Fingerprint command
            then Inl ErrSpaceIdempotency
          else case loadSpace db (tc_TenantID scope) (rc_SpaceID r) of
            None \<Rightarrow> Inl ErrLifecycleUnavailable
          | Some row \<Rightarrow>
              try_res (projectAuthorizedSpace rp db access scope row) (\<lambda>space. Inr (Some space)))"

definition reauthorizeRecoveryReplay ::
  "'c lifecycle_repository \<Rightarrow> 'c media_db \<Rightarrow> access_context \<Rightarrow> tenant_context \<Rightarrow> uuid \<Rightarrow>
   lifecycle_error + unit" where
  "reauthorizeRecoveryReplay rp db access scope spaceID =
     (case loadSpace db (tc_TenantID scope) spaceID of
        None \<Rightarrow> Inl ErrSpaceNotFound
      | Some row \<Rightarrow>
          if ms_Status row \<noteq> SpaceStatusOpen \<or> ms_Locked row then Inl ErrSpaceTransition
          else
            try_res (require_feature rp db (tc_TenantID scope) FeatureClassroomMediaRooms) (\<lambda>_.
            try_res (authorizeSource rp db access scope row PermissionSessionStart True False) (\<lambda>source.
              if \<not> recoverySourceStatusAllowed source then Inl ErrSourceUnavailable else Inr ())))"

subsection \<open>The transaction\<close>

definition run_transition ::
  "'c lifecycle_repository \<Rightarrow> access_context \<Rightarrow> tenant_context \<Rightarrow> space_row \<Rightarrow> transition_command \<Rightarrow>
   'c media_db \<Rightarrow> lifecycle_error + (space_row \<times> uuid) \<times> 'c media_db" where
  "run_transition rp access scope row command db =
     (if tr_Operation command = ''start'' then startSpace rp access scope row command db
      else if tr_Operation command = ''end'' then endSpace rp access scope row command db
      else if tr_Operation command = ''cancel'' then cancelSpace rp access scope row command db
      else if tr_Operation command = ''recover'' then recoverSpace rp access scope row command db
      else Inl ErrInvalidSpaceRequest)"

definition TransitionSpace ::
  "'c lifecycle_repository \<Rightarrow> access_context \<Rightarrow> transition_command \<Rightarrow> 'c media_db \<Rightarrow>
   lifecycle_error + media_space \<times> 'c media_db" where
  "TransitionSpace rp access0 command db =
     try_res (requireActiveScope db access0) (\<lambda>(access, scope).
     try_res (loadTransitionReplay rp db access scope command) (\<lambda>replay.
     case replay of
       Some space \<Rightarrow>
         if tr_Operation command = ''recover''
         then try_res (reauthorizeRecoveryReplay rp db access scope (tr_SpaceID command)) (\<lambda>_.
           Inr (space, db))
         else Inr (space, db)
     | None \<Rightarrow>
         (case loadSpace db (tc_TenantID scope) (tr_SpaceID command) of
            None \<Rightarrow> Inl ErrSpaceNotFound
          | Some row \<Rightarrow>
              try_res (authorizeTransition rp db access scope row (tr_Operation command)) (\<lambda>_.
              if ms_Version row \<noteq> tr_ExpectedVersion command then Inl ErrSpaceVersionConflict
              else
                try_res (run_transition rp access scope row command db) (\<lambda>((transitioned, roomID), db1).
                try_res (insertTransitionReceipt scope command (ms_Version transitioned) roomID db1)
                  (\<lambda>db2.
                try_res (projectAuthorizedSpace rp db2 access scope transitioned) (\<lambda>projected.
                  Inr (projected, db2))))))))"

end
