(* ===== verification/Media_Instances.thy ===== *)
theory Media_Instances imports Media_Transitions begin

section \<open>Room instances (modules/media/postgres\_instance\_repository.go)\<close>

text \<open>
  Activation of a room, the effect of ending it at the provider, and what joins and credentials
  share: the availability of a source and the role of a participant.
\<close>

subsection \<open>Identifiers\<close>

text \<open>
  \<open>validProviderIdentifier\<close>: a control character is a byte below 0x20, 0x7F, or one of U+0080 to
  U+009F, which \<open>range\<close> decodes from 0xC2 followed by the byte, wherever the two stand.
\<close>

fun has_control :: "nat list \<Rightarrow> bool" where
  "has_control [] = False"
| "has_control [b] = (b < 32 \<or> b = 127)"
| "has_control (b # c # bs) =
     (b < 32 \<or> b = 127 \<or> (b = 194 \<and> 128 \<le> c \<and> c \<le> 159) \<or> has_control (c # bs))"

definition validProviderIdentifier :: "string \<Rightarrow> nat \<Rightarrow> bool" where
  "validProviderIdentifier value maximum \<longleftrightarrow> value \<noteq> [] \<and> value = trim_space value \<and>
     length value \<le> maximum \<and> \<not> has_control (map of_char value)"

text \<open>\<open>^r_[a-f0-9]{32}$\<close>.\<close>

definition opaqueProviderRoomNamePattern :: "string \<Rightarrow> bool" where
  "opaqueProviderRoomNamePattern s \<longleftrightarrow> length s = 34 \<and> take 2 s = ''r_'' \<and>
     list_all (\<lambda>c. is_digit c \<or> c \<in> set ''abcdef'') (drop 2 s)"

definition opaqueParticipantIdentity :: "uuid \<Rightarrow> string" where
  "opaqueParticipantIdentity i = ''p_'' @ uuid_hex i"

subsection \<open>Activation\<close>

definition provisioning_room :: "uuid \<Rightarrow> uuid \<Rightarrow> uuid \<Rightarrow> room_row \<Rightarrow> bool" where
  "provisioning_room tenantID spaceID roomID r \<longleftrightarrow> rm_TenantID r = tenantID \<and>
     rm_SpaceID r = spaceID \<and> rm_ID r = roomID \<and> rm_Status r = RoomInstanceProvisioning \<and>
     rm_ProviderRoomSID r = None"

definition activate_room :: "uuid \<Rightarrow> string \<Rightarrow> instant \<Rightarrow> room_row \<Rightarrow> room_row" where
  "activate_room actor sid now r = r\<lparr>rm_Status := RoomInstanceActive, rm_Version := rm_Version r + 1,
     rm_ProviderRoomSID := Some sid, rm_ActivatedAt := Some now, rm_UpdatedBy := actor,
     rm_UpdatedAt := now\<rparr>"

definition find_room :: "'c media_db \<Rightarrow> uuid \<Rightarrow> uuid \<Rightarrow> uuid \<Rightarrow> room_row option" where
  "find_room db tenantID spaceID roomID =
     find (\<lambda>r. rm_TenantID r = tenantID \<and> rm_SpaceID r = spaceID \<and> rm_ID r = roomID) (md_rooms db)"

text \<open>The UPDATE and, when it affects no row, the second read that classifies the refusal.\<close>

definition activate_binding ::
  "tenant_context \<Rightarrow> uuid \<Rightarrow> uuid \<Rightarrow> string \<Rightarrow> instant \<Rightarrow> 'c media_db \<Rightarrow> lifecycle_error + 'c media_db" where
  "activate_binding scope spaceID roomID sid now db =
     (let P = provisioning_room (tc_TenantID scope) spaceID roomID in
      try_res (constrained rooms_ok ErrLifecycleUnavailable
          (update_where P (activate_room (tc_ActorID scope) sid now) (md_rooms db))) (\<lambda>rows.
        if count_where P (md_rooms db) \<noteq> 0 then Inr (db\<lparr>md_rooms := rows\<rparr>)
        else case find_room db (tc_TenantID scope) spaceID roomID of
          None \<Rightarrow> Inl ErrSpaceTransition
        | Some r \<Rightarrow>
            if rm_Status r \<in> {RoomInstanceClosing, RoomInstanceEnded, RoomInstanceFailed}
              then Inl ErrRoomActivationTerminal
            else if rm_Status r \<noteq> RoomInstanceActive \<or> rm_ProviderRoomSID r \<noteq> Some sid
              then Inl ErrSpaceTransition
            else Inr db))"

definition ActivateRoomInstance ::
  "'c lifecycle_repository \<Rightarrow> access_context \<Rightarrow> uuid \<Rightarrow> uuid \<Rightarrow> string \<Rightarrow> instant \<Rightarrow> 'c media_db \<Rightarrow>
   lifecycle_error + media_space \<times> 'c media_db" where
  "ActivateRoomInstance rp access0 spaceID roomID sid now db =
     (if spaceID = uuid_Nil \<or> roomID = uuid_Nil \<or> \<not> validProviderIdentifier sid 255
        then Inl ErrLifecycleUnavailable
      else
        try_res (requireActiveScope db access0) (\<lambda>(access, scope).
        case loadSpace db (tc_TenantID scope) spaceID of
          None \<Rightarrow> Inl ErrSpaceNotFound
        | Some space \<Rightarrow>
            try_res (require_feature rp db (tc_TenantID scope) FeatureClassroomMediaRooms) (\<lambda>_.
            try_res (authorizeSource rp db access scope space PermissionSessionStart True False) (\<lambda>_.
            if ms_Status space \<noteq> SpaceStatusOpen then Inl ErrRoomNotOpen
            else
              try_res (activate_binding scope spaceID roomID sid now db) (\<lambda>db1.
              try_res (projectAuthorizedSpace rp db1 access scope space) (\<lambda>projected.
                Inr (projected, db1)))))))"

definition ProviderRoomName ::
  "'c lifecycle_repository \<Rightarrow> access_context \<Rightarrow> uuid \<Rightarrow> 'c media_db \<Rightarrow> lifecycle_error + string" where
  "ProviderRoomName rp access0 spaceID db =
     (if spaceID = uuid_Nil then Inl ErrLifecycleUnavailable
      else
        try_res (requireActiveScope db access0) (\<lambda>(access, scope).
        case loadSpace db (tc_TenantID scope) spaceID of
          None \<Rightarrow> Inl ErrSpaceNotFound
        | Some space \<Rightarrow>
            try_res (authorizeSource rp db access scope space PermissionClassView False False) (\<lambda>_.
            case loadLatestRoom db (tc_TenantID scope) spaceID of
              None \<Rightarrow> Inl ErrSpaceTransition
            | Some room \<Rightarrow>
                if \<not> opaqueProviderRoomNamePattern (rm_ProviderRoomName room)
                then Inl ErrLifecycleUnavailable else Inr (rm_ProviderRoomName room))))"

subsection \<open>The provider's effect of ending a room\<close>

record end_room_effect =
  ee_RoomName :: string
  ee_Attempt :: int

text \<open>A failing call reports an effect status beside the error.\<close>

type_synonym effect_error = "lifecycle_error \<times> provider_effect_status"

definition end_receipt :: "tenant_context \<Rightarrow> uuid \<Rightarrow> string \<Rightarrow> receipt_row \<Rightarrow> bool" where
  "end_receipt scope spaceID key r \<longleftrightarrow> rc_TenantID r = tc_TenantID scope \<and>
     rc_ActorID r = tc_ActorID scope \<and> rc_SpaceID r = spaceID \<and> rc_IdempotencyKey r = key \<and>
     rc_Operation r = ''end'' \<and> rc_EffectRequired r"

text \<open>The join of a receipt with its room.\<close>

definition receipt_room :: "'c media_db \<Rightarrow> receipt_row \<Rightarrow> room_row option" where
  "receipt_room db r = (case rc_ResultRoomID r of None \<Rightarrow> None
     | Some roomID \<Rightarrow> find_room db (rc_TenantID r) (rc_SpaceID r) roomID)"

definition claimable_effect :: "instant \<Rightarrow> receipt_row \<Rightarrow> bool" where
  "claimable_effect now r \<longleftrightarrow>
     rc_EffectStatus r \<in> {ProviderEffectPending, ProviderEffectRetryableFailed} \<or>
     (rc_EffectStatus r = ProviderEffectApplying \<and>
      (case rc_EffectLeaseUntil r of None \<Rightarrow> False | Some t \<Rightarrow> t \<le> now))"

definition claim_effect :: "int \<Rightarrow> instant \<Rightarrow> instant \<Rightarrow> receipt_row \<Rightarrow> receipt_row" where
  "claim_effect attempt leaseUntil now r = r\<lparr>rc_EffectStatus := ProviderEffectApplying,
     rc_EffectAttempts := attempt, rc_EffectErrorCode := None, rc_EffectLeaseUntil := Some leaseUntil,
     rc_EffectUpdatedAt := Some now\<rparr>"

definition ClaimEndProviderEffect ::
  "access_context \<Rightarrow> uuid \<Rightarrow> string \<Rightarrow> instant \<Rightarrow> duration \<Rightarrow> 'c media_db \<Rightarrow>
   effect_error + (end_room_effect \<times> provider_effect_status \<times> bool) \<times> 'c media_db" where
  "ClaimEndProviderEffect access0 spaceID key now lease db =
     (if spaceID = uuid_Nil \<or> key = [] \<or> lease \<le> 0
        then Inl (ErrLifecycleUnavailable, ProviderEffectPermanentFailed)
      else case requireActiveScope db access0 of
        Inl e \<Rightarrow> Inl (e, ProviderEffectPermanentFailed)
      | Inr (_, scope) \<Rightarrow>
          (case find (\<lambda>r. end_receipt scope spaceID key r \<and> receipt_room db r \<noteq> None) (md_receipts db) of
             None \<Rightarrow> Inl (ErrSpaceTransition, ProviderEffectPermanentFailed)
           | Some receipt \<Rightarrow>
               let name = (case receipt_room db receipt of None \<Rightarrow> [] | Some r \<Rightarrow> rm_ProviderRoomName r);
                   status = rc_EffectStatus receipt; attempts = rc_EffectAttempts receipt in
               if \<not> opaqueProviderRoomNamePattern name
                 then Inl (ErrLifecycleUnavailable, ProviderEffectRetryableFailed)
               else if status \<in> {ProviderEffectApplied, ProviderEffectPermanentFailed}
                 then Inr ((\<lparr>ee_RoomName = name, ee_Attempt = attempts\<rparr>, status, False), db)
               else
                 let effect = \<lparr>ee_RoomName = name, ee_Attempt = attempts + 1\<rparr>;
                     P = (\<lambda>r. end_receipt scope spaceID key r \<and> claimable_effect now r) in
                 if count_where P (md_receipts db) = 0 then Inr ((effect, status, False), db)
                 else (case constrained receipts_ok () (update_where P
                          (claim_effect (attempts + 1) (now + lease) now) (md_receipts db)) of
                     Inl _ \<Rightarrow> Inl (ErrLifecycleUnavailable, ProviderEffectRetryableFailed)
                   | Inr rows \<Rightarrow> Inr ((effect, ProviderEffectApplying, True), db\<lparr>md_receipts := rows\<rparr>))))"

definition complete_effect ::
  "provider_effect_status \<Rightarrow> string \<Rightarrow> instant \<Rightarrow> receipt_row \<Rightarrow> receipt_row" where
  "complete_effect status code now r = r\<lparr>rc_EffectStatus := status,
     rc_EffectErrorCode := (if code = [] then None else Some code), rc_EffectLeaseUntil := None,
     rc_EffectUpdatedAt := Some now\<rparr>"

definition CompleteEndProviderEffect ::
  "access_context \<Rightarrow> uuid \<Rightarrow> string \<Rightarrow> int \<Rightarrow> provider_effect_status \<Rightarrow> string \<Rightarrow> instant \<Rightarrow> 'c media_db \<Rightarrow>
   effect_error + provider_effect_status \<times> 'c media_db" where
  "CompleteEndProviderEffect access0 spaceID key attempt status code now db =
     (if spaceID = uuid_Nil \<or> key = [] \<or> attempt < 1 \<or>
         status \<notin> {ProviderEffectApplied, ProviderEffectRetryableFailed, ProviderEffectPermanentFailed}
        then Inl (ErrLifecycleUnavailable, ProviderEffectPermanentFailed)
      else case requireActiveScope db access0 of
        Inl e \<Rightarrow> Inl (e, ProviderEffectPermanentFailed)
      | Inr (_, scope) \<Rightarrow>
          let P = (\<lambda>r. end_receipt scope spaceID key r \<and> rc_EffectStatus r = ProviderEffectApplying \<and>
                rc_EffectAttempts r = attempt) in
          if count_where P (md_receipts db) = 0
            then Inl (ErrSpaceVersionConflict, ProviderEffectRetryableFailed)
          else (case constrained receipts_ok () (update_where P (complete_effect status code now)
                    (md_receipts db)) of
              Inl _ \<Rightarrow> Inl (ErrLifecycleUnavailable, ProviderEffectRetryableFailed)
            | Inr rows \<Rightarrow> Inr (status, db\<lparr>md_receipts := rows\<rparr>)))"

subsection \<open>Sources and roles of a participant\<close>

definition concealJoinSourceError :: "lifecycle_error + 'a \<Rightarrow> lifecycle_error + 'a" where
  "concealJoinSourceError r = (case r of
      Inl e \<Rightarrow> Inl (if e = ErrSpaceAccessDenied then ErrSpaceNotFound else e)
    | Inr x \<Rightarrow> Inr x)"

lemma concealJoinSourceError_Inr [simp]: "concealJoinSourceError r = Inr x \<longleftrightarrow> r = Inr x"
  by (cases r) (simp_all add: concealJoinSourceError_def)

definition sourceAvailableForJoin :: "authorized_source \<Rightarrow> bool" where
  "sourceAvailableForJoin s = (if \<not> as_CanJoin s then False
     else case as_Kind s of
       SourceClassSession \<Rightarrow> as_Status s = ''live''
     | SourceClassSessionOccurrence \<Rightarrow> as_Status s = ''scheduled''
     | SourceStudyMeeting \<Rightarrow> as_Status s = ''scheduled''
     | _ \<Rightarrow> False)"

text \<open>\<open>effectiveRoomRole\<close> (postgres\_moderation\_repository.go).\<close>

definition effectiveRoomRole :: "'c media_db \<Rightarrow> uuid \<Rightarrow> uuid \<Rightarrow> uuid \<Rightarrow> instance_role \<Rightarrow> instance_role" where
  "effectiveRoomRole db tenantID roomID userID base =
     (if base = InstanceRoleHost \<or> base = InstanceRoleTeachingAssistant then base
      else case find (\<lambda>r. ra_TenantID r = tenantID \<and> ra_RoomID r = roomID \<and> ra_UserID r = userID \<and>
          ra_Status r = AssignmentActive) (md_roles db) of
        None \<Rightarrow> base
      | Some r \<Rightarrow> ra_Role r)"

definition resolveEffectiveCredentialSource ::
  "'c media_db \<Rightarrow> uuid \<Rightarrow> uuid \<Rightarrow> uuid \<Rightarrow> authorized_source \<Rightarrow> authorized_source" where
  "resolveEffectiveCredentialSource db tenantID roomID userID source =
     (let role = effectiveRoomRole db tenantID roomID userID (as_InstanceRole source);
          source1 = source\<lparr>as_InstanceRole := role\<rparr> in
      if role \<in> {InstanceRoleHost, InstanceRoleCoHost, InstanceRoleTeachingAssistant}
      then source1\<lparr>as_CanShareScreen := True\<rparr> else source1)"

subsection \<open>The gate of the legacy rooms\<close>

text \<open>
  The legacy rooms are served exactly while the feature of the new ones is disabled.  Any other
  error than a disabled feature, an unavailable feature store included, is unavailability of the
  repository; \<open>ErrUnavailable\<close> (model.go) refuses the nil tenant.
\<close>

datatype legacy_gate_error = ErrUnavailable | LegacyLifecycle lifecycle_error

definition AllowLegacyMedia ::
  "'c lifecycle_repository \<Rightarrow> 'c media_db \<Rightarrow> uuid \<Rightarrow> legacy_gate_error + bool" where
  "AllowLegacyMedia rp db tenantID =
     (if tenantID = uuid_Nil then Inl ErrUnavailable
      else case RequireFeature (rp_Controls rp) (md_controls db) tenantID FeatureClassroomMediaRooms of
        Inr _ \<Rightarrow> Inr False
      | Inl (FeatureDisabledError _) \<Rightarrow> Inr True
      | Inl _ \<Rightarrow> Inl (LegacyLifecycle ErrLifecycleUnavailable))"

end
