(* ===== verification/Media_Participants.thy ===== *)
theory Media_Participants imports Media_Instances begin

section \<open>Participants and credentials (modules/media/postgres\_instance\_repository.go)\<close>

text \<open>
  Join attempts and participant credentials with their rate limit.  SHA-256 and the drawn uuids
  are parameters.  The key of a credential window is the hash of tenant, actor and session; the
  model keys the window by the three of them.
\<close>

subsection \<open>Participants of a room\<close>

definition loadParticipantByAttempt ::
  "'c media_db \<Rightarrow> uuid \<Rightarrow> uuid \<Rightarrow> uuid \<Rightarrow> uuid \<Rightarrow> participant_row option" where
  "loadParticipantByAttempt db tenantID roomID userID attemptID =
     find (\<lambda>r. pa_TenantID r = tenantID \<and> pa_RoomID r = roomID \<and> pa_UserID r = userID \<and>
       pa_JoinAttemptID r = attemptID) (md_participants db)"

text \<open>The admission a participant row refers to (the LEFT JOIN of the load).\<close>

definition participant_admission :: "'c media_db \<Rightarrow> participant_row \<Rightarrow> admission_row option" where
  "participant_admission db p = (case pa_AdmissionID p of None \<Rightarrow> None
     | Some i \<Rightarrow> find (\<lambda>r. ad_TenantID r = pa_TenantID p \<and> ad_SpaceID r = pa_SpaceID p \<and>
         ad_RoomID r = pa_RoomID p \<and> ad_ID r = i) (md_admissions db))"

definition find_admission :: "'c media_db \<Rightarrow> uuid \<Rightarrow> uuid \<Rightarrow> uuid \<Rightarrow> uuid \<Rightarrow> uuid \<Rightarrow> admission_row option" where
  "find_admission db tenantID spaceID roomID userID admissionID =
     find (\<lambda>r. ad_TenantID r = tenantID \<and> ad_SpaceID r = spaceID \<and> ad_RoomID r = roomID \<and>
       ad_UserID r = userID \<and> ad_ID r = admissionID) (md_admissions db)"

definition validateWaitingAdmission ::
  "'c media_db \<Rightarrow> uuid \<Rightarrow> uuid \<Rightarrow> uuid \<Rightarrow> uuid \<Rightarrow> participant_row \<Rightarrow> string \<Rightarrow> lifecycle_error + unit" where
  "validateWaitingAdmission db tenantID spaceID roomID userID participant fingerprint =
     (case pa_AdmissionID participant of
        None \<Rightarrow> Inl ErrParticipantConflict
      | Some i \<Rightarrow>
          (case find_admission db tenantID spaceID roomID userID i of
             None \<Rightarrow> Inl ErrParticipantConflict
           | Some r \<Rightarrow>
               if ad_Status r \<noteq> AdmissionWaiting \<or> ad_Version r < 1 \<or>
                  ad_IdempotencyKey r \<noteq> uuid_String (pa_JoinAttemptID participant) \<or>
                  ad_Fingerprint r \<noteq> fingerprint
               then Inl ErrParticipantConflict else Inr ()))"

definition requireAdmittedAdmission ::
  "'c media_db \<Rightarrow> uuid \<Rightarrow> uuid \<Rightarrow> uuid \<Rightarrow> uuid \<Rightarrow> participant_row \<Rightarrow> lifecycle_error + unit" where
  "requireAdmittedAdmission db tenantID spaceID roomID userID participant =
     (case pa_AdmissionID participant of
        None \<Rightarrow> Inl ErrAdmissionRequired
      | Some i \<Rightarrow>
          (case find_admission db tenantID spaceID roomID userID i of
             None \<Rightarrow> Inl ErrAdmissionRequired
           | Some r \<Rightarrow> if ad_Status r \<noteq> AdmissionAdmitted then Inl ErrAdmissionRequired else Inr ()))"

definition hasActiveParticipant :: "'c media_db \<Rightarrow> uuid \<Rightarrow> uuid \<Rightarrow> uuid \<Rightarrow> bool" where
  "hasActiveParticipant db tenantID roomID userID \<longleftrightarrow>
     list_ex (\<lambda>r. pa_TenantID r = tenantID \<and> pa_RoomID r = roomID \<and> pa_UserID r = userID \<and>
       participant_active r) (md_participants db)"

definition hasUnrestoredRemovalBarrier :: "'c media_db \<Rightarrow> uuid \<Rightarrow> uuid \<Rightarrow> uuid \<Rightarrow> uuid \<Rightarrow> bool" where
  "hasUnrestoredRemovalBarrier db tenantID spaceID roomID userID \<longleftrightarrow>
     list_ex (\<lambda>r. pa_TenantID r = tenantID \<and> pa_SpaceID r = spaceID \<and> pa_RoomID r = roomID \<and>
       pa_UserID r = userID \<and> pa_Status r = ParticipantRemoved \<and> pa_RejoinRestoredAt r = None)
       (md_participants db)"

definition reserved_participant :: "uuid \<Rightarrow> participant_row \<Rightarrow> bool" where
  "reserved_participant tenantID r \<longleftrightarrow>
     pa_TenantID r = tenantID \<and> pa_CapacityReserved r \<and> participant_active r"

definition requireParticipantCapacity ::
  "'c lifecycle_repository \<Rightarrow> 'c media_db \<Rightarrow> uuid \<Rightarrow> uuid \<Rightarrow> lifecycle_error + unit" where
  "requireParticipantCapacity rp db tenantID spaceID =
     (let tenantUsed = count_where (reserved_participant tenantID) (md_participants db);
          spaceUsed = count_where (\<lambda>r. reserved_participant tenantID r \<and> pa_SpaceID r = spaceID)
            (md_participants db) in
      try_res (lift_control (RequireQuotaAtMost (rp_Controls rp) (md_controls db) tenantID
          QuotaActiveMediaParticipants (tenantUsed + 1))) (\<lambda>_.
        lift_control (RequireQuotaAtMost (rp_Controls rp) (md_controls db) tenantID
          QuotaMediaParticipantsPerSpace (spaceUsed + 1))))"

subsection \<open>The common start of joining and of a credential\<close>

text \<open>
  Both lock the space, authorize the actor to join, and require an open, unlocked space whose
  source admits joins.  \<open>stale\<close> is the version check that only a join attempt makes, between
  the feature and the state of the space.
\<close>

definition join_space ::
  "'c lifecycle_repository \<Rightarrow> 'c media_db \<Rightarrow> access_context \<Rightarrow> tenant_context \<Rightarrow> uuid \<Rightarrow>
   (space_row \<Rightarrow> bool) \<Rightarrow> lifecycle_error + space_row \<times> authorized_source" where
  "join_space rp db access scope spaceID stale =
     (case loadSpace db (tc_TenantID scope) spaceID of
        None \<Rightarrow> Inl ErrSpaceNotFound
      | Some space \<Rightarrow>
          try_res (concealJoinSourceError
              (authorizeSource rp db access scope space PermissionSessionJoin False False)) (\<lambda>source.
          try_res (require_feature rp db (tc_TenantID scope) FeatureClassroomMediaRooms) (\<lambda>_.
          if stale space then Inl ErrJoinAttemptStale
          else if ms_Status space \<noteq> SpaceStatusOpen then Inl ErrRoomNotOpen
          else if ms_Locked space then Inl ErrRoomLocked
          else if \<not> sourceAvailableForJoin source then Inl ErrRoomNotOpen
          else Inr (space, source))))"

definition room_joinable :: "room_row \<Rightarrow> bool" where
  "room_joinable r \<longleftrightarrow> rm_Status r = RoomInstanceActive \<and> rm_ProviderRoomSID r \<noteq> None \<and>
     rm_ProviderRoomName r \<noteq> []"

subsection \<open>Join attempts\<close>

record join_attempt_input =
  ji_JoinAttemptID :: uuid
  ji_ExpectedRoomInstanceID :: uuid
  ji_ExpectedSpaceVersion :: int

text \<open>\<open>JoinAttemptStatus\<close>: its constants, and the status columns a conversion can also yield.\<close>

datatype join_attempt_status =
    JoinAttemptWaiting | JoinAttemptAdmitted | JoinAttemptJoining | JoinAttemptDenied
  | JoinAttemptCancelled | JoinAttemptMeetingEnded | JoinAttemptTimeout
  | JoinAttemptProviderUnavailable | JoinAttemptOther participant_status

fun attempt_status :: "participant_status \<Rightarrow> join_attempt_status" where
  "attempt_status ParticipantWaiting = JoinAttemptWaiting"
| "attempt_status ParticipantAdmitted = JoinAttemptAdmitted"
| "attempt_status ParticipantJoining = JoinAttemptJoining"
| "attempt_status st = JoinAttemptOther st"

record join_attempt =
  ja_ParticipantSessionID :: uuid
  ja_RoomInstanceID :: uuid
  ja_AdmissionRequestID :: "uuid option"
  ja_AdmissionVersion :: "int option"
  ja_JoinAttemptID :: uuid
  ja_Status :: join_attempt_status
  ja_Version :: int
  ja_InstanceRole :: instance_role
  ja_CanPublishCameraMicrophone :: bool
  ja_CanShareScreen :: bool
  ja_CanSubscribe :: bool
  ja_CreatedAt :: instant
  ja_UpdatedAt :: instant
  ja_ExpiresAt :: "instant option"

definition defaultLobbyAdmissionTTL :: duration where
  "defaultLobbyAdmissionTTL = 10 * time_Minute"

text \<open>The bytes that \<open>joinAttemptRequestFingerprint\<close> hashes.\<close>

definition join_attempt_preimage :: "uuid \<Rightarrow> join_attempt_input \<Rightarrow> string" where
  "join_attempt_preimage spaceID input = ''media.join_attempt.v1'' @ [CHR 0x00] @
     uuid_String spaceID @ [CHR 0x00] @ uuid_String (ji_ExpectedRoomInstanceID input) @ [CHR 0x00] @
     uuid_String (ji_JoinAttemptID input) @ [CHR 0x00] @ itoa (ji_ExpectedSpaceVersion input)"

definition projectJoinAttempt ::
  "participant_row \<Rightarrow> admission_row option \<Rightarrow> room_row \<Rightarrow> authorized_source \<Rightarrow> join_attempt" where
  "projectJoinAttempt p admission room source =
     \<lparr>ja_ParticipantSessionID = pa_ID p, ja_RoomInstanceID = rm_ID room,
      ja_AdmissionRequestID = pa_AdmissionID p, ja_AdmissionVersion = map_option ad_Version admission,
      ja_JoinAttemptID = pa_JoinAttemptID p, ja_Status = attempt_status (pa_Status p),
      ja_Version = pa_Version p,
      ja_InstanceRole = pa_InstanceRole p,
      ja_CanPublishCameraMicrophone = as_CanPublishCameraMicrophone source,
      ja_CanShareScreen = as_CanShareScreen source, ja_CanSubscribe = True,
      ja_CreatedAt = pa_CreatedAt p,
      ja_UpdatedAt = pa_UpdatedAt p,
      ja_ExpiresAt = map_option (\<lambda>a. ad_CreatedAt a + defaultLobbyAdmissionTTL) admission\<rparr>"

text \<open>The uuids \<open>newID\<close> draws, in this order.\<close>

record join_ids =
  jd_ID :: uuid
  jd_ParticipantKey :: uuid
  jd_Identity :: uuid
  jd_AdmissionID :: uuid

definition new_admission ::
  "tenant_context \<Rightarrow> uuid \<Rightarrow> uuid \<Rightarrow> uuid \<Rightarrow> uuid \<Rightarrow> string \<Rightarrow> instant \<Rightarrow> admission_row" where
  "new_admission scope spaceID roomID admissionID attemptID fingerprint now =
     \<lparr>ad_ID = admissionID, ad_TenantID = tc_TenantID scope, ad_SpaceID = spaceID, ad_RoomID = roomID,
      ad_UserID = tc_ActorID scope, ad_Status = AdmissionWaiting, ad_Version = 1,
      ad_IdempotencyKey = uuid_String attemptID, ad_Fingerprint = fingerprint,
      ad_ResolvedAt = None, ad_ResolvedBy = None, ad_ResolutionCode = None,
      ad_CreatedAt = now, ad_UpdatedAt = now\<rparr>"

definition new_participant ::
  "tenant_context \<Rightarrow> uuid \<Rightarrow> uuid \<Rightarrow> join_ids \<Rightarrow> uuid \<Rightarrow> instance_role \<Rightarrow> bool \<Rightarrow> int \<Rightarrow> instant \<Rightarrow>
   participant_row" where
  "new_participant scope spaceID roomID ids attemptID role lobby sequence now =
     \<lparr>pa_ID = jd_ID ids, pa_TenantID = tc_TenantID scope, pa_SpaceID = spaceID, pa_RoomID = roomID,
      pa_UserID = tc_ActorID scope, pa_AdmissionID = (if lobby then Some (jd_AdmissionID ids) else None),
      pa_JoinAttemptID = attemptID, pa_ProviderIdentity = opaqueParticipantIdentity (jd_Identity ids),
      pa_ParticipantKey = jd_ParticipantKey ids, pa_RosterSequence = sequence, pa_InstanceRole = role,
      pa_Status = (if lobby then ParticipantWaiting else ParticipantAdmitted),
      pa_CapacityReserved = True, pa_Version = 1,
      pa_AdmittedAt = (if lobby then None else Some now), pa_JoiningAt = None, pa_ConnectedAt = None,
      pa_ReconnectingAt = None, pa_TerminalAt = None, pa_RemovedBy = None, pa_FailureCode = None,
      pa_RejoinRestoredAt = None, pa_RejoinRestoredBy = None, pa_CreatedAt = now, pa_UpdatedAt = now\<rparr>"

text \<open>
  \<open>UPDATE ... SET next_roster_sequence = next_roster_sequence + 1 ... RETURNING next_roster_sequence\<close>
\<close>

definition allocate_roster_sequence ::
  "uuid \<Rightarrow> uuid \<Rightarrow> uuid \<Rightarrow> 'c media_db \<Rightarrow> lifecycle_error + int \<times> 'c media_db" where
  "allocate_roster_sequence tenantID spaceID roomID db =
     (case find_room db tenantID spaceID roomID of
        None \<Rightarrow> Inl ErrLifecycleUnavailable
      | Some room \<Rightarrow>
          try_res (constrained rooms_ok ErrLifecycleUnavailable (update_where
              (\<lambda>r. rm_TenantID r = tenantID \<and> rm_SpaceID r = spaceID \<and> rm_ID r = roomID)
              (\<lambda>r. r\<lparr>rm_NextRosterSequence := rm_NextRosterSequence r + 1\<rparr>) (md_rooms db))) (\<lambda>rows.
            Inr (rm_NextRosterSequence room + 1, db\<lparr>md_rooms := rows\<rparr>)))"

definition insert_participant ::
  "participant_row \<Rightarrow> 'c media_db \<Rightarrow> lifecycle_error + 'c media_db" where
  "insert_participant p db =
     try_res (constrained participants_ok ErrLifecycleUnavailable (md_participants db @ [p])) (\<lambda>rows.
       Inr (db\<lparr>md_participants := rows\<rparr>))"

definition insert_admission :: "admission_row \<Rightarrow> 'c media_db \<Rightarrow> lifecycle_error + 'c media_db" where
  "insert_admission a db =
     try_res (constrained admissions_ok ErrLifecycleUnavailable (md_admissions db @ [a])) (\<lambda>rows.
       Inr (db\<lparr>md_admissions := rows\<rparr>))"

text \<open>A retry of a known attempt.\<close>

definition reuse_join_attempt ::
  "'c media_db \<Rightarrow> tenant_context \<Rightarrow> space_row \<Rightarrow> room_row \<Rightarrow> authorized_source \<Rightarrow> participant_row \<Rightarrow>
   string \<Rightarrow> lifecycle_error + join_attempt" where
  "reuse_join_attempt db scope space room source existing fingerprint =
     (if pa_Status existing \<notin> {ParticipantWaiting, ParticipantAdmitted, ParticipantJoining}
        then Inl ErrParticipantConflict
      else if pa_InstanceRole existing \<noteq> as_InstanceRole source then Inl ErrParticipantConflict
      else
        try_res (if pa_Status existing = ParticipantWaiting
            then validateWaitingAdmission db (tc_TenantID scope) (ms_ID space) (rm_ID room)
              (tc_ActorID scope) existing fingerprint
            else Inr ()) (\<lambda>_.
          Inr (projectJoinAttempt existing (participant_admission db existing) room source)))"

text \<open>A new attempt, with an admission request where the lobby holds attendees back.\<close>

definition create_join_attempt ::
  "'c lifecycle_repository \<Rightarrow> tenant_context \<Rightarrow> space_row \<Rightarrow> room_row \<Rightarrow> authorized_source \<Rightarrow> join_ids \<Rightarrow>
   uuid \<Rightarrow> string \<Rightarrow> instant \<Rightarrow> 'c media_db \<Rightarrow> lifecycle_error + join_attempt \<times> 'c media_db" where
  "create_join_attempt rp scope space room source ids attemptID fingerprint now db =
     (let tenantID = tc_TenantID scope;
          lobby = (ms_LobbyEnabled space \<and> as_InstanceRole source = InstanceRoleAttendee);
          admission = new_admission scope (ms_ID space) (rm_ID room) (jd_AdmissionID ids) attemptID
            fingerprint now in
      if hasActiveParticipant db tenantID (rm_ID room) (tc_ActorID scope)
        then Inl ErrParticipantConflict
      else if hasUnrestoredRemovalBarrier db tenantID (ms_ID space) (rm_ID room) (tc_ActorID scope)
        then Inl ErrParticipantConflict
      else
        try_res (requireParticipantCapacity rp db tenantID (ms_ID space)) (\<lambda>_.
        if jd_ID ids = uuid_Nil \<or> jd_ParticipantKey ids = uuid_Nil \<or>
           \<not> validProviderIdentifier (opaqueParticipantIdentity (jd_Identity ids)) 128
          then Inl ErrLifecycleUnavailable
        else
          try_res (allocate_roster_sequence tenantID (ms_ID space) (rm_ID room) db) (\<lambda>(sequence, db1).
          try_res (if lobby
              then (if jd_AdmissionID ids = uuid_Nil then Inl ErrLifecycleUnavailable
                    else insert_admission admission db1)
              else Inr db1) (\<lambda>db2.
          let p = new_participant scope (ms_ID space) (rm_ID room) ids attemptID
                (as_InstanceRole source) lobby sequence now in
          try_res (insert_participant p db2) (\<lambda>db3.
            Inr (projectJoinAttempt p (if lobby then Some admission else None) room source, db3))))))"

definition CreateOrReuseJoinAttempt ::
  "(string \<Rightarrow> string) \<Rightarrow> 'c lifecycle_repository \<Rightarrow> access_context \<Rightarrow> uuid \<Rightarrow> join_attempt_input \<Rightarrow>
   join_ids \<Rightarrow> instant \<Rightarrow> 'c media_db \<Rightarrow> lifecycle_error + (join_attempt \<times> bool) \<times> 'c media_db" where
  "CreateOrReuseJoinAttempt sha256 rp access0 spaceID input ids now db =
     (if spaceID = uuid_Nil \<or> ji_JoinAttemptID input = uuid_Nil \<or>
         ji_ExpectedRoomInstanceID input = uuid_Nil \<or> ji_ExpectedSpaceVersion input < 1 \<or>
         ac_SessionID access0 = uuid_Nil then Inl ErrInvalidJoinAttempt
      else
        try_res (requireActiveScope db access0) (\<lambda>(access, scope).
        try_res (join_space rp db access scope spaceID
            (\<lambda>space. ms_Version space \<noteq> ji_ExpectedSpaceVersion input)) (\<lambda>(space, source0).
        case loadActiveRoom db (tc_TenantID scope) (ms_ID space) of
          None \<Rightarrow> Inl ErrRoomNotOpen
        | Some room \<Rightarrow>
            if rm_ID room \<noteq> ji_ExpectedRoomInstanceID input then Inl ErrJoinAttemptStale
            else if \<not> room_joinable room then Inl ErrRoomNotOpen
            else
              let source = resolveEffectiveCredentialSource db (tc_TenantID scope) (rm_ID room)
                    (tc_ActorID scope) source0;
                  fingerprint = sha256 (join_attempt_preimage spaceID input) in
              (case loadParticipantByAttempt db (tc_TenantID scope) (rm_ID room) (tc_ActorID scope)
                  (ji_JoinAttemptID input) of
                 Some existing \<Rightarrow>
                   try_res (reuse_join_attempt db scope space room source existing fingerprint)
                     (\<lambda>attempt. Inr ((attempt, False), db))
               | None \<Rightarrow>
                   try_res (create_join_attempt rp scope space room source ids (ji_JoinAttemptID input)
                       fingerprint now db) (\<lambda>(attempt, db1). Inr ((attempt, True), db1))))))"

subsection \<open>Credentials\<close>

definition mediaCredentialRateLimit :: int where
  "mediaCredentialRateLimit = 30"

definition mediaCredentialRateWindow :: duration where
  "mediaCredentialRateWindow = 10 * time_Minute"

definition consumeMediaCredentialRateLimit ::
  "uuid \<Rightarrow> uuid \<Rightarrow> uuid \<Rightarrow> instant \<Rightarrow> 'c media_db \<Rightarrow> lifecycle_error + 'c media_db" where
  "consumeMediaCredentialRateLimit tenantID actorID sessionID now db =
     (let start = time_Truncate now mediaCredentialRateWindow in
      case upsert_window (tenantID, actorID, sessionID) start mediaCredentialRateLimit
          (md_credentials db) of
        (None, _) \<Rightarrow>
          let retryAfter = start + mediaCredentialRateWindow - now in
          Inl (CredentialRateLimitError (if retryAfter < time_Second then time_Second else retryAfter))
      | (Some _, windows) \<Rightarrow> Inr (db\<lparr>md_credentials := windows\<rparr>))"

record credential_grant =
  cg_ParticipantSessionID :: uuid
  cg_ParticipantKey :: uuid
  cg_RoomInstanceID :: uuid
  cg_JoinAttemptID :: uuid
  cg_ProviderRoomName :: string
  cg_ProviderParticipantIdentity :: string
  cg_ParticipantName :: string
  cg_InstanceRole :: instance_role
  cg_CanPublishCameraMicrophone :: bool
  cg_CanShareScreen :: bool

definition participantGrant ::
  "access_context \<Rightarrow> room_row \<Rightarrow> participant_row \<Rightarrow> authorized_source \<Rightarrow> credential_grant" where
  "participantGrant access room p source =
     \<lparr>cg_ParticipantSessionID = pa_ID p, cg_ParticipantKey = pa_ParticipantKey p,
      cg_RoomInstanceID = rm_ID room, cg_JoinAttemptID = pa_JoinAttemptID p,
      cg_ProviderRoomName = rm_ProviderRoomName room,
      cg_ProviderParticipantIdentity = pa_ProviderIdentity p,
      cg_ParticipantName = trim_space (ac_DisplayName access), cg_InstanceRole = pa_InstanceRole p,
      cg_CanPublishCameraMicrophone = as_CanPublishCameraMicrophone source,
      cg_CanShareScreen = as_CanShareScreen source\<rparr>"

text \<open>An UPDATE of the participants that must affect a row, then the roster projection.\<close>

definition update_participant ::
  "lifecycle_error \<Rightarrow> (participant_row \<Rightarrow> bool) \<Rightarrow> (participant_row \<Rightarrow> participant_row) \<Rightarrow> 'c media_db \<Rightarrow>
   lifecycle_error + 'c media_db" where
  "update_participant e P f db =
     try_res (constrained participants_ok ErrLifecycleUnavailable
         (update_where P f (md_participants db))) (\<lambda>rows.
       if count_where P (md_participants db) = 0 then Inl e
       else Inr (db\<lparr>md_participants := rows\<rparr>))"

definition attempt_in_status ::
  "uuid \<Rightarrow> uuid \<Rightarrow> uuid \<Rightarrow> uuid \<Rightarrow> participant_status \<Rightarrow> participant_row \<Rightarrow> bool" where
  "attempt_in_status tenantID roomID userID attemptID status r \<longleftrightarrow> pa_TenantID r = tenantID \<and>
     pa_RoomID r = roomID \<and> pa_UserID r = userID \<and> pa_JoinAttemptID r = attemptID \<and>
     pa_Status r = status"

definition join_participant :: "instance_role \<Rightarrow> instant \<Rightarrow> participant_row \<Rightarrow> participant_row" where
  "join_participant role now r = r\<lparr>pa_Status := ParticipantJoining, pa_InstanceRole := role,
     pa_Version := pa_Version r + 1, pa_JoiningAt := Some now, pa_UpdatedAt := now\<rparr>"

definition refresh_participant_role :: "instance_role \<Rightarrow> instant \<Rightarrow> participant_row \<Rightarrow> participant_row" where
  "refresh_participant_role role now r =
     r\<lparr>pa_InstanceRole := role, pa_Version := pa_Version r + 1, pa_UpdatedAt := now\<rparr>"

definition advance_participant ::
  "tenant_context \<Rightarrow> space_row \<Rightarrow> room_row \<Rightarrow> participant_row \<Rightarrow> authorized_source \<Rightarrow> instant \<Rightarrow> 'c media_db \<Rightarrow>
   lifecycle_error + participant_row \<times> 'c media_db" where
  "advance_participant scope space room existing source now db =
     (let at = attempt_in_status (tc_TenantID scope) (rm_ID room) (tc_ActorID scope)
            (pa_JoinAttemptID existing);
          role = as_InstanceRole source;
          advance = (\<lambda>db1. as_unavailable (advanceMediaRosterProjection (tc_TenantID scope)
            (ms_ID space) (rm_ID room) db1)) in
      if pa_Status existing = ParticipantAdmitted then
        try_res (update_participant ErrParticipantConflict (at ParticipantAdmitted)
            (join_participant role now) db) (\<lambda>db1.
        try_res (advance db1) (\<lambda>db2. Inr (join_participant role now existing, db2)))
      else if pa_InstanceRole existing \<noteq> role then
        try_res (update_participant ErrParticipantConflict (at ParticipantJoining)
            (refresh_participant_role role now) db) (\<lambda>db1.
        try_res (advance db1) (\<lambda>db2. Inr (refresh_participant_role role now existing, db2)))
      else Inr (existing, db))"

definition PrepareCredential ::
  "'c lifecycle_repository \<Rightarrow> access_context \<Rightarrow> uuid \<Rightarrow> uuid \<Rightarrow> instant \<Rightarrow> 'c media_db \<Rightarrow>
   lifecycle_error + credential_grant \<times> 'c media_db" where
  "PrepareCredential rp access0 spaceID attemptID now db =
     (if spaceID = uuid_Nil \<or> attemptID = uuid_Nil \<or> ac_SessionID access0 = uuid_Nil
        then Inl ErrInvalidCredentialRequest
      else
        try_res (requireActiveScope db access0) (\<lambda>(access, scope).
        try_res (join_space rp db access scope spaceID (\<lambda>_. False)) (\<lambda>(space, source0).
        case loadActiveRoom db (tc_TenantID scope) (ms_ID space) of
          None \<Rightarrow> Inl ErrRoomNotOpen
        | Some room \<Rightarrow>
            if \<not> room_joinable room then Inl ErrRoomNotOpen
            else
              let source = resolveEffectiveCredentialSource db (tc_TenantID scope) (rm_ID room)
                    (tc_ActorID scope) source0 in
              (case loadParticipantByAttempt db (tc_TenantID scope) (rm_ID room) (tc_ActorID scope)
                  attemptID of
                 None \<Rightarrow> Inl ErrParticipantConflict
               | Some existing \<Rightarrow>
                   if pa_Status existing = ParticipantWaiting then Inl ErrAdmissionRequired
                   else if pa_Status existing \<notin> {ParticipantAdmitted, ParticipantJoining}
                     then Inl ErrParticipantConflict
                   else
                     try_res (if ms_LobbyEnabled space \<and> as_InstanceRole source = InstanceRoleAttendee
                         then requireAdmittedAdmission db (tc_TenantID scope) (ms_ID space) (rm_ID room)
                           (tc_ActorID scope) existing
                         else Inr ()) (\<lambda>_.
                     try_res (consumeMediaCredentialRateLimit (tc_TenantID scope) (tc_ActorID scope)
                         (ac_SessionID access) now db) (\<lambda>db1.
                     try_res (advance_participant scope space room existing source now db1)
                       (\<lambda>(participant, db2).
                       Inr (participantGrant access room participant source, db2))))))))"

end
