(* ===== verification/Media_Webhooks.thy ===== *)
theory Media_Webhooks imports Media_Participants begin

section \<open>Provider webhooks (modules/media/postgres\_instance\_repository.go)\<close>

text \<open>
  \<open>RecordProviderWebhook\<close>: the room is found by the provider's identifiers, the event is
  classified, its receipt is inserted once, and the change it calls for is applied.
\<close>

record webhook_event =
  we_ID :: string
  we_EventType :: string
  we_RoomName :: string
  we_RoomSID :: string
  we_ParticipantIdentity :: string
  we_OccurredAt :: instant

record webhook_result =
  wt_Recorded :: bool
  wt_Duplicate :: bool
  wt_Ignored :: bool

definition providerReceiptRetention :: duration where
  "providerReceiptRetention = 30 * 24 * time_Hour"

definition providerWebhookMaxAge :: duration where
  "providerWebhookMaxAge = 24 * time_Hour"

definition providerWebhookFutureSkew :: duration where
  "providerWebhookFutureSkew = 5 * time_Minute"

subsection \<open>Finding the room\<close>

text \<open>A match of the identifier goes before a match of the name.\<close>

definition find_provider_room :: "webhook_event \<Rightarrow> room_row list \<Rightarrow> room_row option" where
  "find_provider_room event rows =
     (let sid = trim_space (we_RoomSID event); name = trim_space (we_RoomName event) in
      case find (\<lambda>r. sid \<noteq> [] \<and> rm_ProviderRoomSID r = Some sid) rows of
        Some r \<Rightarrow> Some r
      | None \<Rightarrow> find (\<lambda>r. name \<noteq> [] \<and> rm_ProviderRoomName r = name) rows)"

definition discoverProviderRoomTenant :: "'c media_db \<Rightarrow> webhook_event \<Rightarrow> uuid option" where
  "discoverProviderRoomTenant db event =
     map_option rm_TenantID (find_provider_room event (md_rooms db))"

definition loadProviderRoomBinding :: "'c media_db \<Rightarrow> uuid \<Rightarrow> webhook_event \<Rightarrow> room_row option" where
  "loadProviderRoomBinding db tenantID event =
     find_provider_room event (filter (\<lambda>r. rm_TenantID r = tenantID) (md_rooms db))"

definition loadWebhookParticipant :: "'c media_db \<Rightarrow> room_row \<Rightarrow> string \<Rightarrow> participant_row option" where
  "loadWebhookParticipant db binding identity =
     (if identity = [] then None
      else find (\<lambda>r. pa_TenantID r = rm_TenantID binding \<and> pa_SpaceID r = rm_SpaceID binding \<and>
        pa_RoomID r = rm_ID binding \<and> pa_ProviderIdentity r = identity) (md_participants db))"

subsection \<open>Times\<close>

definition participantLastTransition :: "participant_row \<Rightarrow> instant" where
  "participantLastTransition p =
     foldl (\<lambda>latest candidate. case candidate of None \<Rightarrow> latest
         | Some t \<Rightarrow> if t > latest then t else latest)
       (pa_CreatedAt p) [pa_ConnectedAt p, pa_ReconnectingAt p, pa_TerminalAt p]"

definition providerEventBefore :: "instant \<Rightarrow> instant \<Rightarrow> bool" where
  "providerEventBefore eventAt stateAt \<longleftrightarrow> eventAt < time_Truncate stateAt time_Second"

definition providerTransitionTime :: "instant \<Rightarrow> instant \<Rightarrow> instant" where
  "providerTransitionTime eventAt stateAt = (if eventAt < stateAt then stateAt else eventAt)"

subsection \<open>Changes\<close>

text \<open>The room of a binding, while it is in one of the given states.\<close>

definition bound_room :: "room_row \<Rightarrow> room_status \<Rightarrow> room_row \<Rightarrow> bool" where
  "bound_room binding status r \<longleftrightarrow> rm_TenantID r = rm_TenantID binding \<and>
     rm_SpaceID r = rm_SpaceID binding \<and> rm_ID r = rm_ID binding \<and> rm_Status r = status"

definition webhook_start :: "room_row \<Rightarrow> string \<Rightarrow> instant \<Rightarrow> 'c media_db \<Rightarrow> lifecycle_error + 'c media_db" where
  "webhook_start binding sid now =
     update_room ErrLifecycleUnavailable
       (\<lambda>r. bound_room binding RoomInstanceProvisioning r \<and> rm_ProviderRoomSID r \<in> {None, Some sid})
       (\<lambda>r. r\<lparr>rm_Status := RoomInstanceActive, rm_Version := rm_Version r + 1,
          rm_ProviderRoomSID := Some sid, rm_ActivatedAt := Some now, rm_UpdatedAt := now\<rparr>)"

definition fail_room :: "instant \<Rightarrow> room_row \<Rightarrow> room_row" where
  "fail_room now r = r\<lparr>rm_Status := RoomInstanceFailed, rm_Version := rm_Version r + 1,
     rm_FailedAt := Some now, rm_FailureCode := Some ''provider_room_finished'', rm_UpdatedAt := now\<rparr>"

definition webhook_finish ::
  "room_row \<Rightarrow> room_status \<Rightarrow> instant \<Rightarrow> 'c media_db \<Rightarrow> lifecycle_error + 'c media_db" where
  "webhook_finish binding status now db =
     try_res (update_room ErrLifecycleUnavailable (bound_room binding status) (fail_room now) db)
       (\<lambda>db1.
     try_res (expireOutstandingLobbyAdmissions (rm_TenantID binding) (rm_SpaceID binding)
         (rm_ID binding) None ''provider_unavailable'' now db1) (\<lambda>db2.
       failRoomParticipants (rm_TenantID binding) (rm_SpaceID binding) (rm_ID binding)
         ''provider_room_finished'' now db2))"

definition bound_participant ::
  "room_row \<Rightarrow> participant_row \<Rightarrow> participant_status set \<Rightarrow> participant_row \<Rightarrow> bool" where
  "bound_participant binding p statuses r \<longleftrightarrow> pa_TenantID r = rm_TenantID binding \<and>
     pa_SpaceID r = rm_SpaceID binding \<and> pa_RoomID r = rm_ID binding \<and> pa_ID r = pa_ID p \<and>
     pa_Status r \<in> statuses"

definition connect_participant :: "instant \<Rightarrow> participant_row \<Rightarrow> participant_row" where
  "connect_participant now r = r\<lparr>pa_Status := ParticipantConnected, pa_Version := pa_Version r + 1,
     pa_ConnectedAt := (case pa_ConnectedAt r of None \<Rightarrow> Some now | Some t \<Rightarrow> Some t),
     pa_ReconnectingAt := None, pa_UpdatedAt := now\<rparr>"

definition leave_participant :: "instant \<Rightarrow> participant_row \<Rightarrow> participant_row" where
  "leave_participant now r = r\<lparr>pa_Status := ParticipantLeft, pa_Version := pa_Version r + 1,
     pa_CapacityReserved := False, pa_TerminalAt := Some now, pa_ReconnectingAt := None,
     pa_UpdatedAt := now\<rparr>"

definition webhook_joined ::
  "room_row \<Rightarrow> participant_row \<Rightarrow> instant \<Rightarrow> 'c media_db \<Rightarrow> lifecycle_error + 'c media_db" where
  "webhook_joined binding p now db =
     try_res (update_participant ErrSpaceTransition
         (bound_participant binding p {ParticipantJoining, ParticipantReconnecting})
         (connect_participant now) db) (\<lambda>db1.
       advanceMediaRosterProjection (rm_TenantID binding) (rm_SpaceID binding) (rm_ID binding) db1)"

definition webhook_left ::
  "room_row \<Rightarrow> participant_row \<Rightarrow> instant \<Rightarrow> 'c media_db \<Rightarrow> lifecycle_error + 'c media_db" where
  "webhook_left binding p now db =
     try_res (update_participant ErrSpaceTransition
         (bound_participant binding p {ParticipantAdmitted, ParticipantJoining, ParticipantConnected,
            ParticipantReconnecting}) (leave_participant now) db) (\<lambda>db1.
       advanceMediaRosterProjection (rm_TenantID binding) (rm_SpaceID binding) (rm_ID binding)
         (db1\<lparr>md_hands := update_where
            (\<lambda>h. hs_TenantID h = rm_TenantID binding \<and> hs_RoomID h = rm_ID binding \<and>
               hs_ParticipantID h = pa_ID p \<and> hs_Raised h)
            (\<lambda>h. h\<lparr>hs_Raised := False\<rparr>) (md_hands db1)\<rparr>))"

subsection \<open>Classification\<close>

type_synonym 'c webhook_mutation = "('c media_db \<Rightarrow> lifecycle_error + 'c media_db) option"

definition classifyParticipantWebhook ::
  "room_row \<Rightarrow> participant_row option \<Rightarrow> webhook_event \<Rightarrow> instant \<Rightarrow> disposition \<times> 'c webhook_mutation" where
  "classifyParticipantWebhook binding participant event eventAt =
     (if rm_Status binding \<noteq> RoomInstanceActive then (IgnoredTerminal, None)
      else if trim_space (we_ParticipantIdentity event) = [] then (IgnoredUnknownParticipant, None)
      else case participant of
        None \<Rightarrow> (IgnoredUnknownParticipant, None)
      | Some p \<Rightarrow>
          let last_at = participantLastTransition p in
          if providerEventBefore eventAt last_at then (IgnoredStale, None)
          else
            let transitionAt = providerTransitionTime eventAt last_at in
            if we_EventType event = ''participant_joined'' then
              (if pa_Status p \<in> {ParticipantJoining, ParticipantReconnecting}
                 then (WebhookApplied, Some (webhook_joined binding p transitionAt))
               else if pa_Status p = ParticipantConnected then (IgnoredStale, None)
               else if pa_Status p \<in> {ParticipantLeft, ParticipantRemoved, ParticipantFailed}
                 then (IgnoredTerminal, None)
               else (IgnoredStale, None))
            else
              (if pa_Status p \<in> {ParticipantAdmitted, ParticipantJoining, ParticipantConnected,
                    ParticipantReconnecting}
                 then (WebhookApplied, Some (webhook_left binding p transitionAt))
               else if pa_Status p \<in> {ParticipantLeft, ParticipantRemoved, ParticipantFailed}
                 then (IgnoredTerminal, None)
               else (IgnoredStale, None)))"

definition classifyProviderWebhook ::
  "room_row \<Rightarrow> participant_row option \<Rightarrow> webhook_event \<Rightarrow> instant \<Rightarrow> disposition \<times> 'c webhook_mutation" where
  "classifyProviderWebhook binding participant event receivedAt =
     (let sid = trim_space (we_RoomSID event); name = trim_space (we_RoomName event);
          eventAt = we_OccurredAt event; eventType = trim_space (we_EventType event) in
      if (name \<noteq> [] \<and> name \<noteq> rm_ProviderRoomName binding) \<or>
         (rm_ProviderRoomSID binding \<noteq> None \<and> sid \<noteq> [] \<and> rm_ProviderRoomSID binding \<noteq> Some sid)
        then (IgnoredMismatch, None)
      else if providerEventBefore eventAt (rm_CreatedAt binding) \<or>
         eventAt < receivedAt - providerWebhookMaxAge \<or> eventAt > receivedAt + providerWebhookFutureSkew
        then (IgnoredStale, None)
      else if eventType = ''room_started'' then
        (if sid = [] then (IgnoredMismatch, None)
         else case rm_Status binding of
           RoomInstanceProvisioning \<Rightarrow> (WebhookApplied, Some (webhook_start binding sid
             (providerTransitionTime eventAt (rm_CreatedAt binding))))
         | RoomInstanceActive \<Rightarrow> (IgnoredStale, None)
         | _ \<Rightarrow> (IgnoredTerminal, None))
      else if eventType = ''room_finished'' then
        (case rm_Status binding of
           RoomInstanceActive \<Rightarrow>
             let stateAt = (case rm_ActivatedAt binding of None \<Rightarrow> rm_CreatedAt binding | Some t \<Rightarrow> t) in
             if providerEventBefore eventAt stateAt then (IgnoredStale, None)
             else (WebhookApplied, Some (webhook_finish binding RoomInstanceActive
               (providerTransitionTime eventAt stateAt)))
         | RoomInstanceProvisioning \<Rightarrow> (WebhookApplied, Some (webhook_finish binding
             RoomInstanceProvisioning (providerTransitionTime eventAt (rm_CreatedAt binding))))
         | RoomInstanceClosing \<Rightarrow> (IgnoredStale, None)
         | _ \<Rightarrow> (IgnoredTerminal, None))
      else if eventType = ''participant_joined'' \<or> eventType = ''participant_left''
        then classifyParticipantWebhook binding participant event eventAt
      else (IgnoredUnsupportedEvent, None))"

subsection \<open>The receipt and the transaction\<close>

text \<open>\<open>^[A-Za-z0-9_-]{1,128}$\<close> and \<open>^[a-z][a-z0-9_]{0,63}$\<close>.\<close>

definition webhook_check :: "webhook_receipt \<Rightarrow> bool" where
  "webhook_check r \<longleftrightarrow> wr_EventID r \<noteq> [] \<and> length (wr_EventID r) \<le> 128 \<and>
     list_all provider_name_char (wr_EventID r) \<and>
     wr_EventType r \<noteq> [] \<and> failure_code_valid (Some (wr_EventType r)) \<and>
     wr_ReceivedAt r < wr_RetentionUntil r \<and>
     wr_RetentionUntil r \<le> wr_ReceivedAt r + 30 * 24 * time_Hour"

definition insertProviderWebhookReceipt ::
  "room_row \<Rightarrow> participant_row option \<Rightarrow> webhook_event \<Rightarrow> disposition \<Rightarrow> instant \<Rightarrow> 'c media_db \<Rightarrow>
   lifecycle_error + bool \<times> 'c media_db" where
  "insertProviderWebhookReceipt binding participant event disp receivedAt db =
     (let row = \<lparr>wr_EventID = trim_space (we_ID event), wr_TenantID = rm_TenantID binding,
            wr_SpaceID = rm_SpaceID binding, wr_RoomID = rm_ID binding,
            wr_ParticipantID = (case participant of None \<Rightarrow> None
              | Some p \<Rightarrow> nullableLifecycleUUID (pa_ID p)),
            wr_EventType = trim_space (we_EventType event), wr_Disposition = disp,
            wr_OccurredAt = we_OccurredAt event, wr_ReceivedAt = receivedAt,
            wr_RetentionUntil = receivedAt + providerReceiptRetention\<rparr>
      in if \<not> webhook_check row then Inl ErrLifecycleUnavailable
         else if list_ex (\<lambda>r. wr_EventID r = wr_EventID row) (md_webhooks db) then Inr (False, db)
         else Inr (True, db\<lparr>md_webhooks := md_webhooks db @ [row]\<rparr>))"

definition webhook_participant :: "'c media_db \<Rightarrow> room_row \<Rightarrow> webhook_event \<Rightarrow> participant_row option" where
  "webhook_participant db binding event =
     (if we_EventType event = ''participant_joined'' \<or> we_EventType event = ''participant_left''
      then loadWebhookParticipant db binding (trim_space (we_ParticipantIdentity event)) else None)"

text \<open>The result, whether the room was found, and the database.\<close>

definition RecordProviderWebhook ::
  "webhook_event \<Rightarrow> instant \<Rightarrow> 'c media_db \<Rightarrow> lifecycle_error + (webhook_result \<times> bool) \<times> 'c media_db" where
  "RecordProviderWebhook event receivedAt db =
     (let ignored = \<lparr>wt_Recorded = False, wt_Duplicate = False, wt_Ignored = True\<rparr> in
      case discoverProviderRoomTenant db event of
        None \<Rightarrow> Inr ((ignored, False), db)
      | Some tenantID \<Rightarrow>
          (case loadProviderRoomBinding db tenantID event of
             None \<Rightarrow> Inr ((ignored, True), db)
           | Some binding \<Rightarrow>
               let participant = webhook_participant db binding event;
                   (disp, mutation) = classifyProviderWebhook binding participant event receivedAt in
               try_res (insertProviderWebhookReceipt binding participant event disp receivedAt db)
                 (\<lambda>(inserted, db1).
               if \<not> inserted
                 then Inr ((\<lparr>wt_Recorded = False, wt_Duplicate = True, wt_Ignored = False\<rparr>, True), db)
               else
                 try_res (case mutation of None \<Rightarrow> Inr db1 | Some m \<Rightarrow> as_unavailable (m db1)) (\<lambda>db2.
                   Inr ((\<lparr>wt_Recorded = True, wt_Duplicate = False,
                      wt_Ignored = (disp \<noteq> WebhookApplied)\<rparr>, True), db2)))))"

end
