(* ===== verification/Media_Effects.thy ===== *)
theory Media_Effects imports Media_Webhooks begin

section \<open>What the operations of the media repositories change\<close>

text \<open>
  For each transaction, the database it leaves behind, as an explicit update of the database it
  found.  The invariants and the properties rest on these equations and not on the definitions.
\<close>

subsection \<open>Scope and loads\<close>

lemma requireActiveScope_Inr:
  assumes "requireActiveScope db access0 = Inr (access, scope)"
  shows "scope = \<lparr>tc_TenantID = ac_TenantID access0, tc_ActorID = ac_ActorID access0\<rparr>"
    and "ac_TenantID access0 \<noteq> uuid_Nil" and "ac_ActorID access0 \<noteq> uuid_Nil"
    and "cd_tenants (md_controls db) (ac_TenantID access0) = Some ''active''"
    and "\<exists>role. cd_memberships (md_controls db) (ac_TenantID access0, ac_ActorID access0) =
      Some (role, ''active'') \<and> access = access0\<lparr>ac_MembershipActive := True, ac_OrganizationRoles := [role]\<rparr>"
  using assms by (auto simp: requireActiveScope_def split: if_splits option.splits)

lemma loadSpace_Some:
  "loadSpace db t s = Some row \<Longrightarrow> row \<in> set (md_spaces db) \<and> ms_TenantID row = t \<and> ms_ID row = s"
  by (auto simp: loadSpace_def dest: find_in_set)

lemma spaces_ok_ID: "spaces_ok rows \<Longrightarrow> unique_index (\<lambda>_. True) ms_ID rows"
  by (simp add: spaces_ok_def)

lemma rooms_ok_ID: "rooms_ok rows \<Longrightarrow> unique_index (\<lambda>_. True) rm_ID rows"
  by (simp add: rooms_ok_def)

lemma spaces_unique:
  "spaces_ok rows \<Longrightarrow> r \<in> set rows \<Longrightarrow> r' \<in> set rows \<Longrightarrow> ms_ID r = ms_ID r' \<Longrightarrow> r = r'"
  by (rule unique_indexD[OF spaces_ok_ID]) auto

lemma rooms_unique:
  "rooms_ok rows \<Longrightarrow> r \<in> set rows \<Longrightarrow> r' \<in> set rows \<Longrightarrow> rm_ID r = rm_ID r' \<Longrightarrow> r = r'"
  by (rule unique_indexD[OF rooms_ok_ID]) auto

lemma loadSpace_member:
  assumes "spaces_ok (md_spaces db)" and "row \<in> set (md_spaces db)"
  shows "loadSpace db (ms_TenantID row) (ms_ID row) = Some row"
proof -
  have "loadSpace db (ms_TenantID row) (ms_ID row) \<noteq> None"
    using assms(2) by (auto simp: loadSpace_def find_None_iff)
  then obtain r where "loadSpace db (ms_TenantID row) (ms_ID row) = Some r" by auto
  with loadSpace_Some[OF this] spaces_unique[OF assms(1), of r row] assms(2) show ?thesis by simp
qed

text \<open>The update of a loaded space touches that row alone.\<close>

lemma update_space_at:
  assumes "update_space (space_at scope row v st) f db = Inr (updated, db')"
    and "loadSpace db (tc_TenantID scope) (ms_ID row) = Some row"
    and "spaces_ok (md_spaces db)"
  shows "updated = f row \<and> ms_Version row = v \<and> ms_Status row = st \<and>
    spaces_ok (md_spaces db') \<and>
    db' = db\<lparr>md_spaces := update_where (\<lambda>r. ms_ID r = ms_ID row) f (md_spaces db)\<rparr>"
proof -
  obtain r where r: "find (space_at scope row v st) (md_spaces db) = Some r"
    and ok: "spaces_ok (update_where (space_at scope row v st) f (md_spaces db))"
    and res: "updated = f r" "db' = db\<lparr>md_spaces := update_where (space_at scope row v st) f (md_spaces db)\<rparr>"
    using assms(1) by (auto simp: update_space_def split: option.splits)
  have "r \<in> set (md_spaces db)" and at: "space_at scope row v st r"
    using find_in_set[OF r] by auto
  then have "r = row"
    using spaces_unique[OF assms(3), of r row] loadSpace_Some[OF assms(2)] by (simp add: space_at_def)
  have "update_where (space_at scope row v st) f (md_spaces db) =
      update_where (\<lambda>r. ms_ID r = ms_ID row) f (md_spaces db)"
    unfolding update_where_def
  proof (rule map_cong[OF refl])
    fix r' assume "r' \<in> set (md_spaces db)"
    then show "(if space_at scope row v st r' then f r' else r') = (if ms_ID r' = ms_ID row then f r' else r')"
      using spaces_unique[OF assms(3), of r' row] loadSpace_Some[OF assms(2)] at \<open>r = row\<close>
      by (auto simp: space_at_def)
  qed
  with res ok at \<open>r = row\<close> show ?thesis by (simp add: space_at_def)
qed

lemma try_prod_Inr:
  "try_res r (\<lambda>(a, b). k a b) = Inr y \<longleftrightarrow> (\<exists>a b. r = Inr (a, b) \<and> k a b = Inr y)"
  by (cases r) auto

lemma consume_rate_Inr:
  "consume_rate rp t key now db = Inr db' \<Longrightarrow> \<exists>controls. db' = db\<lparr>md_controls := controls\<rparr>"
  by (auto simp: consume_rate_def try_prod_Inr)

lemma transition_session_Inr:
  "transition_session rp scope sid src tgt now db = Inr db' \<longleftrightarrow>
     (\<exists>classes. src_TransitionMediaSession (rp_ClassSources rp) scope sid src tgt now (md_classes db) =
        Inr classes \<and> db' = db\<lparr>md_classes := classes\<rparr>)"
  by (auto simp: transition_session_def)

lemma insert_room_Inr:
  "insert_room row db = Inr db' \<longleftrightarrow>
     rooms_ok (md_rooms db @ [row]) \<and> db' = db\<lparr>md_rooms := md_rooms db @ [row]\<rparr>"
  by (auto simp: insert_room_def)

lemma appendMediaSpaceEvent_eq:
  "\<exists>ev. appendMediaSpaceEvent scope space ty reason safety now db = db\<lparr>md_events := md_events db @ [ev]\<rparr>"
  by (auto simp: appendMediaSpaceEvent_def append_event_def)

lemma loadSpace_frame [simp]:
  "loadSpace (db\<lparr>md_controls := c\<rparr>) t s = loadSpace db t s"
  "loadSpace (db\<lparr>md_classes := cl\<rparr>) t s = loadSpace db t s"
  "loadSpace (db\<lparr>md_rooms := rs\<rparr>) t s = loadSpace db t s"
  "loadSpace (db\<lparr>md_participants := ps\<rparr>) t s = loadSpace db t s"
  "loadSpace (db\<lparr>md_admissions := as\<rparr>) t s = loadSpace db t s"
  "loadSpace (db\<lparr>md_hands := hs\<rparr>) t s = loadSpace db t s"
  "loadSpace (db\<lparr>md_receipts := rc\<rparr>) t s = loadSpace db t s"
  "loadSpace (db\<lparr>md_events := ev\<rparr>) t s = loadSpace db t s"
  by (simp_all add: loadSpace_def)

subsection \<open>Start, cancel and recover\<close>

definition set_space :: "space_row \<Rightarrow> (space_row \<Rightarrow> space_row) \<Rightarrow> space_row list \<Rightarrow> space_row list" where
  "set_space row f rows = update_where (\<lambda>r. ms_ID r = ms_ID row) f rows"

lemma startSpace_effect:
  assumes start: "startSpace rp access scope row command db = Inr ((updated, rid), db')"
    and row: "loadSpace db (tc_TenantID scope) (ms_ID row) = Some row"
    and ok: "spaces_ok (md_spaces db)"
  shows "\<exists>source controls classes ev.
    ms_Status row = SpaceStatusScheduled \<and> rid = tr_RoomInstanceID command \<and> rid \<noteq> uuid_Nil \<and>
    authorizeSource rp db access scope row PermissionSessionStart True False = Inr source \<and>
    as_Status source = ''scheduled'' \<and>
    (if as_Kind source = SourceClassSession
     then src_TransitionMediaSession (rp_ClassSources rp) scope (as_ClassSessionID source)
       SessionStatusScheduled SessionStatusLive (tr_OccurredAt command) (md_classes db) = Inr classes
     else classes = md_classes db) \<and>
    updated = open_row (tc_ActorID scope) (tr_OccurredAt command) row \<and>
    db' = db\<lparr>md_controls := controls, md_rooms := md_rooms db @ [room_intent scope row command 1],
      md_spaces := set_space row (open_row (tc_ActorID scope) (tr_OccurredAt command)) (md_spaces db),
      md_classes := classes, md_events := md_events db @ [ev]\<rparr> \<and>
    spaces_ok (md_spaces db') \<and> rooms_ok (md_rooms db')"
proof -
  obtain source db1 db2 db3 db4 where st: "ms_Status row = SpaceStatusScheduled"
    "tr_RoomInstanceID command \<noteq> uuid_Nil" and rid: "rid = tr_RoomInstanceID command"
    and auth: "authorizeSource rp db access scope row PermissionSessionStart True False = Inr source"
    "as_Status source = ''scheduled''"
    and c1: "consume_rate rp (tc_TenantID scope) QuotaMediaSpaceStartsPerHour (tr_OccurredAt command) db = Inr db1"
    and c2: "insert_room (room_intent scope row command 1) db1 = Inr db2"
    and c3: "update_space (space_at scope row (tr_ExpectedVersion command) SpaceStatusScheduled)
      (open_row (tc_ActorID scope) (tr_OccurredAt command)) db2 = Inr (updated, db3)"
    and c4: "start_session rp scope source (tr_OccurredAt command) db3 = Inr db4"
    and db': "db' = appendMediaSpaceEvent scope updated ''media_space.started.v1'' (tr_ReasonCode command)
      False (tr_OccurredAt command) db4"
    using start by (auto simp: startSpace_def try_prod_Inr split: if_split_asm)
  from consume_rate_Inr[OF c1] obtain controls where d1: "db1 = db\<lparr>md_controls := controls\<rparr>" ..
  have d2: "db2 = db1\<lparr>md_rooms := md_rooms db1 @ [room_intent scope row command 1]\<rparr>"
    and rok: "rooms_ok (md_rooms db2)"
    using c2 by (auto simp: insert_room_Inr)
  have d3: "updated = open_row (tc_ActorID scope) (tr_OccurredAt command) row"
    "db3 = db2\<lparr>md_spaces := set_space row (open_row (tc_ActorID scope) (tr_OccurredAt command)) (md_spaces db2)\<rparr>"
    "spaces_ok (md_spaces db3)"
    using update_space_at[OF c3] row ok by (auto simp: d2 d1 set_space_def)
  obtain classes where d4: "db4 = db3\<lparr>md_classes := classes\<rparr>"
    and cl: "if as_Kind source = SourceClassSession
     then src_TransitionMediaSession (rp_ClassSources rp) scope (as_ClassSessionID source)
       SessionStatusScheduled SessionStatusLive (tr_OccurredAt command) (md_classes db) = Inr classes
     else classes = md_classes db"
    using c4 by (auto simp: start_session_def transition_session_Inr d3 d2 d1 split: if_splits)
  obtain ev where d5: "db' = db4\<lparr>md_events := md_events db4 @ [ev]\<rparr>"
    using appendMediaSpaceEvent_eq db' by metis
  show ?thesis
    apply (rule exI[of _ source], rule exI[of _ controls], rule exI[of _ classes], rule exI[of _ ev])
    using st rid auth cl d3 rok by (simp add: d5 d4 d3(2) d2 d1)
qed

lemma cancelSpace_effect:
  assumes cancel: "cancelSpace rp access scope row command db = Inr ((updated, rid), db')"
    and row: "loadSpace db (tc_TenantID scope) (ms_ID row) = Some row"
    and ok: "spaces_ok (md_spaces db)"
  shows "\<exists>source ev.
    ms_Status row = SpaceStatusScheduled \<and> rid = uuid_Nil \<and>
    authorizeSource rp db access scope row PermissionSessionEnd True False = Inr source \<and>
    updated = cancel_row (tc_ActorID scope) (tr_OccurredAt command) row \<and>
    db' = db\<lparr>md_spaces := set_space row (cancel_row (tc_ActorID scope) (tr_OccurredAt command)) (md_spaces db),
      md_events := md_events db @ [ev]\<rparr> \<and>
    spaces_ok (md_spaces db')"
proof -
  obtain source db1 where st: "ms_Status row = SpaceStatusScheduled" "rid = uuid_Nil"
    and auth: "authorizeSource rp db access scope row PermissionSessionEnd True False = Inr source"
    and c1: "update_space (space_at scope row (tr_ExpectedVersion command) SpaceStatusScheduled)
      (cancel_row (tc_ActorID scope) (tr_OccurredAt command)) db = Inr (updated, db1)"
    and db': "db' = appendMediaSpaceEvent scope updated ''media_space.cancelled.v1'' (tr_ReasonCode command)
      False (tr_OccurredAt command) db1"
    using cancel by (auto simp: cancelSpace_def try_prod_Inr split: if_split_asm)
  obtain ev where d2: "db' = db1\<lparr>md_events := md_events db1 @ [ev]\<rparr>"
    using appendMediaSpaceEvent_eq db' by metis
  have d1: "updated = cancel_row (tc_ActorID scope) (tr_OccurredAt command) row"
    "db1 = db\<lparr>md_spaces := set_space row (cancel_row (tc_ActorID scope) (tr_OccurredAt command)) (md_spaces db)\<rparr>"
    "spaces_ok (md_spaces db1)"
    using update_space_at[OF c1 row ok] by (auto simp: set_space_def)
  show ?thesis
    apply (rule exI[of _ source], rule exI[of _ ev])
    using st auth d1 by (simp add: d2 d1(2))
qed

lemma recoverSpace_effect:
  assumes recover: "recoverSpace rp access scope row command db = Inr ((updated, rid), db')"
    and row: "loadSpace db (tc_TenantID scope) (ms_ID row) = Some row"
    and ok: "spaces_ok (md_spaces db)"
  shows "\<exists>source previous ev.
    ms_Status row = SpaceStatusOpen \<and> \<not> ms_Locked row \<and> rid = tr_RoomInstanceID command \<and> rid \<noteq> uuid_Nil \<and>
    authorizeSource rp db access scope row PermissionSessionStart True False = Inr source \<and>
    recoverySourceStatusAllowed source \<and>
    loadLatestRoom db (tc_TenantID scope) (ms_ID row) = Some previous \<and>
    rm_ID previous = tr_ExpectedRoomInstanceID command \<and>
    rm_Version previous = tr_ExpectedRoomInstanceVersion command \<and>
    rm_Status previous = RoomInstanceFailed \<and>
    updated = recover_row (tc_ActorID scope) (tr_OccurredAt command) row \<and>
    db' = db\<lparr>md_rooms := md_rooms db @ [room_intent scope row command (rm_AttemptNumber previous + 1)],
      md_spaces := set_space row (recover_row (tc_ActorID scope) (tr_OccurredAt command)) (md_spaces db),
      md_events := md_events db @ [ev]\<rparr> \<and>
    spaces_ok (md_spaces db') \<and> rooms_ok (md_rooms db')"
proof -
  obtain source previous db1 db2 where st: "ms_Status row = SpaceStatusOpen" "\<not> ms_Locked row"
    "tr_RoomInstanceID command \<noteq> uuid_Nil" "rid = tr_RoomInstanceID command"
    and auth: "authorizeSource rp db access scope row PermissionSessionStart True False = Inr source"
    "recoverySourceStatusAllowed source"
    and prev: "loadLatestRoom db (tc_TenantID scope) (ms_ID row) = Some previous"
    "rm_ID previous = tr_ExpectedRoomInstanceID command"
    "rm_Version previous = tr_ExpectedRoomInstanceVersion command"
    "rm_Status previous = RoomInstanceFailed"
    and c1: "insert_room (room_intent scope row command (rm_AttemptNumber previous + 1)) db = Inr db1"
    and c2: "update_space (space_at scope row (tr_ExpectedVersion command) SpaceStatusOpen)
      (recover_row (tc_ActorID scope) (tr_OccurredAt command)) db1 = Inr (updated, db2)"
    and db': "db' = appendMediaSpaceEvent scope updated ''media_space.recovered.v1'' [] False
      (tr_OccurredAt command) db2"
    using recover by (auto simp: recoverSpace_def try_prod_Inr split: if_split_asm option.split_asm)
  have d1: "db1 = db\<lparr>md_rooms := md_rooms db @ [room_intent scope row command (rm_AttemptNumber previous + 1)]\<rparr>"
    and rok: "rooms_ok (md_rooms db1)"
    using c1 by (auto simp: insert_room_Inr)
  have d2: "updated = recover_row (tc_ActorID scope) (tr_OccurredAt command) row"
    "db2 = db1\<lparr>md_spaces := set_space row (recover_row (tc_ActorID scope) (tr_OccurredAt command)) (md_spaces db1)\<rparr>"
    "spaces_ok (md_spaces db2)"
    using update_space_at[OF c2] row ok by (auto simp: d1 set_space_def)
  obtain ev where d3: "db' = db2\<lparr>md_events := md_events db2 @ [ev]\<rparr>"
    using appendMediaSpaceEvent_eq db' by metis
  show ?thesis
    apply (rule exI[of _ source], rule exI[of _ previous], rule exI[of _ ev])
    using st auth prev d2 rok by (simp add: d3 d2(2) d1)
qed

subsection \<open>End\<close>

text \<open>The status a room is left in when its space ends.\<close>

fun final_status :: "room_status \<Rightarrow> room_status" where
  "final_status RoomInstanceProvisioning = RoomInstanceFailed"
| "final_status RoomInstanceFailed = RoomInstanceFailed"
| "final_status _ = RoomInstanceEnded"

text \<open>
  \<open>rows'\<close> are \<open>rows\<close> with changes that keep the identity of every room, and move the rooms
  picked by \<open>P\<close> from their status by \<open>g\<close>.
\<close>

definition room_identity :: "room_row \<Rightarrow> uuid \<times> uuid \<times> uuid \<times> int \<times> string" where
  "room_identity r = (rm_ID r, rm_TenantID r, rm_SpaceID r, rm_AttemptNumber r, rm_ProviderRoomName r)"

definition rooms_moved ::
  "(room_row \<Rightarrow> bool) \<Rightarrow> (room_status \<Rightarrow> room_status) \<Rightarrow> room_row list \<Rightarrow> room_row list \<Rightarrow> bool" where
  "rooms_moved P g rows rows' \<longleftrightarrow> list_all2 (\<lambda>r r'. room_identity r' = room_identity r \<and>
     rm_Status r' = (if P r then g (rm_Status r) else rm_Status r)) rows rows'"

definition rooms_same :: "room_row list \<Rightarrow> room_row list \<Rightarrow> bool" where
  "rooms_same rows rows' \<longleftrightarrow>
     list_all2 (\<lambda>r r'. room_identity r' = room_identity r \<and> rm_Status r' = rm_Status r) rows rows'"

lemma rooms_same_refl [simp]: "rooms_same rows rows"
  by (simp add: rooms_same_def list.rel_refl)

lemma rooms_same_trans: "rooms_same a b \<Longrightarrow> rooms_same b c \<Longrightarrow> rooms_same a c"
  by (auto simp: rooms_same_def list_all2_conv_all_nth)

lemma rooms_moved_none: "\<forall>r\<in>set rows. P r \<longrightarrow> g (rm_Status r) = rm_Status r \<Longrightarrow> rooms_moved P g rows rows"
  by (auto simp: rooms_moved_def list_all2_conv_all_nth)

lemma rooms_same_update:
  assumes "\<And>r. room_identity (f r) = room_identity r \<and> rm_Status (f r) = rm_Status r"
  shows "rooms_same rows (update_where Q f rows)"
  using assms by (auto simp: rooms_same_def update_where_def list_all2_conv_all_nth)

text \<open>A change that leaves the statuses alone can follow.\<close>

lemma rooms_moved_same: "rooms_moved P g a b \<Longrightarrow> rooms_same b c \<Longrightarrow> rooms_moved P g a c"
  by (auto simp: rooms_moved_def rooms_same_def list_all2_conv_all_nth)

text \<open>An UPDATE that picks, among the rows, those of \<open>P\<close>.\<close>

lemma rooms_moved_update:
  assumes "\<And>r. r \<in> set rows \<Longrightarrow> Q r = P r"
    and "\<And>r. r \<in> set rows \<Longrightarrow> P r \<Longrightarrow> room_identity (f r) = room_identity r \<and> rm_Status (f r) = g (rm_Status r)"
  shows "rooms_moved P g rows (update_where Q f rows)"
  using assms by (auto simp: rooms_moved_def update_where_def list_all2_conv_all_nth)

lemma update_room_Inr:
  "update_room e P f db = Inr db' \<longleftrightarrow> rooms_ok (update_where P f (md_rooms db)) \<and>
     count_where P (md_rooms db) = 1 \<and> db' = db\<lparr>md_rooms := update_where P f (md_rooms db)\<rparr>"
  by (auto simp: update_room_def)

lemma rooms_of_member:
  "r \<in> set (rooms_of db t s) \<longleftrightarrow> r \<in> set (md_rooms db) \<and> rm_TenantID r = t \<and> rm_SpaceID r = s"
  by (auto simp: rooms_of_def)

lemma latest_attempt_member: "latest_attempt rows = Some r \<Longrightarrow> r \<in> set rows"
  by (induction rows arbitrary: r) (auto split: option.splits if_splits)

lemma loadRoomForTermination_Some:
  "loadRoomForTermination db t s = Some r \<Longrightarrow>
     r \<in> set (md_rooms db) \<and> rm_TenantID r = t \<and> rm_SpaceID r = s \<and> rm_Status r \<noteq> RoomInstanceEnded"
  by (auto simp: loadRoomForTermination_def rooms_of_member room_live_def dest!: latest_attempt_member)

lemma terminateRoomIntent_effect:
  assumes ended: "terminateRoomIntent scope room now db = Inr db'"
    and room: "room \<in> set (md_rooms db)" "rm_TenantID room = tc_TenantID scope"
      "rm_Status room \<noteq> RoomInstanceEnded"
    and ok: "rooms_ok (md_rooms db)"
  shows "\<exists>rooms. db' = db\<lparr>md_rooms := rooms\<rparr> \<and> rooms_ok rooms \<and>
    rooms_moved (\<lambda>r. rm_ID r = rm_ID room) final_status (md_rooms db) rooms"
proof -
  have same: "r = room" if "r \<in> set (md_rooms db)" "rm_ID r = rm_ID room" for r
    using rooms_unique[OF ok that(1) room(1) that(2)] .
  show ?thesis
  proof (cases "rm_Status room")
    case RoomInstanceFailed
    then have "db' = db" using ended by (simp add: terminateRoomIntent_def)
    moreover have "rooms_moved (\<lambda>r. rm_ID r = rm_ID room) final_status (md_rooms db) (md_rooms db)"
      by (rule rooms_moved_none) (auto dest!: same simp: RoomInstanceFailed)
    ultimately show ?thesis using ok by (auto intro!: exI[of _ "md_rooms db"])
  next
    case RoomInstanceProvisioning
    then show ?thesis
      using ended room by (auto simp: terminateRoomIntent_def update_room_Inr room_identity_def
        intro!: exI rooms_moved_update dest!: same)
  qed (use ended room in \<open>auto simp: terminateRoomIntent_def update_room_Inr room_identity_def
        intro!: exI rooms_moved_update dest!: same\<close>)
qed

lemma expired_events:
  "\<exists>evs. fold (\<lambda>r. appendExpiredLobbyAdmissionEvent t a (f r) code now) rows db =
     db\<lparr>md_events := md_events db @ evs\<rparr>"
proof (induction rows arbitrary: db)
  case Nil
  show ?case by (rule exI[of _ "[]"]) simp
next
  case (Cons r rows)
  let ?db = "appendExpiredLobbyAdmissionEvent t a (f r) code now db"
  obtain ev where ev: "?db = db\<lparr>md_events := md_events db @ [ev]\<rparr>"
    by (simp add: appendExpiredLobbyAdmissionEvent_def append_event_def)
  obtain evs where "fold (\<lambda>r. appendExpiredLobbyAdmissionEvent t a (f r) code now) rows ?db =
      ?db\<lparr>md_events := md_events ?db @ evs\<rparr>"
    using Cons by blast
  then show ?case by (auto simp: ev intro!: exI[of _ "ev # evs"])
qed

lemma expire_Inr:
  assumes "expireOutstandingLobbyAdmissions t s rm resolver code now db = Inr db'"
  shows "\<exists>evs f. db' = db\<lparr>md_admissions := update_where (waiting_admission t s rm) f (md_admissions db),
      md_events := md_events db @ evs\<rparr> \<and> admissions_ok (md_admissions db') \<and>
      f = expire_admission (nullableLifecycleUUIDPointer resolver) code now"
proof -
  let ?f = "expire_admission (nullableLifecycleUUIDPointer resolver) code now"
  let ?rows = "update_where (waiting_admission t s rm) ?f (md_admissions db)"
  let ?a = "case resolver of None \<Rightarrow> uuid_Nil | Some a \<Rightarrow> a"
  have ok: "admissions_ok ?rows"
    and db': "fold (\<lambda>r. appendExpiredLobbyAdmissionEvent t ?a (?f r) code now)
      (filter (waiting_admission t s rm) (md_admissions db)) (db\<lparr>md_admissions := ?rows\<rparr>) = db'"
    using assms by (simp_all add: expireOutstandingLobbyAdmissions_def Let_def)
  obtain evs where "db' = db\<lparr>md_admissions := ?rows, md_events := md_events db @ evs\<rparr>"
    using expired_events[of t ?a ?f code now "filter (waiting_admission t s rm) (md_admissions db)"
        "db\<lparr>md_admissions := ?rows\<rparr>"] unfolding db' by auto
  with ok show ?thesis by auto
qed

lemma advance_Inr:
  assumes "advanceMediaRosterProjection t s rm db = Inr db'"
  shows "\<exists>rooms. db' = db\<lparr>md_rooms := rooms\<rparr> \<and> rooms_ok rooms \<and> rooms_same (md_rooms db) rooms"
  using assms unfolding advanceMediaRosterProjection_def update_room_Inr
  by (auto intro!: exI rooms_same_update simp: room_identity_def)

lemma settle_Inr:
  assumes "settle_participants t s rm f db = Inr db'" and "rooms_ok (md_rooms db)"
  shows "\<exists>hands rooms. db' = db\<lparr>
      md_participants := update_where (active_participant_of t s rm) f (md_participants db),
      md_hands := hands, md_rooms := rooms\<rparr> \<and>
    participants_ok (md_participants db') \<and> rooms_ok rooms \<and> rooms_same (md_rooms db) rooms"
proof -
  let ?P = "active_participant_of t s rm"
  obtain hands db1 where ok: "participants_ok (update_where ?P f (md_participants db))"
    and db1: "db1 = db\<lparr>md_participants := update_where ?P f (md_participants db), md_hands := hands\<rparr>"
    and rest: "db' = db1 \<or> advanceMediaRosterProjection t s rm db1 = Inr db'"
    using assms(1) by (auto simp: settle_participants_def Let_def split: if_splits)
  from rest obtain rooms where "db' = db1\<lparr>md_rooms := rooms\<rparr>" "rooms_ok rooms" "rooms_same (md_rooms db) rooms"
  proof
    assume "db' = db1"
    then show ?thesis using assms(2) that[of "md_rooms db"] by (simp add: db1)
  next
    assume "advanceMediaRosterProjection t s rm db1 = Inr db'"
    from advance_Inr[OF this] that show ?thesis by (auto simp: db1)
  qed
  then show ?thesis
    using ok by (intro exI[of _ hands] exI[of _ rooms]) (simp add: db1)
qed

abbreviation settled_as_left :: "instant \<Rightarrow> participant_row \<Rightarrow> participant_row" where
  "settled_as_left now r \<equiv> r\<lparr>pa_Status := ParticipantLeft, pa_Version := pa_Version r + 1,
     pa_CapacityReserved := False, pa_TerminalAt := Some now, pa_ReconnectingAt := None,
     pa_UpdatedAt := now\<rparr>"

lemma endSpace_effect:
  assumes ended: "endSpace rp access scope row command db = Inr ((updated, rid), db')"
    and row: "loadSpace db (tc_TenantID scope) (ms_ID row) = Some row"
    and ok: "spaces_ok (md_spaces db)" "rooms_ok (md_rooms db)"
  shows "\<exists>source room rooms hands classes evs resolver.
    ms_Status row = SpaceStatusOpen \<and> rid = rm_ID room \<and>
    authorizeSource rp db access scope row PermissionSessionEnd True True = Inr source \<and>
    (as_Kind source = SourceStudyMeeting \<and> as_SafetyAdmin source \<and> \<not> as_Owner source \<longrightarrow>
       tr_ReasonCode command \<noteq> []) \<and>
    loadRoomForTermination db (tc_TenantID scope) (ms_ID row) = Some room \<and>
    rooms_moved (\<lambda>r. rm_ID r = rm_ID room) final_status (md_rooms db) rooms \<and>
    (if as_Kind source = SourceClassSession \<and> as_Status source = ''live''
     then src_TransitionMediaSession (rp_ClassSources rp) scope (as_ClassSessionID source)
       SessionStatusLive SessionStatusEnded (tr_OccurredAt command) (md_classes db) = Inr classes
     else classes = md_classes db) \<and>
    updated = end_row (tc_ActorID scope) (tr_OccurredAt command) row \<and>
    db' = db\<lparr>md_admissions := update_where
        (waiting_admission (tc_TenantID scope) (ms_ID row) (rm_ID room))
        (expire_admission resolver ''meeting_ended'' (tr_OccurredAt command)) (md_admissions db),
      md_participants := update_where
        (active_participant_of (tc_TenantID scope) (ms_ID row) (rm_ID room))
        (settled_as_left (tr_OccurredAt command)) (md_participants db),
      md_hands := hands, md_rooms := rooms,
      md_spaces := set_space row (end_row (tc_ActorID scope) (tr_OccurredAt command)) (md_spaces db),
      md_classes := classes, md_events := md_events db @ evs\<rparr> \<and>
    spaces_ok (md_spaces db') \<and> rooms_ok (md_rooms db') \<and>
    participants_ok (md_participants db') \<and> admissions_ok (md_admissions db')"
proof -
  let ?t = "tc_TenantID scope" and ?s = "ms_ID row" and ?now = "tr_OccurredAt command"
  obtain source room db1 db2 db3 db4 db5 safety where st: "ms_Status row = SpaceStatusOpen" "rid = rm_ID room"
    and auth: "authorizeSource rp db access scope row PermissionSessionEnd True True = Inr source"
    "as_Kind source = SourceStudyMeeting \<and> as_SafetyAdmin source \<and> \<not> as_Owner source \<longrightarrow>
       tr_ReasonCode command \<noteq> []"
    and room: "loadRoomForTermination db ?t ?s = Some room"
    and c1: "terminateRoomIntent scope room ?now db = Inr db1"
    and c2: "expireOutstandingLobbyAdmissions ?t ?s (rm_ID room) (Some (tc_ActorID scope))
      ''meeting_ended'' ?now db1 = Inr db2"
    and c3: "terminateRoomParticipants ?t ?s (rm_ID room) ?now db2 = Inr db3"
    and c4: "update_space (space_at scope row (tr_ExpectedVersion command) SpaceStatusOpen)
      (end_row (tc_ActorID scope) ?now) db3 = Inr (updated, db4)"
    and c5: "end_session rp scope source ?now db4 = Inr db5"
    and db': "db' = appendMediaSpaceEvent scope updated ''media_space.ended.v1'' (tr_ReasonCode command)
      safety ?now db5"
    using ended by (auto simp: endSpace_def try_prod_Inr Let_def split: if_split_asm option.split_asm)
  obtain rooms1 where d1: "db1 = db\<lparr>md_rooms := rooms1\<rparr>" "rooms_ok rooms1"
    "rooms_moved (\<lambda>r. rm_ID r = rm_ID room) final_status (md_rooms db) rooms1"
    using terminateRoomIntent_effect[OF c1] loadRoomForTermination_Some[OF room] ok(2) by auto
  let ?resolver = "nullableLifecycleUUIDPointer (Some (tc_ActorID scope))"
  obtain evs where d2: "db2 = db1\<lparr>md_admissions := update_where (waiting_admission ?t ?s (rm_ID room))
      (expire_admission ?resolver ''meeting_ended'' ?now) (md_admissions db1),
      md_events := md_events db1 @ evs\<rparr>" "admissions_ok (md_admissions db2)"
    using expire_Inr[OF c2] by blast
  obtain hands rooms where d3: "db3 = db2\<lparr>
      md_participants := update_where (active_participant_of ?t ?s (rm_ID room)) (settled_as_left ?now)
        (md_participants db2), md_hands := hands, md_rooms := rooms\<rparr>"
    "participants_ok (md_participants db3)" "rooms_ok rooms" "rooms_same rooms1 rooms"
    using settle_Inr[OF c3[unfolded terminateRoomParticipants_def]] d1 d2 by auto
  have d4: "updated = end_row (tc_ActorID scope) ?now row"
    "db4 = db3\<lparr>md_spaces := set_space row (end_row (tc_ActorID scope) ?now) (md_spaces db3)\<rparr>"
    "spaces_ok (md_spaces db4)"
    using update_space_at[OF c4] row ok by (auto simp: d3(1) d2(1) d1(1) set_space_def)
  obtain classes where d5: "db5 = db4\<lparr>md_classes := classes\<rparr>"
    and cl: "if as_Kind source = SourceClassSession \<and> as_Status source = ''live''
     then src_TransitionMediaSession (rp_ClassSources rp) scope (as_ClassSessionID source)
       SessionStatusLive SessionStatusEnded ?now (md_classes db) = Inr classes
     else classes = md_classes db"
    using c5 by (auto simp: end_session_def transition_session_Inr d4(2) d3(1) d2(1) d1(1) split: if_splits)
  obtain ev where d6: "db' = db5\<lparr>md_events := md_events db5 @ [ev]\<rparr>"
    using appendMediaSpaceEvent_eq db' by metis
  show ?thesis
    apply (rule exI[of _ source], rule exI[of _ room], rule exI[of _ rooms], rule exI[of _ hands],
      rule exI[of _ classes], rule exI[of _ "evs @ [ev]"], rule exI[of _ ?resolver])
    using st auth room cl d4(1,3) d3(2-4) d2(2) rooms_moved_same[OF d1(3) d3(4)]
    by (simp add: d6 d5 d4(2) d3(1) d2(1) d1(1))
qed

end
