(* ===== verification/Media_Changes.thy ===== *)
theory Media_Changes imports Media_Effects begin

section \<open>What creating, activating, joining and the provider change\<close>

text \<open>
  The effects of the remaining transactions of the media repositories: \<open>CreateSpace\<close>,
  \<open>ActivateRoomInstance\<close>, the provider's webhooks, join attempts, credentials, and the effect
  of an ended room at the provider.
\<close>

abbreviation scope_of :: "access_context \<Rightarrow> tenant_context" where
  "scope_of access \<equiv> \<lparr>tc_TenantID = ac_TenantID access, tc_ActorID = ac_ActorID access\<rparr>"

subsection \<open>Creating a space\<close>

lemma insert_space_Inr:
  "insert_space row db = Inr db' \<longleftrightarrow>
     spaces_ok (md_spaces db @ [row]) \<and> db' = db\<lparr>md_spaces := md_spaces db @ [row]\<rparr>"
  by (auto simp: insert_space_def)

lemma create_row_effect:
  assumes "create_row rp access scope command source classID db = Inr ((space, created), db')"
  shows "\<exists>ev. created \<and> is_ok (requireActiveSpaceCapacity rp db (tc_TenantID scope) 1) \<and>
    sp_ID space = cc_SpaceID command \<and>
    db' = db\<lparr>md_spaces := md_spaces db @ [new_space_row scope command source classID],
      md_events := md_events db @ [ev]\<rparr> \<and>
    spaces_ok (md_spaces db')"
  using assms appendMediaSpaceEvent_eq
  by (auto simp: create_row_def Let_def insert_space_Inr is_ok_conv projectAuthorizedSpace_def
      appendMediaSpaceEvent_def append_event_def new_space_row_def split: sum.splits)

lemma insertInstantStudyMeeting_effect:
  "insertInstantStudyMeeting scope command db = Inr db' \<Longrightarrow>
     \<exists>ms ev. db' = db\<lparr>md_meetings := ms, md_events := md_events db @ [ev]\<rparr>"
  by (auto simp: insertInstantStudyMeeting_def Let_def append_event_def)

lemma CreateSpace_effect:
  assumes "CreateSpace rp access command db = Inr ((space, created), db')"
  shows "if created then
      \<exists>controls meetings source classID evs.
        is_ok (requireActiveSpaceCapacity rp (db\<lparr>md_controls := controls\<rparr>) (ac_TenantID access) 1) \<and>
        sp_ID space = cc_SpaceID command \<and>
        db' = db\<lparr>md_controls := controls, md_meetings := meetings,
          md_spaces := md_spaces db @ [new_space_row (scope_of access) command source classID],
          md_events := md_events db @ evs\<rparr> \<and> spaces_ok (md_spaces db')
    else db' = db"
proof -
  let ?scope = "scope_of access"
  obtain access' scope where a: "requireActiveScope db access = Inr (access', scope)"
    using assms unfolding CreateSpace_def by (cases "requireActiveScope db access") auto
  note scope = requireActiveScope_Inr(1)[OF a]
  obtain replay where replay: "loadCreateReplay rp db access' ?scope command = Inr replay"
    using assms unfolding CreateSpace_def a scope by (cases "loadCreateReplay rp db access' ?scope command") auto
  show ?thesis
  proof (cases replay)
    case (Some x)
    then show ?thesis using assms a replay by (auto simp: CreateSpace_def scope)
  next
    case None
    note rest = assms[unfolded CreateSpace_def a scope try_res_simps case_prod_conv replay None option.case]
    show ?thesis
    proof (cases "cs_Kind (cc_Source command) = SourceInstant")
      case True
      then obtain db1 db2 source where c1: "consume_rate rp (ac_TenantID access) QuotaStudyMeetingCreationsPerHour
            (cc_CreatedAt command) db = Inr db1"
        and c2: "insertInstantStudyMeeting ?scope command db1 = Inr db2"
        and c3: "create_row rp access' ?scope command source uuid_Nil db2 = Inr ((space, created), db')"
        using rest by auto
      obtain controls where d1: "db1 = db\<lparr>md_controls := controls\<rparr>" using consume_rate_Inr[OF c1] ..
      obtain ms ev where d2: "db2 = db1\<lparr>md_meetings := ms, md_events := md_events db1 @ [ev]\<rparr>"
        using insertInstantStudyMeeting_effect[OF c2] by blast
      obtain ev' where created and cap: "is_ok (requireActiveSpaceCapacity rp db2 (tc_TenantID ?scope) 1)"
        and d3: "db' = db2\<lparr>md_spaces := md_spaces db2 @ [new_space_row ?scope command source uuid_Nil],
          md_events := md_events db2 @ [ev']\<rparr>" "spaces_ok (md_spaces db')" "sp_ID space = cc_SpaceID command"
        using create_row_effect[OF c3] by blast
      show ?thesis
        using \<open>created\<close> cap d3(2,3) unfolding if_P[OF \<open>created\<close>]
        by (intro exI[of _ controls] exI[of _ ms] exI[of _ source] exI[of _ uuid_Nil] exI[of _ "[ev, ev']"])
          (simp add: d3(1) d2 d1 requireActiveSpaceCapacity_def)
    next
      case False
      then obtain source classID existing where
        existing: "as_unavailable (findSpaceBySource db (ac_TenantID access) source) = Inr existing"
        and k: "(case existing of Some row \<Rightarrow> try_res (projectAuthorizedSpace rp db access' ?scope row)
              (\<lambda>projected. Inr ((projected, False), db))
          | None \<Rightarrow> create_row rp access' ?scope command source classID db) = Inr ((space, created), db')"
        using rest by (auto simp: try_prod_Inr)
      show ?thesis
      proof (cases existing)
        case (Some row)
        then show ?thesis using k by auto
      next
        case None
        then obtain ev where created and cap: "is_ok (requireActiveSpaceCapacity rp db (tc_TenantID ?scope) 1)"
          and d: "db' = db\<lparr>md_spaces := md_spaces db @ [new_space_row ?scope command source classID],
            md_events := md_events db @ [ev]\<rparr>" "spaces_ok (md_spaces db')" "sp_ID space = cc_SpaceID command"
          using k[unfolded None option.case, THEN create_row_effect] by blast
        show ?thesis
          using \<open>created\<close> cap d(2,3) unfolding if_P[OF \<open>created\<close>]
          by (intro exI[of _ "md_controls db"] exI[of _ "md_meetings db"] exI[of _ source]
              exI[of _ classID] exI[of _ "[ev]"]) (simp add: d(1))
      qed
    qed
  qed
qed

subsection \<open>Activation\<close>

text \<open>A room that moves to another status, its identity and all the other rooms unchanged.\<close>

definition room_moved :: "room_row \<Rightarrow> room_status \<Rightarrow> 'c media_db \<Rightarrow> 'c media_db \<Rightarrow> bool" where
  "room_moved room st db db' \<longleftrightarrow> rooms_ok (md_rooms db') \<and>
     rooms_moved (\<lambda>r. rm_ID r = rm_ID room) (\<lambda>_. st) (md_rooms db) (md_rooms db')"

lemma count_where_member: "count_where P rows \<noteq> 0 \<Longrightarrow> \<exists>r\<in>set rows. P r"
  by (auto simp: count_where_zero)

lemma activate_binding_effect:
  assumes "activate_binding scope spaceID roomID sid now db = Inr db'" and "rooms_ok (md_rooms db)"
  shows "db' = db \<or> (\<exists>room\<in>set (md_rooms db). provisioning_room (tc_TenantID scope) spaceID roomID room \<and>
    (\<exists>rows. db' = db\<lparr>md_rooms := rows\<rparr>) \<and> room_moved room RoomInstanceActive db db')"
proof (cases "count_where (provisioning_room (tc_TenantID scope) spaceID roomID) (md_rooms db) = 0")
  case True
  then show ?thesis
    using assms(1) by (auto simp: activate_binding_def Let_def split: option.splits if_splits)
next
  case False
  let ?P = "provisioning_room (tc_TenantID scope) spaceID roomID"
  from count_where_member[OF False] obtain room where room: "room \<in> set (md_rooms db)" "?P room" by auto
  have same: "?P r = (rm_ID r = rm_ID room)" if "r \<in> set (md_rooms db)" for r
    using rooms_unique[OF assms(2) that room(1)] room(2) by (auto simp: provisioning_room_def)
  have "rooms_moved (\<lambda>r. rm_ID r = rm_ID room) (\<lambda>_. RoomInstanceActive) (md_rooms db)
      (update_where ?P (activate_room (tc_ActorID scope) sid now) (md_rooms db))"
    by (rule rooms_moved_update) (simp_all add: same activate_room_def room_identity_def)
  then show ?thesis
    using assms(1) False room by (auto simp: activate_binding_def Let_def room_moved_def)
qed

lemma ActivateRoomInstance_effect:
  assumes act: "ActivateRoomInstance rp access spaceID roomID sid now db = Inr (space, db')"
    and ok: "rooms_ok (md_rooms db)"
  shows "(\<exists>access' row source. loadSpace db (ac_TenantID access) spaceID = Some row \<and>
      ms_Status row = SpaceStatusOpen \<and> validProviderIdentifier sid 255 \<and>
      authorizeSource rp db access' (scope_of access) row PermissionSessionStart True False = Inr source) \<and>
    (db' = db \<or> (\<exists>room\<in>set (md_rooms db).
       provisioning_room (ac_TenantID access) spaceID roomID room \<and>
       (\<exists>rows. db' = db\<lparr>md_rooms := rows\<rparr>) \<and> room_moved room RoomInstanceActive db db'))"
proof -
  obtain access' scope row source db1 where a: "requireActiveScope db access = Inr (access', scope)"
    and row: "loadSpace db (tc_TenantID scope) spaceID = Some row" "ms_Status row = SpaceStatusOpen"
    and sid: "validProviderIdentifier sid 255"
    and auth: "authorizeSource rp db access' scope row PermissionSessionStart True False = Inr source"
    and c: "activate_binding scope spaceID roomID sid now db = Inr db1" and "db' = db1"
    using act by (auto simp: ActivateRoomInstance_def try_prod_Inr split: if_split_asm option.split_asm)
  from activate_binding_effect[OF c ok] row sid auth show ?thesis
    unfolding requireActiveScope_Inr(1)[OF a] \<open>db' = db1\<close> by auto
qed

subsection \<open>Webhooks\<close>

lemma find_provider_room_member:
  "find_provider_room event rows = Some r \<Longrightarrow> r \<in> set rows"
  by (auto simp: find_provider_room_def Let_def split: option.splits dest: find_in_set)

lemma loadProviderRoomBinding_member:
  "loadProviderRoomBinding db t event = Some r \<Longrightarrow> r \<in> set (md_rooms db) \<and> rm_TenantID r = t"
  by (auto simp: loadProviderRoomBinding_def dest!: find_provider_room_member)

lemma insertProviderWebhookReceipt_inserted:
  assumes "insertProviderWebhookReceipt binding participant event disp receivedAt db = Inr (True, db')"
  shows "\<exists>row. wr_EventID row = trim_space (we_ID event) \<and> wr_Disposition row = disp \<and>
    (\<forall>r\<in>set (md_webhooks db). wr_EventID r \<noteq> wr_EventID row) \<and>
    db' = db\<lparr>md_webhooks := md_webhooks db @ [row]\<rparr>"
proof -
  from assms obtain row where "wr_EventID row = trim_space (we_ID event)" "wr_Disposition row = disp"
    and k: "(if \<not> webhook_check row then Inl ErrLifecycleUnavailable
      else if list_ex (\<lambda>r. wr_EventID r = wr_EventID row) (md_webhooks db) then Inr (False, db)
      else Inr (True, db\<lparr>md_webhooks := md_webhooks db @ [row]\<rparr>)) = Inr (True, db')"
  proof -
    from assms[unfolded insertProviderWebhookReceipt_def Let_def] show thesis
      by (rule that[rotated 2]) simp_all
  qed
  then show ?thesis by (auto simp: list_ex_iff split: if_splits)
qed

lemma RecordProviderWebhook_effect:
  fixes db :: "'c media_db"
  assumes "RecordProviderWebhook event receivedAt db = Inr ((result, found), db')"
  shows "if wt_Recorded result then
      \<exists>binding row mutation. binding \<in> set (md_rooms db) \<and>
        wr_EventID row = trim_space (we_ID event) \<and>
        (\<forall>r\<in>set (md_webhooks db). wr_EventID r \<noteq> wr_EventID row) \<and>
        classifyProviderWebhook binding (webhook_participant db binding event) event receivedAt =
          (wr_Disposition row, mutation) \<and>
        (case mutation of None \<Rightarrow> db' = db\<lparr>md_webhooks := md_webhooks db @ [row]\<rparr>
         | Some m \<Rightarrow> m (db\<lparr>md_webhooks := md_webhooks db @ [row]\<rparr>) = Inr db')
    else db' = db"
proof -
  note call = assms[unfolded RecordProviderWebhook_def Let_def]
  show ?thesis
  proof (cases "discoverProviderRoomTenant db event")
    case None
    then show ?thesis using call by auto
  next
    case (Some tenantID)
    show ?thesis
    proof (cases "loadProviderRoomBinding db tenantID event")
      case None
      then show ?thesis using call Some by auto
    next
      case (Some binding)
      obtain disp and mutation :: "'c webhook_mutation" where cls: "classifyProviderWebhook binding (webhook_participant db binding event)
          event receivedAt = (disp, mutation)" by (meson surj_pair)
      note call = call[unfolded \<open>discoverProviderRoomTenant db event = Some tenantID\<close> Some option.case
          cls case_prod_conv try_prod_Inr]
      then obtain inserted db1 where ins: "insertProviderWebhookReceipt binding
          (webhook_participant db binding event) event disp receivedAt db = Inr (inserted, db1)"
        and k: "(if \<not> inserted then Inr ((\<lparr>wt_Recorded = False, wt_Duplicate = True, wt_Ignored = False\<rparr>, True), db)
          else try_res (case mutation of None \<Rightarrow> Inr db1 | Some m \<Rightarrow> as_unavailable (m db1)) (\<lambda>db2.
            Inr ((\<lparr>wt_Recorded = True, wt_Duplicate = False, wt_Ignored = disp \<noteq> WebhookApplied\<rparr>, True), db2))) =
          Inr ((result, found), db')" by blast
      show ?thesis
      proof (cases inserted)
        case False
        then show ?thesis using k by auto
      next
        case True
        obtain row where row: "wr_EventID row = trim_space (we_ID event)" "wr_Disposition row = disp"
          "\<forall>r\<in>set (md_webhooks db). wr_EventID r \<noteq> wr_EventID row"
          "db1 = db\<lparr>md_webhooks := md_webhooks db @ [row]\<rparr>"
          using insertProviderWebhookReceipt_inserted ins True by (metis (full_types))
        have "wt_Recorded result \<and> (case mutation of None \<Rightarrow> db' = db1 | Some m \<Rightarrow> m db1 = Inr db')"
          using k True by (cases mutation) auto
        then show ?thesis
          using cls row loadProviderRoomBinding_member[OF Some]
          by (auto intro!: exI[of _ binding] exI[of _ row] exI[of _ mutation])
      qed
    qed
  qed
qed

text \<open>Which change a classification calls for.\<close>

lemma classifyParticipantWebhook_change:
  "classifyParticipantWebhook binding participant event eventAt = (disp, Some m) \<Longrightarrow>
     \<exists>p now. rm_Status binding = RoomInstanceActive \<and> participant = Some p \<and> disp = WebhookApplied \<and>
       now = providerTransitionTime eventAt (participantLastTransition p) \<and>
       (we_EventType event = ''participant_joined'' \<and> pa_Status p \<in> {ParticipantJoining, ParticipantReconnecting} \<and>
          m = webhook_joined binding p now \<or>
        we_EventType event \<noteq> ''participant_joined'' \<and> activeParticipantStatus (pa_Status p) \<and>
          m = webhook_left binding p now)"
  by (auto simp: classifyParticipantWebhook_def Let_def split: if_splits option.splits)

lemma classifyProviderWebhook_change:
  assumes "classifyProviderWebhook binding participant event receivedAt = (disp, Some m)"
  shows "(\<exists>sid now. rm_Status binding = RoomInstanceProvisioning \<and> m = webhook_start binding sid now) \<or>
    (\<exists>now. rm_Status binding \<in> {RoomInstanceProvisioning, RoomInstanceActive} \<and>
       m = webhook_finish binding (rm_Status binding) now) \<or>
    (\<exists>p now. rm_Status binding = RoomInstanceActive \<and> participant = Some p \<and>
       m \<in> {webhook_joined binding p now, webhook_left binding p now})"
  using assms
  by (auto simp: classifyProviderWebhook_def Let_def split: if_splits room_status.splits
      dest!: classifyParticipantWebhook_change)

lemma bound_room_same:
  assumes "rooms_ok rows" and "binding \<in> set rows" and "r \<in> set rows"
  shows "bound_room binding (rm_Status binding) r = (rm_ID r = rm_ID binding)"
  using rooms_unique[OF assms(1,3,2)] by (auto simp: bound_room_def)

lemma webhook_start_effect:
  assumes start: "webhook_start binding sid now db = Inr db'" and ok: "rooms_ok (md_rooms db)"
    and b: "binding \<in> set (md_rooms db)" "rm_Status binding = RoomInstanceProvisioning"
  shows "(\<exists>rows. db' = db\<lparr>md_rooms := rows\<rparr>) \<and> room_moved binding RoomInstanceActive db db'"
proof -
  let ?Q = "\<lambda>r. bound_room binding RoomInstanceProvisioning r \<and> rm_ProviderRoomSID r \<in> {None, Some sid}"
  let ?f = "\<lambda>r. r\<lparr>rm_Status := RoomInstanceActive, rm_Version := rm_Version r + 1,
          rm_ProviderRoomSID := Some sid, rm_ActivatedAt := Some now, rm_UpdatedAt := now\<rparr>"
  have d: "rooms_ok (update_where ?Q ?f (md_rooms db))" "count_where ?Q (md_rooms db) = 1"
    "db' = db\<lparr>md_rooms := update_where ?Q ?f (md_rooms db)\<rparr>"
    using start unfolding webhook_start_def update_room_Inr by auto
  from count_where_member[of ?Q "md_rooms db"] d(2) obtain r where r: "r \<in> set (md_rooms db)" "?Q r"
    by auto
  have "r = binding" using rooms_unique[OF ok r(1) b(1)] r(2) by (simp add: bound_room_def)
  have "rooms_moved (\<lambda>r. rm_ID r = rm_ID binding) (\<lambda>_. RoomInstanceActive) (md_rooms db)
      (update_where ?Q ?f (md_rooms db))"
  proof (rule rooms_moved_update)
    fix r' assume r': "r' \<in> set (md_rooms db)"
    show "?Q r' = (rm_ID r' = rm_ID binding)"
      using rooms_unique[OF ok r' b(1)] r(2) b(2) unfolding \<open>r = binding\<close> by (auto simp: bound_room_def)
  qed (simp add: room_identity_def)
  with d show ?thesis by (auto simp: room_moved_def)
qed

abbreviation settled_as_failed :: "string \<Rightarrow> instant \<Rightarrow> participant_row \<Rightarrow> participant_row" where
  "settled_as_failed code now r \<equiv> r\<lparr>pa_Status := ParticipantFailed, pa_Version := pa_Version r + 1,
     pa_CapacityReserved := False, pa_TerminalAt := Some now, pa_ReconnectingAt := None,
     pa_FailureCode := Some code, pa_UpdatedAt := now\<rparr>"

lemma webhook_finish_effect:
  assumes finish: "webhook_finish binding (rm_Status binding) now db = Inr db'"
    and ok: "rooms_ok (md_rooms db)" and b: "binding \<in> set (md_rooms db)"
  shows "\<exists>rooms evs hands. db' = db\<lparr>md_admissions := update_where
        (waiting_admission (rm_TenantID binding) (rm_SpaceID binding) (rm_ID binding))
        (expire_admission None ''provider_unavailable'' now) (md_admissions db),
      md_events := md_events db @ evs,
      md_participants := update_where
        (active_participant_of (rm_TenantID binding) (rm_SpaceID binding) (rm_ID binding))
        (settled_as_failed ''provider_room_finished'' now) (md_participants db),
      md_hands := hands, md_rooms := rooms\<rparr> \<and>
    room_moved binding RoomInstanceFailed db db' \<and>
    participants_ok (md_participants db') \<and> admissions_ok (md_admissions db')"
proof -
  let ?t = "rm_TenantID binding" and ?s = "rm_SpaceID binding" and ?i = "rm_ID binding"
  obtain db1 db2 where c1: "update_room ErrLifecycleUnavailable (bound_room binding (rm_Status binding))
      (fail_room now) db = Inr db1"
    and c2: "expireOutstandingLobbyAdmissions ?t ?s ?i None ''provider_unavailable'' now db1 = Inr db2"
    and c3: "failRoomParticipants ?t ?s ?i ''provider_room_finished'' now db2 = Inr db'"
    using finish by (auto simp: webhook_finish_def)
  let ?rooms1 = "update_where (bound_room binding (rm_Status binding)) (fail_room now) (md_rooms db)"
  have d1: "db1 = db\<lparr>md_rooms := ?rooms1\<rparr>" "rooms_ok ?rooms1"
    using c1 by (simp_all add: update_room_Inr)
  have moved: "rooms_moved (\<lambda>r. rm_ID r = ?i) (\<lambda>_. RoomInstanceFailed) (md_rooms db) ?rooms1"
    by (rule rooms_moved_update) (simp_all add: bound_room_same[OF ok b] fail_room_def room_identity_def)
  obtain evs where d2: "db2 = db1\<lparr>md_admissions := update_where (waiting_admission ?t ?s ?i)
      (expire_admission None ''provider_unavailable'' now) (md_admissions db1),
      md_events := md_events db1 @ evs\<rparr>" "admissions_ok (md_admissions db2)"
    using expire_Inr[OF c2] unfolding nullableLifecycleUUIDPointer_def option.case by blast
  have "rooms_ok (md_rooms db2)" using d1 d2 by simp
  from settle_Inr[OF c3[unfolded failRoomParticipants_def] this] obtain hands rooms where d3: "db' = db2\<lparr>
      md_participants := update_where (active_participant_of ?t ?s ?i)
        (settled_as_failed ''provider_room_finished'' now) (md_participants db2),
      md_hands := hands, md_rooms := rooms\<rparr>"
    "participants_ok (md_participants db')" "rooms_ok rooms" "rooms_same (md_rooms db2) rooms"
    by blast
  have "rooms_same ?rooms1 rooms" using d3(4) d2 d1 by simp
  from rooms_moved_same[OF moved this] show ?thesis
    using d3(2,3) d2(2)
    by (intro exI[of _ rooms] exI[of _ evs] exI[of _ hands]) (simp add: d3(1) d2(1) d1(1) room_moved_def)
qed

lemma update_participant_Inr:
  "update_participant e P f db = Inr db' \<longleftrightarrow> participants_ok (update_where P f (md_participants db)) \<and>
     count_where P (md_participants db) \<noteq> 0 \<and>
     db' = db\<lparr>md_participants := update_where P f (md_participants db)\<rparr>"
  by (auto simp: update_participant_def)

lemma webhook_joined_effect:
  assumes "webhook_joined binding p now db = Inr db'"
  shows "\<exists>rooms. db' = db\<lparr>md_participants := update_where
      (bound_participant binding p {ParticipantJoining, ParticipantReconnecting})
      (connect_participant now) (md_participants db), md_rooms := rooms\<rparr> \<and>
    rooms_ok rooms \<and> rooms_same (md_rooms db) rooms \<and> participants_ok (md_participants db')"
  using assms by (auto simp: webhook_joined_def update_participant_Inr dest!: advance_Inr)

lemma webhook_left_effect:
  assumes "webhook_left binding p now db = Inr db'"
  shows "\<exists>rooms hands. db' = db\<lparr>md_participants := update_where
      (bound_participant binding p {ParticipantAdmitted, ParticipantJoining, ParticipantConnected,
         ParticipantReconnecting}) (leave_participant now) (md_participants db),
      md_hands := hands, md_rooms := rooms\<rparr> \<and>
    rooms_ok rooms \<and> rooms_same (md_rooms db) rooms \<and> participants_ok (md_participants db')"
  using assms by (auto simp: webhook_left_def update_participant_Inr dest!: advance_Inr)

end
