(* ===== verification/Media_Attendance.thy ===== *)
theory Media_Attendance imports Media_Changes begin

section \<open>What joining, credentials and provider effects change\<close>

text \<open>
  The effects of \<open>CreateOrReuseJoinAttempt\<close>, \<open>PrepareCredential\<close>, \<open>ClaimEndProviderEffect\<close> and
  \<open>CompleteEndProviderEffect\<close>.
\<close>

subsection \<open>Join attempts\<close>

lemma if_Inl_Inr: "(if c then Inl e else k) = Inr y \<longleftrightarrow> \<not> c \<and> k = Inr y"
  by simp

lemma None_Inl_Inr:
  "(case x of None \<Rightarrow> Inl e | Some a \<Rightarrow> k a) = Inr y \<longleftrightarrow> (\<exists>a. x = Some a \<and> k a = Inr y)"
  by (cases x) simp_all

lemma loadActiveRoom_Some:
  "loadActiveRoom db t s = Some r \<Longrightarrow>
     r \<in> set (md_rooms db) \<and> rm_TenantID r = t \<and> rm_SpaceID r = s \<and> room_live r"
  by (auto simp: loadActiveRoom_def rooms_of_def dest!: find_in_set)

lemma join_space_Inr:
  "join_space rp db access scope spaceID stale = Inr (space, source) \<longleftrightarrow>
     loadSpace db (tc_TenantID scope) spaceID = Some space \<and>
     authorizeSource rp db access scope space PermissionSessionJoin False False = Inr source \<and>
     require_feature rp db (tc_TenantID scope) FeatureClassroomMediaRooms = Inr () \<and>
     \<not> stale space \<and> ms_Status space = SpaceStatusOpen \<and> \<not> ms_Locked space \<and> sourceAvailableForJoin source"
  by (auto simp: join_space_def split: option.splits if_splits)

lemma allocate_roster_sequence_Inr:
  assumes "allocate_roster_sequence t s i db = Inr (sequence, db')"
  shows "\<exists>rooms. db' = db\<lparr>md_rooms := rooms\<rparr> \<and> rooms_ok rooms \<and> rooms_same (md_rooms db) rooms"
  using assms
  by (auto simp: allocate_roster_sequence_def room_identity_def split: option.splits intro!: rooms_same_update)

lemma create_join_attempt_effect:
  assumes "create_join_attempt rp scope space room source ids attemptID fingerprint now db = Inr (attempt, db')"
  shows "\<exists>lobby sequence rooms.
    lobby = (ms_LobbyEnabled space \<and> as_InstanceRole source = InstanceRoleAttendee) \<and>
    \<not> hasActiveParticipant db (tc_TenantID scope) (rm_ID room) (tc_ActorID scope) \<and>
    \<not> hasUnrestoredRemovalBarrier db (tc_TenantID scope) (ms_ID space) (rm_ID room) (tc_ActorID scope) \<and>
    requireParticipantCapacity rp db (tc_TenantID scope) (ms_ID space) = Inr () \<and>
    db' = db\<lparr>md_rooms := rooms,
      md_admissions := md_admissions db @ (if lobby then [new_admission scope (ms_ID space) (rm_ID room)
        (jd_AdmissionID ids) attemptID fingerprint now] else []),
      md_participants := md_participants db @ [new_participant scope (ms_ID space) (rm_ID room) ids
        attemptID (as_InstanceRole source) lobby sequence now]\<rparr> \<and>
    rooms_ok rooms \<and> rooms_same (md_rooms db) rooms \<and> participants_ok (md_participants db') \<and>
    (lobby \<longrightarrow> admissions_ok (md_admissions db'))"
proof -
  define lobby where "lobby = (ms_LobbyEnabled space \<and> as_InstanceRole source = InstanceRoleAttendee)"
  let ?adm = "new_admission scope (ms_ID space) (rm_ID room) (jd_AdmissionID ids) attemptID fingerprint now"
  obtain u sequence db1 db2 where g: "\<not> hasActiveParticipant db (tc_TenantID scope) (rm_ID room) (tc_ActorID scope)"
    "\<not> hasUnrestoredRemovalBarrier db (tc_TenantID scope) (ms_ID space) (rm_ID room) (tc_ActorID scope)"
    "requireParticipantCapacity rp db (tc_TenantID scope) (ms_ID space) = Inr u"
    and c1: "allocate_roster_sequence (tc_TenantID scope) (ms_ID space) (rm_ID room) db = Inr (sequence, db1)"
    and c2: "(if lobby then (if jd_AdmissionID ids = uuid_Nil then Inl ErrLifecycleUnavailable
      else insert_admission ?adm db1) else Inr db1) = Inr db2"
    and c3: "insert_participant (new_participant scope (ms_ID space) (rm_ID room) ids attemptID
      (as_InstanceRole source) lobby sequence now) db2 = Inr db'"
    using assms[unfolded create_join_attempt_def Let_def, folded lobby_def]
    by (simp only: try_res_eq_Inr if_Inl_Inr split_paired_Ex case_prod_conv) blast
  obtain rooms where d1: "db1 = db\<lparr>md_rooms := rooms\<rparr>" "rooms_ok rooms" "rooms_same (md_rooms db) rooms"
    using allocate_roster_sequence_Inr[OF c1] by blast
  have d2: "db2 = db1\<lparr>md_admissions := md_admissions db1 @ (if lobby then [?adm] else [])\<rparr>"
    "lobby \<longrightarrow> admissions_ok (md_admissions db2)"
    using c2 by (auto simp: insert_admission_def split: if_splits)
  let ?p = "new_participant scope (ms_ID space) (rm_ID room) ids attemptID (as_InstanceRole source) lobby sequence now"
  have d3: "db' = db2\<lparr>md_participants := md_participants db2 @ [?p]\<rparr>" "participants_ok (md_participants db')"
    using c3 by (auto simp: insert_participant_def)
  show ?thesis
    using g d1(2,3) d2(2) d3(2)
    by (intro exI[of _ lobby] exI[of _ sequence] exI[of _ rooms])
      (simp add: d3(1) d2(1) d1(1) flip: lobby_def)
qed

lemma CreateOrReuseJoinAttempt_effect:
  assumes "CreateOrReuseJoinAttempt sha256 rp access spaceID input ids now db = Inr ((attempt, created), db')"
  shows "\<exists>access' space room source.
    requireActiveScope db access = Inr (access', scope_of access) \<and>
    loadSpace db (ac_TenantID access) spaceID = Some space \<and> ms_Version space = ji_ExpectedSpaceVersion input \<and>
    ms_Status space = SpaceStatusOpen \<and> \<not> ms_Locked space \<and>
    authorizeSource rp db access' (scope_of access) space PermissionSessionJoin False False = Inr source \<and>
    sourceAvailableForJoin source \<and>
    loadActiveRoom db (ac_TenantID access) spaceID = Some room \<and> rm_Status room = RoomInstanceActive \<and>
    rm_ID room = ji_ExpectedRoomInstanceID input \<and>
    (if created then create_join_attempt rp (scope_of access) space room
        (resolveEffectiveCredentialSource db (ac_TenantID access) (rm_ID room) (ac_ActorID access) source) ids
        (ji_JoinAttemptID input) (sha256 (join_attempt_preimage spaceID input)) now db = Inr (attempt, db')
     else db' = db)"
proof -
  obtain access' scope space source room where a: "requireActiveScope db access = Inr (access', scope)"
    and j: "join_space rp db access' scope spaceID (\<lambda>space. ms_Version space \<noteq> ji_ExpectedSpaceVersion input) =
      Inr (space, source)"
    and r: "loadActiveRoom db (tc_TenantID scope) (ms_ID space) = Some room" "room_joinable room"
      "rm_ID room = ji_ExpectedRoomInstanceID input"
    and k: "(case loadParticipantByAttempt db (tc_TenantID scope) (rm_ID room) (tc_ActorID scope)
        (ji_JoinAttemptID input) of
      Some existing \<Rightarrow> try_res (reuse_join_attempt db scope space room (resolveEffectiveCredentialSource db
          (tc_TenantID scope) (rm_ID room) (tc_ActorID scope) source) existing
          (sha256 (join_attempt_preimage spaceID input))) (\<lambda>attempt. Inr ((attempt, False), db))
      | None \<Rightarrow> try_res (create_join_attempt rp scope space room (resolveEffectiveCredentialSource db
          (tc_TenantID scope) (rm_ID room) (tc_ActorID scope) source) ids (ji_JoinAttemptID input)
          (sha256 (join_attempt_preimage spaceID input)) now db) (\<lambda>(attempt, db1). Inr ((attempt, True), db1))) =
      Inr ((attempt, created), db')"
    using assms unfolding CreateOrReuseJoinAttempt_def Let_def
    by (simp only: try_res_eq_Inr if_Inl_Inr None_Inl_Inr split_paired_Ex case_prod_conv not_not) (elim exE conjE, rule that)
  note scope = requireActiveScope_Inr(1)[OF a]
  have "loadSpace db (tc_TenantID scope) spaceID = Some space" using j by (simp add: join_space_Inr)
  then have "ms_ID space = spaceID" by (auto dest: loadSpace_Some)
  with a j r k show ?thesis
    unfolding scope by (auto simp: join_space_Inr room_joinable_def try_prod_Inr split: option.split_asm)
qed

subsection \<open>Credentials\<close>

lemma as_unavailable_advance: "as_unavailable (advanceMediaRosterProjection t s i db) = Inr db' \<Longrightarrow>
    \<exists>rooms. db' = db\<lparr>md_rooms := rooms\<rparr> \<and> rooms_ok rooms \<and> rooms_same (md_rooms db) rooms"
  by (auto dest: advance_Inr)

text \<open>The three ways a credential advances its participant.\<close>

definition participant_advanced ::
  "tenant_context \<Rightarrow> room_row \<Rightarrow> uuid \<Rightarrow> instance_role \<Rightarrow> instant \<Rightarrow> participant_row list \<Rightarrow> participant_row list \<Rightarrow> bool" where
  "participant_advanced scope room attempt role now rows rows' \<longleftrightarrow> rows' = rows \<or>
     (participants_ok rows' \<and>
      (rows' = update_where (attempt_in_status (tc_TenantID scope) (rm_ID room) (tc_ActorID scope) attempt
          ParticipantAdmitted) (join_participant role now) rows \<or>
       rows' = update_where (attempt_in_status (tc_TenantID scope) (rm_ID room) (tc_ActorID scope) attempt
          ParticipantJoining) (refresh_participant_role role now) rows))"

lemma update_then_advance:
  assumes "update_participant e P f db = Inr db1"
    and "as_unavailable (advanceMediaRosterProjection t s i db1) = Inr db2"
  shows "\<exists>rooms. db2 = db\<lparr>md_participants := update_where P f (md_participants db), md_rooms := rooms\<rparr> \<and>
    rooms_ok rooms \<and> rooms_same (md_rooms db) rooms \<and> participants_ok (update_where P f (md_participants db))"
  using assms by (auto simp: update_participant_Inr dest!: advance_Inr)

lemma advance_participant_effect:
  assumes adv: "advance_participant scope space room existing source now db = Inr (p, db')"
    and ok: "rooms_ok (md_rooms db)"
    and known: "existing \<in> set (md_participants db)" "pa_TenantID existing = tc_TenantID scope"
      "pa_RoomID existing = rm_ID room" "pa_UserID existing = tc_ActorID scope"
      "pa_Status existing \<in> {ParticipantAdmitted, ParticipantJoining}"
  shows "\<exists>ps rooms. db' = db\<lparr>md_participants := ps, md_rooms := rooms\<rparr> \<and> rooms_ok rooms \<and>
    rooms_same (md_rooms db) rooms \<and>
    participant_advanced scope room (pa_JoinAttemptID existing) (as_InstanceRole source) now (md_participants db) ps \<and>
    pa_ID p = pa_ID existing \<and> pa_ParticipantKey p = pa_ParticipantKey existing \<and>
    pa_JoinAttemptID p = pa_JoinAttemptID existing \<and> pa_ProviderIdentity p = pa_ProviderIdentity existing \<and>
    pa_InstanceRole p = as_InstanceRole source \<and> p \<in> set ps \<and> pa_Status p = ParticipantJoining"
proof -
  let ?at = "attempt_in_status (tc_TenantID scope) (rm_ID room) (tc_ActorID scope) (pa_JoinAttemptID existing)"
  let ?role = "as_InstanceRole source"
  have at: "?at st existing \<longleftrightarrow> pa_Status existing = st" for st
    using known by (simp add: attempt_in_status_def)
  have cases: "(\<exists>st f db1. (st, f) \<in> {(ParticipantAdmitted, join_participant ?role now),
        (ParticipantJoining, refresh_participant_role ?role now)} \<and> p = f existing \<and> ?at st existing \<and>
      update_participant ErrParticipantConflict (?at st) f db = Inr db1 \<and>
      as_unavailable (advanceMediaRosterProjection (tc_TenantID scope) (ms_ID space) (rm_ID room) db1) = Inr db') \<or>
    (pa_InstanceRole existing = ?role \<and> pa_Status existing = ParticipantJoining \<and> p = existing \<and> db' = db)"
    using adv known(5) at by (auto simp: advance_participant_def Let_def split: if_split_asm)
  then show ?thesis
  proof (elim disjE exE conjE)
    fix st f db1
    assume f: "(st, f) \<in> {(ParticipantAdmitted, join_participant ?role now),
        (ParticipantJoining, refresh_participant_role ?role now)}" and p: "p = f existing" and e: "?at st existing"
      and "update_participant ErrParticipantConflict (?at st) f db = Inr db1"
      and "as_unavailable (advanceMediaRosterProjection (tc_TenantID scope) (ms_ID space) (rm_ID room) db1) = Inr db'"
    from update_then_advance[OF this(4,5)] obtain rooms where
      "db' = db\<lparr>md_participants := update_where (?at st) f (md_participants db), md_rooms := rooms\<rparr>"
      "rooms_ok rooms" "rooms_same (md_rooms db) rooms"
      "participants_ok (update_where (?at st) f (md_participants db))" by blast
    moreover have "p \<in> set (update_where (?at st) f (md_participants db))"
      unfolding p by (rule update_where_touched[OF known(1)]) (rule e)
    ultimately show ?thesis
      using f p e at
      by (intro exI[of _ "update_where (?at st) f (md_participants db)"] exI[of _ rooms])
        (auto simp: participant_advanced_def join_participant_def refresh_participant_role_def)
  next
    assume "pa_InstanceRole existing = ?role" "pa_Status existing = ParticipantJoining" "p = existing" "db' = db"
    with ok known(1) show ?thesis
      by (intro exI[of _ "md_participants db"] exI[of _ "md_rooms db"]) (simp add: participant_advanced_def)
  qed
qed

lemma consumeMediaCredentialRateLimit_Inr:
  "consumeMediaCredentialRateLimit t a sid now db = Inr db' \<longleftrightarrow>
     (\<exists>n ws. upsert_window (t, a, sid) (time_Truncate now mediaCredentialRateWindow) mediaCredentialRateLimit
        (md_credentials db) = (Some n, ws) \<and> db' = db\<lparr>md_credentials := ws\<rparr>)"
  by (auto simp: consumeMediaCredentialRateLimit_def Let_def split: prod.splits option.splits)

lemma PrepareCredential_effect:
  assumes "PrepareCredential rp access spaceID attemptID now db = Inr (grant, db')"
    and ok: "rooms_ok (md_rooms db)"
  shows "\<exists>access' space room source0 source existing ws ps rooms.
    requireActiveScope db access = Inr (access', scope_of access) \<and>
    loadSpace db (ac_TenantID access) spaceID = Some space \<and>
    ms_Status space = SpaceStatusOpen \<and> \<not> ms_Locked space \<and>
    authorizeSource rp db access' (scope_of access) space PermissionSessionJoin False False = Inr source0 \<and>
    sourceAvailableForJoin source0 \<and>
    loadActiveRoom db (ac_TenantID access) spaceID = Some room \<and> rm_Status room = RoomInstanceActive \<and>
    source = resolveEffectiveCredentialSource db (ac_TenantID access) (rm_ID room) (ac_ActorID access) source0 \<and>
    loadParticipantByAttempt db (ac_TenantID access) (rm_ID room) (ac_ActorID access) attemptID = Some existing \<and>
    pa_Status existing \<in> {ParticipantAdmitted, ParticipantJoining} \<and>
    (ms_LobbyEnabled space \<and> as_InstanceRole source = InstanceRoleAttendee \<longrightarrow>
       requireAdmittedAdmission db (ac_TenantID access) spaceID (rm_ID room) (ac_ActorID access) existing = Inr ()) \<and>
    consumeMediaCredentialRateLimit (ac_TenantID access) (ac_ActorID access) (ac_SessionID access) now db =
      Inr (db\<lparr>md_credentials := ws\<rparr>) \<and>
    db' = db\<lparr>md_credentials := ws, md_participants := ps, md_rooms := rooms\<rparr> \<and>
    rooms_ok rooms \<and> rooms_same (md_rooms db) rooms \<and>
    participant_advanced (scope_of access) room attemptID (as_InstanceRole source) now (md_participants db) ps \<and>
    cg_ParticipantSessionID grant = pa_ID existing \<and> cg_RoomInstanceID grant = rm_ID room \<and>
    cg_InstanceRole grant = as_InstanceRole source \<and>
    cg_ProviderParticipantIdentity grant = pa_ProviderIdentity existing \<and>
    cg_CanShareScreen grant = as_CanShareScreen source \<and>
    cg_CanPublishCameraMicrophone grant = as_CanPublishCameraMicrophone source \<and>
    (\<exists>p\<in>set ps. pa_ID p = pa_ID existing \<and> pa_Status p = ParticipantJoining \<and>
       pa_InstanceRole p = as_InstanceRole source)"
proof -
  obtain access' scope space source0 room existing participant db1 where
    a: "requireActiveScope db access = Inr (access', scope)" and sid: "ac_SessionID access' = ac_SessionID access"
    and j: "join_space rp db access' scope spaceID (\<lambda>_. False) = Inr (space, source0)"
    and r: "loadActiveRoom db (tc_TenantID scope) (ms_ID space) = Some room" "room_joinable room"
    and e: "loadParticipantByAttempt db (tc_TenantID scope) (rm_ID room) (tc_ActorID scope) attemptID = Some existing"
      "pa_Status existing \<in> {ParticipantAdmitted, ParticipantJoining}"
    and adm: "(if ms_LobbyEnabled space \<and> as_InstanceRole (resolveEffectiveCredentialSource db (tc_TenantID scope)
          (rm_ID room) (tc_ActorID scope) source0) = InstanceRoleAttendee
        then requireAdmittedAdmission db (tc_TenantID scope) (ms_ID space) (rm_ID room) (tc_ActorID scope) existing
        else Inr ()) = Inr ()"
    and c1: "consumeMediaCredentialRateLimit (tc_TenantID scope) (tc_ActorID scope) (ac_SessionID access') now db = Inr db1"
    and c2: "advance_participant scope space room existing (resolveEffectiveCredentialSource db (tc_TenantID scope)
          (rm_ID room) (tc_ActorID scope) source0) now db1 = Inr (participant, db')"
    and g: "grant = participantGrant access' room participant (resolveEffectiveCredentialSource db (tc_TenantID scope)
          (rm_ID room) (tc_ActorID scope) source0)"
  proof -
    obtain access' scope where a: "requireActiveScope db access = Inr (access', scope)"
      using assms(1) unfolding PrepareCredential_def by (cases "requireActiveScope db access") (auto split: if_splits)
    have "ac_SessionID access' = ac_SessionID access" using requireActiveScope_Inr(5)[OF a] by auto
    with assms(1) a show thesis
      unfolding PrepareCredential_def Let_def
      apply (simp only: try_res_eq_Inr if_Inl_Inr None_Inl_Inr split_paired_Ex case_prod_conv not_not
          try_res_simps sum.inject prod.inject)
      apply (elim exE conjE)
      apply (rule that)
                apply (assumption | simp)+
      done
  qed
  let ?source = "resolveEffectiveCredentialSource db (tc_TenantID scope) (rm_ID room) (tc_ActorID scope) source0"
  note scope = requireActiveScope_Inr(1)[OF a]
  have s: "loadSpace db (tc_TenantID scope) spaceID = Some space" using j by (simp add: join_space_Inr)
  then have id: "ms_ID space = spaceID" by (auto dest: loadSpace_Some)
  have adm': "ms_LobbyEnabled space \<Longrightarrow> as_InstanceRole ?source = InstanceRoleAttendee \<Longrightarrow>
      requireAdmittedAdmission db (tc_TenantID scope) (ms_ID space) (rm_ID room) (tc_ActorID scope) existing = Inr ()"
    using adm by simp
  obtain ws where d1: "db1 = db\<lparr>md_credentials := ws\<rparr>"
    using c1 by (auto simp: consumeMediaCredentialRateLimit_Inr)
  have att: "pa_JoinAttemptID existing = attemptID"
    and known: "existing \<in> set (md_participants db)" "pa_TenantID existing = tc_TenantID scope"
      "pa_RoomID existing = rm_ID room" "pa_UserID existing = tc_ActorID scope"
    using e(1) by (auto simp: loadParticipantByAttempt_def dest!: find_in_set)
  from advance_participant_effect[OF c2] ok known e(2) obtain ps rooms where d2: "db' = db1\<lparr>md_participants := ps, md_rooms := rooms\<rparr>"
    "rooms_ok rooms" "rooms_same (md_rooms db) rooms"
    "participant_advanced scope room attemptID (as_InstanceRole ?source) now (md_participants db) ps"
    "pa_ID participant = pa_ID existing" "pa_ProviderIdentity participant = pa_ProviderIdentity existing"
    "pa_InstanceRole participant = as_InstanceRole ?source" "participant \<in> set ps"
    "pa_Status participant = ParticipantJoining"
    by (auto simp: d1 att)
  show ?thesis
    apply (rule exI[of _ access'], rule exI[of _ space], rule exI[of _ room], rule exI[of _ source0],
        rule exI[of _ ?source], rule exI[of _ existing], rule exI[of _ ws], rule exI[of _ ps],
        rule exI[of _ rooms])
    using a sid j r e adm' c1 g d2(2-9) s id
    by (auto simp: join_space_Inr room_joinable_def participantGrant_def d2(1) d1 scope)
qed

subsection \<open>The effect of an ended room at the provider\<close>

lemma ClaimEndProviderEffect_effect:
  assumes "ClaimEndProviderEffect access spaceID key now lease db = Inr ((effect, status, claimed), db')"
  shows "if claimed then
      (let P = (\<lambda>r. end_receipt (scope_of access) spaceID key r \<and> claimable_effect now r) in
        status = ProviderEffectApplying \<and> 0 < lease \<and> (\<exists>r\<in>set (md_receipts db). P r) \<and>
        (\<exists>r\<in>set (md_receipts db). end_receipt (scope_of access) spaceID key r \<and>
           ee_Attempt effect = rc_EffectAttempts r + 1) \<and>
        db' = db\<lparr>md_receipts := update_where P (claim_effect (ee_Attempt effect) (now + lease) now)
          (md_receipts db)\<rparr> \<and> receipts_ok (md_receipts db'))
    else db' = db"
proof -
  obtain access' scope where a: "requireActiveScope db access = Inr (access', scope)"
    using assms unfolding ClaimEndProviderEffect_def by (auto split: if_split_asm sum.splits)
  show ?thesis
    using assms count_where_zero[of "\<lambda>r. end_receipt scope spaceID key r \<and> claimable_effect now r" "md_receipts db"]
    unfolding ClaimEndProviderEffect_def a requireActiveScope_Inr(1)[OF a]
    by (auto simp: Let_def split: if_split_asm sum.splits option.splits dest!: find_in_set)
qed

lemma CompleteEndProviderEffect_effect:
  assumes "CompleteEndProviderEffect access spaceID key attempt status code now db = Inr (status', db')"
  shows "let P = (\<lambda>r. end_receipt (scope_of access) spaceID key r \<and> rc_EffectStatus r = ProviderEffectApplying \<and>
        rc_EffectAttempts r = attempt) in
      status' = status \<and> (\<exists>r\<in>set (md_receipts db). P r) \<and>
      db' = db\<lparr>md_receipts := update_where P (complete_effect status code now) (md_receipts db)\<rparr> \<and>
      receipts_ok (md_receipts db')"
proof -
  obtain access' scope where a: "requireActiveScope db access = Inr (access', scope)"
    using assms unfolding CompleteEndProviderEffect_def by (auto split: if_split_asm sum.splits)
  show ?thesis
    using assms count_where_zero[of "\<lambda>r. end_receipt scope spaceID key r \<and> rc_EffectStatus r = ProviderEffectApplying \<and>
        rc_EffectAttempts r = attempt" "md_receipts db"]
    unfolding CompleteEndProviderEffect_def a requireActiveScope_Inr(1)[OF a]
    by (auto simp: Let_def split: if_split_asm sum.splits)
qed

end
