(* ===== verification/Media_Refinement.thy ===== *)
theory Media_Refinement imports Media_Attendance begin

section \<open>The lifecycle of a space, abstractly\<close>

text \<open>
  What the media component promises about a space: its status, and the statuses of the rooms it
  was given, in order.  Every transaction moves at most one space by one step of this machine.
\<close>

type_synonym lifecycle = "uuid \<times> uuid \<Rightarrow> (space_status \<times> room_status list) option"

inductive lifecycle_step :: "lifecycle \<Rightarrow> lifecycle \<Rightarrow> bool" where
  stay: "lifecycle_step v v"
| create: "v k = None \<Longrightarrow> lifecycle_step v (v(k \<mapsto> (SpaceStatusScheduled, [])))"
| start: "v k = Some (SpaceStatusScheduled, []) \<Longrightarrow>
    lifecycle_step v (v(k \<mapsto> (SpaceStatusOpen, [RoomInstanceProvisioning])))"
| cancel: "v k = Some (SpaceStatusScheduled, []) \<Longrightarrow>
    lifecycle_step v (v(k \<mapsto> (SpaceStatusCancelled, [])))"
| activate: "v k = Some (SpaceStatusOpen, h @ [RoomInstanceProvisioning]) \<Longrightarrow>
    lifecycle_step v (v(k \<mapsto> (SpaceStatusOpen, h @ [RoomInstanceActive])))"
| fail: "v k = Some (SpaceStatusOpen, h @ [st]) \<Longrightarrow> st \<in> {RoomInstanceProvisioning, RoomInstanceActive} \<Longrightarrow>
    lifecycle_step v (v(k \<mapsto> (SpaceStatusOpen, h @ [RoomInstanceFailed])))"
| recover: "v k = Some (SpaceStatusOpen, h @ [RoomInstanceFailed]) \<Longrightarrow>
    lifecycle_step v (v(k \<mapsto> (SpaceStatusOpen, h @ [RoomInstanceFailed, RoomInstanceProvisioning])))"
| finish: "v k = Some (SpaceStatusOpen, h @ [st]) \<Longrightarrow>
    lifecycle_step v (v(k \<mapsto> (SpaceStatusEnded, h @ [final_status st])))"

text \<open>Which histories the machine reaches.\<close>

fun history_ok :: "space_status \<times> room_status list \<Rightarrow> bool" where
  "history_ok (SpaceStatusScheduled, h) \<longleftrightarrow> h = []"
| "history_ok (SpaceStatusCancelled, h) \<longleftrightarrow> h = []"
| "history_ok (SpaceStatusOpen, h) \<longleftrightarrow> h \<noteq> [] \<and> list_all (\<lambda>st. st = RoomInstanceFailed) (butlast h) \<and>
     last h \<in> {RoomInstanceProvisioning, RoomInstanceActive, RoomInstanceFailed}"
| "history_ok (SpaceStatusEnded, h) \<longleftrightarrow> h \<noteq> [] \<and> list_all (\<lambda>st. st = RoomInstanceFailed) (butlast h) \<and>
     last h \<in> {RoomInstanceEnded, RoomInstanceFailed}"

definition lifecycle_ok :: "lifecycle \<Rightarrow> bool" where
  "lifecycle_ok v \<longleftrightarrow> (\<forall>k e. v k = Some e \<longrightarrow> history_ok e)"

lemma lifecycle_okD: "lifecycle_ok v \<Longrightarrow> v k = Some e \<Longrightarrow> history_ok e"
  unfolding lifecycle_ok_def by blast

lemma lifecycle_ok_upd: "lifecycle_ok v \<Longrightarrow> history_ok e \<Longrightarrow> lifecycle_ok (v(k \<mapsto> e))"
  unfolding lifecycle_ok_def by (metis fun_upd_apply option.inject)

lemma lifecycle_step_ok: "lifecycle_step v v' \<Longrightarrow> lifecycle_ok v \<Longrightarrow> lifecycle_ok v'"
proof (induction rule: lifecycle_step.induct)
  case (finish v k h st)
  from lifecycle_okD[OF finish(2,1)] finish show ?case by (intro lifecycle_ok_upd) auto
next
  case (recover v k h)
  from lifecycle_okD[OF recover(2,1)] recover show ?case
    by (intro lifecycle_ok_upd) (auto simp: butlast_append)
qed (auto intro!: lifecycle_ok_upd dest: lifecycle_okD)

text \<open>A space that has ended or was cancelled stays so.\<close>

lemma lifecycle_step_terminal:
  "lifecycle_step v v' \<Longrightarrow> v k = Some (st, h) \<Longrightarrow> st \<in> {SpaceStatusEnded, SpaceStatusCancelled} \<Longrightarrow>
     v' k = Some (st, h)"
  by (induction rule: lifecycle_step.induct) auto

subsection \<open>The lifecycle of a database\<close>

definition lifecycle_of :: "'c media_db \<Rightarrow> lifecycle" where
  "lifecycle_of db = (\<lambda>(t, s). map_option (\<lambda>row. (ms_Status row, map rm_Status (rooms_of db t s)))
     (loadSpace db t s))"

lemma lifecycle_of_Some:
  "lifecycle_of db (t, s) = Some e \<longleftrightarrow>
     (\<exists>row. loadSpace db t s = Some row \<and> e = (ms_Status row, map rm_Status (rooms_of db t s)))"
  by (auto simp: lifecycle_of_def)

definition rooms_at :: "uuid \<Rightarrow> uuid \<Rightarrow> room_row list \<Rightarrow> room_row list" where
  "rooms_at t s rows = filter (\<lambda>r. rm_TenantID r = t \<and> rm_SpaceID r = s) rows"

lemma rooms_of_at: "rooms_of db t s = rooms_at t s (md_rooms db)"
  by (simp add: rooms_of_def rooms_at_def)

lemma rooms_moved_at:
  assumes "rooms_moved P g a b"
  shows "map rm_Status (rooms_at t s b) = map (\<lambda>r. if P r then g (rm_Status r) else rm_Status r) (rooms_at t s a)"
    and "map rm_AttemptNumber (rooms_at t s b) = map rm_AttemptNumber (rooms_at t s a)"
    and "map rm_ID (rooms_at t s b) = map rm_ID (rooms_at t s a)"
  using assms unfolding rooms_moved_def rooms_at_def
  by (induction a b rule: list_all2_induct) (auto simp: room_identity_def)

lemma rooms_same_moved: "rooms_same a b \<longleftrightarrow> rooms_moved (\<lambda>_. False) id a b"
  by (simp add: rooms_same_def rooms_moved_def)

lemma rooms_same_at:
  assumes "rooms_same a b"
  shows "map rm_Status (rooms_at t s b) = map rm_Status (rooms_at t s a)"
    and "map rm_AttemptNumber (rooms_at t s b) = map rm_AttemptNumber (rooms_at t s a)"
  using rooms_moved_at[OF assms[unfolded rooms_same_moved]] by simp_all

lemma lifecycle_of_same:
  "md_spaces db' = md_spaces db \<Longrightarrow> rooms_same (md_rooms db) (md_rooms db') \<Longrightarrow>
     lifecycle_of db' = lifecycle_of db"
  by (simp add: lifecycle_of_def rooms_of_at rooms_same_at loadSpace_def)

lemma loadSpace_set_space:
  assumes "md_spaces db' = set_space row f (md_spaces db)" and "spaces_ok (md_spaces db)"
    and "row \<in> set (md_spaces db)"
    and "\<And>r. ms_ID (f r) = ms_ID r \<and> ms_TenantID (f r) = ms_TenantID r"
  shows "loadSpace db' t s = (if (t, s) = (ms_TenantID row, ms_ID row) then Some (f row) else loadSpace db t s)"
proof -
  have *: "loadSpace db' t s = map_option (\<lambda>r. if ms_ID r = ms_ID row then f r else r) (loadSpace db t s)"
    unfolding loadSpace_def assms(1) set_space_def by (rule find_update_where) (simp add: assms(4))
  show ?thesis
  proof (cases "loadSpace db t s")
    case None
    then show ?thesis using loadSpace_member[OF assms(2,3)] by (auto simp: *)
  next
    case (Some r)
    from loadSpace_Some[OF Some] spaces_unique[OF assms(2) _ assms(3), of r] show ?thesis
      by (auto simp: * Some)
  qed
qed

lemma lifecycle_of_set_space:
  assumes "md_spaces db' = set_space row f (md_spaces db)" and "spaces_ok (md_spaces db)"
    and "row \<in> set (md_spaces db)"
    and "\<And>r. ms_ID (f r) = ms_ID r \<and> ms_TenantID (f r) = ms_TenantID r"
    and "\<And>t s. (t, s) \<noteq> (ms_TenantID row, ms_ID row) \<Longrightarrow>
      map rm_Status (rooms_of db' t s) = map rm_Status (rooms_of db t s)"
  shows "lifecycle_of db' = (lifecycle_of db)((ms_TenantID row, ms_ID row) \<mapsto>
    (ms_Status (f row), map rm_Status (rooms_of db' (ms_TenantID row) (ms_ID row))))"
  using assms(5) by (auto simp: fun_eq_iff lifecycle_of_def loadSpace_set_space[OF assms(1-4)])

text \<open>The change of one room is a change of its space's history.\<close>

lemma rooms_of_moved:
  assumes moved: "rooms_moved (\<lambda>r. rm_ID r = rm_ID room) g (md_rooms db) (md_rooms db')"
    and ok: "rooms_ok (md_rooms db)" and last_room: "rooms_of db t s = pre @ [room]"
  shows "map rm_Status (rooms_of db' t s) = map rm_Status pre @ [g (rm_Status room)]"
    and "(t', s') \<noteq> (t, s) \<Longrightarrow> map rm_Status (rooms_of db' t' s') = map rm_Status (rooms_of db t' s')"
proof -
  have room: "room \<in> set (md_rooms db)" "rm_TenantID room = t" "rm_SpaceID room = s"
    using last_room rooms_of_member[of room db t s] by auto
  have "distinct (map rm_ID (md_rooms db))"
    using rooms_ok_ID[OF ok] by (simp add: unique_index_def)
  then have "distinct (map rm_ID (rooms_of db t s))"
    by (simp add: rooms_of_def distinct_map inj_on_def)
  then have "\<forall>r\<in>set pre. rm_ID r \<noteq> rm_ID room" by (simp add: last_room) (metis image_eqI)
  then show "map rm_Status (rooms_of db' t s) = map rm_Status pre @ [g (rm_Status room)]"
    using rooms_moved_at(1)[OF moved, of t s] last_room by (simp add: rooms_of_at)
  assume other: "(t', s') \<noteq> (t, s)"
  have "rm_ID r \<noteq> rm_ID room" if "r \<in> set (rooms_of db t' s')" for r
    using that other rooms_unique[OF ok _ room(1), of r] room by (auto simp: rooms_of_member)
  then show "map rm_Status (rooms_of db' t' s') = map rm_Status (rooms_of db t' s')"
    using rooms_moved_at(1)[OF moved, of t' s'] by (simp add: rooms_of_at)
qed

lemma lifecycle_of_moved:
  assumes "rooms_moved (\<lambda>r. rm_ID r = rm_ID room) g (md_rooms db) (md_rooms db')"
    and "rooms_ok (md_rooms db)" and "rooms_of db t s = pre @ [room]"
    and "md_spaces db' = md_spaces db" and "loadSpace db t s = Some row"
  shows "lifecycle_of db' = (lifecycle_of db)((t, s) \<mapsto> (ms_Status row, map rm_Status pre @ [g (rm_Status room)]))"
  using rooms_of_moved[OF assms(1-3)] assms(4,5) by (auto simp: fun_eq_iff lifecycle_of_def loadSpace_def)

subsection \<open>The invariant\<close>

text \<open>The attempts of a space are numbered from 1, in the order of the table.\<close>

definition numbered :: "'c media_db \<Rightarrow> bool" where
  "numbered db \<longleftrightarrow> (\<forall>t s. map rm_AttemptNumber (rooms_of db t s) =
     map int [1..<Suc (length (rooms_of db t s))])"

text \<open>Every room belongs to a space, and whoever is present is in an active room.\<close>

definition housed :: "'c media_db \<Rightarrow> bool" where
  "housed db \<longleftrightarrow> (\<forall>t s. loadSpace db t s = None \<longrightarrow> rooms_of db t s = [])"

definition in_use :: "room_row list \<Rightarrow> uuid \<Rightarrow> uuid \<Rightarrow> uuid \<Rightarrow> bool" where
  "in_use rows t s i \<longleftrightarrow> (\<exists>r\<in>set rows. rm_TenantID r = t \<and> rm_SpaceID r = s \<and> rm_ID r = i \<and>
     rm_Status r = RoomInstanceActive)"

definition attended :: "'c media_db \<Rightarrow> bool" where
  "attended db \<longleftrightarrow>
     (\<forall>p\<in>set (md_participants db). participant_active p \<longrightarrow>
        in_use (md_rooms db) (pa_TenantID p) (pa_SpaceID p) (pa_RoomID p)) \<and>
     (\<forall>a\<in>set (md_admissions db). ad_Status a = AdmissionWaiting \<longrightarrow>
        in_use (md_rooms db) (ad_TenantID a) (ad_SpaceID a) (ad_RoomID a))"

definition media_tables_ok :: "'c media_db \<Rightarrow> bool" where
  "media_tables_ok db \<longleftrightarrow> spaces_ok (md_spaces db) \<and> rooms_ok (md_rooms db) \<and>
     participants_ok (md_participants db) \<and> admissions_ok (md_admissions db) \<and> receipts_ok (md_receipts db)"

definition media_inv :: "'c media_db \<Rightarrow> bool" where
  "media_inv db \<longleftrightarrow> media_tables_ok db \<and> lifecycle_ok (lifecycle_of db) \<and> numbered db \<and> housed db \<and>
     attended db"

lemma latest_attempt_last:
  "sorted_wrt (<) (map rm_AttemptNumber rows) \<Longrightarrow> rows \<noteq> [] \<Longrightarrow> latest_attempt rows = Some (last rows)"
proof (induction rows)
  case (Cons r rows)
  show ?case
  proof (cases "rows = []")
    case False
    then have "latest_attempt rows = Some (last rows)" using Cons by simp
    moreover have "rm_AttemptNumber r < rm_AttemptNumber (last rows)"
      using Cons.prems(1) False by simp
    ultimately show ?thesis using False by simp
  qed simp
qed simp

lemma numbered_sorted: "numbered db \<Longrightarrow> sorted_wrt (<) (map rm_AttemptNumber (rooms_of db t s))"
  unfolding numbered_def by (simp only:) (simp del: upt_Suc add: sorted_wrt_map)

lemma numbered_last:
  assumes "numbered db" and "rooms_of db t s = pre @ [r]"
  shows "rm_AttemptNumber r = int (length pre) + 1"
  using assms(1)[unfolded numbered_def, rule_format, of t s] by (simp add: assms(2))

lemma loadLatestRoom_last:
  assumes "numbered db" and "loadLatestRoom db t s = Some r"
  shows "\<exists>pre. rooms_of db t s = pre @ [r]"
proof -
  have "rooms_of db t s \<noteq> []" using assms(2) by (auto simp: loadLatestRoom_def)
  with latest_attempt_last[OF numbered_sorted[OF assms(1)] this] assms(2) show ?thesis
    by (metis append_butlast_last_id loadLatestRoom_def option.inject)
qed

lemma rooms_of_added:
  assumes "md_rooms db' = md_rooms db @ [r]"
  shows "rooms_of db' t s = rooms_of db t s @ (if rm_TenantID r = t \<and> rm_SpaceID r = s then [r] else [])"
  by (simp add: rooms_of_def assms)

lemma numbered_added:
  assumes "numbered db" and "md_rooms db' = md_rooms db @ [r]"
    and "rm_AttemptNumber r = int (length (rooms_of db (rm_TenantID r) (rm_SpaceID r))) + 1"
  shows "numbered db'"
  using assms(1,3) by (auto simp: numbered_def rooms_of_added[OF assms(2)])

lemma numbered_moved:
  assumes "numbered db" and "rooms_moved P g (md_rooms db) (md_rooms db')"
  shows "numbered db'"
proof -
  have "map rm_AttemptNumber (rooms_of db' t s) = map rm_AttemptNumber (rooms_of db t s)" for t s
    using rooms_moved_at(2)[OF assms(2)] by (simp add: rooms_of_at)
  moreover from this have "length (rooms_of db' t s) = length (rooms_of db t s)" for t s
    by (metis length_map)
  ultimately show ?thesis using assms(1) by (simp add: numbered_def)
qed

lemma housed_moved:
  assumes "housed db" and "rooms_moved P g (md_rooms db) (md_rooms db')"
    and "\<And>t s. loadSpace db' t s = None \<longleftrightarrow> loadSpace db t s = None"
  shows "housed db'"
proof -
  have "rooms_of db' t s = [] \<longleftrightarrow> rooms_of db t s = []" for t s
    using rooms_moved_at(2)[OF assms(2)] by (metis Nil_is_map_conv rooms_of_at)
  then show ?thesis using assms(1,3) by (simp add: housed_def)
qed

subsection \<open>Who is present\<close>

lemma in_use_moved:
  assumes "rooms_moved (\<lambda>r. rm_ID r = i) g a b" and "in_use a t s j"
    and "j \<noteq> i \<or> g RoomInstanceActive = RoomInstanceActive"
  shows "in_use b t s j"
  using assms unfolding rooms_moved_def
proof (induction a b rule: list_all2_induct)
  case (Cons r a r' b)
  then show ?case by (auto simp: in_use_def room_identity_def)
qed (simp add: in_use_def)

lemma in_use_same: "rooms_same a b \<Longrightarrow> in_use a t s j \<Longrightarrow> in_use b t s j"
  unfolding rooms_same_def by (induction a b rule: list_all2_induct) (auto simp: in_use_def room_identity_def)

lemma in_use_added: "in_use a t s j \<Longrightarrow> in_use (a @ rs) t s j"
  by (auto simp: in_use_def)

lemma attended_keep:
  assumes "attended db" and "\<And>t s i. in_use (md_rooms db) t s i \<Longrightarrow> in_use (md_rooms db') t s i"
    and "md_participants db' = md_participants db" and "md_admissions db' = md_admissions db"
  shows "attended db'"
  using assms by (auto simp: attended_def)

text \<open>An update of participants that makes nobody present and moves nobody.\<close>

definition presence_kept :: "(participant_row \<Rightarrow> bool) \<Rightarrow> (participant_row \<Rightarrow> participant_row) \<Rightarrow> bool" where
  "presence_kept P f \<longleftrightarrow> (\<forall>p. P p \<longrightarrow> (participant_active (f p) \<longrightarrow> participant_active p) \<and>
     pa_TenantID (f p) = pa_TenantID p \<and> pa_SpaceID (f p) = pa_SpaceID p \<and> pa_RoomID (f p) = pa_RoomID p)"

lemma attended_update:
  assumes "attended db" and "\<And>t s i. in_use (md_rooms db) t s i \<Longrightarrow> in_use (md_rooms db') t s i"
    and "md_participants db' = update_where P f (md_participants db)" and "presence_kept P f"
    and "md_admissions db' = md_admissions db"
  shows "attended db'"
  using assms by (auto simp: attended_def set_update_where presence_kept_def split: if_splits)

text \<open>When a room is closed, everybody in it is settled.\<close>

lemma attended_settled:
  assumes inv: "attended db" and ok: "rooms_ok (md_rooms db)" and room: "room \<in> set (md_rooms db)"
    and moved: "rooms_moved (\<lambda>r. rm_ID r = rm_ID room) g (md_rooms db) (md_rooms db')"
    and ps: "md_participants db' = update_where
      (active_participant_of (rm_TenantID room) (rm_SpaceID room) (rm_ID room)) f (md_participants db)"
    and f: "\<And>p. \<not> participant_active (f p)"
    and as: "md_admissions db' = update_where
      (waiting_admission (rm_TenantID room) (rm_SpaceID room) (rm_ID room))
      (expire_admission resolver code now) (md_admissions db)"
  shows "attended db'"
proof -
  have same: "t = rm_TenantID room \<and> s = rm_SpaceID room" if "in_use (md_rooms db) t s (rm_ID room)" for t s
    using that rooms_unique[OF ok _ room] by (auto simp: in_use_def)
  have keep: "in_use (md_rooms db') t s i" if "in_use (md_rooms db) t s i" "i \<noteq> rm_ID room" for t s i
    using in_use_moved[OF moved that(1)] that(2) by simp
  show ?thesis
    unfolding attended_def
  proof (intro conjI ballI impI)
    fix p' assume p': "p' \<in> set (md_participants db')" "participant_active p'"
    then obtain p where p: "p \<in> set (md_participants db)"
      "p' = (if active_participant_of (rm_TenantID room) (rm_SpaceID room) (rm_ID room) p then f p else p)"
      by (auto simp: ps set_update_where)
    with p'(2) f[of p] have "p' = p" and
      n: "\<not> active_participant_of (rm_TenantID room) (rm_SpaceID room) (rm_ID room) p'"
      by (auto split: if_splits)
    then have u: "in_use (md_rooms db) (pa_TenantID p') (pa_SpaceID p') (pa_RoomID p')"
      using inv p(1) p'(2) by (simp add: attended_def)
    have "pa_RoomID p' \<noteq> rm_ID room"
    proof
      assume "pa_RoomID p' = rm_ID room"
      with u same n p'(2) show False by (simp add: active_participant_of_def)
    qed
    with u show "in_use (md_rooms db') (pa_TenantID p') (pa_SpaceID p') (pa_RoomID p')" by (rule keep)
  next
    fix a' assume a': "a' \<in> set (md_admissions db')" "ad_Status a' = AdmissionWaiting"
    then obtain a where a: "a \<in> set (md_admissions db)"
      "a' = (if waiting_admission (rm_TenantID room) (rm_SpaceID room) (rm_ID room) a
        then expire_admission resolver code now a else a)"
      by (auto simp: as set_update_where)
    have "ad_Status (expire_admission resolver code now a) \<noteq> AdmissionWaiting"
      by (simp add: expire_admission_def)
    with a a'(2) have "a' = a" and
      n: "\<not> waiting_admission (rm_TenantID room) (rm_SpaceID room) (rm_ID room) a'"
      by (auto split: if_splits)
    then have u: "in_use (md_rooms db) (ad_TenantID a') (ad_SpaceID a') (ad_RoomID a')"
      using inv a(1) a'(2) by (simp add: attended_def)
    have "ad_RoomID a' \<noteq> rm_ID room"
    proof
      assume "ad_RoomID a' = rm_ID room"
      with u same n a'(2) show False by (simp add: waiting_admission_def)
    qed
    with u show "in_use (md_rooms db') (ad_TenantID a') (ad_SpaceID a') (ad_RoomID a')" by (rule keep)
  qed
qed

end
