(* ===== verification/Media_Invariant.thy ===== *)
theory Media_Invariant imports Media_Refinement begin

section \<open>The operations refine the lifecycle and keep the invariant\<close>

text \<open>
  The invariant of the media tables, \<open>media_inv\<close>: the constraints of the tables, a history for
  every space, and places only in the running room.  Each step of the machine keeps it.
\<close>

lemma media_inv_step:
  assumes "media_inv db" and "lifecycle_step (lifecycle_of db) (lifecycle_of db')"
    and "media_tables_ok db'" and "numbered db'" and "housed db'" and "attended db'"
  shows "lifecycle_step (lifecycle_of db) (lifecycle_of db') \<and> media_inv db'"
  using assms lifecycle_step_ok by (auto simp: media_inv_def)

lemma media_invD:
  assumes "media_inv db"
  shows "spaces_ok (md_spaces db)" and "rooms_ok (md_rooms db)" and "participants_ok (md_participants db)"
    and "admissions_ok (md_admissions db)" and "receipts_ok (md_receipts db)"
    and "lifecycle_ok (lifecycle_of db)" and "numbered db" and "housed db" and "attended db"
  using assms by (simp_all add: media_inv_def media_tables_ok_def)

text \<open>The history of a loaded space.\<close>

lemma history_of_space:
  assumes "media_inv db" and "loadSpace db t s = Some row"
  shows "lifecycle_of db (t, s) = Some (ms_Status row, map rm_Status (rooms_of db t s))"
    and "history_ok (ms_Status row, map rm_Status (rooms_of db t s))"
  using lifecycle_okD[OF media_invD(6)[OF assms(1)], of "(t, s)"] assms(2) by (auto simp: lifecycle_of_def)

text \<open>A room that is being provisioned or active is the last of an open space.\<close>

lemma live_room_last:
  assumes inv: "media_inv db" and room: "room \<in> set (md_rooms db)"
    and st: "rm_Status room \<in> {RoomInstanceProvisioning, RoomInstanceActive}"
  shows "\<exists>row pre. loadSpace db (rm_TenantID room) (rm_SpaceID room) = Some row \<and>
    ms_Status row = SpaceStatusOpen \<and> rooms_of db (rm_TenantID room) (rm_SpaceID room) = pre @ [room]"
proof -
  let ?rooms = "rooms_of db (rm_TenantID room) (rm_SpaceID room)"
  have member: "room \<in> set ?rooms" using room by (simp add: rooms_of_member)
  then obtain row where row: "loadSpace db (rm_TenantID room) (rm_SpaceID room) = Some row"
    using media_invD(8)[OF inv] by (cases "loadSpace db (rm_TenantID room) (rm_SpaceID room)") (auto simp: housed_def)
  note h = history_of_space(2)[OF inv row]
  have "ms_Status row \<in> {SpaceStatusOpen, SpaceStatusEnded}"
    using h member by (cases "ms_Status row") auto
  then have "list_all (\<lambda>st. st = RoomInstanceFailed) (butlast (map rm_Status ?rooms))" using h by auto
  then have "\<forall>r\<in>set (butlast ?rooms). rm_Status r = RoomInstanceFailed"
    by (simp add: list_all_iff flip: map_butlast)
  with st have "room \<notin> set (butlast ?rooms)" by auto
  with member have last_room: "?rooms = butlast ?rooms @ [room]"
    by (metis append_butlast_last_id empty_iff insert_iff list.set(1,2) set_append Un_iff)
  have "ms_Status row \<noteq> SpaceStatusEnded"
  proof
    assume "ms_Status row = SpaceStatusEnded"
    with h have "last (map rm_Status ?rooms) \<in> {RoomInstanceEnded, RoomInstanceFailed}" by simp
    then show False using st by (subst (asm) last_room) auto
  qed
  with \<open>ms_Status row \<in> _\<close> row last_room show ?thesis by blast
qed

subsection \<open>Start, cancel, recover and end\<close>

lemma intent_added:
  assumes inv: "media_inv db" and row: "loadSpace db (tc_TenantID scope) (ms_ID row) = Some row"
    and spaces: "md_spaces db' = set_space row f (md_spaces db)"
    and rooms: "md_rooms db' = md_rooms db @ [room_intent scope row command n]"
    and n: "n = int (length (rooms_of db (tc_TenantID scope) (ms_ID row))) + 1"
    and f: "\<And>r. ms_ID (f r) = ms_ID r \<and> ms_TenantID (f r) = ms_TenantID r"
    and same: "md_participants db' = md_participants db" "md_admissions db' = md_admissions db"
  shows "lifecycle_of db' = (lifecycle_of db)((tc_TenantID scope, ms_ID row) \<mapsto>
      (ms_Status (f row), map rm_Status (rooms_of db (tc_TenantID scope) (ms_ID row)) @ [RoomInstanceProvisioning]))"
    and "numbered db'" and "housed db'" and "attended db'"
proof -
  have r: "row \<in> set (md_spaces db)" "ms_TenantID row = tc_TenantID scope"
    using loadSpace_Some[OF row] by simp_all
  have intent: "rm_TenantID (room_intent scope row command n) = tc_TenantID scope"
    "rm_SpaceID (room_intent scope row command n) = ms_ID row"
    "rm_Status (room_intent scope row command n) = RoomInstanceProvisioning"
    "rm_AttemptNumber (room_intent scope row command n) = n"
    by (simp_all add: room_intent_def)
  show "lifecycle_of db' = (lifecycle_of db)((tc_TenantID scope, ms_ID row) \<mapsto>
      (ms_Status (f row), map rm_Status (rooms_of db (tc_TenantID scope) (ms_ID row)) @ [RoomInstanceProvisioning]))"
    by (subst lifecycle_of_set_space[OF spaces media_invD(1)[OF inv] r(1) f])
      (auto simp: rooms_of_added[OF rooms] intent r)
  show "numbered db'"
    using media_invD(7)[OF inv] rooms by (rule numbered_added) (simp only: intent, simp only: n)
  show "housed db'"
    using media_invD(8)[OF inv] row
    by (auto simp: housed_def rooms_of_added[OF rooms] intent loadSpace_set_space[OF spaces media_invD(1)[OF inv] r(1) f] r
        split: if_splits)
  show "attended db'"
    using media_invD(9)[OF inv] _ same by (rule attended_keep) (simp add: rooms in_use_added)
qed

lemma startSpace_step:
  assumes inv: "media_inv db" and row: "loadSpace db (tc_TenantID scope) (ms_ID row) = Some row"
    and start: "startSpace rp access scope row command db = Inr ((updated, rid), db')"
  shows "lifecycle_step (lifecycle_of db) (lifecycle_of db') \<and> media_inv db'"
proof -
  let ?f = "open_row (tc_ActorID scope) (tr_OccurredAt command)"
  from startSpace_effect[OF start row media_invD(1)[OF inv]] obtain controls classes ev where
    st: "ms_Status row = SpaceStatusScheduled"
    and db': "db' = db\<lparr>md_controls := controls, md_rooms := md_rooms db @ [room_intent scope row command 1],
      md_spaces := set_space row ?f (md_spaces db), md_classes := classes, md_events := md_events db @ [ev]\<rparr>"
    and ok: "spaces_ok (md_spaces db')" "rooms_ok (md_rooms db')" by blast
  have none: "rooms_of db (tc_TenantID scope) (ms_ID row) = []"
    using history_of_space(2)[OF inv row] st by simp
  note added = intent_added[OF inv row, of db' ?f command 1]
  show ?thesis
  proof (rule media_inv_step[OF inv])
    show "lifecycle_step (lifecycle_of db) (lifecycle_of db')"
      using history_of_space(1)[OF inv row] none st
      by (subst added(1)) (auto simp: db' open_row_def intro: lifecycle_step.start)
    show "media_tables_ok db'" using media_invD[OF inv] ok by (simp add: media_tables_ok_def db')
  qed (rule added(2-4); simp add: db' open_row_def none)+
qed

lemma recoverSpace_step:
  assumes inv: "media_inv db" and row: "loadSpace db (tc_TenantID scope) (ms_ID row) = Some row"
    and recover: "recoverSpace rp access scope row command db = Inr ((updated, rid), db')"
  shows "lifecycle_step (lifecycle_of db) (lifecycle_of db') \<and> media_inv db'"
proof -
  let ?f = "recover_row (tc_ActorID scope) (tr_OccurredAt command)"
  from recoverSpace_effect[OF recover row media_invD(1)[OF inv]] obtain previous ev where
    st: "ms_Status row = SpaceStatusOpen" "rm_Status previous = RoomInstanceFailed"
    and prev: "loadLatestRoom db (tc_TenantID scope) (ms_ID row) = Some previous"
    and db': "db' = db\<lparr>md_rooms := md_rooms db @ [room_intent scope row command (rm_AttemptNumber previous + 1)],
      md_spaces := set_space row ?f (md_spaces db), md_events := md_events db @ [ev]\<rparr>"
    and ok: "spaces_ok (md_spaces db')" "rooms_ok (md_rooms db')" by blast
  obtain pre where pre: "rooms_of db (tc_TenantID scope) (ms_ID row) = pre @ [previous]"
    using loadLatestRoom_last[OF media_invD(7)[OF inv] prev] ..
  note n = numbered_last[OF media_invD(7)[OF inv] pre]
  note added = intent_added[OF inv row, of db' ?f command "rm_AttemptNumber previous + 1"]
  show ?thesis
  proof (rule media_inv_step[OF inv])
    show "lifecycle_step (lifecycle_of db) (lifecycle_of db')"
      using history_of_space(1)[OF inv row] pre st n
      by (subst added(1)) (auto simp: db' recover_row_def intro: lifecycle_step.recover)
    show "media_tables_ok db'" using media_invD[OF inv] ok by (simp add: media_tables_ok_def db')
  qed (rule added(2-4); simp add: db' recover_row_def pre n)+
qed

lemma cancelSpace_step:
  assumes inv: "media_inv db" and row: "loadSpace db (tc_TenantID scope) (ms_ID row) = Some row"
    and cancel: "cancelSpace rp access scope row command db = Inr ((updated, rid), db')"
  shows "lifecycle_step (lifecycle_of db) (lifecycle_of db') \<and> media_inv db'"
proof -
  let ?f = "cancel_row (tc_ActorID scope) (tr_OccurredAt command)"
  from cancelSpace_effect[OF cancel row media_invD(1)[OF inv]] obtain ev where
    st: "ms_Status row = SpaceStatusScheduled"
    and db': "db' = db\<lparr>md_spaces := set_space row ?f (md_spaces db), md_events := md_events db @ [ev]\<rparr>"
    and ok: "spaces_ok (md_spaces db')" by blast
  have r: "row \<in> set (md_spaces db)" "ms_TenantID row = tc_TenantID scope"
    using loadSpace_Some[OF row] by simp_all
  have none: "rooms_of db (tc_TenantID scope) (ms_ID row) = []"
    using history_of_space(2)[OF inv row] st by simp
  have spaces: "md_spaces db' = set_space row ?f (md_spaces db)" by (simp add: db')
  have f: "ms_ID (?f r) = ms_ID r \<and> ms_TenantID (?f r) = ms_TenantID r" for r by (simp add: cancel_row_def)
  have rooms: "rooms_of db' t s = rooms_of db t s" for t s by (simp add: rooms_of_def db')
  show ?thesis
  proof (rule media_inv_step[OF inv])
    show "lifecycle_step (lifecycle_of db) (lifecycle_of db')"
      using history_of_space(1)[OF inv row] none st
      by (subst lifecycle_of_set_space[OF spaces media_invD(1)[OF inv] r(1) f])
        (auto simp: rooms r(2) cancel_row_def intro: lifecycle_step.cancel)
    show "media_tables_ok db'" using media_invD[OF inv] ok by (simp add: media_tables_ok_def db')
    show "numbered db'" using media_invD(7)[OF inv] by (simp add: numbered_def rooms)
    show "housed db'"
      using media_invD(8)[OF inv] row
      by (auto simp: housed_def rooms loadSpace_set_space[OF spaces media_invD(1)[OF inv] r(1) f] split: if_splits)
    show "attended db'" using media_invD(9)[OF inv] by (rule attended_keep) (simp_all add: db')
  qed
qed

text \<open>The room that \<open>endSpace\<close> closes is the last one.\<close>

lemma loadRoomForTermination_last:
  assumes inv: "media_inv db" and row: "loadSpace db t s = Some row" "ms_Status row = SpaceStatusOpen"
    and room: "loadRoomForTermination db t s = Some room"
  shows "\<exists>pre. rooms_of db t s = pre @ [room]"
proof -
  let ?rooms = "rooms_of db t s"
  have h: "?rooms \<noteq> []" "list_all (\<lambda>st. st = RoomInstanceFailed) (butlast (map rm_Status ?rooms))"
    "last (map rm_Status ?rooms) \<in> {RoomInstanceProvisioning, RoomInstanceActive, RoomInstanceFailed}"
    using history_of_space(2)[OF inv row(1)] row(2) by simp_all
  have "room_live r \<or> rm_Status r = RoomInstanceFailed" if "r \<in> set ?rooms" for r
  proof -
    have "rm_Status r \<in> set (butlast (map rm_Status ?rooms)) \<or> rm_Status r = last (map rm_Status ?rooms)"
      using that h(1) by (metis append_butlast_last_id imageI in_set_conv_decomp_last list.map_disc_iff
          list.set_map set_append Un_iff set_ConsD empty_iff list.set(1))
    with h(2,3) show ?thesis by (auto simp: list_all_iff room_live_def)
  qed
  then have "filter (\<lambda>r. room_live r \<or> rm_Status r = RoomInstanceFailed) ?rooms = ?rooms"
    by (simp add: filter_id_conv)
  with room latest_attempt_last[OF numbered_sorted[OF media_invD(7)[OF inv]] h(1)]
  have "room = last ?rooms" by (simp add: loadRoomForTermination_def)
  with h(1) show ?thesis by (metis append_butlast_last_id)
qed

lemma endSpace_step:
  assumes inv: "media_inv db" and row: "loadSpace db (tc_TenantID scope) (ms_ID row) = Some row"
    and ended: "endSpace rp access scope row command db = Inr ((updated, rid), db')"
  shows "lifecycle_step (lifecycle_of db) (lifecycle_of db') \<and> media_inv db'"
proof -
  let ?t = "tc_TenantID scope" and ?s = "ms_ID row" and ?now = "tr_OccurredAt command"
  let ?f = "end_row (tc_ActorID scope) ?now"
  from endSpace_effect[OF ended row media_invD(1,2)[OF inv]] obtain room rooms hands classes evs resolver where
    st: "ms_Status row = SpaceStatusOpen"
    and room: "loadRoomForTermination db ?t ?s = Some room"
    and moved: "rooms_moved (\<lambda>r. rm_ID r = rm_ID room) final_status (md_rooms db) rooms"
    and db': "db' = db\<lparr>md_admissions := update_where (waiting_admission ?t ?s (rm_ID room))
        (expire_admission resolver ''meeting_ended'' ?now) (md_admissions db),
      md_participants := update_where (active_participant_of ?t ?s (rm_ID room))
        (settled_as_left ?now) (md_participants db),
      md_hands := hands, md_rooms := rooms, md_spaces := set_space row ?f (md_spaces db),
      md_classes := classes, md_events := md_events db @ evs\<rparr>"
    and ok: "spaces_ok (md_spaces db')" "rooms_ok (md_rooms db')"
      "participants_ok (md_participants db')" "admissions_ok (md_admissions db')" by blast
  have r: "row \<in> set (md_spaces db)" "ms_TenantID row = ?t" using loadSpace_Some[OF row] by simp_all
  have m: "room \<in> set (md_rooms db)" "rm_TenantID room = ?t" "rm_SpaceID room = ?s"
    using loadRoomForTermination_Some[OF room] by simp_all
  obtain pre where pre: "rooms_of db ?t ?s = pre @ [room]"
    using loadRoomForTermination_last[OF inv row st room] ..
  have spaces: "md_spaces db' = set_space row ?f (md_spaces db)" by (simp add: db')
  have f: "ms_ID (?f r) = ms_ID r \<and> ms_TenantID (?f r) = ms_TenantID r" for r by (simp add: end_row_def)
  have moved': "rooms_moved (\<lambda>r. rm_ID r = rm_ID room) final_status (md_rooms db) (md_rooms db')"
    using moved by (simp add: db')
  note load = loadSpace_set_space[OF spaces media_invD(1)[OF inv] r(1) f]
  show ?thesis
  proof (rule media_inv_step[OF inv])
    show "lifecycle_step (lifecycle_of db) (lifecycle_of db')"
      using history_of_space(1)[OF inv row] st rooms_of_moved[OF moved' media_invD(2)[OF inv] pre]
      by (subst lifecycle_of_set_space[OF spaces media_invD(1)[OF inv] r(1) f])
        (auto simp: r(2) end_row_def pre intro: lifecycle_step.finish)
    show "media_tables_ok db'" using media_invD[OF inv] ok by (simp add: media_tables_ok_def db')
    show "numbered db'" by (rule numbered_moved[OF media_invD(7)[OF inv] moved'])
    show "housed db'" by (rule housed_moved[OF media_invD(8)[OF inv] moved']) (use row in \<open>auto simp: load r\<close>)
    show "attended db'"
      by (rule attended_settled[OF media_invD(9,2)[OF inv] m(1) moved', where f = "settled_as_left ?now"
            and resolver = resolver and code = "''meeting_ended''" and now = ?now])
        (simp_all add: db' m participant_active_def)
  qed
qed

subsection \<open>Activation and webhooks\<close>

lemma room_moved_step:
  assumes inv: "media_inv db" and room: "room \<in> set (md_rooms db)"
    and moved: "room_moved room st db db'"
    and step: "rm_Status room = RoomInstanceProvisioning \<and> st = RoomInstanceActive \<or>
      rm_Status room \<in> {RoomInstanceProvisioning, RoomInstanceActive} \<and> st = RoomInstanceFailed"
    and same: "md_spaces db' = md_spaces db" "md_receipts db' = md_receipts db"
    and ok: "participants_ok (md_participants db')" "admissions_ok (md_admissions db')"
    and att: "attended db'"
  shows "lifecycle_step (lifecycle_of db) (lifecycle_of db') \<and> media_inv db'"
proof -
  from step have "rm_Status room \<in> {RoomInstanceProvisioning, RoomInstanceActive}" by auto
  from live_room_last[OF inv room this] obtain row pre where
    row: "loadSpace db (rm_TenantID room) (rm_SpaceID room) = Some row" "ms_Status row = SpaceStatusOpen"
    and pre: "rooms_of db (rm_TenantID room) (rm_SpaceID room) = pre @ [room]" by blast
  have m: "rooms_moved (\<lambda>r. rm_ID r = rm_ID room) (\<lambda>_. st) (md_rooms db) (md_rooms db')"
    and rok: "rooms_ok (md_rooms db')" using moved by (simp_all add: room_moved_def)
  show ?thesis
  proof (rule media_inv_step[OF inv])
    show "lifecycle_step (lifecycle_of db) (lifecycle_of db')"
      using history_of_space(1)[OF inv row(1)] row(2) step
      by (subst lifecycle_of_moved[OF m media_invD(2)[OF inv] pre same(1) row(1)])
        (auto simp: pre intro: lifecycle_step.activate lifecycle_step.fail)
    show "media_tables_ok db'" using media_invD[OF inv] ok rok by (simp add: media_tables_ok_def same)
    show "numbered db'" by (rule numbered_moved[OF media_invD(7)[OF inv] m])
    show "housed db'" by (rule housed_moved[OF media_invD(8)[OF inv] m]) (simp add: loadSpace_def same)
  qed (rule att)
qed

lemma activation_step:
  assumes inv: "media_inv db" and room: "room \<in> set (md_rooms db)"
    and st: "rm_Status room = RoomInstanceProvisioning" and moved: "room_moved room RoomInstanceActive db db'"
    and db': "db' = db\<lparr>md_rooms := rows\<rparr>"
  shows "lifecycle_step (lifecycle_of db) (lifecycle_of db') \<and> media_inv db'"
proof (rule room_moved_step[OF inv room moved])
  show "attended db'"
    using media_invD(9)[OF inv]
  proof (rule attended_keep)
    fix t s i assume "in_use (md_rooms db) t s i"
    then show "in_use (md_rooms db') t s i"
      using moved by (auto simp: room_moved_def intro: in_use_moved)
  qed (simp_all add: db')
qed (use media_invD[OF inv] st in \<open>simp_all add: db'\<close>)

lemma same_step:
  assumes inv: "media_inv db" and rooms: "rooms_ok (md_rooms db')" "rooms_same (md_rooms db) (md_rooms db')"
    and same: "md_spaces db' = md_spaces db"
    and ok: "participants_ok (md_participants db')" "admissions_ok (md_admissions db')" "receipts_ok (md_receipts db')"
    and att: "attended db'"
  shows "lifecycle_of db' = lifecycle_of db \<and> media_inv db'"
proof -
  have l: "lifecycle_of db' = lifecycle_of db" by (rule lifecycle_of_same[OF same rooms(2)])
  have "lifecycle_step (lifecycle_of db) (lifecycle_of db') \<and> media_inv db'"
  proof (rule media_inv_step[OF inv])
    show "lifecycle_step (lifecycle_of db) (lifecycle_of db')" unfolding l by (rule lifecycle_step.stay)
    show "media_tables_ok db'" using media_invD(1)[OF inv] rooms ok by (simp add: media_tables_ok_def same)
    show "numbered db'" by (rule numbered_moved[OF media_invD(7)[OF inv] rooms(2)[unfolded rooms_same_moved]])
    show "housed db'"
      by (rule housed_moved[OF media_invD(8)[OF inv] rooms(2)[unfolded rooms_same_moved]])
        (simp add: loadSpace_def same)
  qed (rule att)
  with l show ?thesis by simp
qed

lemma participants_updated_step:
  assumes inv: "media_inv db"
    and db': "md_spaces db' = md_spaces db" "md_admissions db' = md_admissions db"
      "md_receipts db' = md_receipts db" "md_participants db' = update_where P f (md_participants db)"
    and ok: "rooms_ok (md_rooms db')" "rooms_same (md_rooms db) (md_rooms db')"
      "participants_ok (md_participants db')"
    and kept: "presence_kept P f"
  shows "lifecycle_of db' = lifecycle_of db \<and> media_inv db'"
proof (rule same_step[OF inv])
  show "attended db'"
    using media_invD(9)[OF inv] _ db'(4) kept db'(2) by (rule attended_update) (rule in_use_same[OF ok(2)])
qed (use db' ok media_invD[OF inv] in simp_all)

lemma webhook_step:
  assumes inv: "media_inv db"
    and call: "RecordProviderWebhook event receivedAt db = Inr ((result, found), db')"
  shows "lifecycle_step (lifecycle_of db) (lifecycle_of db') \<and> media_inv db'"
proof (cases "wt_Recorded result")
  case False
  with RecordProviderWebhook_effect[OF call] inv show ?thesis by (auto intro: lifecycle_step.stay)
next
  case True
  with RecordProviderWebhook_effect[OF call] obtain binding row mutation where
    b: "binding \<in> set (md_rooms db)"
    and cls: "classifyProviderWebhook binding (webhook_participant db binding event) event receivedAt =
          (wr_Disposition row, mutation)"
    and k: "case mutation of None \<Rightarrow> db' = db\<lparr>md_webhooks := md_webhooks db @ [row]\<rparr>
         | Some m \<Rightarrow> m (db\<lparr>md_webhooks := md_webhooks db @ [row]\<rparr>) = Inr db'" by auto
  let ?db = "db\<lparr>md_webhooks := md_webhooks db @ [row]\<rparr>"
  have view: "lifecycle_of ?db = lifecycle_of db" by (simp add: lifecycle_of_def loadSpace_def rooms_of_def)
  have inv': "media_inv ?db"
    using inv by (simp add: media_inv_def media_tables_ok_def view numbered_def housed_def attended_def
        rooms_of_def loadSpace_def)
  note ok = media_invD[OF inv']
  have b': "binding \<in> set (md_rooms ?db)" using b by simp
  show ?thesis
  proof (cases mutation)
    case None
    with k inv' view show ?thesis by (auto intro: lifecycle_step.stay)
  next
    case (Some m)
    with k have m: "m ?db = Inr db'" by simp
    from classifyProviderWebhook_change[OF cls[unfolded Some]] show ?thesis
    proof (elim disjE exE conjE)
      fix sid now assume st: "rm_Status binding = RoomInstanceProvisioning" and "m = webhook_start binding sid now"
      with m have "webhook_start binding sid now ?db = Inr db'" by simp
      from webhook_start_effect[OF this ok(2) _ st] b obtain rows where
        "db' = ?db\<lparr>md_rooms := rows\<rparr>" "room_moved binding RoomInstanceActive ?db db'" by auto
      from activation_step[OF inv' _ st this(2,1)] b show ?thesis by (simp add: view)
    next
      fix now assume st: "rm_Status binding \<in> {RoomInstanceProvisioning, RoomInstanceActive}"
        and "m = webhook_finish binding (rm_Status binding) now"
      with m have "webhook_finish binding (rm_Status binding) now ?db = Inr db'" by simp
      from webhook_finish_effect[OF this ok(2) b'] obtain rooms evs hands where
        db': "db' = ?db\<lparr>md_admissions := update_where
            (waiting_admission (rm_TenantID binding) (rm_SpaceID binding) (rm_ID binding))
            (expire_admission None ''provider_unavailable'' now) (md_admissions ?db),
          md_events := md_events ?db @ evs,
          md_participants := update_where
            (active_participant_of (rm_TenantID binding) (rm_SpaceID binding) (rm_ID binding))
            (settled_as_failed ''provider_room_finished'' now) (md_participants ?db),
          md_hands := hands, md_rooms := rooms\<rparr>"
        and moved: "room_moved binding RoomInstanceFailed ?db db'"
        and ok': "participants_ok (md_participants db')" "admissions_ok (md_admissions db')"
        by blast
      have "rooms_moved (\<lambda>r. rm_ID r = rm_ID binding) (\<lambda>_. RoomInstanceFailed) (md_rooms ?db) (md_rooms db')"
        using moved by (simp add: room_moved_def)
      from attended_settled[OF ok(9,2) b' this, where f = "settled_as_failed ''provider_room_finished'' now"
          and resolver = None and code = "''provider_unavailable''" and now = now]
      have "attended db'" by (simp add: db' participant_active_def)
      from room_moved_step[OF inv' _ moved _ _ _ ok' this] b st show ?thesis by (simp add: view db')
    next
      fix p now assume "m \<in> {webhook_joined binding p now, webhook_left binding p now}"
      with m have "webhook_joined binding p now ?db = Inr db' \<or> webhook_left binding p now ?db = Inr db'" by auto
      then have "lifecycle_of db' = lifecycle_of ?db \<and> media_inv db'"
      proof
        assume "webhook_joined binding p now ?db = Inr db'"
        from webhook_joined_effect[OF this] show ?thesis
          by (elim exE conjE, intro participants_updated_step[OF inv'])
            (auto simp: presence_kept_def bound_participant_def connect_participant_def participant_active_def)
      next
        assume "webhook_left binding p now ?db = Inr db'"
        from webhook_left_effect[OF this] show ?thesis
          by (elim exE conjE, intro participants_updated_step[OF inv'])
            (auto simp: presence_kept_def bound_participant_def leave_participant_def participant_active_def)
      qed
      then show ?thesis by (auto simp: view intro: lifecycle_step.stay)
    qed
  qed
qed

end
