(* ===== verification/Media_Soundness.thy ===== *)
theory Media_Soundness imports Media_Invariant begin

section \<open>What every media transaction guarantees\<close>

text \<open>
  A transaction of the media repositories moves the lifecycle of at most one space, keeps the
  invariant of the tables, and forgets nothing: \<open>sound_step\<close>, proved for each transaction of the
  lifecycle and instance repositories.
\<close>

subsection \<open>Transitions\<close>

lemma insertTransitionReceipt_Inr:
  "insertTransitionReceipt scope command v rid db = Inr db' \<longleftrightarrow>
     receipts_ok (md_receipts db @ [transition_receipt scope command v rid]) \<and>
     db' = db\<lparr>md_receipts := md_receipts db @ [transition_receipt scope command v rid]\<rparr>"
  by (auto simp: insertTransitionReceipt_def)

definition receipt_matches :: "tenant_context \<Rightarrow> transition_command \<Rightarrow> receipt_row \<Rightarrow> bool" where
  "receipt_matches scope command r \<longleftrightarrow> rc_Operation r = tr_Operation command \<and>
     rc_SpaceID r = tr_SpaceID command \<and> rc_Fingerprint r = tr_Fingerprint command"

lemma find_receipt_Some:
  "find_receipt db scope key = Some r \<Longrightarrow> r \<in> set (md_receipts db) \<and>
     rc_TenantID r = tc_TenantID scope \<and> rc_ActorID r = tc_ActorID scope \<and> rc_IdempotencyKey r = key"
  by (auto simp: find_receipt_def receipt_key_def dest!: find_in_set)

lemma loadTransitionReplay_Inr:
  assumes "loadTransitionReplay rp db access scope command = Inr replay"
  shows "case replay of None \<Rightarrow> find_receipt db scope (tr_IdempotencyKey command) = None
    | Some _ \<Rightarrow> \<exists>r. find_receipt db scope (tr_IdempotencyKey command) = Some r \<and> receipt_matches scope command r"
  using assms by (auto simp: loadTransitionReplay_def receipt_matches_def split: option.splits if_splits)

lemma TransitionSpace_effect:
  assumes "TransitionSpace rp access command db = Inr (projected, db')"
  shows "\<exists>access'. requireActiveScope db access = Inr (access', scope_of access) \<and>
    (case find_receipt db (scope_of access) (tr_IdempotencyKey command) of
       Some r \<Rightarrow> receipt_matches (scope_of access) command r \<and> db' = db
     | None \<Rightarrow> \<exists>row updated rid db1. loadSpace db (ac_TenantID access) (tr_SpaceID command) = Some row \<and>
         ms_Version row = tr_ExpectedVersion command \<and>
         run_transition rp access' (scope_of access) row command db = Inr ((updated, rid), db1) \<and>
         db' = db1\<lparr>md_receipts := md_receipts db1 @
           [transition_receipt (scope_of access) command (ms_Version updated) rid]\<rparr> \<and>
         receipts_ok (md_receipts db'))"
proof -
  obtain access' scope where a: "requireActiveScope db access = Inr (access', scope)"
    using assms unfolding TransitionSpace_def by (cases "requireActiveScope db access") auto
  note scope = requireActiveScope_Inr(1)[OF a]
  obtain replay where replay: "loadTransitionReplay rp db access' scope command = Inr replay"
    and k: "(case replay of Some space \<Rightarrow>
         if tr_Operation command = ''recover''
         then try_res (reauthorizeRecoveryReplay rp db access' scope (tr_SpaceID command)) (\<lambda>_. Inr (space, db))
         else Inr (space, db)
     | None \<Rightarrow> (case loadSpace db (tc_TenantID scope) (tr_SpaceID command) of
            None \<Rightarrow> Inl ErrSpaceNotFound
          | Some row \<Rightarrow>
              try_res (authorizeTransition rp db access' scope row (tr_Operation command)) (\<lambda>_.
              if ms_Version row \<noteq> tr_ExpectedVersion command then Inl ErrSpaceVersionConflict
              else
                try_res (run_transition rp access' scope row command db) (\<lambda>((transitioned, roomID), db1).
                try_res (insertTransitionReceipt scope command (ms_Version transitioned) roomID db1) (\<lambda>db2.
                try_res (projectAuthorizedSpace rp db2 access' scope transitioned) (\<lambda>projected.
                  Inr (projected, db2))))))) = Inr (projected, db')"
    using assms[unfolded TransitionSpace_def a try_res_simps case_prod_conv try_res_eq_Inr] by blast
  note r = loadTransitionReplay_Inr[OF replay]
  show ?thesis
  proof (cases replay)
    case (Some space)
    with k r a show ?thesis unfolding scope by (auto split: if_split_asm)
  next
    case None
    with k obtain row updated rid db1 where
      "loadSpace db (tc_TenantID scope) (tr_SpaceID command) = Some row"
      "ms_Version row = tr_ExpectedVersion command"
      "run_transition rp access' scope row command db = Inr ((updated, rid), db1)"
      "insertTransitionReceipt scope command (ms_Version updated) rid db1 = Inr db'"
      by (auto split: option.split_asm if_split_asm)
    moreover from None r have "find_receipt db scope (tr_IdempotencyKey command) = None" by simp
    ultimately show ?thesis using a unfolding scope by (auto simp: insertTransitionReceipt_Inr)
  qed
qed

lemma run_transition_step:
  assumes inv: "media_inv db" and row: "loadSpace db (tc_TenantID scope) (ms_ID row) = Some row"
    and run: "run_transition rp access scope row command db = Inr ((updated, rid), db')"
  shows "lifecycle_step (lifecycle_of db) (lifecycle_of db') \<and> media_inv db'"
  using run startSpace_step[OF inv row] endSpace_step[OF inv row] cancelSpace_step[OF inv row]
    recoverSpace_step[OF inv row]
  by (auto simp: run_transition_def split: if_split_asm)

text \<open>Receipts are only ever added to, or updated in their provider effect.\<close>

definition receipt_identity :: "receipt_row \<Rightarrow> (uuid \<times> uuid \<times> string) \<times> string \<times> uuid \<times> string \<times> int" where
  "receipt_identity r = (receipt_key r, rc_Operation r, rc_SpaceID r, rc_Fingerprint r, rc_ResultVersion r)"

definition receipts_kept :: "receipt_row list \<Rightarrow> receipt_row list \<Rightarrow> bool" where
  "receipts_kept rows rows' \<longleftrightarrow> (\<exists>new. map receipt_identity rows' = map receipt_identity rows @ new)"

lemma receipts_kept_refl [simp]: "receipts_kept rows rows"
  by (simp add: receipts_kept_def)

lemma receipts_kept_trans: "receipts_kept a b \<Longrightarrow> receipts_kept b c \<Longrightarrow> receipts_kept a c"
  by (auto simp: receipts_kept_def)

lemma receipts_kept_append: "receipts_kept rows (rows @ new)"
  by (simp add: receipts_kept_def)

lemma receipts_kept_update:
  assumes "\<And>r. receipt_identity (f r) = receipt_identity r"
  shows "receipts_kept rows (update_where P f rows)"
  by (simp add: receipts_kept_def map_update_where assms)

text \<open>A transition changes its own space, and the version of that space.\<close>

definition space_identity :: "space_row \<Rightarrow> uuid \<times> uuid \<times> source_reference \<times> uuid \<times> string \<times> string" where
  "space_identity r =
     (ms_ID r, ms_TenantID r, ms_Source r, ms_CreatedBy r, ms_CreateKey r, ms_CreateFingerprint r)"

definition next_version :: "(space_row \<Rightarrow> space_row) \<Rightarrow> bool" where
  "next_version f \<longleftrightarrow> (\<forall>r. space_identity (f r) = space_identity r \<and> ms_Version (f r) = ms_Version r + 1)"

lemma next_version_ID: "next_version f \<Longrightarrow> ms_ID (f r) = ms_ID r \<and> ms_TenantID (f r) = ms_TenantID r"
  by (simp add: next_version_def space_identity_def)

lemma transition_rows:
  "next_version (open_row actor now)" "next_version (end_row actor now)"
  "next_version (cancel_row actor now)" "next_version (recover_row actor now)"
  by (simp_all add: next_version_def space_identity_def open_row_def end_row_def cancel_row_def recover_row_def)

lemma run_transition_effect:
  assumes row: "loadSpace db (tc_TenantID scope) (ms_ID row) = Some row" and inv: "media_inv db"
    and run: "run_transition rp access scope row command db = Inr ((updated, rid), db')"
  shows "\<exists>f. next_version f \<and> updated = f row \<and> md_spaces db' = set_space row f (md_spaces db) \<and>
    md_receipts db' = md_receipts db \<and> md_webhooks db' = md_webhooks db"
proof -
  note ok = media_invD(1,2)[OF inv]
  consider "startSpace rp access scope row command db = Inr ((updated, rid), db')"
    | "endSpace rp access scope row command db = Inr ((updated, rid), db')"
    | "cancelSpace rp access scope row command db = Inr ((updated, rid), db')"
    | "recoverSpace rp access scope row command db = Inr ((updated, rid), db')"
    using run by (auto simp: run_transition_def split: if_split_asm)
  then show ?thesis
  proof cases
    case 1
    from startSpace_effect[OF 1 row ok(1)]
    have "updated = open_row (tc_ActorID scope) (tr_OccurredAt command) row \<and>
        md_spaces db' = set_space row (open_row (tc_ActorID scope) (tr_OccurredAt command)) (md_spaces db) \<and>
        md_receipts db' = md_receipts db \<and> md_webhooks db' = md_webhooks db" by (elim exE conjE) simp
    then show ?thesis using transition_rows by blast
  next
    case 2
    from endSpace_effect[OF 2 row ok]
    have "updated = end_row (tc_ActorID scope) (tr_OccurredAt command) row \<and>
        md_spaces db' = set_space row (end_row (tc_ActorID scope) (tr_OccurredAt command)) (md_spaces db) \<and>
        md_receipts db' = md_receipts db \<and> md_webhooks db' = md_webhooks db" by (elim exE conjE) simp
    then show ?thesis using transition_rows by blast
  next
    case 3
    from cancelSpace_effect[OF 3 row ok(1)]
    have "updated = cancel_row (tc_ActorID scope) (tr_OccurredAt command) row \<and>
        md_spaces db' = set_space row (cancel_row (tc_ActorID scope) (tr_OccurredAt command)) (md_spaces db) \<and>
        md_receipts db' = md_receipts db \<and> md_webhooks db' = md_webhooks db" by (elim exE conjE) simp
    then show ?thesis using transition_rows by blast
  next
    case 4
    from recoverSpace_effect[OF 4 row ok(1)]
    have "updated = recover_row (tc_ActorID scope) (tr_OccurredAt command) row \<and>
        md_spaces db' = set_space row (recover_row (tc_ActorID scope) (tr_OccurredAt command)) (md_spaces db) \<and>
        md_receipts db' = md_receipts db \<and> md_webhooks db' = md_webhooks db" by (elim exE conjE) simp
    then show ?thesis using transition_rows by blast
  qed
qed

subsection \<open>Every step refines the lifecycle\<close>

text \<open>
  What no step forgets: spaces stay, with their source, and a change of a space raises its
  version; receipts stay; so do the identifiers of the webhooks.
\<close>

definition spaces_advance :: "'c media_db \<Rightarrow> 'c media_db \<Rightarrow> bool" where
  "spaces_advance db db' \<longleftrightarrow> (\<forall>t s row. loadSpace db t s = Some row \<longrightarrow>
     (\<exists>row'. loadSpace db' t s = Some row' \<and> space_identity row' = space_identity row \<and>
        (row' = row \<or> ms_Version row < ms_Version row')))"

definition remembered :: "'c media_db \<Rightarrow> 'c media_db \<Rightarrow> bool" where
  "remembered db db' \<longleftrightarrow> spaces_advance db db' \<and> receipts_kept (md_receipts db) (md_receipts db') \<and>
     set (map wr_EventID (md_webhooks db)) \<subseteq> set (map wr_EventID (md_webhooks db'))"

lemma spaces_advanceD:
  "spaces_advance db db' \<Longrightarrow> loadSpace db t s = Some row \<Longrightarrow>
     \<exists>row'. loadSpace db' t s = Some row' \<and> space_identity row' = space_identity row \<and>
        (row' = row \<or> ms_Version row < ms_Version row')"
  by (simp add: spaces_advance_def)

lemma spaces_advance_trans:
  assumes "spaces_advance a b" and "spaces_advance b c"
  shows "spaces_advance a c"
  unfolding spaces_advance_def
proof (intro allI impI)
  fix t s row assume "loadSpace a t s = Some row"
  from spaces_advanceD[OF assms(1) this] obtain row' where r': "loadSpace b t s = Some row'"
    "space_identity row' = space_identity row" "row' = row \<or> ms_Version row < ms_Version row'" by blast
  from spaces_advanceD[OF assms(2) r'(1)] r'(2,3)
  show "\<exists>row'. loadSpace c t s = Some row' \<and> space_identity row' = space_identity row \<and>
      (row' = row \<or> ms_Version row < ms_Version row')" by force
qed

lemma remembered_refl [simp]: "remembered db db"
  by (simp add: remembered_def spaces_advance_def)

lemma remembered_trans: "remembered a b \<Longrightarrow> remembered b c \<Longrightarrow> remembered a c"
  unfolding remembered_def using spaces_advance_trans receipts_kept_trans by blast

lemma remembered_frame:
  "md_spaces db' = md_spaces db \<Longrightarrow> receipts_kept (md_receipts db) (md_receipts db') \<Longrightarrow>
   md_webhooks db' = md_webhooks db \<Longrightarrow> remembered db db'"
  by (simp add: remembered_def spaces_advance_def loadSpace_def)

lemma remembered_set_space:
  assumes "next_version f" and "md_spaces db' = set_space row f (md_spaces db)"
    and "spaces_ok (md_spaces db)" and "row \<in> set (md_spaces db)"
    and "md_receipts db' = md_receipts db" and "md_webhooks db' = md_webhooks db"
  shows "remembered db db'"
proof -
  have f: "\<And>r. ms_ID (f r) = ms_ID r \<and> ms_TenantID (f r) = ms_TenantID r"
    "space_identity (f row) = space_identity row" "ms_Version (f row) = ms_Version row + 1"
    using assms(1) next_version_ID by (auto simp: next_version_def)
  have "spaces_advance db db'"
    unfolding spaces_advance_def loadSpace_set_space[OF assms(2-4) f(1)]
    using f loadSpace_member[OF assms(3,4)] by auto
  then show ?thesis by (simp add: remembered_def assms(5,6))
qed

text \<open>What each step guarantees, beside what it does.\<close>

definition sound_step :: "'c media_db \<Rightarrow> 'c media_db \<Rightarrow> bool" where
  "sound_step db db' \<longleftrightarrow> lifecycle_step (lifecycle_of db) (lifecycle_of db') \<and> media_inv db' \<and>
     remembered db db'"

lemma sound_step_refl: "media_inv db \<Longrightarrow> sound_step db db"
  by (simp add: sound_step_def lifecycle_step.stay)

text \<open>A change of the tables that neither the lifecycle nor the invariant looks at.\<close>

lemma sound_step_frame:
  assumes "media_inv db" and "md_spaces db' = md_spaces db" and "md_rooms db' = md_rooms db"
    and "md_participants db' = md_participants db" and "md_admissions db' = md_admissions db"
    and "receipts_ok (md_receipts db')" and "receipts_kept (md_receipts db) (md_receipts db')"
    and "md_webhooks db' = md_webhooks db"
  shows "sound_step db db'"
proof -
  have "lifecycle_of db' = lifecycle_of db \<and> media_inv db'"
  proof (rule same_step[OF assms(1)])
    show "attended db'" using media_invD(9)[OF assms(1)] by (rule attended_keep) (simp_all add: assms)
  qed (use media_invD[OF assms(1)] in \<open>simp_all add: assms\<close>)
  then show ?thesis
    using remembered_frame[OF assms(2,7,8)] by (simp add: sound_step_def lifecycle_step.stay)
qed

lemma transition_sound:
  assumes inv: "media_inv db" and call: "TransitionSpace rp access command db = Inr (projected, db')"
  shows "sound_step db db'"
proof (cases "find_receipt db (scope_of access) (tr_IdempotencyKey command)")
  case (Some r)
  with TransitionSpace_effect[OF call] sound_step_refl[OF inv] show ?thesis by auto
next
  case None
  with TransitionSpace_effect[OF call] obtain access' row updated rid db1 where
    row: "loadSpace db (ac_TenantID access) (tr_SpaceID command) = Some row"
    and run: "run_transition rp access' (scope_of access) row command db = Inr ((updated, rid), db1)"
    and db': "db' = db1\<lparr>md_receipts := md_receipts db1 @
      [transition_receipt (scope_of access) command (ms_Version updated) rid]\<rparr>"
    and ok: "receipts_ok (md_receipts db')" by auto
  have row': "loadSpace db (tc_TenantID (scope_of access)) (ms_ID row) = Some row"
    using row loadSpace_Some[OF row] by simp
  obtain f where f: "next_version f" "md_spaces db1 = set_space row f (md_spaces db)"
    "md_receipts db1 = md_receipts db" "md_webhooks db1 = md_webhooks db"
    using run_transition_effect[OF row' inv run] by blast
  have 1: "sound_step db db1"
    using run_transition_step[OF inv row' run] loadSpace_Some[OF row']
      remembered_set_space[OF f(1,2) media_invD(1)[OF inv] _ f(3,4)]
    by (simp add: sound_step_def)
  then have "sound_step db1 db'"
    using ok by (intro sound_step_frame) (simp_all add: sound_step_def db' receipts_kept_append)
  with 1 have "lifecycle_of db' = lifecycle_of db1"
    by (simp add: lifecycle_of_def db' loadSpace_def rooms_of_def)
  with 1 \<open>sound_step db1 db'\<close> show ?thesis by (auto simp: sound_step_def intro: remembered_trans)
qed

lemma create_sound:
  assumes inv: "media_inv db" and call: "CreateSpace rp access command db = Inr ((space, created), db')"
  shows "sound_step db db'"
proof (cases created)
  case False
  with CreateSpace_effect[OF call] sound_step_refl[OF inv] show ?thesis by simp
next
  case True
  with CreateSpace_effect[OF call] obtain controls meetings source classID evs where
    db': "db' = db\<lparr>md_controls := controls, md_meetings := meetings,
          md_spaces := md_spaces db @ [new_space_row (scope_of access) command source classID],
          md_events := md_events db @ evs\<rparr>" and ok: "spaces_ok (md_spaces db')" by auto
  let ?row = "new_space_row (scope_of access) command source classID"
  have row: "ms_ID ?row = cc_SpaceID command" "ms_TenantID ?row = ac_TenantID access"
    "ms_Status ?row = SpaceStatusScheduled" by (simp_all add: new_space_row_def)
  have new: "loadSpace db t (cc_SpaceID command) = None" for t
    using spaces_ok_ID[OF ok] row by (auto simp: db' unique_index_append loadSpace_def find_None_iff)
  have load: "loadSpace db' t s = (if (t, s) = (ac_TenantID access, cc_SpaceID command) then Some ?row
      else loadSpace db t s)" for t s
    using new by (auto simp: loadSpace_def db' find_append row split: option.split)
  have rooms: "rooms_of db' t s = rooms_of db t s" for t s by (simp add: rooms_of_def db')
  have none: "rooms_of db (ac_TenantID access) (cc_SpaceID command) = []"
    using media_invD(8)[OF inv] new by (simp add: housed_def)
  have "lifecycle_of db' = (lifecycle_of db)((ac_TenantID access, cc_SpaceID command) \<mapsto> (SpaceStatusScheduled, []))"
    by (auto simp: fun_eq_iff lifecycle_of_def load rooms none row)
  moreover have "lifecycle_of db (ac_TenantID access, cc_SpaceID command) = None"
    by (simp add: lifecycle_of_def new)
  ultimately have step: "lifecycle_step (lifecycle_of db) (lifecycle_of db')"
    by (simp add: lifecycle_step.create)
  have "lifecycle_step (lifecycle_of db) (lifecycle_of db') \<and> media_inv db'"
  proof (rule media_inv_step[OF inv step])
    show "media_tables_ok db'" using media_invD[OF inv] ok by (simp add: media_tables_ok_def db')
    show "numbered db'" using media_invD(7)[OF inv] by (simp add: numbered_def rooms)
    show "housed db'" using media_invD(8)[OF inv] by (simp add: housed_def rooms load)
    show "attended db'" using media_invD(9)[OF inv] by (rule attended_keep) (simp_all add: db')
  qed
  moreover have "remembered db db'"
    using new by (auto simp: remembered_def spaces_advance_def load) (simp_all add: db')
  ultimately show ?thesis by (simp add: sound_step_def)
qed

lemma activate_sound:
  assumes inv: "media_inv db"
    and call: "ActivateRoomInstance rp access spaceID roomID sid now db = Inr (space, db')"
  shows "sound_step db db'"
proof -
  from ActivateRoomInstance_effect[OF call media_invD(2)[OF inv]] consider "db' = db"
    | room rows where "room \<in> set (md_rooms db)" "provisioning_room (ac_TenantID access) spaceID roomID room"
      "db' = db\<lparr>md_rooms := rows\<rparr>" "room_moved room RoomInstanceActive db db'" by blast
  then show ?thesis
  proof cases
    case 2
    then show ?thesis
      using activation_step[OF inv 2(1) _ 2(4,3)] remembered_frame[of db' db]
      by (simp add: sound_step_def provisioning_room_def)
  qed (simp add: sound_step_refl inv)
qed

lemma webhook_frame:
  assumes ok: "rooms_ok (md_rooms db)"
    and call: "RecordProviderWebhook event receivedAt db = Inr ((result, found), db')"
    and recorded: "wt_Recorded result"
  shows "\<exists>row. wr_EventID row = trim_space (we_ID event) \<and> md_spaces db' = md_spaces db \<and>
    md_receipts db' = md_receipts db \<and> md_webhooks db' = md_webhooks db @ [row]"
proof -
  from RecordProviderWebhook_effect[OF call] recorded obtain binding row mutation where
    id: "wr_EventID row = trim_space (we_ID event)" and b: "binding \<in> set (md_rooms db)"
    and cls: "classifyProviderWebhook binding (webhook_participant db binding event) event receivedAt =
          (wr_Disposition row, mutation)"
    and k: "case mutation of None \<Rightarrow> db' = db\<lparr>md_webhooks := md_webhooks db @ [row]\<rparr>
         | Some m \<Rightarrow> m (db\<lparr>md_webhooks := md_webhooks db @ [row]\<rparr>) = Inr db'" by auto
  let ?db = "db\<lparr>md_webhooks := md_webhooks db @ [row]\<rparr>"
  have ok': "rooms_ok (md_rooms ?db)" and b': "binding \<in> set (md_rooms ?db)" using ok b by simp_all
  have "md_spaces db' = md_spaces db \<and> md_receipts db' = md_receipts db \<and>
      md_webhooks db' = md_webhooks db @ [row]"
  proof (cases mutation)
    case None
    with k show ?thesis by simp
  next
    case (Some m)
    with k have m: "m ?db = Inr db'" by simp
    from classifyProviderWebhook_change[OF cls[unfolded Some]] m consider
        sid now where "rm_Status binding = RoomInstanceProvisioning" "webhook_start binding sid now ?db = Inr db'"
      | now where "webhook_finish binding (rm_Status binding) now ?db = Inr db'"
      | p now where "webhook_joined binding p now ?db = Inr db'"
      | p now where "webhook_left binding p now ?db = Inr db'"
      by auto
    then show ?thesis
    proof cases
      case 1
      from webhook_start_effect[OF 1(2) ok' b' 1(1)] show ?thesis by auto
    next
      case 2
      from webhook_finish_effect[OF 2 ok' b'] show ?thesis by (elim exE conjE) simp
    next
      case 3
      from webhook_joined_effect[OF 3] show ?thesis by (elim exE conjE) simp
    next
      case 4
      from webhook_left_effect[OF 4] show ?thesis by (elim exE conjE) simp
    qed
  qed
  with id show ?thesis by blast
qed

lemma webhook_remembered:
  assumes "rooms_ok (md_rooms db)"
    and call: "RecordProviderWebhook event receivedAt db = Inr ((result, found), db')"
  shows "remembered db db'"
proof (cases "wt_Recorded result")
  case True
  from webhook_frame[OF assms True] show ?thesis
    by (auto simp: remembered_def spaces_advance_def loadSpace_def)
next
  case False
  with RecordProviderWebhook_effect[OF call] show ?thesis by simp
qed

lemma webhook_sound:
  assumes inv: "media_inv db" and call: "RecordProviderWebhook event receivedAt db = Inr ((result, found), db')"
  shows "sound_step db db'"
  using webhook_step[OF inv call] webhook_remembered[OF media_invD(2)[OF inv] call] by (simp add: sound_step_def)

lemma join_sound:
  assumes inv: "media_inv db"
    and call: "CreateOrReuseJoinAttempt sha256 rp access spaceID input ids now db = Inr ((attempt, created), db')"
  shows "sound_step db db'"
proof (cases created)
  case False
  with CreateOrReuseJoinAttempt_effect[OF call] sound_step_refl[OF inv] show ?thesis by auto
next
  case True
  with CreateOrReuseJoinAttempt_effect[OF call] obtain space room source where
    space: "loadSpace db (ac_TenantID access) spaceID = Some space"
    and room: "loadActiveRoom db (ac_TenantID access) spaceID = Some room" "rm_Status room = RoomInstanceActive"
    and c: "create_join_attempt rp (scope_of access) space room
        (resolveEffectiveCredentialSource db (ac_TenantID access) (rm_ID room) (ac_ActorID access) source) ids
        (ji_JoinAttemptID input) (sha256 (join_attempt_preimage spaceID input)) now db = Inr (attempt, db')" by auto
  note r = loadActiveRoom_Some[OF room(1)]
  have sid: "ms_ID space = spaceID" using loadSpace_Some[OF space] by simp
  from create_join_attempt_effect[OF c] obtain lobby sequence rooms role fingerprint where
    db': "db' = db\<lparr>md_rooms := rooms,
      md_admissions := md_admissions db @ (if lobby then [new_admission (scope_of access) spaceID (rm_ID room)
        (jd_AdmissionID ids) (ji_JoinAttemptID input) fingerprint now] else []),
      md_participants := md_participants db @ [new_participant (scope_of access) spaceID (rm_ID room) ids
        (ji_JoinAttemptID input) role lobby sequence now]\<rparr>"
    and rooms: "rooms_ok rooms" "rooms_same (md_rooms db) rooms"
    and ok: "participants_ok (md_participants db')" "lobby \<longrightarrow> admissions_ok (md_admissions db')"
    unfolding sid by blast
  have use: "in_use (md_rooms db') (ac_TenantID access) spaceID (rm_ID room)"
  proof -
    have "in_use (md_rooms db) (ac_TenantID access) spaceID (rm_ID room)"
      using r room(2) by (auto simp: in_use_def)
    from in_use_same[OF rooms(2) this] show ?thesis by (simp add: db')
  qed
  have "attended db'"
    using media_invD(9)[OF inv] in_use_same[OF rooms(2)] use
    by (auto simp: attended_def db' new_admission_def new_participant_def)
  then have "lifecycle_of db' = lifecycle_of db \<and> media_inv db'"
    using rooms ok media_invD(4,5)[OF inv]
    by (intro same_step[OF inv]) (simp_all add: db' split: if_splits)
  moreover have "remembered db db'" by (rule remembered_frame) (simp_all add: db')
  ultimately show ?thesis by (simp add: sound_step_def lifecycle_step.stay)
qed

lemma credential_sound:
  assumes inv: "media_inv db"
    and call: "PrepareCredential rp access spaceID attemptID now db = Inr (grant, db')"
  shows "sound_step db db'"
proof -
  from PrepareCredential_effect[OF call media_invD(2)[OF inv]] obtain room role ws ps rooms where
    db': "db' = db\<lparr>md_credentials := ws, md_participants := ps, md_rooms := rooms\<rparr>"
    and rooms: "rooms_ok rooms" "rooms_same (md_rooms db) rooms"
    and adv: "participant_advanced (scope_of access) room attemptID role now (md_participants db) ps" by blast
  from adv media_invD(3)[OF inv] have "participants_ok ps" by (auto simp: participant_advanced_def)
  moreover from adv obtain P f where "ps = update_where P f (md_participants db)" "presence_kept P f"
  proof -
    let ?at = "attempt_in_status (ac_TenantID access) (rm_ID room) (ac_ActorID access) attemptID"
    from adv consider "ps = md_participants db"
      | "ps = update_where (?at ParticipantAdmitted) (join_participant role now) (md_participants db)"
      | "ps = update_where (?at ParticipantJoining) (refresh_participant_role role now) (md_participants db)"
      by (auto simp: participant_advanced_def)
    then show thesis
    proof cases
      case 1
      then show thesis
        using that[of "\<lambda>_. False" id] by (simp add: update_where_none presence_kept_def)
    next
      case 2
      then show thesis
        using that[OF 2] by (simp add: presence_kept_def join_participant_def attempt_in_status_def participant_active_def)
    next
      case 3
      then show thesis
        using that[OF 3] by (simp add: presence_kept_def refresh_participant_role_def participant_active_def)
    qed
  qed
  ultimately have "lifecycle_of db' = lifecycle_of db \<and> media_inv db'"
    using rooms by (intro participants_updated_step[OF inv]) (simp_all add: db')
  moreover have "remembered db db'" by (rule remembered_frame) (simp_all add: db')
  ultimately show ?thesis by (simp add: sound_step_def lifecycle_step.stay)
qed

lemma claim_sound:
  assumes inv: "media_inv db"
    and call: "ClaimEndProviderEffect access spaceID key now lease db = Inr ((effect, status, claimed), db')"
  shows "sound_step db db'"
  using ClaimEndProviderEffect_effect[OF call] inv
  by (auto simp: Let_def sound_step_refl claim_effect_def receipt_identity_def receipt_key_def
      split: if_splits intro!: sound_step_frame receipts_kept_update)

lemma complete_sound:
  assumes inv: "media_inv db"
    and call: "CompleteEndProviderEffect access spaceID key attempt status code now db = Inr (status', db')"
  shows "sound_step db db'"
  using CompleteEndProviderEffect_effect[OF call] inv
  by (auto simp: Let_def complete_effect_def receipt_identity_def receipt_key_def
      intro!: sound_step_frame receipts_kept_update)

end
