(* ===== verification/Media_Lobby.thy ===== *)
theory Media_Lobby imports Media_Webhooks begin

section \<open>The lobby: access and rows (modules/media/postgres\_lobby\_repository.go)\<close>

text \<open>
  What the lobby repository reads before it decides anything: who may work with the lobby of a
  space, the rows it loads with their users, the receipts that make a retry recognisable, and
  the projections it answers with.  A call that fails in the store is
  \<open>LobbyLifecycle ErrLifecycleUnavailable\<close> where the code wraps it in \<open>unavailable\<close>, which drops
  the error it wraps.
\<close>

subsection \<open>Values\<close>

datatype lobby_error =
    ErrLobbyUnavailable | ErrInvalidLobbyRequest | ErrAdmissionNotFound
  | ErrAdmissionVersionConflict | ErrAdmissionTransition | ErrLobbyMemberNotFound
  | ErrLobbyMemberVersionConflict | LobbyLifecycle lifecycle_error

text \<open>
  \<open>LobbyAdmissionStatus\<close>; \<open>LobbyAdmissionExpired\<close> is the status column of an expired request, which
  the load of a projection passes on although it is no constant of the type.
\<close>

datatype lobby_admission_status =
    LobbyAdmissionWaiting | LobbyAdmissionAdmitted | LobbyAdmissionDenied | LobbyAdmissionCancelled
  | LobbyAdmissionMeetingEnded | LobbyAdmissionTimeout | LobbyAdmissionProviderUnavailable
  | LobbyAdmissionExpired

record lobby_admission =
  la_ID :: uuid
  la_Status :: lobby_admission_status
  la_Version :: int
  la_DisplayName :: string
  la_CreatedAt :: instant
  la_ExpiresAt :: instant

record lobby_member =
  lm_UserID :: uuid
  lm_DisplayName :: string
  lm_Status :: member_status
  lm_Version :: int
  lm_CreatedAt :: instant
  lm_UpdatedAt :: instant

record lobby_list_input =
  ll_ExpectedSpaceVersion :: int
  ll_ExpectedRoomInstanceID :: uuid
  ll_ExpectedRoomInstanceVersion :: int
  ll_Limit :: int

record admission_command =
  lc_SpaceID :: uuid
  lc_AdmissionID :: uuid
  lc_JoinAttemptID :: uuid
  lc_Operation :: string
  lc_ExpectedSpaceVersion :: int
  lc_ExpectedRoomInstanceID :: uuid
  lc_ExpectedRoomInstanceVersion :: int
  lc_ExpectedAdmissionVersion :: int
  lc_IdempotencyKey :: string
  lc_ReasonCode :: string
  lc_Fingerprint :: string
  lc_OccurredAt :: instant
  lc_AdmissionTTL :: duration

record invite_command =
  iv_SpaceID :: uuid
  iv_TargetEmail :: string
  iv_ExpectedSpaceVersion :: int
  iv_IdempotencyKey :: string
  iv_Fingerprint :: string
  iv_OccurredAt :: instant

record member_command =
  mc_SpaceID :: uuid
  mc_TargetUserID :: uuid
  mc_Operation :: string
  mc_ExpectedSpaceVersion :: int
  mc_ExpectedMemberVersion :: int
  mc_IdempotencyKey :: string
  mc_ReasonCode :: string
  mc_Fingerprint :: string
  mc_OccurredAt :: instant

definition lift_lobby :: "lifecycle_error + 'a \<Rightarrow> lobby_error + 'a" where
  "lift_lobby r = (case r of Inl e \<Rightarrow> Inl (LobbyLifecycle e) | Inr x \<Rightarrow> Inr x)"

definition lobby_unavailable :: "'e + 'a \<Rightarrow> lobby_error + 'a" where
  "lobby_unavailable r =
     (case r of Inl _ \<Rightarrow> Inl (LobbyLifecycle ErrLifecycleUnavailable) | Inr x \<Rightarrow> Inr x)"

lemma lift_lobby_Inr [simp]: "lift_lobby r = Inr x \<longleftrightarrow> r = Inr x"
  by (cases r) (simp_all add: lift_lobby_def)

lemma lobby_unavailable_Inr [simp]: "lobby_unavailable r = Inr x \<longleftrightarrow> r = Inr x"
  by (cases r) (simp_all add: lobby_unavailable_def)

subsection \<open>Loads\<close>

definition user_of :: "'c media_db \<Rightarrow> uuid \<Rightarrow> user_row option" where
  "user_of db userID = find (\<lambda>u. us_ID u = userID) (md_users db)"

text \<open>The rows of a room's admissions that join with their user.\<close>

definition admission_of :: "'c media_db \<Rightarrow> uuid \<Rightarrow> uuid \<Rightarrow> uuid \<Rightarrow> admission_row \<Rightarrow> bool" where
  "admission_of db tenantID spaceID roomID r \<longleftrightarrow> ad_TenantID r = tenantID \<and>
     ad_SpaceID r = spaceID \<and> ad_RoomID r = roomID \<and> user_of db (ad_UserID r) \<noteq> None"

definition display_name :: "'c media_db \<Rightarrow> uuid \<Rightarrow> string" where
  "display_name db userID = (case user_of db userID of None \<Rightarrow> [] | Some u \<Rightarrow> us_DisplayName u)"

definition load_admission ::
  "'c media_db \<Rightarrow> uuid \<Rightarrow> uuid \<Rightarrow> uuid \<Rightarrow> uuid \<Rightarrow> admission_row option" where
  "load_admission db tenantID spaceID roomID admissionID =
     find (\<lambda>r. admission_of db tenantID spaceID roomID r \<and> ad_ID r = admissionID) (md_admissions db)"

definition loadLobbyParticipantByAdmission ::
  "'c media_db \<Rightarrow> uuid \<Rightarrow> uuid \<Rightarrow> uuid \<Rightarrow> uuid \<Rightarrow> uuid \<Rightarrow> participant_row option" where
  "loadLobbyParticipantByAdmission db tenantID spaceID roomID admissionID userID =
     find (\<lambda>p. pa_TenantID p = tenantID \<and> pa_SpaceID p = spaceID \<and> pa_RoomID p = roomID \<and>
       pa_AdmissionID p = Some admissionID \<and> pa_UserID p = userID) (md_participants db)"

definition loadLobbyAdmissionForMutation ::
  "'c media_db \<Rightarrow> uuid \<Rightarrow> uuid \<Rightarrow> uuid \<Rightarrow> uuid \<Rightarrow> (admission_row \<times> participant_row) option" where
  "loadLobbyAdmissionForMutation db tenantID spaceID roomID admissionID =
     (case load_admission db tenantID spaceID roomID admissionID of
        None \<Rightarrow> None
      | Some a \<Rightarrow> map_option (Pair a)
          (loadLobbyParticipantByAdmission db tenantID spaceID roomID admissionID (ad_UserID a)))"

text \<open>A participant joined with the admission it refers to and with the user of that.\<close>

definition loadLobbyAttemptByJoinID ::
  "'c media_db \<Rightarrow> uuid \<Rightarrow> uuid \<Rightarrow> uuid \<Rightarrow> uuid \<Rightarrow> uuid \<Rightarrow> (participant_row \<times> admission_row) option" where
  "loadLobbyAttemptByJoinID db tenantID spaceID roomID userID joinAttemptID =
     (let joined = (\<lambda>p. case pa_AdmissionID p of None \<Rightarrow> None
            | Some i \<Rightarrow> load_admission db tenantID spaceID roomID i) in
      case find (\<lambda>p. pa_TenantID p = tenantID \<and> pa_SpaceID p = spaceID \<and> pa_RoomID p = roomID \<and>
          pa_UserID p = userID \<and> pa_JoinAttemptID p = joinAttemptID \<and> joined p \<noteq> None)
        (md_participants db) of
        None \<Rightarrow> None
      | Some p \<Rightarrow> map_option (Pair p) (joined p))"

fun raw_admission_status :: "admission_status \<Rightarrow> lobby_admission_status" where
  "raw_admission_status AdmissionWaiting = LobbyAdmissionWaiting"
| "raw_admission_status AdmissionAdmitted = LobbyAdmissionAdmitted"
| "raw_admission_status AdmissionDenied = LobbyAdmissionDenied"
| "raw_admission_status AdmissionCancelled = LobbyAdmissionCancelled"
| "raw_admission_status AdmissionExpired = LobbyAdmissionExpired"

definition admission_item :: "'c media_db \<Rightarrow> duration \<Rightarrow> admission_row \<Rightarrow> lobby_admission" where
  "admission_item db ttl a = \<lparr>la_ID = ad_ID a, la_Status = raw_admission_status (ad_Status a),
     la_Version = ad_Version a, la_DisplayName = display_name db (ad_UserID a),
     la_CreatedAt = ad_CreatedAt a, la_ExpiresAt = ad_CreatedAt a + ttl\<rparr>"

definition loadLobbyAdmissionProjection ::
  "'c media_db \<Rightarrow> uuid \<Rightarrow> uuid \<Rightarrow> uuid \<Rightarrow> uuid \<Rightarrow> duration \<Rightarrow> lobby_admission option" where
  "loadLobbyAdmissionProjection db tenantID spaceID roomID admissionID ttl =
     map_option (admission_item db ttl) (load_admission db tenantID spaceID roomID admissionID)"

definition member_item :: "'c media_db \<Rightarrow> member_row \<Rightarrow> lobby_member" where
  "member_item db m = \<lparr>lm_UserID = mb_UserID m, lm_DisplayName = display_name db (mb_UserID m),
     lm_Status = mb_Status m, lm_Version = mb_Version m, lm_CreatedAt = mb_CreatedAt m,
     lm_UpdatedAt = mb_UpdatedAt m\<rparr>"

definition member_of :: "'c media_db \<Rightarrow> uuid \<Rightarrow> uuid \<Rightarrow> member_row \<Rightarrow> bool" where
  "member_of db tenantID spaceID m \<longleftrightarrow> mb_TenantID m = tenantID \<and> mb_SpaceID m = spaceID \<and>
     user_of db (mb_UserID m) \<noteq> None"

definition loadLobbyMemberProjection ::
  "'c media_db \<Rightarrow> uuid \<Rightarrow> uuid \<Rightarrow> uuid \<Rightarrow> lobby_member option" where
  "loadLobbyMemberProjection db tenantID spaceID userID =
     map_option (member_item db)
       (find (\<lambda>m. member_of db tenantID spaceID m \<and> mb_UserID m = userID) (md_members db))"

subsection \<open>Who may work with the lobby\<close>

text \<open>The scope of the caller, the space and its source, behind the feature of the media rooms.\<close>

definition lobby_space ::
  "'c lifecycle_repository \<Rightarrow> 'c media_db \<Rightarrow> access_context \<Rightarrow> uuid \<Rightarrow> permission \<Rightarrow>
   (authorized_source \<Rightarrow> lobby_error + unit) \<Rightarrow>
   lobby_error + tenant_context \<times> space_row \<times> authorized_source" where
  "lobby_space rp db access0 spaceID action check =
     try_res (lift_lobby (requireActiveScope db access0)) (\<lambda>(access, scope).
     case loadSpace db (tc_TenantID scope) spaceID of
       None \<Rightarrow> Inl (LobbyLifecycle ErrSpaceNotFound)
     | Some space \<Rightarrow>
         try_res (lift_lobby (authorizeSource rp db access scope space action False False)) (\<lambda>source.
         try_res (check source) (\<lambda>_.
         try_res (lift_lobby (require_feature rp db (tc_TenantID scope) FeatureClassroomMediaRooms))
           (\<lambda>_. Inr (scope, space, source)))))"

definition loadModeratorLobby ::
  "'c lifecycle_repository \<Rightarrow> 'c media_db \<Rightarrow> access_context \<Rightarrow> uuid \<Rightarrow> int \<Rightarrow> uuid \<Rightarrow> int \<Rightarrow>
   lobby_error + tenant_context \<times> space_row \<times> room_row" where
  "loadModeratorLobby rp db access spaceID spaceVersion roomID roomVersion =
     try_res (lobby_space rp db access spaceID PermissionSessionJoin (\<lambda>_. Inr ()))
       (\<lambda>(scope, space, source).
     if ms_Version space \<noteq> spaceVersion then Inl (LobbyLifecycle ErrSpaceVersionConflict)
     else if ms_Status space \<noteq> SpaceStatusOpen \<or> \<not> ms_LobbyEnabled space
       then Inl (LobbyLifecycle ErrRoomNotOpen)
     else case find_room db (tc_TenantID scope) (ms_ID space) roomID of
       None \<Rightarrow> Inl (LobbyLifecycle ErrRoomNotOpen)
     | Some room \<Rightarrow>
         if rm_Version room \<noteq> roomVersion then Inl ErrAdmissionVersionConflict
         else if rm_Status room \<noteq> RoomInstanceActive then Inl (LobbyLifecycle ErrRoomNotOpen)
         else if effectiveRoomRole db (tc_TenantID scope) (rm_ID room) (tc_ActorID scope)
             (as_InstanceRole source) \<notin> {InstanceRoleHost, InstanceRoleCoHost, InstanceRoleTeachingAssistant}
           then Inl (LobbyLifecycle ErrSpaceAccessDenied)
         else Inr (scope, space, room))"

definition lobby_terminal :: "space_row \<Rightarrow> room_row \<Rightarrow> bool" where
  "lobby_terminal space room \<longleftrightarrow> ms_Status space \<in> {SpaceStatusEnded, SpaceStatusCancelled} \<or>
     rm_Status room \<in> {RoomInstanceClosing, RoomInstanceEnded, RoomInstanceFailed}"

definition loadSelfLobby ::
  "'c lifecycle_repository \<Rightarrow> 'c media_db \<Rightarrow> access_context \<Rightarrow> uuid \<Rightarrow> int \<Rightarrow> uuid \<Rightarrow> int \<Rightarrow> bool \<Rightarrow>
   lobby_error + tenant_context \<times> space_row \<times> room_row" where
  "loadSelfLobby rp db access spaceID spaceVersion roomID roomVersion allowTerminalRead =
     try_res (lobby_space rp db access spaceID PermissionSessionJoin (\<lambda>_. Inr ()))
       (\<lambda>(scope, space, _).
     let spaceMatches = (ms_Version space = spaceVersion) in
     if \<not> spaceMatches \<and> \<not> allowTerminalRead then Inl (LobbyLifecycle ErrSpaceVersionConflict)
     else if \<not> ms_LobbyEnabled space then Inl (LobbyLifecycle ErrRoomNotOpen)
     else case find_room db (tc_TenantID scope) (ms_ID space) roomID of
       None \<Rightarrow> Inl (LobbyLifecycle ErrRoomNotOpen)
     | Some room \<Rightarrow>
         if (\<not> spaceMatches \<or> rm_Version room \<noteq> roomVersion) \<and>
            (\<not> allowTerminalRead \<or> \<not> lobby_terminal space room)
         then Inl (if \<not> spaceMatches then LobbyLifecycle ErrSpaceVersionConflict
                   else ErrAdmissionVersionConflict)
         else Inr (scope, space, room))"

text \<open>The meeting's owner invites and restores; a safety administrator may list and revoke.\<close>

definition member_operation_allowed :: "string \<Rightarrow> string \<Rightarrow> authorized_source \<Rightarrow> lobby_error + unit" where
  "member_operation_allowed operation reasonCode source =
     (if as_Kind source \<noteq> SourceStudyMeeting \<or> (\<not> as_Owner source \<and> \<not> as_SafetyAdmin source)
        then Inl (LobbyLifecycle ErrSpaceAccessDenied)
      else if operation = ''list'' then Inr ()
      else if operation = ''invite'' \<or> operation = ''member_restore'' then
        (if as_Owner source then Inr () else Inl (LobbyLifecycle ErrSpaceAccessDenied))
      else if operation = ''member_revoke'' then
        (if as_SafetyAdmin source \<and> \<not> as_Owner source \<and> reasonCode = []
         then Inl ErrInvalidLobbyRequest else Inr ())
      else Inl ErrInvalidLobbyRequest)"

definition loadStudyMeetingLobby ::
  "'c lifecycle_repository \<Rightarrow> 'c media_db \<Rightarrow> access_context \<Rightarrow> uuid \<Rightarrow> int \<Rightarrow> string \<Rightarrow> string \<Rightarrow>
   lobby_error + tenant_context \<times> space_row \<times> room_row option" where
  "loadStudyMeetingLobby rp db access spaceID spaceVersion operation reasonCode =
     try_res (lobby_space rp db access spaceID PermissionClassView
         (member_operation_allowed operation reasonCode)) (\<lambda>(scope, space, _).
     if ms_Version space \<noteq> spaceVersion then Inl (LobbyLifecycle ErrSpaceVersionConflict)
     else if ms_Status space \<noteq> SpaceStatusScheduled \<and> ms_Status space \<noteq> SpaceStatusOpen
       then Inl (LobbyLifecycle ErrRoomNotOpen)
     else Inr (scope, space, loadActiveRoom db (tc_TenantID scope) (ms_ID space)))"

subsection \<open>Receipts and events\<close>

definition loadLobbyMutationReceipt ::
  "'c media_db \<Rightarrow> tenant_context \<Rightarrow> string \<Rightarrow> uuid \<Rightarrow> string \<Rightarrow> string \<Rightarrow> lobby_error + bool" where
  "loadLobbyMutationReceipt db scope operation spaceID key fingerprint =
     (case find_receipt db scope key of
        None \<Rightarrow> Inr False
      | Some r \<Rightarrow>
          if rc_Operation r \<noteq> operation \<or> rc_SpaceID r \<noteq> spaceID \<or> rc_ActorID r \<noteq> tc_ActorID scope \<or>
             rc_Fingerprint r \<noteq> fingerprint
          then Inl (LobbyLifecycle ErrSpaceIdempotency) else Inr True)"

definition lobby_receipt ::
  "tenant_context \<Rightarrow> string \<Rightarrow> uuid \<Rightarrow> uuid \<Rightarrow> string \<Rightarrow> string \<Rightarrow> int \<Rightarrow> instant \<Rightarrow> receipt_row" where
  "lobby_receipt scope operation spaceID roomID key fingerprint spaceVersion now =
     \<lparr>rc_TenantID = tc_TenantID scope, rc_ActorID = tc_ActorID scope, rc_IdempotencyKey = key,
      rc_Fingerprint = fingerprint, rc_Operation = operation, rc_SpaceID = spaceID,
      rc_ResultVersion = spaceVersion, rc_ResultRoomID = nullableLifecycleUUID roomID,
      rc_CreatedAt = now, rc_TargetID = None, rc_RoomVersion = None, rc_ProjectionVersion = None,
      rc_ParticipantVersion = None, rc_RoleVersion = None, rc_InstanceRole = None, rc_Locked = None,
      rc_EffectRequired = False, rc_EffectStatus = ProviderEffectNone, rc_EffectAttempts = 0,
      rc_EffectErrorCode = None, rc_EffectLeaseUntil = None, rc_EffectUpdatedAt = None\<rparr>"

definition insert_receipt :: "'e \<Rightarrow> receipt_row \<Rightarrow> 'c media_db \<Rightarrow> 'e + 'c media_db" where
  "insert_receipt e r db =
     try_res (constrained receipts_ok e (md_receipts db @ [r])) (\<lambda>rows.
       Inr (db\<lparr>md_receipts := rows\<rparr>))"

definition insertLobbyMutationReceipt ::
  "tenant_context \<Rightarrow> string \<Rightarrow> uuid \<Rightarrow> uuid \<Rightarrow> string \<Rightarrow> string \<Rightarrow> int \<Rightarrow> instant \<Rightarrow> 'c media_db \<Rightarrow>
   lobby_error + 'c media_db" where
  "insertLobbyMutationReceipt scope operation spaceID roomID key fingerprint spaceVersion now =
     insert_receipt (LobbyLifecycle LifecycleOther)
       (lobby_receipt scope operation spaceID roomID key fingerprint spaceVersion now)"

fun admission_status_string :: "lobby_admission_status \<Rightarrow> string" where
  "admission_status_string LobbyAdmissionWaiting = ''waiting''"
| "admission_status_string LobbyAdmissionAdmitted = ''admitted''"
| "admission_status_string LobbyAdmissionDenied = ''denied''"
| "admission_status_string LobbyAdmissionCancelled = ''cancelled''"
| "admission_status_string LobbyAdmissionMeetingEnded = ''meeting_ended''"
| "admission_status_string LobbyAdmissionTimeout = ''timeout''"
| "admission_status_string LobbyAdmissionProviderUnavailable = ''provider_unavailable''"
| "admission_status_string LobbyAdmissionExpired = ''expired''"

definition appendLobbyAdmissionEvent ::
  "tenant_context \<Rightarrow> uuid \<Rightarrow> uuid \<Rightarrow> lobby_admission \<Rightarrow> string \<Rightarrow> string \<Rightarrow> instant \<Rightarrow>
   'c media_db \<Rightarrow> 'c media_db" where
  "appendLobbyAdmissionEvent scope spaceID targetUserID admission eventType reasonCode now =
     append_event \<lparr>ev_Type = eventType, ev_TenantID = tc_TenantID scope,
       ev_AggregateID = la_ID admission, ev_ActorID = tc_ActorID scope, ev_SpaceID = Some spaceID,
       ev_RoomID = None, ev_TargetID = Some targetUserID,
       ev_Status = admission_status_string (la_Status admission), ev_Version = la_Version admission,
       ev_ReasonCode = reasonCode, ev_SafetyAction = False, ev_OccurredAt = now\<rparr>"

fun member_status_string :: "member_status \<Rightarrow> string" where
  "member_status_string LobbyMemberActive = ''active''"
| "member_status_string LobbyMemberRevoked = ''revoked''"

definition appendLobbyMemberEvent ::
  "tenant_context \<Rightarrow> uuid \<Rightarrow> lobby_member \<Rightarrow> string \<Rightarrow> string \<Rightarrow> instant \<Rightarrow> 'c media_db \<Rightarrow> 'c media_db" where
  "appendLobbyMemberEvent scope spaceID member eventType reasonCode now =
     append_event \<lparr>ev_Type = eventType, ev_TenantID = tc_TenantID scope, ev_AggregateID = spaceID,
       ev_ActorID = tc_ActorID scope, ev_SpaceID = Some spaceID, ev_RoomID = None,
       ev_TargetID = Some (lm_UserID member), ev_Status = member_status_string (lm_Status member),
       ev_Version = lm_Version member, ev_ReasonCode = reasonCode, ev_SafetyAction = False,
       ev_OccurredAt = now\<rparr>"

subsection \<open>Projections\<close>

definition projectLobbyAdmission :: "'c media_db \<Rightarrow> admission_row \<Rightarrow> duration \<Rightarrow> lobby_admission" where
  "projectLobbyAdmission db a ttl = (admission_item db ttl a)\<lparr>la_Status :=
     (if ad_Status a = AdmissionExpired then
        (if ad_ResolutionCode a = Some ''meeting_ended'' then LobbyAdmissionMeetingEnded
         else if ad_ResolutionCode a = Some ''provider_unavailable'' then LobbyAdmissionProviderUnavailable
         else LobbyAdmissionTimeout)
      else raw_admission_status (ad_Status a))\<rparr>"

definition lobby_attempt_status ::
  "participant_row \<Rightarrow> admission_row \<Rightarrow> space_row \<Rightarrow> room_row \<Rightarrow> instant \<Rightarrow> duration \<Rightarrow> join_attempt_status" where
  "lobby_attempt_status p a space room now ttl =
     (if rm_Status room = RoomInstanceFailed then JoinAttemptProviderUnavailable
      else if rm_Status room \<in> {RoomInstanceEnded, RoomInstanceClosing} \<or>
        ms_Status space \<in> {SpaceStatusEnded, SpaceStatusCancelled} then JoinAttemptMeetingEnded
      else case ad_Status a of
        AdmissionWaiting \<Rightarrow> if now < ad_CreatedAt a + ttl then JoinAttemptWaiting else JoinAttemptTimeout
      | AdmissionAdmitted \<Rightarrow>
          if pa_Status p = ParticipantJoining then JoinAttemptJoining else JoinAttemptAdmitted
      | AdmissionDenied \<Rightarrow> JoinAttemptDenied
      | AdmissionCancelled \<Rightarrow> JoinAttemptCancelled
      | AdmissionExpired \<Rightarrow>
          if ad_ResolutionCode a = Some ''meeting_ended'' then JoinAttemptMeetingEnded
          else if ad_ResolutionCode a = Some ''provider_unavailable'' then JoinAttemptProviderUnavailable
          else JoinAttemptTimeout)"

definition projectLobbyJoinAttempt ::
  "participant_row \<Rightarrow> admission_row \<Rightarrow> space_row \<Rightarrow> room_row \<Rightarrow> instant \<Rightarrow> duration \<Rightarrow> join_attempt" where
  "projectLobbyJoinAttempt p a space room now ttl =
     \<lparr>ja_ParticipantSessionID = pa_ID p, ja_RoomInstanceID = rm_ID room,
      ja_AdmissionRequestID = Some (ad_ID a), ja_AdmissionVersion = Some (ad_Version a),
      ja_JoinAttemptID = pa_JoinAttemptID p, ja_Status = lobby_attempt_status p a space room now ttl,
      ja_Version = pa_Version p, ja_InstanceRole = pa_InstanceRole p,
      ja_CanPublishCameraMicrophone = False, ja_CanShareScreen = False, ja_CanSubscribe = True,
      ja_CreatedAt = pa_CreatedAt p, ja_UpdatedAt = pa_UpdatedAt p,
      ja_ExpiresAt = Some (ad_CreatedAt a + ttl)\<rparr>"

end
