(* ===== verification/Media_Decisions.thy ===== *)
theory Media_Decisions imports Media_Lobby begin

section \<open>The lobby: decisions (modules/media/postgres\_lobby\_repository.go)\<close>

text \<open>
  The transactions of the lobby repository.  Rolling a transaction back leaves the database as it
  was; \<open>MutateAdmission\<close> commits the expiry of a request that is decided too late and still
  answers with an error, so its result is an error or an admission beside the new database.
\<close>

subsection \<open>Statements\<close>

definition resolve_admission ::
  "admission_status \<Rightarrow> uuid option \<Rightarrow> string option \<Rightarrow> instant \<Rightarrow> admission_row \<Rightarrow> admission_row" where
  "resolve_admission status resolver code now r = r\<lparr>ad_Status := status,
     ad_Version := ad_Version r + 1, ad_ResolvedAt := Some now, ad_ResolvedBy := resolver,
     ad_ResolutionCode := code, ad_UpdatedAt := now\<rparr>"

text \<open>An UPDATE that must affect exactly one row; \<open>e\<close> is the error of a failing statement.\<close>

definition update_one_admission ::
  "lobby_error \<Rightarrow> (admission_row \<Rightarrow> bool) \<Rightarrow> (admission_row \<Rightarrow> admission_row) \<Rightarrow> 'c media_db \<Rightarrow>
   lobby_error + 'c media_db" where
  "update_one_admission e P f db =
     try_res (constrained admissions_ok e (update_where P f (md_admissions db))) (\<lambda>rows.
       if count_where P (md_admissions db) \<noteq> 1 then Inl ErrAdmissionTransition
       else Inr (db\<lparr>md_admissions := rows\<rparr>))"

definition update_one_participant ::
  "lobby_error \<Rightarrow> (participant_row \<Rightarrow> bool) \<Rightarrow> (participant_row \<Rightarrow> participant_row) \<Rightarrow> 'c media_db \<Rightarrow>
   lobby_error + 'c media_db" where
  "update_one_participant e P f db =
     try_res (constrained participants_ok e (update_where P f (md_participants db))) (\<lambda>rows.
       if count_where P (md_participants db) \<noteq> 1 then Inl ErrAdmissionTransition
       else Inr (db\<lparr>md_participants := rows\<rparr>))"

text \<open>The row of a decision, while it is in the given state.\<close>

definition decided_admission :: "uuid \<Rightarrow> admission_row \<Rightarrow> admission_status \<Rightarrow> admission_row \<Rightarrow> bool" where
  "decided_admission tenantID a status r \<longleftrightarrow> ad_TenantID r = tenantID \<and> ad_ID r = ad_ID a \<and>
     ad_UserID r = ad_UserID a \<and> ad_Status r = status"

definition decided_participant ::
  "uuid \<Rightarrow> admission_row \<Rightarrow> participant_row \<Rightarrow> participant_status \<Rightarrow> participant_row \<Rightarrow> bool" where
  "decided_participant tenantID a p status r \<longleftrightarrow> pa_TenantID r = tenantID \<and> pa_ID r = pa_ID p \<and>
     pa_AdmissionID r = Some (ad_ID a) \<and> pa_UserID r = ad_UserID a \<and> pa_Status r = status"

definition admit_participant :: "instant \<Rightarrow> participant_row \<Rightarrow> participant_row" where
  "admit_participant now r = r\<lparr>pa_Status := ParticipantAdmitted, pa_Version := pa_Version r + 1,
     pa_AdmittedAt := Some now, pa_UpdatedAt := now\<rparr>"

definition deny_participant :: "uuid \<Rightarrow> instant \<Rightarrow> participant_row \<Rightarrow> participant_row" where
  "deny_participant actor now r = r\<lparr>pa_Status := ParticipantRemoved, pa_Version := pa_Version r + 1,
     pa_CapacityReserved := False, pa_TerminalAt := Some now, pa_RemovedBy := Some actor,
     pa_UpdatedAt := now\<rparr>"

definition restore_participant :: "uuid \<Rightarrow> instant \<Rightarrow> participant_row \<Rightarrow> participant_row" where
  "restore_participant actor now r = r\<lparr>pa_Version := pa_Version r + 1,
     pa_RejoinRestoredAt := Some now, pa_RejoinRestoredBy := Some actor, pa_UpdatedAt := now\<rparr>"

definition time_out_participant :: "instant \<Rightarrow> participant_row \<Rightarrow> participant_row" where
  "time_out_participant now r = r\<lparr>pa_Status := ParticipantFailed, pa_Version := pa_Version r + 1,
     pa_CapacityReserved := False, pa_TerminalAt := Some now,
     pa_FailureCode := Some ''admission_timeout'', pa_UpdatedAt := now\<rparr>"

definition withdraw_participant :: "instant \<Rightarrow> participant_row \<Rightarrow> participant_row" where
  "withdraw_participant now r = r\<lparr>pa_Status := ParticipantLeft, pa_Version := pa_Version r + 1,
     pa_CapacityReserved := False, pa_TerminalAt := Some now, pa_UpdatedAt := now\<rparr>"

subsection \<open>The decisions\<close>

definition admitLobbyAdmission ::
  "tenant_context \<Rightarrow> admission_row \<Rightarrow> participant_row \<Rightarrow> instant \<Rightarrow> 'c media_db \<Rightarrow>
   lobby_error + string \<times> 'c media_db" where
  "admitLobbyAdmission scope a p now db =
     (if ad_Status a \<noteq> AdmissionWaiting \<or> pa_Status p \<noteq> ParticipantWaiting
        then Inl ErrAdmissionTransition
      else
        try_res (update_one_admission (LobbyLifecycle LifecycleOther)
            (decided_admission (tc_TenantID scope) a AdmissionWaiting)
            (resolve_admission AdmissionAdmitted (Some (tc_ActorID scope)) None now) db) (\<lambda>db1.
        try_res (update_one_participant (LobbyLifecycle LifecycleOther)
            (decided_participant (tc_TenantID scope) a p ParticipantWaiting)
            (admit_participant now) db1) (\<lambda>db2.
          Inr (''media_admission.admitted.v1'', db2))))"

definition denyLobbyAdmission ::
  "tenant_context \<Rightarrow> admission_row \<Rightarrow> participant_row \<Rightarrow> string \<Rightarrow> instant \<Rightarrow> 'c media_db \<Rightarrow>
   lobby_error + string \<times> 'c media_db" where
  "denyLobbyAdmission scope a p reasonCode now db =
     (if ad_Status a \<noteq> AdmissionWaiting \<or> pa_Status p \<noteq> ParticipantWaiting \<or> reasonCode = []
        then Inl ErrAdmissionTransition
      else
        try_res (update_one_admission (LobbyLifecycle LifecycleOther)
            (decided_admission (tc_TenantID scope) a AdmissionWaiting)
            (resolve_admission AdmissionDenied (Some (tc_ActorID scope)) (Some reasonCode) now) db)
          (\<lambda>db1.
        try_res (update_one_participant (LobbyLifecycle LifecycleOther)
            (decided_participant (tc_TenantID scope) a p ParticipantWaiting)
            (deny_participant (tc_ActorID scope) now) db1) (\<lambda>db2.
          Inr (''media_admission.denied.v1'', db2))))"

definition restoreLobbyAdmission ::
  "tenant_context \<Rightarrow> admission_row \<Rightarrow> participant_row \<Rightarrow> instant \<Rightarrow> 'c media_db \<Rightarrow>
   lobby_error + string \<times> 'c media_db" where
  "restoreLobbyAdmission scope a p now db =
     (if ad_Status a \<noteq> AdmissionDenied \<or> pa_Status p \<noteq> ParticipantRemoved
        then Inl ErrAdmissionTransition
      else
        try_res (update_one_admission (LobbyLifecycle LifecycleOther)
            (decided_admission (tc_TenantID scope) a AdmissionDenied)
            (resolve_admission AdmissionCancelled (Some (tc_ActorID scope)) (Some ''restored'') now) db)
          (\<lambda>db1.
        try_res (update_one_participant (LobbyLifecycle LifecycleOther)
            (\<lambda>r. decided_participant (tc_TenantID scope) a p ParticipantRemoved r \<and>
               pa_RejoinRestoredAt r = None)
            (restore_participant (tc_ActorID scope) now) db1) (\<lambda>db2.
          Inr (''media_admission.restored.v1'', db2))))"

subsection \<open>Requests that waited too long\<close>

definition expireLobbyAttempt ::
  "tenant_context \<Rightarrow> uuid \<Rightarrow> uuid \<Rightarrow> admission_row \<Rightarrow> participant_row \<Rightarrow> string \<Rightarrow> instant \<Rightarrow>
   'c media_db \<Rightarrow> lobby_error + 'c media_db" where
  "expireLobbyAttempt scope spaceID roomID a p code now db =
     (if ad_Status a \<noteq> AdmissionWaiting \<or> pa_Status p \<noteq> ParticipantWaiting
        then Inl ErrAdmissionTransition
      else
        try_res (update_one_admission (LobbyLifecycle LifecycleOther)
            (\<lambda>r. waiting_admission (tc_TenantID scope) spaceID roomID r \<and> ad_ID r = ad_ID a)
            (resolve_admission AdmissionExpired None (Some code) now) db) (\<lambda>db1.
        try_res (update_one_participant (LobbyLifecycle LifecycleOther)
            (\<lambda>r. pa_TenantID r = tc_TenantID scope \<and> pa_SpaceID r = spaceID \<and> pa_RoomID r = roomID \<and>
               pa_ID r = pa_ID p \<and> pa_UserID r = ad_UserID a \<and> pa_Status r = ParticipantWaiting)
            (time_out_participant now) db1) (\<lambda>db2.
          Inr (appendExpiredLobbyAdmissionEvent (tc_TenantID scope) (tc_ActorID scope)
            (resolve_admission AdmissionExpired None (Some code) now a) code now db2))))"

text \<open>\<open>ORDER BY created_at, id\<close>.\<close>

definition in_queue_order :: "admission_row list \<Rightarrow> admission_row list" where
  "in_queue_order rows = sort_key ad_CreatedAt (sort_key ad_ID rows)"

fun expire_admissions ::
  "tenant_context \<Rightarrow> uuid \<Rightarrow> uuid \<Rightarrow> instant \<Rightarrow> admission_row list \<Rightarrow> 'c media_db \<Rightarrow>
   lobby_error + 'c media_db" where
  "expire_admissions scope spaceID roomID now [] db = Inr db"
| "expire_admissions scope spaceID roomID now (a # rows) db =
     (case loadLobbyParticipantByAdmission db (tc_TenantID scope) spaceID roomID (ad_ID a) (ad_UserID a) of
        None \<Rightarrow> Inl ErrAdmissionTransition
      | Some p \<Rightarrow>
          try_res (expireLobbyAttempt scope spaceID roomID a p ''wait_timeout'' now db)
            (expire_admissions scope spaceID roomID now rows))"

definition expireTimedOutLobbyAdmissions ::
  "tenant_context \<Rightarrow> uuid \<Rightarrow> uuid \<Rightarrow> instant \<Rightarrow> duration \<Rightarrow> 'c media_db \<Rightarrow> lobby_error + 'c media_db" where
  "expireTimedOutLobbyAdmissions scope spaceID roomID now ttl db =
     expire_admissions scope spaceID roomID now
       (in_queue_order (filter (\<lambda>r. admission_of db (tc_TenantID scope) spaceID roomID r \<and>
          ad_Status r = AdmissionWaiting \<and> ad_CreatedAt r \<le> now - ttl) (md_admissions db))) db"

subsection \<open>Reads\<close>

definition ListAdmissions ::
  "'c lifecycle_repository \<Rightarrow> access_context \<Rightarrow> uuid \<Rightarrow> lobby_list_input \<Rightarrow> instant \<Rightarrow> duration \<Rightarrow>
   'c media_db \<Rightarrow> lobby_error + lobby_admission list \<times> 'c media_db" where
  "ListAdmissions rp access spaceID input now ttl db =
     try_res (loadModeratorLobby rp db access spaceID (ll_ExpectedSpaceVersion input)
         (ll_ExpectedRoomInstanceID input) (ll_ExpectedRoomInstanceVersion input))
       (\<lambda>(scope, space, room).
     try_res (lobby_unavailable (expireTimedOutLobbyAdmissions scope spaceID (rm_ID room) now ttl db))
       (\<lambda>db1.
       Inr (map (admission_item db1 ttl) (take (nat (ll_Limit input)) (in_queue_order
         (filter (\<lambda>r. admission_of db1 (tc_TenantID scope) spaceID (rm_ID room) r \<and>
            ad_Status r = AdmissionWaiting \<and> ad_CreatedAt r > now - ttl) (md_admissions db1)))), db1)))"

definition GetJoinAttempt ::
  "'c lifecycle_repository \<Rightarrow> access_context \<Rightarrow> uuid \<Rightarrow> uuid \<Rightarrow> lobby_list_input \<Rightarrow> instant \<Rightarrow> duration \<Rightarrow>
   'c media_db \<Rightarrow> lobby_error + join_attempt \<times> 'c media_db" where
  "GetJoinAttempt rp access spaceID joinAttemptID input now ttl db =
     try_res (loadSelfLobby rp db access spaceID (ll_ExpectedSpaceVersion input)
         (ll_ExpectedRoomInstanceID input) (ll_ExpectedRoomInstanceVersion input) True)
       (\<lambda>(scope, space, room).
     let load = (\<lambda>db. loadLobbyAttemptByJoinID db (tc_TenantID scope) (ms_ID space) (rm_ID room)
           (tc_ActorID scope) joinAttemptID) in
     case load db of
       None \<Rightarrow> Inl ErrAdmissionNotFound
     | Some (p, a) \<Rightarrow>
         if ad_Status a = AdmissionWaiting \<and> \<not> now < ad_CreatedAt a + ttl then
           try_res (lobby_unavailable (expireLobbyAttempt scope (ms_ID space) (rm_ID room) a p
               ''wait_timeout'' now db)) (\<lambda>db1.
             case load db1 of
               None \<Rightarrow> Inl (LobbyLifecycle ErrLifecycleUnavailable)
             | Some (p', a') \<Rightarrow> Inr (projectLobbyJoinAttempt p' a' space room now ttl, db1))
         else Inr (projectLobbyJoinAttempt p a space room now ttl, db))"

subsection \<open>Deciding a request\<close>

definition decide_admission ::
  "tenant_context \<Rightarrow> admission_command \<Rightarrow> admission_row \<Rightarrow> participant_row \<Rightarrow> 'c media_db \<Rightarrow>
   lobby_error + string \<times> 'c media_db" where
  "decide_admission scope command a p db =
     (if lc_Operation command = ''admission_admit''
        then admitLobbyAdmission scope a p (lc_OccurredAt command) db
      else if lc_Operation command = ''admission_deny''
        then denyLobbyAdmission scope a p (lc_ReasonCode command) (lc_OccurredAt command) db
      else if lc_Operation command = ''admission_restore''
        then restoreLobbyAdmission scope a p (lc_OccurredAt command) db
      else Inl ErrInvalidLobbyRequest)"

definition record_lobby_receipt ::
  "tenant_context \<Rightarrow> admission_command \<Rightarrow> space_row \<Rightarrow> room_row \<Rightarrow> 'c media_db \<Rightarrow> lobby_error + 'c media_db" where
  "record_lobby_receipt scope command space room db =
     lobby_unavailable (insertLobbyMutationReceipt scope (lc_Operation command) (lc_SpaceID command)
       (rm_ID room) (lc_IdempotencyKey command) (lc_Fingerprint command) (ms_Version space)
       (lc_OccurredAt command) db)"

definition lobby_replay ::
  "tenant_context \<Rightarrow> admission_command \<Rightarrow> 'c media_db \<Rightarrow> lobby_error + bool" where
  "lobby_replay scope command db =
     lobby_unavailable (loadLobbyMutationReceipt db scope (lc_Operation command) (lc_SpaceID command)
       (lc_IdempotencyKey command) (lc_Fingerprint command))"

definition too_late :: "admission_command \<Rightarrow> admission_row \<Rightarrow> bool" where
  "too_late command a \<longleftrightarrow> \<not> lc_OccurredAt command < ad_CreatedAt a + lc_AdmissionTTL command"

definition MutateAdmission ::
  "'c lifecycle_repository \<Rightarrow> access_context \<Rightarrow> admission_command \<Rightarrow> 'c media_db \<Rightarrow>
   lobby_error + (lobby_error + lobby_admission) \<times> 'c media_db" where
  "MutateAdmission rp access command db =
     try_res (loadModeratorLobby rp db access (lc_SpaceID command) (lc_ExpectedSpaceVersion command)
         (lc_ExpectedRoomInstanceID command) (lc_ExpectedRoomInstanceVersion command))
       (\<lambda>(scope, space, room).
     let project = (\<lambda>db. loadLobbyAdmissionProjection db (tc_TenantID scope) (lc_SpaceID command)
           (rm_ID room) (lc_AdmissionID command) (lc_AdmissionTTL command)) in
     try_res (lobby_replay scope command db) (\<lambda>found.
     if found then
       (case project db of None \<Rightarrow> Inl ErrAdmissionNotFound | Some item \<Rightarrow> Inr (Inr item, db))
     else if lc_Operation command = ''admission_admit'' \<and> ms_Locked space
       then Inl (LobbyLifecycle ErrRoomLocked)
     else case loadLobbyAdmissionForMutation db (tc_TenantID scope) (lc_SpaceID command) (rm_ID room)
         (lc_AdmissionID command) of
       None \<Rightarrow> Inl ErrAdmissionNotFound
     | Some (a, p) \<Rightarrow>
         if ad_Version a \<noteq> lc_ExpectedAdmissionVersion command then Inl ErrAdmissionVersionConflict
         else if lc_OccurredAt command < ad_CreatedAt a then Inl ErrInvalidLobbyRequest
         else if ad_Status a = AdmissionWaiting \<and> too_late command a then
           try_res (lobby_unavailable (expireLobbyAttempt scope (lc_SpaceID command) (rm_ID room) a p
               ''wait_timeout'' (lc_OccurredAt command) db)) (\<lambda>db1.
             Inr (Inl ErrAdmissionTransition, db1))
         else
           try_res (decide_admission scope command a p db) (\<lambda>(eventType, db1).
           case project db1 of
             None \<Rightarrow> Inl (LobbyLifecycle ErrLifecycleUnavailable)
           | Some updated \<Rightarrow>
               try_res (record_lobby_receipt scope command space room db1) (\<lambda>db2.
                 Inr (Inr updated, appendLobbyAdmissionEvent scope (lc_SpaceID command) (ad_UserID a)
                   updated eventType (lc_ReasonCode command) (lc_OccurredAt command) db2)))))"

text \<open>The two statements that take an attendee's own request back.\<close>

definition withdraw ::
  "tenant_context \<Rightarrow> space_row \<Rightarrow> room_row \<Rightarrow> admission_row \<Rightarrow> participant_row \<Rightarrow> instant \<Rightarrow> 'c media_db \<Rightarrow>
   lobby_error + 'c media_db" where
  "withdraw scope space room a p now db =
     try_res (update_one_admission (LobbyLifecycle ErrLifecycleUnavailable)
         (\<lambda>r. waiting_admission (tc_TenantID scope) (ms_ID space) (rm_ID room) r \<and> ad_ID r = ad_ID a)
         (resolve_admission AdmissionCancelled (Some (tc_ActorID scope)) (Some ''actor_cancelled'') now) db)
       (update_one_participant (LobbyLifecycle ErrLifecycleUnavailable)
         (\<lambda>r. pa_TenantID r = tc_TenantID scope \<and> pa_SpaceID r = ms_ID space \<and> pa_RoomID r = rm_ID room \<and>
            pa_ID r = pa_ID p \<and> pa_UserID r = tc_ActorID scope \<and> pa_Status r = ParticipantWaiting)
         (withdraw_participant now))"

text \<open>The caller's own attempt, as the lobby sees it after the statements so far.\<close>

definition own_attempt ::
  "tenant_context \<Rightarrow> space_row \<Rightarrow> room_row \<Rightarrow> admission_command \<Rightarrow> 'c media_db \<Rightarrow>
   (participant_row \<times> admission_row) option" where
  "own_attempt scope space room command db = loadLobbyAttemptByJoinID db (tc_TenantID scope) (ms_ID space)
     (rm_ID room) (tc_ActorID scope) (lc_JoinAttemptID command)"

text \<open>A waiting attempt is taken back, or, when its time has passed, closed as timed out.\<close>

definition cancel_waiting ::
  "tenant_context \<Rightarrow> space_row \<Rightarrow> room_row \<Rightarrow> admission_command \<Rightarrow> participant_row \<Rightarrow> admission_row \<Rightarrow>
   'c media_db \<Rightarrow> lobby_error + (participant_row \<times> admission_row) \<times> 'c media_db" where
  "cancel_waiting scope space room command p a db =
     (let now = lc_OccurredAt command in
      if too_late command a then
        try_res (lobby_unavailable (expireLobbyAttempt scope (lc_SpaceID command) (rm_ID room) a p
            ''wait_timeout'' now db)) (\<lambda>db1.
        try_res (record_lobby_receipt scope command space room db1) (\<lambda>db2.
        case own_attempt scope space room command db2 of
          None \<Rightarrow> Inl (LobbyLifecycle ErrLifecycleUnavailable)
        | Some attempt \<Rightarrow> Inr (attempt, db2)))
      else
        try_res (withdraw scope space room a p now db) (\<lambda>db1.
        try_res (record_lobby_receipt scope command space room db1) (\<lambda>db2.
        case own_attempt scope space room command db2 of
          None \<Rightarrow> Inl (LobbyLifecycle ErrLifecycleUnavailable)
        | Some attempt \<Rightarrow>
            Inr (attempt, appendLobbyAdmissionEvent scope (lc_SpaceID command) (tc_ActorID scope)
              (projectLobbyAdmission db2 (snd attempt) (lc_AdmissionTTL command))
              ''media_admission.cancelled.v1'' ''actor_cancelled'' now db2))))"

definition CancelJoinAttempt ::
  "'c lifecycle_repository \<Rightarrow> access_context \<Rightarrow> admission_command \<Rightarrow> 'c media_db \<Rightarrow>
   lobby_error + join_attempt \<times> 'c media_db" where
  "CancelJoinAttempt rp access command db =
     try_res (loadSelfLobby rp db access (lc_SpaceID command) (lc_ExpectedSpaceVersion command)
         (lc_ExpectedRoomInstanceID command) (lc_ExpectedRoomInstanceVersion command) False)
       (\<lambda>(scope, space, room).
     let now = lc_OccurredAt command;
         project = (\<lambda>(p, a). projectLobbyJoinAttempt p a space room now (lc_AdmissionTTL command)) in
     if ms_Status space \<noteq> SpaceStatusOpen \<or> rm_Status room \<noteq> RoomInstanceActive
       then Inl (LobbyLifecycle ErrRoomNotOpen)
     else
       try_res (lobby_replay scope command db) (\<lambda>found.
       case own_attempt scope space room command db of
         None \<Rightarrow> Inl ErrAdmissionNotFound
       | Some (p, a) \<Rightarrow>
           if found then Inr (project (p, a), db)
           else if ad_Version a \<noteq> lc_ExpectedAdmissionVersion command then Inl ErrAdmissionVersionConflict
           else if ad_Status a \<noteq> AdmissionWaiting \<or> pa_Status p \<noteq> ParticipantWaiting
             then Inl ErrAdmissionTransition
           else if now < ad_CreatedAt a then Inl ErrAdmissionTransition
           else
             try_res (cancel_waiting scope space room command p a db) (\<lambda>(attempt, db1).
               Inr (project attempt, db1))))"

subsection \<open>Members of a study meeting\<close>

definition ListMembers ::
  "'c lifecycle_repository \<Rightarrow> access_context \<Rightarrow> uuid \<Rightarrow> int \<Rightarrow> int \<Rightarrow> 'c media_db \<Rightarrow>
   lobby_error + lobby_member list" where
  "ListMembers rp access spaceID spaceVersion limit db =
     try_res (loadStudyMeetingLobby rp db access spaceID spaceVersion ''list'' []) (\<lambda>(scope, _, _).
       Inr (map (member_item db) (take (nat limit) (sort_key mb_CreatedAt (sort_key mb_UserID
         (filter (member_of db (tc_TenantID scope) spaceID) (md_members db)))))))"

definition insert_member :: "member_row \<Rightarrow> 'c media_db \<Rightarrow> lobby_error + 'c media_db" where
  "insert_member m db =
     try_res (constrained members_ok (LobbyLifecycle ErrLifecycleUnavailable) (md_members db @ [m]))
       (\<lambda>rows. Inr (db\<lparr>md_members := rows\<rparr>))"

definition new_member :: "tenant_context \<Rightarrow> uuid \<Rightarrow> uuid \<Rightarrow> instant \<Rightarrow> member_row" where
  "new_member scope spaceID userID now = \<lparr>mb_TenantID = tc_TenantID scope, mb_SpaceID = spaceID,
     mb_UserID = userID, mb_Status = LobbyMemberActive, mb_Version = 1,
     mb_InvitedBy = tc_ActorID scope, mb_RevokedAt = None, mb_RevokedBy = None, mb_CreatedAt = now,
     mb_UpdatedAt = now\<rparr>"

text \<open>Active members of the tenant by their address.\<close>

definition invited_user :: "'c media_db \<Rightarrow> uuid \<Rightarrow> string \<Rightarrow> uuid option" where
  "invited_user db tenantID email = map_option us_ID
     (find (\<lambda>u. us_Email u = email \<and> us_Status u = ''active'' \<and>
        (case cd_memberships (md_controls db) (tenantID, us_ID u) of
           None \<Rightarrow> False | Some (_, status) \<Rightarrow> status = ''active'')) (md_users db))"

definition replayed_invitation :: "'c media_db \<Rightarrow> uuid \<Rightarrow> uuid \<Rightarrow> string \<Rightarrow> uuid option" where
  "replayed_invitation db tenantID spaceID email = map_option mb_UserID
     (find (\<lambda>m. mb_TenantID m = tenantID \<and> mb_SpaceID m = spaceID \<and>
        map_option us_Email (user_of db (mb_UserID m)) = Some email) (md_members db))"

definition InviteMember ::
  "'c lifecycle_repository \<Rightarrow> access_context \<Rightarrow> invite_command \<Rightarrow> 'c media_db \<Rightarrow>
   lobby_error + lobby_member \<times> 'c media_db" where
  "InviteMember rp access command db =
     try_res (loadStudyMeetingLobby rp db access (iv_SpaceID command) (iv_ExpectedSpaceVersion command)
         ''invite'' []) (\<lambda>(scope, space, _).
     let unavailable = LobbyLifecycle ErrLifecycleUnavailable;
         project = (\<lambda>db. loadLobbyMemberProjection db (tc_TenantID scope) (iv_SpaceID command)) in
     try_res (lobby_unavailable (loadLobbyMutationReceipt db scope ''member_invite'' (iv_SpaceID command)
         (iv_IdempotencyKey command) (iv_Fingerprint command))) (\<lambda>found.
     if found then
       (case replayed_invitation db (tc_TenantID scope) (iv_SpaceID command) (iv_TargetEmail command) of
          None \<Rightarrow> Inl ErrLobbyMemberNotFound
        | Some targetID \<Rightarrow>
            (case project db targetID of None \<Rightarrow> Inl unavailable | Some member \<Rightarrow> Inr (member, db)))
     else case invited_user db (tc_TenantID scope) (iv_TargetEmail command) of
       None \<Rightarrow> Inl ErrLobbyMemberNotFound
     | Some targetID \<Rightarrow>
         if targetID = tc_ActorID scope then Inl ErrInvalidLobbyRequest
         else
           try_res (case project db targetID of
               Some existing \<Rightarrow> if lm_Status existing \<noteq> LobbyMemberActive
                 then Inl ErrLobbyMemberVersionConflict else Inr db
             | None \<Rightarrow> insert_member (new_member scope (iv_SpaceID command) targetID
                 (iv_OccurredAt command)) db) (\<lambda>db1.
           case project db1 targetID of
             None \<Rightarrow> Inl unavailable
           | Some member \<Rightarrow>
               try_res (lobby_unavailable (insertLobbyMutationReceipt scope ''member_invite''
                   (iv_SpaceID command) uuid_Nil (iv_IdempotencyKey command) (iv_Fingerprint command)
                   (ms_Version space) (iv_OccurredAt command) db1)) (\<lambda>db2.
                 Inr (member, appendLobbyMemberEvent scope (iv_SpaceID command) member
                   ''media_space_member.invited.v1'' [] (iv_OccurredAt command) db2)))))"

text \<open>Revoking a member also takes every running participation of the user in the room away.\<close>

definition user_in_room :: "uuid \<Rightarrow> uuid \<Rightarrow> uuid \<Rightarrow> uuid \<Rightarrow> participant_row \<Rightarrow> bool" where
  "user_in_room tenantID spaceID roomID userID r \<longleftrightarrow> pa_TenantID r = tenantID \<and>
     pa_SpaceID r = spaceID \<and> pa_RoomID r = roomID \<and> pa_UserID r = userID"

definition remove_participant :: "uuid \<Rightarrow> instant \<Rightarrow> participant_row \<Rightarrow> participant_row" where
  "remove_participant actor now r = r\<lparr>pa_Status := ParticipantRemoved, pa_Version := pa_Version r + 1,
     pa_CapacityReserved := False, pa_TerminalAt := Some now, pa_RemovedBy := Some actor,
     pa_FailureCode := None, pa_UpdatedAt := now\<rparr>"

definition removeLobbyMemberParticipants ::
  "tenant_context \<Rightarrow> uuid \<Rightarrow> uuid \<Rightarrow> uuid \<Rightarrow> instant \<Rightarrow> 'c media_db \<Rightarrow> lifecycle_error + 'c media_db" where
  "removeLobbyMemberParticipants scope spaceID roomID userID now db =
     (let tenantID = tc_TenantID scope;
          P = (\<lambda>r. user_in_room tenantID spaceID roomID userID r \<and> participant_active r) in
      try_res (constrained admissions_ok LifecycleOther (update_where
          (\<lambda>r. waiting_admission tenantID spaceID roomID r \<and> ad_UserID r = userID)
          (resolve_admission AdmissionDenied (Some (tc_ActorID scope)) (Some ''member_revoked'') now)
          (md_admissions db))) (\<lambda>admissions.
      try_res (constrained participants_ok LifecycleOther (update_where P
          (remove_participant (tc_ActorID scope) now) (md_participants db))) (\<lambda>participants.
      let db1 = db\<lparr>md_admissions := admissions, md_participants := participants,
            md_hands := update_where (\<lambda>h. hs_TenantID h = tenantID \<and> hs_SpaceID h = spaceID \<and>
                hs_RoomID h = roomID \<and> hs_Raised h \<and>
                list_ex (\<lambda>r. user_in_room tenantID spaceID roomID userID r \<and>
                  pa_ID r = hs_ParticipantID h) participants)
              (\<lambda>h. h\<lparr>hs_Raised := False\<rparr>) (md_hands db)\<rparr> in
      if count_where P (md_participants db) = 0 then Inr db1
      else advanceMediaRosterProjection tenantID spaceID roomID db1)))"

definition update_one_member ::
  "(member_row \<Rightarrow> bool) \<Rightarrow> (member_row \<Rightarrow> member_row) \<Rightarrow> 'c media_db \<Rightarrow> lobby_error + 'c media_db" where
  "update_one_member P f db =
     try_res (constrained members_ok (LobbyLifecycle ErrLifecycleUnavailable)
         (update_where P f (md_members db))) (\<lambda>rows.
       if count_where P (md_members db) \<noteq> 1 then Inl ErrLobbyMemberVersionConflict
       else Inr (db\<lparr>md_members := rows\<rparr>))"

definition member_at :: "uuid \<Rightarrow> uuid \<Rightarrow> uuid \<Rightarrow> member_status \<Rightarrow> member_row \<Rightarrow> bool" where
  "member_at tenantID spaceID userID status m \<longleftrightarrow> mb_TenantID m = tenantID \<and> mb_SpaceID m = spaceID \<and>
     mb_UserID m = userID \<and> mb_Status m = status"

definition revoke_member ::
  "tenant_context \<Rightarrow> room_row option \<Rightarrow> member_command \<Rightarrow> 'c media_db \<Rightarrow> lobby_error + 'c media_db" where
  "revoke_member scope room command db =
     (let now = mc_OccurredAt command in
      try_res (update_one_member
          (member_at (tc_TenantID scope) (mc_SpaceID command) (mc_TargetUserID command) LobbyMemberActive)
          (\<lambda>m. m\<lparr>mb_Status := LobbyMemberRevoked, mb_Version := mb_Version m + 1,
             mb_RevokedAt := Some now, mb_RevokedBy := Some (tc_ActorID scope), mb_UpdatedAt := now\<rparr>) db)
        (\<lambda>db1.
      case room of
        None \<Rightarrow> Inr db1
      | Some r \<Rightarrow> lobby_unavailable (removeLobbyMemberParticipants scope (mc_SpaceID command) (rm_ID r)
          (mc_TargetUserID command) now db1)))"

definition restore_member ::
  "tenant_context \<Rightarrow> room_row option \<Rightarrow> member_command \<Rightarrow> 'c media_db \<Rightarrow> lobby_error + 'c media_db" where
  "restore_member scope room command db =
     (let now = mc_OccurredAt command in
      try_res (update_one_member
          (member_at (tc_TenantID scope) (mc_SpaceID command) (mc_TargetUserID command) LobbyMemberRevoked)
          (\<lambda>m. m\<lparr>mb_Status := LobbyMemberActive, mb_Version := mb_Version m + 1,
             mb_RevokedAt := None, mb_RevokedBy := None, mb_UpdatedAt := now\<rparr>) db) (\<lambda>db1.
      case room of
        None \<Rightarrow> Inr db1
      | Some r \<Rightarrow>
          try_res (constrained participants_ok (LobbyLifecycle ErrLifecycleUnavailable) (update_where
              (\<lambda>p. user_in_room (tc_TenantID scope) (mc_SpaceID command) (rm_ID r)
                 (mc_TargetUserID command) p \<and> pa_Status p = ParticipantRemoved \<and>
                 pa_RejoinRestoredAt p = None)
              (restore_participant (tc_ActorID scope) now) (md_participants db1))) (\<lambda>participants.
            Inr (db1\<lparr>md_participants := participants\<rparr>))))"

definition change_member ::
  "tenant_context \<Rightarrow> room_row option \<Rightarrow> member_command \<Rightarrow> lobby_member \<Rightarrow> 'c media_db \<Rightarrow>
   lobby_error + (member_status \<times> string) \<times> 'c media_db" where
  "change_member scope room command member db =
     (if mc_Operation command = ''member_revoke'' then
        (if lm_Status member \<noteq> LobbyMemberActive then Inl ErrAdmissionTransition
         else try_res (revoke_member scope room command db) (\<lambda>db1.
           Inr ((LobbyMemberRevoked, ''media_space_member.revoked.v1''), db1)))
      else if mc_Operation command = ''member_restore'' then
        (if lm_Status member \<noteq> LobbyMemberRevoked then Inl ErrAdmissionTransition
         else try_res (restore_member scope room command db) (\<lambda>db1.
           Inr ((LobbyMemberActive, ''media_space_member.restored.v1''), db1)))
      else Inl ErrInvalidLobbyRequest)"

definition MutateMember ::
  "'c lifecycle_repository \<Rightarrow> access_context \<Rightarrow> member_command \<Rightarrow> 'c media_db \<Rightarrow>
   lobby_error + lobby_member \<times> 'c media_db" where
  "MutateMember rp access command db =
     try_res (loadStudyMeetingLobby rp db access (mc_SpaceID command) (mc_ExpectedSpaceVersion command)
         (mc_Operation command) (mc_ReasonCode command)) (\<lambda>(scope, space, room).
     let project = (\<lambda>db. loadLobbyMemberProjection db (tc_TenantID scope) (mc_SpaceID command)
           (mc_TargetUserID command)) in
     if mc_TargetUserID command = tc_ActorID scope then Inl ErrInvalidLobbyRequest
     else
       try_res (lobby_unavailable (loadLobbyMutationReceipt db scope (mc_Operation command)
           (mc_SpaceID command) (mc_IdempotencyKey command) (mc_Fingerprint command))) (\<lambda>found.
       case project db of
         None \<Rightarrow> Inl ErrLobbyMemberNotFound
       | Some member \<Rightarrow>
           if found then Inr (member, db)
           else if lm_Version member \<noteq> mc_ExpectedMemberVersion command
             then Inl ErrLobbyMemberVersionConflict
           else
             try_res (change_member scope room command member db) (\<lambda>((nextStatus, eventType), db1).
             case project db1 of
               None \<Rightarrow> Inl (LobbyLifecycle ErrLifecycleUnavailable)
             | Some updated \<Rightarrow>
                 if lm_Status updated \<noteq> nextStatus then Inl ErrLobbyUnavailable
                 else
                   try_res (lobby_unavailable (insertLobbyMutationReceipt scope (mc_Operation command)
                       (mc_SpaceID command) (case room of None \<Rightarrow> uuid_Nil | Some r \<Rightarrow> rm_ID r)
                       (mc_IdempotencyKey command) (mc_Fingerprint command) (ms_Version space)
                       (mc_OccurredAt command) db1)) (\<lambda>db2.
                     Inr (updated, appendLobbyMemberEvent scope (mc_SpaceID command) updated eventType
                       (mc_ReasonCode command) (mc_OccurredAt command) db2)))))"

end
