(* ===== verification/Media_Moderation.thy ===== *)
theory Media_Moderation imports Media_Decisions begin

section \<open>Moderation (modules/media/postgres\_moderation\_repository.go, moderation\_service.go)\<close>

text \<open>
  Locking a room, dynamic co-hosts, muting and removing participants, with the receipt of each
  command and its effect at the provider.  The clock of the database, which the rate limit reads,
  the provider and SHA-256 are parameters.  The key of a rate window is the hash of purpose,
  tenant, room and actor; the model keys the window by the four of them.
\<close>

subsection \<open>Values\<close>

datatype moderation_operation =
    ModerationLock | ModerationUnlock | ModerationPromote | ModerationDemote | ModerationMute
  | ModerationRemove

fun operation_string :: "moderation_operation \<Rightarrow> string" where
  "operation_string ModerationLock = ''lock''"
| "operation_string ModerationUnlock = ''unlock''"
| "operation_string ModerationPromote = ''participant_promote''"
| "operation_string ModerationDemote = ''participant_demote''"
| "operation_string ModerationMute = ''participant_mute''"
| "operation_string ModerationRemove = ''participant_remove''"

datatype moderation_error =
    ErrInvalidModerationRequest | ErrModerationNotFound | ErrModerationForbidden
  | ErrModerationConflict | ErrModerationIdempotency | ErrModerationUnavailable
  | ModerationRateLimitError duration | ModerationLifecycle lifecycle_error

record moderation_versions =
  mv_RoomInstanceID :: uuid
  mv_SpaceVersion :: int
  mv_RoomVersion :: int
  mv_ProjectionVersion :: int

text \<open>\<open>DesiredRole\<close> is empty where the operation has none.\<close>

record moderation_command =
  mo_Operation :: moderation_operation
  mo_SpaceID :: uuid
  mo_ParticipantKey :: uuid
  mo_Expected :: moderation_versions
  mo_IdempotencyKey :: string
  mo_DesiredRole :: "instance_role option"
  mo_ReasonCode :: string
  mo_Fingerprint :: string
  mo_OccurredAt :: instant

record moderation_result =
  mw_SpaceID :: uuid
  mw_RoomInstanceID :: uuid
  mw_SpaceVersion :: int
  mw_RoomInstanceVersion :: int
  mw_ProjectionVersion :: int
  mw_TargetParticipantKey :: "uuid option"
  mw_TargetParticipantVersion :: "int option"
  mw_TargetInstanceRole :: "instance_role option"
  mw_RoleAssignmentVersion :: int
  mw_Locked :: "bool option"
  mw_ProviderEffectStatus :: provider_effect_status

definition lift_moderation :: "lifecycle_error + 'a \<Rightarrow> moderation_error + 'a" where
  "lift_moderation r = (case r of Inl e \<Rightarrow> Inl (ModerationLifecycle e) | Inr x \<Rightarrow> Inr x)"

definition moderation_failure :: "moderation_error \<Rightarrow> 'e + 'a \<Rightarrow> moderation_error + 'a" where
  "moderation_failure e r = (case r of Inl _ \<Rightarrow> Inl e | Inr x \<Rightarrow> Inr x)"

lemma lift_moderation_Inr [simp]: "lift_moderation r = Inr x \<longleftrightarrow> r = Inr x"
  by (cases r) (simp_all add: lift_moderation_def)

lemma moderation_failure_Inr [simp]: "moderation_failure e r = Inr x \<longleftrightarrow> r = Inr x"
  by (cases r) (simp_all add: moderation_failure_def)

definition concealModerationSourceError :: "lifecycle_error + 'a \<Rightarrow> moderation_error + 'a" where
  "concealModerationSourceError r = (case r of
      Inl e \<Rightarrow> Inl (if e \<in> {ErrSpaceAccessDenied, ErrSpaceNotFound, ErrSourceUnavailable}
        then ErrModerationNotFound else ModerationLifecycle e)
    | Inr x \<Rightarrow> Inr x)"

lemma concealModerationSourceError_Inr [simp]: "concealModerationSourceError r = Inr x \<longleftrightarrow> r = Inr x"
  by (cases r) (simp_all add: concealModerationSourceError_def)

subsection \<open>Who may moderate whom\<close>

fun moderationActorAllowed :: "moderation_operation \<Rightarrow> instance_role \<Rightarrow> bool" where
  "moderationActorAllowed ModerationLock role \<longleftrightarrow> role = InstanceRoleHost"
| "moderationActorAllowed ModerationUnlock role \<longleftrightarrow> role = InstanceRoleHost"
| "moderationActorAllowed ModerationPromote role \<longleftrightarrow> role = InstanceRoleHost"
| "moderationActorAllowed ModerationDemote role \<longleftrightarrow> role = InstanceRoleHost"
| "moderationActorAllowed ModerationRemove role \<longleftrightarrow> role = InstanceRoleHost \<or> role = InstanceRoleCoHost"
| "moderationActorAllowed ModerationMute role \<longleftrightarrow> role = InstanceRoleHost \<or> role = InstanceRoleCoHost \<or>
     role = InstanceRoleTeachingAssistant"

text \<open>The actor's role is absent when the actor is not in the room.  Normal and safety authority.\<close>

definition moderationAuthority :: "moderation_operation \<Rightarrow> instance_role option \<Rightarrow> bool \<Rightarrow> bool \<times> bool" where
  "moderationAuthority operation actorRole safetyAdmin =
     (if operation = ModerationRemove \<and> safetyAdmin then (False, True)
      else (case actorRole of None \<Rightarrow> False | Some role \<Rightarrow> moderationActorAllowed operation role, False))"

definition moderationTargetAllowed ::
  "moderation_operation \<Rightarrow> instance_role option \<Rightarrow> instance_role \<Rightarrow> bool" where
  "moderationTargetAllowed operation actorRole targetRole =
     (if targetRole = InstanceRoleHost then False
      else if operation = ModerationPromote
        then actorRole = Some InstanceRoleHost \<and> targetRole = InstanceRoleAttendee
      else if operation = ModerationDemote
        then actorRole = Some InstanceRoleHost \<and> targetRole = InstanceRoleCoHost
      else if actorRole = Some InstanceRoleHost then True
      else targetRole = InstanceRoleAttendee)"

fun moderation_permission :: "moderation_operation \<Rightarrow> permission" where
  "moderation_permission ModerationLock = PermissionMediaLock"
| "moderation_permission ModerationUnlock = PermissionMediaLock"
| "moderation_permission ModerationRemove = PermissionParticipantRemove"
| "moderation_permission _ = PermissionMediaModerate"

definition authorizeModerationOperation ::
  "'c lifecycle_repository \<Rightarrow> 'c media_db \<Rightarrow> access_context \<Rightarrow> tenant_context \<Rightarrow> space_row \<Rightarrow>
   authorized_source \<Rightarrow> instance_role option \<Rightarrow> moderation_operation \<Rightarrow> bool \<Rightarrow> moderation_error + unit" where
  "authorizeModerationOperation rp db access scope space source actorRole operation safetyAction =
     (if actorRole = Some InstanceRoleCoHost \<and> as_InstanceRole source \<noteq> InstanceRoleCoHost \<and> \<not> safetyAction
        then Inr ()
      else try_res (concealModerationSourceError (authorizeSource rp db access scope space
          (moderation_permission operation) True safetyAction)) (\<lambda>_. Inr ()))"

subsection \<open>Rate limit\<close>

fun moderationRatePolicyForOperation :: "moderation_operation \<Rightarrow> string \<times> int" where
  "moderationRatePolicyForOperation ModerationLock = (''media.moderation.lock'', 12)"
| "moderationRatePolicyForOperation ModerationUnlock = (''media.moderation.lock'', 12)"
| "moderationRatePolicyForOperation ModerationPromote = (''media.moderation.role'', 30)"
| "moderationRatePolicyForOperation ModerationDemote = (''media.moderation.role'', 30)"
| "moderationRatePolicyForOperation ModerationMute = (''media.moderation.mute'', 60)"
| "moderationRatePolicyForOperation ModerationRemove = (''media.moderation.remove'', 30)"

definition moderationRateWindow :: duration where
  "moderationRateWindow = time_Minute"

definition consumeModerationRateLimit ::
  "uuid \<Rightarrow> uuid \<Rightarrow> uuid \<Rightarrow> moderation_operation \<Rightarrow> instant \<Rightarrow> 'c media_db \<Rightarrow> moderation_error + 'c media_db" where
  "consumeModerationRateLimit tenantID roomID actorID operation acceptedAt db =
     (let (purpose, limit) = moderationRatePolicyForOperation operation;
          start = time_Truncate acceptedAt moderationRateWindow in
      case upsert_window (purpose, tenantID, roomID, actorID) start limit (md_moderations db) of
        (None, _) \<Rightarrow>
          let retryAfter = start + moderationRateWindow - acceptedAt in
          Inl (ModerationRateLimitError (if retryAfter < time_Second then time_Second else retryAfter))
      | (Some _, windows) \<Rightarrow> Inr (db\<lparr>md_moderations := windows\<rparr>))"

subsection \<open>Loads\<close>

definition in_call :: "participant_row \<Rightarrow> bool" where
  "in_call p \<longleftrightarrow> pa_Status p \<in> {ParticipantJoining, ParticipantConnected, ParticipantReconnecting}"

definition loadSignalParticipantByActor ::
  "'c media_db \<Rightarrow> uuid \<Rightarrow> uuid \<Rightarrow> uuid \<Rightarrow> uuid \<Rightarrow> participant_row option" where
  "loadSignalParticipantByActor db tenantID spaceID roomID actorID =
     find (\<lambda>p. user_in_room tenantID spaceID roomID actorID p \<and> in_call p) (md_participants db)"

definition loadModerationTarget ::
  "'c media_db \<Rightarrow> uuid \<Rightarrow> uuid \<Rightarrow> uuid \<Rightarrow> uuid \<Rightarrow> participant_row option" where
  "loadModerationTarget db tenantID spaceID roomID participantKey =
     find (\<lambda>p. pa_TenantID p = tenantID \<and> pa_SpaceID p = spaceID \<and> pa_RoomID p = roomID \<and>
       pa_ParticipantKey p = participantKey \<and> in_call p) (md_participants db)"

definition actor_room_role ::
  "'c media_db \<Rightarrow> tenant_context \<Rightarrow> uuid \<Rightarrow> uuid \<Rightarrow> instance_role option" where
  "actor_room_role db scope spaceID roomID =
     map_option (\<lambda>p. effectiveRoomRole db (tc_TenantID scope) roomID (tc_ActorID scope) (pa_InstanceRole p))
       (loadSignalParticipantByActor db (tc_TenantID scope) spaceID roomID (tc_ActorID scope))"

subsection \<open>Receipts and events\<close>

definition receipt_result :: "'c media_db \<Rightarrow> receipt_row \<Rightarrow> moderation_error + moderation_result" where
  "receipt_result db r =
     (case (rc_ResultRoomID r, rc_RoomVersion r, rc_ProjectionVersion r) of
        (Some roomID, Some roomVersion, Some projectionVersion) \<Rightarrow>
          Inr \<lparr>mw_SpaceID = rc_SpaceID r, mw_RoomInstanceID = roomID,
            mw_SpaceVersion = rc_ResultVersion r, mw_RoomInstanceVersion = roomVersion,
            mw_ProjectionVersion = projectionVersion,
            mw_TargetParticipantKey = (case rc_TargetID r of None \<Rightarrow> None
              | Some i \<Rightarrow> map_option pa_ParticipantKey (find (\<lambda>p. pa_TenantID p = rc_TenantID r \<and>
                  pa_SpaceID p = rc_SpaceID r \<and> pa_RoomID p = roomID \<and> pa_ID p = i) (md_participants db))),
            mw_TargetParticipantVersion = rc_ParticipantVersion r,
            mw_TargetInstanceRole = rc_InstanceRole r, mw_RoleAssignmentVersion = 0,
            mw_Locked = rc_Locked r, mw_ProviderEffectStatus = rc_EffectStatus r\<rparr>
      | _ \<Rightarrow> Inl ErrModerationUnavailable)"

definition loadModerationReplay ::
  "'c media_db \<Rightarrow> tenant_context \<Rightarrow> moderation_command \<Rightarrow> moderation_error + moderation_result option" where
  "loadModerationReplay db scope command =
     (case find_receipt db scope (mo_IdempotencyKey command) of
        None \<Rightarrow> Inr None
      | Some r \<Rightarrow>
          if rc_Operation r \<noteq> operation_string (mo_Operation command) \<or>
             rc_Fingerprint r \<noteq> mo_Fingerprint command then Inl ErrModerationIdempotency
          else try_res (receipt_result db r) (\<lambda>result. Inr (Some result)))"

definition moderation_receipt ::
  "tenant_context \<Rightarrow> moderation_command \<Rightarrow> room_row \<Rightarrow> participant_row option \<Rightarrow> moderation_result \<Rightarrow>
   receipt_row" where
  "moderation_receipt scope command room target result =
     (let providerRequired = (mo_Operation command \<in> {ModerationPromote, ModerationDemote, ModerationMute,
            ModerationRemove}) in
      \<lparr>rc_TenantID = tc_TenantID scope, rc_ActorID = tc_ActorID scope,
       rc_IdempotencyKey = mo_IdempotencyKey command, rc_Fingerprint = mo_Fingerprint command,
       rc_Operation = operation_string (mo_Operation command), rc_SpaceID = mo_SpaceID command,
       rc_ResultVersion = mw_SpaceVersion result, rc_ResultRoomID = Some (rm_ID room),
       rc_CreatedAt = mo_OccurredAt command, rc_TargetID = (case target of None \<Rightarrow> None
         | Some p \<Rightarrow> nullableLifecycleUUID (pa_ID p)),
       rc_RoomVersion = Some (mw_RoomInstanceVersion result),
       rc_ProjectionVersion = Some (mw_ProjectionVersion result),
       rc_ParticipantVersion = mw_TargetParticipantVersion result,
       rc_RoleVersion = (if mw_RoleAssignmentVersion result < 1 then None
         else Some (mw_RoleAssignmentVersion result)),
       rc_InstanceRole = mw_TargetInstanceRole result, rc_Locked = mw_Locked result,
       rc_EffectRequired = providerRequired,
       rc_EffectStatus = (if providerRequired then ProviderEffectPending else ProviderEffectNone),
       rc_EffectAttempts = 0, rc_EffectErrorCode = None, rc_EffectLeaseUntil = None,
       rc_EffectUpdatedAt = (if providerRequired then Some (mo_OccurredAt command) else None)\<rparr>)"

fun moderation_event_type :: "moderation_operation \<Rightarrow> string" where
  "moderation_event_type ModerationLock = ''media_space.locked.v1''"
| "moderation_event_type ModerationUnlock = ''media_space.unlocked.v1''"
| "moderation_event_type ModerationPromote = ''media_participant.promoted.v1''"
| "moderation_event_type ModerationDemote = ''media_participant.demoted.v1''"
| "moderation_event_type ModerationMute = ''media_participant.muted.v1''"
| "moderation_event_type ModerationRemove = ''media_participant.removed.v1''"

text \<open>The version of the event is the one its audit record carries, that of the space.\<close>

definition appendModerationEvent ::
  "tenant_context \<Rightarrow> moderation_command \<Rightarrow> participant_row option \<Rightarrow> moderation_result \<Rightarrow> bool \<Rightarrow>
   'c media_db \<Rightarrow> 'c media_db" where
  "appendModerationEvent scope command target result safetyAction =
     append_event \<lparr>ev_Type = moderation_event_type (mo_Operation command), ev_TenantID = tc_TenantID scope,
       ev_AggregateID = (case target of None \<Rightarrow> mo_SpaceID command | Some p \<Rightarrow> pa_ParticipantKey p),
       ev_ActorID = tc_ActorID scope, ev_SpaceID = Some (mo_SpaceID command),
       ev_RoomID = Some (mv_RoomInstanceID (mo_Expected command)),
       ev_TargetID = (case target of None \<Rightarrow> None | Some p \<Rightarrow> nullableLifecycleUUID (pa_ParticipantKey p)),
       ev_Status = ''committed'', ev_Version = mw_SpaceVersion result,
       ev_ReasonCode = mo_ReasonCode command, ev_SafetyAction = safetyAction,
       ev_OccurredAt = mo_OccurredAt command\<rparr>"

subsection \<open>Changes\<close>

text \<open>\<open>UPDATE ... RETURNING\<close> on one row; no row and a failing statement are the same conflict.\<close>

definition update_returning ::
  "('r list \<Rightarrow> bool) \<Rightarrow> ('r \<Rightarrow> bool) \<Rightarrow> ('r \<Rightarrow> 'r) \<Rightarrow> 'r list \<Rightarrow> moderation_error + 'r \<times> 'r list" where
  "update_returning ok P f rows = (case find P rows of
      None \<Rightarrow> Inl ErrModerationConflict
    | Some r \<Rightarrow> try_res (constrained ok ErrModerationConflict (update_where P f rows))
        (\<lambda>rows'. Inr (f r, rows')))"

definition lock_row :: "uuid \<Rightarrow> bool \<Rightarrow> instant \<Rightarrow> space_row \<Rightarrow> space_row" where
  "lock_row actor locked now r = r\<lparr>ms_Locked := locked, ms_Version := ms_Version r + 1,
     ms_UpdatedBy := actor, ms_UpdatedAt := now\<rparr>"

definition set_locked ::
  "tenant_context \<Rightarrow> space_row \<Rightarrow> bool \<Rightarrow> instant \<Rightarrow> 'c media_db \<Rightarrow> moderation_error + int \<times> 'c media_db" where
  "set_locked scope space locked now db =
     (if ms_Locked space = locked then Inr (ms_Version space, db)
      else try_res (update_returning spaces_ok (space_at scope space (ms_Version space) SpaceStatusOpen)
          (lock_row (tc_ActorID scope) locked now) (md_spaces db)) (\<lambda>(r, rows).
        Inr (ms_Version r, db\<lparr>md_spaces := rows\<rparr>)))"

definition target_in_call :: "tenant_context \<Rightarrow> moderation_command \<Rightarrow> uuid \<Rightarrow> participant_row \<Rightarrow> participant_row \<Rightarrow> bool" where
  "target_in_call scope command roomID target r \<longleftrightarrow> pa_TenantID r = tc_TenantID scope \<and>
     pa_SpaceID r = mo_SpaceID command \<and> pa_RoomID r = roomID \<and> pa_ID r = pa_ID target \<and> in_call r"

definition moderated_room :: "tenant_context \<Rightarrow> moderation_command \<Rightarrow> uuid \<Rightarrow> room_row \<Rightarrow> bool" where
  "moderated_room scope command roomID r \<longleftrightarrow> rm_TenantID r = tc_TenantID scope \<and>
     rm_SpaceID r = mo_SpaceID command \<and> rm_ID r = roomID \<and> rm_Status r = RoomInstanceActive"

definition advance_room :: "uuid \<Rightarrow> instant \<Rightarrow> room_row \<Rightarrow> room_row" where
  "advance_room actor now r = r\<lparr>rm_Version := rm_Version r + 1,
     rm_ProjectionVersion := rm_ProjectionVersion r + 1, rm_UpdatedBy := actor, rm_UpdatedAt := now\<rparr>"

definition assignment_at :: "tenant_context \<Rightarrow> uuid \<Rightarrow> uuid \<Rightarrow> assignment_row \<Rightarrow> bool" where
  "assignment_at scope roomID userID r \<longleftrightarrow> assignment_key r = (tc_TenantID scope, roomID, userID)"

definition nullable_code :: "string \<Rightarrow> string option" where
  "nullable_code code = (if code = [] then None else Some code)"

text \<open>\<open>INSERT ... ON CONFLICT DO UPDATE ... WHERE status = 'revoked' RETURNING version\<close>.\<close>

definition promote_assignment ::
  "tenant_context \<Rightarrow> moderation_command \<Rightarrow> uuid \<Rightarrow> uuid \<Rightarrow> assignment_row list \<Rightarrow>
   moderation_error + int \<times> assignment_row list" where
  "promote_assignment scope command roomID userID rows =
     (let now = mo_OccurredAt command;
          at = assignment_at scope roomID userID;
          again = (\<lambda>r. r\<lparr>ra_Status := AssignmentActive, ra_Version := ra_Version r + 1,
            ra_AssignedBy := tc_ActorID scope, ra_AssignedAt := now, ra_RevokedBy := None,
            ra_RevokedAt := None, ra_ReasonCode := nullable_code (mo_ReasonCode command),
            ra_UpdatedAt := now\<rparr>);
          new = \<lparr>ra_TenantID = tc_TenantID scope, ra_SpaceID = mo_SpaceID command, ra_RoomID = roomID,
            ra_UserID = userID, ra_Role = InstanceRoleCoHost, ra_Status = AssignmentActive, ra_Version = 1,
            ra_AssignedBy = tc_ActorID scope, ra_AssignedAt = now, ra_RevokedBy = None,
            ra_RevokedAt = None, ra_ReasonCode = nullable_code (mo_ReasonCode command),
            ra_UpdatedAt = now\<rparr> in
      case find at rows of
        None \<Rightarrow> try_res (constrained assignments_ok ErrModerationUnavailable (rows @ [new]))
          (\<lambda>rows'. Inr (1, rows'))
      | Some r \<Rightarrow>
          if ra_Status r \<noteq> AssignmentRevoked then Inl ErrModerationConflict
          else try_res (constrained assignments_ok ErrModerationUnavailable (update_where at again rows))
            (\<lambda>rows'. Inr (ra_Version r + 1, rows')))"

definition demote_assignment ::
  "tenant_context \<Rightarrow> moderation_command \<Rightarrow> uuid \<Rightarrow> uuid \<Rightarrow> assignment_row list \<Rightarrow>
   moderation_error + int \<times> assignment_row list" where
  "demote_assignment scope command roomID userID rows =
     (let now = mo_OccurredAt command in
      try_res (update_returning assignments_ok
          (\<lambda>r. assignment_at scope roomID userID r \<and> ra_SpaceID r = mo_SpaceID command \<and>
             ra_Role r = InstanceRoleCoHost \<and> ra_Status r = AssignmentActive)
          (\<lambda>r. r\<lparr>ra_Status := AssignmentRevoked, ra_Version := ra_Version r + 1,
             ra_RevokedBy := Some (tc_ActorID scope), ra_RevokedAt := Some now,
             ra_ReasonCode := nullable_code (mo_ReasonCode command), ra_UpdatedAt := now\<rparr>) rows)
        (\<lambda>(r, rows'). Inr (ra_Version r, rows')))"

text \<open>The participant and the room that a change of the target advances.\<close>

definition advance_target ::
  "tenant_context \<Rightarrow> moderation_command \<Rightarrow> uuid \<Rightarrow> participant_row \<Rightarrow> (participant_row \<Rightarrow> participant_row) \<Rightarrow>
   (participant_row \<Rightarrow> 'c media_db \<Rightarrow> 'c media_db) \<Rightarrow> moderation_result \<Rightarrow> 'c media_db \<Rightarrow>
   moderation_error + moderation_result \<times> 'c media_db" where
  "advance_target scope command roomID target f between result db =
     try_res (update_returning participants_ok (target_in_call scope command roomID target) f
         (md_participants db)) (\<lambda>(p, participants).
     try_res (update_returning rooms_ok (moderated_room scope command roomID)
         (advance_room (tc_ActorID scope) (mo_OccurredAt command)) (md_rooms db)) (\<lambda>(room, rooms).
       Inr (result\<lparr>mw_TargetParticipantVersion := Some (pa_Version p),
           mw_RoomInstanceVersion := rm_Version room,
           mw_ProjectionVersion := rm_ProjectionVersion room\<rparr>,
         between p (db\<lparr>md_participants := participants, md_rooms := rooms\<rparr>))))"

definition change_role :: "instance_role \<Rightarrow> instant \<Rightarrow> participant_row \<Rightarrow> participant_row" where
  "change_role role now p = p\<lparr>pa_InstanceRole := role, pa_Version := pa_Version p + 1, pa_UpdatedAt := now\<rparr>"

definition mutateDynamicCoHost ::
  "tenant_context \<Rightarrow> moderation_command \<Rightarrow> uuid \<Rightarrow> participant_row \<Rightarrow> instance_role \<Rightarrow> moderation_result \<Rightarrow>
   'c media_db \<Rightarrow> moderation_error + moderation_result \<times> 'c media_db" where
  "mutateDynamicCoHost scope command roomID target role result db =
     try_res ((if mo_Operation command = ModerationPromote then promote_assignment else demote_assignment)
         scope command roomID (pa_UserID target) (md_roles db)) (\<lambda>(version, roles).
     try_res (advance_target scope command roomID target (change_role role (mo_OccurredAt command))
         (\<lambda>_ db. db) result (db\<lparr>md_roles := roles\<rparr>)) (\<lambda>(result1, db1).
       Inr (result1\<lparr>mw_TargetInstanceRole := Some role, mw_RoleAssignmentVersion := version\<rparr>, db1)))"

definition moderation_removal :: "uuid \<Rightarrow> instant \<Rightarrow> participant_row \<Rightarrow> participant_row" where
  "moderation_removal actor now p = p\<lparr>pa_Status := ParticipantRemoved, pa_CapacityReserved := False,
     pa_Version := pa_Version p + 1, pa_TerminalAt := Some now, pa_RemovedBy := Some actor,
     pa_ReconnectingAt := None, pa_FailureCode := None, pa_UpdatedAt := now\<rparr>"

definition lower_hands :: "uuid \<Rightarrow> uuid \<Rightarrow> participant_row \<Rightarrow> 'c media_db \<Rightarrow> 'c media_db" where
  "lower_hands tenantID roomID p db = db\<lparr>md_hands := update_where
     (\<lambda>h. hs_TenantID h = tenantID \<and> hs_RoomID h = roomID \<and> hs_ParticipantID h = pa_ID p \<and> hs_Raised h)
     (\<lambda>h. h\<lparr>hs_Raised := False\<rparr>) (md_hands db)\<rparr>"

text \<open>A role is written only where the service has set one, which it does for both changes of role.\<close>

definition applyParticipantModeration ::
  "tenant_context \<Rightarrow> moderation_command \<Rightarrow> room_row \<Rightarrow> participant_row \<Rightarrow> moderation_result \<Rightarrow> 'c media_db \<Rightarrow>
   moderation_error + moderation_result \<times> 'c media_db" where
  "applyParticipantModeration scope command room target result0 db =
     (let result = result0\<lparr>mw_ProviderEffectStatus := ProviderEffectPending\<rparr> in
      case mo_Operation command of
        ModerationMute \<Rightarrow> Inr (result\<lparr>mw_TargetParticipantVersion := Some (pa_Version target)\<rparr>, db)
      | ModerationRemove \<Rightarrow>
          advance_target scope command (rm_ID room) target
            (moderation_removal (tc_ActorID scope) (mo_OccurredAt command))
            (lower_hands (tc_TenantID scope) (rm_ID room)) result db
      | ModerationLock \<Rightarrow> Inl ErrInvalidModerationRequest
      | ModerationUnlock \<Rightarrow> Inl ErrInvalidModerationRequest
      | _ \<Rightarrow> (case mo_DesiredRole command of
            None \<Rightarrow> Inl ErrModerationConflict
          | Some role \<Rightarrow> mutateDynamicCoHost scope command (rm_ID room) target role result db))"

definition moderation_start :: "space_row \<Rightarrow> room_row \<Rightarrow> moderation_result" where
  "moderation_start space room = \<lparr>mw_SpaceID = ms_ID space, mw_RoomInstanceID = rm_ID room,
     mw_SpaceVersion = ms_Version space, mw_RoomInstanceVersion = rm_Version room,
     mw_ProjectionVersion = rm_ProjectionVersion room, mw_TargetParticipantKey = None,
     mw_TargetParticipantVersion = None, mw_TargetInstanceRole = None, mw_RoleAssignmentVersion = 0,
     mw_Locked = None, mw_ProviderEffectStatus = ProviderEffectNone\<rparr>"

text \<open>The change itself: the target, if there is one, the result and the database.\<close>

definition moderate ::
  "tenant_context \<Rightarrow> moderation_command \<Rightarrow> space_row \<Rightarrow> room_row \<Rightarrow> instance_role option \<Rightarrow> bool \<Rightarrow>
   'c media_db \<Rightarrow> moderation_error + (participant_row option \<times> moderation_result) \<times> 'c media_db" where
  "moderate scope command space room actorRole safetyAction db =
     (if mo_Operation command = ModerationLock \<or> mo_Operation command = ModerationUnlock then
        (let locked = (mo_Operation command = ModerationLock) in
         try_res (set_locked scope space locked (mo_OccurredAt command) db) (\<lambda>(version, db1).
           Inr ((None, (moderation_start space room)\<lparr>mw_SpaceVersion := version,
             mw_Locked := Some locked\<rparr>), db1)))
      else case loadModerationTarget db (tc_TenantID scope) (ms_ID space) (rm_ID room)
          (mo_ParticipantKey command) of
        None \<Rightarrow> Inl ErrModerationNotFound
      | Some target \<Rightarrow>
          let targetRole = effectiveRoomRole db (tc_TenantID scope) (rm_ID room) (pa_UserID target)
                (pa_InstanceRole target) in
          if pa_UserID target = tc_ActorID scope \<or> targetRole = InstanceRoleHost \<or>
             (\<not> safetyAction \<and> \<not> moderationTargetAllowed (mo_Operation command) actorRole targetRole)
          then Inl ErrModerationForbidden
          else
            try_res (applyParticipantModeration scope command room target
                ((moderation_start space room)\<lparr>mw_TargetParticipantKey := Some (pa_ParticipantKey target)\<rparr>)
                db) (\<lambda>(result, db1). Inr ((Some target, result), db1)))"

subsection \<open>The transaction\<close>

text \<open>A new command in an open space with a running room at the versions its caller saw.\<close>

definition apply_new_moderation ::
  "'c lifecycle_repository \<Rightarrow> access_context \<Rightarrow> tenant_context \<Rightarrow> space_row \<Rightarrow> authorized_source \<Rightarrow>
   moderation_command \<Rightarrow> instant \<Rightarrow> 'c media_db \<Rightarrow> moderation_error + moderation_result \<times> 'c media_db" where
  "apply_new_moderation rp access scope space source command acceptedAt db =
     (if ms_Status space \<noteq> SpaceStatusOpen then Inl (ModerationLifecycle ErrRoomNotOpen)
      else case find_room db (tc_TenantID scope) (ms_ID space) (mv_RoomInstanceID (mo_Expected command)) of
        None \<Rightarrow> Inl ErrModerationNotFound
      | Some room \<Rightarrow>
          if rm_Status room \<noteq> RoomInstanceActive then Inl (ModerationLifecycle ErrRoomNotOpen)
          else if ms_Version space \<noteq> mv_SpaceVersion (mo_Expected command) \<or>
             rm_Version room \<noteq> mv_RoomVersion (mo_Expected command) \<or>
             rm_ProjectionVersion room \<noteq> mv_ProjectionVersion (mo_Expected command)
            then Inl ErrModerationConflict
          else
            let actorRole = actor_room_role db scope (ms_ID space) (rm_ID room);
                (normal, safety) = moderationAuthority (mo_Operation command) actorRole
                  (as_SafetyAdmin source) in
            if \<not> normal \<and> \<not> safety
              then Inl (if actorRole = None then ErrModerationNotFound else ErrModerationForbidden)
            else if safety \<and> mo_ReasonCode command = [] then Inl ErrModerationForbidden
            else
              try_res (authorizeModerationOperation rp db access scope space source actorRole
                  (mo_Operation command) safety) (\<lambda>_.
              try_res (consumeModerationRateLimit (tc_TenantID scope) (rm_ID room) (tc_ActorID scope)
                  (mo_Operation command) acceptedAt db) (\<lambda>db1.
              try_res (moderate scope command space room actorRole safety db1) (\<lambda>((target, result), db2).
              try_res (insert_receipt ErrModerationUnavailable
                  (moderation_receipt scope command room target result) db2) (\<lambda>db3.
                Inr (result, appendModerationEvent scope command target result safety db3))))))"

definition ApplyModeration ::
  "'c lifecycle_repository \<Rightarrow> access_context \<Rightarrow> moderation_command \<Rightarrow> instant \<Rightarrow> 'c media_db \<Rightarrow>
   moderation_error + moderation_result \<times> 'c media_db" where
  "ApplyModeration rp access0 command acceptedAt db =
     try_res (moderation_failure ErrModerationForbidden (requireActiveScope db access0)) (\<lambda>(access, scope).
     case loadSpace db (tc_TenantID scope) (mo_SpaceID command) of
       None \<Rightarrow> Inl ErrModerationNotFound
     | Some space \<Rightarrow>
         try_res (concealModerationSourceError
             (authorizeSource rp db access scope space PermissionSessionJoin False False)) (\<lambda>source.
         try_res (lift_moderation (require_feature rp db (tc_TenantID scope) FeatureClassroomMediaRooms))
           (\<lambda>_.
         try_res (loadModerationReplay db scope command) (\<lambda>replay.
         case replay of
           Some result \<Rightarrow> Inr (result, db)
         | None \<Rightarrow> apply_new_moderation rp access scope space source command acceptedAt db))))"

subsection \<open>The effect at the provider\<close>

fun publicProviderEffectStatus :: "provider_effect_status \<Rightarrow> provider_effect_status" where
  "publicProviderEffectStatus ProviderEffectApplying = ProviderEffectPending"
| "publicProviderEffectStatus status = status"

record moderation_effect =
  mf_Operation :: string
  mf_RoomName :: string
  mf_ParticipantIdentity :: string
  mf_Attempt :: int

type_synonym moderation_effect_error = "moderation_error \<times> provider_effect_status"

definition effect_receipt :: "tenant_context \<Rightarrow> string \<Rightarrow> receipt_row \<Rightarrow> bool" where
  "effect_receipt scope key r \<longleftrightarrow> rc_TenantID r = tc_TenantID scope \<and> rc_ActorID r = tc_ActorID scope \<and>
     rc_IdempotencyKey r = key \<and> rc_EffectRequired r"

definition receipt_target :: "'c media_db \<Rightarrow> receipt_row \<Rightarrow> participant_row option" where
  "receipt_target db r = (case (rc_ResultRoomID r, rc_TargetID r) of
      (Some roomID, Some i) \<Rightarrow> find (\<lambda>p. pa_TenantID p = rc_TenantID r \<and> pa_SpaceID p = rc_SpaceID r \<and>
        pa_RoomID p = roomID \<and> pa_ID p = i) (md_participants db)
    | _ \<Rightarrow> None)"

definition load_moderation_effect ::
  "'c media_db \<Rightarrow> tenant_context \<Rightarrow> string \<Rightarrow> (receipt_row \<times> moderation_effect) option" where
  "load_moderation_effect db scope key =
     (case find (\<lambda>r. effect_receipt scope key r \<and> receipt_room db r \<noteq> None \<and> receipt_target db r \<noteq> None)
         (md_receipts db) of
        None \<Rightarrow> None
      | Some r \<Rightarrow>
          (case (receipt_room db r, receipt_target db r) of
             (Some room, Some p) \<Rightarrow> Some (r, \<lparr>mf_Operation = rc_Operation r,
               mf_RoomName = rm_ProviderRoomName room, mf_ParticipantIdentity = pa_ProviderIdentity p,
               mf_Attempt = rc_EffectAttempts r\<rparr>)
           | _ \<Rightarrow> None))"

definition ClaimProviderModerationEffect ::
  "access_context \<Rightarrow> string \<Rightarrow> instant \<Rightarrow> duration \<Rightarrow> 'c media_db \<Rightarrow>
   moderation_effect_error + (moderation_effect \<times> provider_effect_status \<times> bool) \<times> 'c media_db" where
  "ClaimProviderModerationEffect access key now lease db =
     (case requireActiveScope db access of
        Inl _ \<Rightarrow> Inl (ErrModerationForbidden, ProviderEffectPermanentFailed)
      | Inr (_, scope) \<Rightarrow>
          (case load_moderation_effect db scope key of
             None \<Rightarrow> Inl (ErrModerationNotFound, ProviderEffectPermanentFailed)
           | Some (receipt, effect) \<Rightarrow>
               let status = rc_EffectStatus receipt in
               if status \<in> {ProviderEffectApplied, ProviderEffectPermanentFailed}
                 then Inr ((effect, publicProviderEffectStatus status, False), db)
               else
                 let effect1 = effect\<lparr>mf_Attempt := mf_Attempt effect + 1\<rparr>;
                     P = (\<lambda>r. effect_receipt scope key r \<and> claimable_effect now r) in
                 if count_where P (md_receipts db) = 0
                   then Inr ((effect1, publicProviderEffectStatus status, False), db)
                 else (case constrained receipts_ok () (update_where P
                          (claim_effect (mf_Attempt effect1) (now + lease) now) (md_receipts db)) of
                     Inl _ \<Rightarrow> Inl (ErrModerationUnavailable, ProviderEffectRetryableFailed)
                   | Inr rows \<Rightarrow> Inr ((effect1, publicProviderEffectStatus ProviderEffectApplying, True),
                       db\<lparr>md_receipts := rows\<rparr>))))"

definition CompleteProviderModerationEffect ::
  "access_context \<Rightarrow> string \<Rightarrow> int \<Rightarrow> provider_effect_status \<Rightarrow> string \<Rightarrow> instant \<Rightarrow> 'c media_db \<Rightarrow>
   moderation_effect_error + provider_effect_status \<times> 'c media_db" where
  "CompleteProviderModerationEffect access key attempt status code now db =
     (if status \<notin> {ProviderEffectApplied, ProviderEffectRetryableFailed, ProviderEffectPermanentFailed}
        then Inl (ErrInvalidModerationRequest, ProviderEffectPermanentFailed)
      else case requireActiveScope db access of
        Inl _ \<Rightarrow> Inl (ErrModerationForbidden, ProviderEffectPermanentFailed)
      | Inr (_, scope) \<Rightarrow>
          let P = (\<lambda>r. effect_receipt scope key r \<and> rc_EffectStatus r = ProviderEffectApplying \<and>
                rc_EffectAttempts r = attempt) in
          if count_where P (md_receipts db) = 0
            then Inl (ErrModerationConflict, ProviderEffectRetryableFailed)
          else (case constrained receipts_ok () (update_where P (complete_effect status code now)
                    (md_receipts db)) of
              Inl _ \<Rightarrow> Inl (ErrModerationUnavailable, ProviderEffectRetryableFailed)
            | Inr rows \<Rightarrow> Inr (status, db\<lparr>md_receipts := rows\<rparr>)))"

end
