(* ===== verification/Media_Attendees.thy ===== *)
theory Media_Attendees imports Media_Soundness Media_Moderation begin

section \<open>Attendees and their requests\<close>

text \<open>
  An abstract view of the lobby: participants and admission requests, and what may happen to
  them.  A participant only moves forward, a request is decided once, and the two agree on whether
  somebody is still waiting.  The transactions of the media repositories are steps of this
  relation.
\<close>

subsection \<open>What may happen to one row\<close>

text \<open>How far a participant has come; every status of the last stage is final.\<close>

fun stage :: "participant_status \<Rightarrow> nat" where
  "stage ParticipantWaiting = 0"
| "stage ParticipantAdmitted = 1"
| "stage ParticipantJoining = 2"
| "stage ParticipantConnected = 3"
| "stage ParticipantReconnecting = 3"
| "stage _ = 4"

definition status_edge :: "participant_status \<Rightarrow> participant_status \<Rightarrow> bool" where
  "status_edge st st' \<longleftrightarrow> st' = st \<or> stage st < stage st' \<or> (stage st = 3 \<and> stage st' = 3)"

definition participant_identity :: "participant_row \<Rightarrow>
    (uuid \<times> uuid \<times> uuid \<times> uuid) \<times> (uuid \<times> uuid option \<times> uuid) \<times> string \<times> uuid \<times> int \<times> instant" where
  "participant_identity p = ((pa_ID p, pa_TenantID p, pa_SpaceID p, pa_RoomID p),
     (pa_UserID p, pa_AdmissionID p, pa_JoinAttemptID p), pa_ProviderIdentity p, pa_ParticipantKey p,
     pa_RosterSequence p, pa_CreatedAt p)"

definition participant_moved :: "participant_row \<Rightarrow> participant_row \<Rightarrow> bool" where
  "participant_moved p p' \<longleftrightarrow> participant_identity p' = participant_identity p \<and>
     pa_Version p < pa_Version p' \<and> status_edge (pa_Status p) (pa_Status p') \<and>
     (pa_Status p' = ParticipantWaiting \<longrightarrow> pa_Status p = ParticipantWaiting) \<and>
     (pa_RejoinRestoredAt p' = None \<longrightarrow> pa_RejoinRestoredAt p = None)"

definition admission_identity :: "admission_row \<Rightarrow>
    (uuid \<times> uuid \<times> uuid \<times> uuid) \<times> uuid \<times> string \<times> string \<times> instant" where
  "admission_identity a = ((ad_ID a, ad_TenantID a, ad_SpaceID a, ad_RoomID a), ad_UserID a,
     ad_IdempotencyKey a, ad_Fingerprint a, ad_CreatedAt a)"

text \<open>A request is decided, and a denial may be lifted, which closes the request.\<close>

definition admission_moved :: "admission_row \<Rightarrow> admission_row \<Rightarrow> bool" where
  "admission_moved a a' \<longleftrightarrow> admission_identity a' = admission_identity a \<and>
     ad_Version a < ad_Version a' \<and>
     (ad_Status a = AdmissionWaiting \<and> ad_Status a' \<noteq> AdmissionWaiting \<or>
      ad_Status a = AdmissionDenied \<and> ad_Status a' = AdmissionCancelled)"

lemma participant_moved_trans: "participant_moved p q \<Longrightarrow> participant_moved q r \<Longrightarrow> participant_moved p r"
  unfolding participant_moved_def status_edge_def
  by (cases "pa_Status p"; cases "pa_Status q"; cases "pa_Status r") auto

lemma admission_moved_trans: "admission_moved a b \<Longrightarrow> admission_moved b c \<Longrightarrow> admission_moved a c"
  by (auto simp: admission_moved_def)

lemma participant_moved_same:
  assumes "participant_moved p p'"
  shows "pa_ID p' = pa_ID p" "pa_TenantID p' = pa_TenantID p" "pa_SpaceID p' = pa_SpaceID p"
    "pa_RoomID p' = pa_RoomID p" "pa_UserID p' = pa_UserID p" "pa_AdmissionID p' = pa_AdmissionID p"
    "pa_CreatedAt p' = pa_CreatedAt p" "pa_JoinAttemptID p' = pa_JoinAttemptID p"
  using assms by (simp_all add: participant_moved_def participant_identity_def)

lemma admission_moved_same:
  assumes "admission_moved a a'"
  shows "ad_ID a' = ad_ID a" "ad_TenantID a' = ad_TenantID a" "ad_SpaceID a' = ad_SpaceID a"
    "ad_RoomID a' = ad_RoomID a" "ad_UserID a' = ad_UserID a" "ad_CreatedAt a' = ad_CreatedAt a"
  using assms by (simp_all add: admission_moved_def admission_identity_def)

lemma moved_active: "participant_moved p p' \<Longrightarrow> participant_active p' \<Longrightarrow> participant_active p"
  unfolding participant_moved_def status_edge_def participant_active_def
  by (cases "pa_Status p"; cases "pa_Status p'") auto

subsection \<open>A participant and its request\<close>

definition linked :: "participant_row \<Rightarrow> admission_row \<Rightarrow> bool" where
  "linked p a \<longleftrightarrow> pa_AdmissionID p = Some (ad_ID a) \<and> pa_TenantID p = ad_TenantID a \<and>
     pa_SpaceID p = ad_SpaceID a \<and> pa_RoomID p = ad_RoomID a \<and> pa_UserID p = ad_UserID a \<and>
     pa_CreatedAt p = ad_CreatedAt a"

definition let_in :: "participant_row \<Rightarrow> bool" where
  "let_in p \<longleftrightarrow> pa_Status p \<in> {ParticipantAdmitted, ParticipantJoining, ParticipantConnected,
     ParticipantReconnecting}"

definition agree :: "participant_row \<Rightarrow> admission_row \<Rightarrow> bool" where
  "agree p a \<longleftrightarrow> (pa_Status p = ParticipantWaiting \<longleftrightarrow> ad_Status a = AdmissionWaiting) \<and>
     (let_in p \<longrightarrow> ad_Status a = AdmissionAdmitted)"

definition paired :: "participant_row list \<Rightarrow> admission_row list \<Rightarrow> bool" where
  "paired ps as \<longleftrightarrow> unique_index (\<lambda>_. True) ad_ID as \<and>
     unique_index (\<lambda>p. pa_AdmissionID p \<noteq> None) pa_AdmissionID ps \<and>
     (\<forall>p\<in>set ps. pa_AdmissionID p \<noteq> None \<longrightarrow> (\<exists>a\<in>set as. linked p a \<and> agree p a)) \<and>
     (\<forall>p\<in>set ps. pa_Status p = ParticipantWaiting \<longrightarrow> pa_AdmissionID p \<noteq> None) \<and>
     (\<forall>a\<in>set as. ad_Status a = AdmissionWaiting \<longrightarrow> (\<exists>p\<in>set ps. pa_AdmissionID p = Some (ad_ID a)))"

lemma pairedD:
  assumes "paired ps as"
  shows "unique_index (\<lambda>_. True) ad_ID as"
    and "unique_index (\<lambda>p. pa_AdmissionID p \<noteq> None) pa_AdmissionID ps"
    and "p \<in> set ps \<Longrightarrow> pa_AdmissionID p \<noteq> None \<Longrightarrow> \<exists>a\<in>set as. linked p a \<and> agree p a"
    and "p \<in> set ps \<Longrightarrow> pa_Status p = ParticipantWaiting \<Longrightarrow> pa_AdmissionID p \<noteq> None"
    and "a \<in> set as \<Longrightarrow> ad_Status a = AdmissionWaiting \<Longrightarrow> \<exists>p\<in>set ps. pa_AdmissionID p = Some (ad_ID a)"
  using assms by (simp_all add: paired_def)

lemma paired_request:
  assumes "paired ps as" and "p \<in> set ps" and "a \<in> set as" and "pa_AdmissionID p = Some (ad_ID a)"
  shows "linked p a \<and> agree p a"
proof -
  obtain a' where a': "a' \<in> set as" "linked p a'" "agree p a'"
    using pairedD(3)[OF assms(1,2)] assms(4) by auto
  have "ad_ID a' = ad_ID a" using a'(2) assms(4) by (simp add: linked_def)
  from unique_indexD[OF pairedD(1)[OF assms(1)] a'(1) assms(3) _ _ this] a' show ?thesis by simp
qed

lemma paired_participant:
  assumes "paired ps as" and "a \<in> set as" and "ad_Status a = AdmissionWaiting"
  obtains p where "p \<in> set ps" and "linked p a" and "pa_Status p = ParticipantWaiting"
proof -
  from pairedD(5)[OF assms] obtain p where p: "p \<in> set ps" "pa_AdmissionID p = Some (ad_ID a)" by blast
  from paired_request[OF assms(1) p(1) assms(2) p(2)] assms(3) p(1) that show thesis by (simp add: agree_def)
qed

lemma paired_unique:
  "paired ps as \<Longrightarrow> p \<in> set ps \<Longrightarrow> q \<in> set ps \<Longrightarrow> pa_AdmissionID p = Some i \<Longrightarrow>
     pa_AdmissionID q = Some i \<Longrightarrow> p = q"
  by (rule unique_indexD[OF pairedD(2), of ps as]) simp_all

subsection \<open>Who has been removed\<close>

definition attendee :: "participant_row \<Rightarrow> uuid \<times> uuid \<times> uuid \<times> uuid" where
  "attendee p = (pa_TenantID p, pa_SpaceID p, pa_RoomID p, pa_UserID p)"

definition barring :: "participant_row \<Rightarrow> bool" where
  "barring p \<longleftrightarrow> pa_Status p = ParticipantRemoved \<and> pa_RejoinRestoredAt p = None"

text \<open>One active participation of a user in a room, and none of a user who is barred from it.\<close>

definition barred :: "participant_row list \<Rightarrow> bool" where
  "barred ps \<longleftrightarrow> unique_index participant_active attendee ps \<and>
     (\<forall>p\<in>set ps. \<forall>q\<in>set ps. barring p \<longrightarrow> participant_active q \<longrightarrow> attendee q \<noteq> attendee p)"

definition newcomer :: "participant_row \<Rightarrow> participant_row list \<Rightarrow> bool" where
  "newcomer p ps \<longleftrightarrow> pa_ID p \<notin> pa_ID ` set ps \<and>
     (\<forall>q\<in>set ps. participant_active q \<or> barring q \<longrightarrow> attendee q \<noteq> attendee p)"

lemma moved_attendee: "participant_moved p p' \<Longrightarrow> attendee p' = attendee p"
  by (simp add: participant_moved_same attendee_def)

lemma moved_barring:
  "participant_moved p p' \<Longrightarrow> barring p' \<Longrightarrow> barring p \<or> participant_active p \<and> \<not> participant_active p'"
  unfolding participant_moved_def status_edge_def barring_def participant_active_def
  by (cases "pa_Status p") auto

lemma barred_change:
  assumes barred: "barred ps" and P: "\<And>p. P p \<Longrightarrow> participant_moved p (f p)"
  shows "barred (update_where P f ps)"
  unfolding barred_def
proof (intro conjI ballI impI)
  show "unique_index participant_active attendee (update_where P f ps)"
    using barred moved_attendee[OF P] moved_active[OF P] by (intro unique_index_update) (simp_all add: barred_def)
  fix p' q' assume p': "p' \<in> set (update_where P f ps)" "barring p'"
    and q': "q' \<in> set (update_where P f ps)" "participant_active q'"
  obtain p where p: "p \<in> set ps" "p' = (if P p then f p else p)" using p'(1) by (auto simp: update_where_def)
  obtain q where q: "q \<in> set ps" "q' = (if P q then f q else q)" using q'(1) by (auto simp: update_where_def)
  have key: "attendee p' = attendee p" "attendee q' = attendee q" using P moved_attendee by (simp_all add: p(2) q(2))
  have active: "participant_active q" using q'(2) P moved_active by (auto simp: q(2) split: if_splits)
  have "barring p \<or> participant_active p \<and> \<not> participant_active p'"
    using p'(2) P moved_barring by (auto simp: p(2) split: if_splits)
  then show "attendee q' \<noteq> attendee p'"
  proof
    assume "barring p"
    with barred p(1) q(1) active show ?thesis by (simp add: barred_def key)
  next
    assume a: "participant_active p \<and> \<not> participant_active p'"
    show ?thesis
    proof
      assume "attendee q' = attendee p'"
      then have "q = p"
        using barred p(1) q(1) active a by (intro unique_indexD[of participant_active attendee ps]) (simp_all add: barred_def key)
      with a q'(2) p(2) q(2) show False by (cases "P p") simp_all
    qed
  qed
qed

lemma barred_newcomer: "barred ps \<Longrightarrow> newcomer p ps \<Longrightarrow> participant_active p \<Longrightarrow> barred (ps @ [p])"
  by (auto simp: barred_def newcomer_def unique_index_append barring_def participant_active_def
      eq_commute[of "attendee p"])

subsection \<open>The abstract steps\<close>

type_synonym attendance = "participant_row list \<times> admission_row list"

definition where_changed :: "('r \<Rightarrow> bool) \<Rightarrow> ('r \<Rightarrow> 'r) \<Rightarrow> 'r \<Rightarrow> 'r" where
  "where_changed P f r = (if P r then f r else r)"

text \<open>Whether the step may let somebody in from the lobby is its parameter.\<close>

inductive attendance_step :: "bool \<Rightarrow> attendance \<Rightarrow> attendance \<Rightarrow> bool" for admits where
  change: "\<lbrakk>\<And>p. P p \<Longrightarrow> participant_moved p (f p);
     \<And>p. P p \<Longrightarrow> pa_Status p = ParticipantWaiting \<Longrightarrow> let_in (f p) \<Longrightarrow> admits; \<And>a. Q a \<Longrightarrow> admission_moved a (g a);
     \<And>p a. p \<in> set ps \<Longrightarrow> a \<in> set as \<Longrightarrow> linked p a \<Longrightarrow> agree p a \<Longrightarrow>
       agree (where_changed P f p) (where_changed Q g a)\<rbrakk> \<Longrightarrow>
     attendance_step admits (ps, as) (update_where P f ps, update_where Q g as)"
| enter: "\<lbrakk>pa_AdmissionID p = None; pa_Status p = ParticipantAdmitted; newcomer p ps\<rbrakk> \<Longrightarrow>
     attendance_step admits (ps, as) (ps @ [p], as)"
| ask: "\<lbrakk>linked p a; pa_Status p = ParticipantWaiting; ad_Status a = AdmissionWaiting;
     ad_ID a \<notin> ad_ID ` set as; newcomer p ps\<rbrakk> \<Longrightarrow>
     attendance_step admits (ps, as) (ps @ [p], as @ [a])"

lemma changed_participant:
  assumes "\<And>p. P p \<Longrightarrow> participant_moved p (f p)"
  shows "where_changed P f p = p \<or> participant_moved p (where_changed P f p)"
  using assms by (simp add: where_changed_def)

lemma set_where_changed: "set (update_where P f rows) = where_changed P f ` set rows"
  by (auto simp: update_where_def where_changed_def)

lemma paired_change:
  assumes paired: "paired ps as"
    and P: "\<And>p. P p \<Longrightarrow> participant_moved p (f p)" and Q: "\<And>a. Q a \<Longrightarrow> admission_moved a (g a)"
    and agree: "\<And>p a. p \<in> set ps \<Longrightarrow> a \<in> set as \<Longrightarrow> linked p a \<Longrightarrow> agree p a \<Longrightarrow>
       agree (where_changed P f p) (where_changed Q g a)"
  shows "paired (update_where P f ps) (update_where Q g as)"
proof -
  have fid: "pa_AdmissionID (where_changed P f p) = pa_AdmissionID p" for p
    using participant_moved_same(6)[OF P] by (simp add: where_changed_def)
  have gid: "ad_ID (where_changed Q g a) = ad_ID a" for a
    using admission_moved_same(1)[OF Q] by (simp add: where_changed_def)
  have link: "linked (where_changed P f p) (where_changed Q g a)" if "linked p a" for p a
    using that participant_moved_same[OF P, of p] admission_moved_same[OF Q, of a]
    by (cases "P p"; cases "Q a") (simp_all add: linked_def where_changed_def)
  have 1: "unique_index (\<lambda>_. True) ad_ID (update_where Q g as)"
    using pairedD(1)[OF paired] admission_moved_same(1)[OF Q] by (intro unique_index_update) simp_all
  have 2: "unique_index (\<lambda>p. pa_AdmissionID p \<noteq> None) pa_AdmissionID (update_where P f ps)"
    using pairedD(2)[OF paired] participant_moved_same(6)[OF P] by (intro unique_index_update) simp_all
  show ?thesis
    unfolding paired_def set_where_changed
  proof (intro conjI 1 2 ballI impI; elim imageE)
    fix p' p assume p: "p' = where_changed P f p" "p \<in> set ps" and n: "pa_AdmissionID p' \<noteq> None"
    then obtain a where a: "a \<in> set as" "linked p a" "agree p a" using pairedD(3)[OF paired p(2)] fid by auto
    from agree[OF p(2) a] link[OF a(2)] a(1)
    show "\<exists>a'\<in>where_changed Q g ` set as. linked p' a' \<and> agree p' a'" by (auto simp: p(1))
  next
    fix p' p assume p: "p' = where_changed P f p" "p \<in> set ps" and w: "pa_Status p' = ParticipantWaiting"
    then have "pa_Status p = ParticipantWaiting"
      using P[of p] by (simp add: where_changed_def participant_moved_def split: if_splits)
    then show "pa_AdmissionID p' \<noteq> None" using pairedD(4)[OF paired p(2)] p fid by simp
  next
    fix a' a assume a: "a' = where_changed Q g a" "a \<in> set as" and w: "ad_Status a' = AdmissionWaiting"
    then have "ad_Status a = AdmissionWaiting"
      using Q[of a] by (auto simp: where_changed_def admission_moved_def split: if_splits)
    with pairedD(5)[OF paired a(2)] obtain p where "p \<in> set ps" "pa_AdmissionID p = Some (ad_ID a)" by blast
    then show "\<exists>p'\<in>where_changed P f ` set ps. pa_AdmissionID p' = Some (ad_ID a')"
      using fid gid by (auto simp: a(1))
  qed
qed

lemma attendance_step_paired:
  "attendance_step admits x y \<Longrightarrow> paired (fst x) (snd x) \<Longrightarrow> paired (fst y) (snd y)"
proof (induction rule: attendance_step.induct)
  case (change P f Q g ps as)
  then show ?case using paired_change[of ps as P f Q g] by simp
next
  case (enter p ps as)
  then show ?case by (auto simp: paired_def unique_index_append)
next
  case (ask p a as ps)
  have "pa_AdmissionID q \<noteq> Some (ad_ID a)" if "q \<in> set ps" for q
  proof
    assume "pa_AdmissionID q = Some (ad_ID a)"
    with pairedD(3)[of ps as q] ask.prems that obtain b where "b \<in> set as" "linked q b" by auto
    with \<open>pa_AdmissionID q = Some (ad_ID a)\<close> ask(4) show False by (auto simp: linked_def)
  qed
  with ask show ?case
    by (auto simp: paired_def unique_index_append linked_def agree_def let_in_def image_iff)
qed

lemma attendance_step_barred: "attendance_step admits x y \<Longrightarrow> barred (fst x) \<Longrightarrow> barred (fst y)"
proof (induction rule: attendance_step.induct)
  case (change P f Q g ps as)
  then show ?case using barred_change[of ps P f] by simp
qed (auto simp: participant_active_def intro: barred_newcomer)

subsection \<open>What a run leaves of a row\<close>

definition rows_kept :: "('r \<Rightarrow> 'r \<Rightarrow> bool) \<Rightarrow> 'r list \<Rightarrow> 'r list \<Rightarrow> bool" where
  "rows_kept R rows rows' \<longleftrightarrow> (\<forall>r\<in>set rows. \<exists>r'\<in>set rows'. r' = r \<or> R r r')"

lemma rows_kept_trans:
  assumes "rows_kept R a b" and "rows_kept R b c" and "\<And>x y z. R x y \<Longrightarrow> R y z \<Longrightarrow> R x z"
  shows "rows_kept R a c"
  unfolding rows_kept_def
proof
  fix x assume "x \<in> set a"
  with assms(1) obtain y where "y \<in> set b" "y = x \<or> R x y" by (auto simp: rows_kept_def)
  moreover from this(1) assms(2) obtain z where "z \<in> set c" "z = y \<or> R y z" by (auto simp: rows_kept_def)
  ultimately show "\<exists>z\<in>set c. z = x \<or> R x z" using assms(3) by blast
qed

lemma rows_kept_update:
  "(\<And>r. P r \<Longrightarrow> R r (f r)) \<Longrightarrow> rows_kept R rows (update_where P f rows)"
  unfolding rows_kept_def set_where_changed
  by (intro ballI, rule bexI[where x="where_changed P f r" for r]) (auto simp: where_changed_def)

lemma rows_kept_more: "set rows \<subseteq> set rows' \<Longrightarrow> rows_kept R rows rows'"
  by (auto simp: rows_kept_def)

definition attendance_kept :: "attendance \<Rightarrow> attendance \<Rightarrow> bool" where
  "attendance_kept x y \<longleftrightarrow> rows_kept participant_moved (fst x) (fst y) \<and>
     rows_kept admission_moved (snd x) (snd y)"

lemma attendance_kept_refl: "attendance_kept x x"
  by (simp add: attendance_kept_def rows_kept_more)

lemma attendance_kept_trans:
  assumes "attendance_kept x y" and "attendance_kept y z"
  shows "attendance_kept x z"
  using assms rows_kept_trans[of participant_moved "fst x" "fst y" "fst z"] participant_moved_trans
    rows_kept_trans[of admission_moved "snd x" "snd y" "snd z"] admission_moved_trans
  unfolding attendance_kept_def by metis

lemma attendance_step_kept: "attendance_step admits x y \<Longrightarrow> attendance_kept x y"
proof (induction rule: attendance_step.induct)
  case (change P f Q g ps as)
  then show ?case by (simp add: attendance_kept_def rows_kept_update)
qed (auto simp: attendance_kept_def intro: rows_kept_more)

subsection \<open>Transactions that leave the lifecycle alone\<close>

definition attendance_of :: "'c media_db \<Rightarrow> attendance" where
  "attendance_of db = (md_participants db, md_admissions db)"

definition orderly :: "'c media_db \<Rightarrow> bool" where
  "orderly db \<longleftrightarrow> media_inv db \<and> paired (md_participants db) (md_admissions db) \<and>
     barred (md_participants db)"

definition attends :: "bool \<Rightarrow> 'c media_db \<Rightarrow> 'c media_db \<Rightarrow> bool" where
  "attends admits db db' \<longleftrightarrow> (attendance_step admits)\<^sup>*\<^sup>* (attendance_of db) (attendance_of db')"

lemma attends_trans: "attends admits a b \<Longrightarrow> attends admits b c \<Longrightarrow> attends admits a c"
  by (simp add: attends_def)

lemma attends_same: "attendance_of db' = attendance_of db \<Longrightarrow> attends admits db db'"
  by (simp add: attends_def)

lemma attends_step: "attendance_step admits (attendance_of db) (attendance_of db') \<Longrightarrow> attends admits db db'"
  by (simp add: attends_def)

lemma attends_paired:
  assumes "attends admits db db'" and "paired (md_participants db) (md_admissions db)"
    and "barred (md_participants db)"
  shows "paired (md_participants db') (md_admissions db')" and "barred (md_participants db')"
proof -
  have "paired (fst y) (snd y) \<and> barred (fst y)"
    if "(attendance_step admits)\<^sup>*\<^sup>* x y" "paired (fst x) (snd x) \<and> barred (fst x)" for x y
    using that by (induction rule: rtranclp_induct) (auto dest: attendance_step_paired attendance_step_barred)
  from this[of "attendance_of db" "attendance_of db'"] assms
  show "paired (md_participants db') (md_admissions db')" "barred (md_participants db')"
    by (simp_all add: attends_def attendance_of_def)
qed

lemma attendance_step_mono: "attendance_step False x y \<Longrightarrow> attendance_step admits x y"
proof (induction rule: attendance_step.induct)
  case (change P f Q g ps as)
  then show ?case by (intro attendance_step.change) auto
qed (auto intro: attendance_step.intros)

lemma attends_mono: "attends False db db' \<Longrightarrow> attends admits db db'"
  unfolding attends_def by (rule rtranclp_mono[THEN predicate2D]) (auto intro: attendance_step_mono)

lemma attends_kept: "attends admits db db' \<Longrightarrow> attendance_kept (attendance_of db) (attendance_of db')"
  unfolding attends_def
  by (induction rule: rtranclp_induct)
    (auto intro: attendance_kept_refl attendance_kept_trans dest: attendance_step_kept)

text \<open>Where nobody may be let in, whoever waits goes on waiting or leaves.\<close>

definition kept_out :: "participant_row \<Rightarrow> participant_row \<Rightarrow> bool" where
  "kept_out p p' \<longleftrightarrow> participant_moved p p' \<and> (pa_Status p = ParticipantWaiting \<longrightarrow> \<not> let_in p')"

lemma kept_out_trans: "kept_out p q \<Longrightarrow> kept_out q r \<Longrightarrow> kept_out p r"
  unfolding kept_out_def participant_moved_def status_edge_def let_in_def
  by (cases "pa_Status p"; cases "pa_Status q"; cases "pa_Status r") auto

lemma attends_kept_out:
  assumes "attends False db db'"
  shows "rows_kept kept_out (md_participants db) (md_participants db')"
proof -
  have one: "rows_kept kept_out (fst x) (fst y)" if "attendance_step False x y" for x y
    using that
  proof (induction rule: attendance_step.induct)
    case (change P f Q g ps as)
    then show ?case by (auto simp: kept_out_def intro!: rows_kept_update)
  qed (auto intro: rows_kept_more)
  have "rows_kept kept_out (fst x) (fst y)" if "(attendance_step False)\<^sup>*\<^sup>* x y" for x y
    using that
  proof (induction rule: rtranclp_induct)
    case (step y z)
    show ?case by (rule rows_kept_trans[OF step.IH one[OF step.hyps(2)]]) (rule kept_out_trans)
  qed (simp add: rows_kept_more)
  with assms show ?thesis by (fastforce simp: attends_def attendance_of_def)
qed

definition quiet :: "bool \<Rightarrow> 'c media_db \<Rightarrow> 'c media_db \<Rightarrow> bool" where
  "quiet admits db db' \<longleftrightarrow> lifecycle_of db' = lifecycle_of db \<and> orderly db' \<and> remembered db db' \<and>
     attends admits db db'"

lemma quiet_refl: "orderly db \<Longrightarrow> quiet admits db db"
  by (simp add: quiet_def attends_same)

lemma quiet_trans: "quiet admits a b \<Longrightarrow> quiet admits b c \<Longrightarrow> quiet admits a c"
  unfolding quiet_def using remembered_trans attends_trans by metis

lemma quiet_orderly: "quiet admits db db' \<Longrightarrow> orderly db'"
  by (simp add: quiet_def)

lemma quiet_sound: "quiet admits db db' \<Longrightarrow> sound_step db db'"
  by (simp add: quiet_def sound_step_def orderly_def lifecycle_step.stay)

lemma orderlyD:
  assumes "orderly db"
  shows "media_inv db" and "paired (md_participants db) (md_admissions db)" and "barred (md_participants db)"
  using assms by (simp_all add: orderly_def)

text \<open>One change of participants and requests, with whatever it does to the rooms' projections.\<close>

lemma quiet_change:
  assumes inv: "orderly db"
    and P: "\<And>p. P p \<Longrightarrow> participant_moved p (f p)" and Q: "\<And>a. Q a \<Longrightarrow> admission_moved a (g a)"
    and closed: "\<And>p. P p \<Longrightarrow> pa_Status p = ParticipantWaiting \<Longrightarrow> let_in (f p) \<Longrightarrow> admits"
    and agree: "\<And>p a. p \<in> set (md_participants db) \<Longrightarrow> a \<in> set (md_admissions db) \<Longrightarrow> linked p a \<Longrightarrow>
       agree p a \<Longrightarrow> agree (where_changed P f p) (where_changed Q g a)"
    and ps: "md_participants db' = update_where P f (md_participants db)"
    and as: "md_admissions db' = update_where Q g (md_admissions db)"
    and ok: "participants_ok (md_participants db')" "admissions_ok (md_admissions db')"
    and rooms: "rooms_ok (md_rooms db')" "rooms_same (md_rooms db) (md_rooms db')"
    and frame: "md_spaces db' = md_spaces db" "md_receipts db' = md_receipts db" "md_webhooks db' = md_webhooks db"
  shows "quiet admits db db'"
proof -
  note media = orderlyD(1)[OF inv]
  have "attended db'"
    unfolding attended_def
  proof (intro conjI ballI impI)
    fix p' assume p': "p' \<in> set (md_participants db')" "participant_active p'"
    then obtain p where p: "p \<in> set (md_participants db)" "p' = where_changed P f p"
      by (auto simp: ps set_where_changed)
    have "participant_active p \<and> pa_TenantID p' = pa_TenantID p \<and> pa_SpaceID p' = pa_SpaceID p \<and>
        pa_RoomID p' = pa_RoomID p"
      using changed_participant[OF P, of P p] p' p(2) moved_active participant_moved_same(2-4) by metis
    with media_invD(9)[OF media] p(1) show "in_use (md_rooms db') (pa_TenantID p') (pa_SpaceID p') (pa_RoomID p')"
      by (auto simp: attended_def intro: in_use_same[OF rooms(2)])
  next
    fix a' assume a': "a' \<in> set (md_admissions db')" "ad_Status a' = AdmissionWaiting"
    then obtain a where a: "a \<in> set (md_admissions db)" "a' = where_changed Q g a"
      by (auto simp: as set_where_changed)
    have "a' = a" using Q[of a] a'(2) by (auto simp: a(2) where_changed_def admission_moved_def split: if_splits)
    with media_invD(9)[OF media] a(1) a'(2)
    show "in_use (md_rooms db') (ad_TenantID a') (ad_SpaceID a') (ad_RoomID a')"
      by (auto simp: attended_def intro: in_use_same[OF rooms(2)])
  qed
  then have "lifecycle_of db' = lifecycle_of db \<and> media_inv db'"
    using media_invD(5)[OF media] ok rooms frame by (intro same_step[OF media]) simp_all
  moreover have "attends admits db db'"
    unfolding attends_def attendance_of_def ps as
    by (rule r_into_rtranclp, rule attendance_step.change) (use P Q closed agree in auto)
  moreover have "remembered db db'" using frame by (intro remembered_frame) simp_all
  ultimately show ?thesis
    using attends_paired[OF _ orderlyD(2,3)[OF inv]] by (simp add: quiet_def orderly_def)
qed

text \<open>A change of the other tables.\<close>

lemma quiet_frame:
  assumes inv: "orderly db" and "md_spaces db' = md_spaces db" and "md_rooms db' = md_rooms db"
    and "md_participants db' = md_participants db" and "md_admissions db' = md_admissions db"
    and "receipts_ok (md_receipts db')" and "receipts_kept (md_receipts db) (md_receipts db')"
    and "md_webhooks db' = md_webhooks db"
  shows "quiet admits db db'"
proof -
  have "lifecycle_of db' = lifecycle_of db" by (simp add: lifecycle_of_def loadSpace_def rooms_of_def assms)
  with sound_step_frame[OF orderlyD(1)[OF inv] assms(2-8)] inv assms(4,5) show ?thesis
    by (simp add: quiet_def sound_step_def orderly_def attends_same attendance_of_def)
qed

lemma quiet_receipt:
  assumes "orderly db" and "insert_receipt e r db = Inr db'"
  shows "quiet admits db db'"
  using assms by (auto simp: insert_receipt_def receipts_kept_append intro!: quiet_frame)

lemma quiet_event:
  assumes "orderly db"
  shows "quiet admits db (append_event ev db)"
  using media_invD(5)[OF orderlyD(1)[OF assms]] by (intro quiet_frame[OF assms]) (simp_all add: append_event_def)

end
