(* ===== verification/Media_Lobby_Sound.thy ===== *)
theory Media_Lobby_Sound imports Media_Attendees "HOL-Library.Multiset" begin

section \<open>The lobby keeps the invariants\<close>

text \<open>
  Every transaction of the lobby repository leaves the lifecycle alone, keeps the invariant of
  the tables and the pairing of participants with their requests, and is made of abstract steps
  of the attendance (\<open>quiet\<close>).
\<close>

subsection \<open>Loaded rows\<close>

lemma load_admission_Some:
  "load_admission db t s i j = Some a \<Longrightarrow> a \<in> set (md_admissions db) \<and> ad_TenantID a = t \<and>
     ad_SpaceID a = s \<and> ad_RoomID a = i \<and> ad_ID a = j \<and> user_of db (ad_UserID a) \<noteq> None"
  by (auto simp: load_admission_def admission_of_def dest!: find_in_set)

lemma loadLobbyParticipantByAdmission_Some:
  "loadLobbyParticipantByAdmission db t s i j u = Some p \<Longrightarrow> p \<in> set (md_participants db) \<and>
     pa_TenantID p = t \<and> pa_SpaceID p = s \<and> pa_RoomID p = i \<and> pa_AdmissionID p = Some j \<and> pa_UserID p = u"
  by (auto simp: loadLobbyParticipantByAdmission_def dest!: find_in_set)

definition loaded_pair :: "'c media_db \<Rightarrow> admission_row \<Rightarrow> participant_row \<Rightarrow> bool" where
  "loaded_pair db a p \<longleftrightarrow> a \<in> set (md_admissions db) \<and> p \<in> set (md_participants db) \<and>
     pa_AdmissionID p = Some (ad_ID a)"

lemma loadLobbyAdmissionForMutation_Some:
  assumes "loadLobbyAdmissionForMutation db t s i j = Some (a, p)"
  shows "loaded_pair db a p" and "load_admission db t s i j = Some a"
  using assms
  by (auto simp: loadLobbyAdmissionForMutation_def loaded_pair_def split: option.splits
      dest!: load_admission_Some loadLobbyParticipantByAdmission_Some)

lemma joined_row:
  "(case F of None \<Rightarrow> None | Some p \<Rightarrow> map_option (Pair p) (J p)) = Some (p, a) \<Longrightarrow> F = Some p \<and> J p = Some a"
  by (cases F) auto

lemma loadLobbyAttemptByJoinID_Some:
  assumes "loadLobbyAttemptByJoinID db t s i u j = Some (p, a)"
  shows "loaded_pair db a p" and "pa_UserID p = u" and "pa_JoinAttemptID p = j"
    and "load_admission db t s i (ad_ID a) = Some a"
proof -
  let ?joined = "\<lambda>p. case pa_AdmissionID p of None \<Rightarrow> None | Some k \<Rightarrow> load_admission db t s i k"
  note f = joined_row[OF assms[unfolded loadLobbyAttemptByJoinID_def Let_def]]
  note m = find_in_set[OF conjunct1[OF f]]
  from f obtain k where k: "pa_AdmissionID p = Some k" "load_admission db t s i k = Some a"
    by (auto split: option.splits)
  note l = load_admission_Some[OF k(2)]
  show "loaded_pair db a p" "pa_UserID p = u" "pa_JoinAttemptID p = j"
    "load_admission db t s i (ad_ID a) = Some a"
    using m k l by (simp_all add: loaded_pair_def)
qed

subsection \<open>A decision\<close>

lemma update_one_admission_Inr:
  "update_one_admission e Q g db = Inr db' \<longleftrightarrow> admissions_ok (update_where Q g (md_admissions db)) \<and>
     count_where Q (md_admissions db) = 1 \<and> db' = db\<lparr>md_admissions := update_where Q g (md_admissions db)\<rparr>"
  by (auto simp: update_one_admission_def)

lemma update_one_participant_Inr:
  "update_one_participant e P f db = Inr db' \<longleftrightarrow> participants_ok (update_where P f (md_participants db)) \<and>
     count_where P (md_participants db) = 1 \<and>
     db' = db\<lparr>md_participants := update_where P f (md_participants db)\<rparr>"
  by (auto simp: update_one_participant_def)

lemma participants_unique:
  "participants_ok rows \<Longrightarrow> p \<in> set rows \<Longrightarrow> q \<in> set rows \<Longrightarrow> pa_ID p = pa_ID q \<Longrightarrow> p = q"
  by (rule unique_indexD[of "\<lambda>_. True" pa_ID rows]) (simp_all add: participants_ok_def)

lemma decision_quiet:
  assumes inv: "orderly db" and pair: "loaded_pair db a p"
    and u1: "update_one_admission e Q g db = Inr db1" and u2: "update_one_participant e' P f db1 = Inr db'"
    and Q: "\<And>r. Q r \<Longrightarrow> ad_ID r = ad_ID a \<and> admission_moved r (g r)"
    and P: "\<And>r. P r \<Longrightarrow> pa_ID r = pa_ID p \<and> participant_moved r (f r)"
    and closed: "\<And>r. P r \<Longrightarrow> pa_Status r = ParticipantWaiting \<Longrightarrow> let_in (f r) \<Longrightarrow> admits"
    and ag: "Q a \<Longrightarrow> P p \<Longrightarrow> agree (f p) (g a)"
  shows "quiet admits db db'" and "Q a" and "P p"
    and "db' = db\<lparr>md_admissions := update_where Q g (md_admissions db),
      md_participants := update_where P f (md_participants db)\<rparr>"
proof -
  note pr = orderlyD(2)[OF inv]
  note mem = pair[unfolded loaded_pair_def]
  have d1: "admissions_ok (update_where Q g (md_admissions db))" "count_where Q (md_admissions db) = 1"
    "db1 = db\<lparr>md_admissions := update_where Q g (md_admissions db)\<rparr>" using u1 by (simp_all add: update_one_admission_Inr)
  have d2: "participants_ok (update_where P f (md_participants db))" "count_where P (md_participants db) = 1"
    "db' = db1\<lparr>md_participants := update_where P f (md_participants db)\<rparr>"
    using u2 by (simp_all add: update_one_participant_Inr d1(3))
  show db': "db' = db\<lparr>md_admissions := update_where Q g (md_admissions db),
      md_participants := update_where P f (md_participants db)\<rparr>" by (simp add: d1(3) d2(3))
  have a_only: "r = a" if "r \<in> set (md_admissions db)" "ad_ID r = ad_ID a" for r
    using unique_indexD[OF pairedD(1)[OF pr] that(1) _ _ _ that(2)] mem by simp
  have p_only: "r = p" if "r \<in> set (md_participants db)" "pa_ID r = pa_ID p" for r
    using participants_unique[OF media_invD(3)[OF orderlyD(1)[OF inv]] that(1) _ that(2)] mem by simp
  obtain r where "r \<in> set (md_admissions db)" "Q r" using count_where_member[of Q "md_admissions db"] d1(2) by auto
  with a_only Q show Qa: "Q a" by blast
  obtain r where "r \<in> set (md_participants db)" "P r" using count_where_member[of P "md_participants db"] d2(2) by auto
  with p_only P show Pp: "P p" by blast
  show "quiet admits db db'"
  proof (rule quiet_change[OF inv])
    show "participant_moved r (f r)" if "P r" for r using P that by blast
    show "admission_moved r (g r)" if "Q r" for r using Q that by blast
    show admits if "P r" "pa_Status r = ParticipantWaiting" "let_in (f r)" for r by (rule closed[OF that])
    show "agree (where_changed P f p') (where_changed Q g a')"
      if m: "p' \<in> set (md_participants db)" "a' \<in> set (md_admissions db)" "linked p' a'" "agree p' a'" for p' a'
    proof (cases "a' = a")
      case True
      then have "p' = p" using paired_unique[OF pr m(1)] mem m(3) by (simp add: linked_def)
      with True show ?thesis using ag Qa Pp by (simp add: where_changed_def)
    next
      case False
      have "\<not> Q a'" using a_only[OF m(2)] False Q by blast
      moreover have "\<not> P p'"
      proof
        assume "P p'"
        then have "p' = p" using p_only[OF m(1)] P by blast
        then have "ad_ID a' = ad_ID a" using m(3) mem by (simp add: linked_def)
        with a_only[OF m(2)] False show False by blast
      qed
      ultimately show ?thesis using m(4) by (simp add: where_changed_def)
    qed
  qed (use media_invD(2)[OF orderlyD(1)[OF inv]] d1 d2 in \<open>simp_all add: db'\<close>)
qed

lemmas decision_defs = decided_admission_def decided_participant_def resolve_admission_def
  admit_participant_def deny_participant_def restore_participant_def time_out_participant_def
  withdraw_participant_def waiting_admission_def

lemmas moved_defs = participant_moved_def participant_identity_def status_edge_def admission_moved_def
  admission_identity_def agree_def let_in_def

lemma admit_quiet:
  assumes inv: "orderly db" and pair: "loaded_pair db a p"
    and call: "admitLobbyAdmission scope a p now db = Inr (ev, db')"
  shows "quiet True db db' \<and> ad_Status a = AdmissionWaiting \<and>
    db' = db\<lparr>md_admissions := update_where (decided_admission (tc_TenantID scope) a AdmissionWaiting)
        (resolve_admission AdmissionAdmitted (Some (tc_ActorID scope)) None now) (md_admissions db),
      md_participants := update_where (decided_participant (tc_TenantID scope) a p ParticipantWaiting)
        (admit_participant now) (md_participants db)\<rparr>"
proof -
  obtain db1 where w: "ad_Status a = AdmissionWaiting" and
    u: "update_one_admission (LobbyLifecycle LifecycleOther) (decided_admission (tc_TenantID scope) a AdmissionWaiting)
        (resolve_admission AdmissionAdmitted (Some (tc_ActorID scope)) None now) db = Inr db1"
      "update_one_participant (LobbyLifecycle LifecycleOther) (decided_participant (tc_TenantID scope) a p ParticipantWaiting)
        (admit_participant now) db1 = Inr db'"
    using call by (auto simp: admitLobbyAdmission_def split: if_splits)
  note d = decision_quiet[where admits = True, OF inv pair u]
  show ?thesis using d(1,4) w by (auto simp: decision_defs moved_defs)
qed

lemma deny_quiet:
  assumes inv: "orderly db" and pair: "loaded_pair db a p"
    and call: "denyLobbyAdmission scope a p reason now db = Inr (ev, db')"
  shows "quiet admits db db' \<and> ad_Status a = AdmissionWaiting \<and> reason \<noteq> [] \<and>
    db' = db\<lparr>md_admissions := update_where (decided_admission (tc_TenantID scope) a AdmissionWaiting)
        (resolve_admission AdmissionDenied (Some (tc_ActorID scope)) (Some reason) now) (md_admissions db),
      md_participants := update_where (decided_participant (tc_TenantID scope) a p ParticipantWaiting)
        (deny_participant (tc_ActorID scope) now) (md_participants db)\<rparr>"
proof -
  obtain db1 where w: "ad_Status a = AdmissionWaiting" "reason \<noteq> []" and
    u: "update_one_admission (LobbyLifecycle LifecycleOther) (decided_admission (tc_TenantID scope) a AdmissionWaiting)
        (resolve_admission AdmissionDenied (Some (tc_ActorID scope)) (Some reason) now) db = Inr db1"
      "update_one_participant (LobbyLifecycle LifecycleOther) (decided_participant (tc_TenantID scope) a p ParticipantWaiting)
        (deny_participant (tc_ActorID scope) now) db1 = Inr db'"
    using call by (auto simp: denyLobbyAdmission_def split: if_splits)
  note d = decision_quiet[where admits = admits, OF inv pair u]
  show ?thesis using d(1,4) w by (auto simp: decision_defs moved_defs)
qed

lemma restore_quiet:
  assumes inv: "orderly db" and pair: "loaded_pair db a p"
    and call: "restoreLobbyAdmission scope a p now db = Inr (ev, db')"
  shows "quiet admits db db' \<and> ad_Status a = AdmissionDenied \<and>
    db' = db\<lparr>md_admissions := update_where (decided_admission (tc_TenantID scope) a AdmissionDenied)
        (resolve_admission AdmissionCancelled (Some (tc_ActorID scope)) (Some ''restored'') now) (md_admissions db),
      md_participants := update_where (\<lambda>r. decided_participant (tc_TenantID scope) a p ParticipantRemoved r \<and>
          pa_RejoinRestoredAt r = None) (restore_participant (tc_ActorID scope) now) (md_participants db)\<rparr>"
proof -
  obtain db1 where w: "ad_Status a = AdmissionDenied" and
    u: "update_one_admission (LobbyLifecycle LifecycleOther) (decided_admission (tc_TenantID scope) a AdmissionDenied)
        (resolve_admission AdmissionCancelled (Some (tc_ActorID scope)) (Some ''restored'') now) db = Inr db1"
      "update_one_participant (LobbyLifecycle LifecycleOther)
        (\<lambda>r. decided_participant (tc_TenantID scope) a p ParticipantRemoved r \<and> pa_RejoinRestoredAt r = None)
        (restore_participant (tc_ActorID scope) now) db1 = Inr db'"
    using call by (auto simp: restoreLobbyAdmission_def split: if_splits)
  note d = decision_quiet[where admits = admits, OF inv pair u]
  show ?thesis using d(1,4) w by (auto simp: decision_defs moved_defs)
qed

lemma expire_attempt_quiet:
  assumes inv: "orderly db" and pair: "loaded_pair db a p"
    and call: "expireLobbyAttempt scope s i a p code now db = Inr db'"
  shows "quiet admits db db'"
    and "\<exists>ev. db' = append_event ev (db\<lparr>md_admissions := update_where
        (\<lambda>r. waiting_admission (tc_TenantID scope) s i r \<and> ad_ID r = ad_ID a)
        (resolve_admission AdmissionExpired None (Some code) now) (md_admissions db),
      md_participants := update_where (\<lambda>r. pa_TenantID r = tc_TenantID scope \<and> pa_SpaceID r = s \<and>
          pa_RoomID r = i \<and> pa_ID r = pa_ID p \<and> pa_UserID r = ad_UserID a \<and> pa_Status r = ParticipantWaiting)
        (time_out_participant now) (md_participants db)\<rparr>)"
proof -
  obtain db1 db2 where
    u: "update_one_admission (LobbyLifecycle LifecycleOther)
        (\<lambda>r. waiting_admission (tc_TenantID scope) s i r \<and> ad_ID r = ad_ID a)
        (resolve_admission AdmissionExpired None (Some code) now) db = Inr db1"
      "update_one_participant (LobbyLifecycle LifecycleOther)
        (\<lambda>r. pa_TenantID r = tc_TenantID scope \<and> pa_SpaceID r = s \<and> pa_RoomID r = i \<and> pa_ID r = pa_ID p \<and>
           pa_UserID r = ad_UserID a \<and> pa_Status r = ParticipantWaiting)
        (time_out_participant now) db1 = Inr db2"
    and db': "db' = appendExpiredLobbyAdmissionEvent (tc_TenantID scope) (tc_ActorID scope)
        (resolve_admission AdmissionExpired None (Some code) now a) code now db2"
    using call by (auto simp: expireLobbyAttempt_def split: if_splits)
  note d = decision_quiet[where admits = admits, OF inv pair u]
  have q: "quiet admits db db2" by (rule d(1)) (auto simp: decision_defs moved_defs)
  show "quiet admits db db'"
    unfolding db' appendExpiredLobbyAdmissionEvent_def
    by (rule quiet_trans[OF q]) (rule quiet_event[OF quiet_orderly[OF q]])
  have "db2 = db\<lparr>md_admissions := update_where
        (\<lambda>r. waiting_admission (tc_TenantID scope) s i r \<and> ad_ID r = ad_ID a)
        (resolve_admission AdmissionExpired None (Some code) now) (md_admissions db),
      md_participants := update_where (\<lambda>r. pa_TenantID r = tc_TenantID scope \<and> pa_SpaceID r = s \<and>
          pa_RoomID r = i \<and> pa_ID r = pa_ID p \<and> pa_UserID r = ad_UserID a \<and> pa_Status r = ParticipantWaiting)
        (time_out_participant now) (md_participants db)\<rparr>"
    by (rule d(4)) (auto simp: decision_defs moved_defs)
  then show "\<exists>ev. db' = append_event ev (db\<lparr>md_admissions := update_where
        (\<lambda>r. waiting_admission (tc_TenantID scope) s i r \<and> ad_ID r = ad_ID a)
        (resolve_admission AdmissionExpired None (Some code) now) (md_admissions db),
      md_participants := update_where (\<lambda>r. pa_TenantID r = tc_TenantID scope \<and> pa_SpaceID r = s \<and>
          pa_RoomID r = i \<and> pa_ID r = pa_ID p \<and> pa_UserID r = ad_UserID a \<and> pa_Status r = ParticipantWaiting)
        (time_out_participant now) (md_participants db)\<rparr>)"
    unfolding db' appendExpiredLobbyAdmissionEvent_def by blast
qed

lemma withdraw_quiet:
  assumes inv: "orderly db" and pair: "loaded_pair db a p"
    and call: "withdraw scope space room a p now db = Inr db'"
  shows "quiet admits db db'"
proof -
  obtain db1 where
    u: "update_one_admission (LobbyLifecycle ErrLifecycleUnavailable)
        (\<lambda>r. waiting_admission (tc_TenantID scope) (ms_ID space) (rm_ID room) r \<and> ad_ID r = ad_ID a)
        (resolve_admission AdmissionCancelled (Some (tc_ActorID scope)) (Some ''actor_cancelled'') now) db = Inr db1"
      "update_one_participant (LobbyLifecycle ErrLifecycleUnavailable)
        (\<lambda>r. pa_TenantID r = tc_TenantID scope \<and> pa_SpaceID r = ms_ID space \<and> pa_RoomID r = rm_ID room \<and>
            pa_ID r = pa_ID p \<and> pa_UserID r = tc_ActorID scope \<and> pa_Status r = ParticipantWaiting)
        (withdraw_participant now) db1 = Inr db'"
    using call by (auto simp: withdraw_def)
  show ?thesis by (rule decision_quiet(1)[OF inv pair u]) (auto simp: decision_defs moved_defs)
qed

subsection \<open>Reads that expire requests\<close>

lemma in_queue_order_set [simp]: "set (in_queue_order rows) = set rows"
  by (simp add: in_queue_order_def)

lemma in_queue_order_distinct: "distinct (map ad_ID (in_queue_order rows)) \<longleftrightarrow> distinct (map ad_ID rows)"
proof -
  have "mset (map ad_ID (in_queue_order rows)) = mset (map ad_ID rows)"
    by (simp only: in_queue_order_def mset_map mset_sort)
  then show ?thesis by (rule mset_eq_imp_distinct_iff)
qed

lemma expire_admissions_quiet:
  assumes "orderly db" and "expire_admissions scope s i now rows db = Inr db'"
    and "set rows \<subseteq> set (md_admissions db)" and "distinct (map ad_ID rows)"
  shows "quiet admits db db'"
  using assms
proof (induction rows arbitrary: db)
  case Nil
  then show ?case by (simp add: quiet_refl)
next
  case (Cons a rows)
  then obtain p db1 where p: "loadLobbyParticipantByAdmission db (tc_TenantID scope) s i (ad_ID a) (ad_UserID a) = Some p"
    and e: "expireLobbyAttempt scope s i a p ''wait_timeout'' now db = Inr db1"
    and r: "expire_admissions scope s i now rows db1 = Inr db'"
    by (auto split: option.splits)
  have pair: "loaded_pair db a p"
    using loadLobbyParticipantByAdmission_Some[OF p] Cons.prems(3) by (simp add: loaded_pair_def)
  note q = expire_attempt_quiet(1)[OF Cons.prems(1) pair e]
  have "set rows \<subseteq> set (md_admissions db1)"
  proof
    fix b assume b: "b \<in> set rows"
    then have "ad_ID b \<noteq> ad_ID a" using Cons.prems(4) by (auto simp: image_iff)
    with b Cons.prems(3) expire_attempt_quiet(2)[OF Cons.prems(1) pair e] show "b \<in> set (md_admissions db1)"
      by (auto simp: append_event_def intro!: update_where_untouched)
  qed
  from Cons.IH[OF quiet_orderly[OF q] r this] Cons.prems(4) quiet_trans[OF q] show ?case by simp
qed

lemma filter_distinct_ids:
  "orderly db \<Longrightarrow> distinct (map ad_ID (filter C (md_admissions db)))"
  using pairedD(1)[OF orderlyD(2)] by (auto simp: unique_index_def intro: distinct_map_filter)

lemma expireTimedOut_quiet:
  assumes "orderly db" and "expireTimedOutLobbyAdmissions scope s i now ttl db = Inr db'"
  shows "quiet admits db db'"
  using assms(2) unfolding expireTimedOutLobbyAdmissions_def
  by (rule expire_admissions_quiet[OF assms(1)])
    (auto simp: in_queue_order_distinct filter_distinct_ids[OF assms(1)])

lemma list_admissions_quiet:
  assumes "orderly db" and "ListAdmissions rp access s input now ttl db = Inr (items, db')"
  shows "quiet admits db db'"
  using assms by (auto simp: ListAdmissions_def dest: expireTimedOut_quiet)

lemma get_attempt_quiet:
  assumes inv: "orderly db" and call: "GetJoinAttempt rp access s j input now ttl db = Inr (attempt, db')"
  shows "quiet admits db db'"
proof -
  obtain scope space room where
    k: "(case loadLobbyAttemptByJoinID db (tc_TenantID scope) (ms_ID space) (rm_ID room) (tc_ActorID scope) j of
       None \<Rightarrow> Inl ErrAdmissionNotFound
     | Some (p, a) \<Rightarrow>
         if ad_Status a = AdmissionWaiting \<and> \<not> now < ad_CreatedAt a + ttl then
           try_res (lobby_unavailable (expireLobbyAttempt scope (ms_ID space) (rm_ID room) a p
               ''wait_timeout'' now db)) (\<lambda>db1.
             case loadLobbyAttemptByJoinID db1 (tc_TenantID scope) (ms_ID space) (rm_ID room) (tc_ActorID scope) j of
               None \<Rightarrow> Inl (LobbyLifecycle ErrLifecycleUnavailable)
             | Some (p', a') \<Rightarrow> Inr (projectLobbyJoinAttempt p' a' space room now ttl, db1))
         else Inr (projectLobbyJoinAttempt p a space room now ttl, db)) = Inr (attempt, db')"
    using call[unfolded GetJoinAttempt_def Let_def try_res_eq_Inr split_paired_Ex case_prod_conv] by blast
  show ?thesis
  proof (cases "loadLobbyAttemptByJoinID db (tc_TenantID scope) (ms_ID space) (rm_ID room) (tc_ActorID scope) j")
    case None
    with k show ?thesis by simp
  next
    case (Some pa)
    obtain p a where pa: "pa = (p, a)" by (cases pa)
    note pair = loadLobbyAttemptByJoinID_Some(1)[OF Some[unfolded pa]]
    from k[unfolded Some pa option.case case_prod_conv] quiet_refl[OF inv]
      expire_attempt_quiet(1)[OF inv pair]
    show ?thesis by (auto split: if_split_asm option.split_asm)
  qed
qed

subsection \<open>Decisions with their receipts\<close>

lemma receipt_quiet:
  "orderly db \<Longrightarrow> insertLobbyMutationReceipt scope operation s i key fp v now db = Inr db' \<Longrightarrow> quiet admits db db'"
  unfolding insertLobbyMutationReceipt_def by (rule quiet_receipt)

lemma decide_quiet:
  assumes "orderly db" and "loaded_pair db a p" and "decide_admission scope command a p db = Inr (ev, db')"
    and "lc_Operation command = ''admission_admit'' \<Longrightarrow> admits"
  shows "quiet admits db db'"
  using assms(3,4) admit_quiet[OF assms(1,2)] deny_quiet[OF assms(1,2)] restore_quiet[OF assms(1,2)]
  by (auto simp: decide_admission_def split: if_split_asm)

lemma admission_event_quiet:
  "orderly db \<Longrightarrow> quiet admits db (appendLobbyAdmissionEvent scope s u item ev reason now db)"
  unfolding appendLobbyAdmissionEvent_def by (rule quiet_event)

text \<open>The three ways a call of \<open>MutateAdmission\<close> comes to an end without an error of its own.\<close>

lemma MutateAdmission_cases:
  assumes "MutateAdmission rp access command db = Inr (outcome, db')"
  obtains (replayed) scope space room item where "loadModeratorLobby rp db access (lc_SpaceID command)
        (lc_ExpectedSpaceVersion command) (lc_ExpectedRoomInstanceID command)
        (lc_ExpectedRoomInstanceVersion command) = Inr (scope, space, room)"
      and "lobby_replay scope command db = Inr True" and "outcome = Inr item" and "db' = db"
  | (late) scope space room a p where "loadModeratorLobby rp db access (lc_SpaceID command)
        (lc_ExpectedSpaceVersion command) (lc_ExpectedRoomInstanceID command)
        (lc_ExpectedRoomInstanceVersion command) = Inr (scope, space, room)"
      and "lobby_replay scope command db = Inr False"
      and "loadLobbyAdmissionForMutation db (tc_TenantID scope) (lc_SpaceID command) (rm_ID room)
         (lc_AdmissionID command) = Some (a, p)"
      and "ad_Status a = AdmissionWaiting" and "too_late command a"
      and "expireLobbyAttempt scope (lc_SpaceID command) (rm_ID room) a p ''wait_timeout''
         (lc_OccurredAt command) db = Inr db'" and "outcome = Inl ErrAdmissionTransition"
  | (decided) scope space room a p eventType db1 db2 item where "loadModeratorLobby rp db access (lc_SpaceID command)
        (lc_ExpectedSpaceVersion command) (lc_ExpectedRoomInstanceID command)
        (lc_ExpectedRoomInstanceVersion command) = Inr (scope, space, room)"
      and "lobby_replay scope command db = Inr False"
      and "\<not> (lc_Operation command = ''admission_admit'' \<and> ms_Locked space)"
      and "loadLobbyAdmissionForMutation db (tc_TenantID scope) (lc_SpaceID command) (rm_ID room)
         (lc_AdmissionID command) = Some (a, p)"
      and "ad_Version a = lc_ExpectedAdmissionVersion command" and "ad_CreatedAt a \<le> lc_OccurredAt command"
      and "\<not> (ad_Status a = AdmissionWaiting \<and> too_late command a)"
      and "decide_admission scope command a p db = Inr (eventType, db1)"
      and "loadLobbyAdmissionProjection db1 (tc_TenantID scope) (lc_SpaceID command)
           (rm_ID room) (lc_AdmissionID command) (lc_AdmissionTTL command) = Some item"
      and "record_lobby_receipt scope command space room db1 = Inr db2" and "outcome = Inr item"
      and "db' = appendLobbyAdmissionEvent scope (lc_SpaceID command) (ad_UserID a)
           item eventType (lc_ReasonCode command) (lc_OccurredAt command) db2"
proof -
  from assms[unfolded MutateAdmission_def Let_def try_res_eq_Inr split_paired_Ex case_prod_conv]
  obtain scope space room found where
    m: "loadModeratorLobby rp db access (lc_SpaceID command) (lc_ExpectedSpaceVersion command)
        (lc_ExpectedRoomInstanceID command) (lc_ExpectedRoomInstanceVersion command) = Inr (scope, space, room)"
    and r: "lobby_replay scope command db = Inr found"
    and k: "(if found then (case loadLobbyAdmissionProjection db (tc_TenantID scope) (lc_SpaceID command)
           (rm_ID room) (lc_AdmissionID command) (lc_AdmissionTTL command) of
           None \<Rightarrow> Inl ErrAdmissionNotFound | Some item \<Rightarrow> Inr (Inr item, db))
     else if lc_Operation command = ''admission_admit'' \<and> ms_Locked space
       then Inl (LobbyLifecycle ErrRoomLocked)
     else case loadLobbyAdmissionForMutation db (tc_TenantID scope) (lc_SpaceID command) (rm_ID room)
         (lc_AdmissionID command) of
       None \<Rightarrow> Inl ErrAdmissionNotFound
     | Some (a, p) \<Rightarrow>
         if ad_Version a \<noteq> lc_ExpectedAdmissionVersion command then Inl ErrAdmissionVersionConflict
         else if lc_OccurredAt command < ad_CreatedAt a then Inl ErrInvalidLobbyRequest
         else if ad_Status a = AdmissionWaiting \<and> too_late command a then
           try_res (lobby_unavailable (expireLobbyAttempt scope (lc_SpaceID command) (rm_ID room) a p
               ''wait_timeout'' (lc_OccurredAt command) db)) (\<lambda>db1.
             Inr (Inl ErrAdmissionTransition, db1))
         else
           try_res (decide_admission scope command a p db) (\<lambda>(eventType, db1).
           case loadLobbyAdmissionProjection db1 (tc_TenantID scope) (lc_SpaceID command)
           (rm_ID room) (lc_AdmissionID command) (lc_AdmissionTTL command) of
             None \<Rightarrow> Inl (LobbyLifecycle ErrLifecycleUnavailable)
           | Some updated \<Rightarrow>
               try_res (record_lobby_receipt scope command space room db1) (\<lambda>db2.
                 Inr (Inr updated, appendLobbyAdmissionEvent scope (lc_SpaceID command) (ad_UserID a)
                   updated eventType (lc_ReasonCode command) (lc_OccurredAt command) db2)))) = Inr (outcome, db')"
    by blast
  show thesis
  proof (cases found)
    case True
    with k obtain item where "outcome = Inr item" "db' = db" by (auto split: option.split_asm)
    with m r True show thesis by (intro replayed) auto
  next
    case False
    show thesis
    proof (cases "loadLobbyAdmissionForMutation db (tc_TenantID scope) (lc_SpaceID command) (rm_ID room)
         (lc_AdmissionID command)")
      case None
      with k False show thesis by (simp split: if_split_asm)
    next
      case (Some ap)
      obtain a p where ap: "ap = (a, p)" by (cases ap)
      note k1 = k[unfolded Some ap option.case case_prod_conv if_not_P[OF False]]
      show thesis
      proof (cases "ad_Status a = AdmissionWaiting \<and> too_late command a")
        case True
        with k1 show thesis
          by (intro late[OF m r[unfolded eq_False[THEN iffD2, OF False]] Some[unfolded ap]])
            (auto split: if_split_asm)
      next
        case 2: False
        from k1 2 obtain eventType db1 item db2 where
          "\<not> (lc_Operation command = ''admission_admit'' \<and> ms_Locked space)"
          "ad_Version a = lc_ExpectedAdmissionVersion command" "ad_CreatedAt a \<le> lc_OccurredAt command"
          "decide_admission scope command a p db = Inr (eventType, db1)"
          "loadLobbyAdmissionProjection db1 (tc_TenantID scope) (lc_SpaceID command)
             (rm_ID room) (lc_AdmissionID command) (lc_AdmissionTTL command) = Some item"
          "record_lobby_receipt scope command space room db1 = Inr db2" "outcome = Inr item"
          "db' = appendLobbyAdmissionEvent scope (lc_SpaceID command) (ad_UserID a)
             item eventType (lc_ReasonCode command) (lc_OccurredAt command) db2"
          by (auto split: if_split_asm option.split_asm)
        then show thesis
          using 2 by (intro decided[OF m r[unfolded eq_False[THEN iffD2, OF False]] _ Some[unfolded ap]])
      qed
    qed
  qed
qed

lemma mutate_admission_quiet:
  assumes inv: "orderly db" and call: "MutateAdmission rp access command db = Inr (outcome, db')"
    and admits: "lc_Operation command = ''admission_admit'' \<Longrightarrow> admits"
  shows "quiet admits db db'"
  using call
proof (cases rule: MutateAdmission_cases)
  case replayed
  then show ?thesis using quiet_refl[OF inv] by simp
next
  case late
  then show ?thesis using expire_attempt_quiet(1)[OF inv loadLobbyAdmissionForMutation_Some(1)] by blast
next
  case (decided scope space room a p eventType db1 db2 item)
  note q1 = decide_quiet[OF inv loadLobbyAdmissionForMutation_Some(1)[OF decided(4)] decided(8) admits]
  have q2: "quiet admits db1 db2"
    using decided(10) by (auto simp: record_lobby_receipt_def intro: receipt_quiet[OF quiet_orderly[OF q1]])
  show ?thesis
    unfolding decided(12)
    by (rule quiet_trans[OF quiet_trans[OF q1 q2] admission_event_quiet[OF quiet_orderly[OF q2]]])
qed

lemma record_receipt_quiet:
  "orderly db \<Longrightarrow> record_lobby_receipt scope command space room db = Inr db' \<Longrightarrow> quiet admits db db'"
  by (auto simp: record_lobby_receipt_def intro: receipt_quiet)

lemma cancel_waiting_quiet:
  assumes inv: "orderly db" and pair: "loaded_pair db a p"
    and call: "cancel_waiting scope space room command p a db = Inr (attempt, db')"
  shows "quiet admits db db'"
proof (cases "too_late command a")
  case True
  then obtain db1 where
    e: "expireLobbyAttempt scope (lc_SpaceID command) (rm_ID room) a p ''wait_timeout''
      (lc_OccurredAt command) db = Inr db1" and r: "record_lobby_receipt scope command space room db1 = Inr db'"
    using call by (auto simp: cancel_waiting_def Let_def split: option.split_asm)
  note q = expire_attempt_quiet(1)[OF inv pair e]
  show ?thesis by (rule quiet_trans[OF q record_receipt_quiet[OF quiet_orderly[OF q] r]])
next
  case False
  then obtain db1 db2 s u item ev reason now where
    w: "withdraw scope space room a p (lc_OccurredAt command) db = Inr db1"
    and r: "record_lobby_receipt scope command space room db1 = Inr db2"
    and db': "db' = appendLobbyAdmissionEvent scope s u item ev reason now db2"
    using call by (auto simp: cancel_waiting_def Let_def split: option.split_asm)
  note q = withdraw_quiet[OF inv pair w]
  note q2 = quiet_trans[OF q record_receipt_quiet[OF quiet_orderly[OF q] r]]
  show ?thesis unfolding db' by (rule quiet_trans[OF q2 admission_event_quiet[OF quiet_orderly[OF q2]]])
qed

lemma own_attempt_Some:
  "own_attempt scope space room command db = Some (p, a) \<Longrightarrow> loaded_pair db a p"
  unfolding own_attempt_def by (rule loadLobbyAttemptByJoinID_Some(1))

lemma cancel_attempt_quiet:
  assumes inv: "orderly db" and call: "CancelJoinAttempt rp access command db = Inr (attempt, db')"
  shows "quiet admits db db'"
proof -
  from call[unfolded CancelJoinAttempt_def Let_def try_res_eq_Inr split_paired_Ex case_prod_conv if_Inl_Inr]
  obtain scope space room found where
    k: "(case own_attempt scope space room command db of None \<Rightarrow> Inl ErrAdmissionNotFound
       | Some (p, a) \<Rightarrow>
           if found then Inr (projectLobbyJoinAttempt p a space room (lc_OccurredAt command)
             (lc_AdmissionTTL command), db)
           else if ad_Version a \<noteq> lc_ExpectedAdmissionVersion command then Inl ErrAdmissionVersionConflict
           else if ad_Status a \<noteq> AdmissionWaiting \<or> pa_Status p \<noteq> ParticipantWaiting
             then Inl ErrAdmissionTransition
           else if lc_OccurredAt command < ad_CreatedAt a then Inl ErrAdmissionTransition
           else try_res (cancel_waiting scope space room command p a db) (\<lambda>(attempt, db1).
               Inr (case attempt of (p, a) \<Rightarrow> projectLobbyJoinAttempt p a space room
                 (lc_OccurredAt command) (lc_AdmissionTTL command), db1))) = Inr (attempt, db')"
    by (elim exE conjE) (rule that)
  show ?thesis
  proof (cases "own_attempt scope space room command db")
    case None
    with k show ?thesis by simp
  next
    case (Some pa)
    obtain p a where pa: "pa = (p, a)" by (cases pa)
    note pair = own_attempt_Some[OF Some[unfolded pa]]
    from k[unfolded Some pa option.case case_prod_conv] cancel_waiting_quiet[OF inv pair] quiet_refl[OF inv]
    show ?thesis by (auto split: if_split_asm)
  qed
qed

subsection \<open>Members\<close>

lemma members_quiet:
  assumes "orderly db"
  shows "quiet admits db (db\<lparr>md_members := rows\<rparr>)"
  using media_invD(5)[OF orderlyD(1)[OF assms]] by (intro quiet_frame[OF assms]) simp_all

lemma member_event_quiet:
  "orderly db \<Longrightarrow> quiet admits db (appendLobbyMemberEvent scope s item ev reason now db)"
  unfolding appendLobbyMemberEvent_def by (rule quiet_event)

lemma invited_rows:
  "(case x of None \<Rightarrow> insert_member m db | Some e \<Rightarrow> if P e then Inl er else Inr db) = Inr db1 \<Longrightarrow>
     db1 = db \<or> (\<exists>rows. db1 = db\<lparr>md_members := rows\<rparr>)"
  by (auto simp: insert_member_def split: option.split_asm if_split_asm)

lemma invite_quiet:
  assumes inv: "orderly db" and call: "InviteMember rp access command db = Inr (member, db')"
  shows "quiet admits db db'"
proof -
  have step: "quiet admits db (appendLobbyMemberEvent scope s item ev reason now db2)"
    if "db1 = db \<or> (\<exists>rows. db1 = db\<lparr>md_members := rows\<rparr>)"
      "insertLobbyMutationReceipt scope operation s i key fp v now db1 = Inr db2"
    for db1 db2 scope s item ev reason now operation i key fp v
  proof -
    have q: "quiet admits db db1" using that(1) members_quiet[OF inv] quiet_refl[OF inv] by auto
    note q2 = receipt_quiet[OF quiet_orderly[OF q] that(2)]
    show ?thesis by (rule quiet_trans[OF quiet_trans[OF q q2] member_event_quiet[OF quiet_orderly[OF q2]]])
  qed
  from call[unfolded InviteMember_def Let_def try_res_eq_Inr None_Inl_Inr if_Inl_Inr split_paired_Ex case_prod_conv]
    quiet_refl[OF inv] show ?thesis
    by (auto simp: None_Inl_Inr split: if_split_asm dest!: invited_rows intro: step)
qed

lemma remove_member_effect:
  fixes db :: "'c media_db"
  assumes inv: "orderly db" and call: "removeLobbyMemberParticipants scope s i u now db = Inr db'"
  obtains hands rooms where "db' = db\<lparr>md_admissions := update_where
      (\<lambda>r. waiting_admission (tc_TenantID scope) s i r \<and> ad_UserID r = u)
      (resolve_admission AdmissionDenied (Some (tc_ActorID scope)) (Some ''member_revoked'') now) (md_admissions db),
    md_participants := update_where (\<lambda>r. user_in_room (tc_TenantID scope) s i u r \<and> participant_active r)
      (remove_participant (tc_ActorID scope) now) (md_participants db), md_hands := hands, md_rooms := rooms\<rparr>"
    and "admissions_ok (md_admissions db')" and "participants_ok (md_participants db')"
    and "rooms_ok rooms" and "rooms_same (md_rooms db) rooms"
proof -
  let ?P = "\<lambda>r. user_in_room (tc_TenantID scope) s i u r \<and> participant_active r"
  obtain as ps hands where as: "as = update_where
      (\<lambda>r. waiting_admission (tc_TenantID scope) s i r \<and> ad_UserID r = u)
      (resolve_admission AdmissionDenied (Some (tc_ActorID scope)) (Some ''member_revoked'') now) (md_admissions db)"
    "ps = update_where ?P (remove_participant (tc_ActorID scope) now) (md_participants db)"
    and ok: "admissions_ok as" "participants_ok ps"
    and k: "(if count_where ?P (md_participants db) = 0
        then Inr (db\<lparr>md_admissions := as, md_participants := ps, md_hands := hands\<rparr>)
        else advanceMediaRosterProjection (tc_TenantID scope) s i
          (db\<lparr>md_admissions := as, md_participants := ps, md_hands := hands\<rparr>)) = Inr db'"
    using call unfolding removeLobbyMemberParticipants_def Let_def try_res_eq_Inr constrained_Inr by blast
  show thesis
  proof (cases "count_where ?P (md_participants db) = 0")
    case True
    with k ok as media_invD(2)[OF orderlyD(1)[OF inv]] show thesis
      by (intro that[where hands=hands and rooms="md_rooms db"]) auto
  next
    case False
    with k have "advanceMediaRosterProjection (tc_TenantID scope) s i
          (db\<lparr>md_admissions := as, md_participants := ps, md_hands := hands\<rparr>) = Inr db'" by simp
    from advance_Inr[OF this] ok as media_invD(2)[OF orderlyD(1)[OF inv]] show thesis
      by (auto intro: that[where hands=hands])
  qed
qed

lemma remove_member_quiet:
  assumes inv: "orderly db"
    and call: "removeLobbyMemberParticipants scope s i u now db = Inr db'"
  shows "quiet admits db db'"
proof -
  let ?t = "tc_TenantID scope"
  let ?Q = "\<lambda>r. waiting_admission ?t s i r \<and> ad_UserID r = u"
  let ?g = "resolve_admission AdmissionDenied (Some (tc_ActorID scope)) (Some ''member_revoked'') now"
  let ?P = "\<lambda>r. user_in_room ?t s i u r \<and> participant_active r"
  let ?f = "remove_participant (tc_ActorID scope) now"
  obtain hands rooms where db': "db' = db\<lparr>md_admissions := update_where ?Q ?g (md_admissions db),
      md_participants := update_where ?P ?f (md_participants db), md_hands := hands, md_rooms := rooms\<rparr>"
    and ok: "admissions_ok (md_admissions db')" "participants_ok (md_participants db')"
      "rooms_ok rooms" "rooms_same (md_rooms db) rooms"
    by (rule remove_member_effect[OF inv call])
  show ?thesis
  proof (rule quiet_change[OF inv])
    show "participant_moved p (?f p)" if "?P p" for p
      using that by (cases "pa_Status p") (simp_all add: moved_defs remove_participant_def participant_active_def)
    show "admission_moved a (?g a)" if "?Q a" for a
      using that by (simp add: moved_defs decision_defs)
    show admits if "let_in (?f p)" for p using that by (simp add: let_in_def remove_participant_def)
    show "agree (where_changed ?P ?f p) (where_changed ?Q ?g a)" if l: "linked p a" "agree p a" for p a
    proof -
      have act: "participant_active p \<longleftrightarrow> pa_Status p = ParticipantWaiting \<or> let_in p"
        by (cases "pa_Status p") (simp_all add: participant_active_def let_in_def)
      show ?thesis
      proof (cases "user_in_room ?t s i u p")
        case True
        with l(1) have Q: "?Q a \<longleftrightarrow> ad_Status a = AdmissionWaiting"
          by (auto simp: linked_def waiting_admission_def user_in_room_def)
        show ?thesis
          using l(2) act True unfolding where_changed_def Q
          by (cases "ad_Status a = AdmissionWaiting"; cases "participant_active p")
            (simp_all add: agree_def let_in_def remove_participant_def resolve_admission_def)
      next
        case False
        with l(1) have "\<not> ?Q a" by (auto simp: linked_def waiting_admission_def user_in_room_def)
        with False l(2) show ?thesis by (auto simp: where_changed_def)
      qed
    qed
  qed (use ok in \<open>simp_all add: db'\<close>)
qed

lemma restored_rejoin_quiet:
  assumes inv: "orderly db" and ok: "participants_ok (update_where
      (\<lambda>p. user_in_room t s i u p \<and> pa_Status p = ParticipantRemoved \<and> pa_RejoinRestoredAt p = None)
      (restore_participant actor now) (md_participants db))"
  shows "quiet admits db (db\<lparr>md_participants := update_where
      (\<lambda>p. user_in_room t s i u p \<and> pa_Status p = ParticipantRemoved \<and> pa_RejoinRestoredAt p = None)
      (restore_participant actor now) (md_participants db)\<rparr>)" (is "quiet admits db ?db'")
proof (rule quiet_change[OF inv, where Q="\<lambda>_. False" and g=id])
  show "md_admissions ?db' = update_where (\<lambda>_. False) id (md_admissions db)" by (simp add: update_where_none)
qed (use media_invD[OF orderlyD(1)[OF inv]] ok in \<open>auto simp: moved_defs restore_participant_def where_changed_def\<close>)

lemma change_member_quiet:
  assumes inv: "orderly db" and call: "change_member scope room command member db = Inr (next, db')"
  shows "quiet admits db db'"
proof -
  have step: "quiet admits db db'" if "update_one_member P f db = Inr db1" "quiet admits db1 db'" for P f db1
    using that quiet_trans[OF members_quiet[OF inv]] by (auto simp: update_one_member_def split: if_split_asm)
  have o: "orderly db1" if "update_one_member P f db = Inr db1" for P f db1
    using that quiet_orderly[OF members_quiet[OF inv]] by (auto simp: update_one_member_def split: if_split_asm)
  show ?thesis
    using call
    by (auto simp: change_member_def revoke_member_def restore_member_def Let_def split: if_split_asm option.split_asm
        intro!: step intro: quiet_refl o remove_member_quiet restored_rejoin_quiet)
qed

lemma mutate_member_quiet:
  assumes inv: "orderly db" and call: "MutateMember rp access command db = Inr (member, db')"
  shows "quiet admits db db'"
proof -
  have step: "quiet admits db (appendLobbyMemberEvent scope s item ev reason now db2)"
    if "change_member scope room command m db = Inr (nx, db1)"
      "insertLobbyMutationReceipt scope operation s i key fp v now db1 = Inr db2"
    for db1 db2 scope s item ev reason now operation i key fp v room m nx
  proof -
    note q = change_member_quiet[OF inv that(1)]
    note q2 = receipt_quiet[OF quiet_orderly[OF q] that(2)]
    show ?thesis by (rule quiet_trans[OF quiet_trans[OF q q2] member_event_quiet[OF quiet_orderly[OF q2]]])
  qed
  from call[unfolded MutateMember_def Let_def try_res_eq_Inr None_Inl_Inr if_Inl_Inr split_paired_Ex case_prod_conv]
    quiet_refl[OF inv] show ?thesis
    by (auto simp: None_Inl_Inr split: if_split_asm intro: step)
qed

end
