(* ===== verification/Media_Moderation_Service.thy ===== *)
theory Media_Moderation_Service imports Media_Moderation Go_Strings begin

section \<open>The moderation service (modules/media/moderation\_service.go)\<close>

text \<open>
  A command is checked, fingerprinted and applied; then the service claims the effect of the
  command, calls the provider and records the outcome.  These are three transactions and one call,
  and other transactions may run between them: the functions \<open>claimed_from\<close> and \<open>completed_from\<close>
  are what they make of the database.  SHA-256 and the provider are parameters; the calls made to
  the provider are part of the outcome.
\<close>

subsection \<open>Requests\<close>

record lock_input =
  li_Expected :: moderation_versions
  li_IdempotencyKey :: string
  li_Locked :: bool
  li_ReasonCode :: string

record role_input =
  ci_Expected :: moderation_versions
  ci_RoleKey :: string
  ci_DesiredRole :: "instance_role option"
  ci_RoleReason :: string

record participant_input =
  pi_Expected :: moderation_versions
  pi_IdempotencyKey :: string
  pi_ReasonCode :: string

definition providerModerationLease :: duration where
  "providerModerationLease = 30 * time_Second"

text \<open>The pattern of a key and of a reason, as in the lifecycle service.\<close>

definition moderationIdempotencyPattern :: "string \<Rightarrow> bool" where
  "moderationIdempotencyPattern = mediaIdempotencyPattern"

definition moderationReasonPattern :: "string \<Rightarrow> bool" where
  "moderationReasonPattern = mediaReasonCodePattern"

text \<open>The command of a request, before the service fills in its time and its fingerprint.\<close>

definition moderation_request ::
  "moderation_operation \<Rightarrow> uuid \<Rightarrow> uuid \<Rightarrow> moderation_versions \<Rightarrow> string \<Rightarrow> instance_role option \<Rightarrow>
   string \<Rightarrow> moderation_command" where
  "moderation_request operation spaceID participantKey expected key role reason =
     \<lparr>mo_Operation = operation, mo_SpaceID = spaceID, mo_ParticipantKey = participantKey,
      mo_Expected = expected, mo_IdempotencyKey = key, mo_DesiredRole = role, mo_ReasonCode = reason,
      mo_Fingerprint = [], mo_OccurredAt = 0\<rparr>"

definition lock_request :: "uuid \<Rightarrow> lock_input \<Rightarrow> moderation_command" where
  "lock_request spaceID i = moderation_request (if li_Locked i then ModerationLock else ModerationUnlock)
     spaceID uuid_Nil (li_Expected i) (li_IdempotencyKey i) None (li_ReasonCode i)"

definition role_request :: "uuid \<Rightarrow> uuid \<Rightarrow> role_input \<Rightarrow> moderation_command" where
  "role_request spaceID participantKey i = moderation_request
     (if ci_DesiredRole i = Some InstanceRoleCoHost then ModerationPromote else ModerationDemote)
     spaceID participantKey (ci_Expected i) (ci_RoleKey i) (ci_DesiredRole i) (ci_RoleReason i)"

definition mute_request :: "uuid \<Rightarrow> uuid \<Rightarrow> participant_input \<Rightarrow> moderation_command" where
  "mute_request spaceID participantKey i = moderation_request ModerationMute spaceID participantKey
     (pi_Expected i) (pi_IdempotencyKey i) None (pi_ReasonCode i)"

definition remove_request :: "uuid \<Rightarrow> uuid \<Rightarrow> participant_input \<Rightarrow> moderation_command" where
  "remove_request spaceID participantKey i = moderation_request ModerationRemove spaceID participantKey
     (pi_Expected i) (pi_IdempotencyKey i) None (pi_ReasonCode i)"

definition operation_shape :: "moderation_command \<Rightarrow> bool" where
  "operation_shape c = (case mo_Operation c of
      ModerationLock \<Rightarrow> mo_ParticipantKey c = uuid_Nil \<and> mo_DesiredRole c = None
    | ModerationUnlock \<Rightarrow> mo_ParticipantKey c = uuid_Nil \<and> mo_DesiredRole c = None
    | ModerationPromote \<Rightarrow> mo_ParticipantKey c \<noteq> uuid_Nil \<and> mo_DesiredRole c = Some InstanceRoleCoHost
    | ModerationDemote \<Rightarrow> mo_ParticipantKey c \<noteq> uuid_Nil \<and> mo_DesiredRole c = Some InstanceRoleAttendee
    | ModerationMute \<Rightarrow> mo_ParticipantKey c \<noteq> uuid_Nil \<and> mo_DesiredRole c = None
    | ModerationRemove \<Rightarrow> mo_ParticipantKey c \<noteq> uuid_Nil \<and> mo_DesiredRole c = None)"

definition validModerationCommand :: "access_context \<Rightarrow> moderation_command \<Rightarrow> bool" where
  "validModerationCommand access c \<longleftrightarrow> ac_TenantID access \<noteq> uuid_Nil \<and> ac_ActorID access \<noteq> uuid_Nil \<and>
     ac_SessionID access \<noteq> uuid_Nil \<and> mo_SpaceID c \<noteq> uuid_Nil \<and>
     mv_RoomInstanceID (mo_Expected c) \<noteq> uuid_Nil \<and> 1 \<le> mv_SpaceVersion (mo_Expected c) \<and>
     1 \<le> mv_RoomVersion (mo_Expected c) \<and> 1 \<le> mv_ProjectionVersion (mo_Expected c) \<and>
     moderationIdempotencyPattern (mo_IdempotencyKey c) \<and>
     (mo_ReasonCode c = [] \<or> moderationReasonPattern (mo_ReasonCode c)) \<and> operation_shape c"

fun role_string :: "instance_role option \<Rightarrow> string" where
  "role_string None = ''''"
| "role_string (Some InstanceRoleHost) = ''host''"
| "role_string (Some InstanceRoleCoHost) = ''co_host''"
| "role_string (Some InstanceRoleTeachingAssistant) = ''teaching_assistant''"
| "role_string (Some InstanceRoleAttendee) = ''attendee''"

text \<open>The text that is hashed: its parts are separated by a zero byte.\<close>

definition moderation_preimage :: "moderation_command \<Rightarrow> string" where
  "moderation_preimage c = join_with [CHR 0x00] [''media.moderation.v1'', operation_string (mo_Operation c),
     uuid_String (mo_SpaceID c), uuid_String (mo_ParticipantKey c),
     uuid_String (mv_RoomInstanceID (mo_Expected c)), itoa (mv_SpaceVersion (mo_Expected c)),
     itoa (mv_RoomVersion (mo_Expected c)), itoa (mv_ProjectionVersion (mo_Expected c)),
     role_string (mo_DesiredRole c), mo_ReasonCode c]"

definition moderationFingerprint :: "(string \<Rightarrow> string) \<Rightarrow> moderation_command \<Rightarrow> string" where
  "moderationFingerprint sha256 c = sha256 (moderation_preimage c)"

subsection \<open>The provider\<close>

text \<open>\<open>ParticipantModerationProvider\<close> and the deletion of a room by \<open>RoomProvider\<close>.\<close>

datatype provider_call =
  MuteParticipantMicrophone string string | RemoveParticipantCall string string | DeleteRoom string

datatype provider_failure =
  ProviderInvalidRequest | ProviderInvalidResponse | ProviderInvalidModeration | ProviderFailed

definition applyProviderEffect ::
  "(provider_call \<Rightarrow> provider_failure option) \<Rightarrow> moderation_effect \<Rightarrow>
   provider_call list \<times> provider_failure option" where
  "applyProviderEffect provider effect =
     (let call = (\<lambda>c. ([c], provider c)) in
      if mf_Operation effect = ''participant_mute''
        then call (MuteParticipantMicrophone (mf_RoomName effect) (mf_ParticipantIdentity effect))
      else if mf_Operation effect \<in> {''participant_promote'', ''participant_demote'', ''participant_remove''}
        then call (RemoveParticipantCall (mf_RoomName effect) (mf_ParticipantIdentity effect))
      else ([], Some ProviderInvalidModeration))"

fun classifyModerationProviderError :: "provider_failure \<Rightarrow> provider_effect_status \<times> string" where
  "classifyModerationProviderError ProviderFailed = (ProviderEffectRetryableFailed, ''provider_unavailable'')"
| "classifyModerationProviderError _ = (ProviderEffectPermanentFailed, ''provider_invalid_response'')"

definition effect_outcome :: "provider_failure option \<Rightarrow> provider_effect_status \<times> string" where
  "effect_outcome failure = (case failure of None \<Rightarrow> (ProviderEffectApplied, [])
     | Some e \<Rightarrow> classifyModerationProviderError e)"

fun normalizeModerationError :: "moderation_error \<Rightarrow> moderation_error" where
  "normalizeModerationError (ModerationLifecycle e) =
     (if e \<in> {ErrRoomNotOpen, ErrSpaceNotFound, ErrSourceUnavailable} then ModerationLifecycle e
      else ErrModerationUnavailable)"
| "normalizeModerationError e = e"

subsection \<open>The service\<close>

record 'c moderation_service =
  ps_Repository :: "'c lifecycle_repository"
  ps_Sha256 :: "string \<Rightarrow> string"
  ps_Provider :: "provider_call \<Rightarrow> provider_failure option"

text \<open>The clocks: of the service, of the database, and of the service after the provider's answer.\<close>

record moderation_times =
  pt_Now :: instant
  pt_Accepted :: instant
  pt_Completed :: instant

text \<open>Claiming and carrying out the effect of a command that has been applied.\<close>

definition drive_effect ::
  "'c moderation_service \<Rightarrow> access_context \<Rightarrow> string \<Rightarrow> moderation_times \<Rightarrow> moderation_result \<Rightarrow>
   ('c media_db \<Rightarrow> 'c media_db) \<Rightarrow> 'c media_db \<Rightarrow>
   (moderation_error + moderation_result) \<times> provider_call list \<times> 'c media_db" where
  "drive_effect ps access key clk result completed_from db =
     (case ClaimProviderModerationEffect access key (pt_Now clk) providerModerationLease db of
        Inl (e, _) \<Rightarrow> (Inl (normalizeModerationError e), [], db)
      | Inr ((effect, status, claimed), db1) \<Rightarrow>
          if \<not> claimed then
            (Inr (result\<lparr>mw_ProviderEffectStatus := publicProviderEffectStatus status\<rparr>), [], db1)
          else
            let (calls, failure) = applyProviderEffect (ps_Provider ps) effect;
                (completed, code) = effect_outcome failure;
                db2 = completed_from db1 in
            (case CompleteProviderModerationEffect access key (mf_Attempt effect) completed code
                (pt_Completed clk) db2 of
               Inl (e, _) \<Rightarrow> (Inl (normalizeModerationError e), calls, db2)
             | Inr (recorded, db3) \<Rightarrow>
                 (Inr (result\<lparr>mw_ProviderEffectStatus := recorded\<rparr>), calls, db3)))"

definition effect_settled :: "provider_effect_status \<Rightarrow> bool" where
  "effect_settled status \<longleftrightarrow>
     status \<in> {ProviderEffectNone, ProviderEffectApplied, ProviderEffectPermanentFailed}"

text \<open>The command with its reason trimmed, its time and its fingerprint.\<close>

definition stamped_command ::
  "(string \<Rightarrow> string) \<Rightarrow> instant \<Rightarrow> moderation_command \<Rightarrow> moderation_command" where
  "stamped_command sha256 now request =
     (let c = request\<lparr>mo_ReasonCode := trim_space (mo_ReasonCode request), mo_OccurredAt := now\<rparr>
      in c\<lparr>mo_Fingerprint := moderationFingerprint sha256 c\<rparr>)"

definition apply_moderation ::
  "'c moderation_service \<Rightarrow> access_context \<Rightarrow> moderation_times \<Rightarrow> ('c media_db \<Rightarrow> 'c media_db) \<Rightarrow>
   ('c media_db \<Rightarrow> 'c media_db) \<Rightarrow> moderation_command \<Rightarrow> 'c media_db \<Rightarrow>
   (moderation_error + moderation_result) \<times> provider_call list \<times> 'c media_db" where
  "apply_moderation ps access clk claimed_from completed_from request db =
     (let command = stamped_command (ps_Sha256 ps) (pt_Now clk) request in
      if \<not> validModerationCommand access command then (Inl ErrInvalidModerationRequest, [], db)
      else case ApplyModeration (ps_Repository ps) access command (pt_Accepted clk) db of
        Inl e \<Rightarrow> (Inl (normalizeModerationError e), [], db)
      | Inr (result, db1) \<Rightarrow>
          if effect_settled (mw_ProviderEffectStatus result) then (Inr result, [], db1)
          else drive_effect ps access (mo_IdempotencyKey command) clk result completed_from
            (claimed_from db1))"

definition SetLocked ::
  "'c moderation_service \<Rightarrow> access_context \<Rightarrow> moderation_times \<Rightarrow> ('c media_db \<Rightarrow> 'c media_db) \<Rightarrow>
   ('c media_db \<Rightarrow> 'c media_db) \<Rightarrow> uuid \<Rightarrow> lock_input \<Rightarrow> 'c media_db \<Rightarrow>
   (moderation_error + moderation_result) \<times> provider_call list \<times> 'c media_db" where
  "SetLocked ps access clk f g spaceID i = apply_moderation ps access clk f g (lock_request spaceID i)"

definition ChangeParticipantRole ::
  "'c moderation_service \<Rightarrow> access_context \<Rightarrow> moderation_times \<Rightarrow> ('c media_db \<Rightarrow> 'c media_db) \<Rightarrow>
   ('c media_db \<Rightarrow> 'c media_db) \<Rightarrow> uuid \<Rightarrow> uuid \<Rightarrow> role_input \<Rightarrow> 'c media_db \<Rightarrow>
   (moderation_error + moderation_result) \<times> provider_call list \<times> 'c media_db" where
  "ChangeParticipantRole ps access clk f g spaceID participantKey i =
     apply_moderation ps access clk f g (role_request spaceID participantKey i)"

definition MuteParticipant ::
  "'c moderation_service \<Rightarrow> access_context \<Rightarrow> moderation_times \<Rightarrow> ('c media_db \<Rightarrow> 'c media_db) \<Rightarrow>
   ('c media_db \<Rightarrow> 'c media_db) \<Rightarrow> uuid \<Rightarrow> uuid \<Rightarrow> participant_input \<Rightarrow> 'c media_db \<Rightarrow>
   (moderation_error + moderation_result) \<times> provider_call list \<times> 'c media_db" where
  "MuteParticipant ps access clk f g spaceID participantKey i =
     apply_moderation ps access clk f g (mute_request spaceID participantKey i)"

definition RemoveParticipant ::
  "'c moderation_service \<Rightarrow> access_context \<Rightarrow> moderation_times \<Rightarrow> ('c media_db \<Rightarrow> 'c media_db) \<Rightarrow>
   ('c media_db \<Rightarrow> 'c media_db) \<Rightarrow> uuid \<Rightarrow> uuid \<Rightarrow> participant_input \<Rightarrow> 'c media_db \<Rightarrow>
   (moderation_error + moderation_result) \<times> provider_call list \<times> 'c media_db" where
  "RemoveParticipant ps access clk f g spaceID participantKey i =
     apply_moderation ps access clk f g (remove_request spaceID participantKey i)"

end
