(* ===== verification/Media_Convergence.thy ===== *)
theory Media_Convergence
  imports Media_Moderation_Service "HOL-Library.Option_ord" "HOL-Library.List_Lexorder" "HOL-Library.Char_ord"
begin

section \<open>The reconciler (modules/media/provider\_effect\_reconciler.go, postgres\_provider\_effect\_repository.go)\<close>

text \<open>
  Effects at the provider that nobody has carried out, because a caller went away or the provider
  failed, are picked up in the background: the oldest receipt is leased, the provider is called,
  and the outcome is recorded under the attempt that was leased.  Keys are compared by their bytes.
\<close>

datatype reconcile_error = ErrProviderEffectReconcileUnavailable

record durable_effect =
  de_TenantID :: uuid
  de_OriginalActorID :: uuid
  de_SpaceID :: uuid
  de_IdempotencyKey :: string
  de_Operation :: string
  de_Attempt :: int
  de_RoomName :: string
  de_ParticipantIdentity :: string

subsection \<open>The repository\<close>

definition outstanding_effect :: "instant \<Rightarrow> receipt_row \<Rightarrow> bool" where
  "outstanding_effect now r \<longleftrightarrow> rc_EffectRequired r \<and>
     rc_Operation r \<in> {''end'', ''participant_promote'', ''participant_demote'', ''participant_mute'',
       ''participant_remove''} \<and> claimable_effect now r"

text \<open>\<open>ORDER BY provider_effect_updated_at NULLS FIRST, created_at, tenant_id, idempotency_key\<close>.\<close>

definition in_effect_order :: "receipt_row list \<Rightarrow> receipt_row list" where
  "in_effect_order rows = sort_key rc_EffectUpdatedAt (sort_key rc_CreatedAt (sort_key rc_TenantID
     (sort_key rc_IdempotencyKey rows)))"

definition same_receipt :: "receipt_row \<Rightarrow> receipt_row \<Rightarrow> bool" where
  "same_receipt candidate r \<longleftrightarrow> receipt_key r = receipt_key candidate \<and>
     rc_SpaceID r = rc_SpaceID candidate \<and> rc_Operation r = rc_Operation candidate"

text \<open>Names that the joins do not find are empty.\<close>

definition durable_effect_of :: "'c media_db \<Rightarrow> receipt_row \<Rightarrow> durable_effect" where
  "durable_effect_of db r = \<lparr>de_TenantID = rc_TenantID r, de_OriginalActorID = rc_ActorID r,
     de_SpaceID = rc_SpaceID r, de_IdempotencyKey = rc_IdempotencyKey r, de_Operation = rc_Operation r,
     de_Attempt = rc_EffectAttempts r + 1,
     de_RoomName = (case receipt_room db r of None \<Rightarrow> [] | Some room \<Rightarrow> rm_ProviderRoomName room),
     de_ParticipantIdentity = (case receipt_target db r of None \<Rightarrow> [] | Some p \<Rightarrow> pa_ProviderIdentity p)\<rparr>"

definition ClaimNextProviderEffect ::
  "instant \<Rightarrow> duration \<Rightarrow> 'c media_db \<Rightarrow> reconcile_error + durable_effect option \<times> 'c media_db" where
  "ClaimNextProviderEffect now lease db =
     (if lease \<le> 0 then Inl ErrProviderEffectReconcileUnavailable
      else case in_effect_order (filter (outstanding_effect now) (md_receipts db)) of
        [] \<Rightarrow> Inr (None, db)
      | candidate # _ \<Rightarrow>
          try_res (constrained receipts_ok ErrProviderEffectReconcileUnavailable (update_where
              (same_receipt candidate) (claim_effect (rc_EffectAttempts candidate + 1) (now + lease) now)
              (md_receipts db))) (\<lambda>rows.
            Inr (Some (durable_effect_of db candidate), db\<lparr>md_receipts := rows\<rparr>)))"

fun validDurableProviderCompletion :: "provider_effect_status \<Rightarrow> string \<Rightarrow> bool" where
  "validDurableProviderCompletion ProviderEffectApplied code \<longleftrightarrow> code = []"
| "validDurableProviderCompletion ProviderEffectRetryableFailed code \<longleftrightarrow> code = ''provider_unavailable''"
| "validDurableProviderCompletion ProviderEffectPermanentFailed code \<longleftrightarrow> code = ''provider_invalid_response''"
| "validDurableProviderCompletion _ code \<longleftrightarrow> False"

definition durable_attempt :: "durable_effect \<Rightarrow> receipt_row \<Rightarrow> bool" where
  "durable_attempt effect r \<longleftrightarrow> rc_TenantID r = de_TenantID effect \<and>
     rc_ActorID r = de_OriginalActorID effect \<and> rc_SpaceID r = de_SpaceID effect \<and>
     rc_IdempotencyKey r = de_IdempotencyKey effect \<and> rc_Operation r = de_Operation effect \<and>
     rc_EffectRequired r \<and> rc_EffectStatus r = ProviderEffectApplying \<and>
     rc_EffectAttempts r = de_Attempt effect"

definition CompleteProviderEffect ::
  "durable_effect \<Rightarrow> provider_effect_status \<Rightarrow> string \<Rightarrow> instant \<Rightarrow> 'c media_db \<Rightarrow>
   reconcile_error + 'c media_db" where
  "CompleteProviderEffect effect status code now db =
     (if de_TenantID effect = uuid_Nil \<or> de_OriginalActorID effect = uuid_Nil \<or>
         de_SpaceID effect = uuid_Nil \<or> de_IdempotencyKey effect = [] \<or> de_Operation effect = [] \<or>
         de_Attempt effect < 1 \<or> \<not> validDurableProviderCompletion status code
      then Inl ErrProviderEffectReconcileUnavailable
      else
        try_res (constrained receipts_ok ErrProviderEffectReconcileUnavailable (update_where
            (durable_attempt effect) (complete_effect status code now) (md_receipts db))) (\<lambda>rows.
          if count_where (durable_attempt effect) (md_receipts db) \<noteq> 1
            then Inl ErrProviderEffectReconcileUnavailable
          else Inr (db\<lparr>md_receipts := rows\<rparr>)))"

subsection \<open>One round\<close>

definition reconciler_apply ::
  "(provider_call \<Rightarrow> provider_failure option) \<Rightarrow> durable_effect \<Rightarrow>
   provider_call list \<times> provider_failure option" where
  "reconciler_apply provider effect =
     (let call = (\<lambda>c. ([c], provider c)); name = de_RoomName effect;
          identity = de_ParticipantIdentity effect in
      if \<not> opaqueProviderRoomNamePattern name then ([], Some ProviderInvalidResponse)
      else if de_Operation effect = ''end'' then call (DeleteRoom name)
      else if de_Operation effect = ''participant_mute'' then
        (if identity = [] then ([], Some ProviderInvalidResponse)
         else call (MuteParticipantMicrophone name identity))
      else if de_Operation effect \<in> {''participant_promote'', ''participant_demote'', ''participant_remove''} then
        (if identity = [] then ([], Some ProviderInvalidResponse)
         else call (RemoveParticipantCall name identity))
      else ([], Some ProviderInvalidModeration))"

text \<open>
  \<open>completed_from\<close> is what other transactions make of the database while the provider is called;
  the outcome says whether an effect was claimed, and lists the calls to the provider.
\<close>

definition ReconcileOnce ::
  "(provider_call \<Rightarrow> provider_failure option) \<Rightarrow> instant \<Rightarrow> instant \<Rightarrow> ('c media_db \<Rightarrow> 'c media_db) \<Rightarrow>
   'c media_db \<Rightarrow> (reconcile_error + bool) \<times> provider_call list \<times> 'c media_db" where
  "ReconcileOnce provider now completedAt completed_from db =
     (case ClaimNextProviderEffect now providerModerationLease db of
        Inl e \<Rightarrow> (Inl e, [], db)
      | Inr (None, db1) \<Rightarrow> (Inr False, [], db1)
      | Inr (Some effect, db1) \<Rightarrow>
          let (calls, failure) = reconciler_apply provider effect;
              (status, code) = effect_outcome failure;
              db2 = completed_from db1 in
          (case CompleteProviderEffect effect status code completedAt db2 of
             Inl e \<Rightarrow> (Inl e, calls, db2)
           | Inr db3 \<Rightarrow> (Inr True, calls, db3)))"

text \<open>
  Rounds one after the other, at the given times of claim and completion, with nothing in between: all
  the calls they make to the provider, in order, and the database they leave.
\<close>

fun reconcile_rounds ::
  "(provider_call \<Rightarrow> provider_failure option) \<Rightarrow> (instant \<times> instant) list \<Rightarrow> 'c media_db \<Rightarrow>
   provider_call list \<times> 'c media_db" where
  "reconcile_rounds provider [] db = ([], db)"
| "reconcile_rounds provider ((now, completedAt) # rounds) db =
     (let (_, calls, db1) = ReconcileOnce provider now completedAt id db;
          (more, db2) = reconcile_rounds provider rounds db1
      in (calls @ more, db2))"

end
