(* ===== verification/Media_Moderation_Sound.thy ===== *)
theory Media_Moderation_Sound imports Media_Attendees Media_Convergence begin

section \<open>Moderation keeps the invariants\<close>

text \<open>
  Every command of the moderation repository and of the reconciler's, the removal of a participant and the lock of a room
  included, leaves the lifecycle of the spaces alone, keeps the invariant of the tables and the
  pairing of participants with their requests, and forgets nothing (\<open>quiet\<close>).
\<close>

subsection \<open>The lock\<close>

lemma quiet_space:
  assumes inv: "orderly db" and row: "row \<in> set (md_spaces db)"
    and f: "next_version f" "ms_Status (f row) = ms_Status row"
    and db': "db' = db\<lparr>md_spaces := set_space row f (md_spaces db)\<rparr>" and ok: "spaces_ok (md_spaces db')"
  shows "quiet admits db db'"
proof -
  note media = orderlyD(1)[OF inv]
  have load: "loadSpace db' t s = (if t = ms_TenantID row \<and> s = ms_ID row then Some (f row) else loadSpace db t s)" for t s
    by (subst loadSpace_set_space[OF _ media_invD(1)[OF media] row next_version_ID[OF f(1)]]) (simp_all add: db')
  have rooms: "rooms_of db' t s = rooms_of db t s" for t s by (simp add: rooms_of_def db')
  note here = loadSpace_member[OF media_invD(1)[OF media] row]
  have l: "lifecycle_of db' = lifecycle_of db"
    by (auto simp: lifecycle_of_def fun_eq_iff load rooms here f(2))
  have "lifecycle_step (lifecycle_of db) (lifecycle_of db') \<and> media_inv db'"
  proof (rule media_inv_step[OF media])
    show "lifecycle_step (lifecycle_of db) (lifecycle_of db')" unfolding l by (rule lifecycle_step.stay)
    show "media_tables_ok db'" using media_invD(2-5)[OF media] ok by (simp add: media_tables_ok_def db')
    show "numbered db'" using media_invD(7)[OF media] by (simp add: numbered_def rooms)
    show "housed db'" using media_invD(8)[OF media] by (auto simp: housed_def rooms load)
    show "attended db'" using media_invD(9)[OF media] by (simp add: attended_def db')
  qed
  moreover have "remembered db db'"
    by (rule remembered_set_space[OF f(1) _ media_invD(1)[OF media] row]) (simp_all add: db')
  moreover have "attends admits db db'" by (rule attends_same) (simp add: attendance_of_def db')
  ultimately show ?thesis using l orderlyD(2,3)[OF inv] by (simp add: quiet_def orderly_def db')
qed

lemma update_returning_Inr:
  "update_returning ok P f rows = Inr (r', rows') \<longleftrightarrow> (\<exists>r. find P rows = Some r \<and> r' = f r \<and>
     ok (update_where P f rows) \<and> rows' = update_where P f rows)"
  by (auto simp: update_returning_def split: option.split)

lemma set_locked_quiet:
  assumes inv: "orderly db" and space: "loadSpace db (tc_TenantID scope) (ms_ID space) = Some space"
    and call: "set_locked scope space locked now db = Inr (v, db')"
  shows "quiet admits db db'"
proof (cases "ms_Locked space = locked")
  case True
  with call quiet_refl[OF inv] show ?thesis by (simp add: set_locked_def)
next
  case False
  let ?f = "lock_row (tc_ActorID scope) locked now"
  from call False obtain updated where
    "update_space (space_at scope space (ms_Version space) SpaceStatusOpen) ?f db = Inr (updated, db')"
    by (auto simp: set_locked_def update_returning_Inr update_space_def)
  from update_space_at[OF this space media_invD(1)[OF orderlyD(1)[OF inv]]]
  have ok: "spaces_ok (md_spaces db')" "db' = db\<lparr>md_spaces := set_space space ?f (md_spaces db)\<rparr>"
    by (auto simp: set_space_def)
  have m: "space \<in> set (md_spaces db)" using loadSpace_Some[OF space] by simp
  have n: "next_version ?f" "ms_Status (?f space) = ms_Status space"
    by (simp_all add: next_version_def lock_row_def space_identity_def)
  show ?thesis by (rule quiet_space[OF inv m n ok(2,1)])
qed

subsection \<open>Participants\<close>

lemma advance_target_quiet:
  fixes db :: "'c media_db"
  assumes inv: "orderly db" and call: "advance_target scope command i target f between result db = Inr (result', db')"
    and f: "\<And>p. in_call p \<Longrightarrow> participant_moved p (f p) \<and> pa_Status (f p) \<noteq> ParticipantWaiting"
    and between: "\<And>p d :: 'c media_db. \<exists>hands. between p d = d\<lparr>md_hands := hands\<rparr>"
  shows "quiet admits db db'"
proof -
  let ?P = "target_in_call scope command i target" and ?R = "moderated_room scope command i"
  let ?g = "advance_room (tc_ActorID scope) (mo_OccurredAt command)"
  obtain p where ok: "participants_ok (update_where ?P f (md_participants db))" "rooms_ok (update_where ?R ?g (md_rooms db))"
    and c: "db' = between p (db\<lparr>md_participants := update_where ?P f (md_participants db),
      md_rooms := update_where ?R ?g (md_rooms db)\<rparr>)"
    using call by (auto simp: advance_target_def update_returning_Inr)
  then obtain hands where db': "db' = db\<lparr>md_participants := update_where ?P f (md_participants db),
      md_rooms := update_where ?R ?g (md_rooms db), md_hands := hands\<rparr>" using between by metis
  have same: "rooms_same (md_rooms db) (update_where ?R ?g (md_rooms db))"
    by (rule rooms_same_update) (simp_all add: advance_room_def room_identity_def)
  show ?thesis
  proof (rule quiet_change[OF inv, where P = ?P and f = f and Q = "\<lambda>_. False" and g = id])
    show "participant_moved p (f p)" if "?P p" for p using f that by (simp add: target_in_call_def)
    show admits if "?P p" "pa_Status p = ParticipantWaiting" for p
      using that by (simp add: target_in_call_def in_call_def)
    show "agree (where_changed ?P f p) (where_changed (\<lambda>_. False) id a)" if "agree p a" for p a
    proof (cases "?P p")
      case True
      then have "let_in p" by (auto simp: target_in_call_def in_call_def let_in_def)
      with that f[of p] True show ?thesis by (auto simp: where_changed_def agree_def target_in_call_def)
    qed (simp add: that where_changed_def)
    show "md_admissions db' = update_where (\<lambda>_. False) id (md_admissions db)"
      by (simp add: db' update_where_none)
  qed (use media_invD(4)[OF orderlyD(1)[OF inv]] ok same in \<open>simp_all add: db'\<close>)
qed

lemma role_change_moved:
  "in_call p \<Longrightarrow> participant_moved p (change_role role now p) \<and>
     pa_Status (change_role role now p) \<noteq> ParticipantWaiting"
  by (auto simp: in_call_def participant_moved_def participant_identity_def status_edge_def change_role_def)

lemma removal_moved:
  "in_call p \<Longrightarrow> participant_moved p (moderation_removal actor now p) \<and>
     pa_Status (moderation_removal actor now p) \<noteq> ParticipantWaiting"
  by (auto simp: in_call_def participant_moved_def participant_identity_def status_edge_def moderation_removal_def)

lemma roles_quiet:
  assumes "orderly db"
  shows "quiet admits db (db\<lparr>md_roles := rows\<rparr>)"
  using media_invD(5)[OF orderlyD(1)[OF assms]] by (intro quiet_frame[OF assms]) simp_all

lemma co_host_quiet:
  fixes db :: "'c media_db"
  assumes inv: "orderly db" and call: "mutateDynamicCoHost scope command i target role result db = Inr (result', db')"
  shows "quiet admits db db'"
proof -
  obtain roles result1 where "advance_target scope command i target (change_role role (mo_OccurredAt command))
      (\<lambda>_ db. db) result (db\<lparr>md_roles := roles\<rparr>) = Inr (result1, db')"
    using call by (auto simp: mutateDynamicCoHost_def)
  note q = roles_quiet[where rows = roles, OF inv] and c = this
  show ?thesis
  proof (rule quiet_trans[OF q], rule advance_target_quiet[OF quiet_orderly[OF q] c])
    show "\<exists>hands. d = d\<lparr>md_hands := hands\<rparr>" for d :: "'c media_db"
      by (rule exI[of _ "md_hands d"]) simp
  qed (rule role_change_moved)
qed

lemma participant_moderation_quiet:
  assumes inv: "orderly db"
    and call: "applyParticipantModeration scope command room target result db = Inr (result', db')"
  shows "quiet admits db db'"
proof -
  have r: "quiet admits db db'"
    if "advance_target scope command (rm_ID room) target (moderation_removal (tc_ActorID scope) (mo_OccurredAt command))
      (lower_hands (tc_TenantID scope) (rm_ID room)) r db = Inr (r', db')" for r r'
    using inv that removal_moved
    by (rule advance_target_quiet) (auto simp: lower_hands_def)
  show ?thesis
    using call quiet_refl[OF inv] r co_host_quiet[OF inv]
    by (auto simp: applyParticipantModeration_def Let_def split: moderation_operation.split_asm option.split_asm)
qed

lemma moderate_quiet:
  assumes inv: "orderly db" and space: "loadSpace db (tc_TenantID scope) (ms_ID space) = Some space"
    and call: "moderate scope command space room role safety db = Inr (result, db')"
  shows "quiet admits db db'"
  using call set_locked_quiet[OF inv space] participant_moderation_quiet[OF inv]
  by (auto simp: moderate_def Let_def split: if_split_asm option.split_asm)

subsection \<open>Commands and their effects\<close>

lemma consumeModerationRateLimit_Inr:
  "consumeModerationRateLimit t i u operation now db = Inr db' \<Longrightarrow> \<exists>windows. db' = db\<lparr>md_moderations := windows\<rparr>"
  by (auto simp: consumeModerationRateLimit_def Let_def split: prod.split_asm option.split_asm)

lemma moderation_event_quiet:
  "orderly db \<Longrightarrow> quiet admits db (appendModerationEvent scope command target result safety db)"
  unfolding appendModerationEvent_def by (rule quiet_event)

text \<open>What a new command that succeeds has passed and done.\<close>

lemma apply_new_moderation_Inr:
  assumes "apply_new_moderation rp access scope space source command acceptedAt db = Inr (result, db')"
  obtains room normal safety windows target db2 db3 where "ms_Status space = SpaceStatusOpen"
    and "find_room db (tc_TenantID scope) (ms_ID space) (mv_RoomInstanceID (mo_Expected command)) = Some room"
    and "rm_Status room = RoomInstanceActive"
    and "ms_Version space = mv_SpaceVersion (mo_Expected command)"
    and "rm_Version room = mv_RoomVersion (mo_Expected command)"
    and "rm_ProjectionVersion room = mv_ProjectionVersion (mo_Expected command)"
    and "moderationAuthority (mo_Operation command) (actor_room_role db scope (ms_ID space) (rm_ID room))
      (as_SafetyAdmin source) = (normal, safety)"
    and "normal \<or> safety" and "safety \<longrightarrow> mo_ReasonCode command \<noteq> []"
    and "authorizeModerationOperation rp db access scope space source
      (actor_room_role db scope (ms_ID space) (rm_ID room)) (mo_Operation command) safety = Inr ()"
    and "moderate scope command space room (actor_room_role db scope (ms_ID space) (rm_ID room)) safety
      (db\<lparr>md_moderations := windows\<rparr>) = Inr ((target, result), db2)"
    and "insert_receipt ErrModerationUnavailable (moderation_receipt scope command room target result) db2 = Inr db3"
    and "db' = appendModerationEvent scope command target result safety db3"
proof -
  from assms[unfolded apply_new_moderation_def Let_def None_Inl_Inr if_Inl_Inr try_res_eq_Inr split_paired_Ex
      de_Morgan_disj not_not]
  obtain room where r: "ms_Status space = SpaceStatusOpen"
    "find_room db (tc_TenantID scope) (ms_ID space) (mv_RoomInstanceID (mo_Expected command)) = Some room"
    "rm_Status room = RoomInstanceActive"
    "ms_Version space = mv_SpaceVersion (mo_Expected command)"
    "rm_Version room = mv_RoomVersion (mo_Expected command)"
    "rm_ProjectionVersion room = mv_ProjectionVersion (mo_Expected command)"
    and k: "(case moderationAuthority (mo_Operation command) (actor_room_role db scope (ms_ID space) (rm_ID room))
        (as_SafetyAdmin source) of (normal, safety) \<Rightarrow>
      if \<not> normal \<and> \<not> safety
              then Inl (if actor_room_role db scope (ms_ID space) (rm_ID room) = None then ErrModerationNotFound
                else ErrModerationForbidden)
            else if safety \<and> mo_ReasonCode command = [] then Inl ErrModerationForbidden
            else
              try_res (authorizeModerationOperation rp db access scope space source
                  (actor_room_role db scope (ms_ID space) (rm_ID room)) (mo_Operation command) safety) (\<lambda>_.
              try_res (consumeModerationRateLimit (tc_TenantID scope) (rm_ID room) (tc_ActorID scope)
                  (mo_Operation command) acceptedAt db) (\<lambda>db1.
              try_res (moderate scope command space room (actor_room_role db scope (ms_ID space) (rm_ID room))
                  safety db1) (\<lambda>((target, result), db2).
              try_res (insert_receipt ErrModerationUnavailable
                  (moderation_receipt scope command room target result) db2) (\<lambda>db3.
                Inr (result, appendModerationEvent scope command target result safety db3)))))) = Inr (result, db')"
    by (elim exE conjE) (rule that)
  obtain normal safety where m: "moderationAuthority (mo_Operation command)
      (actor_room_role db scope (ms_ID space) (rm_ID room)) (as_SafetyAdmin source) = (normal, safety)"
    by (meson surj_pair)
  from k[unfolded m case_prod_conv if_Inl_Inr try_res_eq_Inr split_paired_Ex]
  obtain u db1 target result1 db2 db3 where g: "\<not> (\<not> normal \<and> \<not> safety)"
    "\<not> (safety \<and> mo_ReasonCode command = [])"
    "authorizeModerationOperation rp db access scope space source
      (actor_room_role db scope (ms_ID space) (rm_ID room)) (mo_Operation command) safety = Inr u"
    and c: "consumeModerationRateLimit (tc_TenantID scope) (rm_ID room) (tc_ActorID scope)
      (mo_Operation command) acceptedAt db = Inr db1"
    and d: "moderate scope command space room (actor_room_role db scope (ms_ID space) (rm_ID room)) safety db1 =
        Inr ((target, result1), db2)"
      "insert_receipt ErrModerationUnavailable (moderation_receipt scope command room target result1) db2 = Inr db3"
      "Inr (result1, appendModerationEvent scope command target result1 safety db3) = Inr (result, db')"
    by blast
  from consumeModerationRateLimit_Inr[OF c] obtain windows where w: "db1 = db\<lparr>md_moderations := windows\<rparr>" by blast
  have e: "result1 = result" "db' = appendModerationEvent scope command target result safety db3" using d(3) by auto
  show thesis
    using g by (intro that[OF r m _ _ _ d(1)[unfolded w e(1)] d(2)[unfolded e(1)] e(2)]) auto
qed

lemma moderation_quiet:
  assumes inv: "orderly db" and call: "ApplyModeration rp access command acceptedAt db = Inr (result, db')"
  shows "quiet admits db db'"
proof -
  from call[unfolded ApplyModeration_def None_Inl_Inr try_res_eq_Inr split_paired_Ex case_prod_conv]
  obtain access' scope space source replay where
    space: "loadSpace db (tc_TenantID scope) (mo_SpaceID command) = Some space"
    and k: "(case replay of Some result \<Rightarrow> Inr (result, db)
      | None \<Rightarrow> apply_new_moderation rp access' scope space source command acceptedAt db) = Inr (result, db')"
    by blast
  show ?thesis
  proof (cases replay)
    case (Some _)
    with k quiet_refl[OF inv] show ?thesis by simp
  next
    case None
    with k have "apply_new_moderation rp access' scope space source command acceptedAt db = Inr (result, db')" by simp
    then show ?thesis
    proof (rule apply_new_moderation_Inr)
      fix room normal safety windows target db2 db3
      assume m: "moderate scope command space room (actor_room_role db scope (ms_ID space) (rm_ID room)) safety
          (db\<lparr>md_moderations := windows\<rparr>) = Inr ((target, result), db2)"
        and r: "insert_receipt ErrModerationUnavailable (moderation_receipt scope command room target result) db2 = Inr db3"
        and e: "db' = appendModerationEvent scope command target result safety db3"
      have q1: "quiet admits db (db\<lparr>md_moderations := windows\<rparr>)"
        using media_invD(5)[OF orderlyD(1)[OF inv]] by (intro quiet_frame[OF inv]) simp_all
      have s: "loadSpace (db\<lparr>md_moderations := windows\<rparr>) (tc_TenantID scope) (ms_ID space) = Some space"
        using space loadSpace_Some[OF space] by (simp add: loadSpace_def)
      note q2 = quiet_trans[OF q1 moderate_quiet[OF quiet_orderly[OF q1] s m]]
      note q3 = quiet_trans[OF q2 quiet_receipt[OF quiet_orderly[OF q2] r]]
      show ?thesis unfolding e by (rule quiet_trans[OF q3 moderation_event_quiet[OF quiet_orderly[OF q3]]])
    qed
  qed
qed

lemma moderation_claim_quiet:
  assumes inv: "orderly db" and call: "ClaimProviderModerationEffect access key now lease db = Inr (claim, db')"
  shows "quiet admits db db'"
  using call media_invD(5)[OF orderlyD(1)[OF inv]]
  by (auto simp: ClaimProviderModerationEffect_def Let_def claim_effect_def receipt_identity_def receipt_key_def
      split: sum.split_asm option.split_asm if_split_asm intro!: quiet_frame[OF inv] receipts_kept_update)

lemma moderation_complete_quiet:
  assumes inv: "orderly db" and call: "CompleteProviderModerationEffect access key n status code now db = Inr (status', db')"
  shows "quiet admits db db'"
  using call
  by (auto simp: CompleteProviderModerationEffect_def Let_def complete_effect_def receipt_identity_def receipt_key_def
      split: sum.split_asm if_split_asm intro!: quiet_frame[OF inv] receipts_kept_update)

subsection \<open>The reconciler\<close>

lemma next_effect_quiet:
  assumes inv: "orderly db" and call: "ClaimNextProviderEffect now lease db = Inr (effect, db')"
  shows "quiet admits db db'"
  using call media_invD(5)[OF orderlyD(1)[OF inv]] quiet_refl[OF inv, of admits]
  by (auto simp: ClaimNextProviderEffect_def claim_effect_def receipt_identity_def receipt_key_def
      split: list.split_asm if_split_asm intro!: quiet_frame[OF inv] receipts_kept_update)

lemma durable_complete_quiet:
  assumes inv: "orderly db" and call: "CompleteProviderEffect effect status code now db = Inr db'"
  shows "quiet admits db db'"
  using call
  by (auto simp: CompleteProviderEffect_def complete_effect_def receipt_identity_def receipt_key_def
      split: if_split_asm intro!: quiet_frame[OF inv] receipts_kept_update)

end
