(* ===== verification/Media_Orderly.thy ===== *)
theory Media_Orderly imports Media_Attendees begin

section \<open>The lifecycle, the provider and the attendance\<close>

text \<open>
  The transactions of the lifecycle, instance and participant repositories are made of abstract
  steps of the attendance as well: a transition and a webhook settle whoever is left, a join enters
  or asks, a credential lets the participant go on.
\<close>

definition orderly_step :: "bool \<Rightarrow> 'c media_db \<Rightarrow> 'c media_db \<Rightarrow> bool" where
  "orderly_step admits db db' \<longleftrightarrow> sound_step db db' \<and> attends admits db db'"

lemma orderly_step_orderly: "orderly_step admits db db' \<Longrightarrow> orderly db \<Longrightarrow> orderly db'"
  using attends_paired by (auto simp: orderly_step_def orderly_def sound_step_def)

lemma quiet_orderly_step: "quiet admits db db' \<Longrightarrow> orderly_step admits db db'"
  by (simp add: orderly_step_def quiet_sound) (simp add: quiet_def)

subsection \<open>Settling a room\<close>

lemma attends_change:
  assumes P: "\<And>p. P p \<Longrightarrow> participant_moved p (f p)"
    and closed: "\<And>p. P p \<Longrightarrow> pa_Status p = ParticipantWaiting \<Longrightarrow> let_in (f p) \<Longrightarrow> admits" and Q: "\<And>a. Q a \<Longrightarrow> admission_moved a (g a)"
    and agree: "\<And>p a. linked p a \<Longrightarrow> agree p a \<Longrightarrow> agree (where_changed P f p) (where_changed Q g a)"
    and ps: "md_participants db' = update_where P f (md_participants db)"
    and as: "md_admissions db' = update_where Q g (md_admissions db)"
  shows "attends admits db db'"
  unfolding attends_def attendance_of_def ps as
  by (rule r_into_rtranclp, rule attendance_step.change) (use P Q closed agree in auto)

lemma participants_attend:
  assumes "\<And>p. P p \<Longrightarrow> participant_moved p (f p) \<and> let_in p \<and> pa_Status (f p) \<noteq> ParticipantWaiting"
    and "md_participants db' = update_where P f (md_participants db)"
    and "md_admissions db' = md_admissions db"
  shows "attends admits db db'"
proof (rule attends_change[where P = P and f = f and Q = "\<lambda>_. False" and g = id])
  show "agree (where_changed P f p) (where_changed (\<lambda>_. False) id a)" if "agree p a" for p a
    using that assms(1)[of p] by (auto simp: where_changed_def agree_def let_in_def)
  show admits if "P p" "pa_Status p = ParticipantWaiting" for p using that assms(1)[of p] by (auto simp: let_in_def)
qed (use assms in \<open>simp_all add: update_where_none\<close>)

lemma settled_attends:
  assumes f: "\<And>p. participant_active p \<Longrightarrow> participant_moved p (f p) \<and> \<not> participant_active (f p)"
    and ps: "md_participants db' = update_where (active_participant_of t s i) f (md_participants db)"
    and as: "md_admissions db' = update_where (waiting_admission t s i) (expire_admission resolver code now)
      (md_admissions db)"
  shows "attends admits db db'"
proof (rule attends_change[OF _ _ _ _ ps as])
  show admits if "active_participant_of t s i p" "let_in (f p)" for p
    using that f[of p] by (auto simp: active_participant_of_def let_in_def participant_active_def)
  show "agree (where_changed (active_participant_of t s i) f p)
      (where_changed (waiting_admission t s i) (expire_admission resolver code now) a)"
    if l: "linked p a" "agree p a" for p a
  proof -
    have act: "participant_active q \<longleftrightarrow> pa_Status q = ParticipantWaiting \<or> let_in q" for q
      by (cases "pa_Status q") (simp_all add: participant_active_def let_in_def)
    show ?thesis
    proof (cases "pa_TenantID p = t \<and> pa_SpaceID p = s \<and> pa_RoomID p = i")
      case True
      with l(1) have P: "active_participant_of t s i p \<longleftrightarrow> participant_active p"
        and Q: "waiting_admission t s i a \<longleftrightarrow> ad_Status a = AdmissionWaiting"
        by (auto simp: active_participant_of_def waiting_admission_def linked_def)
      show ?thesis
        using l(2) f[of p] act[of p] act[of "f p"] unfolding where_changed_def P Q
        by (cases "ad_Status a = AdmissionWaiting"; cases "participant_active p")
          (auto simp: agree_def expire_admission_def)
    next
      case False
      with l(1) have "\<not> active_participant_of t s i p" "\<not> waiting_admission t s i a"
        by (auto simp: active_participant_of_def waiting_admission_def linked_def)
      with l(2) show ?thesis by (simp add: where_changed_def)
    qed
  qed
qed (use f in \<open>auto simp: active_participant_of_def waiting_admission_def admission_moved_def
    admission_identity_def expire_admission_def\<close>)

lemma settling_moves:
  "participant_active p \<Longrightarrow> participant_moved p (settled_as_left now p) \<and> \<not> participant_active (settled_as_left now p)"
  "participant_active p \<Longrightarrow> participant_moved p (settled_as_failed code now p) \<and>
     \<not> participant_active (settled_as_failed code now p)"
  by (cases "pa_Status p"; simp add: participant_moved_def participant_identity_def status_edge_def participant_active_def)+

subsection \<open>Transitions\<close>

lemma run_transition_attends:
  assumes row: "loadSpace db (tc_TenantID scope) (ms_ID row) = Some row" and inv: "media_inv db"
    and run: "run_transition rp access scope row command db = Inr ((updated, rid), db')"
  shows "attends admits db db'"
proof -
  note ok = media_invD(1,2)[OF inv]
  consider "startSpace rp access scope row command db = Inr ((updated, rid), db')"
    | "endSpace rp access scope row command db = Inr ((updated, rid), db')"
    | "cancelSpace rp access scope row command db = Inr ((updated, rid), db')"
    | "recoverSpace rp access scope row command db = Inr ((updated, rid), db')"
    using run by (auto simp: run_transition_def split: if_split_asm)
  then show ?thesis
  proof cases
    case 1
    from startSpace_effect[OF 1 row ok(1)] have "attendance_of db' = attendance_of db"
      by (elim exE conjE) (simp add: attendance_of_def)
    then show ?thesis by (rule attends_same)
  next
    case 2
    from endSpace_effect[OF 2 row ok] obtain room :: room_row and rooms hands classes evs resolver where
      "db' = db\<lparr>md_admissions := update_where
        (waiting_admission (tc_TenantID scope) (ms_ID row) (rm_ID room))
        (expire_admission resolver ''meeting_ended'' (tr_OccurredAt command)) (md_admissions db),
      md_participants := update_where
        (active_participant_of (tc_TenantID scope) (ms_ID row) (rm_ID room))
        (settled_as_left (tr_OccurredAt command)) (md_participants db),
      md_hands := hands, md_rooms := rooms,
      md_spaces := set_space row (end_row (tc_ActorID scope) (tr_OccurredAt command)) (md_spaces db),
      md_classes := classes, md_events := md_events db @ evs\<rparr>" by (elim exE conjE) (rule that)
    then show ?thesis by (intro settled_attends[OF settling_moves(1)]) simp_all
  next
    case 3
    from cancelSpace_effect[OF 3 row ok(1)] have "attendance_of db' = attendance_of db"
      by (elim exE conjE) (simp add: attendance_of_def)
    then show ?thesis by (rule attends_same)
  next
    case 4
    from recoverSpace_effect[OF 4 row ok(1)] have "attendance_of db' = attendance_of db"
      by (elim exE conjE) (simp add: attendance_of_def)
    then show ?thesis by (rule attends_same)
  qed
qed

lemma transition_attends:
  assumes inv: "media_inv db" and call: "TransitionSpace rp access command db = Inr (projected, db')"
  shows "attends admits db db'"
proof (cases "find_receipt db (scope_of access) (tr_IdempotencyKey command)")
  case (Some r)
  with TransitionSpace_effect[OF call] show ?thesis by (auto intro: attends_same)
next
  case None
  with TransitionSpace_effect[OF call] obtain access' row updated rid db1 where
    row: "loadSpace db (ac_TenantID access) (tr_SpaceID command) = Some row"
    and run: "run_transition rp access' (scope_of access) row command db = Inr ((updated, rid), db1)"
    and db': "db' = db1\<lparr>md_receipts := md_receipts db1 @
      [transition_receipt (scope_of access) command (ms_Version updated) rid]\<rparr>" by auto
  have "attends admits db db1"
    using run_transition_attends[OF _ inv run] row loadSpace_Some[OF row] by simp
  moreover have "attends admits db1 db'" by (rule attends_same) (simp add: attendance_of_def db')
  ultimately show ?thesis by (rule attends_trans)
qed

lemma create_attends:
  assumes inv: "media_inv db" and call: "CreateSpace rp access command db = Inr ((space, created), db')"
  shows "attends admits db db'"
proof (cases created)
  case True
  with CreateSpace_effect[OF call] show ?thesis
    by (auto simp: attendance_of_def intro!: attends_same)
next
  case False
  with CreateSpace_effect[OF call] show ?thesis
    by (auto intro: attends_same)
qed

lemma activate_attends:
  assumes inv: "media_inv db"
    and call: "ActivateRoomInstance rp access spaceID roomID sid now db = Inr (space, db')"
  shows "attends admits db db'"
  using ActivateRoomInstance_effect[OF call media_invD(2)[OF inv]]
  by (auto simp: attendance_of_def intro!: attends_same)

subsection \<open>Webhooks\<close>

lemma webhook_attends:
  assumes inv: "media_inv db"
    and call: "RecordProviderWebhook event receivedAt db = Inr ((result, found), db')"
  shows "attends admits db db'"
proof (cases "wt_Recorded result")
  case False
  with RecordProviderWebhook_effect[OF call] show ?thesis by (auto intro: attends_same)
next
  case True
  with RecordProviderWebhook_effect[OF call] obtain binding row mutation where
    b: "binding \<in> set (md_rooms db)"
    and cls: "classifyProviderWebhook binding (webhook_participant db binding event) event receivedAt =
          (wr_Disposition row, mutation)"
    and k: "case mutation of None \<Rightarrow> db' = db\<lparr>md_webhooks := md_webhooks db @ [row]\<rparr>
         | Some m \<Rightarrow> m (db\<lparr>md_webhooks := md_webhooks db @ [row]\<rparr>) = Inr db'" by auto
  let ?db = "db\<lparr>md_webhooks := md_webhooks db @ [row]\<rparr>"
  have same: "attends admits db ?db" by (rule attends_same) (simp add: attendance_of_def)
  have "attends admits ?db db'"
  proof (cases mutation)
    case None
    with k show ?thesis by (auto intro: attends_same)
  next
    case (Some m)
    with k have m: "m ?db = Inr db'" by simp
    from classifyProviderWebhook_change[OF cls[unfolded Some]] m consider
        sid now where "rm_Status binding = RoomInstanceProvisioning" "webhook_start binding sid now ?db = Inr db'"
      | now where "webhook_finish binding (rm_Status binding) now ?db = Inr db'"
      | p now where "webhook_joined binding p now ?db = Inr db'"
      | p now where "webhook_left binding p now ?db = Inr db'"
      by auto
    then show ?thesis
    proof cases
      case 1
      from webhook_start_effect[OF 1(2) _ _ 1(1)] media_invD(2)[OF inv] b show ?thesis
        by (auto simp: attendance_of_def intro!: attends_same)
    next
      case 2
      have ok: "rooms_ok (md_rooms ?db)" "binding \<in> set (md_rooms ?db)" using media_invD(2)[OF inv] b by simp_all
      from webhook_finish_effect[OF 2 ok]
      have "md_participants db' = update_where
            (active_participant_of (rm_TenantID binding) (rm_SpaceID binding) (rm_ID binding))
            (settled_as_failed ''provider_room_finished'' now) (md_participants ?db)"
        "md_admissions db' = update_where
            (waiting_admission (rm_TenantID binding) (rm_SpaceID binding) (rm_ID binding))
            (expire_admission None ''provider_unavailable'' now) (md_admissions ?db)"
        by (elim exE conjE, simp)+
      with settling_moves(2) show ?thesis by (rule settled_attends)
    next
      case 3
      from webhook_joined_effect[OF 3] show ?thesis
        by (elim exE conjE, intro participants_attend[where f = "connect_participant now"])
          (auto simp: bound_participant_def connect_participant_def participant_moved_def
            participant_identity_def status_edge_def let_in_def)
    next
      case 4
      from webhook_left_effect[OF 4] show ?thesis
        by (elim exE conjE, intro participants_attend[where f = "leave_participant now"])
          (auto simp: bound_participant_def leave_participant_def participant_moved_def
            participant_identity_def status_edge_def let_in_def)
    qed
  qed
  with same show ?thesis by (rule attends_trans)
qed

subsection \<open>Joining\<close>

lemma new_id:
  "unique_index (\<lambda>_. True) k (rows @ [r]) \<Longrightarrow> k r \<notin> k ` set rows"
  by (auto simp: unique_index_append)

lemma newcomer_joins:
  assumes "participants_ok (md_participants db @ [p])"
    and "\<not> hasActiveParticipant db (pa_TenantID p) (pa_RoomID p) (pa_UserID p)"
    and "\<not> hasUnrestoredRemovalBarrier db (pa_TenantID p) (pa_SpaceID p) (pa_RoomID p) (pa_UserID p)"
  shows "newcomer p (md_participants db)"
  using assms(2,3) new_id[of pa_ID "md_participants db" p] assms(1)
  by (auto simp: newcomer_def participants_ok_def hasActiveParticipant_def hasUnrestoredRemovalBarrier_def
      list_ex_iff barring_def attendee_def)

lemma join_attends:
  assumes inv: "media_inv db"
    and call: "CreateOrReuseJoinAttempt sha256 rp access spaceID input ids now db = Inr ((attempt, created), db')"
  shows "attends admits db db'"
proof (cases created)
  case False
  with CreateOrReuseJoinAttempt_effect[OF call] show ?thesis by (auto intro: attends_same)
next
  case True
  with CreateOrReuseJoinAttempt_effect[OF call] obtain space room source where
    c: "create_join_attempt rp (scope_of access) space room
        (resolveEffectiveCredentialSource db (ac_TenantID access) (rm_ID room) (ac_ActorID access) source) ids
        (ji_JoinAttemptID input) (sha256 (join_attempt_preimage spaceID input)) now db = Inr (attempt, db')" by auto
  from create_join_attempt_effect[OF c] obtain lobby sequence rooms role fingerprint where
    db': "db' = db\<lparr>md_rooms := rooms,
      md_admissions := md_admissions db @ (if lobby then [new_admission (scope_of access) (ms_ID space) (rm_ID room)
        (jd_AdmissionID ids) (ji_JoinAttemptID input) fingerprint now] else []),
      md_participants := md_participants db @ [new_participant (scope_of access) (ms_ID space) (rm_ID room) ids
        (ji_JoinAttemptID input) role lobby sequence now]\<rparr>"
    and ok: "participants_ok (md_participants db')" "lobby \<longrightarrow> admissions_ok (md_admissions db')"
    and free: "\<not> hasActiveParticipant db (ac_TenantID access) (rm_ID room) (ac_ActorID access)"
      "\<not> hasUnrestoredRemovalBarrier db (ac_TenantID access) (ms_ID space) (rm_ID room) (ac_ActorID access)"
    by (elim exE conjE) (rule that, assumption+, simp_all)
  let ?p = "new_participant (scope_of access) (ms_ID space) (rm_ID room) ids (ji_JoinAttemptID input) role lobby sequence now"
  let ?a = "new_admission (scope_of access) (ms_ID space) (rm_ID room) (jd_AdmissionID ids) (ji_JoinAttemptID input)
    fingerprint now"
  have p: "newcomer ?p (md_participants db)"
    using ok(1) free by (intro newcomer_joins) (simp_all add: db' new_participant_def)
  show ?thesis
  proof (cases lobby)
    case True
    have "ad_ID ?a \<notin> ad_ID ` set (md_admissions db)"
      using ok(2) True by (intro new_id) (simp add: db' admissions_ok_def)
    then have "attendance_step admits (attendance_of db) (md_participants db @ [?p], md_admissions db @ [?a])"
      unfolding attendance_of_def using p True
      by (intro attendance_step.ask) (simp_all add: linked_def new_participant_def new_admission_def)
    with True show ?thesis by (intro attends_step) (simp add: attendance_of_def db')
  next
    case False
    have "attendance_step admits (attendance_of db) (md_participants db @ [?p], md_admissions db)"
      unfolding attendance_of_def using p False
      by (intro attendance_step.enter) (simp_all add: new_participant_def)
    with False show ?thesis by (intro attends_step) (simp add: attendance_of_def db')
  qed
qed

lemma credential_attends:
  assumes inv: "media_inv db"
    and call: "PrepareCredential rp access spaceID attemptID now db = Inr (grant, db')"
  shows "attends admits db db'"
proof -
  from PrepareCredential_effect[OF call media_invD(2)[OF inv]] obtain room role ws ps rooms where
    db': "db' = db\<lparr>md_credentials := ws, md_participants := ps, md_rooms := rooms\<rparr>"
    and adv: "participant_advanced (scope_of access) room attemptID role now (md_participants db) ps" by blast
  let ?at = "attempt_in_status (ac_TenantID access) (rm_ID room) (ac_ActorID access) attemptID"
  from adv consider "ps = md_participants db"
    | "ps = update_where (?at ParticipantAdmitted) (join_participant role now) (md_participants db)"
    | "ps = update_where (?at ParticipantJoining) (refresh_participant_role role now) (md_participants db)"
    by (auto simp: participant_advanced_def)
  then show ?thesis
  proof cases
    case 1
    then show ?thesis by (intro attends_same) (simp add: attendance_of_def db')
  next
    case 2
    show ?thesis
      by (rule participants_attend[where P = "?at ParticipantAdmitted" and f = "join_participant role now"])
        (simp_all add: db' 2 attempt_in_status_def join_participant_def participant_moved_def
          participant_identity_def status_edge_def let_in_def)
  next
    case 3
    show ?thesis
      by (rule participants_attend[where P = "?at ParticipantJoining" and f = "refresh_participant_role role now"])
        (simp_all add: db' 3 attempt_in_status_def refresh_participant_role_def participant_moved_def
          participant_identity_def status_edge_def let_in_def)
  qed
qed

lemma claim_attends:
  assumes "ClaimEndProviderEffect access spaceID key now lease db = Inr ((effect, status, claimed), db')"
  shows "attends admits db db'"
  using ClaimEndProviderEffect_effect[OF assms]
  by (auto simp: Let_def attendance_of_def split: if_splits intro!: attends_same)

lemma complete_attends:
  assumes "CompleteEndProviderEffect access spaceID key attempt status code now db = Inr (status', db')"
  shows "attends admits db db'"
  using CompleteEndProviderEffect_effect[OF assms] by (auto simp: Let_def attendance_of_def intro!: attends_same)

end
