(* ===== verification/Media_System.thy ===== *)
theory Media_System imports Media_Lobby_Sound Media_Moderation_Sound Media_Orderly begin

section \<open>Runs of the media component\<close>

text \<open>
  Any sequence of the transactions of the media repositories, with whatever the rest of the program
  changes in between, from a database without spaces: \<open>media_reachable\<close>.  Every step refines
  the lifecycle, keeps the invariant, forgets nothing, and is made of abstract steps of the
  attendance.
\<close>

subsection \<open>Runs\<close>

text \<open>
  What the rest of the program may change between two transactions of this component; the windows
  of the rate limits are in a table that other modules write and that may be cleaned up.
\<close>

definition environment_changed :: "'c media_db \<Rightarrow> 'c media_db \<Rightarrow> bool" where
  "environment_changed db db' \<longleftrightarrow> (\<exists>controls classes meetings users credentials moderations.
     db' = db\<lparr>md_controls := controls, md_classes := classes, md_meetings := meetings,
       md_users := users, md_credentials := credentials, md_moderations := moderations\<rparr>)"

lemma environment_changedI:
  assumes "md_spaces db' = md_spaces db" and "md_rooms db' = md_rooms db"
    and "md_participants db' = md_participants db" and "md_admissions db' = md_admissions db"
    and "md_hands db' = md_hands db" and "md_receipts db' = md_receipts db" and "md_members db' = md_members db"
    and "md_roles db' = md_roles db" and "md_webhooks db' = md_webhooks db" and "md_events db' = md_events db"
  shows "environment_changed db db'"
  unfolding environment_changed_def
  by (intro exI[of _ "md_controls db'"] exI[of _ "md_classes db'"] exI[of _ "md_meetings db'"]
      exI[of _ "md_users db'"] exI[of _ "md_credentials db'"] exI[of _ "md_moderations db'"],
      rule media_db.equality) (simp_all add: assms)

inductive media_step :: "(string \<Rightarrow> string) \<Rightarrow> 'c lifecycle_repository \<Rightarrow> 'c media_db \<Rightarrow> 'c media_db \<Rightarrow> bool"
  for sha256 rp where
  created: "CreateSpace rp access command db = Inr ((space, new), db') \<Longrightarrow> media_step sha256 rp db db'"
| transitioned: "TransitionSpace rp access transition db = Inr (space, db') \<Longrightarrow> media_step sha256 rp db db'"
| activated: "ActivateRoomInstance rp access spaceID roomID sid now db = Inr (space, db') \<Longrightarrow>
    media_step sha256 rp db db'"
| reported: "RecordProviderWebhook event now db = Inr ((result, found), db') \<Longrightarrow> media_step sha256 rp db db'"
| joined: "CreateOrReuseJoinAttempt sha256 rp access spaceID input ids now db = Inr ((attempt, new), db') \<Longrightarrow>
    media_step sha256 rp db db'"
| credited: "PrepareCredential rp access spaceID attemptID now db = Inr (grant, db') \<Longrightarrow>
    media_step sha256 rp db db'"
| claimed: "ClaimEndProviderEffect access spaceID key now lease db = Inr ((effect, status, taken), db') \<Longrightarrow>
    media_step sha256 rp db db'"
| completed: "CompleteEndProviderEffect access spaceID key attemptNumber status code now db = Inr (status', db') \<Longrightarrow>
    media_step sha256 rp db db'"
| listed: "ListAdmissions rp access spaceID page now ttl db = Inr (items, db') \<Longrightarrow> media_step sha256 rp db db'"
| observed: "GetJoinAttempt rp access spaceID attemptID page now ttl db = Inr (attempt, db') \<Longrightarrow>
    media_step sha256 rp db db'"
| decided: "MutateAdmission rp access decision db = Inr (outcome, db') \<Longrightarrow> media_step sha256 rp db db'"
| withdrawn: "CancelJoinAttempt rp access decision db = Inr (attempt, db') \<Longrightarrow> media_step sha256 rp db db'"
| invited: "InviteMember rp access invitation db = Inr (member, db') \<Longrightarrow> media_step sha256 rp db db'"
| member_changed: "MutateMember rp access change db = Inr (member, db') \<Longrightarrow> media_step sha256 rp db db'"
| moderated: "ApplyModeration rp access moderation now db = Inr (result, db') \<Longrightarrow> media_step sha256 rp db db'"
| effect_claimed: "ClaimProviderModerationEffect access key now lease db = Inr (claim, db') \<Longrightarrow>
    media_step sha256 rp db db'"
| effect_completed: "CompleteProviderModerationEffect access key attemptNumber status code now db = Inr (status', db') \<Longrightarrow>
    media_step sha256 rp db db'"
| next_claimed: "ClaimNextProviderEffect now lease db = Inr (durable, db') \<Longrightarrow> media_step sha256 rp db db'"
| durably_completed: "CompleteProviderEffect durable status code now db = Inr db' \<Longrightarrow> media_step sha256 rp db db'"
| changed: "environment_changed db db' \<Longrightarrow> media_step sha256 rp db db'"

lemma environment_quiet:
  assumes "orderly db" and "environment_changed db db'"
  shows "quiet admits db db'"
  using assms media_invD(5)[OF orderlyD(1)[OF assms(1)]]
  by (auto simp: environment_changed_def intro!: quiet_frame)

lemmas quiet_transactions = list_admissions_quiet get_attempt_quiet mutate_admission_quiet cancel_attempt_quiet
  invite_quiet mutate_member_quiet moderation_quiet moderation_claim_quiet moderation_complete_quiet
  next_effect_quiet durable_complete_quiet environment_quiet

lemmas sound_transactions = create_sound transition_sound activate_sound webhook_sound join_sound
  credential_sound claim_sound complete_sound

lemmas attending_transactions = create_attends transition_attends activate_attends webhook_attends
  join_attends credential_attends claim_attends complete_attends

lemma media_step_orderly:
  assumes "media_step sha256 rp db db'" and "orderly db"
  shows "orderly_step True db db'"
  using assms
  by (induction rule: media_step.induct)
    (auto simp: orderly_step_def dest: orderlyD(1) intro: sound_transactions attending_transactions
      quiet_transactions[THEN quiet_orderly_step, unfolded orderly_step_def, THEN conjunct1]
      quiet_transactions[THEN quiet_orderly_step, unfolded orderly_step_def, THEN conjunct2])

text \<open>Only one transaction lets somebody in.\<close>

lemma media_step_entry:
  assumes "media_step sha256 rp db db'" and "orderly db"
  shows "attends False db db' \<or> (\<exists>access decision outcome. lc_Operation decision = ''admission_admit'' \<and>
    MutateAdmission rp access decision db = Inr (outcome, db'))"
  using assms
proof (induction rule: media_step.induct)
  case (decided access decision db outcome db')
  then show ?case
    using mutate_admission_quiet[of db rp access decision outcome db' False] by (auto simp: quiet_def)
qed (auto dest: orderlyD(1) intro: attending_transactions
    quiet_transactions[THEN quiet_orderly_step, unfolded orderly_step_def, THEN conjunct2])

definition media_init :: "'c media_db \<Rightarrow> bool" where
  "media_init db \<longleftrightarrow> md_spaces db = [] \<and> md_rooms db = [] \<and> md_participants db = [] \<and>
     md_admissions db = [] \<and> md_members db = [] \<and> md_roles db = [] \<and> md_receipts db = [] \<and>
     md_webhooks db = []"

inductive media_run :: "(string \<Rightarrow> string) \<Rightarrow> 'c lifecycle_repository \<Rightarrow> 'c media_db \<Rightarrow> 'c media_db \<Rightarrow> bool"
  for sha256 rp where
  refl: "media_run sha256 rp db db"
| step: "media_run sha256 rp db db1 \<Longrightarrow> media_step sha256 rp db1 db2 \<Longrightarrow> media_run sha256 rp db db2"

definition media_reachable :: "(string \<Rightarrow> string) \<Rightarrow> 'c lifecycle_repository \<Rightarrow> 'c media_db \<Rightarrow> bool" where
  "media_reachable sha256 rp db \<longleftrightarrow> (\<exists>start. media_init start \<and> media_run sha256 rp start db)"

lemma media_init_orderly: "media_init db \<Longrightarrow> orderly db"
  by (auto simp: media_init_def orderly_def paired_def barred_def media_inv_def media_tables_ok_def spaces_ok_def
      rooms_ok_def participants_ok_def admissions_ok_def receipts_ok_def unique_index_def lifecycle_ok_def
      lifecycle_of_def loadSpace_def numbered_def housed_def attended_def rooms_of_def)

lemma media_run_orderly: "media_run sha256 rp db db' \<Longrightarrow> orderly db \<Longrightarrow> orderly db'"
  by (induction rule: media_run.induct) (auto intro: orderly_step_orderly media_step_orderly)

lemma media_reachable_orderly: "media_reachable sha256 rp db \<Longrightarrow> orderly db"
  by (auto simp: media_reachable_def dest: media_init_orderly media_run_orderly)

lemma media_reachable_inv: "media_reachable sha256 rp db \<Longrightarrow> media_inv db"
  using media_reachable_orderly orderlyD(1) by blast

lemma media_run_step:
  "media_run sha256 rp db db1 \<Longrightarrow> media_step sha256 rp db1 db2 \<Longrightarrow> orderly db \<Longrightarrow> orderly_step True db1 db2"
  using media_run_orderly media_step_orderly by blast

lemma media_run_remembered:
  "media_run sha256 rp db db' \<Longrightarrow> orderly db \<Longrightarrow> remembered db db'"
proof (induction rule: media_run.induct)
  case (step db db1 db2)
  with media_run_step[of sha256 rp db db1 db2] show ?case
    by (auto simp: orderly_step_def sound_step_def intro: remembered_trans)
qed simp

lemma media_run_terminal:
  "media_run sha256 rp db db' \<Longrightarrow> orderly db \<Longrightarrow> lifecycle_of db k = Some (st, h) \<Longrightarrow>
     st \<in> {SpaceStatusEnded, SpaceStatusCancelled} \<Longrightarrow> lifecycle_of db' k = Some (st, h)"
proof (induction rule: media_run.induct)
  case (step db db1 db2)
  with media_run_step[of sha256 rp db db1 db2] lifecycle_step_terminal show ?case
    unfolding orderly_step_def sound_step_def by blast
qed simp

lemma media_run_attends: "media_run sha256 rp db db' \<Longrightarrow> orderly db \<Longrightarrow> attends True db db'"
proof (induction rule: media_run.induct)
  case (step db db1 db2)
  with media_run_step[of sha256 rp db db1 db2] show ?case
    by (auto simp: orderly_step_def intro: attends_trans)
qed (simp add: attends_same)

lemma media_step_sound: "media_step sha256 rp db db' \<Longrightarrow> orderly db \<Longrightarrow> sound_step db db'"
  using media_step_orderly unfolding orderly_step_def by blast

lemma reachable_step:
  "media_reachable sha256 rp db \<Longrightarrow> media_step sha256 rp db db' \<Longrightarrow> media_reachable sha256 rp db'"
  unfolding media_reachable_def using media_run.step by blast

lemma reachable_run:
  assumes "media_reachable sha256 rp db" and "media_run sha256 rp db db'"
  shows "media_reachable sha256 rp db'"
  using assms(2,1) by (induction rule: media_run.induct) (auto intro: reachable_step)

end
