(* ===== verification/Media_Example.thy ===== *)
theory Media_Example imports Media_System begin

section \<open>A run of the media component\<close>

text \<open>
  One concrete run, evaluated by the kernel, on which the properties of the component are
  applied: the owner of a study meeting creates its space, starts it, the provider's room is
  activated, and the owner joins.  From there the owner gets a credential, or ends the space; a
  student who has been invited and joins the active room waits in the lobby.
\<close>

definition ex_tables :: class_tables where
  "ex_tables = \<lparr>kt_classes = Map.empty, kt_enrollments = Map.empty, kt_sessions = Map.empty,
     kt_series = Map.empty\<rparr>"

definition ex_controls :: control_db where
  "ex_controls = \<lparr>cd_tenants = [1 \<mapsto> ''active''],
     cd_memberships = [(1, 7) \<mapsto> (OrganizationRoleTeacher, ''active''),
       (1, 8) \<mapsto> (OrganizationRoleStudent, ''active'')],
     cd_features = (\<lambda>t. if t = 1 then [FeatureClassroomMediaRooms \<mapsto> True] else Map.empty),
     cd_quotas = (\<lambda>_. Map.empty), cd_windows = Map.empty, cd_revisions = Map.empty,
     cd_usage = (\<lambda>_ _ _. 0), cd_updates = []\<rparr>"

definition ex_repo :: "class_tables lifecycle_repository" where
  "ex_repo = \<lparr>rp_Controls = Some empty_catalog, rp_ClassSources = classroom_sources\<rparr>"

definition ex_meeting :: meeting_row where
  "ex_meeting = \<lparr>mt_ID = 5, mt_TenantID = 1, mt_OwnerUserID = 7, mt_ClassID = None, mt_Title = ''Study'',
     mt_StartsAt = 10, mt_EndsAt = 1000, mt_Timezone = ''UTC'', mt_Status = ''scheduled'',
     mt_CreateKey = ''meeting-key-0001'', mt_CreateFingerprint = replicate 32 CHR ''f''\<rparr>"

definition ex_invite :: invite_command where
  "ex_invite = \<lparr>iv_SpaceID = 20, iv_TargetEmail = ''guest@example.org'', iv_ExpectedSpaceVersion = 2,
     iv_IdempotencyKey = ''invite-key-00001'', iv_Fingerprint = replicate 32 CHR ''i'', iv_OccurredAt = 350\<rparr>"

definition ex_users :: "user_row list" where
  "ex_users = [\<lparr>us_ID = 7, us_Email = ''host@example.org'', us_DisplayName = ''Host'', us_Status = ''active''\<rparr>,
     \<lparr>us_ID = 8, us_Email = ''guest@example.org'', us_DisplayName = ''Guest'', us_Status = ''active''\<rparr>]"

definition ex_db0 :: "class_tables media_db" where
  "ex_db0 = \<lparr>md_controls = ex_controls, md_classes = ex_tables, md_spaces = [], md_rooms = [],
     md_participants = [], md_admissions = [], md_hands = [], md_receipts = [], md_meetings = [ex_meeting],
     md_members = [], md_roles = [], md_users = ex_users, md_webhooks = [],
     md_credentials = Map.empty, md_moderations = Map.empty, md_events = []\<rparr>"

definition ex_access :: "uuid \<Rightarrow> access_context" where
  "ex_access actor = \<lparr>ac_TenantID = 1, ac_ActorID = actor, ac_SessionID = 70, ac_DisplayName = ''User'',
     ac_MembershipActive = True, ac_OrganizationRoles = []\<rparr>"

definition ex_create :: create_command where
  "ex_create = \<lparr>cc_SpaceID = 20, cc_InstantMeetingID = 0,
     cc_Source = \<lparr>cs_Kind = SourceStudyMeeting, cs_ClassSessionID = 0, cs_SeriesID = 0,
       cs_OccurrenceKey = [], cs_StudyMeetingID = 5,
       cs_Instant = \<lparr>ii_Title = [], ii_DurationMinutes = 0, ii_Timezone = []\<rparr>\<rparr>,
     cc_IdempotencyKey = ''create-key-00001'', cc_Fingerprint = replicate 32 CHR ''c'', cc_CreatedAt = 100\<rparr>"

definition ex_start :: transition_command where
  "ex_start = \<lparr>tr_SpaceID = 20, tr_RoomInstanceID = 30, tr_ProviderRoomName = opaqueProviderRoomName 30,
     tr_Operation = ''start'', tr_ExpectedVersion = 1, tr_ExpectedRoomInstanceID = 0,
     tr_ExpectedRoomInstanceVersion = 0, tr_IdempotencyKey = ''start-key-000001'', tr_ReasonCode = [],
     tr_Fingerprint = replicate 32 CHR ''s'', tr_OccurredAt = 200\<rparr>"

definition ex_end :: transition_command where
  "ex_end = \<lparr>tr_SpaceID = 20, tr_RoomInstanceID = 0, tr_ProviderRoomName = [], tr_Operation = ''end'',
     tr_ExpectedVersion = 2, tr_ExpectedRoomInstanceID = 0, tr_ExpectedRoomInstanceVersion = 0,
     tr_IdempotencyKey = ''end-key-00000001'', tr_ReasonCode = [], tr_Fingerprint = replicate 32 CHR ''e'',
     tr_OccurredAt = 700\<rparr>"

definition ex_join :: "uuid \<Rightarrow> join_attempt_input" where
  "ex_join attempt = \<lparr>ji_JoinAttemptID = attempt, ji_ExpectedRoomInstanceID = 30, ji_ExpectedSpaceVersion = 2\<rparr>"

definition ex_ids :: "uuid \<Rightarrow> join_ids" where
  "ex_ids i = \<lparr>jd_ID = i + 1, jd_ParticipantKey = i + 2, jd_Identity = i + 3, jd_AdmissionID = i + 4\<rparr>"

definition ex_hash :: "string \<Rightarrow> string" where
  "ex_hash s = replicate 32 CHR ''h''"

definition after :: "'e + 'a \<times> 'c media_db \<Rightarrow> 'c media_db \<Rightarrow> 'c media_db" where
  "after r db = (case r of Inl _ \<Rightarrow> db | Inr (_, db') \<Rightarrow> db')"

definition ex_db1 :: "class_tables media_db" where
  "ex_db1 = after (CreateSpace ex_repo (ex_access 7) ex_create ex_db0) ex_db0"

definition ex_db2 :: "class_tables media_db" where
  "ex_db2 = after (TransitionSpace ex_repo (ex_access 7) ex_start ex_db1) ex_db1"

definition ex_db3 :: "class_tables media_db" where
  "ex_db3 = after (ActivateRoomInstance ex_repo (ex_access 7) 20 30 ''RM_1'' 300 ex_db2) ex_db2"

text \<open>
  The state with the running room written out, with the windows of the rate limits cleaned up; what
  follows starts from it.
\<close>

definition ex_space :: space_row where
  "ex_space = \<lparr>ms_ID = 20, ms_TenantID = 1,
     ms_Source = \<lparr>sr_Kind = SourceStudyMeeting, sr_ClassSessionID = None, sr_SeriesID = None,
       sr_OccurrenceKey = [], sr_StudyMeetingID = Some 5\<rparr>,
     ms_ClassID = None, ms_Status = SpaceStatusOpen, ms_Version = 2, ms_LobbyEnabled = True,
     ms_Locked = False, ms_CreateKey = ''create-key-00001'', ms_CreateFingerprint = replicate 32 CHR ''c'',
     ms_CreatedBy = 7, ms_UpdatedBy = 7, ms_OpenedAt = Some 200, ms_OpenedBy = Some 7, ms_EndedAt = None,
     ms_EndedBy = None, ms_CancelledAt = None, ms_CancelledBy = None, ms_CreatedAt = 100,
     ms_UpdatedAt = 200\<rparr>"

definition ex_room :: room_row where
  "ex_room = \<lparr>rm_ID = 30, rm_TenantID = 1, rm_SpaceID = 20, rm_AttemptNumber = 1,
     rm_Status = RoomInstanceActive, rm_Version = 2, rm_ProviderRoomName = opaqueProviderRoomName 30,
     rm_ProviderRoomSID = Some ''RM_1'', rm_CreatedBy = 7, rm_UpdatedBy = 7, rm_ActivatedAt = Some 300,
     rm_ClosingAt = None, rm_EndedAt = None, rm_FailedAt = None, rm_FailureCode = None,
     rm_ProjectionVersion = 1, rm_NextRosterSequence = 0, rm_CreatedAt = 200, rm_UpdatedAt = 300\<rparr>"

definition ex_running :: "class_tables media_db" where
  "ex_running = ex_db0\<lparr>md_spaces := [ex_space], md_rooms := [ex_room],
     md_receipts := [transition_receipt \<lparr>tc_TenantID = 1, tc_ActorID = 7\<rparr> ex_start 2 30],
     md_events := [\<lparr>ev_Type = ''media_space.created.v1'', ev_TenantID = 1, ev_AggregateID = 20, ev_ActorID = 7,
         ev_SpaceID = Some 20, ev_RoomID = None, ev_TargetID = None, ev_Status = ''scheduled'', ev_Version = 1,
         ev_ReasonCode = [], ev_SafetyAction = False, ev_OccurredAt = 100\<rparr>,
       \<lparr>ev_Type = ''media_space.started.v1'', ev_TenantID = 1, ev_AggregateID = 20, ev_ActorID = 7,
         ev_SpaceID = Some 20, ev_RoomID = None, ev_TargetID = None, ev_Status = ''open'', ev_Version = 2,
         ev_ReasonCode = [], ev_SafetyAction = False, ev_OccurredAt = 200\<rparr>]\<rparr>"

definition same_tables :: "'c media_db \<Rightarrow> 'c media_db \<Rightarrow> bool" where
  "same_tables db db' \<longleftrightarrow> md_spaces db' = md_spaces db \<and> md_rooms db' = md_rooms db \<and>
     md_participants db' = md_participants db \<and> md_admissions db' = md_admissions db \<and>
     md_hands db' = md_hands db \<and> md_receipts db' = md_receipts db \<and> md_members db' = md_members db \<and>
     md_roles db' = md_roles db \<and> md_webhooks db' = md_webhooks db \<and> md_events db' = md_events db"

lemma same_tables_step: "same_tables db db' \<Longrightarrow> media_step sha256 rp db db'"
  by (rule media_step.changed, rule environment_changedI) (simp_all add: same_tables_def)

lemma ex_running_tables: "same_tables ex_db3 ex_running"
  by code_simp

definition ex_db4 :: "class_tables media_db" where
  "ex_db4 = after (CreateOrReuseJoinAttempt ex_hash ex_repo (ex_access 7) 20 (ex_join 40) (ex_ids 40) 400 ex_running)
     ex_running"

definition ex_db5 :: "class_tables media_db" where
  "ex_db5 = after (PrepareCredential ex_repo (ex_access 7) 20 40 500 ex_db4) ex_db4"

definition ex_invited :: "class_tables media_db" where
  "ex_invited = after (InviteMember ex_repo (ex_access 7) ex_invite ex_running) ex_running"

definition ex_db6 :: "class_tables media_db" where
  "ex_db6 = after (CreateOrReuseJoinAttempt ex_hash ex_repo (ex_access 8) 20 (ex_join 50) (ex_ids 50) 600 ex_invited)
     ex_invited"

definition ex_db7 :: "class_tables media_db" where
  "ex_db7 = after (TransitionSpace ex_repo (ex_access 7) ex_end ex_db4) ex_db4"

lemma after_ok: "is_ok r \<Longrightarrow> \<exists>x. r = Inr (x, after r db)"
  by (auto simp: is_ok_conv after_def split: sum.splits)

lemma ex_ok1: "is_ok (CreateSpace ex_repo (ex_access 7) ex_create ex_db0)"
  by code_simp

lemma ex_ok2: "is_ok (TransitionSpace ex_repo (ex_access 7) ex_start ex_db1)"
  by code_simp

lemma ex_ok3: "is_ok (ActivateRoomInstance ex_repo (ex_access 7) 20 30 ''RM_1'' 300 ex_db2)"
  by code_simp

lemma ex_ok4: "is_ok (CreateOrReuseJoinAttempt ex_hash ex_repo (ex_access 7) 20 (ex_join 40) (ex_ids 40) 400 ex_running)"
  by code_simp

lemma ex_ok5: "is_ok (PrepareCredential ex_repo (ex_access 7) 20 40 500 ex_db4)"
  by code_simp

lemma ex_ok6: "is_ok (CreateOrReuseJoinAttempt ex_hash ex_repo (ex_access 8) 20 (ex_join 50) (ex_ids 50) 600 ex_invited)"
  by code_simp

lemma ex_ok_invite: "is_ok (InviteMember ex_repo (ex_access 7) ex_invite ex_running)"
  by code_simp

lemma ex_ok7: "is_ok (TransitionSpace ex_repo (ex_access 7) ex_end ex_db4)"
  by code_simp

lemma ex_call1: "\<exists>space created. CreateSpace ex_repo (ex_access 7) ex_create ex_db0 = Inr ((space, created), ex_db1)"
  using after_ok[OF ex_ok1, of ex_db0] by (auto simp: ex_db1_def)

lemma ex_call_invite: "\<exists>member. InviteMember ex_repo (ex_access 7) ex_invite ex_running = Inr (member, ex_invited)"
  using after_ok[OF ex_ok_invite, of ex_running] by (auto simp: ex_invited_def)

lemma ex_call2: "\<exists>space. TransitionSpace ex_repo (ex_access 7) ex_start ex_db1 = Inr (space, ex_db2)"
  using after_ok[OF ex_ok2, of ex_db1] by (auto simp: ex_db2_def)

lemma ex_call3: "\<exists>space. ActivateRoomInstance ex_repo (ex_access 7) 20 30 ''RM_1'' 300 ex_db2 = Inr (space, ex_db3)"
  using after_ok[OF ex_ok3, of ex_db2] by (auto simp: ex_db3_def)

lemma ex_call4: "\<exists>attempt new. CreateOrReuseJoinAttempt ex_hash ex_repo (ex_access 7) 20 (ex_join 40) (ex_ids 40)
    400 ex_running = Inr ((attempt, new), ex_db4)"
  using after_ok[OF ex_ok4, of ex_running] by (auto simp: ex_db4_def)

lemma ex_call5: "\<exists>grant. PrepareCredential ex_repo (ex_access 7) 20 40 500 ex_db4 = Inr (grant, ex_db5)"
  using after_ok[OF ex_ok5, of ex_db4] by (auto simp: ex_db5_def)

lemma ex_call6: "\<exists>attempt new. CreateOrReuseJoinAttempt ex_hash ex_repo (ex_access 8) 20 (ex_join 50) (ex_ids 50)
    600 ex_invited = Inr ((attempt, new), ex_db6)"
  using after_ok[OF ex_ok6, of ex_invited] by (auto simp: ex_db6_def)

lemma ex_call7: "\<exists>space. TransitionSpace ex_repo (ex_access 7) ex_end ex_db4 = Inr (space, ex_db7)"
  using after_ok[OF ex_ok7, of ex_db4] by (auto simp: ex_db7_def)

lemma ex_steps:
  "media_step ex_hash ex_repo ex_db0 ex_db1" "media_step ex_hash ex_repo ex_db1 ex_db2"
  "media_step ex_hash ex_repo ex_db2 ex_db3" "media_step ex_hash ex_repo ex_running ex_db4"
  "media_step ex_hash ex_repo ex_db4 ex_db5" "media_step ex_hash ex_repo ex_invited ex_db6"
  "media_step ex_hash ex_repo ex_db4 ex_db7" "media_step ex_hash ex_repo ex_running ex_invited"
  "media_step ex_hash ex_repo ex_db3 ex_running"
  using ex_call1 ex_call2 ex_call3 ex_call4 ex_call5 ex_call6 ex_call7 ex_call_invite
    same_tables_step[OF ex_running_tables]
  by (blast intro: media_step.intros)+

lemma media_run_trans: "media_run h rp b c \<Longrightarrow> media_run h rp a b \<Longrightarrow> media_run h rp a c"
  by (induction rule: media_run.induct) (auto intro: media_run.step)

lemma ex_reachable:
  "media_reachable ex_hash ex_repo ex_db0" "media_reachable ex_hash ex_repo ex_db1"
  "media_reachable ex_hash ex_repo ex_db2" "media_reachable ex_hash ex_repo ex_db3"
  "media_reachable ex_hash ex_repo ex_db4" "media_reachable ex_hash ex_repo ex_db5"
  "media_reachable ex_hash ex_repo ex_db6" "media_reachable ex_hash ex_repo ex_db7"
  "media_reachable ex_hash ex_repo ex_running"
proof -
  have "media_init ex_db0" by (simp add: media_init_def ex_db0_def)
  then show r0: "media_reachable ex_hash ex_repo ex_db0"
    unfolding media_reachable_def using media_run.refl by blast
  show r1: "media_reachable ex_hash ex_repo ex_db1"
    by (rule reachable_step[OF r0 ex_steps(1)])
  show r2: "media_reachable ex_hash ex_repo ex_db2" by (rule reachable_step[OF r1 ex_steps(2)])
  show r3: "media_reachable ex_hash ex_repo ex_db3" by (rule reachable_step[OF r2 ex_steps(3)])
  show r: "media_reachable ex_hash ex_repo ex_running" by (rule reachable_step[OF r3 ex_steps(9)])
  show r4: "media_reachable ex_hash ex_repo ex_db4" by (rule reachable_step[OF r ex_steps(4)])
  show "media_reachable ex_hash ex_repo ex_db5" by (rule reachable_step[OF r4 ex_steps(5)])
  show "media_reachable ex_hash ex_repo ex_db6" 
    by (rule reachable_step[OF reachable_step[OF r ex_steps(8)] ex_steps(6)])
  show "media_reachable ex_hash ex_repo ex_db7" by (rule reachable_step[OF r4 ex_steps(7)])
qed

text \<open>Facts about the states that the witnesses use, each state evaluated once.\<close>

definition ex_facts4 :: "'c media_db \<Rightarrow> bool" where
  "ex_facts4 db \<longleftrightarrow> list_ex (\<lambda>p. participant_active p \<and> pa_UserID p = 7) (md_participants db) \<and>
     find_receipt db \<lparr>tc_TenantID = 1, tc_ActorID = 7\<rparr> ''end-key-00000001'' = None \<and>
     count_where (reserved_participant 1) (md_participants db) = 1"

definition ex_facts7 :: "'c media_db \<Rightarrow> bool" where
  "ex_facts7 db \<longleftrightarrow> map_option ms_Status (loadSpace db 1 20) = Some SpaceStatusEnded \<and>
     length (rooms_of db 1 20) = 1"

lemma ex_facts4: "ex_facts4 ex_db4"
  by code_simp

lemma ex_facts7: "ex_facts7 ex_db7"
  by code_simp

end
