(* ===== verification/Media_Properties.thy ===== *)
theory Media_Properties imports Media_Example begin

section \<open>What the media component guarantees\<close>

text \<open>
  The properties of the lifecycle of a media space: the refinement of the abstract machine, the
  history of a space, its final states, and the version and the idempotency key of a transition.
\<close>

subsection \<open>Lifecycle\<close>

text \<open>
  C1.  Refinement: in every state the program can reach, whatever transaction runs next moves
  the lifecycle of at most one space, by one step of the abstract machine: a space is created
  scheduled; it is started with a first room or cancelled; its room is activated or fails; a
  failed room is replaced on recovery; and it ends, for good.
\<close>

theorem media_refines_lifecycle:
  assumes "media_reachable sha256 rp db" and "media_step sha256 rp db db'"
  shows "lifecycle_step (lifecycle_of db) (lifecycle_of db')"
  using media_step_sound[OF assms(2) media_reachable_orderly[OF assms(1)]] by (simp add: sound_step_def)

theorem media_refines_lifecycle_witness:
  "lifecycle_step (lifecycle_of ex_db2) (lifecycle_of ex_db3) \<and>
   lifecycle_of ex_db2 (1, 20) = Some (SpaceStatusOpen, [RoomInstanceProvisioning]) \<and>
   lifecycle_of ex_db3 (1, 20) = Some (SpaceStatusOpen, [RoomInstanceActive])"
proof (intro conjI)
  show "lifecycle_step (lifecycle_of ex_db2) (lifecycle_of ex_db3)"
    by (rule media_refines_lifecycle[OF ex_reachable(3) ex_steps(3)])
  show "lifecycle_of ex_db2 (1, 20) = Some (SpaceStatusOpen, [RoomInstanceProvisioning])"
    by code_simp
  show "lifecycle_of ex_db3 (1, 20) = Some (SpaceStatusOpen, [RoomInstanceActive])"
    by code_simp
qed

text \<open>
  C6.  The history of a space: its rooms are numbered 1, 2, ... without gaps, a space that was
  never opened has none, an open space has failed rooms followed by one that is provisioned,
  active or failed, and an ended space has only failed rooms before the last.
\<close>

theorem media_space_history:
  assumes "media_reachable sha256 rp db" and "loadSpace db t s = Some row"
  shows "history_ok (ms_Status row, map rm_Status (rooms_of db t s)) \<and>
    map rm_AttemptNumber (rooms_of db t s) = map int [1..<Suc (length (rooms_of db t s))]"
proof -
  have inv: "media_inv db" by (rule media_reachable_inv[OF assms(1)])
  have "numbered db" by (rule media_invD(7)[OF inv])
  then have "map rm_AttemptNumber (rooms_of db t s) = map int [1..<Suc (length (rooms_of db t s))]"
    unfolding numbered_def by blast
  with history_of_space(2)[OF inv assms(2)] show ?thesis by blast
qed

theorem media_space_history_witness:
  "\<exists>row. loadSpace ex_db7 1 20 = Some row \<and> ms_Status row = SpaceStatusEnded \<and>
     history_ok (SpaceStatusEnded, map rm_Status (rooms_of ex_db7 1 20)) \<and>
     map rm_AttemptNumber (rooms_of ex_db7 1 20) = [1]"
proof -
  obtain row where row: "loadSpace ex_db7 1 20 = Some row" "ms_Status row = SpaceStatusEnded"
    and one: "length (rooms_of ex_db7 1 20) = 1" using ex_facts7 by (auto simp: ex_facts7_def)
  from media_space_history[OF ex_reachable(8) row(1)] row one show ?thesis by simp
qed

text \<open>
  C7.  Whoever holds a place is in the room that is running: an active participant, waiting,
  admitted, joining, connected or reconnecting, is in an active room, the last one of an open
  space.  Ending a space or losing its room leaves nobody behind.
\<close>

theorem present_only_in_running_room:
  assumes "media_reachable sha256 rp db" and "p \<in> set (md_participants db)" and "participant_active p"
  shows "\<exists>row pre room. loadSpace db (pa_TenantID p) (pa_SpaceID p) = Some row \<and>
    ms_Status row = SpaceStatusOpen \<and> rooms_of db (pa_TenantID p) (pa_SpaceID p) = pre @ [room] \<and>
    rm_ID room = pa_RoomID p \<and> rm_Status room = RoomInstanceActive"
proof -
  have inv: "media_inv db" by (rule media_reachable_inv[OF assms(1)])
  with assms(2,3) obtain room where room: "room \<in> set (md_rooms db)" "rm_TenantID room = pa_TenantID p"
    "rm_SpaceID room = pa_SpaceID p" "rm_ID room = pa_RoomID p" "rm_Status room = RoomInstanceActive"
    using media_invD(9)[OF inv] by (auto simp: attended_def in_use_def)
  from live_room_last[OF inv room(1)] room show ?thesis by auto
qed

theorem present_only_in_running_room_witness:
  "\<exists>p row. p \<in> set (md_participants ex_db4) \<and> pa_UserID p = 7 \<and>
     loadSpace ex_db4 (pa_TenantID p) (pa_SpaceID p) = Some row \<and> ms_Status row = SpaceStatusOpen"
proof -
  obtain p where "p \<in> set (md_participants ex_db4)" "participant_active p" "pa_UserID p = 7"
    using ex_facts4 by (auto simp: ex_facts4_def list_ex_iff)
  with present_only_in_running_room[OF ex_reachable(5)] show ?thesis by blast
qed

text \<open>
  C22.  Ended and cancelled are final: however the program goes on, the space keeps its status
  and its rooms keep theirs.
\<close>

theorem closed_space_stays_closed:
  assumes "media_reachable sha256 rp db" and "media_run sha256 rp db db'"
    and "loadSpace db t s = Some row" and "ms_Status row \<in> {SpaceStatusEnded, SpaceStatusCancelled}"
  shows "\<exists>row'. loadSpace db' t s = Some row' \<and> ms_Status row' = ms_Status row \<and>
    map rm_Status (rooms_of db' t s) = map rm_Status (rooms_of db t s)"
proof -
  have inv: "media_inv db" by (rule media_reachable_inv[OF assms(1)])
  have "lifecycle_of db' (t, s) = Some (ms_Status row, map rm_Status (rooms_of db t s))"
    using media_run_terminal[OF assms(2) media_reachable_orderly[OF assms(1)]] assms(3,4) by (simp add: lifecycle_of_Some)
  then show ?thesis by (auto simp: lifecycle_of_Some)
qed

theorem closed_space_stays_closed_witness:
  "\<exists>row. loadSpace ex_db7 1 20 = Some row \<and> ms_Status row = SpaceStatusEnded"
proof -
  obtain row where "loadSpace ex_db7 1 20 = Some row" "ms_Status row = SpaceStatusEnded"
    using ex_facts7 by (auto simp: ex_facts7_def)
  with closed_space_stays_closed[OF ex_reachable(8) media_run.refl] show ?thesis by auto
qed

subsection \<open>Concurrent requests\<close>




text \<open>
  C3.  Exactly once: after a transition has succeeded, any later request of the same actor with
  the same idempotency key changes nothing, and it succeeds only for the same operation on the
  same space with the same fingerprint.
\<close>

theorem transition_exactly_once:
  assumes "media_reachable sha256 rp db"
    and "TransitionSpace rp access command db = Inr (x, db1)"
    and "media_run sha256 rp db1 db2"
    and "TransitionSpace rp access' command' db2 = Inr (y, db3)"
    and "ac_TenantID access' = ac_TenantID access" and "ac_ActorID access' = ac_ActorID access"
    and "tr_IdempotencyKey command' = tr_IdempotencyKey command"
  shows "db3 = db2 \<and> tr_Operation command' = tr_Operation command \<and>
    tr_SpaceID command' = tr_SpaceID command \<and> tr_Fingerprint command' = tr_Fingerprint command"
proof -
  let ?key = "(ac_TenantID access, ac_ActorID access, tr_IdempotencyKey command)"
  have inv: "media_inv db" by (rule media_reachable_inv[OF assms(1)])
  have r1: "media_reachable sha256 rp db1" by (rule reachable_step[OF assms(1) media_step.transitioned[OF assms(2)]])
  have inv2: "media_inv db2" by (rule media_reachable_inv[OF reachable_run[OF r1 assms(3)]])
  have "\<exists>r\<in>set (md_receipts db1). receipt_key r = ?key \<and> receipt_matches (scope_of access) command r"
  proof (cases "find_receipt db (scope_of access) (tr_IdempotencyKey command)")
    case None
    with TransitionSpace_effect[OF assms(2)] obtain db0 v rid where
      "db1 = db0\<lparr>md_receipts := md_receipts db0 @ [transition_receipt (scope_of access) command v rid]\<rparr>" by auto
    then show ?thesis by (simp add: transition_receipt_def Let_def receipt_key_def receipt_matches_def)
  next
    case (Some r)
    with TransitionSpace_effect[OF assms(2)] find_receipt_Some[OF Some] show ?thesis
      by (auto simp: receipt_key_def)
  qed
  then obtain r where r: "r \<in> set (md_receipts db1)" "receipt_key r = ?key"
    "receipt_matches (scope_of access) command r" by blast
  obtain new where "map receipt_identity (md_receipts db2) = map receipt_identity (md_receipts db1) @ new"
    using media_run_remembered[OF assms(3) media_reachable_orderly[OF r1]] by (auto simp: remembered_def receipts_kept_def)
  from arg_cong[where f = set, OF this] have "receipt_identity r \<in> set (map receipt_identity (md_receipts db2))"
    using r(1) by auto
  then obtain r' where r': "r' \<in> set (md_receipts db2)" "receipt_identity r' = receipt_identity r" by auto
  have "unique_index (\<lambda>_. True) receipt_key (md_receipts db2)"
    using media_invD(5)[OF inv2] by (simp add: receipts_ok_def)
  from unique_index_find[OF this r'(1)]
  have "find_receipt db2 (scope_of access') (tr_IdempotencyKey command') = Some r'"
    using r(2) r'(2) by (simp add: find_receipt_def assms(5-7) receipt_identity_def)
  with TransitionSpace_effect[OF assms(4)] r(3) r'(2) show ?thesis
    by (auto simp: receipt_matches_def receipt_identity_def)
qed

theorem transition_exactly_once_witness:
  "\<exists>y db3. TransitionSpace ex_repo (ex_access 7) ex_start ex_db3 = Inr (y, db3) \<and> db3 = ex_db3"
proof -
  obtain x where x: "TransitionSpace ex_repo (ex_access 7) ex_start ex_db1 = Inr (x, ex_db2)"
    using ex_call2 by blast
  have "is_ok (TransitionSpace ex_repo (ex_access 7) ex_start ex_db3)" by code_simp
  then obtain y db3 where y: "TransitionSpace ex_repo (ex_access 7) ex_start ex_db3 = Inr (y, db3)"
    by (auto simp: is_ok_conv)
  have "media_run ex_hash ex_repo ex_db2 ex_db3" using ex_steps(3) media_run.refl media_run.step by metis
  from transition_exactly_once[OF ex_reachable(2) x this y] y show ?thesis by blast
qed

end
