(* ===== verification/Media_Entitlement.thy ===== *)
theory Media_Entitlement imports Media_Effects begin

section \<open>Whose authority a space follows\<close>

text \<open>
  What it means that somebody is entitled to act on a space, in terms of the rows: the class of its
  session or series and what the policy grants there, or the owner of its study meeting.  What
  \<open>authorizeSource\<close> accepts is compared with it under the contract of the classroom (locale
  \<open>class_authority\<close>), which the classroom's model then discharges.
\<close>

abbreviation class_kind :: "source_kind \<Rightarrow> bool" where
  "class_kind k \<equiv> k \<in> {SourceClassSession, SourceClassSessionOccurrence}"

text \<open>The class of the session or series that the row of a space names.\<close>

definition space_class :: "class_tables \<Rightarrow> space_row \<Rightarrow> uuid option" where
  "space_class kt row =
     (case sr_Kind (ms_Source row) of
        SourceClassSession \<Rightarrow> (case sr_ClassSessionID (ms_Source row) of None \<Rightarrow> None
          | Some i \<Rightarrow> map_option cn_ClassID (kt_sessions kt (ms_TenantID row, i)))
      | SourceClassSessionOccurrence \<Rightarrow> (case sr_SeriesID (ms_Source row) of None \<Rightarrow> None
          | Some i \<Rightarrow> map_option cr_ClassID (kt_series kt (ms_TenantID row, i)))
      | _ \<Rightarrow> None)"

lemma space_class_of_source:
  "class_of_source kt (ms_TenantID row) (media_reference row) = Some classID \<Longrightarrow> space_class kt row = Some classID"
  by (auto simp: class_of_source_def space_class_def media_reference_def Let_def
      split: source_kind.split_asm option.split_asm if_split_asm)

text \<open>The study meeting of a space.\<close>

definition space_meeting :: "'c media_db \<Rightarrow> space_row \<Rightarrow> meeting_row option" where
  "space_meeting db row = (case sr_StudyMeetingID (ms_Source row) of None \<Rightarrow> None
     | Some i \<Rightarrow> loadStudyMeeting db (ms_TenantID row) i)"

text \<open>Within the class of a study meeting the policy is asked for the action or for a view.\<close>

definition meeting_permission :: "permission \<Rightarrow> permission" where
  "meeting_permission p = (if p = PermissionSessionStart \<or> p = PermissionSessionJoin then p else PermissionClassView)"

text \<open>
  Who may change a space with a study meeting: its owner, or for a safety end an administrator of the
  organization; if the meeting belongs to a class, the policy has to grant the action there as well.
\<close>

definition meeting_authority ::
  "class_tables media_db \<Rightarrow> organization_role list \<Rightarrow> tenant_context \<Rightarrow> space_row \<Rightarrow> permission \<Rightarrow> bool \<Rightarrow> bool" where
  "meeting_authority db roles scope row p safety \<longleftrightarrow>
     (case space_meeting db row of None \<Rightarrow> False
      | Some m \<Rightarrow> (mt_OwnerUserID m = tc_ActorID scope \<or> safety \<and> OrganizationRoleAdmin \<in> set roles) \<and>
          (case mt_ClassID m of None \<Rightarrow> True
           | Some classID \<Rightarrow> class_entitled (md_controls db) (md_classes db) scope classID (meeting_permission p)))"

text \<open>
  Who is a safety administrator towards a space: an administrator of the organization who neither
  owns nor co-teaches its class, and does not own its study meeting.
\<close>

definition safety_role :: "class_tables media_db \<Rightarrow> organization_role list \<Rightarrow> tenant_context \<Rightarrow> space_row \<Rightarrow> bool" where
  "safety_role db roles scope row \<longleftrightarrow> OrganizationRoleAdmin \<in> set roles \<and>
     (if class_kind (sr_Kind (ms_Source row))
      then (case space_class (md_classes db) row of None \<Rightarrow> False
        | Some classID \<Rightarrow> class_role_of (md_classes db) scope classID \<notin> {Some ClassRoleOwner, Some ClassRoleCoTeacher})
      else (case space_meeting db row of None \<Rightarrow> False | Some m \<Rightarrow> mt_OwnerUserID m \<noteq> tc_ActorID scope))"

context class_authority begin

lemma authorizeSource_class:
  assumes "authorizeSource rp db access scope row action mutating safety = Inr source"
    and "rp_ClassSources rp = cs" and "class_kind (sr_Kind (ms_Source row))"
  shows "\<exists>classID. class_of (md_classes db) (tc_TenantID scope) (media_reference row) = Some classID \<and>
    entitled (md_controls db) (md_classes db) scope classID action \<and>
    as_SafetyAdmin source = classSafetyAdmin (class_role (md_classes db) scope classID) (ac_OrganizationRoles access)"
proof -
  obtain sn where sn: "src_ResolveMediaSource cs (md_controls db) (md_classes db) scope (media_reference row) action = Inr sn"
    and s: "as_SafetyAdmin source = classSafetyAdmin (mn_ClassRole sn) (ac_OrganizationRoles access)"
    using assms by (auto simp: authorizeSource_def authorizeClassSource_def Let_def split: if_split_asm)
  from resolve_entitled[OF sn] resolve_class[OF sn] s show ?thesis by auto
qed

lemma authorizeSource_meeting:
  assumes "authorizeSource rp db access scope row action mutating safety = Inr source"
    and "rp_ClassSources rp = cs" and "\<not> class_kind (sr_Kind (ms_Source row))" and "ms_TenantID row = tc_TenantID scope"
  shows "\<exists>m. space_meeting db row = Some m \<and>
    (mutating \<longrightarrow> mt_OwnerUserID m = tc_ActorID scope \<or> safety \<and> OrganizationRoleAdmin \<in> set (ac_OrganizationRoles access)) \<and>
    (\<forall>classID. mt_ClassID m = Some classID \<longrightarrow>
       entitled (md_controls db) (md_classes db) scope classID (meeting_permission action)) \<and>
    (as_SafetyAdmin source \<longleftrightarrow>
       OrganizationRoleAdmin \<in> set (ac_OrganizationRoles access) \<and> mt_OwnerUserID m \<noteq> tc_ActorID scope)"
  using assms authorize_entitled
  by (auto simp: authorizeSource_def authorizeMeetingSource_def space_meeting_def meeting_permission_def Let_def
      hasOrganizationRole_def split: if_split_asm option.split_asm)

end

lemma authorized_space:
  assumes "authorizeSource rp db access scope row action True safety = Inr source"
    and "rp_ClassSources rp = classroom_sources" and "ms_TenantID row = tc_TenantID scope"
  shows "if class_kind (sr_Kind (ms_Source row))
    then \<exists>classID. space_class (md_classes db) row = Some classID \<and>
      class_entitled (md_controls db) (md_classes db) scope classID action
    else meeting_authority db (ac_OrganizationRoles access) scope row action safety"
proof (cases "class_kind (sr_Kind (ms_Source row))")
  case True
  from classroom.authorizeSource_class[OF assms(1,2) True] space_class_of_source[of "md_classes db" row] assms(3) True
  show ?thesis by auto
next
  case False
  from classroom.authorizeSource_meeting[OF assms(1,2) False assms(3)] False show ?thesis
    by (auto simp: meeting_authority_def split: option.split)
qed

lemma authorized_safety:
  assumes "authorizeSource rp db access scope row action mutating safety = Inr source" and "as_SafetyAdmin source"
    and "rp_ClassSources rp = classroom_sources" and "ms_TenantID row = tc_TenantID scope"
  shows "safety_role db (ac_OrganizationRoles access) scope row"
proof (cases "class_kind (sr_Kind (ms_Source row))")
  case True
  from classroom.authorizeSource_class[OF assms(1,3) True] space_class_of_source[of "md_classes db" row] assms(2,4) True
  show ?thesis
    by (auto simp: safety_role_def classSafetyAdmin_def hasOrganizationRole_def split: if_split_asm option.split_asm)
next
  case False
  from classroom.authorizeSource_meeting[OF assms(1,3) False assms(4)] assms(2) False show ?thesis
    by (auto simp: safety_role_def)
qed

end
