(* ===== verification/Media_Authorization.thy ===== *)
theory Media_Authorization imports Media_Example Media_Entitlement begin

section \<open>Who may change a space\<close>

text \<open>
  The authorization of the media component rests on the contract of the classroom component
  (locale \<open>class_authority\<close>): what follows is proved from that contract and then applied to the
  classroom model.
\<close>

subsection \<open>From the contract of the class sources\<close>

context class_authority begin

lemma authorizeSource_session:
  assumes "authorizeSource rp db access scope row action mutating safety = Inr source"
    and "rp_ClassSources rp = cs" and "sr_Kind (ms_Source row) = SourceClassSession"
    and "sr_ClassSessionID (ms_Source row) = Some i"
  shows "as_Kind source = SourceClassSession \<and> as_ClassSessionID source = i \<and>
    (\<exists>st. status (md_classes db) (tc_TenantID scope, i) = Some st \<and> as_Status source = session_status_string st)"
proof -
  obtain sn where sn: "src_ResolveMediaSource cs (md_controls db) (md_classes db) scope (media_reference row) action = Inr sn"
    and s: "as_Kind source = SourceClassSession" "as_ClassSessionID source = mn_ClassSessionID sn"
      "as_Status source = session_status_string (mn_Status sn)"
    using assms by (auto simp: authorizeSource_def authorizeClassSource_def Let_def split: if_split_asm)
  have "mr_Kind (media_reference row) = SourceClassSession" "mr_ClassSessionID (media_reference row) = i"
    using assms(3,4) by (simp_all add: media_reference_def Let_def)
  with resolve_status[OF sn] s show ?thesis by auto
qed

text \<open>Starting a space starts its session, and ending it ends a session that is live.\<close>

lemma startSpace_session:
  assumes start: "startSpace rp access scope row command db = Inr ((updated, rid), db')"
    and row: "loadSpace db (tc_TenantID scope) (ms_ID row) = Some row" "spaces_ok (md_spaces db)"
    and cs: "rp_ClassSources rp = cs"
    and src: "sr_Kind (ms_Source row) = SourceClassSession" "sr_ClassSessionID (ms_Source row) = Some i"
  shows "status (md_classes db) (tc_TenantID scope, i) = Some SessionStatusScheduled \<and>
    status (md_classes db') = (status (md_classes db))((tc_TenantID scope, i) \<mapsto> SessionStatusLive)"
proof -
  from startSpace_effect[OF start row] obtain source classes where
    auth: "authorizeSource rp db access scope row PermissionSessionStart True False = Inr source"
    and cl: "if as_Kind source = SourceClassSession
     then src_TransitionMediaSession (rp_ClassSources rp) scope (as_ClassSessionID source)
       SessionStatusScheduled SessionStatusLive (tr_OccurredAt command) (md_classes db) = Inr classes
     else classes = md_classes db"
    and db': "md_classes db' = classes" by (elim exE conjE) simp
  from authorizeSource_session[OF auth cs src] have "as_Kind source = SourceClassSession" "as_ClassSessionID source = i"
    by auto
  with cl have "src_TransitionMediaSession cs scope i SessionStatusScheduled SessionStatusLive
      (tr_OccurredAt command) (md_classes db) = Inr classes" by (simp add: cs)
  from transition_moves[OF this] show ?thesis by (simp add: db')
qed

lemma session_status_string_live: "session_status_string st = ''live'' \<longleftrightarrow> st = SessionStatusLive"
  by (cases st) simp_all

lemma endSpace_session:
  assumes ended: "endSpace rp access scope row command db = Inr ((updated, rid), db')"
    and row: "loadSpace db (tc_TenantID scope) (ms_ID row) = Some row" "spaces_ok (md_spaces db)" "rooms_ok (md_rooms db)"
    and cs: "rp_ClassSources rp = cs"
    and src: "sr_Kind (ms_Source row) = SourceClassSession" "sr_ClassSessionID (ms_Source row) = Some i"
  shows "status (md_classes db') = (if status (md_classes db) (tc_TenantID scope, i) = Some SessionStatusLive
    then (status (md_classes db))((tc_TenantID scope, i) \<mapsto> SessionStatusEnded) else status (md_classes db))"
proof -
  from endSpace_effect[OF ended row] obtain source classes where
    auth: "authorizeSource rp db access scope row PermissionSessionEnd True True = Inr source"
    and cl: "if as_Kind source = SourceClassSession \<and> as_Status source = ''live''
     then src_TransitionMediaSession (rp_ClassSources rp) scope (as_ClassSessionID source)
       SessionStatusLive SessionStatusEnded (tr_OccurredAt command) (md_classes db) = Inr classes
     else classes = md_classes db"
    and db': "md_classes db' = classes" by (elim exE conjE) simp
  from authorizeSource_session[OF auth cs src] obtain st where st: "as_Kind source = SourceClassSession"
    "as_ClassSessionID source = i" "status (md_classes db) (tc_TenantID scope, i) = Some st"
    "as_Status source = session_status_string st" by auto
  show ?thesis
  proof (cases "st = SessionStatusLive")
    case True
    with cl st have "src_TransitionMediaSession cs scope i SessionStatusLive SessionStatusEnded
        (tr_OccurredAt command) (md_classes db) = Inr classes" by (simp add: cs)
    from transition_moves[OF this] st True show ?thesis by (simp add: db')
  next
    case False
    with cl st show ?thesis by (simp add: db' session_status_string_live)
  qed
qed

end

subsection \<open>Properties\<close>

definition transition_permission :: "string \<Rightarrow> permission" where
  "transition_permission operation =
     (if operation = ''start'' \<or> operation = ''recover'' then PermissionSessionStart else PermissionSessionEnd)"

lemma run_transition_authorized:
  assumes "run_transition rp access scope row command db = Inr result"
  shows "\<exists>source. authorizeSource rp db access scope row (transition_permission (tr_Operation command)) True
    (tr_Operation command = ''end'') = Inr source"
proof -
  obtain u where "run_transition rp access scope row command db = Inr u" using assms by blast
  then show ?thesis
    by (auto simp: run_transition_def startSpace_def endSpace_def cancelSpace_def recoverSpace_def Let_def
        transition_permission_def split: if_split_asm)
qed

text \<open>
  C2.  Only authorized actors change a space: whoever carries out a transition is an active
  member of the space's active tenant.  For a space of a session or series, the classroom's policy
  grants the action (to start a session for start and recover, to end one otherwise) on the very
  class that this session or series belongs to.  For a study meeting, the actor owns it, or is an
  administrator of the organization who only ends the space; and where the meeting belongs to a
  class, the policy lets the actor act in or view that class.
\<close>

theorem transition_authorized:
  assumes "TransitionSpace rp access command db = Inr (x, db')"
    and "find_receipt db (scope_of access) (tr_IdempotencyKey command) = None"
    and "rp_ClassSources rp = classroom_sources"
  shows "\<exists>row role. loadSpace db (ac_TenantID access) (tr_SpaceID command) = Some row \<and>
    cd_tenants (md_controls db) (ac_TenantID access) = Some ''active'' \<and>
    cd_memberships (md_controls db) (ac_TenantID access, ac_ActorID access) = Some (role, ''active'') \<and>
    (if class_kind (sr_Kind (ms_Source row))
     then \<exists>classID. space_class (md_classes db) row = Some classID \<and>
       class_entitled (md_controls db) (md_classes db) (scope_of access) classID
         (transition_permission (tr_Operation command))
     else meeting_authority db [role] (scope_of access) row
       (transition_permission (tr_Operation command)) (tr_Operation command = ''end''))"
proof -
  from TransitionSpace_effect[OF assms(1)] assms(2) obtain access' row updated rid db1 where
    a: "requireActiveScope db access = Inr (access', scope_of access)"
    and row: "loadSpace db (ac_TenantID access) (tr_SpaceID command) = Some row"
    and run: "run_transition rp access' (scope_of access) row command db = Inr ((updated, rid), db1)" by auto
  obtain role where role: "cd_memberships (md_controls db) (ac_TenantID access, ac_ActorID access) = Some (role, ''active'')"
    "ac_OrganizationRoles access' = [role]" using requireActiveScope_Inr(5)[OF a] by auto
  obtain source where auth: "authorizeSource rp db access' (scope_of access) row
      (transition_permission (tr_Operation command)) True (tr_Operation command = ''end'') = Inr source"
    using run_transition_authorized[OF run] ..
  have "ms_TenantID row = tc_TenantID (scope_of access)" using loadSpace_Some[OF row] by simp
  from authorized_space[OF auth assms(3) this] row role requireActiveScope_Inr(4)[OF a] show ?thesis
    by (intro exI[of _ row] exI[of _ role]) auto
qed

theorem transition_authorized_witness:
  "\<exists>row. loadSpace ex_db1 1 20 = Some row \<and> sr_Kind (ms_Source row) = SourceStudyMeeting \<and>
     (\<exists>role. meeting_authority ex_db1 [role] \<lparr>tc_TenantID = 1, tc_ActorID = 7\<rparr> row PermissionSessionStart False)"
proof -
  obtain x where x: "TransitionSpace ex_repo (ex_access 7) ex_start ex_db1 = Inr (x, ex_db2)"
    using ex_call2 by blast
  have fresh: "find_receipt ex_db1 (scope_of (ex_access 7)) (tr_IdempotencyKey ex_start) = None" by code_simp
  have e: "ac_TenantID (ex_access 7) = 1" "ac_ActorID (ex_access 7) = 7" "tr_SpaceID ex_start = 20"
    "(tr_Operation ex_start = ''end'') = False" "transition_permission (tr_Operation ex_start) = PermissionSessionStart"
    "rp_ClassSources ex_repo = classroom_sources"
    by (simp_all add: ex_access_def ex_start_def ex_repo_def transition_permission_def)
  from transition_authorized[OF x fresh e(6), unfolded e(1-5)] obtain row role where
    row: "loadSpace ex_db1 1 20 = Some row" and
    auth: "if class_kind (sr_Kind (ms_Source row))
     then \<exists>classID. space_class (md_classes ex_db1) row = Some classID \<and>
       class_entitled (md_controls ex_db1) (md_classes ex_db1) \<lparr>tc_TenantID = 1, tc_ActorID = 7\<rparr> classID
         PermissionSessionStart
     else meeting_authority ex_db1 [role] \<lparr>tc_TenantID = 1, tc_ActorID = 7\<rparr> row PermissionSessionStart False"
    by blast
  have "map_option (\<lambda>r. sr_Kind (ms_Source r)) (loadSpace ex_db1 1 20) = Some SourceStudyMeeting" by code_simp
  with row have "sr_Kind (ms_Source row) = SourceStudyMeeting" by simp
  with row auth show ?thesis by auto
qed

text \<open>
  C23.  The class session follows its space: starting the space of a one-time session takes the
  session from scheduled to live, ending it takes a live session to ended, cancelling or
  recovering leaves it alone, and no other session changes.
\<close>

theorem transition_moves_session:
  assumes "media_reachable sha256 rp db" and "TransitionSpace rp access command db = Inr (x, db')"
    and "find_receipt db (scope_of access) (tr_IdempotencyKey command) = None"
    and "rp_ClassSources rp = classroom_sources"
    and "loadSpace db (ac_TenantID access) (tr_SpaceID command) = Some row"
    and "sr_Kind (ms_Source row) = SourceClassSession" and "sr_ClassSessionID (ms_Source row) = Some i"
  shows "let before = session_status_of (md_classes db); after = session_status_of (md_classes db') in
    (if tr_Operation command = ''start'' then
       before (ac_TenantID access, i) = Some SessionStatusScheduled \<and>
       after = before((ac_TenantID access, i) \<mapsto> SessionStatusLive)
     else if tr_Operation command = ''end'' \<and> before (ac_TenantID access, i) = Some SessionStatusLive then
       after = before((ac_TenantID access, i) \<mapsto> SessionStatusEnded)
     else after = before)"
proof -
  have inv: "media_inv db" by (rule media_reachable_inv[OF assms(1)])
  note ok = media_invD(1,2)[OF inv]
  from TransitionSpace_effect[OF assms(2)] assms(3,5) obtain access' updated rid db1 where
    run: "run_transition rp access' (scope_of access) row command db = Inr ((updated, rid), db1)"
    and db': "md_classes db' = md_classes db1" by auto
  have row: "loadSpace db (tc_TenantID (scope_of access)) (ms_ID row) = Some row"
    using assms(5) loadSpace_Some[OF assms(5)] by simp
  consider
      "tr_Operation command = ''start''" "startSpace rp access' (scope_of access) row command db = Inr ((updated, rid), db1)"
    | "tr_Operation command = ''end''" "endSpace rp access' (scope_of access) row command db = Inr ((updated, rid), db1)"
    | "tr_Operation command = ''cancel''" "cancelSpace rp access' (scope_of access) row command db = Inr ((updated, rid), db1)"
    | "tr_Operation command = ''recover''" "recoverSpace rp access' (scope_of access) row command db = Inr ((updated, rid), db1)"
    using run by (auto simp: run_transition_def split: if_split_asm)
  then show ?thesis
  proof cases
    case 1
    from classroom.startSpace_session[OF 1(2) row ok(1) assms(4,6,7)] 1(1) show ?thesis by (simp add: db' Let_def)
  next
    case 2
    from classroom.endSpace_session[OF 2(2) row ok assms(4,6,7)] 2(1) show ?thesis by (simp add: db' Let_def)
  next
    case 3
    from cancelSpace_effect[OF 3(2) row ok(1)] 3(1) show ?thesis by (auto simp: db' Let_def)
  next
    case 4
    from recoverSpace_effect[OF 4(2) row ok(1)] 4(1) show ?thesis by (auto simp: db' Let_def)
  qed
qed

definition ex_class_db0 :: "class_tables media_db" where
  "ex_class_db0 = ex_db0\<lparr>md_classes := ex_tables\<lparr>
     kt_classes := [(1, 9) \<mapsto> \<lparr>cl_ID = 9, cl_TenantID = 1, cl_OwnerUserID = 7, cl_Status = ResourceStateActive\<rparr>],
     kt_sessions := [(1, 6) \<mapsto> \<lparr>cn_ClassID = 9, cn_SeriesID = None, cn_Status = SessionStatusScheduled,
       cn_Version = 1, cn_StartsAt = 10, cn_EndsAt = 1000, cn_UpdatedBy = 7, cn_UpdatedAt = 1\<rparr>]\<rparr>\<rparr>"

definition ex_class_create :: create_command where
  "ex_class_create = ex_create\<lparr>cc_Source := (cc_Source ex_create)\<lparr>cs_Kind := SourceClassSession,
     cs_ClassSessionID := 6, cs_StudyMeetingID := 0\<rparr>\<rparr>"

definition ex_class_db1 :: "class_tables media_db" where
  "ex_class_db1 = after (CreateSpace ex_repo (ex_access 7) ex_class_create ex_class_db0) ex_class_db0"

definition ex_class_db2 :: "class_tables media_db" where
  "ex_class_db2 = after (TransitionSpace ex_repo (ex_access 7) ex_start ex_class_db1) ex_class_db1"

lemma ex_class_ok1: "is_ok (CreateSpace ex_repo (ex_access 7) ex_class_create ex_class_db0)"
  by code_simp

lemma ex_class_ok2: "is_ok (TransitionSpace ex_repo (ex_access 7) ex_start ex_class_db1)"
  by code_simp

lemma ex_class_reachable:
  "media_reachable ex_hash ex_repo ex_class_db0" "media_reachable ex_hash ex_repo ex_class_db1"
proof -
  have "media_init ex_class_db0" by (simp add: media_init_def ex_class_db0_def ex_db0_def)
  then show r: "media_reachable ex_hash ex_repo ex_class_db0"
    unfolding media_reachable_def using media_run.refl by blast
  from after_ok[OF ex_class_ok1, of ex_class_db0]
  obtain x where "CreateSpace ex_repo (ex_access 7) ex_class_create ex_class_db0 = Inr (x, ex_class_db1)"
    by (auto simp: ex_class_db1_def)
  then have "media_step ex_hash ex_repo ex_class_db0 ex_class_db1"
    by (cases x) (auto intro: media_step.created)
  with r show "media_reachable ex_hash ex_repo ex_class_db1"
    unfolding media_reachable_def using media_run.step by blast
qed

theorem transition_moves_session_witness:
  "session_status_of (md_classes ex_class_db1) (1, 6) = Some SessionStatusScheduled \<and>
   session_status_of (md_classes ex_class_db2) (1, 6) = Some SessionStatusLive"
proof -
  from after_ok[OF ex_class_ok2, of ex_class_db1]
  obtain x where x: "TransitionSpace ex_repo (ex_access 7) ex_start ex_class_db1 = Inr (x, ex_class_db2)"
    by (auto simp: ex_class_db2_def)
  have fresh: "find_receipt ex_class_db1 (scope_of (ex_access 7)) (tr_IdempotencyKey ex_start) = None"
    by code_simp
  have "map_option (\<lambda>r. (sr_Kind (ms_Source r), sr_ClassSessionID (ms_Source r)))
      (loadSpace ex_class_db1 (ac_TenantID (ex_access 7)) (tr_SpaceID ex_start)) = Some (SourceClassSession, Some 6)"
    by code_simp
  then obtain row where row: "loadSpace ex_class_db1 (ac_TenantID (ex_access 7)) (tr_SpaceID ex_start) = Some row"
    "sr_Kind (ms_Source row) = SourceClassSession" "sr_ClassSessionID (ms_Source row) = Some 6" by auto
  have "rp_ClassSources ex_repo = classroom_sources" by (simp add: ex_repo_def)
  from transition_moves_session[OF ex_class_reachable(2) x fresh this row]
  show ?thesis by (simp add: Let_def ex_start_def ex_access_def)
qed

subsection \<open>Quotas\<close>

lemma requireActiveSpaceCapacity_ok:
  assumes "is_ok (requireActiveSpaceCapacity rp db t n)"
  shows "\<exists>effective. readEffectiveQuota (rp_Controls rp) (md_controls db) t QuotaActiveMediaSpaces = Inr effective \<and>
    count_where (active_space_of t) (md_spaces db) + n \<le> ql_Limit effective"
  using assms by (auto simp: requireActiveSpaceCapacity_def is_ok_conv RequireQuotaAtMost_def split: if_split_asm)

text \<open>
  C33.  A tenant never opens more spaces than its quota: when a space has been created, the
  scheduled and open spaces of the tenant, the new one included, are within the effective
  limit; every other outcome leaves the number as it was.
\<close>

theorem create_within_quota:
  assumes "CreateSpace rp access command db = Inr ((space, True), db')"
  shows "\<exists>effective. readEffectiveQuota (rp_Controls rp) (md_controls db') (ac_TenantID access)
      QuotaActiveMediaSpaces = Inr effective \<and>
    count_where (active_space_of (ac_TenantID access)) (md_spaces db') \<le> ql_Limit effective \<and>
    count_where (active_space_of (ac_TenantID access)) (md_spaces db') =
      count_where (active_space_of (ac_TenantID access)) (md_spaces db) + 1"
proof -
  from CreateSpace_effect[OF assms] obtain controls meetings source classID evs where
    cap: "is_ok (requireActiveSpaceCapacity rp (db\<lparr>md_controls := controls\<rparr>) (ac_TenantID access) 1)"
    and db': "db' = db\<lparr>md_controls := controls, md_meetings := meetings,
          md_spaces := md_spaces db @ [new_space_row (scope_of access) command source classID],
          md_events := md_events db @ evs\<rparr>" by auto
  have "active_space_of (ac_TenantID access) (new_space_row (scope_of access) command source classID)"
    by (simp add: active_space_of_def new_space_row_def)
  with requireActiveSpaceCapacity_ok[OF cap] show ?thesis by (auto simp: db')
qed

theorem create_within_quota_witness:
  "\<exists>effective. readEffectiveQuota (rp_Controls ex_repo) (md_controls ex_db1) 1 QuotaActiveMediaSpaces = Inr effective \<and>
     1 \<le> ql_Limit effective"
proof -
  have "case CreateSpace ex_repo (ex_access 7) ex_create ex_db0 of Inl _ \<Rightarrow> False | Inr ((_, new), _) \<Rightarrow> new"
    by code_simp
  with ex_call1 obtain space where
    "CreateSpace ex_repo (ex_access 7) ex_create ex_db0 = Inr ((space, True), ex_db1)" by auto
  from create_within_quota[OF this] show ?thesis
    by (auto simp: ex_access_def ex_db0_def)
qed

text \<open>
  C34.  Places are limited twice: when an attempt to join has been admitted to the database,
  the places reserved in the tenant and those reserved in the space, the new one included, are
  within their limits, and the actor holds exactly one active place in the room.
\<close>

theorem join_within_quota:
  assumes "media_reachable sha256 rp db"
    and "CreateOrReuseJoinAttempt sha256 rp access spaceID input ids now db = Inr ((attempt, True), db')"
  shows "\<exists>tenantLimit spaceLimit.
    readEffectiveQuota (rp_Controls rp) (md_controls db) (ac_TenantID access) QuotaActiveMediaParticipants =
      Inr tenantLimit \<and>
    readEffectiveQuota (rp_Controls rp) (md_controls db) (ac_TenantID access) QuotaMediaParticipantsPerSpace =
      Inr spaceLimit \<and>
    count_where (reserved_participant (ac_TenantID access)) (md_participants db') \<le> ql_Limit tenantLimit \<and>
    count_where (\<lambda>r. reserved_participant (ac_TenantID access) r \<and> pa_SpaceID r = spaceID) (md_participants db')
      \<le> ql_Limit spaceLimit \<and>
    count_where (\<lambda>r. participant_active r \<and> pa_TenantID r = ac_TenantID access \<and>
      pa_RoomID r = ji_ExpectedRoomInstanceID input \<and> pa_UserID r = ac_ActorID access) (md_participants db') = 1"
proof -
  from CreateOrReuseJoinAttempt_effect[OF assms(2)] obtain space room source where
    space: "loadSpace db (ac_TenantID access) spaceID = Some space"
    and room: "rm_ID room = ji_ExpectedRoomInstanceID input"
    and c: "create_join_attempt rp (scope_of access) space room
        (resolveEffectiveCredentialSource db (ac_TenantID access) (rm_ID room) (ac_ActorID access) source) ids
        (ji_JoinAttemptID input) (sha256 (join_attempt_preimage spaceID input)) now db = Inr (attempt, db')" by auto
  have sid: "ms_ID space = spaceID" using loadSpace_Some[OF space] by simp
  from create_join_attempt_effect[OF c] obtain lobby sequence rooms role fingerprint where
    free: "\<not> hasActiveParticipant db (tc_TenantID (scope_of access)) (rm_ID room) (tc_ActorID (scope_of access))"
    and cap: "requireParticipantCapacity rp db (tc_TenantID (scope_of access)) spaceID = Inr ()"
    and db': "db' = db\<lparr>md_rooms := rooms,
      md_admissions := md_admissions db @ (if lobby then [new_admission (scope_of access) spaceID (rm_ID room)
        (jd_AdmissionID ids) (ji_JoinAttemptID input) fingerprint now] else []),
      md_participants := md_participants db @ [new_participant (scope_of access) spaceID (rm_ID room) ids
        (ji_JoinAttemptID input) role lobby sequence now]\<rparr>"
    unfolding sid by blast
  then have ps: "md_participants db' = md_participants db @ [new_participant (scope_of access) spaceID (rm_ID room) ids
        (ji_JoinAttemptID input) role lobby sequence now]" by simp
  let ?p = "new_participant (scope_of access) spaceID (rm_ID room) ids (ji_JoinAttemptID input) role lobby sequence now"
  have p: "pa_TenantID ?p = ac_TenantID access" "pa_SpaceID ?p = spaceID" "pa_RoomID ?p = rm_ID room"
    "pa_UserID ?p = ac_ActorID access" "participant_active ?p" "pa_CapacityReserved ?p"
    by (simp_all add: new_participant_def participant_active_def)
  have one: "count_where (\<lambda>r. participant_active r \<and> pa_TenantID r = ac_TenantID access \<and>
      pa_RoomID r = ji_ExpectedRoomInstanceID input \<and> pa_UserID r = ac_ActorID access) (md_participants db) = 0"
    using free by (auto simp: count_where_zero hasActiveParticipant_def list_ex_iff room)
  from cap show ?thesis
    using one p
    by (auto simp: requireParticipantCapacity_def Let_def RequireQuotaAtMost_def ps reserved_participant_def room
        split: if_split_asm)
qed

theorem join_within_quota_witness:
  "count_where (reserved_participant 1) (md_participants ex_db4) = 1 \<and>
   (\<exists>limit. readEffectiveQuota (rp_Controls ex_repo) (md_controls ex_running) 1 QuotaActiveMediaParticipants = Inr limit \<and>
      1 \<le> ql_Limit limit)"
proof -
  have one: "count_where (reserved_participant 1) (md_participants ex_db4) = 1"
    using ex_facts4 by (simp add: ex_facts4_def)
  obtain attempt new where j: "CreateOrReuseJoinAttempt ex_hash ex_repo (ex_access 7) 20 (ex_join 40)
      (ex_ids 40) 400 ex_running = Inr ((attempt, new), ex_db4)" using ex_call4 by blast
  have new
  proof (rule ccontr)
    assume "\<not> new"
    with CreateOrReuseJoinAttempt_effect[OF j] have "ex_db4 = ex_running" by auto
    moreover have "md_participants ex_running = []" by (simp add: ex_running_def ex_db0_def)
    ultimately show False using one by simp
  qed
  with j have j: "CreateOrReuseJoinAttempt ex_hash ex_repo (ex_access 7) 20 (ex_join 40)
      (ex_ids 40) 400 ex_running = Inr ((attempt, True), ex_db4)" by simp
  have t: "ac_TenantID (ex_access 7) = 1" by (simp add: ex_access_def)
  from join_within_quota[OF ex_reachable(9) j, unfolded t] one show ?thesis by auto
qed

end
