(* ===== verification/Media_Delivery.thy ===== *)
theory Media_Delivery imports Media_Example Rate_Windows begin

section \<open>Credentials, retries and the provider\<close>

text \<open>
  Credentials for the provider and reports from it: who gets a credential and how many, and how
  often a report counts.
\<close>

subsection \<open>Credentials\<close>

lemma require_admitted:
  assumes "requireAdmittedAdmission db t s i u p = Inr ()"
  shows "\<exists>a\<in>set (md_admissions db). Some (ad_ID a) = pa_AdmissionID p \<and> ad_RoomID a = i \<and> ad_UserID a = u \<and>
    ad_Status a = AdmissionAdmitted"
  using assms
  by (auto simp: requireAdmittedAdmission_def find_admission_def split: option.split_asm if_split_asm
      dest!: find_in_set)

text \<open>
  C5.  A credential for the provider is given only to a participant of the running room: the
  space is open and not locked, its room is active, the actor has joined with this attempt and
  was let in (by an admission that was granted, where the lobby holds attendees back), and the
  participant is then recorded as joining with the role the credential carries.
\<close>

theorem credential_only_when_admitted:
  assumes "media_reachable sha256 rp db"
    and "PrepareCredential rp access spaceID attemptID now db = Inr (grant, db')"
  shows "\<exists>space room p. loadSpace db (ac_TenantID access) spaceID = Some space \<and>
    ms_Status space = SpaceStatusOpen \<and> \<not> ms_Locked space \<and>
    room \<in> set (rooms_of db (ac_TenantID access) spaceID) \<and> rm_ID room = cg_RoomInstanceID grant \<and>
    rm_Status room = RoomInstanceActive \<and>
    p \<in> set (md_participants db) \<and> pa_ID p = cg_ParticipantSessionID grant \<and> pa_UserID p = ac_ActorID access \<and>
    pa_RoomID p = rm_ID room \<and> pa_JoinAttemptID p = attemptID \<and>
    pa_Status p \<in> {ParticipantAdmitted, ParticipantJoining} \<and>
    (ms_LobbyEnabled space \<and> cg_InstanceRole grant = InstanceRoleAttendee \<longrightarrow>
       (\<exists>a\<in>set (md_admissions db). Some (ad_ID a) = pa_AdmissionID p \<and> ad_UserID a = ac_ActorID access \<and>
          ad_Status a = AdmissionAdmitted)) \<and>
    (\<exists>p'\<in>set (md_participants db'). pa_ID p' = pa_ID p \<and> pa_Status p' = ParticipantJoining \<and>
       pa_InstanceRole p' = cg_InstanceRole grant)"
proof -
  have inv: "media_inv db" by (rule media_reachable_inv[OF assms(1)])
  from PrepareCredential_effect[OF assms(2) media_invD(2)[OF inv]] obtain space room and source :: authorized_source and existing ws ps rooms where
    s: "loadSpace db (ac_TenantID access) spaceID = Some space" "ms_Status space = SpaceStatusOpen" "\<not> ms_Locked space"
    and r: "loadActiveRoom db (ac_TenantID access) spaceID = Some room" "rm_Status room = RoomInstanceActive"
    and e: "loadParticipantByAttempt db (ac_TenantID access) (rm_ID room) (ac_ActorID access) attemptID = Some existing"
      "pa_Status existing \<in> {ParticipantAdmitted, ParticipantJoining}"
    and adm: "ms_LobbyEnabled space \<and> as_InstanceRole source = InstanceRoleAttendee \<longrightarrow>
       requireAdmittedAdmission db (ac_TenantID access) spaceID (rm_ID room) (ac_ActorID access) existing = Inr ()"
    and db': "db' = db\<lparr>md_credentials := ws, md_participants := ps, md_rooms := rooms\<rparr>"
    and g: "cg_ParticipantSessionID grant = pa_ID existing" "cg_RoomInstanceID grant = rm_ID room"
      "cg_InstanceRole grant = as_InstanceRole source"
    and p': "\<exists>p\<in>set ps. pa_ID p = pa_ID existing \<and> pa_Status p = ParticipantJoining \<and>
       pa_InstanceRole p = as_InstanceRole source" by blast
  have "existing \<in> set (md_participants db)" "pa_UserID existing = ac_ActorID access" "pa_RoomID existing = rm_ID room"
    "pa_JoinAttemptID existing = attemptID"
    using e(1) by (auto simp: loadParticipantByAttempt_def dest!: find_in_set)
  moreover have "room \<in> set (rooms_of db (ac_TenantID access) spaceID)"
    using loadActiveRoom_Some[OF r(1)] by (simp add: rooms_of_member)
  moreover have "ms_LobbyEnabled space \<and> cg_InstanceRole grant = InstanceRoleAttendee \<longrightarrow>
     (\<exists>a\<in>set (md_admissions db). Some (ad_ID a) = pa_AdmissionID existing \<and> ad_UserID a = ac_ActorID access \<and>
        ad_Status a = AdmissionAdmitted)"
    using adm require_admitted g(3) by fastforce
  ultimately show ?thesis using s r(2) e(2) g p' by (auto simp: db')
qed

theorem credential_only_when_admitted_witness:
  "\<exists>p'\<in>set (md_participants ex_db5). pa_Status p' = ParticipantJoining"
proof -
  obtain grant where "PrepareCredential ex_repo (ex_access 7) 20 40 500 ex_db4 = Inr (grant, ex_db5)"
    using ex_call5 by blast
  from credential_only_when_admitted[OF ex_reachable(5) this] show ?thesis by blast
qed

subsection \<open>The rate of credentials\<close>

definition credential_consume :: "'c media_db \<Rightarrow> uuid \<times> uuid \<times> uuid \<Rightarrow> instant \<Rightarrow> 'c media_db option" where
  "credential_consume db key now = (case key of (t, a, s) \<Rightarrow>
     (case consumeMediaCredentialRateLimit t a s now db of Inl _ \<Rightarrow> None | Inr db' \<Rightarrow> Some db'))"

definition credential_used :: "'c media_db \<Rightarrow> uuid \<times> uuid \<times> uuid \<Rightarrow> instant \<Rightarrow> int" where
  "credential_used db key start = window_used (md_credentials db) key start"

lemma credential_consume_triple:
  "credential_consume db (t, a, s) now =
     (case consumeMediaCredentialRateLimit t a s now db of Inl _ \<Rightarrow> None | Inr db' \<Rightarrow> Some db')"
  by (simp add: credential_consume_def)

lemma credential_consume_Some:
  "credential_consume db key now = Some db' \<longleftrightarrow>
     (\<exists>n ws. upsert_window key (time_Truncate now mediaCredentialRateWindow) mediaCredentialRateLimit
        (md_credentials db) = (Some n, ws) \<and> db' = db\<lparr>md_credentials := ws\<rparr>)"
  by (cases key) (auto simp: credential_consume_def consumeMediaCredentialRateLimit_def Let_def
      split: prod.splits option.splits)

interpretation credential_rate: windowed_limit credential_consume credential_used
  "\<lambda>_ _. mediaCredentialRateLimit" mediaCredentialRateWindow "\<lambda>db. windows_ok (md_credentials db)"
proof unfold_locales
  fix db :: "'c media_db" and k start
  assume "windows_ok (md_credentials db)"
  then show "0 \<le> credential_used db k start" by (simp add: credential_used_def window_used_nonneg)
next
  fix db :: "'c media_db" and k now db'
  assume ok: "windows_ok (md_credentials db)" and c: "credential_consume db k now = Some db'"
  then obtain n ws where u: "upsert_window k (time_Truncate now mediaCredentialRateWindow) mediaCredentialRateLimit
      (md_credentials db) = (Some n, ws)" and db': "db' = db\<lparr>md_credentials := ws\<rparr>"
    by (auto simp: credential_consume_Some)
  from upsert_window_ok[OF u ok]
  show "windows_ok (md_credentials db') \<and> (\<lambda>_. mediaCredentialRateLimit) = (\<lambda>_. mediaCredentialRateLimit)"
    by (simp add: db')
  fix k' start
  from upsert_window_Some[OF u]
  show "credential_used db' k' start = credential_used db k' start +
      (if (k', start) = (k, time_Truncate now mediaCredentialRateWindow) then 1 else 0)"
    by (auto simp: credential_used_def db' window_used_update mediaCredentialRateLimit_def)
next
  fix db :: "'c media_db" and now :: instant and k
  assume "windows_ok (md_credentials db)"
  then show "credential_consume db k now \<noteq> None \<longleftrightarrow>
      credential_used db k (time_Truncate now mediaCredentialRateWindow) < mediaCredentialRateLimit"
    by (auto simp: credential_consume_Some credential_used_def window_used_def upsert_window_def
        mediaCredentialRateLimit_def split: option.splits)
qed

text \<open>The calls of one session in one window.\<close>

definition credential_calls :: "uuid \<times> uuid \<times> uuid \<Rightarrow> instant \<Rightarrow> ((uuid \<times> uuid \<times> uuid) \<times> instant) list \<Rightarrow> int" where
  "credential_calls key start calls = int (length (filter (\<lambda>(k, now). k = key \<and>
     time_Truncate now mediaCredentialRateWindow = start) calls))"

fun consume_credentials :: "'c media_db \<Rightarrow> ((uuid \<times> uuid \<times> uuid) \<times> instant) list \<Rightarrow> 'c media_db" where
  "consume_credentials db [] = db"
| "consume_credentials db (((t, a, s), now) # calls) = consume_credentials
     (case consumeMediaCredentialRateLimit t a s now db of Inl _ \<Rightarrow> db | Inr db' \<Rightarrow> db') calls"

lemma consume_credentials_run: "consume_credentials db calls = credential_rate.run_calls db calls"
proof (induction db calls rule: consume_credentials.induct)
  case (2 db t a s now calls)
  then show ?case
    by (cases "consumeMediaCredentialRateLimit t a s now db") (simp_all add: credential_consume_triple)
qed simp

text \<open>
  Thirty credentials in ten minutes: whatever calls are made, by whomever, the number
  admitted for one login session in one window is the number of its calls in the window up to
  the limit, no more and no fewer.
\<close>

theorem credential_rate_exact:
  assumes "windows_ok (md_credentials db)" and "\<forall>(k, now)\<in>set calls. now \<noteq> 0"
    and "credential_used db key start = 0"
  shows "credential_used (consume_credentials db calls) key start = min (credential_calls key start calls) 30"
  using credential_rate.run_calls_used[OF assms(1,2), of key start]
  by (simp add: consume_credentials_run assms(3) credential_calls_def credential_rate.calls_in_def
      mediaCredentialRateLimit_def)

theorem credential_rate_exact_witness:
  "credential_used (consume_credentials ex_db0 (replicate 40 ((1, 7, 70), 5))) (1, 7, 70) 0 = 30"
proof -
  have "windows_ok (md_credentials ex_db0)" by (simp add: ex_db0_def windows_ok_def)
  moreover have "credential_used ex_db0 (1, 7, 70) 0 = 0" by (simp add: ex_db0_def credential_used_def window_used_def)
  moreover have "time_Truncate 5 mediaCredentialRateWindow = 0"
    by (simp add: time_Truncate_def mediaCredentialRateWindow_def time_units)
  then have "credential_calls (1, 7, 70) 0 (replicate 40 ((1, 7, 70), 5)) = 40"
    by (simp add: credential_calls_def)
  ultimately show ?thesis
    using credential_rate_exact[of ex_db0 "replicate 40 ((1, 7, 70), 5)" "(1, 7, 70)" 0] by simp
qed

subsection \<open>Webhooks\<close>

text \<open>
  C35.  A webhook is processed once: when a delivery has been recorded, a later delivery with
  the same identifier, at any time and after anything else, is reported as not recorded and
  changes nothing.
\<close>

theorem webhook_processed_once:
  assumes "media_reachable sha256 rp db"
    and "RecordProviderWebhook event t db = Inr ((result, found), db1)" and "wt_Recorded result"
    and "media_run sha256 rp db1 db2"
    and "RecordProviderWebhook event' t' db2 = Inr ((result', found'), db3)"
    and "trim_space (we_ID event') = trim_space (we_ID event)"
  shows "db3 = db2 \<and> \<not> wt_Recorded result'"
proof -
  have inv: "media_inv db" by (rule media_reachable_inv[OF assms(1)])
  have r1: "media_reachable sha256 rp db1" by (rule reachable_step[OF assms(1) media_step.reported[OF assms(2)]])
  have "trim_space (we_ID event) \<in> set (map wr_EventID (md_webhooks db1))"
    using webhook_frame[OF media_invD(2)[OF inv] assms(2,3)] by auto
  then have "trim_space (we_ID event) \<in> set (map wr_EventID (md_webhooks db2))"
    using media_run_remembered[OF assms(4) media_reachable_orderly[OF r1]] by (auto simp: remembered_def)
  then have "\<not> wt_Recorded result'"
    using RecordProviderWebhook_effect[OF assms(5)] assms(6) by (auto split: if_split_asm)
  with RecordProviderWebhook_effect[OF assms(5)] show ?thesis by simp
qed

definition ex_event :: "string \<Rightarrow> string \<Rightarrow> string \<Rightarrow> instant \<Rightarrow> webhook_event" where
  "ex_event i kind identity t = \<lparr>we_ID = i, we_EventType = kind, we_RoomName = opaqueProviderRoomName 30,
     we_RoomSID = ''RM_1'', we_ParticipantIdentity = identity, we_OccurredAt = t\<rparr>"

theorem webhook_processed_once_witness:
  "\<exists>result db1 result' db3.
     RecordProviderWebhook (ex_event ''EV_1'' ''room_finished'' [] 350) 360 ex_db3 = Inr ((result, True), db1) \<and>
     wt_Recorded result \<and>
     RecordProviderWebhook (ex_event ''EV_1'' ''room_finished'' [] 350) 370 db1 = Inr ((result', True), db3) \<and>
     db3 = db1 \<and> \<not> wt_Recorded result'"
proof -
  let ?ev = "ex_event ''EV_1'' ''room_finished'' [] 350"
  let ?again = "\<lambda>db1. case RecordProviderWebhook ?ev 370 db1 of Inl _ \<Rightarrow> False | Inr (x, _) \<Rightarrow> snd x"
  have k: "case RecordProviderWebhook ?ev 360 ex_db3 of Inl _ \<Rightarrow> False
    | Inr (x, db1) \<Rightarrow> snd x \<and> wt_Recorded (fst x) \<and> ?again db1"
    by code_simp
  then obtain x db1 where 1: "RecordProviderWebhook ?ev 360 ex_db3 = Inr (x, db1)" "snd x" "wt_Recorded (fst x)"
    and again: "?again db1"
    by (cases "RecordProviderWebhook ?ev 360 ex_db3") (simp_all add: case_prod_beta, metis prod.collapse)
  from again obtain x' db3 where 2: "RecordProviderWebhook ?ev 370 db1 = Inr (x', db3)" "snd x'"
    by (cases "RecordProviderWebhook ?ev 370 db1") (simp_all add: case_prod_beta, metis prod.collapse)
  obtain result result' where r: "RecordProviderWebhook ?ev 360 ex_db3 = Inr ((result, True), db1)" "wt_Recorded result"
    "RecordProviderWebhook ?ev 370 db1 = Inr ((result', True), db3)"
    using 1 2 by (cases x; cases x') auto
  from webhook_processed_once[OF ex_reachable(4) r(1,2) media_run.refl r(3)] r show ?thesis by blast
qed

text \<open>
  A join reported in the second of the credential is refused: the classification compares
  the provider's time, which has whole seconds, with the creation of the participant but not
  with its credential, so a report that is classified as applicable can still carry a time
  before \<open>joining_at\<close>; the constraint of the table then refuses the change, and every later
  delivery of the same report fails in the same way.
\<close>

theorem early_join_report_refused:
  assumes "p \<in> set (md_participants db)" and "pa_TenantID p = rm_TenantID binding"
    and "pa_SpaceID p = rm_SpaceID binding" and "pa_RoomID p = rm_ID binding"
    and "pa_Status p = ParticipantJoining" and "pa_JoiningAt p = Some joined" and "pa_ConnectedAt p = None"
    and "pa_ReconnectingAt p = None" and "pa_TerminalAt p = None"
    and "rm_Status binding = RoomInstanceActive" and "we_EventType event = ''participant_joined''"
    and "trim_space (we_ParticipantIdentity event) \<noteq> []"
    and "time_Truncate (pa_CreatedAt p) time_Second \<le> eventAt" and "eventAt < joined" and "pa_CreatedAt p < joined"
  shows "\<exists>m. classifyParticipantWebhook binding (Some p) event eventAt = (WebhookApplied, Some m) \<and>
    m db = Inl ErrLifecycleUnavailable"
proof -
  let ?now = "providerTransitionTime eventAt (pa_CreatedAt p)"
  have "participantLastTransition p = pa_CreatedAt p"
    using assms by (simp add: participantLastTransition_def)
  then have c: "classifyParticipantWebhook binding (Some p) event eventAt =
      (WebhookApplied, Some (webhook_joined binding p ?now))"
    using assms by (simp add: classifyParticipantWebhook_def Let_def providerEventBefore_def)
  let ?P = "bound_participant binding p {ParticipantJoining, ParticipantReconnecting}"
  have "\<not> participant_check (connect_participant ?now p)"
    using assms by (simp add: participant_check_def participant_lifecycle_consistent_def Let_def
        participant_open_consistent_def connect_participant_def providerTransitionTime_def)
  moreover have "connect_participant ?now p \<in> set (update_where ?P (connect_participant ?now) (md_participants db))"
    using assms(1) by (rule update_where_touched) (simp add: bound_participant_def assms)
  ultimately have "\<not> participants_ok (update_where ?P (connect_participant ?now) (md_participants db))"
    by (auto simp: participants_ok_def list_all_iff)
  then have "webhook_joined binding p ?now db = Inl ErrLifecycleUnavailable"
    by (simp add: webhook_joined_def update_participant_def constrained_def)
  with c show ?thesis by blast
qed

text \<open>What the example is evaluated for: the delivery is refused, for this participant and room.\<close>

definition ex_refused :: "'c media_db \<Rightarrow> bool" where
  "ex_refused db = ((case RecordProviderWebhook
       (ex_event ''EV_2'' ''participant_joined'' (opaqueParticipantIdentity 43) 499) 550 db of
      Inl e \<Rightarrow> e = ErrLifecycleUnavailable | Inr _ \<Rightarrow> False) \<and>
   (case md_participants db of [] \<Rightarrow> False | p # _ \<Rightarrow> (case md_rooms db of [] \<Rightarrow> False | r # _ \<Rightarrow>
     pa_TenantID p = rm_TenantID r \<and> pa_SpaceID p = rm_SpaceID r \<and> pa_RoomID p = rm_ID r \<and>
     pa_Status p = ParticipantJoining \<and> pa_JoiningAt p = Some 500 \<and> pa_ConnectedAt p = None \<and>
     pa_ReconnectingAt p = None \<and> pa_TerminalAt p = None \<and> rm_Status r = RoomInstanceActive \<and>
     pa_CreatedAt p = 400)))"

lemma ex_refused: "ex_refused ex_db5"
  by code_simp

theorem early_join_report_refused_witness:
  "(case RecordProviderWebhook (ex_event ''EV_2'' ''participant_joined'' (opaqueParticipantIdentity 43) 499) 550 ex_db5 of
      Inl e \<Rightarrow> e = ErrLifecycleUnavailable | Inr _ \<Rightarrow> False) \<and>
   (\<exists>binding p m. classifyParticipantWebhook binding (Some p)
      (ex_event ''EV_2'' ''participant_joined'' (opaqueParticipantIdentity 43) 499) 499 = (WebhookApplied, Some m) \<and>
      m ex_db5 = Inl ErrLifecycleUnavailable)"
proof
  show "case RecordProviderWebhook (ex_event ''EV_2'' ''participant_joined'' (opaqueParticipantIdentity 43) 499) 550 ex_db5 of
      Inl e \<Rightarrow> e = ErrLifecycleUnavailable | Inr _ \<Rightarrow> False"
    using ex_refused unfolding ex_refused_def by blast
  from ex_refused obtain p ps r rs where e: "md_participants ex_db5 = p # ps" "md_rooms ex_db5 = r # rs"
      "pa_TenantID p = rm_TenantID r" "pa_SpaceID p = rm_SpaceID r" "pa_RoomID p = rm_ID r"
      "pa_Status p = ParticipantJoining" "pa_JoiningAt p = Some 500" "pa_ConnectedAt p = None"
      "pa_ReconnectingAt p = None" "pa_TerminalAt p = None" "rm_Status r = RoomInstanceActive" "pa_CreatedAt p = 400"
    unfolding ex_refused_def by (auto split: list.split_asm)
  have "trim_space (opaqueParticipantIdentity 43) \<noteq> []" by code_simp
  then show "\<exists>binding p m. classifyParticipantWebhook binding (Some p)
      (ex_event ''EV_2'' ''participant_joined'' (opaqueParticipantIdentity 43) 499) 499 = (WebhookApplied, Some m) \<and>
      m ex_db5 = Inl ErrLifecycleUnavailable"
    using early_join_report_refused[of p ex_db5 r 500
        "ex_event ''EV_2'' ''participant_joined'' (opaqueParticipantIdentity 43) 499" 499] e
    by (auto simp: ex_event_def time_Truncate_def time_units)
qed

end
