(* ===== verification/Media_Retries.thy ===== *)
theory Media_Retries imports Media_Delivery begin

section \<open>Retries, provider effects and clock skew\<close>

text \<open>
  What a retry finds: the idempotent creation of a space, the claimed effect of ending a room at
  the provider, and an end that is retried in vain.
\<close>

subsection \<open>Creating twice\<close>

lemma loadSpace_by_key:
  assumes ok: "spaces_ok (md_spaces db)" and row: "loadSpace db t s = Some row"
  shows "loadSpaceByCreateKey db (ms_TenantID row) (ms_CreatedBy row) (ms_CreateKey row) = Some row"
proof -
  have r: "row \<in> set (md_spaces db)" using loadSpace_Some[OF row] by simp
  have u: "unique_index (\<lambda>_. True) (\<lambda>r. (ms_TenantID r, ms_CreatedBy r, ms_CreateKey r)) (md_spaces db)"
    using ok by (simp add: spaces_ok_def)
  from unique_index_find[OF u r] show ?thesis by (simp add: loadSpaceByCreateKey_def)
qed

lemma CreateSpace_replay:
  assumes "CreateSpace rp access command db = Inr ((space, created), db')"
    and "loadSpaceByCreateKey db (ac_TenantID access) (ac_ActorID access) (cc_IdempotencyKey command) = Some row"
  shows "\<not> created \<and> db' = db \<and> sp_ID space = ms_ID row \<and> ms_CreateFingerprint row = cc_Fingerprint command"
proof -
  obtain access' scope where a: "requireActiveScope db access = Inr (access', scope)"
    using assms(1) unfolding CreateSpace_def by (cases "requireActiveScope db access") auto
  have "ac_TenantID access' = ac_TenantID access" "ac_ActorID access' = ac_ActorID access"
    using requireActiveScope_Inr(5)[OF a] by auto
  with assms(1,2) show ?thesis
    unfolding CreateSpace_def a
    by (auto simp: loadCreateReplay_def projectAuthorizedSpace_def Let_def split: if_split_asm sum.split_asm)
qed

text \<open>
  Creating is idempotent: after a space has been created, any later request of the same
  actor with the same idempotency key, whatever has happened to the space in between, returns
  that space as not created and changes nothing, and is refused if it asks for something else.
\<close>

theorem create_is_idempotent:
  assumes "media_reachable sha256 rp db"
    and "CreateSpace rp access command db = Inr ((space, True), db1)"
    and "media_run sha256 rp db1 db2"
    and "CreateSpace rp access' command' db2 = Inr ((space', created), db3)"
    and "ac_TenantID access' = ac_TenantID access" and "ac_ActorID access' = ac_ActorID access"
    and "cc_IdempotencyKey command' = cc_IdempotencyKey command"
  shows "\<not> created \<and> db3 = db2 \<and> sp_ID space' = sp_ID space \<and> cc_Fingerprint command' = cc_Fingerprint command"
proof -
  have inv: "media_inv db" by (rule media_reachable_inv[OF assms(1)])
  have r1: "media_reachable sha256 rp db1" by (rule reachable_step[OF assms(1) media_step.created[OF assms(2)]])
  note inv1 = media_reachable_inv[OF r1]
  have inv2: "media_inv db2" by (rule media_reachable_inv[OF reachable_run[OF r1 assms(3)]])
  from CreateSpace_effect[OF assms(2)] obtain source classID where id: "sp_ID space = cc_SpaceID command"
    and spaces: "md_spaces db1 = md_spaces db @ [new_space_row (scope_of access) command source classID]" by auto
  let ?row = "new_space_row (scope_of access) command source classID"
  have fields: "space_identity ?row = (cc_SpaceID command, ac_TenantID access, ms_Source ?row, ac_ActorID access,
      cc_IdempotencyKey command, cc_Fingerprint command)"
    by (simp add: space_identity_def new_space_row_def)
  have "loadSpace db1 (ms_TenantID ?row) (ms_ID ?row) = Some ?row"
    by (rule loadSpace_member[OF media_invD(1)[OF inv1]]) (simp add: spaces)
  moreover have "spaces_advance db1 db2"
    using media_run_remembered[OF assms(3) media_reachable_orderly[OF r1]] by (simp add: remembered_def)
  ultimately obtain row where row: "loadSpace db2 (ms_TenantID ?row) (ms_ID ?row) = Some row"
    "space_identity row = space_identity ?row" using spaces_advanceD by blast
  from row(2) fields have f: "ms_TenantID row = ac_TenantID access" "ms_CreatedBy row = ac_ActorID access"
    "ms_CreateKey row = cc_IdempotencyKey command" "ms_ID row = cc_SpaceID command"
    "ms_CreateFingerprint row = cc_Fingerprint command" by (simp_all add: space_identity_def)
  from loadSpace_by_key[OF media_invD(1)[OF inv2] row(1)]
  have "loadSpaceByCreateKey db2 (ac_TenantID access') (ac_ActorID access') (cc_IdempotencyKey command') = Some row"
    by (simp add: f assms(5-7))
  from CreateSpace_replay[OF assms(4) this] show ?thesis by (simp add: f id)
qed

theorem create_is_idempotent_witness:
  "\<exists>space' created db3. CreateSpace ex_repo (ex_access 7) ex_create ex_db2 = Inr ((space', created), db3) \<and>
     \<not> created \<and> db3 = ex_db2"
proof -
  have "case CreateSpace ex_repo (ex_access 7) ex_create ex_db0 of Inl _ \<Rightarrow> False | Inr ((_, new), _) \<Rightarrow> new"
    by code_simp
  with ex_call1 obtain space where
    c: "CreateSpace ex_repo (ex_access 7) ex_create ex_db0 = Inr ((space, True), ex_db1)" by auto
  have "is_ok (CreateSpace ex_repo (ex_access 7) ex_create ex_db2)" by code_simp
  then obtain space' created db3 where
    d: "CreateSpace ex_repo (ex_access 7) ex_create ex_db2 = Inr ((space', created), db3)"
    by (auto simp: is_ok_conv)
  have "media_run ex_hash ex_repo ex_db1 ex_db2" using ex_steps(2) media_run.refl media_run.step by metis
  from create_is_idempotent[OF ex_reachable(1) c this d] d show ?thesis by blast
qed

subsection \<open>One holder of a provider effect\<close>

lemma end_receipt_unique:
  assumes "receipts_ok rows" and "r \<in> set rows" and "r' \<in> set rows"
    and "end_receipt scope s key r" and "end_receipt scope s key r'"
  shows "r = r'"
  using unique_indexD[of "\<lambda>_. True" receipt_key rows r r'] assms
  by (simp add: receipts_ok_def end_receipt_def receipt_key_def)

text \<open>After a claim the receipt of the effect is held, under the attempt of the claim.\<close>

lemma claimed_receipt:
  assumes "ClaimEndProviderEffect access spaceID key now lease db = Inr ((effect, status, True), db')"
    and ok: "receipts_ok (md_receipts db)"
  shows "\<exists>r\<in>set (md_receipts db). \<exists>r'\<in>set (md_receipts db').
    end_receipt (scope_of access) spaceID key r \<and> ee_Attempt effect = rc_EffectAttempts r + 1 \<and>
    r' = claim_effect (ee_Attempt effect) (now + lease) now r \<and>
    end_receipt (scope_of access) spaceID key r' \<and> receipts_ok (md_receipts db')"
proof -
  let ?P = "\<lambda>r. end_receipt (scope_of access) spaceID key r \<and> claimable_effect now r"
  from ClaimEndProviderEffect_effect[OF assms(1)] obtain r r0 where
    r: "r \<in> set (md_receipts db)" "?P r"
    and r0: "r0 \<in> set (md_receipts db)" "end_receipt (scope_of access) spaceID key r0"
      "ee_Attempt effect = rc_EffectAttempts r0 + 1"
    and db': "md_receipts db' = update_where ?P (claim_effect (ee_Attempt effect) (now + lease) now) (md_receipts db)"
    and ok': "receipts_ok (md_receipts db')" by (auto simp: Let_def)
  have "r = r0" using end_receipt_unique[OF ok r(1) r0(1)] r(2) r0(2) by blast
  moreover have "claim_effect (ee_Attempt effect) (now + lease) now r \<in> set (md_receipts db')"
    unfolding db' by (rule update_where_touched[OF r(1)]) (rule r(2))
  moreover have "end_receipt (scope_of access) spaceID key (claim_effect (ee_Attempt effect) (now + lease) now r)"
    using r(2) by (simp add: claim_effect_def end_receipt_def)
  ultimately show ?thesis using r r0(3) ok' by blast
qed

text \<open>
  C36.  One holder: while a claimed provider effect is leased nobody else can claim it, and when
  it has been claimed again after the lease, the first holder can no longer complete it: its
  attempt is out of date and the call is an error.
\<close>

theorem provider_effect_single_holder:
  assumes "receipts_ok (md_receipts db)"
    and "ClaimEndProviderEffect access spaceID key now lease db = Inr ((effect, status, True), db1)"
    and "ClaimEndProviderEffect access spaceID key now' lease' db1 = Inr ((effect', status', claimed), db2)"
  shows "(now' < now + lease \<longrightarrow> \<not> claimed \<and> db2 = db1) \<and>
    (claimed \<longrightarrow> ee_Attempt effect' = ee_Attempt effect + 1 \<and>
       \<not> is_ok (CompleteEndProviderEffect access spaceID key (ee_Attempt effect) outcome code later db2))"
proof -
  from claimed_receipt[OF assms(2,1)] obtain r where r: "r \<in> set (md_receipts db1)"
    "end_receipt (scope_of access) spaceID key r" "rc_EffectStatus r = ProviderEffectApplying"
    "rc_EffectLeaseUntil r = Some (now + lease)" "rc_EffectAttempts r = ee_Attempt effect"
    and ok1: "receipts_ok (md_receipts db1)" by (auto simp: claim_effect_def)
  have held: "\<not> claimed" if "now' < now + lease"
  proof
    assume claimed
    with ClaimEndProviderEffect_effect[OF assms(3)] obtain r' where r': "r' \<in> set (md_receipts db1)"
      "end_receipt (scope_of access) spaceID key r'" "claimable_effect now' r'" by (auto simp: Let_def)
    have "r' = r" by (rule end_receipt_unique[OF ok1 r'(1) r(1) r'(2) r(2)])
    with r'(3) r(3,4) that show False by (simp add: claimable_effect_def)
  qed
  have again: "ee_Attempt effect' = ee_Attempt effect + 1 \<and>
      \<not> is_ok (CompleteEndProviderEffect access spaceID key (ee_Attempt effect) outcome code later db2)" if claimed
  proof -
    from assms(3) that have c: "ClaimEndProviderEffect access spaceID key now' lease' db1 =
        Inr ((effect', status', True), db2)" by simp
    from claimed_receipt[OF c ok1] obtain r0 r' where r0: "r0 \<in> set (md_receipts db1)"
        "end_receipt (scope_of access) spaceID key r0" "ee_Attempt effect' = rc_EffectAttempts r0 + 1"
      and r': "r' \<in> set (md_receipts db2)" "end_receipt (scope_of access) spaceID key r'"
        "rc_EffectAttempts r' = ee_Attempt effect'"
      and ok2: "receipts_ok (md_receipts db2)" by (auto simp: claim_effect_def)
    have e: "ee_Attempt effect' = ee_Attempt effect + 1"
      using end_receipt_unique[OF ok1 r0(1) r(1) r0(2) r(2)] r0(3) r(5) by simp
    have "\<not> is_ok (CompleteEndProviderEffect access spaceID key (ee_Attempt effect) outcome code later db2)"
    proof
      assume "is_ok (CompleteEndProviderEffect access spaceID key (ee_Attempt effect) outcome code later db2)"
      then obtain st db3 where "CompleteEndProviderEffect access spaceID key (ee_Attempt effect) outcome code later db2 =
          Inr (st, db3)" by (auto simp: is_ok_conv)
      from CompleteEndProviderEffect_effect[OF this] obtain r2 where "r2 \<in> set (md_receipts db2)"
        "end_receipt (scope_of access) spaceID key r2" "rc_EffectAttempts r2 = ee_Attempt effect"
        by (auto simp: Let_def)
      with end_receipt_unique[OF ok2 _ r'(1) _ r'(2)] r'(3) e show False by force
    qed
    with e show ?thesis by blast
  qed
  from held again ClaimEndProviderEffect_effect[OF assms(3)] show ?thesis by auto
qed

theorem provider_effect_single_holder_witness:
  "\<exists>effect status db1 effect' status' claimed db2.
     ClaimEndProviderEffect (ex_access 7) 20 ''end-key-00000001'' 800 50 ex_db7 = Inr ((effect, status, True), db1) \<and>
     ClaimEndProviderEffect (ex_access 7) 20 ''end-key-00000001'' 820 50 db1 = Inr ((effect', status', claimed), db2) \<and>
     \<not> claimed"
proof -
  let ?claim = "\<lambda>now db. ClaimEndProviderEffect (ex_access 7) 20 ''end-key-00000001'' now 50 db"
  have k: "case ?claim 800 ex_db7 of Inl _ \<Rightarrow> False | Inr (x, db1) \<Rightarrow> snd (snd x) \<and> is_ok (?claim 820 db1)"
    by code_simp
  then obtain x db1 where 1: "?claim 800 ex_db7 = Inr (x, db1)" "snd (snd x)" and again: "is_ok (?claim 820 db1)"
    by (cases "?claim 800 ex_db7") (simp_all add: case_prod_beta, metis prod.collapse)
  from again obtain x' db2 where 2: "?claim 820 db1 = Inr (x', db2)" by (auto simp: is_ok_conv)
  obtain effect status effect' status' claimed where
    c: "?claim 800 ex_db7 = Inr ((effect, status, True), db1)" "?claim 820 db1 = Inr ((effect', status', claimed), db2)"
    using 1 2 by (cases x; cases x') auto
  have "receipts_ok (md_receipts ex_db7)" by (rule media_invD(5)[OF media_reachable_inv[OF ex_reachable(8)]])
  from provider_effect_single_holder[OF this c] have "\<not> claimed" by simp
  with c show ?thesis by blast
qed

subsection \<open>Clock skew\<close>

text \<open>
  A room whose activation lies in the future cannot be ended: the provider's report may be
  up to five minutes ahead of the clock and becomes the activation time as it is, and ending
  the space before that time breaks the table's order of the room's times, so the request
  fails and the space stays open.
\<close>

theorem future_activation_blocks_end:
  assumes "media_reachable sha256 rp db" and "tr_Operation command = ''end''"
    and "find_receipt db (scope_of access) (tr_IdempotencyKey command) = None"
    and "rooms_of db (ac_TenantID access) (tr_SpaceID command) = pre @ [room]"
    and "rm_Status room = RoomInstanceActive" and "rm_ActivatedAt room = Some activated"
    and "tr_OccurredAt command < activated"
  shows "\<not> is_ok (TransitionSpace rp access command db)"
proof
  have inv: "media_inv db" by (rule media_reachable_inv[OF assms(1)])
  assume "is_ok (TransitionSpace rp access command db)"
  then obtain x db' where "TransitionSpace rp access command db = Inr (x, db')" by (auto simp: is_ok_conv)
  from TransitionSpace_effect[OF this] assms(2,3) obtain access' row updated rid db1 where
    row: "loadSpace db (ac_TenantID access) (tr_SpaceID command) = Some row"
    and ended: "endSpace rp access' (scope_of access) row command db = Inr ((updated, rid), db1)"
    by (auto simp: run_transition_def)
  have row': "loadSpace db (tc_TenantID (scope_of access)) (ms_ID row) = Some row" "ms_ID row = tr_SpaceID command"
    using row loadSpace_Some[OF row] by simp_all
  from endSpace_effect[OF ended row'(1) media_invD(1,2)[OF inv]] have
    st: "ms_Status row = SpaceStatusOpen" by (elim exE conjE)
  from ended obtain room' db2 where
    room': "loadRoomForTermination db (ac_TenantID access) (ms_ID row) = Some room'"
    and stop: "terminateRoomIntent (scope_of access) room' (tr_OccurredAt command) db = Inr db2"
    by (auto simp: endSpace_def Let_def split: if_split_asm option.split_asm)
  from loadRoomForTermination_last[OF inv row'(1)] st room' assms(4) row'(2) have same: "room' = room" by auto
  have member: "room \<in> set (md_rooms db)" "rm_TenantID room = ac_TenantID access"
    using assms(4) rooms_of_member[of room db "ac_TenantID access" "tr_SpaceID command"] by auto
  let ?now = "tr_OccurredAt command"
  let ?P = "\<lambda>r. rm_TenantID r = ac_TenantID access \<and> rm_ID r = rm_ID room \<and>
     rm_Status r \<in> {RoomInstanceActive, RoomInstanceClosing}"
  let ?f = "\<lambda>r. r\<lparr>rm_Status := RoomInstanceEnded, rm_Version := rm_Version r + 1,
     rm_UpdatedBy := ac_ActorID access,
     rm_ClosingAt := (case rm_ClosingAt r of None \<Rightarrow> Some ?now | Some t \<Rightarrow> Some t),
     rm_EndedAt := Some ?now, rm_UpdatedAt := ?now\<rparr>"
  have "rooms_ok (update_where ?P ?f (md_rooms db))"
    using stop assms(5) unfolding same by (auto simp: terminateRoomIntent_def update_room_Inr)
  moreover have "?f room \<in> set (update_where ?P ?f (md_rooms db))"
    by (rule update_where_touched[OF member(1)]) (simp add: member assms(5))
  ultimately have "room_check (?f room)" by (auto simp: rooms_ok_def list_all_iff)
  then show False
    using assms(6,7) by (auto simp: room_check_def room_lifecycle_consistent_def split: option.splits)
qed

definition ex_ahead :: "class_tables media_db" where
  "ex_ahead = after (RecordProviderWebhook (ex_event ''EV_3'' ''room_started'' [] 5000) 300 ex_db2) ex_db2"

definition ex_facts_ahead :: "'c media_db \<Rightarrow> bool" where
  "ex_facts_ahead db \<longleftrightarrow> find_receipt db \<lparr>tc_TenantID = 1, tc_ActorID = 7\<rparr> ''end-key-00000001'' = None \<and>
     map (\<lambda>r. (rm_Status r, rm_ActivatedAt r)) (rooms_of db 1 20) = [(RoomInstanceActive, Some 5000)]"

theorem future_activation_blocks_end_witness:
  "media_reachable ex_hash ex_repo ex_ahead \<and> \<not> is_ok (TransitionSpace ex_repo (ex_access 7) ex_end ex_ahead)"
proof
  have "is_ok (RecordProviderWebhook (ex_event ''EV_3'' ''room_started'' [] 5000) 300 ex_db2)" by code_simp
  from after_ok[OF this, of ex_db2] have "media_step ex_hash ex_repo ex_db2 ex_ahead"
    by (auto simp: ex_ahead_def intro: media_step.reported)
  then show r: "media_reachable ex_hash ex_repo ex_ahead"
    using ex_reachable(3) unfolding media_reachable_def by (blast intro: media_run.step)
  have f: "ex_facts_ahead ex_ahead" by code_simp
  then obtain room where room: "rooms_of ex_ahead 1 20 = [] @ [room]" "rm_Status room = RoomInstanceActive"
    "rm_ActivatedAt room = Some 5000" by (auto simp: ex_facts_ahead_def)
  have "find_receipt ex_ahead (scope_of (ex_access 7)) (tr_IdempotencyKey ex_end) = None"
    "tr_Operation ex_end = ''end''" "tr_OccurredAt ex_end < 5000" "ac_TenantID (ex_access 7) = 1" "tr_SpaceID ex_end = 20"
    using f by (simp_all add: ex_facts_ahead_def ex_access_def ex_end_def)
  with future_activation_blocks_end[OF r, of ex_end "ex_access 7" "[]" room 5000] room
  show "\<not> is_ok (TransitionSpace ex_repo (ex_access 7) ex_end ex_ahead)" by simp
qed

end
