(* ===== verification/Media_Lobby_Queue.thy ===== *)
theory Media_Lobby_Queue imports Media_System begin

section \<open>The queue of the lobby\<close>

text \<open>
  A moderator's listing of the lobby first closes the requests whose time has passed.  In a
  database that satisfies the invariants none of these statements fails, so a listing by somebody
  who may list always returns, with nobody left waiting beyond the time to live.
\<close>

subsection \<open>Updates of one row\<close>

lemma count_where_one:
  "unique_index (\<lambda>_. True) k rows \<Longrightarrow> r \<in> set rows \<Longrightarrow>
     (\<And>r'. r' \<in> set rows \<Longrightarrow> P r' \<longleftrightarrow> k r' = k r) \<Longrightarrow> count_where P rows = 1"
proof (induction rows)
  case (Cons x rows)
  have u: "unique_index (\<lambda>_. True) k rows" "\<forall>r'\<in>set rows. k r' \<noteq> k x"
    using Cons.prems(1) by (auto simp: unique_index_def image_iff)
  have tail: "P r' \<longleftrightarrow> k r' = k r" if "r' \<in> set rows" for r' using Cons.prems(3) that by simp
  show ?case
  proof (cases "r = x")
    case True
    then have "\<forall>r'\<in>set rows. \<not> P r'" using tail u(2) by simp
    then show ?thesis using Cons.prems(3)[of x] True by (simp add: count_where_zero[THEN iffD2])
  next
    case False
    then have r: "r \<in> set rows" using Cons.prems(2) by simp
    with u(2) have "\<not> P x" using Cons.prems(3)[of x] by auto
    then show ?thesis using Cons.IH[OF u(1) r tail] by simp
  qed
qed simp

lemma list_all_update_where:
  "list_all C rows \<Longrightarrow> (\<And>r. r \<in> set rows \<Longrightarrow> P r \<Longrightarrow> C r \<Longrightarrow> C (f r)) \<Longrightarrow> list_all C (update_where P f rows)"
  by (auto simp: list_all_iff update_where_def)

lemma failure_codes_valid [simp]:
  "failure_code_valid (Some ''wait_timeout'')" "failure_code_valid (Some ''admission_timeout'')"
  by code_simp+

lemma expired_admissions_ok:
  assumes ok: "admissions_ok rows" and late: "\<And>r. r \<in> set rows \<Longrightarrow> Q r \<Longrightarrow> ad_CreatedAt r \<le> now"
  shows "admissions_ok (update_where Q (resolve_admission AdmissionExpired None (Some ''wait_timeout'') now) rows)"
    (is "admissions_ok (update_where Q ?g rows)")
proof -
  have "list_all admission_check (update_where Q ?g rows)"
  proof (rule list_all_update_where)
    fix r assume "r \<in> set rows" "Q r" "admission_check r"
    with late[of r] show "admission_check (?g r)"
      by (simp add: admission_check_def admission_lifecycle_consistent_def resolve_admission_def)
  qed (use ok in \<open>simp add: admissions_ok_def\<close>)
  with ok show ?thesis
    unfolding admissions_ok_def
    by (elim conjE, intro conjI unique_index_update) (simp_all add: resolve_admission_def)
qed

lemma timed_out_participants_ok:
  assumes ok: "participants_ok rows" and waiting: "\<And>r. r \<in> set rows \<Longrightarrow> P r \<Longrightarrow> pa_Status r = ParticipantWaiting"
    and late: "\<And>r. r \<in> set rows \<Longrightarrow> P r \<Longrightarrow> pa_CreatedAt r \<le> now"
  shows "participants_ok (update_where P (time_out_participant now) rows)"
proof -
  let ?f = "time_out_participant now"
  have "list_all participant_check (update_where P ?f rows)"
  proof (rule list_all_update_where)
    fix r assume "r \<in> set rows" "P r" "participant_check r"
    with waiting[of r] late[of r] show "participant_check (?f r)"
      by (auto simp: participant_check_def participant_lifecycle_consistent_def participant_open_consistent_def
          time_out_participant_def)
  qed (use ok in \<open>simp add: participants_ok_def\<close>)
  with ok show ?thesis
    unfolding participants_ok_def
    by (elim conjE, intro conjI unique_index_update)
      (simp_all add: time_out_participant_def participant_active_def)
qed

subsection \<open>One request\<close>

text \<open>The user of every request exists: \<open>user_id\<close> refers to the table of users.\<close>

definition users_known :: "'c media_db \<Rightarrow> bool" where
  "users_known db \<longleftrightarrow> (\<forall>a\<in>set (md_admissions db). user_of db (ad_UserID a) \<noteq> None)"

definition overdue :: "uuid \<Rightarrow> uuid \<Rightarrow> uuid \<Rightarrow> instant \<Rightarrow> duration \<Rightarrow> admission_row \<Rightarrow> bool" where
  "overdue t s i now ttl a \<longleftrightarrow> waiting_admission t s i a \<and> ad_CreatedAt a + ttl \<le> now"

lemma participant_of_request:
  assumes inv: "orderly db" and a: "a \<in> set (md_admissions db)" "waiting_admission t s i a"
  obtains p where "loadLobbyParticipantByAdmission db t s i (ad_ID a) (ad_UserID a) = Some p"
    and "p \<in> set (md_participants db)" and "linked p a" and "pa_Status p = ParticipantWaiting"
proof -
  have w: "ad_Status a = AdmissionWaiting" using a(2) by (simp add: waiting_admission_def)
  obtain p where p: "p \<in> set (md_participants db)" "linked p a" "pa_Status p = ParticipantWaiting"
    by (rule paired_participant[OF orderlyD(2)[OF inv] a(1) w])
  let ?F = "\<lambda>p. pa_TenantID p = t \<and> pa_SpaceID p = s \<and> pa_RoomID p = i \<and>
       pa_AdmissionID p = Some (ad_ID a) \<and> pa_UserID p = ad_UserID a"
  have "?F p" using p(2) a(2) by (simp add: linked_def waiting_admission_def)
  then obtain q where q: "find ?F (md_participants db) = Some q"
    using p(1) by (cases "find ?F (md_participants db)") (auto simp: find_None_iff)
  have "q = p"
    using find_in_set[OF q] p(1,2) by (intro paired_unique[OF orderlyD(2)[OF inv]]) (auto simp: linked_def)
  with q p that show thesis by (simp add: loadLobbyParticipantByAdmission_def)
qed

lemma expire_attempt_succeeds:
  assumes inv: "orderly db" and a: "a \<in> set (md_admissions db)" "waiting_admission (tc_TenantID scope) s i a"
    and p: "p \<in> set (md_participants db)" "linked p a" "pa_Status p = ParticipantWaiting"
    and late: "ad_CreatedAt a \<le> now"
  shows "\<exists>db'. expireLobbyAttempt scope s i a p ''wait_timeout'' now db = Inr db'"
proof -
  let ?t = "tc_TenantID scope"
  let ?Q = "\<lambda>r. waiting_admission ?t s i r \<and> ad_ID r = ad_ID a"
  let ?P = "\<lambda>r. pa_TenantID r = ?t \<and> pa_SpaceID r = s \<and> pa_RoomID r = i \<and> pa_ID r = pa_ID p \<and>
      pa_UserID r = ad_UserID a \<and> pa_Status r = ParticipantWaiting"
  note media = orderlyD(1)[OF inv]
  have only_a: "r = a" if "r \<in> set (md_admissions db)" "ad_ID r = ad_ID a" for r
    using unique_indexD[OF pairedD(1)[OF orderlyD(2)[OF inv]] that(1) a(1)] that(2) by simp
  have only_p: "r = p" if "r \<in> set (md_participants db)" "pa_ID r = pa_ID p" for r
    using participants_unique[OF media_invD(3)[OF media] that(1) p(1) that(2)] .
  have Q: "?Q r \<longleftrightarrow> ad_ID r = ad_ID a" if "r \<in> set (md_admissions db)" for r using only_a[OF that] a(2) by auto
  have Pp: "?P p" using p a(2) by (simp add: linked_def waiting_admission_def)
  have P: "?P r \<longleftrightarrow> pa_ID r = pa_ID p" if "r \<in> set (md_participants db)" for r using only_p[OF that] Pp by auto
  have "admissions_ok (update_where ?Q (resolve_admission AdmissionExpired None (Some ''wait_timeout'') now)
      (md_admissions db))"
    using only_a late by (intro expired_admissions_ok[OF media_invD(4)[OF media]]) auto
  moreover have "count_where ?Q (md_admissions db) = 1"
    by (rule count_where_one[OF pairedD(1)[OF orderlyD(2)[OF inv]] a(1) Q])
  moreover have "participants_ok (update_where ?P (time_out_participant now) (md_participants db))"
  proof (rule timed_out_participants_ok[OF media_invD(3)[OF media]])
    fix r assume "r \<in> set (md_participants db)" "?P r"
    then have "r = p" using only_p by blast
    with p(2,3) late show "pa_Status r = ParticipantWaiting" "pa_CreatedAt r \<le> now" by (simp_all add: linked_def)
  qed
  moreover have "count_where ?P (md_participants db) = 1"
    using media_invD(3)[OF media] by (intro count_where_one[where k = pa_ID, OF _ p(1) P]) (simp_all add: participants_ok_def)
  moreover have "ad_Status a = AdmissionWaiting" using a(2) by (simp add: waiting_admission_def)
  ultimately show ?thesis
    using p(3) by (simp add: expireLobbyAttempt_def update_one_admission_Inr update_one_participant_Inr)
qed

subsection \<open>The overdue requests\<close>

lemma expire_admissions_succeeds:
  assumes "orderly db" and "distinct (map ad_ID rows)"
    and "\<And>a. a \<in> set rows \<Longrightarrow> a \<in> set (md_admissions db) \<and> waiting_admission (tc_TenantID scope) s i a \<and>
      ad_CreatedAt a \<le> now"
  shows "\<exists>db'. expire_admissions scope s i now rows db = Inr db' \<and> md_users db' = md_users db \<and>
    md_admissions db' = update_where (\<lambda>r. waiting_admission (tc_TenantID scope) s i r \<and> ad_ID r \<in> ad_ID ` set rows)
      (resolve_admission AdmissionExpired None (Some ''wait_timeout'') now) (md_admissions db)"
  using assms
proof (induction rows arbitrary: db)
  case Nil
  then show ?case by (simp add: update_where_none)
next
  case (Cons a rows)
  let ?W = "waiting_admission (tc_TenantID scope) s i"
  let ?g = "resolve_admission AdmissionExpired None (Some ''wait_timeout'') now"
  have a: "a \<in> set (md_admissions db)" "?W a" "ad_CreatedAt a \<le> now" using Cons.prems(3) by auto
  obtain p where p: "loadLobbyParticipantByAdmission db (tc_TenantID scope) s i (ad_ID a) (ad_UserID a) = Some p"
    "p \<in> set (md_participants db)" "linked p a" "pa_Status p = ParticipantWaiting"
    by (rule participant_of_request[OF Cons.prems(1) a(1,2)])
  obtain db1 where e: "expireLobbyAttempt scope s i a p ''wait_timeout'' now db = Inr db1"
    using expire_attempt_succeeds[OF Cons.prems(1) a(1,2) p(2-4) a(3)] by blast
  have pair: "loaded_pair db a p" using a(1) p by (simp add: loaded_pair_def linked_def)
  note q = expire_attempt_quiet[OF Cons.prems(1) pair e]
  have rows1: "md_admissions db1 = update_where (\<lambda>r. ?W r \<and> ad_ID r = ad_ID a) ?g (md_admissions db)"
    "md_users db1 = md_users db" using q(2) by (auto simp: append_event_def)
  have keep: "b \<in> set (md_admissions db1) \<and> ?W b \<and> ad_CreatedAt b \<le> now" if "b \<in> set rows" for b
  proof -
    have "ad_ID b \<noteq> ad_ID a" using Cons.prems(2) that by (auto simp: image_iff)
    with Cons.prems(3)[of b] that show ?thesis by (auto simp: rows1 intro: update_where_untouched)
  qed
  obtain db' where d: "expire_admissions scope s i now rows db1 = Inr db'" "md_users db' = md_users db1"
    "md_admissions db' = update_where (\<lambda>r. ?W r \<and> ad_ID r \<in> ad_ID ` set rows) ?g (md_admissions db1)"
    using Cons.IH[OF quiet_orderly[OF q(1)] _ keep] Cons.prems(2) by auto
  have "md_admissions db' = update_where (\<lambda>r. ?W r \<and> ad_ID r \<in> ad_ID ` set (a # rows)) ?g (md_admissions db)"
    unfolding d(3) rows1(1) by (auto simp: update_where_def waiting_admission_def resolve_admission_def)
  with d p(1) e rows1(2) show ?case by simp
qed

lemma expireTimedOut_succeeds:
  assumes inv: "orderly db" and known: "users_known db" and ttl: "0 \<le> ttl"
  shows "\<exists>db'. expireTimedOutLobbyAdmissions scope s i now ttl db = Inr db' \<and> md_users db' = md_users db \<and>
    md_admissions db' = update_where (overdue (tc_TenantID scope) s i now ttl)
      (resolve_admission AdmissionExpired None (Some ''wait_timeout'') now) (md_admissions db)"
proof -
  let ?t = "tc_TenantID scope"
  let ?C = "\<lambda>r. admission_of db ?t s i r \<and> ad_Status r = AdmissionWaiting \<and> ad_CreatedAt r \<le> now - ttl"
  let ?rows = "in_queue_order (filter ?C (md_admissions db))"
  have C: "?C r \<longleftrightarrow> overdue ?t s i now ttl r" if "r \<in> set (md_admissions db)" for r
    using known that by (auto simp: users_known_def overdue_def waiting_admission_def admission_of_def)
  have d: "distinct (map ad_ID ?rows)"
    by (simp add: in_queue_order_distinct filter_distinct_ids[OF inv])
  have m: "a \<in> set (md_admissions db) \<and> waiting_admission ?t s i a \<and> ad_CreatedAt a \<le> now" if "a \<in> set ?rows" for a
    using that C[of a] ttl by (auto simp: overdue_def)
  obtain db' where r: "expire_admissions scope s i now ?rows db = Inr db'" "md_users db' = md_users db"
    "md_admissions db' = update_where (\<lambda>r. waiting_admission ?t s i r \<and> ad_ID r \<in> ad_ID ` set ?rows)
      (resolve_admission AdmissionExpired None (Some ''wait_timeout'') now) (md_admissions db)"
    using expire_admissions_succeeds[OF inv d m] by blast
  have "(waiting_admission ?t s i r \<and> ad_ID r \<in> ad_ID ` set ?rows) = overdue ?t s i now ttl r"
    if r: "r \<in> set (md_admissions db)" for r
  proof -
    have "ad_ID r \<in> ad_ID ` set ?rows \<longleftrightarrow> ?C r"
    proof
      assume "ad_ID r \<in> ad_ID ` set ?rows"
      then obtain r' where r': "r' \<in> set (md_admissions db)" "?C r'" "ad_ID r' = ad_ID r" by auto
      have "r' = r"
        by (rule unique_indexD[OF pairedD(1)[OF orderlyD(2)[OF inv]] r'(1) r]) (simp_all add: r'(3))
      with r'(2) show "?C r" by simp
    qed (use r in auto)
    with C[OF r] show ?thesis by (auto simp: overdue_def)
  qed
  note same = this
  have "md_admissions db' = update_where (overdue ?t s i now ttl)
      (resolve_admission AdmissionExpired None (Some ''wait_timeout'') now) (md_admissions db)"
    unfolding r(3) update_where_def by (rule map_cong[OF HOL.refl]) (simp only: same)
  with r show ?thesis unfolding expireTimedOutLobbyAdmissions_def by blast
qed

end
