(* ===== verification/Media_Lobby_Properties.thy ===== *)
theory Media_Lobby_Properties imports Media_Lobby_Queue Media_Example begin

section \<open>What the lobby guarantees\<close>

text \<open>
  Who waits, who is let in and by whom, and what a decision leaves for good.  The example goes on
  from the state in which the student waits: the owner admits or denies the request.
\<close>

definition ex_waiting :: "class_tables media_db" where
  "ex_waiting = ex_running\<lparr>md_rooms := [ex_room\<lparr>rm_NextRosterSequence := 1\<rparr>],
     md_members := [new_member \<lparr>tc_TenantID = 1, tc_ActorID = 7\<rparr> 20 8 350],
     md_participants := [new_participant \<lparr>tc_TenantID = 1, tc_ActorID = 8\<rparr> 20 30 (ex_ids 50) 50
       InstanceRoleAttendee True 1 600],
     md_admissions := [new_admission \<lparr>tc_TenantID = 1, tc_ActorID = 8\<rparr> 20 30 54 50 (ex_hash []) 600],
     md_receipts := md_receipts ex_running @ [lobby_receipt \<lparr>tc_TenantID = 1, tc_ActorID = 7\<rparr>
       ''member_invite'' 20 uuid_Nil ''invite-key-00001'' (replicate 32 CHR ''i'') 2 350],
     md_events := md_events ex_running @ [\<lparr>ev_Type = ''media_space_member.invited.v1'', ev_TenantID = 1,
       ev_AggregateID = 20, ev_ActorID = 7, ev_SpaceID = Some 20, ev_RoomID = None, ev_TargetID = Some 8,
       ev_Status = ''active'', ev_Version = 1, ev_ReasonCode = [], ev_SafetyAction = False,
       ev_OccurredAt = 350\<rparr>]\<rparr>"

lemma ex_waiting_tables: "same_tables ex_db6 ex_waiting"
  by code_simp

lemma ex_waiting_reachable: "media_reachable ex_hash ex_repo ex_waiting"
  by (rule reachable_step[OF ex_reachable(7) same_tables_step[OF ex_waiting_tables]])

definition ex_decision :: "string \<Rightarrow> admission_command" where
  "ex_decision operation = \<lparr>lc_SpaceID = 20, lc_AdmissionID = 54, lc_JoinAttemptID = 0,
     lc_Operation = operation, lc_ExpectedSpaceVersion = 2, lc_ExpectedRoomInstanceID = 30,
     lc_ExpectedRoomInstanceVersion = 2, lc_ExpectedAdmissionVersion = 1,
     lc_IdempotencyKey = ''decide-key-00001'', lc_ReasonCode = ''noise'',
     lc_Fingerprint = replicate 32 CHR ''a'', lc_OccurredAt = 650, lc_AdmissionTTL = 300\<rparr>"

definition ex_admitted :: "class_tables media_db" where
  "ex_admitted = after (MutateAdmission ex_repo (ex_access 7) (ex_decision ''admission_admit'') ex_waiting) ex_waiting"

definition ex_denied :: "class_tables media_db" where
  "ex_denied = after (MutateAdmission ex_repo (ex_access 7) (ex_decision ''admission_deny'') ex_waiting) ex_waiting"

lemma ex_admit_ok: "is_ok (MutateAdmission ex_repo (ex_access 7) (ex_decision ''admission_admit'') ex_waiting)"
  by code_simp

lemma ex_deny_ok: "is_ok (MutateAdmission ex_repo (ex_access 7) (ex_decision ''admission_deny'') ex_waiting)"
  by code_simp

lemma ex_decision_calls:
  "\<exists>outcome. MutateAdmission ex_repo (ex_access 7) (ex_decision ''admission_admit'') ex_waiting = Inr (outcome, ex_admitted)"
  "\<exists>outcome. MutateAdmission ex_repo (ex_access 7) (ex_decision ''admission_deny'') ex_waiting = Inr (outcome, ex_denied)"
  using after_ok[OF ex_admit_ok, of ex_waiting] after_ok[OF ex_deny_ok, of ex_waiting]
  by (auto simp: ex_admitted_def ex_denied_def)

lemma ex_decision_steps:
  "media_step ex_hash ex_repo ex_waiting ex_admitted" "media_step ex_hash ex_repo ex_waiting ex_denied"
  using ex_decision_calls by (blast intro: media_step.intros)+


definition ex_queue :: "admission_status \<Rightarrow> participant_status \<Rightarrow> 'c media_db \<Rightarrow> bool" where
  "ex_queue st st' db \<longleftrightarrow> map (\<lambda>a. (ad_ID a, ad_Status a)) (md_admissions db) = [(54, st)] \<and>
     map (\<lambda>p. (pa_ID p, pa_AdmissionID p, pa_Status p, pa_RejoinRestoredAt p)) (md_participants db) =
       [(51, Some 54, st', None)]"

lemma ex_queue_waiting: "ex_queue AdmissionWaiting ParticipantWaiting ex_waiting"
  by code_simp

lemma ex_queue_admitted: "ex_queue AdmissionAdmitted ParticipantAdmitted ex_admitted"
  by code_simp

lemma ex_queue_denied: "ex_queue AdmissionDenied ParticipantRemoved ex_denied"
  by code_simp

lemmas ex_queues = ex_queue_waiting ex_queue_admitted ex_queue_denied

lemma ex_queue_rows:
  assumes "ex_queue st st' db"
  obtains a p where "md_admissions db = [a]" "ad_ID a = 54" "ad_Status a = st"
    "md_participants db = [p]" "pa_ID p = 51" "pa_AdmissionID p = Some 54" "pa_Status p = st'"
    "pa_RejoinRestoredAt p = None"
  using assms by (auto simp: ex_queue_def map_eq_Cons_conv)

subsection \<open>Waiting and being let in\<close>

text \<open>
  C8.  Pairing: in every state the program can reach, a participant who came through the lobby
  has the request of the same user for the same room; the participant waits exactly as long as
  the request does, and is in the room or on the way into it only if the request was admitted.
  Nobody waits without a request, and each waiting request belongs to exactly one participant.
\<close>

theorem lobby_pairing:
  assumes "media_reachable sha256 rp db"
  shows "(\<forall>p\<in>set (md_participants db). \<forall>i. pa_AdmissionID p = Some i \<longrightarrow>
      (\<exists>a\<in>set (md_admissions db). ad_ID a = i \<and> ad_TenantID a = pa_TenantID p \<and> ad_SpaceID a = pa_SpaceID p \<and>
        ad_RoomID a = pa_RoomID p \<and> ad_UserID a = pa_UserID p \<and>
        (ad_Status a = AdmissionWaiting \<longleftrightarrow> pa_Status p = ParticipantWaiting) \<and>
        (pa_Status p \<in> {ParticipantAdmitted, ParticipantJoining, ParticipantConnected, ParticipantReconnecting} \<longrightarrow>
           ad_Status a = AdmissionAdmitted))) \<and>
    (\<forall>p\<in>set (md_participants db). pa_Status p = ParticipantWaiting \<longrightarrow> pa_AdmissionID p \<noteq> None) \<and>
    (\<forall>a\<in>set (md_admissions db). ad_Status a = AdmissionWaiting \<longrightarrow>
      (\<exists>!p. p \<in> set (md_participants db) \<and> pa_AdmissionID p = Some (ad_ID a)))"
proof (intro conjI ballI allI impI)
  note pr = orderlyD(2)[OF media_reachable_orderly[OF assms]]
  {
    fix p i assume p: "p \<in> set (md_participants db)" "pa_AdmissionID p = Some i"
    then obtain a where "a \<in> set (md_admissions db)" "linked p a" "agree p a" using pairedD(3)[OF pr] by auto
    with p(2) show "\<exists>a\<in>set (md_admissions db). ad_ID a = i \<and> ad_TenantID a = pa_TenantID p \<and>
        ad_SpaceID a = pa_SpaceID p \<and> ad_RoomID a = pa_RoomID p \<and> ad_UserID a = pa_UserID p \<and>
        (ad_Status a = AdmissionWaiting \<longleftrightarrow> pa_Status p = ParticipantWaiting) \<and>
        (pa_Status p \<in> {ParticipantAdmitted, ParticipantJoining, ParticipantConnected, ParticipantReconnecting} \<longrightarrow>
           ad_Status a = AdmissionAdmitted)"
      by (intro bexI[of _ a]) (simp_all add: linked_def agree_def let_in_def)
  next
    fix p assume "p \<in> set (md_participants db)" "pa_Status p = ParticipantWaiting"
    then show "pa_AdmissionID p \<noteq> None" by (rule pairedD(4)[OF pr])
  next
    fix a assume "a \<in> set (md_admissions db)" "ad_Status a = AdmissionWaiting"
    from pairedD(5)[OF pr this] obtain p where p: "p \<in> set (md_participants db)" "pa_AdmissionID p = Some (ad_ID a)"
      by blast
    show "\<exists>!p. p \<in> set (md_participants db) \<and> pa_AdmissionID p = Some (ad_ID a)"
    proof (rule ex1I[of _ p])
      show "q = p" if "q \<in> set (md_participants db) \<and> pa_AdmissionID q = Some (ad_ID a)" for q
        using that p by (intro paired_unique[OF pr]) auto
    qed (use p in simp)
  }
qed

theorem lobby_pairing_witness:
  "\<exists>a p. md_admissions ex_waiting = [a] \<and> md_participants ex_waiting = [p] \<and> pa_Status p = ParticipantWaiting \<and>
     ad_Status a = AdmissionWaiting \<and> ad_UserID a = pa_UserID p \<and> ad_RoomID a = pa_RoomID p"
proof -
  obtain a p where q: "md_admissions ex_waiting = [a]" "ad_ID a = 54" "ad_Status a = AdmissionWaiting"
    "md_participants ex_waiting = [p]" "pa_AdmissionID p = Some 54" "pa_Status p = ParticipantWaiting"
    using ex_queues(1) by (rule ex_queue_rows)
  with lobby_pairing[OF ex_waiting_reachable] show ?thesis by simp
qed

text \<open>
  C9.  Only a moderator lets somebody in: whenever a step of the program takes a waiting
  participant into the room, the step is the admission of exactly that participant's request by
  an active member of the tenant whose effective role in the room is host, co-host or teaching
  assistant, in an open space that is not locked and a room that is active.
\<close>

definition lobby_moderator ::
  "'c lifecycle_repository \<Rightarrow> 'c media_db \<Rightarrow> access_context \<Rightarrow> space_row \<Rightarrow> room_row \<Rightarrow> bool" where
  "lobby_moderator rp db access space room \<longleftrightarrow> (\<exists>access' source.
     requireActiveScope db access = Inr (access', scope_of access) \<and>
     authorizeSource rp db access' (scope_of access) space PermissionSessionJoin False False = Inr source \<and>
     effectiveRoomRole db (ac_TenantID access) (rm_ID room) (ac_ActorID access) (as_InstanceRole source)
       \<in> {InstanceRoleHost, InstanceRoleCoHost, InstanceRoleTeachingAssistant})"

lemma loadModeratorLobby_Inr:
  assumes "loadModeratorLobby rp db access spaceID spaceVersion roomID roomVersion = Inr (scope, space, room)"
  shows "scope = scope_of access" and "loadSpace db (ac_TenantID access) spaceID = Some space"
    and "ms_Version space = spaceVersion" and "ms_Status space = SpaceStatusOpen" and "ms_LobbyEnabled space"
    and "find_room db (ac_TenantID access) spaceID roomID = Some room" and "rm_Version room = roomVersion"
    and "rm_Status room = RoomInstanceActive" and "lobby_moderator rp db access space room"
proof -
  from assms[unfolded loadModeratorLobby_def lobby_space_def None_Inl_Inr if_Inl_Inr try_res_eq_Inr
      split_paired_Ex case_prod_conv] obtain access' source where
    a: "requireActiveScope db access = Inr (access', scope)"
    and c: "loadSpace db (tc_TenantID scope) spaceID = Some space"
      "authorizeSource rp db access' scope space PermissionSessionJoin False False = Inr source"
      "ms_Version space = spaceVersion" "ms_Status space = SpaceStatusOpen" "ms_LobbyEnabled space"
      "find_room db (tc_TenantID scope) (ms_ID space) roomID = Some room" "rm_Version room = roomVersion"
      "rm_Status room = RoomInstanceActive"
      "effectiveRoomRole db (tc_TenantID scope) (rm_ID room) (tc_ActorID scope) (as_InstanceRole source)
         \<in> {InstanceRoleHost, InstanceRoleCoHost, InstanceRoleTeachingAssistant}" by auto
  note s = requireActiveScope_Inr(1)[OF a]
  show "scope = scope_of access" by (rule s)
  show "loadSpace db (ac_TenantID access) spaceID = Some space" "ms_Version space = spaceVersion"
    "ms_Status space = SpaceStatusOpen" "ms_LobbyEnabled space" "rm_Version room = roomVersion"
    "rm_Status room = RoomInstanceActive" using c by (simp_all add: s)
  show "find_room db (ac_TenantID access) spaceID roomID = Some room"
    using c(6) loadSpace_Some[OF c(1)] by (simp add: s)
  show "lobby_moderator rp db access space room"
    using a c(2,9) unfolding lobby_moderator_def by (auto simp: s)
qed

theorem lobby_entry_by_moderator:
  assumes "media_reachable sha256 rp db" and "media_step sha256 rp db db'"
    and "p \<in> set (md_participants db)" and "pa_Status p = ParticipantWaiting"
    and "p' \<in> set (md_participants db')" and "pa_ID p' = pa_ID p"
    and "pa_Status p' \<in> {ParticipantAdmitted, ParticipantJoining, ParticipantConnected, ParticipantReconnecting}"
  shows "\<exists>access command item space room.
    MutateAdmission rp access command db = Inr (Inr item, db') \<and>
    lc_Operation command = ''admission_admit'' \<and> pa_AdmissionID p = Some (lc_AdmissionID command) \<and>
    loadSpace db (ac_TenantID access) (lc_SpaceID command) = Some space \<and> ms_Status space = SpaceStatusOpen \<and>
    \<not> ms_Locked space \<and>
    find_room db (ac_TenantID access) (lc_SpaceID command) (lc_ExpectedRoomInstanceID command) = Some room \<and>
    rm_Status room = RoomInstanceActive \<and> lobby_moderator rp db access space room"
proof -
  note ord = media_reachable_orderly[OF assms(1)]
  have inside: "let_in p'" using assms(7) by (simp add: let_in_def)
  have ok': "participants_ok (md_participants db')"
    using media_invD(3)[OF media_reachable_inv[OF reachable_step[OF assms(1,2)]]] .
  have no: False if it: "attends False db db'"
  proof -
    obtain q where q: "q \<in> set (md_participants db')" "q = p \<or> kept_out p q"
      using attends_kept_out[OF it] assms(3) by (auto simp: rows_kept_def)
    have "pa_ID q = pa_ID p'" using q(2) assms(6) participant_moved_same(1) by (auto simp: kept_out_def)
    then have "q = p'" by (rule participants_unique[OF ok' q(1) assms(5)])
    with q(2) inside assms(4) show False by (auto simp: kept_out_def let_in_def)
  qed
  obtain access command outcome where op: "lc_Operation command = ''admission_admit''"
    and call: "MutateAdmission rp access command db = Inr (outcome, db')"
    using media_step_entry[OF assms(2) ord] no by blast
  from call show ?thesis
  proof (cases rule: MutateAdmission_cases)
    case replayed
    then show ?thesis using no attends_same[of db' db] by simp
  next
    case late
    then show ?thesis
      using no expire_attempt_quiet(1)[OF ord loadLobbyAdmissionForMutation_Some(1), where admits = False]
      by (auto simp: quiet_def)
  next
    case (decided scope space room a q eventType db1 db2 item)
    note mod = loadModeratorLobby_Inr[OF decided(1)]
    note found = loadLobbyAdmissionForMutation_Some[OF decided(4)]
    have "admitLobbyAdmission scope a q (lc_OccurredAt command) db = Inr (eventType, db1)"
      using decided(8) op by (simp add: decide_admission_def)
    from admit_quiet[OF ord found(1) this] decided(10,12) have "md_participants db' =
        update_where (decided_participant (tc_TenantID scope) a q ParticipantWaiting)
          (admit_participant (lc_OccurredAt command)) (md_participants db)"
      by (auto simp: record_lobby_receipt_def insertLobbyMutationReceipt_def insert_receipt_def
          appendLobbyAdmissionEvent_def append_event_def)
    then obtain r where r: "r \<in> set (md_participants db)"
      "p' = where_changed (decided_participant (tc_TenantID scope) a q ParticipantWaiting)
        (admit_participant (lc_OccurredAt command)) r"
      using assms(5) by (auto simp: set_where_changed)
    have "pa_ID r = pa_ID p" using assms(6) by (simp add: r(2) where_changed_def admit_participant_def split: if_splits)
    then have "r = p" by (rule participants_unique[OF media_invD(3)[OF orderlyD(1)[OF ord]] r(1) assms(3)])
    then have "decided_participant (tc_TenantID scope) a q ParticipantWaiting p"
      using r(2) inside assms(4) by (auto simp: where_changed_def let_in_def split: if_splits)
    moreover have "ad_ID a = lc_AdmissionID command" using load_admission_Some[OF found(2)] by simp
    ultimately have "pa_AdmissionID p = Some (lc_AdmissionID command)" by (simp add: decided_participant_def)
    with call decided(3,11) op mod show ?thesis by blast
  qed
qed

theorem lobby_entry_by_moderator_witness:
  "\<exists>access command item. MutateAdmission ex_repo access command ex_waiting = Inr (Inr item, ex_admitted) \<and>
     lc_Operation command = ''admission_admit'' \<and> lc_AdmissionID command = 54"
proof -
  obtain p where p: "md_participants ex_waiting = [p]" "pa_ID p = 51" "pa_AdmissionID p = Some 54"
    "pa_Status p = ParticipantWaiting"
    using ex_queues(1) by (rule ex_queue_rows)
  obtain p' where p': "md_participants ex_admitted = [p']" "pa_ID p' = 51" "pa_Status p' = ParticipantAdmitted"
    using ex_queues(2) by (rule ex_queue_rows)
  from lobby_entry_by_moderator[OF ex_waiting_reachable ex_decision_steps(1), of p p'] p p' show ?thesis by auto
qed

subsection \<open>Decisions are final\<close>

text \<open>
  C12.  A request is decided once: however the program goes on, a request keeps its identity and
  its version never falls; one that was waiting may be decided, a denial may be lifted, which
  cancels the request, and one that was admitted, cancelled or expired never changes again.
\<close>

theorem admission_decided_once:
  assumes "media_reachable sha256 rp db" and "media_run sha256 rp db db'" and "a \<in> set (md_admissions db)"
  shows "\<exists>a'\<in>set (md_admissions db'). admission_identity a' = admission_identity a \<and>
    (a' = a \<or> ad_Version a < ad_Version a' \<and>
      (ad_Status a = AdmissionWaiting \<and> ad_Status a' \<noteq> AdmissionWaiting \<or>
       ad_Status a = AdmissionDenied \<and> ad_Status a' = AdmissionCancelled))"
  using attends_kept[OF media_run_attends[OF assms(2) media_reachable_orderly[OF assms(1)]]] assms(3)
  by (fastforce simp: attendance_kept_def attendance_of_def rows_kept_def admission_moved_def)

theorem admission_decided_once_witness:
  "\<exists>a a'. md_admissions ex_waiting = [a] \<and> md_admissions ex_denied = [a'] \<and> ad_UserID a' = ad_UserID a \<and>
     ad_Version a < ad_Version a'"
proof -
  obtain a where a: "md_admissions ex_waiting = [a]" "ad_Status a = AdmissionWaiting"
    using ex_queues(1) by (rule ex_queue_rows)
  obtain a' where a': "md_admissions ex_denied = [a']" "ad_Status a' = AdmissionDenied"
    using ex_queues(3) by (rule ex_queue_rows)
  have "media_run ex_hash ex_repo ex_waiting ex_denied"
    by (rule media_run.step[OF media_run.refl ex_decision_steps(2)])
  from admission_decided_once[OF ex_waiting_reachable this, of a] a a' show ?thesis
    by (auto simp: admission_identity_def)
qed



subsection \<open>The queue\<close>

text \<open>
  C13.  The queue moves: whoever may moderate the lobby always gets its listing, whatever state
  the program has reached, as long as the requests' users exist; afterwards every request of the
  room that is still waiting has time left, the overdue ones are closed as timed out, and the
  listing shows requests that are waiting and no others.
\<close>

theorem listing_clears_the_queue:
  assumes "media_reachable sha256 rp db" and "users_known db" and "0 \<le> ttl"
    and "loadModeratorLobby rp db access spaceID (ll_ExpectedSpaceVersion input)
      (ll_ExpectedRoomInstanceID input) (ll_ExpectedRoomInstanceVersion input) = Inr (scope, space, room)"
  shows "\<exists>items db'. ListAdmissions rp access spaceID input now ttl db = Inr (items, db') \<and>
    md_admissions db' = update_where (overdue (tc_TenantID scope) spaceID (rm_ID room) now ttl)
      (resolve_admission AdmissionExpired None (Some ''wait_timeout'') now) (md_admissions db) \<and>
    (\<forall>a\<in>set (md_admissions db'). waiting_admission (tc_TenantID scope) spaceID (rm_ID room) a \<longrightarrow>
       now < ad_CreatedAt a + ttl) \<and>
    (\<forall>item\<in>set items. \<exists>a\<in>set (md_admissions db'). la_ID item = ad_ID a \<and> la_Status item = LobbyAdmissionWaiting \<and>
       waiting_admission (tc_TenantID scope) spaceID (rm_ID room) a)"
proof -
  let ?late = "overdue (tc_TenantID scope) spaceID (rm_ID room) now ttl"
  obtain db' where d: "expireTimedOutLobbyAdmissions scope spaceID (rm_ID room) now ttl db = Inr db'"
    "md_admissions db' = update_where ?late
      (resolve_admission AdmissionExpired None (Some ''wait_timeout'') now) (md_admissions db)"
    using expireTimedOut_succeeds[OF media_reachable_orderly[OF assms(1)] assms(2,3)] by blast
  define items where "items = map (admission_item db' ttl) (take (nat (ll_Limit input)) (in_queue_order
    (filter (\<lambda>r. admission_of db' (tc_TenantID scope) spaceID (rm_ID room) r \<and>
       ad_Status r = AdmissionWaiting \<and> ad_CreatedAt r > now - ttl) (md_admissions db'))))"
  have "ListAdmissions rp access spaceID input now ttl db = Inr (items, db')"
    by (simp add: ListAdmissions_def assms(4) d(1) items_def lobby_unavailable_def)
  moreover have "now < ad_CreatedAt a + ttl"
    if "a \<in> set (md_admissions db')" "waiting_admission (tc_TenantID scope) spaceID (rm_ID room) a" for a
  proof -
    from that(1) obtain b where b: "a = where_changed ?late
        (resolve_admission AdmissionExpired None (Some ''wait_timeout'') now) b"
      unfolding d(2) set_where_changed by (elim imageE)
    with that(2) have "\<not> ?late a"
      by (auto simp: where_changed_def waiting_admission_def resolve_admission_def split: if_splits)
    with that(2) show ?thesis by (simp add: overdue_def)
  qed
  moreover have "\<exists>a\<in>set (md_admissions db'). la_ID item = ad_ID a \<and> la_Status item = LobbyAdmissionWaiting \<and>
      waiting_admission (tc_TenantID scope) spaceID (rm_ID room) a" if it: "item \<in> set items" for item
  proof -
    obtain a where "item = admission_item db' ttl a" "a \<in> set (md_admissions db')"
      "admission_of db' (tc_TenantID scope) spaceID (rm_ID room) a" "ad_Status a = AdmissionWaiting"
      using it by (auto simp: items_def dest!: in_set_takeD)
    then show ?thesis by (intro bexI[of _ a]) (simp_all add: admission_item_def admission_of_def waiting_admission_def)
  qed
  ultimately show ?thesis using d(2) by blast
qed

definition ex_page :: lobby_list_input where
  "ex_page = \<lparr>ll_ExpectedSpaceVersion = 2, ll_ExpectedRoomInstanceID = 30, ll_ExpectedRoomInstanceVersion = 2,
     ll_Limit = 50\<rparr>"

lemma ex_lobby_open: "is_ok (loadModeratorLobby ex_repo ex_waiting (ex_access 7) 20 2 30 2)"
  by code_simp

lemma ex_users_known: "list_all (\<lambda>a. user_of ex_waiting (ad_UserID a) \<noteq> None) (md_admissions ex_waiting)"
  by code_simp

theorem listing_clears_the_queue_witness:
  "\<exists>items db'. ListAdmissions ex_repo (ex_access 7) 20 ex_page 950 300 ex_waiting = Inr (items, db')"
proof -
  obtain scope space room where "loadModeratorLobby ex_repo ex_waiting (ex_access 7) 20
      (ll_ExpectedSpaceVersion ex_page) (ll_ExpectedRoomInstanceID ex_page) (ll_ExpectedRoomInstanceVersion ex_page) =
      Inr (scope, space, room)"
    using ex_lobby_open by (auto simp: is_ok_conv ex_page_def)
  moreover have "users_known ex_waiting" using ex_users_known by (simp add: users_known_def list_all_iff)
  ultimately show ?thesis
    using listing_clears_the_queue[OF ex_waiting_reachable, of 300 "ex_access 7" 20 ex_page scope space room 950] by auto
qed

end
