(* ===== verification/Media_Moderation_Properties.thy ===== *)
theory Media_Moderation_Properties imports Media_Lobby_Properties Media_Entitlement begin

section \<open>What moderation guarantees\<close>

text \<open>
  Who may lock a room and promote, demote, mute or remove whom, what a command changes, and that a
  command with its key is carried out once.
\<close>

subsection \<open>Authority\<close>

lemma ApplyModeration_fresh:
  assumes "ApplyModeration rp access command acceptedAt db = Inr (result, db')"
    and "find_receipt db (scope_of access) (mo_IdempotencyKey command) = None"
  obtains access' space source where "requireActiveScope db access = Inr (access', scope_of access)"
    and "loadSpace db (ac_TenantID access) (mo_SpaceID command) = Some space"
    and "authorizeSource rp db access' (scope_of access) space PermissionSessionJoin False False = Inr source"
    and "apply_new_moderation rp access' (scope_of access) space source command acceptedAt db = Inr (result, db')"
proof -
  from assms(1)[unfolded ApplyModeration_def None_Inl_Inr try_res_eq_Inr split_paired_Ex case_prod_conv]
  obtain access' scope space source replay where
    a: "requireActiveScope db access = Inr (access', scope)"
    and c: "loadSpace db (tc_TenantID scope) (mo_SpaceID command) = Some space"
      "authorizeSource rp db access' scope space PermissionSessionJoin False False = Inr source"
    and r: "loadModerationReplay db scope command = Inr replay"
    and k: "(case replay of Some result \<Rightarrow> Inr (result, db)
      | None \<Rightarrow> apply_new_moderation rp access' scope space source command acceptedAt db) = Inr (result, db')"
    by auto
  note s = requireActiveScope_Inr(1)[OF a]
  have "replay = None" using r assms(2) by (simp add: loadModerationReplay_def s)
  with k have "apply_new_moderation rp access' scope space source command acceptedAt db = Inr (result, db')" by simp
  with a c that show thesis by (simp add: s)
qed

text \<open>Whether the operation is about a participant.\<close>

definition targeted :: "moderation_operation \<Rightarrow> bool" where
  "targeted operation \<longleftrightarrow> operation \<noteq> ModerationLock \<and> operation \<noteq> ModerationUnlock"

lemma moderate_targeted:
  assumes "moderate scope command space room actorRole safety db = Inr ((target, result), db')"
    and "targeted (mo_Operation command)"
  obtains p where "target = Some p"
    and "loadModerationTarget db (tc_TenantID scope) (ms_ID space) (rm_ID room) (mo_ParticipantKey command) = Some p"
    and "pa_UserID p \<noteq> tc_ActorID scope"
    and "effectiveRoomRole db (tc_TenantID scope) (rm_ID room) (pa_UserID p) (pa_InstanceRole p) \<noteq> InstanceRoleHost"
    and "\<not> safety \<Longrightarrow> moderationTargetAllowed (mo_Operation command) actorRole
      (effectiveRoomRole db (tc_TenantID scope) (rm_ID room) (pa_UserID p) (pa_InstanceRole p))"
    and "applyParticipantModeration scope command room p
      ((moderation_start space room)\<lparr>mw_TargetParticipantKey := Some (pa_ParticipantKey p)\<rparr>) db = Inr (result, db')"
  using assms by (auto simp: moderate_def targeted_def Let_def None_Inl_Inr split: if_split_asm)

lemma authority_cases:
  assumes "moderationAuthority operation role admin = (normal, safety)" and "normal \<or> safety"
  shows "(\<exists>r. role = Some r \<and> moderationActorAllowed operation r) \<or> operation = ModerationRemove \<and> admin"
    and "safety \<longleftrightarrow> operation = ModerationRemove \<and> admin"
  using assms by (auto simp: moderationAuthority_def split: if_split_asm option.split_asm)

text \<open>Which role moderates what, and which role a target has to have.\<close>

definition role_moderates :: "moderation_operation \<Rightarrow> instance_role option \<Rightarrow> bool" where
  "role_moderates operation role \<longleftrightarrow> role = Some InstanceRoleHost \<or>
     role = Some InstanceRoleCoHost \<and> operation \<in> {ModerationRemove, ModerationMute} \<or>
     role = Some InstanceRoleTeachingAssistant \<and> operation = ModerationMute"

definition target_moderated :: "moderation_operation \<Rightarrow> instance_role option \<Rightarrow> instance_role \<Rightarrow> bool" where
  "target_moderated operation role targetRole \<longleftrightarrow>
     (operation = ModerationPromote \<and> targetRole = InstanceRoleAttendee) \<or>
     (operation = ModerationDemote \<and> targetRole = InstanceRoleCoHost) \<or>
     (operation \<in> {ModerationMute, ModerationRemove} \<and>
       (role = Some InstanceRoleHost \<or> targetRole = InstanceRoleAttendee))"

text \<open>An active administrator of the organization who is neither host nor co-host by the source of the space.\<close>

definition safety_administrator :: "class_tables media_db \<Rightarrow> access_context \<Rightarrow> space_row \<Rightarrow> bool" where
  "safety_administrator db access space \<longleftrightarrow>
     cd_memberships (md_controls db) (ac_TenantID access, ac_ActorID access) = Some (OrganizationRoleAdmin, ''active'') \<and>
     safety_role db [OrganizationRoleAdmin] (scope_of access) space"

lemma loadModerationTarget_moderations:
  "loadModerationTarget (db\<lparr>md_moderations := windows\<rparr>) t sp r key = loadModerationTarget db t sp r key"
  by (simp add: loadModerationTarget_def)

lemma effectiveRoomRole_moderations:
  "effectiveRoomRole (db\<lparr>md_moderations := windows\<rparr>) t r u role = effectiveRoomRole db t r u role"
  by (simp add: effectiveRoomRole_def)

lemma actor_allowed_moderates:
  "moderationActorAllowed operation r \<Longrightarrow> role_moderates operation (Some r)"
  by (cases operation) (auto simp: role_moderates_def)

lemma target_allowed_moderated:
  assumes "moderationTargetAllowed operation role targetRole" and "targeted operation"
  shows "target_moderated operation role targetRole"
  using assms
  by (cases operation) (auto simp: moderationTargetAllowed_def target_moderated_def targeted_def split: if_split_asm)

text \<open>
  C10.  Authority: a moderation command that is carried out finds an open space and an active room at
  the versions its caller saw.  Either the caller is in the call as host, or as co-host for a removal or
  a mute, or as teaching assistant for a mute; then a promotion is of an attendee, a demotion of a
  co-host, and who is not the host mutes and removes attendees only.  Or the caller is a safety
  administrator, an active administrator of the organization who neither owns nor co-teaches the class
  of the space and does not own its study meeting, removes somebody, and says why.  Nobody acts on
  themselves or on the host.
\<close>

theorem moderation_authority:
  assumes "ApplyModeration rp access command acceptedAt db = Inr (result, db')"
    and "find_receipt db (scope_of access) (mo_IdempotencyKey command) = None"
    and "rp_ClassSources rp = classroom_sources"
  shows "\<exists>space room. loadSpace db (ac_TenantID access) (mo_SpaceID command) = Some space \<and>
    ms_Status space = SpaceStatusOpen \<and> ms_Version space = mv_SpaceVersion (mo_Expected command) \<and>
    find_room db (ac_TenantID access) (mo_SpaceID command) (mv_RoomInstanceID (mo_Expected command)) = Some room \<and>
    rm_Status room = RoomInstanceActive \<and> rm_Version room = mv_RoomVersion (mo_Expected command) \<and>
    rm_ProjectionVersion room = mv_ProjectionVersion (mo_Expected command) \<and>
    (let operation = mo_Operation command; role = actor_room_role db (scope_of access) (mo_SpaceID command) (rm_ID room);
         safety = (operation = ModerationRemove \<and> mo_ReasonCode command \<noteq> [] \<and> safety_administrator db access space) in
     (role_moderates operation role \<or> safety) \<and>
     (targeted operation \<longrightarrow> (\<exists>p.
       loadModerationTarget db (ac_TenantID access) (mo_SpaceID command) (rm_ID room) (mo_ParticipantKey command) =
         Some p \<and> pa_UserID p \<noteq> ac_ActorID access \<and>
       (let targetRole = effectiveRoomRole db (ac_TenantID access) (rm_ID room) (pa_UserID p) (pa_InstanceRole p)
        in targetRole \<noteq> InstanceRoleHost \<and> (target_moderated operation role targetRole \<or> safety)))))"
proof -
  obtain access' space source where a: "requireActiveScope db access = Inr (access', scope_of access)"
    and space: "loadSpace db (ac_TenantID access) (mo_SpaceID command) = Some space"
    and src: "authorizeSource rp db access' (scope_of access) space PermissionSessionJoin False False = Inr source"
    and new: "apply_new_moderation rp access' (scope_of access) space source command acceptedAt db = Inr (result, db')"
    by (rule ApplyModeration_fresh[OF assms(1,2)])
  have id: "ms_ID space = mo_SpaceID command" and tenant: "ms_TenantID space = tc_TenantID (scope_of access)"
    using loadSpace_Some[OF space] by simp_all
  have admin: "safety_administrator db access space" if "as_SafetyAdmin source"
  proof -
    obtain role where role: "cd_memberships (md_controls db) (ac_TenantID access, ac_ActorID access) = Some (role, ''active'')"
      "ac_OrganizationRoles access' = [role]" using requireActiveScope_Inr(5)[OF a] by auto
    from authorized_safety[OF src that assms(3) tenant] have s: "safety_role db [role] (scope_of access) space"
      by (simp add: role(2))
    then have "role = OrganizationRoleAdmin" by (simp add: safety_role_def)
    with s role(1) show ?thesis by (simp add: safety_administrator_def)
  qed
  from new show ?thesis
  proof (rule apply_new_moderation_Inr)
    fix room :: room_row and normal safety windows target db2 db3
    let ?role = "actor_room_role db (scope_of access) (ms_ID space) (rm_ID room)"
    let ?safe = "mo_Operation command = ModerationRemove \<and> mo_ReasonCode command \<noteq> [] \<and> safety_administrator db access space"
    assume room: "ms_Status space = SpaceStatusOpen"
        "find_room db (tc_TenantID (scope_of access)) (ms_ID space) (mv_RoomInstanceID (mo_Expected command)) = Some room"
        "rm_Status room = RoomInstanceActive" "ms_Version space = mv_SpaceVersion (mo_Expected command)"
        "rm_Version room = mv_RoomVersion (mo_Expected command)"
        "rm_ProjectionVersion room = mv_ProjectionVersion (mo_Expected command)"
      and auth: "moderationAuthority (mo_Operation command) ?role (as_SafetyAdmin source) = (normal, safety)"
        "normal \<or> safety" "safety \<longrightarrow> mo_ReasonCode command \<noteq> []"
      and m: "moderate (scope_of access) command space room ?role safety (db\<lparr>md_moderations := windows\<rparr>) =
          Inr ((target, result), db2)"
    have who: "role_moderates (mo_Operation command) ?role \<or> ?safe" and safe: "safety \<Longrightarrow> ?safe"
      using authority_cases[OF auth(1,2)] auth(3) admin actor_allowed_moderates by auto
    have "\<exists>p. loadModerationTarget db (ac_TenantID access) (mo_SpaceID command) (rm_ID room)
          (mo_ParticipantKey command) = Some p \<and> pa_UserID p \<noteq> ac_ActorID access \<and>
       (let targetRole = effectiveRoomRole db (ac_TenantID access) (rm_ID room) (pa_UserID p) (pa_InstanceRole p)
        in targetRole \<noteq> InstanceRoleHost \<and> (target_moderated (mo_Operation command) ?role targetRole \<or> ?safe))"
      if t: "targeted (mo_Operation command)"
    proof -
      from m t show ?thesis
      proof (rule moderate_targeted)
        fix p assume "loadModerationTarget (db\<lparr>md_moderations := windows\<rparr>) (tc_TenantID (scope_of access))
            (ms_ID space) (rm_ID room) (mo_ParticipantKey command) = Some p"
          and "pa_UserID p \<noteq> tc_ActorID (scope_of access)"
          and "effectiveRoomRole (db\<lparr>md_moderations := windows\<rparr>) (tc_TenantID (scope_of access)) (rm_ID room)
            (pa_UserID p) (pa_InstanceRole p) \<noteq> InstanceRoleHost"
          and "\<not> safety \<Longrightarrow> moderationTargetAllowed (mo_Operation command) ?role
            (effectiveRoomRole (db\<lparr>md_moderations := windows\<rparr>) (tc_TenantID (scope_of access)) (rm_ID room)
              (pa_UserID p) (pa_InstanceRole p))"
        then have p: "loadModerationTarget db (ac_TenantID access) (mo_SpaceID command) (rm_ID room)
            (mo_ParticipantKey command) = Some p" "pa_UserID p \<noteq> ac_ActorID access"
          "effectiveRoomRole db (ac_TenantID access) (rm_ID room) (pa_UserID p) (pa_InstanceRole p) \<noteq> InstanceRoleHost"
          "\<not> safety \<Longrightarrow> target_moderated (mo_Operation command) ?role
            (effectiveRoomRole db (ac_TenantID access) (rm_ID room) (pa_UserID p) (pa_InstanceRole p))"
          by (simp_all add: id target_allowed_moderated[OF _ t] loadModerationTarget_moderations effectiveRoomRole_moderations)
        with safe show ?thesis by (cases safety) (auto simp: Let_def)
      qed
    qed
    with room who space show ?thesis
      by (intro exI[of _ space] exI[of _ room]) (simp add: id Let_def)
  qed
qed

subsection \<open>A call of two\<close>

definition ex_guest :: participant_row where
  "ex_guest = join_participant InstanceRoleAttendee 680 (admit_participant 650
     (new_participant \<lparr>tc_TenantID = 1, tc_ActorID = 8\<rparr> 20 30 (ex_ids 50) 50 InstanceRoleAttendee True 2 600))"

definition ex_host :: participant_row where
  "ex_host = join_participant InstanceRoleHost 500
     (new_participant \<lparr>tc_TenantID = 1, tc_ActorID = 7\<rparr> 20 30 (ex_ids 40) 40 InstanceRoleHost False 1 400)"

definition ex_meeting_db :: "class_tables media_db" where
  "ex_meeting_db = ex_waiting\<lparr>md_rooms := [ex_room\<lparr>rm_NextRosterSequence := 2\<rparr>],
     md_participants := [ex_host, ex_guest],
     md_admissions := map (resolve_admission AdmissionAdmitted (Some 7) None 650) (md_admissions ex_waiting)\<rparr>"

definition ex_moderation :: "moderation_operation \<Rightarrow> int \<Rightarrow> moderation_command" where
  "ex_moderation operation projection = \<lparr>mo_Operation = operation, mo_SpaceID = 20, mo_ParticipantKey = 52,
     mo_Expected = \<lparr>mv_RoomInstanceID = 30, mv_SpaceVersion = 2, mv_RoomVersion = 2,
       mv_ProjectionVersion = projection\<rparr>,
     mo_IdempotencyKey = ''moderate-key-001'', mo_DesiredRole = None, mo_ReasonCode = [],
     mo_Fingerprint = replicate 32 CHR ''m'', mo_OccurredAt = 690\<rparr>"

lemma ex_removal_ok: "is_ok (ApplyModeration ex_repo (ex_access 7) (ex_moderation ModerationRemove 1) 690 ex_meeting_db)"
  by code_simp

lemma ex_removal_fresh:
  "find_receipt ex_meeting_db (scope_of (ex_access 7)) (mo_IdempotencyKey (ex_moderation ModerationRemove 1)) = None"
  by code_simp

lemma ex_removal_call:
  "\<exists>result db'. ApplyModeration ex_repo (ex_access 7) (ex_moderation ModerationRemove 1) 690 ex_meeting_db = Inr (result, db')"
  using ex_removal_ok by (auto simp: is_ok_conv)

theorem moderation_authority_witness:
  "\<exists>room p. find_room ex_meeting_db 1 20 30 = Some room \<and>
     loadModerationTarget ex_meeting_db 1 20 (rm_ID room) 52 = Some p \<and> pa_UserID p \<noteq> 7"
proof -
  obtain result db' where
    c: "ApplyModeration ex_repo (ex_access 7) (ex_moderation ModerationRemove 1) 690 ex_meeting_db = Inr (result, db')"
    using ex_removal_call by blast
  have "rp_ClassSources ex_repo = classroom_sources" by (simp add: ex_repo_def)
  from moderation_authority[OF c ex_removal_fresh this] show ?thesis
    by (auto simp: ex_access_def ex_moderation_def targeted_def Let_def)
qed


subsection \<open>What a command changes\<close>

lemma target_update_local:
  assumes "update_returning ok (target_in_call scope command i p) f rows = Inr (q, rows')"
  shows "rows' = update_where (target_in_call scope command i p) f rows \<and> (\<exists>r. q = f r \<and> pa_ID r = pa_ID p)"
  using assms by (auto simp: update_returning_Inr target_in_call_def dest!: find_in_set)

text \<open>What each operation does to the tables, before the receipt and the event.\<close>

lemma moderate_change:
  assumes call: "moderate scope command space room role safety db = Inr ((target, result), db')"
  shows "md_admissions db' = md_admissions db \<and> md_receipts db' = md_receipts db \<and>
    (case mo_Operation command of
       ModerationMute \<Rightarrow> db' = db
     | ModerationRemove \<Rightarrow> \<exists>p. target = Some p \<and>
         md_participants db' = update_where (target_in_call scope command (rm_ID room) p)
           (moderation_removal (tc_ActorID scope) (mo_OccurredAt command)) (md_participants db) \<and>
         (\<forall>h\<in>set (md_hands db'). hs_TenantID h = tc_TenantID scope \<longrightarrow> hs_RoomID h = rm_ID room \<longrightarrow>
            hs_ParticipantID h = pa_ID p \<longrightarrow> \<not> hs_Raised h)
     | ModerationPromote \<Rightarrow> \<exists>p role. target = Some p \<and> mo_DesiredRole command = Some role \<and>
         md_participants db' = update_where (target_in_call scope command (rm_ID room) p)
           (change_role role (mo_OccurredAt command)) (md_participants db)
     | ModerationDemote \<Rightarrow> \<exists>p role. target = Some p \<and> mo_DesiredRole command = Some role \<and>
         md_participants db' = update_where (target_in_call scope command (rm_ID room) p)
           (change_role role (mo_OccurredAt command)) (md_participants db)
     | _ \<Rightarrow> md_participants db' = md_participants db \<and> md_rooms db' = md_rooms db)"
proof (cases "targeted (mo_Operation command)")
  case False
  then show ?thesis
    using call
    by (auto simp: targeted_def moderate_def set_locked_def Let_def split: if_split_asm)
next
  case True
  from call True obtain p where p: "target = Some p"
    and k: "applyParticipantModeration scope command room p
      ((moderation_start space room)\<lparr>mw_TargetParticipantKey := Some (pa_ParticipantKey p)\<rparr>) db = Inr (result, db')"
    by (rule moderate_targeted)
  show ?thesis
  proof (cases "mo_Operation command")
    case ModerationRemove
    then show ?thesis
      using k p
      by (auto simp: applyParticipantModeration_def Let_def advance_target_def lower_hands_def update_where_def
          moderation_removal_def dest!: target_update_local)
  next
    case ModerationMute
    then show ?thesis using k by (simp add: applyParticipantModeration_def Let_def)
  next
    case ModerationPromote
    then show ?thesis
      using k p
      by (auto simp: applyParticipantModeration_def Let_def mutateDynamicCoHost_def advance_target_def
          split: option.split_asm dest!: target_update_local)
  next
    case ModerationDemote
    then show ?thesis
      using k p
      by (auto simp: applyParticipantModeration_def Let_def mutateDynamicCoHost_def advance_target_def
          split: option.split_asm dest!: target_update_local)
  qed (use True in \<open>simp_all add: targeted_def\<close>)
qed

text \<open>
  C14.  A command changes its target and nobody else: every participant row but the target's stays
  as it is, and so does every request; a mute leaves the participants alone, a removal takes the
  target out of the call, lowers their hand and releases their place; each command leaves exactly
  one receipt, which asks for an effect at the provider unless the command is a lock.
\<close>

theorem moderation_changes_its_target:
  assumes "ApplyModeration rp access command acceptedAt db = Inr (result, db')"
    and "find_receipt db (scope_of access) (mo_IdempotencyKey command) = None"
  shows "md_admissions db' = md_admissions db \<and>
    (\<exists>r. md_receipts db' = md_receipts db @ [r] \<and> rc_IdempotencyKey r = mo_IdempotencyKey command \<and>
       (rc_EffectRequired r \<longleftrightarrow> targeted (mo_Operation command))) \<and>
    (\<forall>q\<in>set (md_participants db). q \<in> set (md_participants db') \<or>
       targeted (mo_Operation command) \<and> mo_Operation command \<noteq> ModerationMute \<and> in_call q \<and>
       pa_RoomID q = mv_RoomInstanceID (mo_Expected command) \<and>
       (\<exists>p. loadModerationTarget db (ac_TenantID access) (mo_SpaceID command)
          (mv_RoomInstanceID (mo_Expected command)) (mo_ParticipantKey command) = Some p \<and> pa_ID q = pa_ID p)) \<and>
    (mo_Operation command = ModerationRemove \<longrightarrow> (\<forall>q\<in>set (md_participants db').
       \<forall>p. loadModerationTarget db (ac_TenantID access) (mo_SpaceID command)
          (mv_RoomInstanceID (mo_Expected command)) (mo_ParticipantKey command) = Some p \<longrightarrow>
       pa_TenantID q = ac_TenantID access \<longrightarrow> pa_SpaceID q = mo_SpaceID command \<longrightarrow>
       pa_RoomID q = mv_RoomInstanceID (mo_Expected command) \<longrightarrow> pa_ID q = pa_ID p \<longrightarrow> \<not> in_call q))"
proof -
  obtain access' space source where
    space: "loadSpace db (ac_TenantID access) (mo_SpaceID command) = Some space"
    and new: "apply_new_moderation rp access' (scope_of access) space source command acceptedAt db = Inr (result, db')"
    by (rule ApplyModeration_fresh[OF assms])
  have id: "ms_ID space = mo_SpaceID command" using loadSpace_Some[OF space] by simp
  let ?key = "mo_ParticipantKey command" and ?i = "mv_RoomInstanceID (mo_Expected command)"
  from new show ?thesis
  proof (rule apply_new_moderation_Inr)
    fix room :: room_row and normal safety windows target db2 db3
    let ?db = "db\<lparr>md_moderations := windows\<rparr>"
    let ?role = "actor_room_role db (scope_of access) (ms_ID space) (rm_ID room)"
    assume room: "find_room db (tc_TenantID (scope_of access)) (ms_ID space) ?i = Some room"
      and m: "moderate (scope_of access) command space room ?role safety ?db = Inr ((target, result), db2)"
      and ins: "insert_receipt ErrModerationUnavailable (moderation_receipt (scope_of access) command room target result) db2 =
          Inr db3"
      and db': "db' = appendModerationEvent (scope_of access) command target result safety db3"
    have i: "rm_ID room = ?i" using room by (auto simp: find_room_def dest!: find_in_set)
    have t: "target = loadModerationTarget db (ac_TenantID access) (mo_SpaceID command) ?i ?key \<and> target \<noteq> None"
      if "targeted (mo_Operation command)"
      using m that by (rule moderate_targeted) (auto simp: id i loadModerationTarget_def)
    note ch = moderate_change[OF m]
    have db3: "db3 = db2\<lparr>md_receipts := md_receipts db2 @
        [moderation_receipt (scope_of access) command room target result]\<rparr>"
      using ins by (auto simp: insert_receipt_def)
    have same: "md_admissions db' = md_admissions db2" "md_participants db' = md_participants db2"
      "md_receipts db' = md_receipts db2 @ [moderation_receipt (scope_of access) command room target result]"
      by (simp_all add: db' appendModerationEvent_def append_event_def db3)
    have "md_admissions db' = md_admissions db" using ch by (simp add: same)
    moreover have "\<exists>r. md_receipts db' = md_receipts db @ [r] \<and> rc_IdempotencyKey r = mo_IdempotencyKey command \<and>
       (rc_EffectRequired r \<longleftrightarrow> targeted (mo_Operation command))"
      using ch by (cases "mo_Operation command") (simp_all add: same moderation_receipt_def Let_def targeted_def)
    moreover have "q \<in> set (md_participants db') \<or>
       targeted (mo_Operation command) \<and> mo_Operation command \<noteq> ModerationMute \<and> in_call q \<and> pa_RoomID q = ?i \<and>
       (\<exists>p. loadModerationTarget db (ac_TenantID access) (mo_SpaceID command) ?i ?key = Some p \<and> pa_ID q = pa_ID p)"
      if q: "q \<in> set (md_participants db)" for q
    proof (cases "md_participants db' = md_participants db")
      case False
      then have op: "targeted (mo_Operation command)" "mo_Operation command \<noteq> ModerationMute"
        using ch by (auto simp: same targeted_def split: moderation_operation.split_asm)
      from t[OF op(1)] obtain p where p: "target = Some p"
        "loadModerationTarget db (ac_TenantID access) (mo_SpaceID command) ?i ?key = Some p" by auto
      obtain f where "md_participants db' = update_where (target_in_call (scope_of access) command ?i p) f (md_participants db)"
        using ch op p(1) i by (auto simp: same targeted_def split: moderation_operation.split_asm)
      then have "target_in_call (scope_of access) command ?i p q \<or> q \<in> set (md_participants db')"
        using q update_where_untouched by metis
      then show ?thesis using op p(2) by (auto simp: target_in_call_def)
    qed (simp add: q)
    moreover have "\<not> in_call q"
      if rem: "mo_Operation command = ModerationRemove" and q: "q \<in> set (md_participants db')"
        and p: "loadModerationTarget db (ac_TenantID access) (mo_SpaceID command) ?i ?key = Some p"
        and at: "pa_TenantID q = ac_TenantID access" "pa_SpaceID q = mo_SpaceID command" "pa_RoomID q = ?i"
          "pa_ID q = pa_ID p" for q p
    proof -
      have "target = Some p" using t p rem by (simp add: targeted_def)
      with ch rem i have "md_participants db' = update_where (target_in_call (scope_of access) command ?i p)
          (moderation_removal (ac_ActorID access) (mo_OccurredAt command)) (md_participants db)" by (auto simp: same)
      with q obtain r where "q = where_changed (target_in_call (scope_of access) command ?i p)
          (moderation_removal (ac_ActorID access) (mo_OccurredAt command)) r" by (auto simp: set_where_changed)
      with at show ?thesis
        by (auto simp: where_changed_def target_in_call_def in_call_def moderation_removal_def split: if_splits)
    qed
    ultimately show ?thesis by blast
  qed
qed

theorem moderation_changes_its_target_witness:
  "\<exists>result db'. ApplyModeration ex_repo (ex_access 7) (ex_moderation ModerationRemove 1) 690 ex_meeting_db =
     Inr (result, db') \<and> (\<exists>r. md_receipts db' = md_receipts ex_meeting_db @ [r] \<and> rc_EffectRequired r)"
proof -
  obtain result db' where
    c: "ApplyModeration ex_repo (ex_access 7) (ex_moderation ModerationRemove 1) 690 ex_meeting_db = Inr (result, db')"
    using ex_removal_call by blast
  have "targeted (mo_Operation (ex_moderation ModerationRemove 1))" by (simp add: ex_moderation_def targeted_def)
  with moderation_changes_its_target[OF c ex_removal_fresh] c show ?thesis by blast
qed

subsection \<open>Exactly once\<close>

lemma receipt_persists:
  assumes "media_reachable sha256 rp db" and "media_run sha256 rp db db'" and "r \<in> set (md_receipts db)"
    and "receipt_key r = (tc_TenantID scope, tc_ActorID scope, key)"
  obtains r' where "find_receipt db' scope key = Some r'" and "receipt_identity r' = receipt_identity r"
proof -
  obtain new where "map receipt_identity (md_receipts db') = map receipt_identity (md_receipts db) @ new"
    using media_run_remembered[OF assms(2) media_reachable_orderly[OF assms(1)]]
    by (auto simp: remembered_def receipts_kept_def)
  from arg_cong[where f = set, OF this] have "receipt_identity r \<in> set (map receipt_identity (md_receipts db'))"
    using assms(3) by auto
  then obtain r' where r': "r' \<in> set (md_receipts db')" "receipt_identity r' = receipt_identity r" by auto
  have "unique_index (\<lambda>_. True) receipt_key (md_receipts db')"
    using media_invD(5)[OF media_reachable_inv[OF reachable_run[OF assms(1,2)]]] by (simp add: receipts_ok_def)
  from unique_index_find[OF this r'(1)] have "find_receipt db' scope key = Some r'"
    using assms(4) r'(2) by (simp add: find_receipt_def receipt_identity_def)
  with r'(2) that show thesis by blast
qed

lemma ApplyModeration_receipt:
  assumes "ApplyModeration rp access command acceptedAt db = Inr (result, db')"
  shows "\<exists>r\<in>set (md_receipts db'). receipt_key r = (ac_TenantID access, ac_ActorID access, mo_IdempotencyKey command) \<and>
    rc_Operation r = operation_string (mo_Operation command) \<and> rc_Fingerprint r = mo_Fingerprint command"
    and "find_receipt db (scope_of access) (mo_IdempotencyKey command) \<noteq> None \<Longrightarrow> db' = db"
proof -
  from assms[unfolded ApplyModeration_def None_Inl_Inr try_res_eq_Inr split_paired_Ex case_prod_conv]
  obtain access' scope space source replay where a: "requireActiveScope db access = Inr (access', scope)"
    and r: "loadModerationReplay db scope command = Inr replay"
    and k: "(case replay of Some result \<Rightarrow> Inr (result, db)
      | None \<Rightarrow> apply_new_moderation rp access' scope space source command acceptedAt db) = Inr (result, db')"
    by auto
  note s = requireActiveScope_Inr(1)[OF a]
  show "find_receipt db (scope_of access) (mo_IdempotencyKey command) \<noteq> None \<Longrightarrow> db' = db"
    using r k by (auto simp: loadModerationReplay_def s split: option.split_asm if_split_asm)
  show "\<exists>r\<in>set (md_receipts db'). receipt_key r = (ac_TenantID access, ac_ActorID access, mo_IdempotencyKey command) \<and>
    rc_Operation r = operation_string (mo_Operation command) \<and> rc_Fingerprint r = mo_Fingerprint command"
  proof (cases replay)
    case (Some result')
    with k have "db' = db" by simp
    with r Some show ?thesis
      by (auto simp: loadModerationReplay_def s receipt_key_def split: option.split_asm if_split_asm
          dest!: find_receipt_Some)
  next
    case None
    with k have "apply_new_moderation rp access' scope space source command acceptedAt db = Inr (result, db')" by simp
    then show ?thesis
      by (rule apply_new_moderation_Inr)
        (auto simp: insert_receipt_def appendModerationEvent_def append_event_def moderation_receipt_def Let_def
          receipt_key_def s)
  qed
qed

text \<open>
  C15.  Exactly once: after a moderation command has been carried out, any later command of the
  same actor with the same key changes nothing and succeeds only if it is the same command.
\<close>

theorem moderation_exactly_once:
  assumes "media_reachable sha256 rp db"
    and "ApplyModeration rp access command acceptedAt db = Inr (result, db1)" and "media_run sha256 rp db1 db2"
    and "ApplyModeration rp access' command' acceptedAt' db2 = Inr (result', db3)"
    and "ac_TenantID access' = ac_TenantID access" and "ac_ActorID access' = ac_ActorID access"
    and "mo_IdempotencyKey command' = mo_IdempotencyKey command"
  shows "db3 = db2 \<and> mo_Operation command' = mo_Operation command \<and> mo_Fingerprint command' = mo_Fingerprint command"
proof -
  have r1: "media_reachable sha256 rp db1" by (rule reachable_step[OF assms(1) media_step.moderated[OF assms(2)]])
  obtain r where r: "r \<in> set (md_receipts db1)"
    "receipt_key r = (ac_TenantID access, ac_ActorID access, mo_IdempotencyKey command)"
    "rc_Operation r = operation_string (mo_Operation command)" "rc_Fingerprint r = mo_Fingerprint command"
    using ApplyModeration_receipt(1)[OF assms(2)] by blast
  obtain r' where f: "find_receipt db2 (scope_of access') (mo_IdempotencyKey command') = Some r'"
    and i: "receipt_identity r' = receipt_identity r"
    by (rule receipt_persists[OF r1 assms(3) r(1), of "scope_of access'" "mo_IdempotencyKey command'"])
      (simp_all add: r(2) assms(5-7))
  have same: "db3 = db2" by (rule ApplyModeration_receipt(2)[OF assms(4)]) (simp add: f)
  obtain r2 where r2: "r2 \<in> set (md_receipts db2)"
    "receipt_key r2 = (ac_TenantID access', ac_ActorID access', mo_IdempotencyKey command')"
    "rc_Operation r2 = operation_string (mo_Operation command')" "rc_Fingerprint r2 = mo_Fingerprint command'"
    using ApplyModeration_receipt(1)[OF assms(4)] by (auto simp: same)
  have "unique_index (\<lambda>_. True) receipt_key (md_receipts db2)"
    using media_invD(5)[OF media_reachable_inv[OF reachable_run[OF r1 assms(3)]]] by (simp add: receipts_ok_def)
  from unique_indexD[OF this r2(1), of r'] find_receipt_Some[OF f] r2(2) have "r2 = r'"
    by (simp add: receipt_key_def)
  with i r(3,4) r2(3,4) have "operation_string (mo_Operation command') = operation_string (mo_Operation command)"
    "mo_Fingerprint command' = mo_Fingerprint command" by (simp_all add: receipt_identity_def)
  then show ?thesis using same by (cases "mo_Operation command"; cases "mo_Operation command'") simp_all
qed

definition ex_locked :: "class_tables media_db" where
  "ex_locked = after (ApplyModeration ex_repo (ex_access 7) (ex_moderation ModerationLock 2) 690 ex_db5) ex_db5"

lemma ex_lock_ok: "is_ok (ApplyModeration ex_repo (ex_access 7) (ex_moderation ModerationLock 2) 690 ex_db5)"
  by code_simp

lemma ex_relock_ok: "is_ok (ApplyModeration ex_repo (ex_access 7) (ex_moderation ModerationLock 2) 695 ex_locked)"
  by code_simp

theorem moderation_exactly_once_witness:
  "\<exists>result. ApplyModeration ex_repo (ex_access 7) (ex_moderation ModerationLock 2) 695 ex_locked = Inr (result, ex_locked)"
proof -
  obtain result where
    c: "ApplyModeration ex_repo (ex_access 7) (ex_moderation ModerationLock 2) 690 ex_db5 = Inr (result, ex_locked)"
    using after_ok[OF ex_lock_ok, of ex_db5] by (auto simp: ex_locked_def)
  obtain result' db3 where
    d: "ApplyModeration ex_repo (ex_access 7) (ex_moderation ModerationLock 2) 695 ex_locked = Inr (result', db3)"
    using ex_relock_ok by (auto simp: is_ok_conv)
  from moderation_exactly_once[OF ex_reachable(6) c media_run.refl d] d show ?thesis by auto
qed

end
