(* ===== verification/Media_Convergence_Properties.thy ===== *)
theory Media_Convergence_Properties imports Media_Moderation_Properties begin

section \<open>What the reconciler guarantees\<close>

text \<open>
  The effects that commands have left at the provider are carried out: a round of the reconciler
  settles one receipt, and enough rounds settle all of them.
\<close>

subsection \<open>Receipts with work to do\<close>

definition unfinished :: "receipt_row \<Rightarrow> bool" where
  "unfinished r \<longleftrightarrow> rc_EffectRequired r \<and>
     rc_EffectStatus r \<in> {ProviderEffectPending, ProviderEffectRetryableFailed, ProviderEffectApplying}"

definition lease_over :: "instant \<Rightarrow> receipt_row \<Rightarrow> bool" where
  "lease_over now r \<longleftrightarrow> (case rc_EffectLeaseUntil r of None \<Rightarrow> True | Some t \<Rightarrow> t \<le> now)"

text \<open>
  What the foreign keys and the drawn uuids give: the room and the target of the receipt exist, with
  an opaque room name and an identity, and no identifier is nil.
\<close>

definition due_room :: "'c media_db \<Rightarrow> receipt_row \<Rightarrow> string" where
  "due_room db r = (case receipt_room db r of None \<Rightarrow> [] | Some room \<Rightarrow> rm_ProviderRoomName room)"

definition due_identity :: "'c media_db \<Rightarrow> receipt_row \<Rightarrow> string" where
  "due_identity db r = (case receipt_target db r of None \<Rightarrow> [] | Some p \<Rightarrow> pa_ProviderIdentity p)"

definition addressable :: "'c media_db \<Rightarrow> receipt_row \<Rightarrow> bool" where
  "addressable db r \<longleftrightarrow> rc_TenantID r \<noteq> uuid_Nil \<and> rc_ActorID r \<noteq> uuid_Nil \<and> rc_SpaceID r \<noteq> uuid_Nil \<and>
     opaqueProviderRoomNamePattern (due_room db r) \<and> (rc_Operation r \<noteq> ''end'' \<longrightarrow> due_identity db r \<noteq> [])"

text \<open>
  The call that an effect asks for: an ended space has its room deleted, a muted participant is muted,
  and who was promoted, demoted or removed is disconnected, so that the new grants apply.
\<close>

definition due_call :: "'c media_db \<Rightarrow> receipt_row \<Rightarrow> provider_call" where
  "due_call db r =
     (if rc_Operation r = ''end'' then DeleteRoom (due_room db r)
      else if rc_Operation r = ''participant_mute'' then MuteParticipantMicrophone (due_room db r) (due_identity db r)
      else RemoveParticipantCall (due_room db r) (due_identity db r))"

definition settled_row :: "instant \<Rightarrow> instant \<Rightarrow> receipt_row \<Rightarrow> receipt_row" where
  "settled_row now completedAt r = complete_effect ProviderEffectApplied [] completedAt
     (claim_effect (rc_EffectAttempts r + 1) (now + providerModerationLease) now r)"

lemma settled_row_facts:
  "receipt_identity (settled_row now completedAt r) = receipt_identity r"
  "receipt_key (settled_row now completedAt r) = receipt_key r"
  "rc_EffectStatus (settled_row now completedAt r) = ProviderEffectApplied"
  "\<not> unfinished (settled_row now completedAt r)"
  by (simp_all add: settled_row_def complete_effect_def claim_effect_def receipt_identity_def receipt_key_def
      unfinished_def)

lemma due_receipts [simp]:
  "due_room (db\<lparr>md_receipts := rows\<rparr>) r = due_room db r"
  "due_identity (db\<lparr>md_receipts := rows\<rparr>) r = due_identity db r"
  by (cases "rc_ResultRoomID r"; cases "rc_TargetID r";
      simp add: due_room_def due_identity_def receipt_room_def receipt_target_def find_room_def)+

lemma due_call_receipts [simp]:
  "addressable (db\<lparr>md_receipts := rows\<rparr>) r \<longleftrightarrow> addressable db r"
  "due_call (db\<lparr>md_receipts := rows\<rparr>) = due_call db"
  by (auto simp: addressable_def due_call_def fun_eq_iff)

lemma durable_effect_fields:
  "de_TenantID (durable_effect_of db r) = rc_TenantID r"
  "de_OriginalActorID (durable_effect_of db r) = rc_ActorID r"
  "de_SpaceID (durable_effect_of db r) = rc_SpaceID r"
  "de_IdempotencyKey (durable_effect_of db r) = rc_IdempotencyKey r"
  "de_Operation (durable_effect_of db r) = rc_Operation r"
  "de_Attempt (durable_effect_of db r) = rc_EffectAttempts r + 1"
  "de_RoomName (durable_effect_of db r) = due_room db r"
  "de_ParticipantIdentity (durable_effect_of db r) = due_identity db r"
  by (simp_all add: durable_effect_of_def due_room_def due_identity_def)

lemma claim_effect_key [simp]: "receipt_key (claim_effect n t now r) = receipt_key r"
  by (simp add: claim_effect_def receipt_key_def)

lemma complete_effect_key [simp]: "receipt_key (complete_effect st code now r) = receipt_key r"
  by (simp add: complete_effect_def receipt_key_def)

lemma receipts_okD:
  assumes "receipts_ok rows"
  shows "r \<in> set rows \<Longrightarrow> receipt_check r" and "unique_index (\<lambda>_. True) receipt_key rows"
  using assms by (simp_all add: receipts_ok_def list_all_iff)

lemma receipts_ok_update:
  assumes "receipts_ok rows" and "\<And>r. receipt_key (f r) = receipt_key r"
    and "\<And>r. r \<in> set rows \<Longrightarrow> P r \<Longrightarrow> receipt_check (f r)"
  shows "receipts_ok (update_where P f rows)"
  using receipts_okD[OF assms(1)] assms(2,3)
  by (auto simp: receipts_ok_def list_all_iff set_update_where intro!: unique_index_update)

lemma outstanding_unfinished:
  assumes "receipt_check r" and "lease_over now r"
  shows "outstanding_effect now r \<longleftrightarrow> unfinished r"
  using assms
  by (auto simp: outstanding_effect_def unfinished_def claimable_effect_def lease_over_def receipt_check_def
      effect_consistent_def split: option.splits)

lemma claimed_check:
  assumes "receipt_check r" and "rc_EffectRequired r"
  shows "receipt_check (claim_effect (rc_EffectAttempts r + 1) t now r)"
  using assms
  by (auto simp: receipt_check_def claim_effect_def effect_consistent_def failure_code_valid_def
      receipt_target_consistent_def receipt_result_consistent_def)

lemma settled_check:
  assumes "receipt_check r" and "rc_EffectRequired r"
  shows "receipt_check (settled_row now completedAt r)"
  using assms
  by (auto simp: settled_row_def receipt_check_def claim_effect_def complete_effect_def effect_consistent_def
      failure_code_valid_def receipt_target_consistent_def receipt_result_consistent_def)

text \<open>A candidate is its own only match.\<close>

lemma same_receipt_unique:
  assumes "receipts_ok rows" and "c \<in> set rows" and "r \<in> set rows"
  shows "same_receipt c r \<longleftrightarrow> r = c"
  using unique_indexD[OF receipts_okD(2)[OF assms(1)] assms(3,2)] by (auto simp: same_receipt_def)

lemma count_one:
  assumes "receipts_ok rows" and "c \<in> set rows"
  shows "count_where (\<lambda>r. r = c) rows = 1"
proof -
  have "distinct rows" using receipts_okD(2)[OF assms(1)] by (simp add: unique_index_def distinct_map)
  with assms(2) show ?thesis by (induction rows) (auto simp: count_where_zero)
qed

lemma in_effect_order_head:
  assumes "r \<in> set rows" and "P r"
  obtains c rest where "in_effect_order (filter P rows) = c # rest" and "c \<in> set rows" and "P c"
proof -
  have s: "set (in_effect_order (filter P rows)) = {r \<in> set rows. P r}" by (simp add: in_effect_order_def)
  with assms obtain c rest where c: "in_effect_order (filter P rows) = c # rest"
    by (cases "in_effect_order (filter P rows)") auto
  with s have "c \<in> {r \<in> set rows. P r}" by auto
  with c that show thesis by blast
qed

text \<open>The claim and the completion of one round are one update of its candidate.\<close>

lemma round_rows:
  assumes ok: "receipts_ok rows" and c: "c \<in> set rows" "unfinished c" "addressable db c" "receipt_check c"
  shows "update_where (durable_attempt (durable_effect_of db c)) (complete_effect ProviderEffectApplied [] completedAt)
      (update_where (same_receipt c) (claim_effect (rc_EffectAttempts c + 1) (now + providerModerationLease) now) rows) =
    update_where (\<lambda>r. r = c) (settled_row now completedAt) rows" (is "update_where ?D ?g (update_where ?S ?f rows) = _")
    and "count_where (durable_attempt (durable_effect_of db c)) (update_where (same_receipt c)
      (claim_effect (rc_EffectAttempts c + 1) (now + providerModerationLease) now) rows) = 1"
proof -
  have hit: "?D (?f c)"
    using c(2) by (simp add: durable_attempt_def durable_effect_of_def claim_effect_def unfinished_def)
  have miss: "r = c" if "r \<in> set rows" "?D r" for r
    using that same_receipt_unique[OF ok c(1) that(1)]
    by (simp add: durable_attempt_def durable_effect_of_def same_receipt_def receipt_key_def)
  have old: "\<not> ?D c" by (simp add: durable_attempt_def durable_effect_of_def)
  have P: "?D (if ?S r then ?f r else r) \<longleftrightarrow> r = c" if "r \<in> set rows" for r
    using hit miss[OF that] old same_receipt_unique[OF ok c(1) that] by auto
  have row: "(if ?D (if ?S r then ?f r else r) then ?g (if ?S r then ?f r else r) else (if ?S r then ?f r else r)) =
      (if r = c then settled_row now completedAt r else r)" if "r \<in> set rows" for r
    unfolding P[OF that] using same_receipt_unique[OF ok c(1) that] same_receipt_unique[OF ok c(1) c(1)]
    by (auto simp: settled_row_def)
  show "update_where ?D ?g (update_where ?S ?f rows) = update_where (\<lambda>r. r = c) (settled_row now completedAt) rows"
    using row by (simp add: update_where_def)
  have "filter ?D (map (\<lambda>r. if ?S r then ?f r else r) rows) = map (\<lambda>r. if ?S r then ?f r else r) (filter (\<lambda>r. r = c) rows)"
    using P by (simp add: filter_map o_def cong: filter_cong)
  then have "count_where ?D (update_where ?S ?f rows) = count_where (\<lambda>r. r = c) rows"
    by (simp add: count_where_def update_where_def)
  then show "count_where ?D (update_where ?S ?f rows) = 1" using count_one[OF ok c(1)] by simp
qed

lemma one_round:
  assumes ok: "receipts_ok (md_receipts db)" and work: "r \<in> set (md_receipts db)" "unfinished r"
    and over: "\<And>r. r \<in> set (md_receipts db) \<Longrightarrow> lease_over now r"
    and ad: "\<And>r. r \<in> set (md_receipts db) \<Longrightarrow> unfinished r \<Longrightarrow> addressable db r"
    and up: "\<And>call. provider call = None"
  obtains c where "c \<in> set (md_receipts db)" and "unfinished c"
    and "receipts_ok (update_where (\<lambda>r. r = c) (settled_row now completedAt) (md_receipts db))"
    and "ReconcileOnce provider now completedAt id db = (Inr True, [due_call db c],
      db\<lparr>md_receipts := update_where (\<lambda>r. r = c) (settled_row now completedAt) (md_receipts db)\<rparr>)"
proof -
  note check = receipts_okD(1)[OF ok]
  have out: "filter (outstanding_effect now) (md_receipts db) = filter unfinished (md_receipts db)"
    using outstanding_unfinished[OF check over] by (auto intro: filter_cong)
  from work obtain c rest where cr: "in_effect_order (filter unfinished (md_receipts db)) = c # rest"
    and c: "c \<in> set (md_receipts db)" "unfinished c" by (rule in_effect_order_head)
  let ?e = "durable_effect_of db c"
  let ?claimed = "update_where (same_receipt c)
    (claim_effect (rc_EffectAttempts c + 1) (now + providerModerationLease) now) (md_receipts db)"
  have req: "rc_EffectRequired c" using c(2) by (simp add: unfinished_def)
  have ok1: "receipts_ok ?claimed"
    using same_receipt_unique[OF ok c(1)] claimed_check[OF check[OF c(1)] req]
    by (intro receipts_ok_update[OF ok]) auto
  have claim: "ClaimNextProviderEffect now providerModerationLease db = Inr (Some ?e, db\<lparr>md_receipts := ?claimed\<rparr>)"
    using ok1 by (simp add: ClaimNextProviderEffect_def out cr constrained_def providerModerationLease_def time_units)
  note ac = ad[OF c, unfolded addressable_def]
  have op: "rc_Operation c \<in> {''end'', ''participant_promote'', ''participant_demote'', ''participant_mute'',
      ''participant_remove''}"
    using check[OF c(1)] req by (auto simp: receipt_check_def effect_consistent_def)
  have call: "reconciler_apply provider ?e = ([due_call db c], None)"
    using ac op up by (auto simp: reconciler_apply_def Let_def durable_effect_fields due_call_def)
  note rows = round_rows(1)[OF ok c ad[OF c] check[OF c(1)], of completedAt now]
    round_rows(2)[OF ok c ad[OF c] check[OF c(1)], of now]
  have ok2: "receipts_ok (update_where (\<lambda>r. r = c) (settled_row now completedAt) (md_receipts db))"
    using settled_check[OF check[OF c(1)] req] settled_row_facts(2) by (intro receipts_ok_update[OF ok]) auto
  have "rc_IdempotencyKey c \<noteq> []" and "0 \<le> rc_EffectAttempts c" and "rc_Operation c \<noteq> []"
    using check[OF c(1)] op by (auto simp: receipt_check_def mediaIdempotencyPattern_def)
  then have completed: "CompleteProviderEffect ?e ProviderEffectApplied [] completedAt (db\<lparr>md_receipts := ?claimed\<rparr>) =
      Inr (db\<lparr>md_receipts := update_where (\<lambda>r. r = c) (settled_row now completedAt) (md_receipts db)\<rparr>)"
    using ac ok2 unfolding CompleteProviderEffect_def
    by (simp add: rows constrained_def durable_effect_fields)
  have "ReconcileOnce provider now completedAt id db = (Inr True, [due_call db c],
      db\<lparr>md_receipts := update_where (\<lambda>r. r = c) (settled_row now completedAt) (md_receipts db)\<rparr>)"
    by (simp add: ReconcileOnce_def claim call effect_outcome_def completed)
  with c ok2 that show thesis by blast
qed

lemma count_where_drops:
  assumes "c \<in> set rows" and "C c" and "\<not> C (f c)"
  shows "count_where C (update_where (\<lambda>r. r = c) f rows) < count_where C rows"
  using assms(1)
proof (induction rows)
  case (Cons r rows)
  have "count_where C (update_where (\<lambda>r. r = c) f rows) \<le> count_where C rows"
    by (rule count_where_update_mono) (use assms in auto)
  with Cons assms(2,3) show ?case by (cases "r = c") auto
qed simp

subsection \<open>All of them\<close>

definition settled_from :: "receipt_row \<Rightarrow> receipt_row \<Rightarrow> bool" where
  "settled_from r r' \<longleftrightarrow> receipt_identity r' = receipt_identity r \<and>
     (if unfinished r then rc_EffectStatus r' = ProviderEffectApplied else r' = r)"

lemma mset_pending_drop:
  assumes "distinct rows" and "c \<in> set rows" and "C c" and "\<not> C (f c)"
  shows "filter_mset C (mset rows) = add_mset c (filter_mset C (mset (update_where (\<lambda>r. r = c) f rows)))"
  using assms(1,2)
proof (induction rows)
  case (Cons r rows)
  show ?case
  proof (cases "r = c")
    case True
    with Cons.prems have "update_where (\<lambda>r. r = c) f rows = rows"
      by (auto simp: update_where_def intro: map_idI)
    with True assms(3,4) show ?thesis by simp
  next
    case False
    with Cons show ?thesis by simp
  qed
qed simp

text \<open>Every due call has been made, and no other.\<close>

definition calls_due :: "'c media_db \<Rightarrow> provider_call multiset" where
  "calls_due db = image_mset (due_call db) (filter_mset unfinished (mset (md_receipts db)))"

lemma rounds_settle:
  assumes "receipts_ok (md_receipts db)" and "\<And>call. provider call = None"
    and "\<And>r. r \<in> set (md_receipts db) \<Longrightarrow> unfinished r \<Longrightarrow> addressable db r"
    and "\<And>now completedAt r. (now, completedAt) \<in> set rounds \<Longrightarrow> r \<in> set (md_receipts db) \<Longrightarrow> lease_over now r"
    and "count_where unfinished (md_receipts db) \<le> int (length rounds)"
  shows "\<exists>calls rows. reconcile_rounds provider rounds db = (calls, db\<lparr>md_receipts := rows\<rparr>) \<and>
    list_all2 settled_from (md_receipts db) rows \<and> mset calls = calls_due db"
  using assms
proof (induction rounds arbitrary: db)
  case Nil
  then have "count_where unfinished (md_receipts db) = 0"
    using count_where_nonneg[of unfinished "md_receipts db"] by simp
  then show ?case
    by (intro exI[of _ "[]"] exI[of _ "md_receipts db"])
      (auto simp: count_where_zero settled_from_def list_all2_same calls_due_def)
next
  case (Cons times rounds)
  obtain now completedAt where t: "times = (now, completedAt)" by (cases times)
  show ?case
  proof (cases "\<exists>r\<in>set (md_receipts db). unfinished r")
    case False
    then have none: "filter (outstanding_effect now) (md_receipts db) = []"
      using outstanding_unfinished[OF receipts_okD(1)[OF Cons.prems(1)] Cons.prems(4)] t
      by (auto simp: filter_empty_conv)
    have "ReconcileOnce provider now completedAt id db = (Inr False, [], db)"
      by (simp add: ReconcileOnce_def ClaimNextProviderEffect_def none in_effect_order_def providerModerationLease_def
          time_units)
    moreover have "\<exists>calls rows. reconcile_rounds provider rounds db = (calls, db\<lparr>md_receipts := rows\<rparr>) \<and>
        list_all2 settled_from (md_receipts db) rows \<and> mset calls = calls_due db"
    proof (rule Cons.IH[OF Cons.prems(1-3)])
      show "lease_over now' r" if "(now', completedAt') \<in> set rounds" "r \<in> set (md_receipts db)" for now' completedAt' r
        using Cons.prems(4)[of now' completedAt' r] that by simp
      have "count_where unfinished (md_receipts db) = 0" using False by (simp add: count_where_zero)
      then show "count_where unfinished (md_receipts db) \<le> int (length rounds)" by simp
    qed
    ultimately show ?thesis by (auto simp: t)
  next
    case True
    then obtain r where r: "r \<in> set (md_receipts db)" "unfinished r" by blast
    have over: "lease_over now r" if "r \<in> set (md_receipts db)" for r
      using Cons.prems(4)[of now completedAt r] that t by simp
    obtain c where c: "c \<in> set (md_receipts db)" "unfinished c"
      and ok: "receipts_ok (update_where (\<lambda>r. r = c) (settled_row now completedAt) (md_receipts db))"
      and once: "ReconcileOnce provider now completedAt id db = (Inr True, [due_call db c],
        db\<lparr>md_receipts := update_where (\<lambda>r. r = c) (settled_row now completedAt) (md_receipts db)\<rparr>)"
      by (rule one_round[OF Cons.prems(1) r over Cons.prems(3,2)])
    let ?db = "db\<lparr>md_receipts := update_where (\<lambda>r. r = c) (settled_row now completedAt) (md_receipts db)\<rparr>"
    have row: "q \<in> set (md_receipts db) \<or> q = settled_row now completedAt c" if "q \<in> set (md_receipts ?db)" for q
      using that by (auto simp: set_update_where split: if_splits)
    have "\<exists>calls rows. reconcile_rounds provider rounds ?db = (calls, ?db\<lparr>md_receipts := rows\<rparr>) \<and>
        list_all2 settled_from (md_receipts ?db) rows \<and> mset calls = calls_due ?db"
    proof (rule Cons.IH)
      show "receipts_ok (md_receipts ?db)" using ok by simp
      show "addressable ?db q" if "q \<in> set (md_receipts ?db)" "unfinished q" for q
      proof -
        have "q \<in> set (md_receipts db)" using row[OF that(1)] that(2) settled_row_facts(4) by blast
        with Cons.prems(3) that(2) have "addressable db q" by blast
        then show ?thesis by simp
      qed
      show "lease_over now' q" if "(now', completedAt') \<in> set rounds" "q \<in> set (md_receipts ?db)" for now' completedAt' q
        using row[OF that(2)] Cons.prems(4)[of now' completedAt' q] that(1)
        by (auto simp: lease_over_def settled_row_def complete_effect_def)
      show "count_where unfinished (md_receipts ?db) \<le> int (length rounds)"
        using count_where_drops[of c "md_receipts db" unfinished "settled_row now completedAt"] c settled_row_facts(4)
          Cons.prems(5) by simp
    qed (rule Cons.prems(2))
    then obtain calls rows where rows: "reconcile_rounds provider rounds ?db = (calls, ?db\<lparr>md_receipts := rows\<rparr>)"
      "list_all2 settled_from (md_receipts ?db) rows" "mset calls = calls_due ?db" by blast
    have "list_all2 settled_from (md_receipts db) rows"
      using rows(2) c(2) settled_row_facts
      by (auto simp: update_where_def list_all2_map1 settled_from_def split: if_splits elim!: list_all2_mono)
    moreover have "distinct (md_receipts db)"
      using receipts_okD(2)[OF Cons.prems(1)] by (simp add: unique_index_def distinct_map)
    then have "calls_due db = add_mset (due_call db c) (calls_due ?db)"
      using mset_pending_drop[of "md_receipts db" c unfinished "settled_row now completedAt"] c settled_row_facts(4)
      by (simp add: calls_due_def)
    ultimately show ?thesis using rows(1,3)
      by (intro exI[of _ "due_call db c # calls"] exI[of _ rows]) (simp add: t once)
  qed
qed

text \<open>
  C16.  The reconciler drains: take any reachable state in which the receipts with an outstanding
  effect name their room and target by valid names (what foreign keys and drawn identifiers give), and
  rounds of the reconciler that run one after the other without other transactions in between, while
  the provider accepts every call and no lease is running at the time of any round.  As many rounds as
  there are outstanding effects make, for each of them, exactly the call that its operation asks for
  with the names of its room and target, and make no other call; every such receipt is then applied,
  no receipt is lost or renamed, and nothing but the receipts has changed.
\<close>

theorem reconciler_drains:
  assumes "media_reachable sha256 rp db" and "\<And>call. provider call = None"
    and "\<And>r. r \<in> set (md_receipts db) \<Longrightarrow> unfinished r \<Longrightarrow> addressable db r"
    and "\<And>now completedAt r. (now, completedAt) \<in> set rounds \<Longrightarrow> r \<in> set (md_receipts db) \<Longrightarrow> lease_over now r"
    and "count_where unfinished (md_receipts db) \<le> int (length rounds)"
  shows "\<exists>calls rows. reconcile_rounds provider rounds db = (calls, db\<lparr>md_receipts := rows\<rparr>) \<and>
    list_all2 settled_from (md_receipts db) rows \<and>
    mset calls = image_mset (due_call db) (filter_mset unfinished (mset (md_receipts db)))"
  using rounds_settle[OF media_invD(5)[OF media_reachable_inv[OF assms(1)]] assms(2-5)] by (simp add: calls_due_def)

text \<open>A space has been ended and its room is still open at the provider.\<close>

definition ex_outstanding :: "'c media_db \<Rightarrow> bool" where
  "ex_outstanding db \<longleftrightarrow> list_all (\<lambda>r. (unfinished r \<longrightarrow> addressable db r) \<and> lease_over 800 r) (md_receipts db) \<and>
     map (due_call db) (filter unfinished (md_receipts db)) = [DeleteRoom (opaqueProviderRoomName 30)]"

lemma ex_outstanding: "ex_outstanding ex_db7"
  by code_simp

theorem reconciler_drains_witness:
  "\<exists>rows. reconcile_rounds (\<lambda>_. None) [(800, 810)] ex_db7 =
     ([DeleteRoom (opaqueProviderRoomName 30)], ex_db7\<lparr>md_receipts := rows\<rparr>) \<and> (\<forall>r\<in>set rows. \<not> unfinished r)"
proof -
  note o = ex_outstanding[unfolded ex_outstanding_def list_all_iff]
  have "length (map (due_call ex_db7) (filter unfinished (md_receipts ex_db7))) = 1" using o by simp
  then have one: "count_where unfinished (md_receipts ex_db7) = 1" by (simp add: count_where_def)
  have "image_mset (due_call ex_db7) (filter_mset unfinished (mset (md_receipts ex_db7))) =
      {#DeleteRoom (opaqueProviderRoomName 30)#}"
    using arg_cong[OF conjunct2[OF o], of mset] by (simp only: mset_map mset_filter) simp
  then obtain calls rows where rows: "reconcile_rounds (\<lambda>_. None) [(800, 810)] ex_db7 = (calls, ex_db7\<lparr>md_receipts := rows\<rparr>)"
    "list_all2 settled_from (md_receipts ex_db7) rows" "mset calls = {#DeleteRoom (opaqueProviderRoomName 30)#}"
    using reconciler_drains[OF ex_reachable(8), of "\<lambda>_. None" "[(800, 810)]"] o one by auto
  have "\<not> unfinished r" if "r \<in> set rows" for r
    using rows(2) that
    by (auto simp: list_all2_conv_all_nth in_set_conv_nth settled_from_def unfinished_def split: if_split_asm)
  moreover have "calls = [DeleteRoom (opaqueProviderRoomName 30)]" using rows(3) by simp
  ultimately show ?thesis using rows(1) by blast
qed

end
