(* ===== verification/Media_Lobby_Service.thy ===== *)
theory Media_Lobby_Service imports Media_Decisions begin

section \<open>The lobby service (modules/media/lobby\_service.go)\<close>

text \<open>
  What stands between a request and the repository: the checks of the input, the fingerprint that
  makes a retry recognisable, the command, and which errors a caller may see.  SHA-256,
  \<open>strings.ToLower\<close> on an address and \<open>mail.ParseAddress\<close> are parameters; the clock is an argument.
\<close>

subsection \<open>Requests\<close>

record admission_input =
  ai_ExpectedSpaceVersion :: int
  ai_ExpectedRoomInstanceID :: uuid
  ai_ExpectedRoomInstanceVersion :: int
  ai_ExpectedAdmissionVersion :: int
  ai_IdempotencyKey :: string
  ai_ReasonCode :: string

record list_members_input =
  lq_ExpectedSpaceVersion :: int
  lq_Limit :: int

record invite_input =
  ni_Email :: string
  ni_ExpectedSpaceVersion :: int
  ni_IdempotencyKey :: string

record member_input =
  mi_ExpectedSpaceVersion :: int
  mi_ExpectedMemberVersion :: int
  mi_IdempotencyKey :: string
  mi_ReasonCode :: string

text \<open>A service with its repository; \<open>address\<close> is the \<open>Address\<close> that \<open>mail.ParseAddress\<close> finds.\<close>

record 'c lobby_service =
  sv_Repository :: "'c lifecycle_repository"
  sv_AdmissionTTL :: duration
  sv_Sha256 :: "string \<Rightarrow> string"
  sv_Lower :: "string \<Rightarrow> string"
  sv_Address :: "string \<Rightarrow> string option"

definition defaultLobbyListLimit :: int where
  "defaultLobbyListLimit = 25"

definition maximumLobbyListLimit :: int where
  "maximumLobbyListLimit = 100"

definition NewLobbyService ::
  "'c lifecycle_repository \<Rightarrow> duration \<Rightarrow> (string \<Rightarrow> string) \<Rightarrow> (string \<Rightarrow> string) \<Rightarrow>
   (string \<Rightarrow> string option) \<Rightarrow> 'c lobby_service" where
  "NewLobbyService rp ttl sha256 lower address = \<lparr>sv_Repository = rp,
     sv_AdmissionTTL = (if ttl \<le> 0 then defaultLobbyAdmissionTTL else ttl),
     sv_Sha256 = sha256, sv_Lower = lower, sv_Address = address\<rparr>"

definition list_limit :: "int \<Rightarrow> lobby_error + int" where
  "list_limit n = (let limit = (if n = 0 then defaultLobbyListLimit else n) in
     if limit < 1 \<or> limit > maximumLobbyListLimit then Inl ErrInvalidLobbyRequest else Inr limit)"

definition normalizeAdmissionListInput :: "uuid \<Rightarrow> lobby_list_input \<Rightarrow> lobby_error + lobby_list_input" where
  "normalizeAdmissionListInput spaceID input =
     (if spaceID = uuid_Nil \<or> ll_ExpectedSpaceVersion input < 1 \<or>
         ll_ExpectedRoomInstanceID input = uuid_Nil \<or> ll_ExpectedRoomInstanceVersion input < 1
      then Inl ErrInvalidLobbyRequest
      else try_res (list_limit (ll_Limit input)) (\<lambda>limit. Inr (input\<lparr>ll_Limit := limit\<rparr>)))"

definition normalizeMemberListInput :: "uuid \<Rightarrow> list_members_input \<Rightarrow> lobby_error + list_members_input" where
  "normalizeMemberListInput spaceID input =
     (if spaceID = uuid_Nil \<or> lq_ExpectedSpaceVersion input < 1 then Inl ErrInvalidLobbyRequest
      else try_res (list_limit (lq_Limit input)) (\<lambda>limit. Inr (input\<lparr>lq_Limit := limit\<rparr>)))"

text \<open>A key and a reason as both kinds of command check them.\<close>

definition key_or_reason_invalid :: "string \<Rightarrow> string \<Rightarrow> bool" where
  "key_or_reason_invalid key reason \<longleftrightarrow> \<not> mediaIdempotencyPattern key \<or>
     (reason \<noteq> [] \<and> \<not> mediaReasonCodePattern reason)"

definition normalizeAdmissionMutationInput :: "string \<Rightarrow> admission_input \<Rightarrow> lobby_error + admission_input" where
  "normalizeAdmissionMutationInput operation input0 =
     (let input = input0\<lparr>ai_IdempotencyKey := trim_space (ai_IdempotencyKey input0),
            ai_ReasonCode := trim_space (ai_ReasonCode input0)\<rparr> in
      if ai_ExpectedSpaceVersion input < 1 \<or> ai_ExpectedRoomInstanceID input = uuid_Nil \<or>
         ai_ExpectedRoomInstanceVersion input < 1 \<or> ai_ExpectedAdmissionVersion input < 1 \<or>
         key_or_reason_invalid (ai_IdempotencyKey input) (ai_ReasonCode input)
        then Inl ErrInvalidLobbyRequest
      else if operation = ''admission_admit'' \<or> operation = ''admission_cancel'' \<or>
         operation = ''admission_restore'' then Inr input
      else if operation = ''admission_deny'' then
        (if ai_ReasonCode input = [] then Inl ErrInvalidLobbyRequest else Inr input)
      else Inl ErrInvalidLobbyRequest)"

definition normalizeLobbyMemberEmail ::
  "(string \<Rightarrow> string) \<Rightarrow> (string \<Rightarrow> string option) \<Rightarrow> string \<Rightarrow> lobby_error + string" where
  "normalizeLobbyMemberEmail lower address value0 =
     (let value = lower (trim_space value0) in
      if address value \<noteq> Some value \<or> length value < 3 \<or> length value > 320
      then Inl ErrInvalidLobbyRequest else Inr value)"

subsection \<open>Fingerprints\<close>

text \<open>\<open>writeLobbyFingerprintString\<close> and \<open>writeLobbyFingerprintInt64\<close>: the bytes that are hashed.\<close>

definition fingerprint_string :: "string \<Rightarrow> string" where
  "fingerprint_string value = value @ [CHR 0x00]"

definition admission_preimage :: "admission_command \<Rightarrow> string" where
  "admission_preimage c = fingerprint_string (lc_Operation c) @ uuid_bytes (lc_SpaceID c) @
     uuid_bytes (lc_AdmissionID c) @ uuid_bytes (lc_JoinAttemptID c) @
     uuid_bytes (lc_ExpectedRoomInstanceID c) @ uint64_bytes (lc_ExpectedSpaceVersion c) @
     uint64_bytes (lc_ExpectedRoomInstanceVersion c) @ uint64_bytes (lc_ExpectedAdmissionVersion c) @
     fingerprint_string (lc_ReasonCode c)"

definition invite_preimage :: "invite_command \<Rightarrow> string" where
  "invite_preimage c = fingerprint_string ''member_invite'' @ uuid_bytes (iv_SpaceID c) @
     uint64_bytes (iv_ExpectedSpaceVersion c) @ fingerprint_string (iv_TargetEmail c)"

definition member_preimage :: "member_command \<Rightarrow> string" where
  "member_preimage c = fingerprint_string (mc_Operation c) @ uuid_bytes (mc_SpaceID c) @
     uuid_bytes (mc_TargetUserID c) @ uint64_bytes (mc_ExpectedSpaceVersion c) @
     uint64_bytes (mc_ExpectedMemberVersion c) @ fingerprint_string (mc_ReasonCode c)"

definition lobbyAdmissionFingerprint :: "(string \<Rightarrow> string) \<Rightarrow> admission_command \<Rightarrow> string" where
  "lobbyAdmissionFingerprint sha256 c = sha256 (admission_preimage c)"

definition lobbyInviteFingerprint :: "(string \<Rightarrow> string) \<Rightarrow> invite_command \<Rightarrow> string" where
  "lobbyInviteFingerprint sha256 c = sha256 (invite_preimage c)"

definition lobbyMemberFingerprint :: "(string \<Rightarrow> string) \<Rightarrow> member_command \<Rightarrow> string" where
  "lobbyMemberFingerprint sha256 c = sha256 (member_preimage c)"

subsection \<open>Commands\<close>

text \<open>
  A decision names the request, a cancellation the caller's own attempt; \<open>new_admission_command\<close> is
  the command of either, before its fingerprint.
\<close>

definition new_admission_command ::
  "'c lobby_service \<Rightarrow> instant \<Rightarrow> uuid \<Rightarrow> uuid \<Rightarrow> uuid \<Rightarrow> string \<Rightarrow> admission_input \<Rightarrow> admission_command" where
  "new_admission_command sv now spaceID admissionID joinAttemptID operation input =
     (let c = \<lparr>lc_SpaceID = spaceID, lc_AdmissionID = admissionID, lc_JoinAttemptID = joinAttemptID,
            lc_Operation = operation, lc_ExpectedSpaceVersion = ai_ExpectedSpaceVersion input,
            lc_ExpectedRoomInstanceID = ai_ExpectedRoomInstanceID input,
            lc_ExpectedRoomInstanceVersion = ai_ExpectedRoomInstanceVersion input,
            lc_ExpectedAdmissionVersion = ai_ExpectedAdmissionVersion input,
            lc_IdempotencyKey = ai_IdempotencyKey input, lc_ReasonCode = ai_ReasonCode input,
            lc_Fingerprint = [], lc_OccurredAt = now, lc_AdmissionTTL = sv_AdmissionTTL sv\<rparr>
      in c\<lparr>lc_Fingerprint := lobbyAdmissionFingerprint (sv_Sha256 sv) c\<rparr>)"

definition decision_command ::
  "'c lobby_service \<Rightarrow> instant \<Rightarrow> access_context \<Rightarrow> uuid \<Rightarrow> uuid \<Rightarrow> string \<Rightarrow> admission_input \<Rightarrow>
   lobby_error + admission_command" where
  "decision_command sv now access spaceID admissionID operation input =
     (if \<not> validLifecycleAccess access then Inl (LobbyLifecycle ErrSpaceAccessDenied)
      else if spaceID = uuid_Nil \<or> admissionID = uuid_Nil then Inl ErrAdmissionNotFound
      else try_res (normalizeAdmissionMutationInput operation input) (\<lambda>normalized.
        Inr (new_admission_command sv now spaceID admissionID uuid_Nil operation normalized)))"

definition cancel_command ::
  "'c lobby_service \<Rightarrow> instant \<Rightarrow> access_context \<Rightarrow> uuid \<Rightarrow> uuid \<Rightarrow> admission_input \<Rightarrow>
   lobby_error + admission_command" where
  "cancel_command sv now access spaceID joinAttemptID input =
     (if \<not> validLifecycleAccess access then Inl (LobbyLifecycle ErrSpaceAccessDenied)
      else if spaceID = uuid_Nil \<or> joinAttemptID = uuid_Nil then Inl ErrAdmissionNotFound
      else try_res (normalizeAdmissionMutationInput ''admission_cancel'' input) (\<lambda>normalized.
        Inr (new_admission_command sv now spaceID uuid_Nil joinAttemptID ''admission_cancel'' normalized)))"

definition build_invite_command ::
  "'c lobby_service \<Rightarrow> instant \<Rightarrow> access_context \<Rightarrow> uuid \<Rightarrow> invite_input \<Rightarrow> lobby_error + invite_command" where
  "build_invite_command sv now access spaceID input =
     (if \<not> validLifecycleAccess access then Inl (LobbyLifecycle ErrSpaceAccessDenied)
      else if spaceID = uuid_Nil \<or> ni_ExpectedSpaceVersion input < 1 then Inl ErrInvalidLobbyRequest
      else try_res (normalizeLobbyMemberEmail (sv_Lower sv) (sv_Address sv) (ni_Email input)) (\<lambda>email.
        let key = trim_space (ni_IdempotencyKey input) in
        if \<not> mediaIdempotencyPattern key then Inl ErrInvalidLobbyRequest
        else
          let c = \<lparr>iv_SpaceID = spaceID, iv_TargetEmail = email,
                iv_ExpectedSpaceVersion = ni_ExpectedSpaceVersion input, iv_IdempotencyKey = key,
                iv_Fingerprint = [], iv_OccurredAt = now\<rparr>
          in Inr (c\<lparr>iv_Fingerprint := lobbyInviteFingerprint (sv_Sha256 sv) c\<rparr>)))"

definition build_member_command ::
  "'c lobby_service \<Rightarrow> instant \<Rightarrow> access_context \<Rightarrow> uuid \<Rightarrow> uuid \<Rightarrow> string \<Rightarrow> member_input \<Rightarrow>
   lobby_error + member_command" where
  "build_member_command sv now access spaceID targetUserID operation input =
     (if \<not> validLifecycleAccess access then Inl (LobbyLifecycle ErrSpaceAccessDenied)
      else if spaceID = uuid_Nil \<or> targetUserID = uuid_Nil \<or> mi_ExpectedSpaceVersion input < 1 \<or>
         mi_ExpectedMemberVersion input < 1 then Inl ErrInvalidLobbyRequest
      else
        let key = trim_space (mi_IdempotencyKey input); reason = trim_space (mi_ReasonCode input) in
        if key_or_reason_invalid key reason then Inl ErrInvalidLobbyRequest
        else
          let c = \<lparr>mc_SpaceID = spaceID, mc_TargetUserID = targetUserID, mc_Operation = operation,
                mc_ExpectedSpaceVersion = mi_ExpectedSpaceVersion input,
                mc_ExpectedMemberVersion = mi_ExpectedMemberVersion input, mc_IdempotencyKey = key,
                mc_ReasonCode = reason, mc_Fingerprint = [], mc_OccurredAt = now\<rparr>
          in Inr (c\<lparr>mc_Fingerprint := lobbyMemberFingerprint (sv_Sha256 sv) c\<rparr>))"

subsection \<open>Errors\<close>

text \<open>The errors of the lifecycle that the service passes on; every other becomes unavailability.\<close>

fun lobby_lifecycle_known :: "lifecycle_error \<Rightarrow> bool" where
  "lobby_lifecycle_known (LifecycleControl e) \<longleftrightarrow> (case e of VersionConflictError _ _ \<Rightarrow> False | _ \<Rightarrow> True)"
| "lobby_lifecycle_known e \<longleftrightarrow> e \<in> {ErrSpaceAccessDenied, ErrSpaceNotFound, ErrSourceUnavailable,
     ErrSpaceVersionConflict, ErrSpaceIdempotency, ErrRoomNotOpen, ErrRoomLocked, ErrParticipantConflict}"

fun normalizeLobbyError :: "lobby_error \<Rightarrow> lobby_error" where
  "normalizeLobbyError (LobbyLifecycle e) =
     (if lobby_lifecycle_known e then LobbyLifecycle e else ErrLobbyUnavailable)"
| "normalizeLobbyError e = e"

text \<open>The outcome of a call and the database it leaves; a failed transaction has changed nothing.\<close>

definition served :: "'d \<Rightarrow> lobby_error + 'a \<times> 'd \<Rightarrow> (lobby_error + 'a) \<times> 'd" where
  "served db r = (case r of Inl e \<Rightarrow> (Inl (normalizeLobbyError e), db) | Inr (x, db') \<Rightarrow> (Inr x, db'))"

subsection \<open>The service\<close>

definition serve_ListAdmissions ::
  "'c lobby_service \<Rightarrow> instant \<Rightarrow> access_context \<Rightarrow> uuid \<Rightarrow> lobby_list_input \<Rightarrow> 'c media_db \<Rightarrow>
   (lobby_error + lobby_admission list) \<times> 'c media_db" where
  "serve_ListAdmissions sv now access spaceID input db =
     (if \<not> validLifecycleAccess access then (Inl (LobbyLifecycle ErrSpaceAccessDenied), db)
      else case normalizeAdmissionListInput spaceID input of
        Inl e \<Rightarrow> (Inl e, db)
      | Inr normalized \<Rightarrow> served db (ListAdmissions (sv_Repository sv) access spaceID normalized now
          (sv_AdmissionTTL sv) db))"

definition serve_GetJoinAttempt ::
  "'c lobby_service \<Rightarrow> instant \<Rightarrow> access_context \<Rightarrow> uuid \<Rightarrow> uuid \<Rightarrow> lobby_list_input \<Rightarrow> 'c media_db \<Rightarrow>
   (lobby_error + join_attempt) \<times> 'c media_db" where
  "serve_GetJoinAttempt sv now access spaceID joinAttemptID input db =
     (if \<not> validLifecycleAccess access then (Inl (LobbyLifecycle ErrSpaceAccessDenied), db)
      else if joinAttemptID = uuid_Nil then (Inl ErrAdmissionNotFound, db)
      else case normalizeAdmissionListInput spaceID input of
        Inl e \<Rightarrow> (Inl e, db)
      | Inr normalized \<Rightarrow> served db (GetJoinAttempt (sv_Repository sv) access spaceID joinAttemptID
          normalized now (sv_AdmissionTTL sv) db))"

text \<open>A decision that comes too late commits the expiry of the request and answers with an error.\<close>

definition mutateAdmission ::
  "'c lobby_service \<Rightarrow> instant \<Rightarrow> access_context \<Rightarrow> uuid \<Rightarrow> uuid \<Rightarrow> string \<Rightarrow> admission_input \<Rightarrow>
   'c media_db \<Rightarrow> (lobby_error + lobby_admission) \<times> 'c media_db" where
  "mutateAdmission sv now access spaceID admissionID operation input db =
     (case decision_command sv now access spaceID admissionID operation input of
        Inl e \<Rightarrow> (Inl e, db)
      | Inr command \<Rightarrow>
          (case MutateAdmission (sv_Repository sv) access command db of
             Inl e \<Rightarrow> (Inl (normalizeLobbyError e), db)
           | Inr (Inl e, db') \<Rightarrow> (Inl (normalizeLobbyError e), db')
           | Inr (Inr item, db') \<Rightarrow> (Inr item, db')))"

definition Admit ::
  "'c lobby_service \<Rightarrow> instant \<Rightarrow> access_context \<Rightarrow> uuid \<Rightarrow> uuid \<Rightarrow> admission_input \<Rightarrow> 'c media_db \<Rightarrow>
   (lobby_error + lobby_admission) \<times> 'c media_db" where
  "Admit sv now access spaceID admissionID = mutateAdmission sv now access spaceID admissionID ''admission_admit''"

definition Deny ::
  "'c lobby_service \<Rightarrow> instant \<Rightarrow> access_context \<Rightarrow> uuid \<Rightarrow> uuid \<Rightarrow> admission_input \<Rightarrow> 'c media_db \<Rightarrow>
   (lobby_error + lobby_admission) \<times> 'c media_db" where
  "Deny sv now access spaceID admissionID = mutateAdmission sv now access spaceID admissionID ''admission_deny''"

definition RestoreAdmission ::
  "'c lobby_service \<Rightarrow> instant \<Rightarrow> access_context \<Rightarrow> uuid \<Rightarrow> uuid \<Rightarrow> admission_input \<Rightarrow> 'c media_db \<Rightarrow>
   (lobby_error + lobby_admission) \<times> 'c media_db" where
  "RestoreAdmission sv now access spaceID admissionID =
     mutateAdmission sv now access spaceID admissionID ''admission_restore''"

definition serve_CancelJoinAttempt ::
  "'c lobby_service \<Rightarrow> instant \<Rightarrow> access_context \<Rightarrow> uuid \<Rightarrow> uuid \<Rightarrow> admission_input \<Rightarrow> 'c media_db \<Rightarrow>
   (lobby_error + join_attempt) \<times> 'c media_db" where
  "serve_CancelJoinAttempt sv now access spaceID joinAttemptID input db =
     (case cancel_command sv now access spaceID joinAttemptID input of
        Inl e \<Rightarrow> (Inl e, db)
      | Inr command \<Rightarrow> served db (CancelJoinAttempt (sv_Repository sv) access command db))"

definition serve_ListMembers ::
  "'c lobby_service \<Rightarrow> access_context \<Rightarrow> uuid \<Rightarrow> list_members_input \<Rightarrow> 'c media_db \<Rightarrow>
   lobby_error + lobby_member list" where
  "serve_ListMembers sv access spaceID input db =
     (if \<not> validLifecycleAccess access then Inl (LobbyLifecycle ErrSpaceAccessDenied)
      else case normalizeMemberListInput spaceID input of
        Inl e \<Rightarrow> Inl e
      | Inr normalized \<Rightarrow>
          (case ListMembers (sv_Repository sv) access spaceID (lq_ExpectedSpaceVersion normalized)
              (lq_Limit normalized) db of
             Inl e \<Rightarrow> Inl (normalizeLobbyError e)
           | Inr items \<Rightarrow> Inr items))"

definition serve_InviteMember ::
  "'c lobby_service \<Rightarrow> instant \<Rightarrow> access_context \<Rightarrow> uuid \<Rightarrow> invite_input \<Rightarrow> 'c media_db \<Rightarrow>
   (lobby_error + lobby_member) \<times> 'c media_db" where
  "serve_InviteMember sv now access spaceID input db =
     (case build_invite_command sv now access spaceID input of
        Inl e \<Rightarrow> (Inl e, db)
      | Inr command \<Rightarrow> served db (InviteMember (sv_Repository sv) access command db))"

definition serve_MutateMember ::
  "'c lobby_service \<Rightarrow> instant \<Rightarrow> access_context \<Rightarrow> uuid \<Rightarrow> uuid \<Rightarrow> string \<Rightarrow> member_input \<Rightarrow>
   'c media_db \<Rightarrow> (lobby_error + lobby_member) \<times> 'c media_db" where
  "serve_MutateMember sv now access spaceID targetUserID operation input db =
     (case build_member_command sv now access spaceID targetUserID operation input of
        Inl e \<Rightarrow> (Inl e, db)
      | Inr command \<Rightarrow> served db (MutateMember (sv_Repository sv) access command db))"

definition RevokeMember ::
  "'c lobby_service \<Rightarrow> instant \<Rightarrow> access_context \<Rightarrow> uuid \<Rightarrow> uuid \<Rightarrow> member_input \<Rightarrow> 'c media_db \<Rightarrow>
   (lobby_error + lobby_member) \<times> 'c media_db" where
  "RevokeMember sv now access spaceID targetUserID =
     serve_MutateMember sv now access spaceID targetUserID ''member_revoke''"

definition RestoreMember ::
  "'c lobby_service \<Rightarrow> instant \<Rightarrow> access_context \<Rightarrow> uuid \<Rightarrow> uuid \<Rightarrow> member_input \<Rightarrow> 'c media_db \<Rightarrow>
   (lobby_error + lobby_member) \<times> 'c media_db" where
  "RestoreMember sv now access spaceID targetUserID =
     serve_MutateMember sv now access spaceID targetUserID ''member_restore''"

end
