(* ===== verification/Media_Service_Properties.thy ===== *)
theory Media_Service_Properties imports Media_Convergence_Properties Media_Lobby_Service begin

section \<open>What the services of the lobby and of moderation guarantee\<close>

text \<open>
  A key names one request: the bytes that are hashed for a decision determine it, and a decision
  that is sent again with its key changes nothing.  The reason of a denial has to fit the column it
  is stored in.  What the moderation service says about an effect at the provider is what is recorded.
\<close>

subsection \<open>The fingerprint determines the request\<close>

lemma fingerprint_string_split:
  assumes "fingerprint_string s @ xs = fingerprint_string t @ ys" and "CHR 0x00 \<notin> set s" and "CHR 0x00 \<notin> set t"
  shows "s = t" and "xs = ys"
proof -
  have take: "takeWhile (\<lambda>c. c \<noteq> CHR 0x00) (fingerprint_string u @ zs) = u" if "CHR 0x00 \<notin> set u" for u zs
    using that by (induction u) (auto simp: fingerprint_string_def)
  show "s = t" using arg_cong[OF assms(1), of "takeWhile (\<lambda>c. c \<noteq> CHR 0x00)"] take assms(2,3) by simp
  with assms(1) show "xs = ys" by simp
qed

lemma reason_has_no_zero: "mediaReasonCodePattern s \<Longrightarrow> CHR 0x00 \<notin> set s"
  by (cases s) (auto simp: mediaReasonCodePattern_def list_all_iff is_lower_def is_digit_def)

text \<open>Versions are positive values of an int64.\<close>

definition int64_versions :: "admission_input \<Rightarrow> bool" where
  "int64_versions input \<longleftrightarrow> ai_ExpectedSpaceVersion input < 2 ^ 63 \<and> ai_ExpectedRoomInstanceVersion input < 2 ^ 63 \<and>
     ai_ExpectedAdmissionVersion input < 2 ^ 63"

definition trimmed :: "admission_input \<Rightarrow> admission_input" where
  "trimmed input = input\<lparr>ai_IdempotencyKey := trim_space (ai_IdempotencyKey input),
     ai_ReasonCode := trim_space (ai_ReasonCode input)\<rparr>"

definition decision_operation :: "string \<Rightarrow> bool" where
  "decision_operation operation \<longleftrightarrow>
     operation \<in> {''admission_admit'', ''admission_cancel'', ''admission_restore'', ''admission_deny''}"

lemma decision_command_Inr:
  assumes "decision_command sv now access spaceID admissionID operation input = Inr command"
  shows "command = new_admission_command sv now spaceID admissionID uuid_Nil operation (trimmed input)"
    and "decision_operation operation" and "1 \<le> ai_ExpectedSpaceVersion input"
    and "1 \<le> ai_ExpectedRoomInstanceVersion input" and "1 \<le> ai_ExpectedAdmissionVersion input"
    and "CHR 0x00 \<notin> set (trim_space (ai_ReasonCode input))"
  using assms reason_has_no_zero[of "trim_space (ai_ReasonCode input)"]
  by (auto simp: decision_command_def normalizeAdmissionMutationInput_def Let_def try_res_eq_Inr trimmed_def
      decision_operation_def key_or_reason_invalid_def split: if_split_asm)

lemma decision_preimage_determines:
  assumes c: "decision_command sv now access spaceID admissionID operation input = Inr c" "int64_versions input"
    and d: "decision_command sv now' access' spaceID' admissionID' operation' input' = Inr d" "int64_versions input'"
    and same: "admission_preimage c = admission_preimage d"
    and key: "trim_space (ai_IdempotencyKey input') = trim_space (ai_IdempotencyKey input)"
  shows "spaceID' = spaceID" "admissionID' = admissionID" "operation' = operation" "trimmed input' = trimmed input"
proof -
  note C = decision_command_Inr[OF c(1)] and D = decision_command_Inr[OF d(1)]
  note fields = C(1) D(1) new_admission_command_def trimmed_def
  have no_zero: "CHR 0x00 \<notin> set operation" "CHR 0x00 \<notin> set operation'"
    using C(2) D(2) by (auto simp: decision_operation_def)
  note split = fingerprint_string_split[OF _ no_zero]
  have op: "operation = operation'" and rest:
    "uuid_bytes spaceID @ uuid_bytes admissionID @ uuid_bytes uuid_Nil @ uuid_bytes (ai_ExpectedRoomInstanceID input) @
       uint64_bytes (ai_ExpectedSpaceVersion input) @ uint64_bytes (ai_ExpectedRoomInstanceVersion input) @
       uint64_bytes (ai_ExpectedAdmissionVersion input) @ fingerprint_string (trim_space (ai_ReasonCode input)) =
     uuid_bytes spaceID' @ uuid_bytes admissionID' @ uuid_bytes uuid_Nil @ uuid_bytes (ai_ExpectedRoomInstanceID input') @
       uint64_bytes (ai_ExpectedSpaceVersion input') @ uint64_bytes (ai_ExpectedRoomInstanceVersion input') @
       uint64_bytes (ai_ExpectedAdmissionVersion input') @ fingerprint_string (trim_space (ai_ReasonCode input'))"
    by (rule split, use same in \<open>simp add: admission_preimage_def fields Let_def\<close>)+
  from rest have ids: "spaceID = spaceID'" "admissionID = admissionID'"
      "ai_ExpectedRoomInstanceID input = ai_ExpectedRoomInstanceID input'"
    and v: "uint64_bytes (ai_ExpectedSpaceVersion input) = uint64_bytes (ai_ExpectedSpaceVersion input')"
      "uint64_bytes (ai_ExpectedRoomInstanceVersion input) = uint64_bytes (ai_ExpectedRoomInstanceVersion input')"
      "uint64_bytes (ai_ExpectedAdmissionVersion input) = uint64_bytes (ai_ExpectedAdmissionVersion input')"
    and reason: "fingerprint_string (trim_space (ai_ReasonCode input)) = fingerprint_string (trim_space (ai_ReasonCode input'))"
    by (auto simp: append_eq_append_conv)
  have versions: "ai_ExpectedSpaceVersion input = ai_ExpectedSpaceVersion input'"
    "ai_ExpectedRoomInstanceVersion input = ai_ExpectedRoomInstanceVersion input'"
    "ai_ExpectedAdmissionVersion input = ai_ExpectedAdmissionVersion input'"
    using c(2) d(2) C(3-5) D(3-5) v by (auto simp: int64_versions_def intro!: uint64_bytes_inject)
  from op ids show "spaceID' = spaceID" "admissionID' = admissionID" "operation' = operation" by simp_all
  show "trimmed input' = trimmed input"
    using ids versions key reason by (cases input; cases input') (simp add: trimmed_def fingerprint_string_def)
qed

subsection \<open>Exactly once\<close>

lemma one_receipt_per_key:
  assumes "media_reachable sha256 rp db" and "media_run sha256 rp db db'"
    and "r \<in> set (md_receipts db)" and "r' \<in> set (md_receipts db')" and "receipt_key r' = receipt_key r"
  shows "receipt_identity r' = receipt_identity r"
proof -
  let ?scope = "\<lparr>tc_TenantID = rc_TenantID r, tc_ActorID = rc_ActorID r\<rparr>"
  obtain q where q: "find_receipt db' ?scope (rc_IdempotencyKey r) = Some q" "receipt_identity q = receipt_identity r"
    by (rule receipt_persists[OF assms(1-3), of ?scope "rc_IdempotencyKey r"]) (simp_all add: receipt_key_def)
  have "unique_index (\<lambda>_. True) receipt_key (md_receipts db')"
    using media_invD(5)[OF media_reachable_inv[OF reachable_run[OF assms(1,2)]]] by (simp add: receipts_ok_def)
  from unique_indexD[OF this assms(4), of q] find_receipt_Some[OF q(1)] assms(5) have "r' = q"
    by (simp add: receipt_key_def)
  with q(2) show ?thesis by simp
qed

lemma lobby_replay_cases:
  "lobby_replay scope command db = Inr False \<Longrightarrow> find_receipt db scope (lc_IdempotencyKey command) = None"
  "lobby_replay scope command db = Inr True \<Longrightarrow> \<exists>r. find_receipt db scope (lc_IdempotencyKey command) = Some r \<and>
     rc_Operation r = lc_Operation command \<and> rc_SpaceID r = lc_SpaceID command \<and> rc_Fingerprint r = lc_Fingerprint command"
  by (auto simp: lobby_replay_def loadLobbyMutationReceipt_def split: option.split_asm if_split_asm)

definition decision_receipt :: "access_context \<Rightarrow> admission_command \<Rightarrow> receipt_row \<Rightarrow> bool" where
  "decision_receipt access command r \<longleftrightarrow>
     receipt_key r = (ac_TenantID access, ac_ActorID access, lc_IdempotencyKey command) \<and>
     rc_Operation r = lc_Operation command \<and> rc_SpaceID r = lc_SpaceID command \<and>
     rc_Fingerprint r = lc_Fingerprint command"

lemma record_lobby_receipt_Inr:
  assumes "record_lobby_receipt (scope_of access) command space room db = Inr db'"
  shows "\<exists>r\<in>set (md_receipts db'). decision_receipt access command r"
  using assms
  by (auto simp: record_lobby_receipt_def insertLobbyMutationReceipt_def insert_receipt_def try_res_eq_Inr
      decision_receipt_def lobby_receipt_def receipt_key_def)

lemma MutateAdmission_receipt:
  assumes call: "MutateAdmission rp access command db = Inr (Inr item, db')"
  shows "\<exists>r\<in>set (md_receipts db'). decision_receipt access command r"
    and "find_receipt db (scope_of access) (lc_IdempotencyKey command) \<noteq> None \<Longrightarrow> db' = db"
proof -
  have "(\<exists>r\<in>set (md_receipts db'). decision_receipt access command r) \<and>
    (find_receipt db (scope_of access) (lc_IdempotencyKey command) \<noteq> None \<longrightarrow> db' = db)"
    using call
  proof (cases rule: MutateAdmission_cases)
    case (replayed scope space room item')
    note scope = loadModeratorLobby_Inr(1)[OF replayed(1)]
    from lobby_replay_cases(2)[OF replayed(2)] obtain r where
      "find_receipt db (scope_of access) (lc_IdempotencyKey command) = Some r" "rc_Operation r = lc_Operation command"
      "rc_SpaceID r = lc_SpaceID command" "rc_Fingerprint r = lc_Fingerprint command" unfolding scope by blast
    with find_receipt_Some[of db "scope_of access" "lc_IdempotencyKey command" r] replayed(4) show ?thesis
      by (auto simp: decision_receipt_def receipt_key_def)
  next
    case (late scope space room a p)
    then show ?thesis by simp
  next
    case (decided scope space room a p eventType db1 db2 item')
    note scope = loadModeratorLobby_Inr(1)[OF decided(1)]
    have "find_receipt db (scope_of access) (lc_IdempotencyKey command) = None"
      using lobby_replay_cases(1)[OF decided(2)] unfolding scope .
    moreover have "md_receipts db' = md_receipts db2"
      using decided(12) by (simp add: appendLobbyAdmissionEvent_def append_event_def)
    ultimately show ?thesis using record_lobby_receipt_Inr[OF decided(10)[unfolded scope]] by simp
  qed
  then show "\<exists>r\<in>set (md_receipts db'). decision_receipt access command r"
    and "find_receipt db (scope_of access) (lc_IdempotencyKey command) \<noteq> None \<Longrightarrow> db' = db" by blast+
qed

lemma mutateAdmission_Inr:
  assumes "mutateAdmission sv now access spaceID admissionID operation input db = (Inr item, db')"
  obtains command where "decision_command sv now access spaceID admissionID operation input = Inr command"
    and "MutateAdmission (sv_Repository sv) access command db = Inr (Inr item, db')"
  using assms by (auto simp: mutateAdmission_def split: sum.split_asm)

text \<open>
  C17.  A key names one decision: after a decision of the service has succeeded, whatever happens in
  between, the same actor gets an answer with the same key only for the same decision on the same
  request of the same space at the same versions and with the same reason, and that answer changes
  nothing.  Versions are those of an int64, and SHA-256 is assumed not to collide on the two requests.
\<close>

theorem decision_key_names_one_request:
  assumes "media_reachable sha256 (sv_Repository sv) db"
    and "mutateAdmission sv now access spaceID admissionID operation input db = (Inr item, db1)"
    and "media_run sha256 (sv_Repository sv) db1 db2"
    and "mutateAdmission sv now' access' spaceID' admissionID' operation' input' db2 = (Inr item', db3)"
    and "ac_TenantID access' = ac_TenantID access" and "ac_ActorID access' = ac_ActorID access"
    and "trim_space (ai_IdempotencyKey input') = trim_space (ai_IdempotencyKey input)"
    and "int64_versions input" and "int64_versions input'"
    and "\<And>c d. decision_command sv now access spaceID admissionID operation input = Inr c \<Longrightarrow>
      decision_command sv now' access' spaceID' admissionID' operation' input' = Inr d \<Longrightarrow>
      lobbyAdmissionFingerprint (sv_Sha256 sv) c = lobbyAdmissionFingerprint (sv_Sha256 sv) d \<Longrightarrow>
      admission_preimage c = admission_preimage d"
  shows "db3 = db2 \<and> spaceID' = spaceID \<and> admissionID' = admissionID \<and> operation' = operation \<and>
    trimmed input' = trimmed input"
proof -
  obtain c where c: "decision_command sv now access spaceID admissionID operation input = Inr c"
    "MutateAdmission (sv_Repository sv) access c db = Inr (Inr item, db1)" by (rule mutateAdmission_Inr[OF assms(2)])
  obtain d where d: "decision_command sv now' access' spaceID' admissionID' operation' input' = Inr d"
    "MutateAdmission (sv_Repository sv) access' d db2 = Inr (Inr item', db3)" by (rule mutateAdmission_Inr[OF assms(4)])
  note C = decision_command_Inr(1)[OF c(1)] and D = decision_command_Inr(1)[OF d(1)]
  have r1: "media_reachable sha256 (sv_Repository sv) db1"
    by (rule reachable_step[OF assms(1) media_step.decided[OF c(2)]])
  have key: "lc_IdempotencyKey d = lc_IdempotencyKey c"
    using assms(7) by (simp add: C D new_admission_command_def trimmed_def Let_def)
  obtain r where r: "r \<in> set (md_receipts db1)" "decision_receipt access c r"
    using MutateAdmission_receipt(1)[OF c(2)] by blast
  obtain q where "find_receipt db2 (scope_of access') (lc_IdempotencyKey d) = Some q"
    using receipt_persists[OF r1 assms(3) r(1), of "scope_of access'" "lc_IdempotencyKey d"] r(2) key assms(5,6)
    by (auto simp: decision_receipt_def)
  with MutateAdmission_receipt(2)[OF d(2)] have same: "db3 = db2" by simp
  obtain r' where r': "r' \<in> set (md_receipts db2)" "decision_receipt access' d r'"
    using MutateAdmission_receipt(1)[OF d(2)] by (auto simp: same)
  have "receipt_identity r' = receipt_identity r"
    by (rule one_receipt_per_key[OF r1 assms(3) r(1) r'(1)])
      (use r(2) r'(2) key assms(5,6) in \<open>simp add: decision_receipt_def\<close>)
  with r(2) r'(2) have "lc_Fingerprint d = lc_Fingerprint c"
    by (simp add: decision_receipt_def receipt_identity_def)
  then have "lobbyAdmissionFingerprint (sv_Sha256 sv) c = lobbyAdmissionFingerprint (sv_Sha256 sv) d"
    by (simp add: C D new_admission_command_def lobbyAdmissionFingerprint_def admission_preimage_def Let_def)
  from assms(10)[OF c(1) d(1) this] decision_preimage_determines[OF c(1) assms(8) d(1) assms(9) _ assms(7)] same
  show ?thesis by blast
qed

definition ex_service :: "class_tables lobby_service" where
  "ex_service = NewLobbyService ex_repo 300 ex_hash (\<lambda>s. s) Some"

definition ex_owner :: access_context where
  "ex_owner = (ex_access 7)\<lparr>ac_OrganizationRoles := [OrganizationRoleTeacher]\<rparr>"

definition ex_decision_input :: "string \<Rightarrow> string \<Rightarrow> admission_input" where
  "ex_decision_input key reason = \<lparr>ai_ExpectedSpaceVersion = 2, ai_ExpectedRoomInstanceID = 30,
     ai_ExpectedRoomInstanceVersion = 2, ai_ExpectedAdmissionVersion = 1, ai_IdempotencyKey = key,
     ai_ReasonCode = reason\<rparr>"

lemma ex_keys:
  "trim_space ''decide-key-00001'' = ''decide-key-00001''"
  "trim_space '' decide-key-00001 '' = ''decide-key-00001''"
  "trim_space [] = []"
  "mediaIdempotencyPattern ''decide-key-00001''"
  by code_simp+

definition ex_command :: "instant \<Rightarrow> admission_command" where
  "ex_command now = (ex_decision ''admission_admit'')\<lparr>lc_ReasonCode := [], lc_Fingerprint := ex_hash [],
     lc_OccurredAt := now\<rparr>"

lemma ex_commands:
  "decision_command ex_service now ex_owner 20 54 ''admission_admit'' (ex_decision_input ''decide-key-00001'' []) =
    Inr (ex_command now)"
  "decision_command ex_service now ex_owner 20 54 ''admission_admit'' (ex_decision_input '' decide-key-00001 '' []) =
    Inr (ex_command now)"
  by (simp_all add: decision_command_def ex_owner_def ex_access_def validLifecycleAccess_def ex_decision_input_def
      normalizeAdmissionMutationInput_def Let_def key_or_reason_invalid_def ex_keys new_admission_command_def
      ex_command_def ex_decision_def ex_service_def NewLobbyService_def lobbyAdmissionFingerprint_def ex_hash_def)

definition ex_served :: "class_tables media_db" where
  "ex_served = after (MutateAdmission ex_repo ex_owner (ex_command 650) ex_waiting) ex_waiting"

definition ex_answered :: "lobby_error + (lobby_error + lobby_admission) \<times> 'c media_db \<Rightarrow> bool" where
  "ex_answered r = (case r of Inl _ \<Rightarrow> False | Inr (x, _) \<Rightarrow> is_ok x)"

lemma ex_served_ok:
  "ex_answered (MutateAdmission ex_repo ex_owner (ex_command 650) ex_waiting)"
  "ex_answered (MutateAdmission ex_repo ex_owner (ex_command 660) ex_served)"
  by code_simp+

lemma ex_service_repository: "sv_Repository ex_service = ex_repo"
  by (simp add: ex_service_def NewLobbyService_def)

lemma ex_served_calls:
  "\<exists>item. Admit ex_service 650 ex_owner 20 54 (ex_decision_input ''decide-key-00001'' []) ex_waiting = (Inr item, ex_served)"
  "\<exists>item db. Admit ex_service 660 ex_owner 20 54 (ex_decision_input '' decide-key-00001 '' []) ex_served = (Inr item, db)"
  using ex_served_ok
  by (auto simp: Admit_def mutateAdmission_def ex_commands ex_service_repository ex_answered_def ex_served_def
      after_def is_ok_conv split: sum.split_asm)

theorem decision_key_names_one_request_witness:
  "\<exists>item. Admit ex_service 660 ex_owner 20 54 (ex_decision_input '' decide-key-00001 '' []) ex_served =
     (Inr item, ex_served)"
proof -
  let ?i = "ex_decision_input ''decide-key-00001'' []" and ?j = "ex_decision_input '' decide-key-00001 '' []"
  obtain item item' db3 where c: "mutateAdmission ex_service 650 ex_owner 20 54 ''admission_admit'' ?i ex_waiting =
      (Inr item, ex_served)" and d: "mutateAdmission ex_service 660 ex_owner 20 54 ''admission_admit'' ?j ex_served =
      (Inr item', db3)" using ex_served_calls by (auto simp: Admit_def)
  have "media_reachable ex_hash (sv_Repository ex_service) ex_waiting"
    and "media_run ex_hash (sv_Repository ex_service) ex_served ex_served"
    using ex_waiting_reachable by (auto simp: ex_service_repository intro: media_run.refl)
  moreover have "int64_versions ?i" "int64_versions ?j" by (simp_all add: int64_versions_def ex_decision_input_def)
  moreover have "trim_space (ai_IdempotencyKey ?j) = trim_space (ai_IdempotencyKey ?i)"
    by (simp add: ex_decision_input_def ex_keys)
  moreover have "admission_preimage (ex_command 650) = admission_preimage (ex_command 660)"
    by (simp add: ex_command_def admission_preimage_def)
  ultimately have "db3 = ex_served"
    using decision_key_names_one_request[OF _ c _ d] by (auto simp: ex_commands)
  with d show ?thesis by (auto simp: Admit_def)
qed

subsection \<open>Reasons that the table refuses\<close>

text \<open>
  The service accepts a reason with a dot or a hyphen, the constraint of \<open>resolution_code\<close> does not:
  a denial with such a reason is never carried out, whatever the state of the lobby.
\<close>

lemma denial_needs_resolution_code:
  assumes "mutateAdmission sv now access spaceID admissionID ''admission_deny'' input db = (Inr item, db')"
    and "find_receipt db (scope_of access) (trim_space (ai_IdempotencyKey input)) = None"
  shows "failure_code_valid (Some (trim_space (ai_ReasonCode input)))"
proof -
  obtain c where c: "decision_command sv now access spaceID admissionID ''admission_deny'' input = Inr c"
    "MutateAdmission (sv_Repository sv) access c db = Inr (Inr item, db')" by (rule mutateAdmission_Inr[OF assms(1)])
  have op: "lc_Operation c = ''admission_deny''" and key: "lc_IdempotencyKey c = trim_space (ai_IdempotencyKey input)"
    and reason: "lc_ReasonCode c = trim_space (ai_ReasonCode input)"
    by (simp_all add: decision_command_Inr(1)[OF c(1)] new_admission_command_def trimmed_def Let_def)
  from c(2) show ?thesis
  proof (cases rule: MutateAdmission_cases)
    case (replayed scope space room item')
    with lobby_replay_cases(2)[OF replayed(2)] assms(2) show ?thesis
      by (simp add: loadModeratorLobby_Inr(1)[OF replayed(1)] key)
  next
    case (late scope space room a p)
    then show ?thesis by simp
  next
    case (decided scope space room a p eventType db1 db2 item')
    let ?P = "decided_admission (tc_TenantID scope) a AdmissionWaiting"
    let ?f = "resolve_admission AdmissionDenied (Some (tc_ActorID scope)) (Some (lc_ReasonCode c)) (lc_OccurredAt c)"
    from decided(8) op have "admissions_ok (update_where ?P ?f (md_admissions db))"
      and "count_where ?P (md_admissions db) = 1"
      by (auto simp: decide_admission_def denyLobbyAdmission_def update_one_admission_def constrained_def try_res_eq_Inr
          split: if_split_asm)
    moreover from this(2) obtain r where "r \<in> set (md_admissions db)" "?P r"
      using count_where_zero[of ?P "md_admissions db"] by auto
    then have "?f r \<in> set (update_where ?P ?f (md_admissions db))" by (auto simp: set_update_where)
    ultimately have "failure_code_valid (ad_ResolutionCode (?f r))"
      by (auto simp: admissions_ok_def list_all_iff admission_check_def)
    then show ?thesis by (simp add: resolve_admission_def reason)
  qed
qed

subsection \<open>The moderation service tells the truth\<close>

definition moderation_recorded :: "access_context \<Rightarrow> string \<Rightarrow> provider_effect_status \<Rightarrow> 'c media_db \<Rightarrow> bool" where
  "moderation_recorded access key status db \<longleftrightarrow> (\<exists>r\<in>set (md_receipts db).
     receipt_key r = (ac_TenantID access, ac_ActorID access, key) \<and> rc_EffectStatus r = status)"

lemma effect_receipt_key:
  "effect_receipt (scope_of access) key r \<Longrightarrow> receipt_key r = (ac_TenantID access, ac_ActorID access, key)"
  by (simp add: effect_receipt_def receipt_key_def)

lemma ApplyModeration_reports:
  assumes "ApplyModeration rp access command acceptedAt db = Inr (result, db')"
    and "mw_ProviderEffectStatus result = ProviderEffectApplied"
  shows "moderation_recorded access (mo_IdempotencyKey command) ProviderEffectApplied db'"
proof -
  from assms(1)[unfolded ApplyModeration_def None_Inl_Inr try_res_eq_Inr split_paired_Ex case_prod_conv]
  obtain access' scope space source replay where a: "requireActiveScope db access = Inr (access', scope)"
    and r: "loadModerationReplay db scope command = Inr replay"
    and k: "(case replay of Some result \<Rightarrow> Inr (result, db)
      | None \<Rightarrow> apply_new_moderation rp access' scope space source command acceptedAt db) = Inr (result, db')"
    by auto
  show ?thesis
  proof (cases replay)
    case (Some result')
    with k r assms(2) requireActiveScope_Inr(1)[OF a] show ?thesis
      by (auto simp: loadModerationReplay_def receipt_result_def try_res_eq_Inr moderation_recorded_def receipt_key_def
          split: option.split_asm if_split_asm dest!: find_receipt_Some intro!: bexI)
  next
    case None
    with k have "apply_new_moderation rp access' scope space source command acceptedAt db = Inr (result, db')" by simp
    then show ?thesis
    proof (rule apply_new_moderation_Inr)
      fix role safety target windows room db2
      assume "moderate scope command space room role safety (db\<lparr>md_moderations := windows\<rparr>) = Inr ((target, result), db2)"
      then have "mw_ProviderEffectStatus result \<in> {ProviderEffectNone, ProviderEffectPending}"
        by (auto simp: moderate_def moderation_start_def applyParticipantModeration_def mutateDynamicCoHost_def
            advance_target_def try_res_eq_Inr Let_def split: if_split_asm option.split_asm moderation_operation.split_asm)
      with assms(2) show ?thesis by simp
    qed
  qed
qed

lemma load_moderation_effect_receipt:
  assumes "load_moderation_effect db (scope_of access) key = Some (r, effect)"
  shows "r \<in> set (md_receipts db)" and "receipt_key r = (ac_TenantID access, ac_ActorID access, key)"
  using assms by (auto simp: load_moderation_effect_def split: option.split_asm dest!: find_in_set effect_receipt_key)

lemma ClaimProviderModerationEffect_reports:
  assumes "ClaimProviderModerationEffect access key now lease db = Inr ((effect, ProviderEffectApplied, claimed), db')"
  shows "\<not> claimed" and "moderation_recorded access key ProviderEffectApplied db'"
proof -
  have public: "publicProviderEffectStatus s = ProviderEffectApplied \<longleftrightarrow> s = ProviderEffectApplied" for s
    by (cases s) simp_all
  from assms obtain access' scope where a: "requireActiveScope db access = Inr (access', scope)"
    by (auto simp: ClaimProviderModerationEffect_def split: sum.split_asm)
  note scope = requireActiveScope_Inr(1)[OF a]
  from assms obtain r e where l: "load_moderation_effect db (scope_of access) key = Some (r, e)"
    by (auto simp: ClaimProviderModerationEffect_def a scope split: option.split_asm)
  from assms have "\<not> claimed \<and> db' = db \<and> rc_EffectStatus r = ProviderEffectApplied"
    by (auto simp: ClaimProviderModerationEffect_def a scope l Let_def public split: if_split_asm sum.split_asm)
  with load_moderation_effect_receipt[OF l] show "\<not> claimed" "moderation_recorded access key ProviderEffectApplied db'"
    by (auto simp: moderation_recorded_def)
qed

lemma CompleteProviderModerationEffect_reports:
  assumes "CompleteProviderModerationEffect access key n status code now db = Inr (recorded, db')"
  shows "recorded = status" and "moderation_recorded access key status db'"
proof -
  from assms obtain access' scope where a: "requireActiveScope db access = Inr (access', scope)"
    by (auto simp: CompleteProviderModerationEffect_def split: if_split_asm sum.split_asm)
  let ?P = "\<lambda>r. effect_receipt (scope_of access) key r \<and> rc_EffectStatus r = ProviderEffectApplying \<and> rc_EffectAttempts r = n"
  from assms have c: "recorded = status" "count_where ?P (md_receipts db) \<noteq> 0"
    "md_receipts db' = update_where ?P (complete_effect status code now) (md_receipts db)"
    by (auto simp: CompleteProviderModerationEffect_def a requireActiveScope_Inr(1)[OF a] Let_def constrained_def
        split: if_split_asm sum.split_asm)
  then obtain r where "r \<in> set (md_receipts db)" "?P r" by (auto simp: count_where_zero)
  then have "complete_effect status code now r \<in> set (md_receipts db')"
    and "receipt_key (complete_effect status code now r) = (ac_TenantID access, ac_ActorID access, key)"
    and "rc_EffectStatus (complete_effect status code now r) = status"
    by (auto simp: c(3) set_update_where effect_receipt_key) (simp add: complete_effect_def)
  then show "moderation_recorded access key status db'" unfolding moderation_recorded_def by blast
  show "recorded = status" by (rule c(1))
qed

lemma applyProviderEffect_call:
  "applyProviderEffect provider effect = (calls, None) \<Longrightarrow> \<exists>call. calls = [call] \<and> provider call = None"
  by (auto simp: applyProviderEffect_def Let_def split: if_split_asm)

lemma effect_outcome_applied: "effect_outcome failure = (ProviderEffectApplied, code) \<Longrightarrow> failure = None"
  by (cases failure; cases "the failure") (simp_all add: effect_outcome_def)

lemma drive_effect_reports:
  assumes "drive_effect ps access key clk first completed_from db = (Inr result, calls, db')"
    and "mw_ProviderEffectStatus result = ProviderEffectApplied"
  shows "moderation_recorded access key ProviderEffectApplied db' \<and>
    length calls \<le> 1 \<and> (\<forall>call\<in>set calls. ps_Provider ps call = None)"
proof -
  obtain effect status claimed db1 where
    c: "ClaimProviderModerationEffect access key (pt_Now clk) providerModerationLease db = Inr ((effect, status, claimed), db1)"
    using assms(1) by (auto simp: drive_effect_def split: sum.split_asm)
  show ?thesis
  proof (cases claimed)
    case False
    with assms(1) c have "result = first\<lparr>mw_ProviderEffectStatus := publicProviderEffectStatus status\<rparr>" "calls = []" "db1 = db'"
      by (auto simp: drive_effect_def)
    moreover from this assms(2) have "status = ProviderEffectApplied" by (cases status) simp_all
    ultimately show ?thesis using ClaimProviderModerationEffect_reports(2) c by simp
  next
    case True
    obtain failure where p: "applyProviderEffect (ps_Provider ps) effect = (calls, failure)"
      using assms(1) c True by (auto simp: drive_effect_def Let_def split: prod.split_asm sum.split_asm)
    obtain completed code where o: "effect_outcome failure = (completed, code)" by force
    obtain recorded where f: "CompleteProviderModerationEffect access key (mf_Attempt effect) completed code
        (pt_Completed clk) (completed_from db1) = Inr (recorded, db')"
      and r: "result = first\<lparr>mw_ProviderEffectStatus := recorded\<rparr>"
      using assms(1) c True p o by (auto simp: drive_effect_def Let_def split: sum.split_asm)
    note settled = CompleteProviderModerationEffect_reports[OF f]
    from r settled(1) assms(2) have "completed = ProviderEffectApplied" by simp
    with effect_outcome_applied o have "failure = None" by simp
    with applyProviderEffect_call p obtain call where "calls = [call]" "ps_Provider ps call = None" by metis
    with settled(2) \<open>completed = ProviderEffectApplied\<close> show ?thesis by simp
  qed
qed

text \<open>
  C18.  The moderation service tells the truth: when it answers that the provider has carried a command
  out, then the receipt of that command is recorded as applied in the database it leaves, and every
  call it made, one at most, was accepted by the provider.  This holds whatever other transactions do
  between the steps of the command.
\<close>

theorem moderation_reports_what_is_recorded:
  assumes "apply_moderation ps access clk claimed_from completed_from request db = (Inr result, calls, db')"
    and "mw_ProviderEffectStatus result = ProviderEffectApplied"
  shows "(\<exists>r\<in>set (md_receipts db'). receipt_key r = (ac_TenantID access, ac_ActorID access, mo_IdempotencyKey request) \<and>
      rc_EffectStatus r = ProviderEffectApplied) \<and>
    length calls \<le> 1 \<and> (\<forall>call\<in>set calls. ps_Provider ps call = None)"
proof -
  let ?command = "stamped_command (ps_Sha256 ps) (pt_Now clk) request"
  have key: "mo_IdempotencyKey ?command = mo_IdempotencyKey request" by (simp add: stamped_command_def Let_def)
  obtain first db1 where a: "ApplyModeration (ps_Repository ps) access ?command (pt_Accepted clk) db = Inr (first, db1)"
    and k: "(if effect_settled (mw_ProviderEffectStatus first) then (Inr first, [], db1)
      else drive_effect ps access (mo_IdempotencyKey request) clk first completed_from (claimed_from db1)) =
      (Inr result, calls, db')"
    using assms(1) by (auto simp: apply_moderation_def Let_def key split: if_split_asm sum.split_asm)
  have "moderation_recorded access (mo_IdempotencyKey request) ProviderEffectApplied db' \<and>
    length calls \<le> 1 \<and> (\<forall>call\<in>set calls. ps_Provider ps call = None)"
  proof (cases "effect_settled (mw_ProviderEffectStatus first)")
    case True
    with k have "first = result" "calls = []" "db1 = db'" by auto
    with ApplyModeration_reports[OF a] assms(2) key show ?thesis by simp
  next
    case False
    with k have "drive_effect ps access (mo_IdempotencyKey request) clk first completed_from (claimed_from db1) =
      (Inr result, calls, db')" by simp
    then show ?thesis by (rule drive_effect_reports[OF _ assms(2)])
  qed
  then show ?thesis unfolding moderation_recorded_def .
qed

definition ex_moderator :: "class_tables moderation_service" where
  "ex_moderator = \<lparr>ps_Repository = ex_repo, ps_Sha256 = ex_hash, ps_Provider = (\<lambda>_. None)\<rparr>"

definition ex_times :: moderation_times where
  "ex_times = \<lparr>pt_Now = 690, pt_Accepted = 690, pt_Completed = 695\<rparr>"

definition ex_removal :: moderation_command where
  "ex_removal = remove_request 20 52 \<lparr>pi_Expected = mo_Expected (ex_moderation ModerationRemove 1),
     pi_IdempotencyKey = ''moderate-key-001'', pi_ReasonCode = []\<rparr>"

definition ex_stamped :: moderation_command where
  "ex_stamped = (ex_moderation ModerationRemove 1)\<lparr>mo_Fingerprint := ex_hash []\<rparr>"

lemma ex_removal_stamped: "stamped_command ex_hash 690 ex_removal = ex_stamped"
  by (simp add: stamped_command_def ex_removal_def remove_request_def moderation_request_def ex_stamped_def
      ex_moderation_def moderationFingerprint_def ex_hash_def ex_keys Let_def)

lemma ex_removal_valid: "validModerationCommand (ex_access 7) ex_stamped"
  by code_simp

text \<open>The two transactions of a removal and the call between them, on the tables of the example.\<close>

definition ex_carried_out :: "class_tables media_db \<Rightarrow> bool" where
  "ex_carried_out db = (case ApplyModeration ex_repo (ex_access 7) ex_stamped 690 db of
      Inl _ \<Rightarrow> False
    | Inr (first, db1) \<Rightarrow> \<not> effect_settled (mw_ProviderEffectStatus first) \<and>
        (case drive_effect ex_moderator (ex_access 7) ''moderate-key-001'' ex_times first id db1 of
           (answer, calls, _) \<Rightarrow> calls \<noteq> [] \<and> (case answer of Inl _ \<Rightarrow> False
             | Inr result \<Rightarrow> mw_ProviderEffectStatus result = ProviderEffectApplied)))"

lemma ex_carried_out: "ex_carried_out ex_meeting_db"
  by code_simp

theorem moderation_reports_what_is_recorded_witness:
  "\<exists>result call db'. apply_moderation ex_moderator (ex_access 7) ex_times id id ex_removal ex_meeting_db =
     (Inr result, [call], db') \<and> (\<exists>r\<in>set (md_receipts db'). rc_EffectStatus r = ProviderEffectApplied)"
proof -
  have "stamped_command (ps_Sha256 ex_moderator) (pt_Now ex_times) ex_removal = ex_stamped"
    by (simp add: ex_moderator_def ex_times_def ex_removal_stamped)
  moreover have "ps_Repository ex_moderator = ex_repo" "pt_Accepted ex_times = 690"
    "mo_IdempotencyKey ex_stamped = ''moderate-key-001''"
    by (simp_all add: ex_moderator_def ex_times_def ex_stamped_def ex_moderation_def)
  ultimately obtain result calls db' where
    c: "apply_moderation ex_moderator (ex_access 7) ex_times id id ex_removal ex_meeting_db = (Inr result, calls, db')"
    "mw_ProviderEffectStatus result = ProviderEffectApplied" "calls \<noteq> []"
    using ex_carried_out ex_removal_valid
    by (auto simp: ex_carried_out_def apply_moderation_def Let_def split: sum.split_asm prod.split_asm)
  note told = moderation_reports_what_is_recorded[OF c(1,2)]
  moreover from told c(3) obtain call where "calls = [call]" by (cases calls) auto
  ultimately show ?thesis using c(1) by blast
qed

end
