(* ===== verification/Calendar_Conflicts.thy ===== *)
theory Calendar_Conflicts imports Go_Strings begin

section \<open>Schedule conflicts of a class (modules/calendar/conflict.go)\<close>

text \<open>
  The conflicts between the intervals a change would add and those a class already has, over
  half-open intervals, and the rule for overriding them.
\<close>

datatype conflict_error = ErrClassScheduleConflict

record busy_interval =
  bi_ID :: string
  bi_ClassID :: uuid
  bi_StartsAt :: instant
  bi_EndsAt :: instant

record schedule_conflict =
  sc_CandidateID :: string
  sc_ExistingID :: string
  sc_ClassID :: uuid
  sc_StartsAt :: instant
  sc_EndsAt :: instant

definition Overlaps :: "instant \<Rightarrow> instant \<Rightarrow> instant \<Rightarrow> instant \<Rightarrow> bool" where
  "Overlaps leftStart leftEnd rightStart rightEnd \<longleftrightarrow> leftStart < rightEnd \<and> rightStart < leftEnd"

definition validInterval :: "instant \<Rightarrow> instant \<Rightarrow> bool" where
  "validInterval s t \<longleftrightarrow> s \<noteq> zero_time \<and> t \<noteq> zero_time \<and> s < t"

definition later :: "instant \<Rightarrow> instant \<Rightarrow> instant" where
  "later l r = (if l > r then l else r)"

definition earlier :: "instant \<Rightarrow> instant \<Rightarrow> instant" where
  "earlier l r = (if l < r then l else r)"

definition conflicts_with :: "busy_interval \<Rightarrow> busy_interval \<Rightarrow> bool" where
  "conflicts_with c e \<longleftrightarrow> bi_ClassID e = bi_ClassID c \<and> validInterval (bi_StartsAt e) (bi_EndsAt e) \<and>
     Overlaps (bi_StartsAt c) (bi_EndsAt c) (bi_StartsAt e) (bi_EndsAt e)"

definition conflict_of :: "busy_interval \<Rightarrow> busy_interval \<Rightarrow> schedule_conflict" where
  "conflict_of c e = \<lparr>sc_CandidateID = bi_ID c, sc_ExistingID = bi_ID e, sc_ClassID = bi_ClassID c,
     sc_StartsAt = later (bi_StartsAt c) (bi_StartsAt e), sc_EndsAt = earlier (bi_EndsAt c) (bi_EndsAt e)\<rparr>"

definition candidate_conflicts :: "busy_interval list \<Rightarrow> busy_interval \<Rightarrow> schedule_conflict list" where
  "candidate_conflicts existing c =
     (if bi_ClassID c = uuid_Nil \<or> \<not> validInterval (bi_StartsAt c) (bi_EndsAt c) then []
      else map (conflict_of c) (filter (conflicts_with c) existing))"

definition DetectClassConflicts :: "busy_interval list \<Rightarrow> busy_interval list \<Rightarrow> schedule_conflict list" where
  "DetectClassConflicts candidates existing =
     sort_key (\<lambda>x. (sc_CandidateID x, sc_StartsAt x, sc_ExistingID x))
       (concat (map (candidate_conflicts existing) candidates))"

definition RequireNoClassConflict :: "schedule_conflict list \<Rightarrow> bool \<Rightarrow> string \<Rightarrow> conflict_error + unit" where
  "RequireNoClassConflict conflicts canOverride overrideReason =
     (if conflicts = [] then Inr ()
      else if canOverride \<and> trim_space overrideReason \<noteq> [] then Inr ()
      else Inl ErrClassScheduleConflict)"

subsection \<open>No instant is booked twice\<close>

lemma candidate_conflicts_Nil:
  "candidate_conflicts existing c = [] \<longleftrightarrow> bi_ClassID c = uuid_Nil \<or> \<not> validInterval (bi_StartsAt c) (bi_EndsAt c) \<or>
     (\<forall>e\<in>set existing. \<not> conflicts_with c e)"
  by (auto simp: candidate_conflicts_def filter_empty_conv)

lemma sort_key_Nil: "sort_key f xs = [] \<longleftrightarrow> xs = []"
  by (metis length_0_conv length_sort)

lemma DetectClassConflicts_Nil:
  "DetectClassConflicts candidates existing = [] \<longleftrightarrow> (\<forall>c\<in>set candidates. candidate_conflicts existing c = [])"
  by (auto simp: DetectClassConflicts_def sort_key_Nil)

text \<open>The instants an interval books for its class.\<close>

definition books :: "busy_interval \<Rightarrow> uuid \<Rightarrow> instant \<Rightarrow> bool" where
  "books b k t \<longleftrightarrow> bi_ClassID b = k \<and> k \<noteq> uuid_Nil \<and> validInterval (bi_StartsAt b) (bi_EndsAt b) \<and>
     bi_StartsAt b \<le> t \<and> t < bi_EndsAt b"

lemma candidate_conflicts_books:
  "candidate_conflicts existing c = [] \<longleftrightarrow> (\<forall>e\<in>set existing. \<forall>k t. \<not> (books c k t \<and> books e k t))"
proof
  assume "candidate_conflicts existing c = []"
  then show "\<forall>e\<in>set existing. \<forall>k t. \<not> (books c k t \<and> books e k t)"
    by (auto simp: candidate_conflicts_Nil conflicts_with_def Overlaps_def books_def)
next
  assume free: "\<forall>e\<in>set existing. \<forall>k t. \<not> (books c k t \<and> books e k t)"
  show "candidate_conflicts existing c = []"
  proof (rule ccontr)
    assume "candidate_conflicts existing c \<noteq> []"
    then obtain e where e: "e \<in> set existing" "conflicts_with c e" "bi_ClassID c \<noteq> uuid_Nil"
        "validInterval (bi_StartsAt c) (bi_EndsAt c)"
      by (auto simp: candidate_conflicts_Nil)
    then have "books c (bi_ClassID c) (later (bi_StartsAt c) (bi_StartsAt e))"
      "books e (bi_ClassID c) (later (bi_StartsAt c) (bi_StartsAt e))"
      by (auto simp: books_def conflicts_with_def Overlaps_def later_def validInterval_def)
    with free e(1) show False by blast
  qed
qed

text \<open>
  C24.  Without the capability to override, a change is accepted exactly when it books no instant
  of a class that one of the class's intervals already books.
\<close>

theorem class_schedule_never_double_booked:
  "RequireNoClassConflict (DetectClassConflicts candidates existing) False reason = Inr () \<longleftrightarrow>
     (\<forall>c\<in>set candidates. \<forall>e\<in>set existing. \<forall>k t. \<not> (books c k t \<and> books e k t))"
  by (simp add: RequireNoClassConflict_def DetectClassConflicts_Nil candidate_conflicts_books)

theorem class_schedule_never_double_booked_witness:
  "\<not> (\<forall>k t. \<not> (books \<lparr>bi_ID = ''a'', bi_ClassID = 5, bi_StartsAt = 10, bi_EndsAt = 20\<rparr> k t \<and>
      books \<lparr>bi_ID = ''b'', bi_ClassID = 5, bi_StartsAt = 19, bi_EndsAt = 30\<rparr> k t))"
proof -
  let ?c = "\<lparr>bi_ID = ''a'', bi_ClassID = 5, bi_StartsAt = 10, bi_EndsAt = 20\<rparr>"
  let ?e = "\<lparr>bi_ID = ''b'', bi_ClassID = 5, bi_StartsAt = 19, bi_EndsAt = 30\<rparr>"
  have "RequireNoClassConflict (DetectClassConflicts [?c] [?e]) False [] \<noteq> Inr ()"
    by (simp add: RequireNoClassConflict_def DetectClassConflicts_def candidate_conflicts_def validInterval_def
        conflicts_with_def Overlaps_def)
  then show ?thesis
    unfolding class_schedule_never_double_booked by simp
qed

end
