(* ===== verification/Go_Calendar.thy ===== *)
theory Go_Calendar imports Go_Strings "HOL-Library.Monad_Syntax" begin

section \<open>Civil time (package time)\<close>

text \<open>
  What the calendar code uses of Go's package time: the proleptic Gregorian calendar, the clock
  fields of an instant, the layouts it prints and parses, and locations.  Days are counted from
  1 January of year 1, the day of Go's zero time.  A \<open>*time.Location\<close> is the offset from UTC, in
  seconds, at every instant; which offsets a zone has is the content of the IANA database, a
  parameter.
\<close>

subsection \<open>The calendar\<close>

definition leap_year :: "int \<Rightarrow> bool" where
  "leap_year y \<longleftrightarrow> y mod 4 = 0 \<and> (y mod 100 \<noteq> 0 \<or> y mod 400 = 0)"

definition days_in_month :: "int \<Rightarrow> int \<Rightarrow> int" where
  "days_in_month y m =
     (if m = 2 then (if leap_year y then 29 else 28)
      else if m \<in> {4, 6, 9, 11} then 30 else 31)"

definition year_start :: "int \<Rightarrow> int" where
  "year_start y = 365 * (y - 1) + (y - 1) div 4 - (y - 1) div 100 + (y - 1) div 400"

definition month_start :: "bool \<Rightarrow> int \<Rightarrow> int" where
  "month_start leap m = [0, 0, 31, 59, 90, 120, 151, 181, 212, 243, 273, 304, 334, 365] ! nat m +
     (if leap \<and> 2 < m then 1 else 0)"

definition day_of_date :: "int \<Rightarrow> int \<Rightarrow> int \<Rightarrow> int" where
  "day_of_date y m d = year_start y + month_start (leap_year y) m + (d - 1)"

definition year_of_day :: "int \<Rightarrow> int" where
  "year_of_day n = (let y = 400 * n div 146097 + 1 in
     if year_start (y + 1) \<le> n then y + 1 else if n < year_start y then y - 1 else y)"

fun month_from :: "bool \<Rightarrow> int \<Rightarrow> nat \<Rightarrow> int" where
  "month_from leap yd 0 = 12"
| "month_from leap yd (Suc k) =
     (if yd < month_start leap (12 - int k) then 12 - int (Suc k) else month_from leap yd k)"

definition month_of_yearday :: "bool \<Rightarrow> int \<Rightarrow> int" where
  "month_of_yearday leap yd = month_from leap yd 11"

subsection \<open>Dates and days correspond\<close>

lemma div_pred:
  assumes "0 < (k::int)"
  shows "y div k = (y - 1) div k + (if y mod k = 0 then 1 else 0)"
proof -
  have m: "0 \<le> y mod k" "y mod k < k" using assms by simp_all
  have y: "y = k * (y div k) + y mod k" by simp
  show ?thesis
  proof (cases "y mod k = 0")
    case True
    have "(y - 1) div k = y div k - 1"
      by (rule int_div_pos_eq[of _ _ _ "k - 1"]) (use y True assms in \<open>auto simp: algebra_simps\<close>)
    with True show ?thesis by simp
  next
    case False
    have "(y - 1) div k = y div k"
      by (rule int_div_pos_eq[of _ _ _ "y mod k - 1"]) (use y m False in \<open>auto simp: algebra_simps\<close>)
    with False show ?thesis by simp
  qed
qed

lemma mod_zero_factor: "(y::int) mod (a * b) = 0 \<Longrightarrow> y mod a = 0"
  by (simp add: mod_eq_0_iff_dvd) (rule dvd_mult_left)

lemma leap_count:
  fixes y :: int
  assumes "R \<Longrightarrow> Q" and "Q \<Longrightarrow> P"
  shows "365 * y + (a + (if P then 1 else 0)) - (b + (if Q then 1 else 0)) + (c + (if R then 1 else 0)) =
    365 * (y - 1) + a - b + c + (if P \<and> (\<not> Q \<or> R) then 366 else 365)"
  using assms by (cases P; cases Q; cases R) simp_all

lemma year_start_step: "year_start (y + 1) = year_start y + (if leap_year y then 366 else 365)"
proof -
  have e: "year_start (y + 1) = 365 * y + y div 4 - y div 100 + y div 400" by (simp add: year_start_def)
  have d: "y div 4 = (y - 1) div 4 + (if y mod 4 = 0 then 1 else 0)"
    "y div 100 = (y - 1) div 100 + (if y mod 100 = 0 then 1 else 0)"
    "y div 400 = (y - 1) div 400 + (if y mod 400 = 0 then 1 else 0)"
    by (rule div_pred, simp)+
  show ?thesis
    unfolding e d unfolding leap_year_def year_start_def
    by (rule leap_count) (use mod_zero_factor[of y 100 4] mod_zero_factor[of y 4 25] in simp_all)
qed

lemma year_start_mono: "y \<le> z \<Longrightarrow> year_start y \<le> year_start z"
  by (induction z rule: int_ge_induct) (auto simp: year_start_step)

lemma year_start_strict: "y < z \<Longrightarrow> year_start y < year_start z"
  using year_start_mono[of "y + 1" z] by (simp add: year_start_step split: if_split_asm)

lemma year_start_bounds:
  "400 * year_start y \<le> 146097 * (y - 1) + 400" "146097 * (y - 1) - 800 \<le> 400 * year_start y"
proof -
  define z where "z = y - 1"
  have d: "0 < k \<Longrightarrow> k * (z div k) \<le> z \<and> z - k < k * (z div k)" for k :: int
    using minus_mod_eq_mult_div[of z k] pos_mod_bound[of k z] pos_mod_sign[of k z] by linarith
  have "400 * (z div 4) \<le> 100 * z" "100 * z - 400 \<le> 400 * (z div 4)"
    "400 * (z div 100) \<le> 4 * z" "4 * z - 400 \<le> 400 * (z div 100)"
    "400 * (z div 400) \<le> z" "z - 400 \<le> 400 * (z div 400)"
    using d[of 4] d[of 100] d[of 400] by simp_all
  then show "400 * year_start y \<le> 146097 * (y - 1) + 400" "146097 * (y - 1) - 800 \<le> 400 * year_start y"
    unfolding year_start_def z_def[symmetric] by (simp_all add: algebra_simps)
qed

lemma year_of_day: "year_start (year_of_day n) \<le> n" "n < year_start (year_of_day n + 1)"
proof -
  define y where "y = 400 * n div 146097 + 1"
  have q: "146097 * (y - 1) \<le> 400 * n" "400 * n < 146097 * y"
    using minus_mod_eq_mult_div[of "400 * n" 146097] pos_mod_bound[of 146097 "400 * n"]
      pos_mod_sign[of 146097 "400 * n"] by (simp_all add: y_def)
  have "n < year_start (y + 2)" "year_start (y - 1) \<le> n"
    using year_start_bounds[of "y + 2"] year_start_bounds[of "y - 1"] q by (simp_all add: algebra_simps)
  then show "year_start (year_of_day n) \<le> n" "n < year_start (year_of_day n + 1)"
    unfolding year_of_day_def Let_def y_def[symmetric] by (auto simp: algebra_simps)
qed

lemma year_of_day_unique: "year_start y \<le> n \<Longrightarrow> n < year_start (y + 1) \<Longrightarrow> year_of_day n = y"
  using year_of_day[of n] year_start_mono[of "y + 1" "year_of_day n"]
    year_start_mono[of "year_of_day n + 1" y] by linarith

lemma month_cases:
  assumes "1 \<le> m" "m \<le> (12::int)"
  shows "m = 1 \<or> m = 2 \<or> m = 3 \<or> m = 4 \<or> m = 5 \<or> m = 6 \<or> m = 7 \<or> m = 8 \<or> m = 9 \<or> m = 10 \<or> m = 11 \<or> m = 12"
  using assms by presburger

lemma month_start_step:
  "1 \<le> m \<Longrightarrow> m \<le> 12 \<Longrightarrow> month_start (leap_year y) (m + 1) = month_start (leap_year y) m + days_in_month y m"
  by (drule (1) month_cases, elim disjE) (simp_all add: month_start_def days_in_month_def)

lemma month_start_simps [simp]:
  "month_start l 1 = 0" "month_start l 2 = 31" "month_start l 3 = 59 + (if l then 1 else 0)"
  "month_start l 4 = 90 + (if l then 1 else 0)" "month_start l 5 = 120 + (if l then 1 else 0)"
  "month_start l 6 = 151 + (if l then 1 else 0)" "month_start l 7 = 181 + (if l then 1 else 0)"
  "month_start l 8 = 212 + (if l then 1 else 0)" "month_start l 9 = 243 + (if l then 1 else 0)"
  "month_start l 10 = 273 + (if l then 1 else 0)" "month_start l 11 = 304 + (if l then 1 else 0)"
  "month_start l 12 = 334 + (if l then 1 else 0)" "month_start l 13 = 365 + (if l then 1 else 0)"
  by (simp_all add: month_start_def)

lemma month_of_yearday_eq:
  "month_of_yearday l yd =
     (if yd < month_start l 2 then 1 else if yd < month_start l 3 then 2 else if yd < month_start l 4 then 3
      else if yd < month_start l 5 then 4 else if yd < month_start l 6 then 5 else if yd < month_start l 7 then 6
      else if yd < month_start l 8 then 7 else if yd < month_start l 9 then 8 else if yd < month_start l 10 then 9
      else if yd < month_start l 11 then 10 else if yd < month_start l 12 then 11 else 12)"
  by (simp add: month_of_yearday_def numeral_eq_Suc)

lemma month_of_yearday:
  assumes "0 \<le> yd" and "yd < (if l then 366 else 365)"
  shows "month_of_yearday l yd \<in> {1..12}" "month_start l (month_of_yearday l yd) \<le> yd"
    "yd < month_start l (month_of_yearday l yd + 1)"
  unfolding month_of_yearday_eq using assms by (auto split: if_split_asm)

lemma month_of_yearday_unique:
  assumes "1 \<le> m" "m \<le> 12" and "month_start l m \<le> yd" and "yd < month_start l (m + 1)"
  shows "month_of_yearday l yd = m"
  using month_cases[OF assms(1,2)] assms(3,4)
  unfolding month_of_yearday_eq by (elim disjE) (auto split: if_split_asm)

subsection \<open>Clock fields of an instant\<close>

record civil_time =
  cv_Year :: int
  cv_Month :: int
  cv_Day :: int
  cv_Hour :: int
  cv_Minute :: int
  cv_Second :: int

definition valid_civil :: "civil_time \<Rightarrow> bool" where
  "valid_civil v \<longleftrightarrow> 1 \<le> cv_Month v \<and> cv_Month v \<le> 12 \<and> 1 \<le> cv_Day v \<and>
     cv_Day v \<le> days_in_month (cv_Year v) (cv_Month v) \<and> 0 \<le> cv_Hour v \<and> cv_Hour v < 24 \<and>
     0 \<le> cv_Minute v \<and> cv_Minute v < 60 \<and> 0 \<le> cv_Second v \<and> cv_Second v < 60"

text \<open>Seconds since the zero time, read as year, month, day, hour, minute and second in UTC.\<close>

definition civil_of_seconds :: "int \<Rightarrow> civil_time" where
  "civil_of_seconds s =
     (let day = s div 86400; sod = s mod 86400; y = year_of_day day; yd = day - year_start y;
          m = month_of_yearday (leap_year y) yd in
      \<lparr>cv_Year = y, cv_Month = m, cv_Day = yd - month_start (leap_year y) m + 1,
       cv_Hour = sod div 3600, cv_Minute = sod div 60 mod 60, cv_Second = sod mod 60\<rparr>)"

definition seconds_of_civil :: "civil_time \<Rightarrow> int" where
  "seconds_of_civil v = 86400 * day_of_date (cv_Year v) (cv_Month v) (cv_Day v) +
     3600 * cv_Hour v + 60 * cv_Minute v + cv_Second v"

text \<open>\<open>time.Date(..., 0, time.UTC)\<close>.\<close>

definition utc_instant :: "civil_time \<Rightarrow> instant" where
  "utc_instant v = seconds_of_civil v * time_Second"

definition civil_of_instant :: "instant \<Rightarrow> civil_time" where
  "civil_of_instant i = civil_of_seconds (i div time_Second)"

lemma clock_parts: "3600 * (r div 3600) + 60 * (r div 60 mod 60) + r mod 60 = (r::int)"
proof -
  have "r div 3600 = r div 60 div 60" using zdiv_zmult2_eq[of 60 r 60] by simp
  moreover have "60 * (r div 60 div 60) + r div 60 mod 60 = r div 60" by simp
  moreover have "60 * (r div 60) + r mod 60 = r" by simp
  ultimately show ?thesis by linarith
qed

lemma clock_hours: "0 \<le> r \<Longrightarrow> r < 86400 \<Longrightarrow> 0 \<le> r div 3600 \<and> r div 3600 < (24::int)"
  using minus_mod_eq_mult_div[of r 3600] pos_mod_bound[of 3600 r] pos_mod_sign[of 3600 r] by linarith

lemma seconds_of_civil_of_seconds [simp]: "seconds_of_civil (civil_of_seconds s) = s"
proof -
  define D r where "D = s div 86400" and "r = s mod 86400"
  have "86400 * D + r = s" by (simp add: D_def r_def)
  with clock_parts[of r] show ?thesis
    unfolding seconds_of_civil_def civil_of_seconds_def Let_def day_of_date_def
      D_def[symmetric] r_def[symmetric] by simp
qed

lemma civil_of_seconds_valid: "valid_civil (civil_of_seconds s)"
proof -
  define y where "y = year_of_day (s div 86400)"
  define yd where "yd = s div 86400 - year_start y"
  define m where "m = month_of_yearday (leap_year y) yd"
  have yd: "0 \<le> yd" "yd < (if leap_year y then 366 else 365)"
    using year_of_day[of "s div 86400"] year_start_step[of y] by (simp_all add: yd_def y_def)
  note m = month_of_yearday[OF yd, folded m_def]
  then have "yd - month_start (leap_year y) m + 1 \<le> days_in_month y m"
    using month_start_step[of m y] by simp
  moreover have "s mod 86400 div 3600 < 24" "0 \<le> s mod 86400 div 3600"
    using clock_hours[of "s mod 86400"] by simp_all
  ultimately show ?thesis
    using m by (simp add: valid_civil_def civil_of_seconds_def Let_def y_def[symmetric] yd_def[symmetric] m_def[symmetric])
qed

lemma civil_of_seconds_of_civil:
  assumes "valid_civil v"
  shows "civil_of_seconds (seconds_of_civil v) = v"
proof -
  obtain y m d h mi sec where v: "v = \<lparr>cv_Year = y, cv_Month = m, cv_Day = d, cv_Hour = h, cv_Minute = mi, cv_Second = sec\<rparr>"
    by (cases v)
  note ok = assms[unfolded valid_civil_def v, simplified]
  define D where "D = day_of_date y m d"
  define r where "r = 3600 * h + 60 * mi + sec"
  have r: "0 \<le> r" "r < 86400" using ok by (auto simp: r_def)
  have s: "seconds_of_civil v = 86400 * D + r"
    by (simp add: seconds_of_civil_def v D_def r_def)
  have day: "seconds_of_civil v div 86400 = D" "seconds_of_civil v mod 86400 = r"
    using r by (simp_all add: s)
  have ms: "0 \<le> month_start (leap_year y) m" "month_start (leap_year y) (m + 1) \<le> (if leap_year y then 366 else 365)"
    using month_cases[of m] ok by auto
  have yd: "D - year_start y = month_start (leap_year y) m + (d - 1)"
    by (simp add: D_def day_of_date_def)
  have next_month: "month_start (leap_year y) m + (d - 1) < month_start (leap_year y) (m + 1)"
    using ok month_start_step[of m y] by simp
  have "year_of_day D = y"
    by (rule year_of_day_unique) (use yd ms next_month ok year_start_step[of y] in \<open>auto split: if_split_asm\<close>)
  moreover have "month_of_yearday (leap_year y) (month_start (leap_year y) m + (d - 1)) = m"
    by (rule month_of_yearday_unique) (use ok next_month in auto)
  moreover have "r div 60 = 60 * h + mi" "r mod 60 = sec" "r div 3600 = h"
    using int_div_pos_eq[of r 60 "60 * h + mi" sec] int_mod_pos_eq[of r 60 "60 * h + mi" sec]
      int_div_pos_eq[of r 3600 h "60 * mi + sec"] ok by (simp_all add: r_def)
  ultimately show ?thesis
    unfolding civil_of_seconds_def Let_def day using ok by (simp add: yd v)
qed

lemma civil_of_seconds_inject [simp]: "civil_of_seconds s = civil_of_seconds t \<longleftrightarrow> s = t"
  by (metis seconds_of_civil_of_seconds)

lemma civil_of_utc_instant: "valid_civil v \<Longrightarrow> civil_of_instant (utc_instant v) = v"
  by (simp add: civil_of_instant_def utc_instant_def time_units civil_of_seconds_of_civil)

subsection \<open>Layouts\<close>

text \<open>Go pads a number with zeros to the width of its layout element and never cuts it.\<close>

definition pad_uint :: "nat \<Rightarrow> nat \<Rightarrow> string" where
  "pad_uint w n = replicate (w - length (format_uint n)) (CHR ''0'') @ format_uint n"

definition pad_int :: "nat \<Rightarrow> int \<Rightarrow> string" where
  "pad_int w n = (if n < 0 then CHR ''-'' # pad_uint w (nat (- n)) else pad_uint w (nat n))"

text \<open>The layouts \<open>2006-01-02\<close>, \<open>15:04\<close> and \<open>2006-01-02T15:04:05\<close>.\<close>

definition format_date :: "civil_time \<Rightarrow> string" where
  "format_date v = pad_int 4 (cv_Year v) @ ''-'' @ pad_int 2 (cv_Month v) @ ''-'' @ pad_int 2 (cv_Day v)"

definition format_minute :: "civil_time \<Rightarrow> string" where
  "format_minute v = pad_int 2 (cv_Hour v) @ '':'' @ pad_int 2 (cv_Minute v)"

definition format_civil :: "civil_time \<Rightarrow> string" where
  "format_civil v = format_date v @ ''T'' @ format_minute v @ '':'' @ pad_int 2 (cv_Second v)"

text \<open>
  \<open>time.Parse\<close> reads the elements of its layout from left to right.  The four digits of a year
  and the two of a month, day, minute and second are required; the hour may have one digit.
  A fraction after the seconds is accepted although the layout has none, and dropped by the
  fields the code reads.  The day is compared with the length of its month at the end.
\<close>

fun get_num :: "bool \<Rightarrow> string \<Rightarrow> (int \<times> string) option" where
  "get_num fixed [] = None"
| "get_num fixed [c] = (if is_digit c \<and> \<not> fixed then Some (int (digit_value c), []) else None)"
| "get_num fixed (c # d # s) =
     (if \<not> is_digit c then None
      else if is_digit d then Some (10 * int (digit_value c) + int (digit_value d), s)
      else if fixed then None else Some (int (digit_value c), d # s))"

definition get_range :: "bool \<Rightarrow> int \<Rightarrow> int \<Rightarrow> string \<Rightarrow> (int \<times> string) option" where
  "get_range fixed low high s = do {
     (n, r) \<leftarrow> get_num fixed s;
     if low \<le> n \<and> n \<le> high then Some (n, r) else None }"

definition get_year :: "string \<Rightarrow> (int \<times> string) option" where
  "get_year s = (if 4 \<le> length s \<and> list_all is_digit (take 4 s)
     then Some (int (digits_value (take 4 s)), drop 4 s) else None)"

definition skip_fraction :: "string \<Rightarrow> string" where
  "skip_fraction s = (case s of
      c # d # r \<Rightarrow> if (c = CHR ''.'' \<or> c = CHR '','') \<and> is_digit d then dropWhile is_digit r else s
    | _ \<Rightarrow> s)"

text \<open>A date and a clock with their separators.\<close>

definition get_date :: "string \<Rightarrow> string \<Rightarrow> ((int \<times> int \<times> int) \<times> string) option" where
  "get_date sep s = do {
     (y, s1) \<leftarrow> get_year s; s2 \<leftarrow> strip_prefix sep s1;
     (m, s3) \<leftarrow> get_range True 1 12 s2; s4 \<leftarrow> strip_prefix sep s3;
     (d, s5) \<leftarrow> get_num True s4; Some ((y, m, d), s5) }"

definition get_clock :: "string \<Rightarrow> string \<Rightarrow> ((int \<times> int \<times> int) \<times> string) option" where
  "get_clock sep s = do {
     (h, s1) \<leftarrow> get_range False 0 23 s; s2 \<leftarrow> strip_prefix sep s1;
     (mi, s3) \<leftarrow> get_range True 0 59 s2; s4 \<leftarrow> strip_prefix sep s3;
     (sec, s5) \<leftarrow> get_range True 0 59 s4; Some ((h, mi, sec), skip_fraction s5) }"

definition day_valid :: "int \<Rightarrow> int \<Rightarrow> int \<Rightarrow> bool" where
  "day_valid y m d \<longleftrightarrow> 1 \<le> d \<and> d \<le> days_in_month y m"

text \<open>\<open>2006-01-02\<close>, and the layouts with a clock: separators of date and clock, and a suffix.\<close>

definition parse_date :: "string \<Rightarrow> civil_time option" where
  "parse_date s = do {
     ((y, m, d), r) \<leftarrow> get_date ''-'' s;
     if r = [] \<and> day_valid y m d
     then Some \<lparr>cv_Year = y, cv_Month = m, cv_Day = d, cv_Hour = 0, cv_Minute = 0, cv_Second = 0\<rparr>
     else None }"

definition parse_layout :: "string \<Rightarrow> string \<Rightarrow> string \<Rightarrow> string \<Rightarrow> civil_time option" where
  "parse_layout dsep csep suffix s = do {
     ((y, m, d), s1) \<leftarrow> get_date dsep s; s2 \<leftarrow> strip_prefix ''T'' s1;
     ((h, mi, sec), s3) \<leftarrow> get_clock csep s2;
     if s3 = suffix \<and> day_valid y m d
     then Some \<lparr>cv_Year = y, cv_Month = m, cv_Day = d, cv_Hour = h, cv_Minute = mi, cv_Second = sec\<rparr>
     else None }"

abbreviation parse_civil :: "string \<Rightarrow> civil_time option" where
  "parse_civil \<equiv> parse_layout ''-'' '':'' []"

subsection \<open>RFC 3339\<close>

text \<open>
  \<open>time.RFC3339Nano\<close>: the fraction is printed without trailing zeros, and read up to nine digits;
  the offset is \<open>Z\<close> or a sign, hours up to 24 and minutes up to 60, as \<open>time.Parse\<close> allows.
\<close>

definition format_fraction :: "nat \<Rightarrow> string" where
  "format_fraction nanos = (if nanos = 0 then []
     else CHR ''.'' # rev (dropWhile (\<lambda>c. c = CHR ''0'') (rev (pad_uint 9 nanos))))"

definition format_rfc3339_utc :: "instant \<Rightarrow> string" where
  "format_rfc3339_utc t = format_civil (civil_of_instant t) @ format_fraction (nat (t mod time_Second)) @ ''Z''"

definition get_fraction :: "string \<Rightarrow> int \<times> string" where
  "get_fraction s = (case s of
      c # d # r \<Rightarrow> if (c = CHR ''.'' \<or> c = CHR '','') \<and> is_digit d
        then let ds = takeWhile is_digit (d # r) in
          (int (digits_value (take 9 (ds @ replicate 9 (CHR ''0'')))), dropWhile is_digit r)
        else (0, s)
    | _ \<Rightarrow> (0, s))"

definition get_offset :: "string \<Rightarrow> int option" where
  "get_offset s =
     (if s = ''Z'' then Some 0
      else if length s \<noteq> 6 \<or> s ! 3 \<noteq> CHR '':'' then None
      else case (get_range True 0 24 (take 2 (drop 1 s)), get_range True 0 60 (drop 4 s)) of
        (Some (h, _), Some (m, _)) \<Rightarrow>
          if hd s = CHR ''+'' then Some (3600 * h + 60 * m)
          else if hd s = CHR ''-'' then Some (- (3600 * h + 60 * m)) else None
      | _ \<Rightarrow> None)"

definition parse_rfc3339 :: "string \<Rightarrow> instant option" where
  "parse_rfc3339 s = do {
     ((y, m, d), s1) \<leftarrow> get_date ''-'' s; s2 \<leftarrow> strip_prefix ''T'' s1;
     (h, s3) \<leftarrow> get_range False 0 23 s2; s4 \<leftarrow> strip_prefix '':'' s3;
     (mi, s5) \<leftarrow> get_range True 0 59 s4; s6 \<leftarrow> strip_prefix '':'' s5;
     (sec, s7) \<leftarrow> get_range True 0 59 s6;
     let (nanos, s8) = get_fraction s7;
     offset \<leftarrow> get_offset s8;
     if day_valid y m d
     then Some (utc_instant \<lparr>cv_Year = y, cv_Month = m, cv_Day = d, cv_Hour = h, cv_Minute = mi, cv_Second = sec\<rparr> +
       nanos - offset * time_Second)
     else None }"

subsection \<open>Reading back what was printed\<close>

lemma length_format_uint: "0 < w \<Longrightarrow> n < 10 ^ w \<Longrightarrow> length (format_uint n) \<le> w"
proof (induction w arbitrary: n)
  case (Suc w)
  show ?case
  proof (cases "n < 10")
    case True
    then show ?thesis by (subst format_uint.simps) simp
  next
    case False
    with Suc.prems have "0 < w" "n div 10 < 10 ^ w" by (cases w; simp)+
    then have "length (format_uint (n div 10)) \<le> w" by (rule Suc.IH)
    with False show ?thesis by (subst format_uint.simps) simp
  qed
qed simp

lemma digits_value_zeros: "digits_value (replicate k (CHR ''0'') @ s) = digits_value s"
  by (induction k) (simp_all add: digits_value_def digit_value_def)

lemma pad_uint_digits: "list_all is_digit (pad_uint w n)"
  by (simp add: pad_uint_def format_uint_digits) (simp add: list_all_iff is_digit_def)

lemma pad_uint_value [simp]: "digits_value (pad_uint w n) = n"
  by (simp add: pad_uint_def digits_value_zeros)

lemma pad_uint_length: "0 < w \<Longrightarrow> n < 10 ^ w \<Longrightarrow> length (pad_uint w n) = w"
  using length_format_uint[of w n] by (simp add: pad_uint_def)

lemma pad_int_nonneg: "0 \<le> n \<Longrightarrow> pad_int w n = pad_uint w (nat n)"
  by (simp add: pad_int_def)

lemma pad_int_digits [simp]: "0 \<le> n \<Longrightarrow> list_all is_digit (pad_int w n)"
  by (simp add: pad_int_nonneg pad_uint_digits)

lemma pad_int_value [simp]: "0 \<le> n \<Longrightarrow> int (digits_value (pad_int w n)) = n"
  by (simp add: pad_int_nonneg)

lemma pad_int_length: "0 < w \<Longrightarrow> 0 \<le> n \<Longrightarrow> n < 10 ^ w \<Longrightarrow> length (pad_int w n) = w"
  by (simp add: pad_int_nonneg pad_uint_length nat_less_iff)

lemma get_num_pad: "0 \<le> n \<Longrightarrow> n < 100 \<Longrightarrow> get_num fixed (pad_int 2 n @ s) = Some (n, s)"
proof -
  assume n: "0 \<le> n" "n < 100"
  then have "length (pad_int 2 n) = 2" by (simp add: pad_int_length)
  then obtain c d where cd: "pad_int 2 n = [c, d]"
    by (auto simp: numeral_2_eq_2 length_Suc_conv)
  with pad_int_digits[of n 2] pad_int_value[of n 2] n show ?thesis
    by (simp add: digits_value_def)
qed

lemma get_range_pad:
  "0 \<le> n \<Longrightarrow> n < 100 \<Longrightarrow> low \<le> n \<Longrightarrow> n \<le> high \<Longrightarrow> get_range fixed low high (pad_int 2 n @ s) = Some (n, s)"
  by (simp add: get_range_def get_num_pad)

lemma get_year_pad: "0 \<le> n \<Longrightarrow> n < 10000 \<Longrightarrow> get_year (pad_int 4 n @ s) = Some (n, s)"
  using pad_int_length[of 4 n] by (simp add: get_year_def)

lemma strip_prefix_self [simp]: "strip_prefix p (p @ s) = Some s"
  by (simp add: strip_prefix_Some)

definition printable_civil :: "civil_time \<Rightarrow> bool" where
  "printable_civil v \<longleftrightarrow> valid_civil v \<and> 0 \<le> cv_Year v \<and> cv_Year v < 10000"

lemma printable_fields:
  assumes "printable_civil v"
  shows "0 \<le> cv_Year v" "cv_Year v < 10000" "1 \<le> cv_Month v" "cv_Month v \<le> 12"
    "1 \<le> cv_Day v" "cv_Day v < 100" "day_valid (cv_Year v) (cv_Month v) (cv_Day v)"
    "0 \<le> cv_Hour v" "cv_Hour v \<le> 23" "0 \<le> cv_Minute v" "cv_Minute v \<le> 59" "0 \<le> cv_Second v" "cv_Second v \<le> 59"
  using assms by (auto simp: printable_civil_def valid_civil_def day_valid_def days_in_month_def split: if_split_asm)

lemma get_date_format:
  assumes "printable_civil v"
  shows "get_date ''-'' (format_date v @ s) = Some ((cv_Year v, cv_Month v, cv_Day v), s)"
  using printable_fields[OF assms]
  by (simp add: get_date_def format_date_def get_year_pad get_range_pad get_num_pad
      strip_prefix_self[of "''-''", simplified])

lemma skip_fraction_suffix: "list_all (\<lambda>c. c \<noteq> CHR ''.'' \<and> c \<noteq> CHR '','') s \<Longrightarrow> skip_fraction s = s"
  by (auto simp: skip_fraction_def split: list.splits)

lemma get_clock_format:
  assumes "printable_civil v" and "list_all (\<lambda>c. c \<noteq> CHR ''.'' \<and> c \<noteq> CHR '','') s"
  shows "get_clock '':'' (format_minute v @ '':'' @ pad_int 2 (cv_Second v) @ s) =
    Some ((cv_Hour v, cv_Minute v, cv_Second v), s)"
  using printable_fields[OF assms(1)] assms(2)
  by (simp add: get_clock_def format_minute_def get_range_pad skip_fraction_suffix
      strip_prefix_self[of "'':''", simplified])

lemma parse_format_civil: "printable_civil v \<Longrightarrow> parse_civil (format_civil v) = Some v"
  using get_clock_format[of v "[]"] printable_fields(7)[of v]
  by (simp add: parse_layout_def format_civil_def get_date_format strip_prefix_self[of "''T''", simplified])

subsection \<open>Locations\<close>

type_synonym location = "instant \<Rightarrow> int"

text \<open>The clock fields of an instant in a location (\<open>t.In(loc)\<close>).\<close>

definition civil_in :: "location \<Rightarrow> instant \<Rightarrow> civil_time" where
  "civil_in loc t = civil_of_seconds (t div time_Second + loc t)"

text \<open>
  \<open>time.Date(..., loc)\<close> guesses the offset in force at the fields read as UTC, and takes the
  offset in force at that guess.  \<open>AddDate(0, 0, n)\<close> adds days to the fields.
\<close>

definition date_in :: "location \<Rightarrow> instant \<Rightarrow> instant" where
  "date_in loc wall = wall - loc (wall - loc wall * time_Second) * time_Second"

definition add_days :: "location \<Rightarrow> int \<Rightarrow> instant \<Rightarrow> instant" where
  "add_days loc n t = date_in loc (t + (loc t + 86400 * n) * time_Second)"

abbreviation utc_location :: location where
  "utc_location \<equiv> \<lambda>_. 0"

lemma civil_in_valid [simp]: "valid_civil (civil_in loc t)"
  by (simp add: civil_in_def civil_of_seconds_valid)

lemma civil_in_eq:
  assumes "valid_civil v"
  shows "civil_in loc t = v \<longleftrightarrow> t div time_Second + loc t = seconds_of_civil v"
  using civil_of_seconds_of_civil[OF assms] civil_of_seconds_inject[of _ "seconds_of_civil v"]
  by (simp add: civil_in_def)

lemma civil_in_whole:
  assumes "valid_civil v" and "t mod time_Second = 0"
  shows "civil_in loc t = v \<longleftrightarrow> t = utc_instant v - loc t * time_Second"
proof -
  have "t = t div time_Second * time_Second" using assms(2) by (simp add: minus_mod_eq_div_mult[symmetric])
  then have "t = utc_instant v - loc t * time_Second \<longleftrightarrow>
      (t div time_Second) * time_Second = (seconds_of_civil v - loc t) * time_Second"
    by (simp add: utc_instant_def left_diff_distrib)
  then show ?thesis
    unfolding civil_in_eq[OF assms(1)] by (auto simp: time_units)
qed

text \<open>
  The zones of the IANA database: an offset is less than a day and stays in force for six hours
  at least.
\<close>

definition steady_location :: "location \<Rightarrow> bool" where
  "steady_location loc \<longleftrightarrow>
     (\<forall>t. \<bar>loc t\<bar> < 86400) \<and>
     (\<forall>t. \<exists>a. a \<le> t \<and> t < a + 6 * time_Hour \<and> (\<forall>u. a \<le> u \<and> u < a + 6 * time_Hour \<longrightarrow> loc u = loc t))"

lemma steady_constant: "\<bar>c\<bar> < 86400 \<Longrightarrow> steady_location (\<lambda>_. c)"
  by (auto simp: steady_location_def time_units)

lemma steady_change:
  assumes "\<bar>c\<bar> < 86400" and "\<bar>d\<bar> < 86400"
  shows "steady_location (\<lambda>t. if t < T then c else d)"
proof -
  have "\<exists>a. a \<le> t \<and> t < a + 6 * time_Hour \<and>
      (\<forall>u. a \<le> u \<and> u < a + 6 * time_Hour \<longrightarrow> (if u < T then c else d) = (if t < T then c else d))" for t
    by (rule exI[of _ "if t < T then t - 6 * time_Hour + 1 else t"]) (auto simp: time_units)
  then show ?thesis using assms by (simp add: steady_location_def)
qed

end
