(* ===== verification/Calendar_Civil.thy ===== *)
theory Calendar_Civil imports Go_Calendar begin

section \<open>Civil times in a zone (internal/spikes/calendarrecurrence/civil.go)\<close>

text \<open>
  A civil time is the wall clock of a place; a change of its offset skips some civil times and
  repeats others.  The code finds the instants of a civil time by sampling the offsets around
  it and keeping the candidates that read back as the civil time.  The calendar module has the
  same search for its availability slots (modules/calendar/availability.go).
\<close>

datatype recurrence_error =
    ErrInvalidSeries | ErrInvalidRule | ErrUnsupportedRule | ErrInvalidWindow | ErrOccurrenceLimit
  | ErrIterationLimit | ErrExecutionBudget | ErrNonexistentCivilTime | ErrAmbiguousCivilTime
  | ErrInvalidOverlapPolicy | ErrSeriesHorizonExceeded | ErrCandidateIteratorFault
  | ErrContextCanceled | InvalidSeriesCause recurrence_error

text \<open>\<open>errors.Is\<close> for an error that wraps \<open>ErrInvalidSeries\<close> and a cause.\<close>

fun errors_Is :: "recurrence_error \<Rightarrow> recurrence_error \<Rightarrow> bool" where
  "errors_Is (InvalidSeriesCause e) target = (target = ErrInvalidSeries \<or> errors_Is e target)"
| "errors_Is e target = (e = target)"

datatype overlap_policy = OverlapReject | OverlapEarlier | OverlapLater | OverlapOther string

subsection \<open>The instants of a civil time\<close>

definition sample_hours :: "int list" where
  "sample_hours = [-48, -42, -36, -30, -24, -18, -12, -6, 0, 6, 12, 18, 24, 30, 36, 42, 48]"

definition sampled_offsets :: "location \<Rightarrow> instant \<Rightarrow> int list" where
  "sampled_offsets loc wall = remdups (map (\<lambda>h. loc (wall + h * time_Hour)) sample_hours)"

definition reads_as :: "location \<Rightarrow> civil_time \<Rightarrow> instant \<Rightarrow> bool" where
  "reads_as loc v candidate \<longleftrightarrow> civil_in loc candidate = v"

definition civilCandidates :: "civil_time \<Rightarrow> location \<Rightarrow> instant list" where
  "civilCandidates v loc =
     (let wall = utc_instant v in
      sort (filter (reads_as loc v)
        (map (\<lambda>offset. wall - offset * time_Second) (sampled_offsets loc wall))))"

definition resolveCivil :: "civil_time \<Rightarrow> location \<Rightarrow> overlap_policy \<Rightarrow> recurrence_error + instant" where
  "resolveCivil v loc policy = (case civilCandidates v loc of
      [] \<Rightarrow> Inl ErrNonexistentCivilTime
    | [t] \<Rightarrow> Inr t
    | [s, t] \<Rightarrow> (case policy of OverlapEarlier \<Rightarrow> Inr s | OverlapLater \<Rightarrow> Inr t
        | _ \<Rightarrow> Inl ErrAmbiguousCivilTime)
    | _ \<Rightarrow> Inl ErrInvalidSeries)"

subsection \<open>The search finds all of them\<close>

lemma utc_instant_whole [simp]: "utc_instant v mod time_Second = 0"
  by (simp add: utc_instant_def)

lemma sampled_all:
  assumes "steady_location loc" and "\<bar>t - wall\<bar> \<le> 24 * time_Hour"
  shows "loc t \<in> set (sampled_offsets loc wall)"
proof -
  obtain a where a: "a \<le> t" "t < a + 6 * time_Hour"
    and same: "\<And>u. a \<le> u \<Longrightarrow> u < a + 6 * time_Hour \<Longrightarrow> loc u = loc t"
    using assms(1) unfolding steady_location_def by meson
  define k where "k = - ((wall - a) div (6 * time_Hour))"
  have b: "a \<le> wall + 6 * k * time_Hour" "wall + 6 * k * time_Hour < a + 6 * time_Hour"
    using minus_mod_eq_mult_div[of "wall - a" "6 * time_Hour"] pos_mod_bound[of "6 * time_Hour" "wall - a"]
      pos_mod_sign[of "6 * time_Hour" "wall - a"] by (simp_all add: k_def time_units)
  have "- 8 \<le> k" "k \<le> 8" using b a assms(2) by (simp_all add: time_units)
  then have "6 * k \<in> set sample_hours"
    by (simp add: sample_hours_def) presburger
  then show ?thesis
    using same[OF b] by (force simp: sampled_offsets_def)
qed

lemma civilCandidates_exact:
  assumes "steady_location loc" and "valid_civil v"
  shows "set (civilCandidates v loc) = {t. t mod time_Second = 0 \<and> civil_in loc t = v}"
    and "sorted (civilCandidates v loc)" and "distinct (civilCandidates v loc)"
proof -
  have whole: "(utc_instant v - offset * time_Second) mod time_Second = 0" for offset
    by (simp add: utc_instant_def left_diff_distrib[symmetric])
  have found: "t \<in> set (civilCandidates v loc)" if t: "t mod time_Second = 0" "civil_in loc t = v" for t
  proof -
    have e: "t = utc_instant v - loc t * time_Second"
      using civil_in_whole[OF assms(2) t(1)] t(2) by simp
    have "\<bar>loc t\<bar> < 86400" using assms(1) by (simp add: steady_location_def)
    then have "\<bar>t - utc_instant v\<bar> \<le> 24 * time_Hour" using e by (simp add: time_units)
    then have "loc t \<in> set (sampled_offsets loc (utc_instant v))" by (rule sampled_all[OF assms(1)])
    with e t(2) show ?thesis by (auto simp: civilCandidates_def reads_as_def Let_def)
  qed
  show "set (civilCandidates v loc) = {t. t mod time_Second = 0 \<and> civil_in loc t = v}"
  proof (intro equalityI subsetI)
    fix t assume "t \<in> set (civilCandidates v loc)"
    then obtain offset where "t = utc_instant v - offset * time_Second" "civil_in loc t = v"
      by (auto simp: civilCandidates_def reads_as_def Let_def)
    with whole[of offset] show "t \<in> {t. t mod time_Second = 0 \<and> civil_in loc t = v}" by simp
  qed (use found in simp)
  show "sorted (civilCandidates v loc)" by (simp add: civilCandidates_def reads_as_def Let_def)
  show "distinct (civilCandidates v loc)"
    by (simp add: civilCandidates_def reads_as_def Let_def sampled_offsets_def distinct_map inj_on_def time_units)
qed

text \<open>A place whose clocks go back from 03:00 to 02:00 on 2026-10-25.\<close>

definition autumn_location :: location where
  "autumn_location t = (if t < 63928486800 * time_Second then 7200 else 3600)"

lemma autumn_steady: "steady_location autumn_location"
  using steady_change[of 7200 3600 "63928486800 * time_Second"] unfolding autumn_location_def by simp

end
