(* ===== verification/Calendar_Scheduling.thy ===== *)
theory Calendar_Scheduling imports Calendar_Civil Go_Encoding begin

section \<open>Scheduling requests (modules/calendar/scheduling_service.go, service.go)\<close>

text \<open>
  The normalisation of working schedules, of availability queries and of display preferences,
  before they reach the repository.  \<open>tz\<close> is \<open>time.LoadLocation\<close> and \<open>uuid_Parse\<close> the function of
  the uuid package; both are parameters.
\<close>

datatype scheduling_error =
    ErrInvalidInput | ErrInvalidRange | ErrSchedulingUnavailable | ErrAvailabilityCapacity
  | AvailabilityDeadline | AvailabilityCanceled

record clock_interval =
  iv_StartsAt :: string
  iv_EndsAt :: string

record weekly_interval =
  wi_Weekday :: string
  wi_Interval :: clock_interval

record schedule_exception =
  se_Date :: string
  se_Kind :: string
  se_Intervals :: "clock_interval list"

record working_schedule_input =
  ws_Timezone :: string
  ws_Weekly :: "weekly_interval list"
  ws_Exceptions :: "schedule_exception list"
  ws_ExpectedVersion :: int

definition MaximumAvailabilityRangeDays :: int where "MaximumAvailabilityRangeDays = 31"
definition MaximumAvailabilityPeople :: nat where "MaximumAvailabilityPeople = 50"
definition MaximumAvailabilityStarts :: nat where "MaximumAvailabilityStarts = 2000"
definition MaximumSuggestedCandidates :: int where "MaximumSuggestedCandidates = 20"
definition MaximumWorkingIntervalsDay :: nat where "MaximumWorkingIntervalsDay = 8"
definition MaximumWorkingExceptions :: nat where "MaximumWorkingExceptions = 366"

definition calendarWeekdayOrder :: "string \<Rightarrow> nat option" where
  "calendarWeekdayOrder = map_of [(''monday'', 1), (''tuesday'', 2), (''wednesday'', 3), (''thursday'', 4),
     (''friday'', 5), (''saturday'', 6), (''sunday'', 7)]"

definition normalizeTimezone :: "(string \<Rightarrow> location option) \<Rightarrow> string \<Rightarrow> scheduling_error + string" where
  "normalizeTimezone tz v0 =
     (let v = trim_space v0 in
      if v = [] \<or> length v > 100 \<or> equal_fold_local v then Inl ErrInvalidInput
      else if tz v = None then Inl ErrInvalidInput else Inr v)"

subsection \<open>Clock intervals\<close>

definition parseCivilMinute :: "string \<Rightarrow> scheduling_error + string \<times> int" where
  "parseCivilMinute v =
     (case split_on (CHR '':'') (trim_space v) of
        [h, m] \<Rightarrow> (case (atoi h, atoi m) of
            (Some hour, Some minute) \<Rightarrow>
              if hour < 0 \<or> hour > 23 \<or> minute < 0 \<or> minute > 59 then Inl ErrInvalidInput
              else Inr (pad_int 2 hour @ '':'' @ pad_int 2 minute, hour * 60 + minute)
          | _ \<Rightarrow> Inl ErrInvalidInput)
      | _ \<Rightarrow> Inl ErrInvalidInput)"

definition normalizeCivilInterval :: "clock_interval \<Rightarrow> scheduling_error + clock_interval" where
  "normalizeCivilInterval i =
     try_res (parseCivilMinute (iv_StartsAt i)) (\<lambda>(start, startMinute).
     try_res (parseCivilMinute (iv_EndsAt i)) (\<lambda>(end, endMinute).
       if endMinute \<le> startMinute then Inl ErrInvalidInput
       else Inr \<lparr>iv_StartsAt = start, iv_EndsAt = end\<rparr>))"

fun adjacent_overlap :: "clock_interval list \<Rightarrow> bool" where
  "adjacent_overlap (a # b # r) = (iv_StartsAt b < iv_EndsAt a \<or> adjacent_overlap (b # r))"
| "adjacent_overlap _ = False"

definition hasSimpleCivilOverlap :: "clock_interval list \<Rightarrow> bool" where
  "hasSimpleCivilOverlap intervals = adjacent_overlap (sort_key iv_StartsAt intervals)"

definition hasCivilOverlap :: "weekly_interval list \<Rightarrow> bool" where
  "hasCivilOverlap intervals = hasSimpleCivilOverlap (map wi_Interval intervals)"

subsection \<open>Working schedules\<close>

definition normalizeWeekly :: "weekly_interval \<Rightarrow> scheduling_error + weekly_interval" where
  "normalizeWeekly w =
     (let day = to_lower (trim_space (wi_Weekday w)) in
      if calendarWeekdayOrder day = None then Inl ErrInvalidInput
      else try_res (normalizeCivilInterval (wi_Interval w)) (\<lambda>i. Inr \<lparr>wi_Weekday = day, wi_Interval = i\<rparr>))"

definition weekday_number :: "string \<Rightarrow> nat" where
  "weekday_number day = (case calendarWeekdayOrder day of None \<Rightarrow> 0 | Some n \<Rightarrow> n)"

definition day_refused :: "weekly_interval list \<Rightarrow> string \<Rightarrow> bool" where
  "day_refused weekly day =
     (let intervals = filter (\<lambda>w. wi_Weekday w = day) weekly in
      length intervals > MaximumWorkingIntervalsDay \<or> hasCivilOverlap intervals)"

definition normalizeWeeklyIntervals :: "weekly_interval list \<Rightarrow> scheduling_error + weekly_interval list" where
  "normalizeWeeklyIntervals intervals =
     try_res (map_res normalizeWeekly intervals) (\<lambda>weekly.
       if list_ex (day_refused weekly) (map wi_Weekday weekly) then Inl ErrInvalidInput
       else Inr (sort_key (\<lambda>w. (weekday_number (wi_Weekday w), iv_StartsAt (wi_Interval w))) weekly))"

text \<open>An exception's date in the window of the request, its kind and its intervals.\<close>

definition normalizeSpecialHours :: "clock_interval list \<Rightarrow> scheduling_error + clock_interval list" where
  "normalizeSpecialHours intervals =
     (if intervals = [] \<or> length intervals > MaximumWorkingIntervalsDay then Inl ErrInvalidInput
      else try_res (map_res normalizeCivilInterval intervals) (\<lambda>normalized.
        if hasSimpleCivilOverlap normalized then Inl ErrInvalidInput else Inr normalized))"

definition normalizeException ::
  "instant \<Rightarrow> instant \<Rightarrow> schedule_exception list \<Rightarrow> schedule_exception \<Rightarrow> scheduling_error + schedule_exception list" where
  "normalizeException minimumDate maximumDate seen e =
     (let kind = to_lower (trim_space (se_Kind e)) in
      case parse_date (trim_space (se_Date e)) of
        None \<Rightarrow> Inl ErrInvalidInput
      | Some v \<Rightarrow>
          let date = format_date v;
              add = (\<lambda>intervals. Inr (seen @ [\<lparr>se_Date = date, se_Kind = kind, se_Intervals = intervals\<rparr>])) in
          if utc_instant v < minimumDate \<or> utc_instant v > maximumDate then Inl ErrInvalidInput
          else if date \<in> se_Date ` set seen then Inl ErrInvalidInput
          else if kind = ''holiday'' \<or> kind = ''out_of_office''
            then (if se_Intervals e \<noteq> [] then Inl ErrInvalidInput else add [])
          else if kind = ''special_hours'' then try_res (normalizeSpecialHours (se_Intervals e)) add
          else Inl ErrInvalidInput)"

definition day_floor :: "instant \<Rightarrow> instant" where
  "day_floor t = (case parse_date (format_date (civil_of_instant t)) of Some v \<Rightarrow> utc_instant v | None \<Rightarrow> zero_time)"

definition normalizeWorkingScheduleInput ::
  "(string \<Rightarrow> location option) \<Rightarrow> working_schedule_input \<Rightarrow> instant \<Rightarrow> scheduling_error + working_schedule_input" where
  "normalizeWorkingScheduleInput tz input now =
     (if ws_ExpectedVersion input < 0 then Inl ErrInvalidInput
      else
        try_res (normalizeTimezone tz (ws_Timezone input)) (\<lambda>zone.
        if length (ws_Weekly input) > 7 * MaximumWorkingIntervalsDay \<or>
           length (ws_Exceptions input) > MaximumWorkingExceptions then Inl ErrInvalidInput
        else
          try_res (normalizeWeeklyIntervals (ws_Weekly input)) (\<lambda>weekly.
          let minimumDate = add_days utc_location (-31) (day_floor now);
              maximumDate = add_days utc_location 761 minimumDate in
          try_res (fold_res (normalizeException minimumDate maximumDate) [] (ws_Exceptions input)) (\<lambda>exceptions.
            Inr \<lparr>ws_Timezone = zone, ws_Weekly = weekly, ws_Exceptions = sort_key se_Date exceptions,
              ws_ExpectedVersion = ws_ExpectedVersion input\<rparr>))))"

subsection \<open>Availability queries\<close>

record participant_reference =
  pr_Kind :: string
  pr_ID :: string

record scheduling_participant =
  sg_Reference :: participant_reference
  sg_ID :: uuid
  sg_Role :: string

record availability_input =
  ai_ClassID :: string
  ai_From :: string
  ai_To :: string
  ai_Timezone :: string
  ai_DurationMinutes :: int
  ai_StepMinutes :: int
  ai_MaxCandidates :: int
  ai_Required :: "participant_reference list"
  ai_Optional :: "participant_reference list"

record availability_params =
  ap_ClassID :: uuid
  ap_From :: instant
  ap_To :: instant
  ap_Timezone :: string
  ap_Duration :: duration
  ap_Step :: duration
  ap_MaxCandidates :: int
  ap_Participants :: "scheduling_participant list"

definition reference_key :: "participant_reference \<Rightarrow> string" where
  "reference_key r = pr_Kind r @ '':'' @ pr_ID r"

definition append_participant ::
  "(string \<Rightarrow> uuid option) \<Rightarrow> string \<Rightarrow> scheduling_participant list \<Rightarrow> participant_reference \<Rightarrow>
   scheduling_error + scheduling_participant list" where
  "append_participant uuid_Parse role participants r =
     (let kind = to_lower (trim_space (pr_Kind r)) in
      if kind \<noteq> ''internal_user'' \<and> kind \<noteq> ''external_guest'' then Inl ErrInvalidInput
      else case uuid_Parse (trim_space (pr_ID r)) of
        None \<Rightarrow> Inl ErrInvalidInput
      | Some i \<Rightarrow>
          let normal = \<lparr>pr_Kind = kind, pr_ID = uuid_String i\<rparr> in
          if i = uuid_Nil then Inl ErrInvalidInput
          else if reference_key normal \<in> (reference_key \<circ> sg_Reference) ` set participants then Inl ErrInvalidInput
          else Inr (participants @ [\<lparr>sg_Reference = normal, sg_ID = i, sg_Role = role\<rparr>]))"

definition normalizeAvailabilityInput ::
  "(string \<Rightarrow> location option) \<Rightarrow> (string \<Rightarrow> uuid option) \<Rightarrow> availability_input \<Rightarrow>
   scheduling_error + availability_params" where
  "normalizeAvailabilityInput tz uuid_Parse input =
     (case uuid_Parse (trim_space (ai_ClassID input)) of None \<Rightarrow> Inl ErrInvalidInput | Some classID \<Rightarrow>
      if classID = uuid_Nil then Inl ErrInvalidInput
      else case parse_rfc3339 (trim_space (ai_From input)) of None \<Rightarrow> Inl ErrInvalidRange | Some from_at \<Rightarrow>
      case parse_rfc3339 (trim_space (ai_To input)) of None \<Rightarrow> Inl ErrInvalidRange | Some to_at \<Rightarrow>
      try_res (normalizeTimezone tz (ai_Timezone input)) (\<lambda>zone.
      case tz zone of None \<Rightarrow> Inl ErrInvalidInput | Some loc \<Rightarrow>
      let maxCandidates = (if ai_MaxCandidates input = 0 then 10 else ai_MaxCandidates input);
          people = length (ai_Required input) + length (ai_Optional input) in
      if \<not> to_at > from_at \<or> to_at > add_days loc MaximumAvailabilityRangeDays from_at then Inl ErrInvalidRange
      else if ai_DurationMinutes input < 15 \<or> ai_DurationMinutes input > 480 \<or>
        ai_StepMinutes input \<notin> {15, 30, 60} then Inl ErrInvalidInput
      else if maxCandidates < 1 \<or> maxCandidates > MaximumSuggestedCandidates then Inl ErrInvalidInput
      else if people = 0 \<or> people > MaximumAvailabilityPeople then Inl ErrInvalidInput
      else
        try_res (fold_res (append_participant uuid_Parse ''required'') [] (ai_Required input)) (\<lambda>required.
        try_res (fold_res (append_participant uuid_Parse ''optional'') required (ai_Optional input)) (\<lambda>participants.
          Inr \<lparr>ap_ClassID = classID, ap_From = from_at, ap_To = to_at, ap_Timezone = zone,
            ap_Duration = ai_DurationMinutes input * time_Minute, ap_Step = ai_StepMinutes input * time_Minute,
            ap_MaxCandidates = maxCandidates, ap_Participants = participants\<rparr>))))"

subsection \<open>Display preferences (service.go)\<close>

record preference_input =
  dp_ViewerTimezone :: string
  dp_Locale :: string
  dp_TimeFormat :: string
  dp_WeekStart :: string
  dp_DefaultView :: string
  dp_Density :: string
  dp_TimeScaleMinutes :: int
  dp_SecondaryTimezone :: "string option"
  dp_ExpectedVersion :: int

definition normalizePreferenceInput ::
  "(string \<Rightarrow> location option) \<Rightarrow> preference_input \<Rightarrow> scheduling_error + preference_input" where
  "normalizePreferenceInput tz i0 =
     (if dp_ExpectedVersion i0 < 0 then Inl ErrInvalidInput
      else try_res (normalizeTimezone tz (dp_ViewerTimezone i0)) (\<lambda>viewer.
        let i = i0\<lparr>dp_ViewerTimezone := viewer, dp_Locale := trim_space (dp_Locale i0),
              dp_TimeFormat := trim_space (dp_TimeFormat i0), dp_WeekStart := trim_space (dp_WeekStart i0),
              dp_DefaultView := trim_space (dp_DefaultView i0), dp_Density := trim_space (dp_Density i0)\<rparr> in
        if dp_Locale i \<notin> {''vi-VN'', ''en-US''} \<or> dp_TimeFormat i \<notin> {''12h'', ''24h''} \<or>
           dp_WeekStart i \<notin> {''monday'', ''sunday''} \<or>
           dp_DefaultView i \<notin> {''day'', ''work_week'', ''week'', ''month'', ''agenda''} \<or>
           dp_Density i \<notin> {''comfortable'', ''compact''} \<or> dp_TimeScaleMinutes i \<notin> {15, 30, 60}
        then Inl ErrInvalidInput
        else case dp_SecondaryTimezone i of
          None \<Rightarrow> Inr i
        | Some z \<Rightarrow> (case normalizeTimezone tz z of
              Inl _ \<Rightarrow> Inl ErrInvalidInput
            | Inr secondary \<Rightarrow> if secondary = viewer then Inl ErrInvalidInput
                else Inr (i\<lparr>dp_SecondaryTimezone := Some secondary\<rparr>))))"

end
