(* ===== verification/Calendar_Availability.thy ===== *)
theory Calendar_Availability imports Calendar_Scheduling begin

section \<open>Suggested times (modules/calendar/availability.go)\<close>

text \<open>
  The civil grid of possible starts in the zone of the query, the score of a slot over the
  participants' calendars, and the suggestions, best first.  A map of Go is a list here, since
  its iteration order does not reach the result.
\<close>

datatype availability_status = Free | Tentative | Unknown | Busy | OutOfOffice | StatusOther string

record status_interval =
  si_StartsAt :: instant
  si_EndsAt :: instant
  si_Status :: availability_status

record working_interval =
  wk_StartsAt :: instant
  wk_EndsAt :: instant

record availability_source =
  av_Participant :: scheduling_participant
  av_Intervals :: "status_interval list"
  av_Working :: "working_interval list"
  av_Unknown :: bool

record reason_breakdown =
  RequiredOutOfOffice :: int
  RequiredBusy :: int
  RequiredUnknown :: int
  RequiredTentative :: int
  RequiredOutsideWorking :: int
  OptionalOutOfOffice :: int
  OptionalBusy :: int
  OptionalUnknown :: int
  OptionalTentative :: int
  OptionalOutsideWorking :: int

record suggested_time =
  st_StartsAt :: instant
  st_EndsAt :: instant
  st_SlotKey :: string
  st_Breakdown :: reason_breakdown

record participant_availability =
  pt_Participant :: participant_reference
  pt_Role :: string
  pt_Intervals :: "status_interval list"
  pt_Working :: "working_interval list"

record availability_result =
  ar_Timezone :: string
  ar_Participants :: "participant_availability list"
  ar_Suggestions :: "suggested_time list"
  ar_EmptyReason :: "string option"

subsection \<open>Possible starts\<close>

text \<open>The instants whose fields in the location are those of \<open>civil\<close>, read as UTC.\<close>

definition resolveCivilInstants :: "location \<Rightarrow> instant \<Rightarrow> instant list" where
  "resolveCivilInstants loc civil =
     sort (filter (reads_as loc (civil_of_instant civil))
       (map (\<lambda>offset. civil - offset * time_Second) (sampled_offsets loc civil)))"

definition civilDateAfterInstant :: "instant \<Rightarrow> instant \<Rightarrow> location \<Rightarrow> bool" where
  "civilDateAfterInstant civil t loc =
     (let limit = civil_in loc t; v = civil_of_instant civil in
      format_date v > format_date limit \<or>
      (format_date v = format_date limit \<and> format_minute v > format_minute limit))"

definition add_start :: "availability_params \<Rightarrow> instant list \<Rightarrow> instant \<Rightarrow> scheduling_error + instant list" where
  "add_start p starts start =
     (if start < ap_From p \<or> start + ap_Duration p > ap_To p then Inr starts
      else if length starts \<ge> MaximumAvailabilityStarts then Inl ErrAvailabilityCapacity
      else Inr (starts @ [start]))"

text \<open>The first step of the grid at or after the local minute of \<open>From\<close>.\<close>

definition first_civil :: "location \<Rightarrow> availability_params \<Rightarrow> instant" where
  "first_civil loc p =
     (let local = civil_in loc (ap_From p); stepMinutes = go_quot (ap_Step p) time_Minute;
          nextMinute = go_quot (cv_Minute local + stepMinutes - 1) stepMinutes * stepMinutes in
      utc_instant (local\<lparr>cv_Minute := 0, cv_Second := 0\<rparr>) + nextMinute * time_Minute)"

text \<open>
  The loop walks the civil grid; it has no bound of its own.  \<open>ctx\<close> is what the n-th look at the
  context finds.
\<close>

partial_function (option) civil_starts ::
  "(nat \<Rightarrow> scheduling_error option) \<Rightarrow> location \<Rightarrow> availability_params \<Rightarrow> nat \<Rightarrow> instant \<Rightarrow> instant list \<Rightarrow>
   (scheduling_error + instant list) option" where
  "civil_starts ctx loc p i civil starts =
     (case ctx i of Some e \<Rightarrow> Some (Inl e) | None \<Rightarrow>
      (case fold_res (add_start p) starts (resolveCivilInstants loc civil) of
         Inl e \<Rightarrow> Some (Inl e)
       | Inr found \<Rightarrow>
           if civilDateAfterInstant (civil + ap_Step p) (ap_To p) loc then Some (Inr found)
           else civil_starts ctx loc p (Suc i) (civil + ap_Step p) found))"

definition availabilityCivilStarts ::
  "(string \<Rightarrow> location option) \<Rightarrow> (nat \<Rightarrow> scheduling_error option) \<Rightarrow> availability_params \<Rightarrow>
   (scheduling_error + instant list) option" where
  "availabilityCivilStarts tz ctx p = (case tz (ap_Timezone p) of
      None \<Rightarrow> Some (Inl ErrInvalidInput)
    | Some loc \<Rightarrow> map_option (\<lambda>r. try_res r (\<lambda>starts. Inr (sort starts)))
        (civil_starts ctx loc p 0 (first_civil loc p) []))"

subsection \<open>Scores\<close>

definition isAvailabilityStatus :: "availability_status \<Rightarrow> bool" where
  "isAvailabilityStatus s \<longleftrightarrow> s \<in> {Free, Tentative, Unknown, Busy, OutOfOffice}"

definition availabilityStatusRank :: "availability_status \<Rightarrow> nat" where
  "availabilityStatusRank s = (case s of Tentative \<Rightarrow> 1 | Unknown \<Rightarrow> 2 | Busy \<Rightarrow> 3 | OutOfOffice \<Rightarrow> 4 | _ \<Rightarrow> 0)"

definition worse_status :: "instant \<Rightarrow> instant \<Rightarrow> availability_status \<times> nat \<Rightarrow> status_interval \<Rightarrow> availability_status \<times> nat" where
  "worse_status start end worst interval =
     (if \<not> si_StartsAt interval < end \<or> \<not> start < si_EndsAt interval then worst
      else if availabilityStatusRank (si_Status interval) > snd worst
        then (si_Status interval, availabilityStatusRank (si_Status interval)) else worst)"

definition worstAvailabilityStatus :: "instant \<Rightarrow> instant \<Rightarrow> status_interval list \<Rightarrow> availability_status" where
  "worstAvailabilityStatus start end intervals = fst (foldl (worse_status start end) (Free, 0) intervals)"

definition coveredByWorkingInterval :: "instant \<Rightarrow> instant \<Rightarrow> working_interval list \<Rightarrow> bool" where
  "coveredByWorkingInterval start end intervals \<longleftrightarrow>
     list_ex (\<lambda>i. \<not> start < wk_StartsAt i \<and> \<not> end > wk_EndsAt i) intervals"

definition count_status :: "bool \<Rightarrow> availability_status \<Rightarrow> reason_breakdown \<Rightarrow> reason_breakdown" where
  "count_status required s r =
     (if required then (case s of
         OutOfOffice \<Rightarrow> r\<lparr>RequiredOutOfOffice := RequiredOutOfOffice r + 1\<rparr>
       | Busy \<Rightarrow> r\<lparr>RequiredBusy := RequiredBusy r + 1\<rparr>
       | Unknown \<Rightarrow> r\<lparr>RequiredUnknown := RequiredUnknown r + 1\<rparr>
       | Tentative \<Rightarrow> r\<lparr>RequiredTentative := RequiredTentative r + 1\<rparr>
       | _ \<Rightarrow> r)
      else (case s of
         OutOfOffice \<Rightarrow> r\<lparr>OptionalOutOfOffice := OptionalOutOfOffice r + 1\<rparr>
       | Busy \<Rightarrow> r\<lparr>OptionalBusy := OptionalBusy r + 1\<rparr>
       | Unknown \<Rightarrow> r\<lparr>OptionalUnknown := OptionalUnknown r + 1\<rparr>
       | Tentative \<Rightarrow> r\<lparr>OptionalTentative := OptionalTentative r + 1\<rparr>
       | _ \<Rightarrow> r))"

definition count_outside :: "bool \<Rightarrow> reason_breakdown \<Rightarrow> reason_breakdown" where
  "count_outside required r =
     (if required then r\<lparr>RequiredOutsideWorking := RequiredOutsideWorking r + 1\<rparr>
      else r\<lparr>OptionalOutsideWorking := OptionalOutsideWorking r + 1\<rparr>)"

definition no_reasons :: reason_breakdown where
  "no_reasons = \<lparr>RequiredOutOfOffice = 0, RequiredBusy = 0, RequiredUnknown = 0, RequiredTentative = 0,
     RequiredOutsideWorking = 0, OptionalOutOfOffice = 0, OptionalBusy = 0, OptionalUnknown = 0,
     OptionalTentative = 0, OptionalOutsideWorking = 0\<rparr>"

definition score_source :: "instant \<Rightarrow> instant \<Rightarrow> reason_breakdown \<Rightarrow> availability_source \<Rightarrow> reason_breakdown" where
  "score_source start end r source =
     (let required = (sg_Role (av_Participant source) = ''required'');
          counted = count_status required (worstAvailabilityStatus start end (av_Intervals source)) r in
      if coveredByWorkingInterval start end (av_Working source) then counted else count_outside required counted)"

definition scoreAvailabilitySlot :: "instant \<Rightarrow> instant \<Rightarrow> availability_source list \<Rightarrow> reason_breakdown" where
  "scoreAvailabilitySlot start end sources = foldl (score_source start end) no_reasons sources"

definition breakdownScore :: "reason_breakdown \<Rightarrow> int list" where
  "breakdownScore r =
     [RequiredOutOfOffice r, RequiredBusy r, RequiredUnknown r, RequiredTentative r, RequiredOutsideWorking r,
      OptionalOutOfOffice r, OptionalBusy r, OptionalUnknown r, OptionalTentative r, OptionalOutsideWorking r]"

definition hex_EncodeToString :: "string \<Rightarrow> string" where
  "hex_EncodeToString s = concat (map (\<lambda>c. [hex_digit (of_char c div 16), hex_digit (of_char c mod 16)]) s)"

definition stableAvailabilitySlotKey :: "(string \<Rightarrow> string) \<Rightarrow> instant \<Rightarrow> instant \<Rightarrow> string \<Rightarrow> string" where
  "stableAvailabilitySlotKey sha256 start end zone =
     ''slot_'' @ hex_EncodeToString (take 12 (sha256
       (format_rfc3339_utc start @ [CHR 0x00] @ format_rfc3339_utc end @ [CHR 0x00] @ zone)))"

subsection \<open>Suggestions\<close>

definition normalizeAvailabilitySource :: "availability_params \<Rightarrow> availability_source \<Rightarrow> availability_source" where
  "normalizeAvailabilitySource p source =
     (if av_Unknown source
      then source\<lparr>av_Intervals := [\<lparr>si_StartsAt = ap_From p, si_EndsAt = ap_To p, si_Status = Unknown\<rparr>],
        av_Working := []\<rparr>
      else source\<lparr>av_Intervals := filter (\<lambda>i. si_EndsAt i > si_StartsAt i \<and> si_EndsAt i > ap_From p \<and>
        si_StartsAt i < ap_To p \<and> isAvailabilityStatus (si_Status i)) (av_Intervals source)\<rparr>)"

definition source_key :: "availability_source \<Rightarrow> string" where
  "source_key s = reference_key (sg_Reference (av_Participant s))"

definition ordered_source ::
  "availability_params \<Rightarrow> availability_source list \<Rightarrow> scheduling_participant \<Rightarrow> scheduling_error + availability_source" where
  "ordered_source p sources participant =
     (case find (\<lambda>s. source_key s = reference_key (sg_Reference participant)) sources of
        None \<Rightarrow> Inl ErrSchedulingUnavailable
      | Some s \<Rightarrow> Inr (normalizeAvailabilitySource p (s\<lparr>av_Participant := participant\<rparr>)))"

definition suggestion ::
  "(string \<Rightarrow> string) \<Rightarrow> availability_params \<Rightarrow> availability_source list \<Rightarrow> instant \<Rightarrow> suggested_time" where
  "suggestion sha256 p sources start =
     (let end = start + ap_Duration p in
      \<lparr>st_StartsAt = start, st_EndsAt = end,
       st_SlotKey = stableAvailabilitySlotKey sha256 start end (ap_Timezone p),
       st_Breakdown = scoreAvailabilitySlot start end sources\<rparr>)"

definition suggestion_order :: "suggested_time \<Rightarrow> int list \<times> instant \<times> string" where
  "suggestion_order s = (breakdownScore (st_Breakdown s), st_StartsAt s, st_SlotKey s)"

text \<open>
  \<open>ctx\<close> is the context of the search for starts, \<open>scoring\<close> what the look at it before the n-th
  start is scored finds.
\<close>

fun first_expired :: "(nat \<Rightarrow> scheduling_error option) \<Rightarrow> nat \<Rightarrow> instant list \<Rightarrow> scheduling_error option" where
  "first_expired scoring i [] = None"
| "first_expired scoring i (s # ss) =
     (case scoring i of Some e \<Rightarrow> Some e | None \<Rightarrow> first_expired scoring (Suc i) ss)"

definition suggest ::
  "(string \<Rightarrow> string) \<Rightarrow> availability_params \<Rightarrow> availability_source list \<Rightarrow> instant list \<Rightarrow> availability_result" where
  "suggest sha256 p sources starts =
     (let suggestions = take (nat (ap_MaxCandidates p)) (sort_key suggestion_order (map (suggestion sha256 p sources) starts)) in
      \<lparr>ar_Timezone = ap_Timezone p,
       ar_Participants = map (\<lambda>s. \<lparr>pt_Participant = sg_Reference (av_Participant s), pt_Role = sg_Role (av_Participant s),
         pt_Intervals = av_Intervals s, pt_Working = av_Working s\<rparr>) sources,
       ar_Suggestions = suggestions,
       ar_EmptyReason = (if suggestions = [] then Some ''no_valid_civil_slots'' else None)\<rparr>)"

definition buildAvailabilityResult ::
  "(string \<Rightarrow> string) \<Rightarrow> (string \<Rightarrow> location option) \<Rightarrow> (nat \<Rightarrow> scheduling_error option) \<Rightarrow>
   (nat \<Rightarrow> scheduling_error option) \<Rightarrow> availability_params \<Rightarrow> availability_source list \<Rightarrow>
   (scheduling_error + availability_result) option" where
  "buildAvailabilityResult sha256 tz ctx scoring p sources =
     (if \<not> distinct (map source_key sources) then Some (Inl ErrSchedulingUnavailable)
      else case map_res (ordered_source p sources) (ap_Participants p) of
        Inl e \<Rightarrow> Some (Inl e)
      | Inr ordered \<Rightarrow>
          (case availabilityCivilStarts tz ctx p of
             None \<Rightarrow> None
           | Some (Inl e) \<Rightarrow> Some (Inl e)
           | Some (Inr starts) \<Rightarrow>
               (case first_expired scoring 0 starts of
                  Some e \<Rightarrow> Some (Inl e)
                | None \<Rightarrow> Some (Inr (suggest sha256 p ordered starts)))))"

text \<open>
  \<open>QueryAvailability\<close>: the repository's \<open>LoadAvailability\<close> is a parameter, and \<open>expired\<close> says whether
  the deadline of the query has passed when it looks.
\<close>

definition QueryAvailability ::
  "(string \<Rightarrow> string) \<Rightarrow> (string \<Rightarrow> location option) \<Rightarrow> (string \<Rightarrow> uuid option) \<Rightarrow>
   (availability_params \<Rightarrow> scheduling_error + availability_source list) \<Rightarrow> (nat \<Rightarrow> scheduling_error option) \<Rightarrow>
   (nat \<Rightarrow> scheduling_error option) \<Rightarrow> bool \<Rightarrow> bool \<Rightarrow> availability_input \<Rightarrow>
   (scheduling_error + availability_result) option" where
  "QueryAvailability sha256 tz uuid_Parse load ctx scoring expiredAfterLoad expiredAtEnd input =
     (case normalizeAvailabilityInput tz uuid_Parse input of
        Inl e \<Rightarrow> Some (Inl e)
      | Inr p \<Rightarrow>
          (case load p of
             Inl e \<Rightarrow> Some (Inl (if e = AvailabilityDeadline \<or> expiredAfterLoad then ErrSchedulingUnavailable else e))
           | Inr sources \<Rightarrow> map_option (\<lambda>r.
               if r = Inl AvailabilityDeadline \<or> expiredAtEnd then Inl ErrSchedulingUnavailable else r)
               (buildAvailabilityResult sha256 tz ctx scoring p sources)))"

end
