(* ===== verification/Calendar_Grid.thy ===== *)
theory Calendar_Grid imports Calendar_Availability begin

section \<open>The grid of possible starts\<close>

text \<open>
  The search for starts returns, and what it returns: every instant whose local time lies on the
  grid, within the window, up to the local time of the window's end.
\<close>

subsection \<open>Printed dates and times are ordered as the times are\<close>

lemma digits_value_Cons: "digits_value (c # s) = digit_value c * 10 ^ length s + digits_value s"
proof (induction s rule: rev_induct)
  case (snoc d s)
  have "digits_value (c # s @ [d]) = 10 * digits_value (c # s) + digit_value d"
    using digits_value_snoc[of "c # s" d] by simp
  with snoc show ?case by (simp add: digits_value_snoc algebra_simps)
qed (simp add: digits_value_def)

lemma digit_value_bound: "is_digit c \<Longrightarrow> digit_value c < 10"
  by (auto simp: is_digit_def digit_value_def less_eq_char_def)

lemma digit_value_less: "is_digit c \<Longrightarrow> is_digit d \<Longrightarrow> c < d \<longleftrightarrow> digit_value c < digit_value d"
  by (auto simp: is_digit_def digit_value_def less_eq_char_def less_char_def)

lemma digits_value_bound: "list_all is_digit s \<Longrightarrow> digits_value s < 10 ^ length s"
proof (induction s)
  case (Cons c s)
  then have "digit_value c \<le> 9" "digits_value s < 10 ^ length s" using digit_value_bound[of c] by auto
  then have "digit_value c * 10 ^ length s + digits_value s < 9 * 10 ^ length s + 10 ^ length s"
    by (intro add_le_less_mono mult_right_mono) auto
  then show ?case by (simp add: digits_value_Cons)
qed (simp add: digits_value_def)

lemma digits_less:
  "list_all is_digit s \<Longrightarrow> list_all is_digit t \<Longrightarrow> length s = length t \<Longrightarrow> s < t \<longleftrightarrow> digits_value s < digits_value t"
proof (induction s arbitrary: t)
  case (Cons c s)
  then obtain d u where t: "t = d # u" "length s = length u" by (cases t) auto
  have b: "digits_value s < 10 ^ length u" "digits_value u < 10 ^ length u"
    using Cons.prems t digits_value_bound[of s] digits_value_bound[of u] by auto
  have IH: "s < u \<longleftrightarrow> digits_value s < digits_value u" using Cons t by simp
  have cd: "c < d \<longleftrightarrow> digit_value c < digit_value d" "d < c \<longleftrightarrow> digit_value d < digit_value c"
    using Cons.prems t by (simp_all add: digit_value_less)
  have high: "a < b \<Longrightarrow> x < w \<Longrightarrow> a * w + x < b * w + y" for a b w x y :: nat
  proof -
    assume "a < b" "x < w"
    then have "(a + 1) * w \<le> b * w" by (intro mult_right_mono) auto
    with \<open>x < w\<close> show "a * w + x < b * w + y" by simp
  qed
  consider "c < d" | "d < c" | "c = d" by force
  then show ?case
  proof cases
    case 1
    with cd high[OF _ b(1)] t show ?thesis by (simp add: digits_value_Cons)
  next
    case 2
    then have "\<not> digits_value (c # s) < digits_value t"
      using cd high[OF _ b(2), of "digit_value d" "digit_value c" "digits_value s"] t
      by (simp add: digits_value_Cons not_less less_imp_le)
    with 2 t show ?thesis by auto
  next
    case 3
    with IH t show ?thesis by (simp add: digits_value_Cons)
  qed
qed simp

lemma pad_int_less:
  assumes "0 < w" and "0 \<le> m" "m < 10 ^ w" and "0 \<le> n" "n < 10 ^ w"
  shows "pad_int w m < pad_int w n \<longleftrightarrow> m < n"
  using digits_less[of "pad_int w m" "pad_int w n"] assms
  by (simp add: pad_int_length) (metis pad_int_value of_nat_less_iff)

lemma pad_int_eq: "0 \<le> m \<Longrightarrow> 0 \<le> n \<Longrightarrow> pad_int w m = pad_int w n \<longleftrightarrow> m = n"
  by (metis pad_int_value)

lemma append_less:
  fixes s t u v :: string
  shows "length s = length t \<Longrightarrow> s @ u < t @ v \<longleftrightarrow> s < t \<or> s = t \<and> u < v"
  by (induction s t rule: list_induct2) auto

text \<open>Dates in the order of their days.\<close>

lemma days_in_month_pos: "0 < days_in_month y m"
  by (simp add: days_in_month_def)

lemma month_start_mono:
  assumes "1 \<le> m" "m < n" "n \<le> 12"
  shows "month_start (leap_year y) (m + 1) \<le> month_start (leap_year y) n"
proof -
  have "m + 1 \<le> n" using assms by simp
  then show ?thesis using assms
  proof (induction n rule: int_ge_induct)
    case (step i)
    then show ?case using month_start_step[of i y] days_in_month_pos[of y i] by simp
  qed simp
qed

lemma date_in_year:
  assumes "1 \<le> m" "m \<le> 12" "1 \<le> d" "d \<le> days_in_month y m"
  shows "year_start y \<le> day_of_date y m d" "day_of_date y m d < year_start (y + 1)"
proof -
  have "month_start (leap_year y) m + days_in_month y m \<le> month_start (leap_year y) 13"
  proof (cases "m = 12")
    case True
    then show ?thesis using month_start_step[of 12 y] by simp
  next
    case False
    then show ?thesis
      using month_start_step[of m y] month_start_mono[of m 12 y] assms by (auto split: if_split_asm)
  qed
  moreover have "0 \<le> month_start (leap_year y) m" using month_cases[OF assms(1,2)] by auto
  ultimately show "year_start y \<le> day_of_date y m d" "day_of_date y m d < year_start (y + 1)"
    using assms by (auto simp: day_of_date_def year_start_step)
qed

lemma date_less:
  assumes "1 \<le> m" "m \<le> 12" "1 \<le> d" "d \<le> days_in_month y m"
    and "1 \<le> m'" "m' \<le> 12" "1 \<le> d'" "d' \<le> days_in_month y' m'"
    and "y < y' \<or> y = y' \<and> (m < m' \<or> m = m' \<and> d < d')"
  shows "day_of_date y m d < day_of_date y' m' d'"
proof -
  consider "y < y'" | "y = y'" "m < m'" | "y = y'" "m = m'" "d < d'" using assms(9) by blast
  then show ?thesis
  proof cases
    case 1
    then have "year_start (y + 1) \<le> year_start y'" by (simp add: year_start_mono)
    then show ?thesis using date_in_year[OF assms(1-4)] date_in_year[OF assms(5-8)] by simp
  next
    case 2
    then have "month_start (leap_year y) (m + 1) \<le> month_start (leap_year y) m'"
      using assms by (intro month_start_mono) auto
    then show ?thesis using 2 assms month_start_step[of m y] by (simp add: day_of_date_def)
  qed (simp add: day_of_date_def)
qed

lemma date_less_iff:
  assumes "1 \<le> m" "m \<le> 12" "1 \<le> d" "d \<le> days_in_month y m"
    and "1 \<le> m'" "m' \<le> 12" "1 \<le> d'" "d' \<le> days_in_month y' m'"
  shows "day_of_date y m d < day_of_date y' m' d' \<longleftrightarrow> y < y' \<or> y = y' \<and> (m < m' \<or> m = m' \<and> d < d')"
  using date_less[OF assms] date_less[OF assms(5-8,1-4)] by (metis not_less_iff_gr_or_eq)

lemma valid_day: "valid_civil v \<Longrightarrow> 1 \<le> cv_Month v \<and> cv_Month v \<le> 12 \<and> 1 \<le> cv_Day v \<and>
    cv_Day v \<le> days_in_month (cv_Year v) (cv_Month v)"
  by (simp add: valid_civil_def)

definition civil_day :: "civil_time \<Rightarrow> int" where
  "civil_day v = day_of_date (cv_Year v) (cv_Month v) (cv_Day v)"

definition clock_minute :: "civil_time \<Rightarrow> int" where
  "clock_minute v = 60 * cv_Hour v + cv_Minute v"

lemma format_date_less:
  assumes "printable_civil v" and "printable_civil w"
  shows "format_date v < format_date w \<longleftrightarrow> civil_day v < civil_day w"
proof -
  note v = printable_fields[OF assms(1)] and w = printable_fields[OF assms(2)]
  have ok: "valid_civil v" "valid_civil w" using assms by (simp_all add: printable_civil_def)
  have n: "cv_Day v < 10 ^ 2" "cv_Day w < 10 ^ 2" using v w by simp_all
  have "format_date v < format_date w \<longleftrightarrow>
      cv_Year v < cv_Year w \<or> cv_Year v = cv_Year w \<and> (cv_Month v < cv_Month w \<or> cv_Month v = cv_Month w \<and> cv_Day v < cv_Day w)"
    using v w n
    by (simp add: format_date_def append_less pad_int_length pad_int_less pad_int_eq)
  also have "\<dots> \<longleftrightarrow> civil_day v < civil_day w"
    unfolding civil_day_def using valid_day[OF ok(1)] valid_day[OF ok(2)] by (simp add: date_less_iff)
  finally show ?thesis .
qed

lemma format_minute_less:
  assumes "printable_civil v" and "printable_civil w"
  shows "format_minute v < format_minute w \<longleftrightarrow> clock_minute v < clock_minute w"
proof -
  note v = printable_fields[OF assms(1)] and w = printable_fields[OF assms(2)]
  have "format_minute v < format_minute w \<longleftrightarrow>
      cv_Hour v < cv_Hour w \<or> cv_Hour v = cv_Hour w \<and> cv_Minute v < cv_Minute w"
    using v w by (simp add: format_minute_def append_less pad_int_length pad_int_less pad_int_eq)
  also have "\<dots> \<longleftrightarrow> clock_minute v < clock_minute w" using v w by (auto simp: clock_minute_def)
  finally show ?thesis .
qed

lemma seconds_of_civil_split:
  "seconds_of_civil v = 86400 * civil_day v + 60 * clock_minute v + cv_Second v"
  by (simp add: seconds_of_civil_def civil_day_def clock_minute_def)

lemma after_minutes:
  assumes "printable_civil v" and "printable_civil w"
  shows "format_date v > format_date w \<or> (format_date v = format_date w \<and> format_minute v > format_minute w) \<longleftrightarrow>
    seconds_of_civil w div 60 < seconds_of_civil v div 60"
proof -
  note v = printable_fields[OF assms(1)] and w = printable_fields[OF assms(2)]
  have e: "format_date v = format_date w \<longleftrightarrow> civil_day v = civil_day w"
    using format_date_less[OF assms] format_date_less[OF assms(2,1)] by (metis not_less_iff_gr_or_eq)
  have m: "0 \<le> clock_minute v" "clock_minute v < 1440" "0 \<le> clock_minute w" "clock_minute w < 1440"
    using v w by (auto simp: clock_minute_def)
  have "seconds_of_civil v div 60 = 1440 * civil_day v + clock_minute v"
    "seconds_of_civil w div 60 = 1440 * civil_day w + clock_minute w"
    unfolding seconds_of_civil_split using v w by (auto intro!: int_div_pos_eq)
  then show ?thesis
    unfolding e format_date_less[OF assms(2,1)] format_minute_less[OF assms(2,1)] using m by auto
qed

subsection \<open>The loop\<close>

text \<open>The n-th point of the grid, and the local minute of an instant.\<close>

definition grid_point :: "location \<Rightarrow> availability_params \<Rightarrow> nat \<Rightarrow> instant" where
  "grid_point loc p k = first_civil loc p + int k * ap_Step p"

definition local_time :: "location \<Rightarrow> instant \<Rightarrow> instant" where
  "local_time loc t = (t div time_Second + loc t) * time_Second"

lemma civil_starts_run:
  assumes "\<And>i. ctx i = None" and "i < K"
    and "\<And>j. i < j \<Longrightarrow> j < K \<Longrightarrow> \<not> civilDateAfterInstant (grid_point loc p j) (ap_To p) loc"
    and "civilDateAfterInstant (grid_point loc p K) (ap_To p) loc"
  shows "civil_starts ctx loc p i (grid_point loc p i) starts =
    Some (fold_res (\<lambda>s c. fold_res (add_start p) s (resolveCivilInstants loc c)) starts (map (grid_point loc p) [i..<K]))"
  using assms(2,3)
proof (induction "K - i" arbitrary: i starts)
  case (Suc n)
  have next_point: "grid_point loc p i + ap_Step p = grid_point loc p (Suc i)"
    by (simp add: grid_point_def algebra_simps)
  have upt: "[i..<K] = i # [Suc i..<K]" using Suc.prems by (simp add: upt_conv_Cons)
  show ?case
  proof (cases "fold_res (add_start p) starts (resolveCivilInstants loc (grid_point loc p i))")
    case (Inl e)
    then show ?thesis by (simp add: civil_starts.simps assms(1) upt)
  next
    case (Inr found)
    show ?thesis
    proof (cases "Suc i = K")
      case True
      with Inr assms(4) show ?thesis by (simp add: civil_starts.simps assms(1) upt next_point)
    next
      case False
      with Suc.prems have "Suc i < K" "\<not> civilDateAfterInstant (grid_point loc p (Suc i)) (ap_To p) loc" by auto
      with Inr Suc.hyps(1)[of "Suc i" found] Suc.hyps(2) Suc.prems(2) show ?thesis
        by (subst civil_starts.simps) (simp add: assms(1) upt next_point)
    qed
  qed
qed simp

definition in_window :: "availability_params \<Rightarrow> instant \<Rightarrow> bool" where
  "in_window p t \<longleftrightarrow> ap_From p \<le> t \<and> t + ap_Duration p \<le> ap_To p"

lemma add_starts:
  assumes "length starts \<le> MaximumAvailabilityStarts"
  shows "fold_res (add_start p) starts xs =
    (let found = starts @ filter (in_window p) xs in
     if length found \<le> MaximumAvailabilityStarts then Inr found else Inl ErrAvailabilityCapacity)"
  using assms
proof (induction xs arbitrary: starts)
  case (Cons x xs)
  show ?case
  proof (cases "in_window p x")
    case False
    then have "add_start p starts x = Inr starts" by (auto simp: add_start_def in_window_def)
    with False Cons show ?thesis by simp
  next
    case True
    show ?thesis
    proof (cases "length starts = MaximumAvailabilityStarts")
      case full: True
      with True have "add_start p starts x = Inl ErrAvailabilityCapacity" by (auto simp: add_start_def in_window_def)
      with True full show ?thesis by simp
    next
      case False
      with True Cons.prems have "add_start p starts x = Inr (starts @ [x])" by (auto simp: add_start_def in_window_def)
      with True False Cons.prems Cons.IH[of "starts @ [x]"] show ?thesis by simp
    qed
  qed
qed (simp add: Let_def)

lemma fold_res_nested:
  "fold_res (\<lambda>s c. fold_res f s (g c)) s xs = fold_res f s (concat (map g xs))"
  by (induction xs arbitrary: s) (simp_all add: fold_res_append)

subsection \<open>The search returns\<close>

definition local_seconds :: "location \<Rightarrow> instant \<Rightarrow> int" where
  "local_seconds loc t = t div time_Second + loc t"

lemma local_time_seconds: "local_time loc t = local_seconds loc t * time_Second"
  by (simp add: local_time_def local_seconds_def)

lemma civil_in_seconds: "civil_in loc t = civil_of_seconds (local_seconds loc t)"
  by (simp add: civil_in_def local_seconds_def)

lemma civil_of_seconds_Year: "cv_Year (civil_of_seconds s) = year_of_day (s div 86400)"
  by (simp add: civil_of_seconds_def Let_def)

lemma printable_seconds:
  assumes "86400 * year_start 0 \<le> s" and "s < 86400 * year_start 10000"
  shows "printable_civil (civil_of_seconds s)"
proof -
  have d: "year_start 0 \<le> s div 86400" "s div 86400 < year_start 10000"
    using assms minus_mod_eq_mult_div[of s 86400] pos_mod_bound[of 86400 s] pos_mod_sign[of 86400 s] by linarith+
  have y: "year_start (year_of_day (s div 86400)) < year_start 10000" "year_start 0 < year_start (year_of_day (s div 86400) + 1)"
    using d year_of_day[of "s div 86400"] by linarith+
  have "year_of_day (s div 86400) < 10000" "0 \<le> year_of_day (s div 86400)"
    using y year_start_mono[of 10000 "year_of_day (s div 86400)"] year_start_mono[of "year_of_day (s div 86400) + 1" 0]
    by linarith+
  then show ?thesis by (simp add: printable_civil_def civil_of_seconds_valid civil_of_seconds_Year)
qed

definition grid_step :: "availability_params \<Rightarrow> bool" where
  "grid_step p \<longleftrightarrow> ap_Step p \<in> {15 * time_Minute, 30 * time_Minute, 60 * time_Minute}"

text \<open>The local years of the window, for which the layouts print four digits.\<close>

definition printable_window :: "location \<Rightarrow> availability_params \<Rightarrow> bool" where
  "printable_window loc p \<longleftrightarrow> ap_From p < ap_To p \<and> 0 \<le> cv_Year (civil_in loc (ap_From p)) \<and>
     0 \<le> cv_Year (civil_in loc (ap_To p)) \<and> cv_Year (civil_in loc (ap_To p)) < 9999"

lemma grid_step_minutes:
  assumes "grid_step p"
  obtains n where "ap_Step p = n * time_Minute" "0 < n" "n \<le> 60"
  using assms that[of 15] that[of 30] that[of 60] by (auto simp: grid_step_def)

lemma ceiling_step:
  fixes m n :: int
  assumes "0 < n"
  shows "m \<le> (m + n - 1) div n * n" "(m + n - 1) div n * n < m + n"
  using minus_mod_eq_div_mult[of "m + n - 1" n] pos_mod_bound[OF assms, of "m + n - 1"] pos_mod_sign[OF assms, of "m + n - 1"]
  by linarith+

lemma first_civil_seconds:
  assumes "grid_step p"
  obtains F where "first_civil loc p = 60 * F * time_Second"
    "local_seconds loc (ap_From p) - 60 < 60 * F" "60 * F < local_seconds loc (ap_From p) + 3600"
proof -
  define v where "v = civil_in loc (ap_From p)"
  have ok: "valid_civil v" by (simp add: v_def)
  then have f: "0 \<le> cv_Minute v" "cv_Minute v < 60" "0 \<le> cv_Second v" "cv_Second v < 60"
    by (simp_all add: valid_civil_def)
  obtain n where n: "ap_Step p = n * time_Minute" "0 < n" "n \<le> 60"
    using grid_step_minutes[OF assms] by blast
  define up where "up = (cv_Minute v + n - 1) div n * n"
  have up: "cv_Minute v \<le> up" "up < cv_Minute v + n"
    unfolding up_def by (rule ceiling_step[OF n(2)])+
  have q: "go_quot (ap_Step p) time_Minute = n" "go_quot (cv_Minute v + n - 1) n = (cv_Minute v + n - 1) div n"
    using f n by (simp_all add: go_quot_pos time_units)
  define F where "F = 1440 * civil_day v + 60 * cv_Hour v + up"
  have e: "first_civil loc p = 60 * F * time_Second"
    unfolding first_civil_def Let_def v_def[symmetric] q up_def[symmetric]
    by (simp add: utc_instant_def seconds_of_civil_def civil_day_def F_def time_units)
  have A: "local_seconds loc (ap_From p) = 86400 * civil_day v + 3600 * cv_Hour v + 60 * cv_Minute v + cv_Second v"
    using seconds_of_civil_of_seconds[of "local_seconds loc (ap_From p)"]
    unfolding civil_in_seconds[symmetric] v_def[symmetric] by (simp add: seconds_of_civil_def civil_day_def)
  show thesis
    by (rule that[of F, OF e]) (use A up f n in \<open>simp_all add: F_def\<close>)
qed

lemma year_day_bounds:
  "86400 * year_start (cv_Year (civil_of_seconds s)) \<le> s"
  "s < 86400 * year_start (cv_Year (civil_of_seconds s) + 1)"
  unfolding civil_of_seconds_Year
  using year_of_day[of "s div 86400"] minus_mod_eq_mult_div[of s 86400] pos_mod_bound[of 86400 s] pos_mod_sign[of 86400 s]
  by linarith+

text \<open>The minutes of the grid, and when the loop ends.\<close>

lemma grid_minutes:
  assumes "steady_location loc" and "grid_step p" and "printable_window loc p"
  obtains F n where "0 < n" "\<And>k. grid_point loc p k = 60 * (F + int k * n) * time_Second"
    "\<And>k. k = 0 \<or> 60 * (F + int (k - 1) * n) \<le> local_seconds loc (ap_To p) \<or> k = 1 \<Longrightarrow>
      civilDateAfterInstant (grid_point loc p k) (ap_To p) loc \<longleftrightarrow> local_seconds loc (ap_To p) < 60 * (F + int k * n)"
proof -
  obtain F where F: "first_civil loc p = 60 * F * time_Second"
    "local_seconds loc (ap_From p) - 60 < 60 * F" "60 * F < local_seconds loc (ap_From p) + 3600"
    using first_civil_seconds[OF assms(2)] by blast
  obtain n where n: "ap_Step p = n * time_Minute" "0 < n" "n \<le> 60"
    using grid_step_minutes[OF assms(2)] by blast
  define A B where "A = local_seconds loc (ap_From p)" and "B = local_seconds loc (ap_To p)"
  have g: "grid_point loc p k = 60 * (F + int k * n) * time_Second" for k
    by (simp add: grid_point_def F n time_units algebra_simps)
  have off: "\<bar>loc t\<bar> < 86400" for t using assms(1) by (simp add: steady_location_def)
  have "ap_From p div time_Second \<le> ap_To p div time_Second"
    using assms(3) by (simp add: printable_window_def zdiv_mono1 time_units)
  then have AB: "A < B + 2 * 86400"
    using off[of "ap_From p"] off[of "ap_To p"] by (simp add: A_def B_def local_seconds_def)
  have yA: "86400 * year_start 0 \<le> A"
    using year_day_bounds(1)[of A] year_start_mono[of 0 "cv_Year (civil_of_seconds A)"] assms(3)
    by (simp add: printable_window_def civil_in_seconds A_def)
  have yB: "B < 86400 * year_start 9999"
    using year_day_bounds(2)[of B] year_start_mono[of "cv_Year (civil_of_seconds B) + 1" 9999] assms(3)
    by (simp add: printable_window_def civil_in_seconds B_def)
  have Bp: "86400 * year_start 0 \<le> B"
    using year_day_bounds(1)[of B] year_start_mono[of 0 "cv_Year (civil_of_seconds B)"] assms(3)
    by (simp add: printable_window_def civil_in_seconds B_def)
  have far: "year_start 9999 + 365 = year_start 10000" "year_start 0 = -366"
    by (simp_all add: year_start_def)
  show thesis
  proof (rule that[OF n(2) g])
    fix k assume k: "k = 0 \<or> 60 * (F + int (k - 1) * n) \<le> local_seconds loc (ap_To p) \<or> k = 1"
    have low: "60 * F \<le> 60 * (F + int k * n)" using n by simp
    have floor: "- 31622400 \<le> 60 * F" using F(2) yA far by (simp add: A_def)
    have high: "60 * (F + int k * n) < B + 2 * 86400 + 7200"
      using k
    proof (elim disjE)
      assume "60 * (F + int (k - 1) * n) \<le> local_seconds loc (ap_To p)"
      moreover have "int k * n \<le> int (k - 1) * n + n" using n by (cases k) (simp_all add: algebra_simps)
      ultimately show ?thesis using n by (simp add: B_def)
    qed (use F AB n in \<open>simp_all add: A_def\<close>)
    show "civilDateAfterInstant (grid_point loc p k) (ap_To p) loc \<longleftrightarrow> local_seconds loc (ap_To p) < 60 * (F + int k * n)"
    proof -
      define m where "m = F + int k * n"
      have p: "printable_civil (civil_of_seconds (60 * m))"
        by (rule printable_seconds; unfold m_def; use low floor high yB far in linarith)
      have q: "printable_civil (civil_of_seconds B)"
        by (rule printable_seconds; use yB Bp far in linarith)
      note minutes = after_minutes[OF p q]
      have b: "B div 60 < m \<longleftrightarrow> B < 60 * m"
        using minus_mod_eq_mult_div[of B 60] pos_mod_bound[of 60 B] pos_mod_sign[of 60 B] by linarith
      show ?thesis
        unfolding civilDateAfterInstant_def Let_def g civil_in_seconds B_def[symmetric] m_def[symmetric]
        using minutes by (simp add: civil_of_instant_def time_units b)
    qed
  qed
qed

lemma civil_starts_returns:
  assumes "i < K" and "civilDateAfterInstant (grid_point loc p K) (ap_To p) loc"
  shows "civil_starts ctx loc p i (grid_point loc p i) starts \<noteq> None"
  using assms(1)
proof (induction "K - i" arbitrary: i starts)
  case (Suc n)
  have next_point: "grid_point loc p i + ap_Step p = grid_point loc p (Suc i)"
    by (simp add: grid_point_def algebra_simps)
  have "Suc i < K" if "\<not> civilDateAfterInstant (grid_point loc p (Suc i)) (ap_To p) loc"
    using that Suc.prems assms(2) by (cases "Suc i = K") auto
  with Suc show ?case
    by (subst civil_starts.simps) (auto simp: next_point split: option.split sum.split)
qed simp

text \<open>The end of the loop: the first point after the start whose minute is past the end of the window.\<close>

lemma grid_end:
  assumes "steady_location loc" and "grid_step p" and "printable_window loc p"
  obtains K where "0 < K" "civilDateAfterInstant (grid_point loc p K) (ap_To p) loc"
    "\<And>j. 0 < j \<Longrightarrow> j < K \<Longrightarrow> \<not> civilDateAfterInstant (grid_point loc p j) (ap_To p) loc"
    "\<And>k. k < K \<longleftrightarrow> k = 0 \<or> grid_point loc p k \<le> local_time loc (ap_To p)"
proof -
  obtain F n where n: "0 < n" and g: "\<And>k. grid_point loc p k = 60 * (F + int k * n) * time_Second"
    and after: "\<And>k. k = 0 \<or> 60 * (F + int (k - 1) * n) \<le> local_seconds loc (ap_To p) \<or> k = 1 \<Longrightarrow>
      civilDateAfterInstant (grid_point loc p k) (ap_To p) loc \<longleftrightarrow> local_seconds loc (ap_To p) < 60 * (F + int k * n)"
    by (rule grid_minutes[OF assms], rule that)
  define B where "B = local_seconds loc (ap_To p)"
  define past where "past k \<longleftrightarrow> 0 < k \<and> B < 60 * (F + int k * n)" for k
  have mono: "60 * (F + int i * n) \<le> 60 * (F + int j * n)" if "i \<le> j" for i j :: nat
    using that n by (simp add: mult_right_mono)
  have "int (nat \<bar>B - 60 * F\<bar> + 1) \<le> int (nat \<bar>B - 60 * F\<bar> + 1) * n"
    using mult_left_mono[of 1 n "int (nat \<bar>B - 60 * F\<bar> + 1)"] n by simp
  then have "past (nat \<bar>B - 60 * F\<bar> + 1)" by (simp add: past_def)
  then obtain K where K: "past K" "\<And>j. j < K \<Longrightarrow> \<not> past j"
    using exists_least_iff[of past] by blast
  have le: "grid_point loc p k \<le> local_time loc (ap_To p) \<longleftrightarrow> 60 * (F + int k * n) \<le> B" for k
    unfolding g local_time_seconds B_def by (rule mult_le_cancel_right_pos) (simp add: time_units)
  have before: "j = 0 \<or> 60 * (F + int j * n) \<le> B" if "j < K" for j
    using K(2)[OF that] by (auto simp: past_def)
  have "K = 1 \<or> 60 * (F + int (K - 1) * n) \<le> B"
    using before[of "K - 1"] K(1) by (auto simp: past_def)
  then have "civilDateAfterInstant (grid_point loc p K) (ap_To p) loc"
    using after[of K] K(1) by (auto simp: past_def B_def)
  moreover have "\<not> civilDateAfterInstant (grid_point loc p j) (ap_To p) loc" if "0 < j" "j < K" for j
  proof -
    have "60 * (F + int j * n) \<le> B" using before[OF that(2)] that(1) by simp
    moreover have "60 * (F + int (j - 1) * n) \<le> 60 * (F + int j * n)" by (rule mono) simp
    ultimately show ?thesis using after[of j] by (simp add: B_def)
  qed
  moreover have "k < K \<longleftrightarrow> k = 0 \<or> 60 * (F + int k * n) \<le> B" for k
    using before[of k] mono[of K k] K(1) by (fastforce simp: past_def not_less)
  ultimately show thesis using that K(1) by (simp add: le past_def)
qed

subsection \<open>What the search finds\<close>

lemma resolveCivilInstants_eq:
  "resolveCivilInstants loc (w * time_Second) = civilCandidates (civil_of_seconds w) loc"
proof -
  have "utc_instant (civil_of_seconds w) = w * time_Second" by (simp add: utc_instant_def)
  then show ?thesis
    by (simp add: resolveCivilInstants_def civilCandidates_def Let_def civil_of_instant_def time_units)
qed

lemma resolveCivilInstants_exact:
  assumes "steady_location loc"
  shows "set (resolveCivilInstants loc (w * time_Second)) = {t. t mod time_Second = 0 \<and> local_time loc t = w * time_Second}"
    and "distinct (resolveCivilInstants loc (w * time_Second))"
proof -
  have e: "civil_in loc t = civil_of_seconds w \<longleftrightarrow> local_time loc t = w * time_Second" for t
    by (simp add: civil_in_seconds local_time_seconds time_units)
  show "set (resolveCivilInstants loc (w * time_Second)) = {t. t mod time_Second = 0 \<and> local_time loc t = w * time_Second}"
    "distinct (resolveCivilInstants loc (w * time_Second))"
    using civilCandidates_exact[OF assms civil_of_seconds_valid, of w] by (simp_all add: resolveCivilInstants_eq e)
qed

text \<open>The instants the grid stands for, within the window.\<close>

definition grid_starts :: "location \<Rightarrow> availability_params \<Rightarrow> instant set" where
  "grid_starts loc p = {t. t mod time_Second = 0 \<and> in_window p t \<and>
     (\<exists>k. local_time loc t = grid_point loc p k \<and> (k = 0 \<or> grid_point loc p k \<le> local_time loc (ap_To p)))}"


lemma fold_res_add_starts:
  "fold_res (\<lambda>s c. fold_res (add_start p) s (g c)) [] xs =
    (let found = filter (in_window p) (concat (map g xs)) in
     if length found \<le> MaximumAvailabilityStarts then Inr found else Inl ErrAvailabilityCapacity)"
  by (simp add: fold_res_nested add_starts)

lemma collected:
  "{t. W t \<and> (\<exists>k. P k \<and> t \<in> {t. A t \<and> B t k})} = {t. A t \<and> W t \<and> (\<exists>k. B t k \<and> P k)}"
  by auto

lemma found_starts:
  assumes "steady_location loc" and "grid_step p"
    and last: "\<And>k. k < K \<longleftrightarrow> k = 0 \<or> grid_point loc p k \<le> local_time loc (ap_To p)"
    and found: "found = filter (in_window p) (concat (map (\<lambda>k. resolveCivilInstants loc (grid_point loc p k)) [0..<K]))"
  shows "set found = grid_starts loc p" and "distinct found"
proof -
  obtain F where F: "first_civil loc p = 60 * F * time_Second"
    by (rule first_civil_seconds[OF assms(2)])
  obtain n where n: "ap_Step p = n * time_Minute" "0 < n" "n \<le> 60"
    using grid_step_minutes[OF assms(2)] by blast
  have g: "grid_point loc p k = (60 * (F + int k * n)) * time_Second" for k
    by (simp add: grid_point_def F n time_units algebra_simps)
  have sets: "set (resolveCivilInstants loc (grid_point loc p k)) =
      {t. t mod time_Second = 0 \<and> local_time loc t = grid_point loc p k}"
    and dist: "distinct (resolveCivilInstants loc (grid_point loc p k))" for k
    using resolveCivilInstants_exact[OF assms(1), of "60 * (F + int k * n)"] unfolding g by simp_all
  have inj: "grid_point loc p i = grid_point loc p j \<longleftrightarrow> i = j" for i j
    unfolding grid_point_def using n by (simp add: time_units)
  show "set found = grid_starts loc p"
  proof -
    have "set found = {t. in_window p t \<and> (\<exists>k. k < K \<and> t \<in> set (resolveCivilInstants loc (grid_point loc p k)))}"
      by (auto simp: found)
    then show ?thesis unfolding grid_starts_def sets last by (simp only: collected)
  qed
  have "distinct (concat (map (\<lambda>k. resolveCivilInstants loc (grid_point loc p k)) [0..<m]))" for m
  proof (induction m)
    case (Suc m)
    have "i = m" if "t \<in> set (resolveCivilInstants loc (grid_point loc p i))" "t \<in> set (resolveCivilInstants loc (grid_point loc p m))" for t i
      using that unfolding sets by (simp add: inj[symmetric])
    with Suc show ?case by (fastforce simp: dist)
  qed simp
  then show "distinct found" unfolding found by (rule distinct_filter)
qed

lemma search_result:
  assumes "steady_location loc" and "grid_step p" and "printable_window loc p"
    and "tz (ap_Timezone p) = Some loc" and "\<And>i. ctx i = None"
  shows "availabilityCivilStarts tz ctx p =
    Some (if card (grid_starts loc p) \<le> MaximumAvailabilityStarts
      then Inr (sorted_list_of_set (grid_starts loc p)) else Inl ErrAvailabilityCapacity)"
proof -
  obtain K where K: "0 < K" "civilDateAfterInstant (grid_point loc p K) (ap_To p) loc"
    "\<And>j. 0 < j \<Longrightarrow> j < K \<Longrightarrow> \<not> civilDateAfterInstant (grid_point loc p j) (ap_To p) loc"
    "\<And>k. k < K \<longleftrightarrow> k = 0 \<or> grid_point loc p k \<le> local_time loc (ap_To p)"
    by (rule grid_end[OF assms(1-3)], rule that)
  define found where "found = filter (in_window p) (concat (map (\<lambda>k. resolveCivilInstants loc (grid_point loc p k)) [0..<K]))"
  note starts = found_starts[OF assms(1,2) K(4) found_def]
  have "civil_starts ctx loc p 0 (grid_point loc p 0) [] =
      Some (if length found \<le> MaximumAvailabilityStarts then Inr found else Inl ErrAvailabilityCapacity)"
    using civil_starts_run[of ctx 0 K loc p "[]", OF assms(5) K(1) K(3) K(2)]
    by (simp add: fold_res_add_starts found_def Let_def comp_def)
  moreover have "length found = card (grid_starts loc p)" using distinct_card[OF starts(2)] by (simp add: starts(1))
  moreover have "sort found = sorted_list_of_set (grid_starts loc p)"
    using starts sorted_list_of_set_sort_remdups[of found] by (simp add: distinct_remdups_id)
  ultimately show ?thesis
    by (simp add: availabilityCivilStarts_def assms(4) grid_point_def)
qed

lemma grid_starts_finite:
  assumes "steady_location loc" and "grid_step p" and "printable_window loc p"
  shows "finite (grid_starts loc p)"
proof -
  obtain K where "\<And>k. k < K \<longleftrightarrow> k = 0 \<or> grid_point loc p k \<le> local_time loc (ap_To p)"
    by (rule grid_end[OF assms], rule that)
  from found_starts(1)[OF assms(1,2) this refl] show ?thesis by (metis List.finite_set)
qed

lemma search_returns:
  assumes "steady_location loc" and "grid_step p" and "printable_window loc p"
    and "tz (ap_Timezone p) = Some loc"
  shows "availabilityCivilStarts tz ctx p \<noteq> None"
proof -
  obtain K where K: "0 < K" "civilDateAfterInstant (grid_point loc p K) (ap_To p) loc"
    by (rule grid_end[OF assms(1-3)], rule that)
  then show ?thesis
    using civil_starts_returns[OF K, of ctx "[]"] by (simp add: availabilityCivilStarts_def assms(4) grid_point_def)
qed

lemma normalized_query:
  assumes "normalizeAvailabilityInput tz uuid_Parse input = Inr p"
  obtains loc where "tz (ap_Timezone p) = Some loc" "grid_step p" "ap_From p < ap_To p"
    "15 * time_Minute \<le> ap_Duration p" "ap_Duration p \<le> 480 * time_Minute"
    "1 \<le> ap_MaxCandidates p" "ap_MaxCandidates p \<le> MaximumSuggestedCandidates"
  using assms
  by (auto simp: normalizeAvailabilityInput_def Let_def grid_step_def time_units
      split: option.split_asm if_split_asm)

end
