(* ===== verification/Calendar_Properties.thy ===== *)
theory Calendar_Properties imports Calendar_Grid begin

section \<open>Properties of the calendar's searches\<close>

text \<open>
  The search for the instants of a civil time, and the search for free slots: it returns for every
  query the service accepts, finds exactly the instants of its grid, and suggests the best of them.
\<close>

subsection \<open>Instants of a civil time\<close>

definition instants_of :: "location \<Rightarrow> civil_time \<Rightarrow> instant set" where
  "instants_of loc v = {t. t mod time_Second = 0 \<and> civil_in loc t = v}"

lemma candidates_of:
  assumes "steady_location loc" and "valid_civil v"
  shows "civilCandidates v loc = sorted_list_of_set (instants_of loc v)" and "finite (instants_of loc v)"
proof -
  note c = civilCandidates_exact[OF assms]
  show "finite (instants_of loc v)" unfolding instants_of_def c(1)[symmetric] by simp
  show "civilCandidates v loc = sorted_list_of_set (instants_of loc v)"
    unfolding instants_of_def c(1)[symmetric]
    using c(2,3) by (simp add: sorted_sort_id distinct_remdups_id sorted_list_of_set_sort_remdups)
qed

definition repeated_time :: civil_time where
  "repeated_time = \<lparr>cv_Year = 2026, cv_Month = 10, cv_Day = 25, cv_Hour = 2, cv_Minute = 30, cv_Second = 0\<rparr>"

lemma repeated_instants: "civilCandidates repeated_time autumn_location = [63928485000 * time_Second, 63928488600 * time_Second]"
  by code_simp

text \<open>C27.  On every zone whose offsets stay in force for six hours, the search that samples seventeen
  offsets finds exactly the instants whose clock shows the civil time: none is an error, one is the
  answer, and of two the policy of the series picks the earlier or the later or refuses.\<close>

theorem resolveCivil_exact:
  assumes "steady_location loc" and "valid_civil v"
  shows "resolveCivil v loc policy =
    (if instants_of loc v = {} then Inl ErrNonexistentCivilTime
     else if card (instants_of loc v) = 1 then Inr (Min (instants_of loc v))
     else if card (instants_of loc v) = 2 then
       (case policy of OverlapEarlier \<Rightarrow> Inr (Min (instants_of loc v)) | OverlapLater \<Rightarrow> Inr (Max (instants_of loc v))
         | _ \<Rightarrow> Inl ErrAmbiguousCivilTime)
     else Inl ErrInvalidSeries)"
proof -
  define X where "X = civilCandidates v loc"
  have X: "instants_of loc v = set X" "sorted X" "distinct X"
    using civilCandidates_exact[OF assms] by (simp_all add: X_def instants_of_def)
  have c: "card (set X) = length X" using X(3) by (rule distinct_card)
  show ?thesis
    unfolding resolveCivil_def X_def[symmetric] X(1) c using X(2)
    by (auto split: list.split overlap_policy.split)
qed

theorem resolveCivil_exact_witness:
  "resolveCivil repeated_time autumn_location OverlapLater = Inr (63928488600 * time_Second) \<and>
   resolveCivil repeated_time autumn_location OverlapReject = Inl ErrAmbiguousCivilTime"
proof -
  have v: "valid_civil repeated_time" by code_simp
  have i: "instants_of autumn_location repeated_time = {63928485000 * time_Second, 63928488600 * time_Second}"
    unfolding instants_of_def civilCandidates_exact(1)[OF autumn_steady v, symmetric] repeated_instants by simp
  show ?thesis
    unfolding resolveCivil_exact[OF autumn_steady v] i by (simp add: time_units)
qed

subsection \<open>Free slots\<close>

text \<open>A morning in Ho Chi Minh City: 2026-10-05 from 08:10 to 09:30, an hour in steps of fifteen minutes.\<close>

definition example_zone :: "string \<Rightarrow> location option" where
  "example_zone name = (if name = ''Asia/Ho_Chi_Minh'' then Some (\<lambda>_. 25200) else None)"

definition example_uuid :: "string \<Rightarrow> uuid option" where
  "example_uuid s = (if s = ''a'' then Some 1 else if s = ''b'' then Some 2 else None)"

definition example_query :: availability_input where
  "example_query = \<lparr>ai_ClassID = ''a'', ai_From = ''2026-10-05T08:10:00+07:00'', ai_To = ''2026-10-05T09:30:00+07:00'',
     ai_Timezone = ''Asia/Ho_Chi_Minh'', ai_DurationMinutes = 60, ai_StepMinutes = 15, ai_MaxCandidates = 1,
     ai_Required = [\<lparr>pr_Kind = ''internal_user'', pr_ID = ''b''\<rparr>], ai_Optional = []\<rparr>"

definition example_params :: availability_params where
  "example_params = \<lparr>ap_ClassID = 1, ap_From = 63926759400 * time_Second, ap_To = 63926764200 * time_Second,
    ap_Timezone = ''Asia/Ho_Chi_Minh'', ap_Duration = 60 * time_Minute, ap_Step = 15 * time_Minute, ap_MaxCandidates = 1,
    ap_Participants = [\<lparr>sg_Reference = \<lparr>pr_Kind = ''internal_user'', pr_ID = uuid_String 2\<rparr>, sg_ID = 2, sg_Role = ''required''\<rparr>]\<rparr>"

lemma example_normalized: "normalizeAvailabilityInput example_zone example_uuid example_query = Inr example_params"
  by code_simp

lemma example_zone_steady: "example_zone zone = Some loc \<Longrightarrow> steady_location loc"
  by (auto simp: example_zone_def steady_constant split: if_split_asm)

lemma example_window: "printable_window (\<lambda>_. 25200) example_params" by code_simp

text \<open>C29.  A query that passes the service's checks never hangs the search for slots: its loop over the
  civil grid, which has no bound of its own, returns whatever the context does, on every zone whose
  offsets stay in force for six hours and for every window before the local year 9999.\<close>

theorem availability_search_returns:
  assumes "normalizeAvailabilityInput tz uuid_Parse input = Inr p"
    and "\<And>loc. tz (ap_Timezone p) = Some loc \<Longrightarrow> steady_location loc \<and> printable_window loc p"
  shows "\<exists>result. availabilityCivilStarts tz ctx p = Some result"
proof -
  obtain loc where "tz (ap_Timezone p) = Some loc" "grid_step p"
    by (rule normalized_query[OF assms(1)])
  with search_returns assms(2) show ?thesis by blast
qed

theorem availability_search_returns_witness:
  "\<exists>result. availabilityCivilStarts example_zone (\<lambda>_. None) example_params = Some result"
  by (rule availability_search_returns[OF example_normalized])
    (auto simp: example_params_def example_zone_def steady_constant example_window[unfolded example_params_def])

text \<open>
  The slots of a window without the code's grid: the whole seconds of the window, with the meeting within
  it, at which the local clock shows a multiple of the step.  Those that the search looks at show a clock
  not before the minute in which the window starts, and not after the clock of its end; only the first
  multiple after the start is looked at in any case.
\<close>

definition start_minute :: "location \<Rightarrow> availability_params \<Rightarrow> instant" where
  "start_minute loc p = local_time loc (ap_From p) div time_Minute * time_Minute"

definition clock_starts :: "location \<Rightarrow> availability_params \<Rightarrow> instant set" where
  "clock_starts loc p = {t. t mod time_Second = 0 \<and> ap_From p \<le> t \<and> t + ap_Duration p \<le> ap_To p \<and>
     ap_Step p dvd local_time loc t}"

definition searched_starts :: "location \<Rightarrow> availability_params \<Rightarrow> instant set" where
  "searched_starts loc p = {t. t \<in> clock_starts loc p \<and> start_minute loc p \<le> local_time loc t \<and>
     (local_time loc t \<le> local_time loc (ap_To p) \<or> local_time loc t < start_minute loc p + ap_Step p)}"

text \<open>No instant of the window shows a clock before that of its start or after that of its end.\<close>

definition clock_within :: "location \<Rightarrow> availability_params \<Rightarrow> bool" where
  "clock_within loc p \<longleftrightarrow> (\<forall>t. ap_From p \<le> t \<longrightarrow> t \<le> ap_To p \<longrightarrow>
     local_time loc (ap_From p) \<le> local_time loc t \<and> local_time loc t \<le> local_time loc (ap_To p))"

lemma first_civil_rounds:
  assumes "grid_step p"
  shows "ap_Step p dvd first_civil loc p" and "start_minute loc p \<le> first_civil loc p"
    and "first_civil loc p < start_minute loc p + ap_Step p" and "0 < ap_Step p"
proof -
  define v where "v = civil_in loc (ap_From p)"
  have ok: "valid_civil v" by (simp add: v_def)
  then have f: "0 \<le> cv_Minute v" "cv_Minute v < 60" "0 \<le> cv_Second v" "cv_Second v < 60"
    by (simp_all add: valid_civil_def)
  obtain n where n: "ap_Step p = n * time_Minute" "0 < n" "n dvd 60"
    using assms that[of 15] that[of 30] that[of 60] by (auto simp: grid_step_def)
  define up where "up = (cv_Minute v + n - 1) div n * n"
  have up: "cv_Minute v \<le> up" "up < cv_Minute v + n"
    unfolding up_def by (rule ceiling_step[OF n(2)])+
  have q: "go_quot (ap_Step p) time_Minute = n" "go_quot (cv_Minute v + n - 1) n = (cv_Minute v + n - 1) div n"
    using f n by (simp_all add: go_quot_pos time_units)
  define H where "H = 60 * (24 * civil_day v + cv_Hour v)"
  have e: "first_civil loc p = (H + up) * time_Minute"
    unfolding first_civil_def Let_def v_def[symmetric] q up_def[symmetric]
    by (simp add: utc_instant_def seconds_of_civil_def civil_day_def H_def time_units)
  have A: "local_seconds loc (ap_From p) = 60 * (H + cv_Minute v) + cv_Second v"
    using seconds_of_civil_of_seconds[of "local_seconds loc (ap_From p)"]
    unfolding civil_in_seconds[symmetric] v_def[symmetric] by (simp add: seconds_of_civil_def civil_day_def H_def)
  have start: "start_minute loc p = (H + cv_Minute v) * time_Minute"
  proof -
    define M where "M = H + cv_Minute v"
    have "cv_Second v * time_Second div time_Minute = 0"
      using f by (intro div_pos_pos_trivial) (simp_all add: time_units)
    then have "(M * time_Minute + cv_Second v * time_Second) div time_Minute = M" by (simp add: time_units)
    moreover have "(60 * M + cv_Second v) * time_Second = M * time_Minute + cv_Second v * time_Second"
      by (simp add: time_units)
    ultimately show ?thesis
      unfolding start_minute_def local_time_seconds A M_def[symmetric] by simp
  qed
  have "n dvd H + up" unfolding H_def up_def by (intro dvd_add dvd_mult2 n(3) dvd_triv_right)
  then show "ap_Step p dvd first_civil loc p" unfolding e n(1) by (rule mult_dvd_mono) simp
  show "start_minute loc p \<le> first_civil loc p" and "first_civil loc p < start_minute loc p + ap_Step p"
    and "0 < ap_Step p" using up n by (simp_all add: start e time_units)
qed

lemma grid_starts_clock:
  assumes "grid_step p"
  shows "grid_starts loc p = searched_starts loc p"
proof -
  note r = first_civil_rounds(1-3)[OF assms, of loc] first_civil_rounds(4)[OF assms]
  have "(\<exists>k. L = grid_point loc p k \<and> (k = 0 \<or> grid_point loc p k \<le> local_time loc (ap_To p))) \<longleftrightarrow>
      ap_Step p dvd L \<and> start_minute loc p \<le> L \<and> (L \<le> local_time loc (ap_To p) \<or> L < start_minute loc p + ap_Step p)"
    (is "?grid = ?clock") for L
  proof
    assume ?grid
    then obtain k where k: "L = first_civil loc p + int k * ap_Step p" "k = 0 \<or> L \<le> local_time loc (ap_To p)"
      by (auto simp: grid_point_def)
    have "0 \<le> int k * ap_Step p" using r(4) by simp
    then have "start_minute loc p \<le> L" using k(1) r(2) by linarith
    with k r show ?clock by auto
  next
    assume c: ?clock
    then have "ap_Step p dvd L - first_civil loc p" using r(1) by simp
    then obtain i where i: "L = first_civil loc p + ap_Step p * i" by (metis add_diff_cancel_left' diff_add_cancel dvdE add.commute)
    have "ap_Step p * (- 1) < ap_Step p * i" using c r(3) i by simp
    then have "- 1 < i" using r(4) by (simp only: mult_less_cancel_left_pos)
    then have "0 \<le> i" by simp
    moreover have "i = 0" if "L < start_minute loc p + ap_Step p"
    proof -
      have "ap_Step p * i < ap_Step p * 1" using that r(2) i by simp
      with r(4) \<open>0 \<le> i\<close> show ?thesis by simp
    qed
    ultimately show ?grid using c i
      by (intro exI[of _ "nat i"]) (auto simp: grid_point_def mult.commute)
  qed
  then show ?thesis by (auto simp: grid_starts_def searched_starts_def clock_starts_def in_window_def)
qed

lemma searched_all:
  assumes "clock_within loc p" and "15 * time_Minute \<le> ap_Duration p"
  shows "searched_starts loc p = clock_starts loc p"
proof -
  have "start_minute loc p \<le> local_time loc (ap_From p)"
    unfolding start_minute_def using minus_mod_eq_div_mult[of "local_time loc (ap_From p)" time_Minute]
      pos_mod_sign[of time_Minute "local_time loc (ap_From p)"] by (simp add: time_units)
  with assms show ?thesis
    by (fastforce simp: searched_starts_def clock_starts_def clock_within_def time_units)
qed

text \<open>C30.  The search for slots is exact: for a query that passes the service's checks, in a zone whose
  offsets stay in force for six hours, for a window before the local year 9999, and while the context has
  not expired, it yields, in order and once each, the slots whose clock lies between the minute in which
  the window starts and the clock of its end (and the first multiple of the step after the start, if it is
  a slot), in both passes of a repeated hour; above 2000 of them it refuses.  These are all slots of the
  window, every whole second with a clock that shows a multiple of the step and with the meeting inside
  the window, unless some clock in the window lies before that of its start or after that of its end, as
  when it starts or ends within a repeated hour.\<close>

theorem availability_starts_exact:
  assumes "normalizeAvailabilityInput tz uuid_Parse input = Inr p"
    and "tz (ap_Timezone p) = Some loc" and "steady_location loc" and "printable_window loc p"
  shows "availabilityCivilStarts tz (\<lambda>_. None) p =
      Some (if card (searched_starts loc p) \<le> MaximumAvailabilityStarts
        then Inr (sorted_list_of_set (searched_starts loc p)) else Inl ErrAvailabilityCapacity) \<and>
    (clock_within loc p \<longrightarrow> searched_starts loc p = clock_starts loc p)"
proof -
  obtain "grid_step p" and "15 * time_Minute \<le> ap_Duration p" by (rule normalized_query[OF assms(1)])
  then show ?thesis
    using search_result[of loc p tz "\<lambda>_. None"] searched_all[of loc p] assms by (simp add: grid_starts_clock)
qed

lemma example_starts: "grid_starts (\<lambda>_. 25200) example_params = {63926759700 * time_Second, 63926760600 * time_Second}"
proof -
  have f: "first_civil (\<lambda>_. 25200) example_params = 63926784900 * time_Second" by code_simp
  have step: "ap_Step example_params = 900 * time_Second" by code_simp
  have e: "t mod time_Second = 0 \<and> local_time (\<lambda>_. 25200) t = grid_point (\<lambda>_. 25200) example_params k \<longleftrightarrow>
      t = (63926759700 + 900 * int k) * time_Second" for t k
    using minus_mod_eq_div_mult[of t time_Second]
    by (auto simp: local_time_def grid_point_def f step time_units)
  have w: "in_window example_params ((63926759700 + 900 * int k) * time_Second) \<longleftrightarrow> k = 0 \<or> k = 1" for k
    by (auto simp: in_window_def example_params_def time_units)
  have l: "local_time (\<lambda>_. 25200) (ap_To example_params) = 63926789400 * time_Second" by code_simp
  show ?thesis
  proof (intro equalityI subsetI)
    fix t assume "t \<in> grid_starts (\<lambda>_. 25200) example_params"
    then obtain k where "t mod time_Second = 0 \<and> local_time (\<lambda>_. 25200) t = grid_point (\<lambda>_. 25200) example_params k"
      "in_window example_params t" by (auto simp only: grid_starts_def mem_Collect_eq)
    with w[of k] e[of t k] show "t \<in> {63926759700 * time_Second, 63926760600 * time_Second}" by auto
  next
    fix t assume "t \<in> {63926759700 * time_Second, 63926760600 * time_Second}"
    then obtain k where k: "t = (63926759700 + 900 * int k) * time_Second" "k = 0 \<or> k = 1"
      by (auto intro: that[of 0] that[of 1])
    then have "in_window example_params t" "t mod time_Second = 0"
      "local_time (\<lambda>_. 25200) t = grid_point (\<lambda>_. 25200) example_params k"
      using w[of k] e[of t k] by simp_all
    moreover have "k = 0 \<or> grid_point (\<lambda>_. 25200) example_params k \<le> local_time (\<lambda>_. 25200) (ap_To example_params)"
      using k(2) by (auto simp: grid_point_def f l step time_units)
    ultimately show "t \<in> grid_starts (\<lambda>_. 25200) example_params" by (auto simp: grid_starts_def)
  qed
qed

lemma example_zone_entry: "example_zone (ap_Timezone example_params) = Some (\<lambda>_. 25200)"
  by (simp add: example_zone_def example_params_def)

lemma example_grid_step: "grid_step example_params"
  by (rule normalized_query[OF example_normalized])

lemma example_within: "clock_within (\<lambda>_. 25200) example_params"
  by (auto simp: clock_within_def local_time_def zdiv_mono1 time_units)

theorem availability_starts_exact_witness:
  "availabilityCivilStarts example_zone (\<lambda>_. None) example_params =
     Some (Inr [63926759700 * time_Second, 63926760600 * time_Second]) \<and>
   clock_starts (\<lambda>_. 25200) example_params = {63926759700 * time_Second, 63926760600 * time_Second}"
proof -
  note starts = example_starts[unfolded grid_starts_clock[OF example_grid_step]]
  show ?thesis
    using availability_starts_exact[OF example_normalized example_zone_entry _ example_window] example_within
    by (simp add: steady_constant starts MaximumAvailabilityStarts_def time_units)
qed

text \<open>
  A slot the search misses: the window ends at 02:30 of the second pass of a repeated hour, so the
  clock of its end is behind the slot at 02:45 of the first pass, which ends half an hour before
  the window does and shows a point of the grid.
\<close>

definition repeated_window :: availability_params where
  "repeated_window = \<lparr>ap_ClassID = 1, ap_From = 63928483200 * time_Second, ap_To = 63928488600 * time_Second,
    ap_Timezone = ''Europe/Berlin'', ap_Duration = 15 * time_Minute, ap_Step = 15 * time_Minute, ap_MaxCandidates = 10,
    ap_Participants = []\<rparr>"

lemma availability_misses_repeated_hour:
  "63928485900 * time_Second \<in> clock_starts autumn_location repeated_window \<and>
   63928485900 * time_Second \<notin> searched_starts autumn_location repeated_window"
proof -
  have v: "local_time autumn_location (63928485900 * time_Second) = 63928493100 * time_Second"
    "local_time autumn_location (ap_To repeated_window) = 63928492200 * time_Second"
    "first_civil autumn_location repeated_window = 63928490400 * time_Second"
    "ap_Step repeated_window = 900 * time_Second" by code_simp+
  have w: "in_window repeated_window (63928485900 * time_Second)" by code_simp
  have g: "grid_point autumn_location repeated_window k = 63928490400 * time_Second + int k * (900 * time_Second)" for k
    by (simp only: grid_point_def v)
  have "63928485900 * time_Second \<notin> grid_starts autumn_location repeated_window"
    by (auto simp: grid_starts_def v[unfolded time_units, simplified] g[unfolded time_units, simplified] time_units)
  moreover have "grid_step repeated_window" by code_simp
  moreover have "63928485900 * time_Second \<in> clock_starts autumn_location repeated_window"
    using w by (simp add: clock_starts_def in_window_def v[unfolded time_units, simplified] time_units)
  ultimately show ?thesis using grid_starts_clock by simp
qed

subsection \<open>Suggestions\<close>

lemma take_sorted_best:
  assumes "sorted (map f xs)" and "x \<in> set xs" and "x \<notin> set (take n xs)" and "y \<in> set (take n xs)"
  shows "f y \<le> f x"
proof -
  have "x \<in> set (drop n xs)" using assms(2,3) by (metis append_take_drop_id Un_iff set_append)
  moreover have "sorted (map f (take n xs) @ map f (drop n xs))"
    using assms(1) by (metis append_take_drop_id map_append)
  ultimately show ?thesis using assms(4) by (auto simp: sorted_append)
qed

text \<open>C31.  The suggestions are the best slots of the grid: they are slots of the grid with the scores of
  the ordered sources, at most as many as asked for and all of them if there are fewer, sorted by the
  score (required participants first, out-of-office before busy before unknown before tentative before
  outside working hours), then time; no slot of the grid that is left out comes before one suggested.\<close>

theorem suggestions_are_best:
  assumes "normalizeAvailabilityInput tz uuid_Parse input = Inr p"
    and "tz (ap_Timezone p) = Some loc" and "steady_location loc" and "printable_window loc p"
    and "buildAvailabilityResult sha256 tz (\<lambda>_. None) scoring p sources = Some (Inr r)"
  shows "\<exists>ordered. map_res (ordered_source p sources) (ap_Participants p) = Inr ordered \<and>
    set (ar_Suggestions r) \<subseteq> suggestion sha256 p ordered ` grid_starts loc p \<and>
    length (ar_Suggestions r) = min (nat (ap_MaxCandidates p)) (card (grid_starts loc p)) \<and>
    sorted (map suggestion_order (ar_Suggestions r)) \<and>
    (\<forall>t\<in>grid_starts loc p. \<forall>s\<in>set (ar_Suggestions r).
      suggestion sha256 p ordered t \<notin> set (ar_Suggestions r) \<longrightarrow>
      suggestion_order s \<le> suggestion_order (suggestion sha256 p ordered t))"
proof -
  have "grid_step p" by (rule normalized_query[OF assms(1)])
  then have starts: "availabilityCivilStarts tz (\<lambda>_. None) p =
    Some (if card (grid_starts loc p) \<le> MaximumAvailabilityStarts
      then Inr (sorted_list_of_set (grid_starts loc p)) else Inl ErrAvailabilityCapacity)"
    using search_result[of loc p tz "\<lambda>_. None"] assms by simp
  obtain ordered where ordered: "map_res (ordered_source p sources) (ap_Participants p) = Inr ordered"
    and r: "r = suggest sha256 p ordered (sorted_list_of_set (grid_starts loc p))"
    using assms(5) by (auto simp: buildAvailabilityResult_def starts split: if_split_asm sum.split_asm option.split_asm)
  have fin: "finite (grid_starts loc p)"
    by (rule grid_starts_finite[OF assms(3) \<open>grid_step p\<close> assms(4)])
  define all where "all = sort_key suggestion_order (map (suggestion sha256 p ordered) (sorted_list_of_set (grid_starts loc p)))"
  have s: "ar_Suggestions r = take (nat (ap_MaxCandidates p)) all"
    by (simp add: r suggest_def Let_def all_def)
  have all: "set all = suggestion sha256 p ordered ` grid_starts loc p" "length all = card (grid_starts loc p)"
    "sorted (map suggestion_order all)"
    using fin by (simp_all add: all_def)
  have "sorted (map suggestion_order (take (nat (ap_MaxCandidates p)) all))"
    using all(3) by (simp add: take_map[symmetric] sorted_wrt_take)
  moreover have "suggestion_order u \<le> suggestion_order (suggestion sha256 p ordered t)"
    if "t \<in> grid_starts loc p" "u \<in> set (take (nat (ap_MaxCandidates p)) all)"
      "suggestion sha256 p ordered t \<notin> set (take (nat (ap_MaxCandidates p)) all)" for t u
    by (rule take_sorted_best[OF all(3) _ that(3,2)]) (use that(1) all(1) in simp)
  ultimately show ?thesis
    unfolding s using ordered all by (auto dest: in_set_takeD simp: min.commute)
qed

text \<open>The participant is busy until 08:20, so the slot at 08:30 is suggested.\<close>

definition example_sources :: "availability_source list" where
  "example_sources = [\<lparr>av_Participant = hd (ap_Participants example_params),
     av_Intervals = [\<lparr>si_StartsAt = 63926757000 * time_Second, si_EndsAt = 63926760000 * time_Second, si_Status = Busy\<rparr>],
     av_Working = [], av_Unknown = False\<rparr>]"

lemma example_ordered:
  "map_res (ordered_source example_params example_sources) (ap_Participants example_params) = Inr example_sources"
  by (simp add: ordered_source_def example_params_def example_sources_def source_key_def
      normalizeAvailabilitySource_def isAvailabilityStatus_def time_units)

lemma example_result:
  "buildAvailabilityResult (\<lambda>s. s) example_zone (\<lambda>_. None) (\<lambda>_. None) example_params example_sources =
     Some (Inr (suggest (\<lambda>s. s) example_params example_sources [63926759700 * time_Second, 63926760600 * time_Second]))"
proof -
  have "grid_step example_params" by code_simp
  then have "availabilityCivilStarts example_zone (\<lambda>_. None) example_params =
      Some (Inr [63926759700 * time_Second, 63926760600 * time_Second])"
    using search_result[of "\<lambda>_. 25200" example_params example_zone "\<lambda>_. None"] example_window example_zone_entry
    by (simp add: steady_constant example_starts MaximumAvailabilityStarts_def time_units)
  moreover have "distinct (map source_key example_sources)" by (simp add: example_sources_def)
  ultimately show ?thesis by (simp add: buildAvailabilityResult_def example_ordered)
qed

theorem suggestions_are_best_witness:
  "\<exists>r. buildAvailabilityResult (\<lambda>s. s) example_zone (\<lambda>_. None) (\<lambda>_. None) example_params example_sources = Some (Inr r) \<and>
     map st_StartsAt (ar_Suggestions r) = [63926760600 * time_Second]"
proof -
  define r where "r = suggest (\<lambda>s. s) example_params example_sources [63926759700 * time_Second, 63926760600 * time_Second]"
  have built: "buildAvailabilityResult (\<lambda>s. s) example_zone (\<lambda>_. None) (\<lambda>_. None) example_params example_sources = Some (Inr r)"
    unfolding r_def by (rule example_result)
  have two: "card {63926759700 * time_Second, 63926760600 * time_Second} = 2" by (simp add: time_units)
  have one: "ap_MaxCandidates example_params = 1" by (simp add: example_params_def)
  have worse: "suggestion_order (suggestion (\<lambda>s. s) example_params example_sources (63926760600 * time_Second)) <
      suggestion_order (suggestion (\<lambda>s. s) example_params example_sources (63926759700 * time_Second))"
    by (simp add: suggestion_order_def suggestion_def Let_def breakdownScore_def scoreAvailabilitySlot_def
        score_source_def worstAvailabilityStatus_def worse_status_def availabilityStatusRank_def count_status_def
        count_outside_def no_reasons_def coveredByWorkingInterval_def example_sources_def example_params_def
        less_prod_def' time_units)
  note best = suggestions_are_best[OF example_normalized example_zone_entry _ example_window built,
      unfolded example_ordered example_starts two one]
  obtain s where s: "ar_Suggestions r = [s]"
    "s \<in> suggestion (\<lambda>s. s) example_params example_sources ` {63926759700 * time_Second, 63926760600 * time_Second}"
    "\<forall>t\<in>{63926759700 * time_Second, 63926760600 * time_Second}. suggestion (\<lambda>s. s) example_params example_sources t \<noteq> s \<longrightarrow>
      suggestion_order s \<le> suggestion_order (suggestion (\<lambda>s. s) example_params example_sources t)"
    using best by (auto simp: steady_constant length_Suc_conv)
  then have "s = suggestion (\<lambda>s. s) example_params example_sources (63926760600 * time_Second)"
    using worse by (auto simp: not_le[symmetric])
  with built s(1) show ?thesis by (auto simp: suggestion_def Let_def)
qed

end
