(* ===== verification/Go_Base64.thy ===== *)
theory Go_Base64 imports Go_Strings begin

section \<open>base64.RawURLEncoding (package encoding/base64)\<close>

text \<open>
  The unpadded URL alphabet.  The decoder is Go's default one: it skips carriage returns and
  line feeds, and ignores the bits of the last character that belong to no byte, so several
  texts decode to the same bytes.
\<close>

subsection \<open>Bytes and sextets\<close>

fun sextets :: "nat list \<Rightarrow> nat list" where
  "sextets [] = []"
| "sextets [a] = [a div 4, a mod 4 * 16]"
| "sextets [a, b] = [a div 4, a mod 4 * 16 + b div 16, b mod 16 * 4]"
| "sextets (a # b # c # r) =
     a div 4 # (a mod 4 * 16 + b div 16) # (b mod 16 * 4 + c div 64) # c mod 64 # sextets r"

fun octets :: "nat list \<Rightarrow> nat list option" where
  "octets [] = Some []"
| "octets [w] = None"
| "octets [w, x] = Some [w * 4 + x div 16]"
| "octets [w, x, y] = Some [w * 4 + x div 16, x mod 16 * 16 + y div 4]"
| "octets (w # x # y # z # r) = map_option
     (\<lambda>bs. (w * 4 + x div 16) # (x mod 16 * 16 + y div 4) # (y mod 4 * 64 + z) # bs) (octets r)"

lemma octets_sextets: "\<forall>b\<in>set bs. b < 256 \<Longrightarrow> octets (sextets bs) = Some bs"
proof (induction bs rule: sextets.induct)
  case (2 a)
  have "a div 4 * 4 + a mod 4 * 16 div 16 = a" by simp
  then show ?case by simp
next
  case (3 a b)
  have "(a mod 4 * 16 + b div 16) div 16 = a mod 4" "(a mod 4 * 16 + b div 16) mod 16 = b div 16"
    using 3 by (simp_all add: div_add1_eq less_mult_imp_div_less)
  then show ?case by simp
next
  case (4 a b c r)
  have "(a mod 4 * 16 + b div 16) div 16 = a mod 4" "(a mod 4 * 16 + b div 16) mod 16 = b div 16"
    "(b mod 16 * 4 + c div 64) div 4 = b mod 16" "(b mod 16 * 4 + c div 64) mod 4 = c div 64"
    using 4 by (simp_all add: div_add1_eq less_mult_imp_div_less)
  with 4 show ?case by simp
qed simp

lemma sextets_bound: "\<forall>b\<in>set bs. b < 256 \<Longrightarrow> x \<in> set (sextets bs) \<Longrightarrow> x < 64"
proof (induction bs rule: sextets.induct)
  case (2 a)
  then show ?case by (auto simp: less_mult_imp_div_less)
next
  case (3 a b)
  have "a div 4 < 64" "b div 16 < 16" "a mod 4 < 4" "b mod 16 < 16"
    using 3 by (auto simp: less_mult_imp_div_less)
  with 3 show ?case by auto
next
  case (4 a b c r)
  have "a div 4 < 64" "b div 16 < 16" "c div 64 < 4" "a mod 4 < 4" "b mod 16 < 16" "c mod 64 < 64"
    using 4 by (auto simp: less_mult_imp_div_less)
  with 4 show ?case by auto
qed simp

lemma length_sextets: "length (sextets bs) = (4 * length bs + 2) div 3"
  by (induction bs rule: sextets.induct) simp_all

subsection \<open>The alphabet\<close>

definition base64_char :: "nat \<Rightarrow> char" where
  "base64_char n =
     (if n < 26 then char_of (65 + n) else if n < 52 then char_of (71 + n)
      else if n < 62 then char_of (n - 4) else if n = 62 then CHR ''-'' else CHR ''_'')"

definition base64_value :: "char \<Rightarrow> nat option" where
  "base64_value c =
     (if is_upper c then Some (of_char c - 65) else if is_lower c then Some (of_char c - 71)
      else if is_digit c then Some (of_char c + 4)
      else if c = CHR ''-'' then Some 62 else if c = CHR ''_'' then Some 63 else None)"

definition base64_alphabet :: "char \<Rightarrow> bool" where
  "base64_alphabet c \<longleftrightarrow> base64_value c \<noteq> None"

lemma base64_value_char: "n < 64 \<Longrightarrow> base64_value (base64_char n) = Some n"
  by (auto simp: base64_value_def base64_char_def char_classes less_eq_char_def of_char_of)

subsection \<open>Encoder and decoder\<close>

definition base64_EncodeToString :: "string \<Rightarrow> string" where
  "base64_EncodeToString s = map base64_char (sextets (map of_char s))"

fun map_values :: "string \<Rightarrow> nat list option" where
  "map_values [] = Some []"
| "map_values (c # cs) = (case base64_value c of None \<Rightarrow> None
     | Some v \<Rightarrow> map_option (\<lambda>vs. v # vs) (map_values cs))"

definition base64_DecodeString :: "string \<Rightarrow> string option" where
  "base64_DecodeString s =
     (case map_values (filter (\<lambda>c. c \<noteq> CHR 0x0A \<and> c \<noteq> CHR 0x0D) s) of None \<Rightarrow> None
      | Some vs \<Rightarrow> map_option (map char_of) (octets vs))"

lemma map_values_chars: "\<forall>v\<in>set vs. v < 64 \<Longrightarrow> map_values (map base64_char vs) = Some vs"
  by (induction vs) (simp_all add: base64_value_char)

lemma base64_value_newline: "base64_value (CHR 0x0A) = None" "base64_value (CHR 0x0D) = None"
  by code_simp+

lemma base64_Encode_alphabet: "c \<in> set (base64_EncodeToString s) \<Longrightarrow> base64_alphabet c"
  using sextets_bound[of "map of_char s"]
  by (auto simp: base64_EncodeToString_def base64_alphabet_def base64_value_char)

theorem base64_Decode_Encode: "base64_DecodeString (base64_EncodeToString s) = Some s"
proof -
  let ?bs = "map of_char s :: nat list"
  have b: "\<forall>b\<in>set ?bs. b < 256" by auto
  have "filter (\<lambda>c. c \<noteq> CHR 0x0A \<and> c \<noteq> CHR 0x0D) (base64_EncodeToString s) = base64_EncodeToString s"
    using base64_Encode_alphabet[of _ s] base64_value_newline
    by (fastforce simp: filter_id_conv base64_alphabet_def)
  moreover have "map_values (base64_EncodeToString s) = Some (sextets ?bs)"
    unfolding base64_EncodeToString_def by (rule map_values_chars) (use sextets_bound[OF b] in blast)
  ultimately show ?thesis
    by (simp add: base64_DecodeString_def octets_sextets[OF b] comp_def)
qed

lemma base64_Encode_inject: "base64_EncodeToString s = base64_EncodeToString t \<longleftrightarrow> s = t"
  by (metis base64_Decode_Encode option.inject)

lemma base64_alphabet_visible: "base64_alphabet c \<Longrightarrow> visible_ascii c"
  by (auto simp: base64_alphabet_def base64_value_def char_classes visible_ascii_def less_eq_char_def
      split: if_split_asm)

lemma length_base64_Encode: "length (base64_EncodeToString s) = (4 * length s + 2) div 3"
  by (simp add: base64_EncodeToString_def length_sextets)

end
