(* ===== verification/Calendar_Recurrence.thy ===== *)
theory Calendar_Recurrence imports Calendar_Civil Go_Base64 begin

section \<open>Recurring series (internal/spikes/calendarrecurrence, modules/calendar/recurrence)\<close>

text \<open>
  The bounded recurrence engine: the validator of the RRULE text (validator.go), the compiled
  plan and its expansion (adapter.go), and the typed rules of the calendar module with their
  canonical text (recurrence/adapter.go).  Candidate dates come from the package rrule-go, whose
  options and iterator are a parameter; the IANA database and SHA-256 are parameters too.
\<close>

subsection \<open>Parameters and limits\<close>

text \<open>
  The part of rrule-go the adapter calls: parsing an option in a location, setting its DTSTART
  and UNTIL, the check of \<open>NewRRule\<close>, and the n-th result of the iterator's \<open>next\<close>.
\<close>

record 'o rrule_library =
  lib_StrToROption :: "string \<Rightarrow> location \<Rightarrow> 'o option"
  lib_Dtstart :: "instant \<Rightarrow> 'o \<Rightarrow> 'o"
  lib_Until :: "instant \<Rightarrow> 'o \<Rightarrow> 'o"
  lib_NewRRule :: "'o \<Rightarrow> bool"
  lib_next :: "'o \<Rightarrow> nat \<Rightarrow> instant option"

definition MaxOccurrences :: int where "MaxOccurrences = 512"
definition MaxQueryWindowDays :: int where "MaxQueryWindowDays = 366"
definition MaxSeriesHorizonDays :: int where "MaxSeriesHorizonDays = 730"
definition MaxIterations :: nat where "MaxIterations = 2048"
definition maxRuleBytes :: nat where "maxRuleBytes = 512"
definition maxInterval :: int where "maxInterval = 366"

subsection \<open>Validation of the text (validator.go)\<close>

type_synonym properties = "(string \<times> string) list"

definition allowedProperties :: "string list" where
  "allowedProperties = [''FREQ'', ''INTERVAL'', ''COUNT'', ''UNTIL'', ''WKST'', ''BYDAY'', ''BYMONTHDAY'', ''BYMONTH'']"

text \<open>\<open>strings.SplitN(part, "=", 2)\<close>: the text before and after the first equals sign.\<close>

fun split_first :: "char \<Rightarrow> string \<Rightarrow> (string \<times> string) option" where
  "split_first d [] = None"
| "split_first d (c # cs) = (if c = d then Some ([], cs)
     else map_option (\<lambda>(a, b). (c # a, b)) (split_first d cs))"

definition add_property :: "properties \<Rightarrow> string \<Rightarrow> recurrence_error + properties" where
  "add_property props part = (case split_first (CHR ''='') part of
      None \<Rightarrow> Inl ErrInvalidRule
    | Some (key, val) \<Rightarrow>
        if key = [] \<or> val = [] then Inl ErrInvalidRule
        else if key \<notin> set allowedProperties then Inl ErrUnsupportedRule
        else if map_of props key \<noteq> None then Inl ErrInvalidRule
        else Inr (props @ [(key, val)]))"

definition parseProperties :: "string \<Rightarrow> recurrence_error + string \<times> properties" where
  "parseProperties raw =
     (let rule = trim_space raw in
      if rule = [] \<or> length rule > maxRuleBytes then Inl ErrInvalidRule
      else if \<not> list_all visible_ascii rule then Inl ErrInvalidRule
      else
        let upper = to_upper rule;
            body = (case strip_prefix ''RRULE:'' upper of Some r \<Rightarrow> r | None \<Rightarrow> upper) in
        try_res (fold_res add_property [] (split_on (CHR '';'') body)) (\<lambda>props.
          if map_of props ''FREQ'' = None then Inl ErrInvalidRule else Inr (body, props)))"

definition validateFrequency :: "string \<Rightarrow> recurrence_error + unit" where
  "validateFrequency v =
     (if v \<in> {''DAILY'', ''WEEKLY'', ''MONTHLY'', ''YEARLY''} then Inr ()
      else if v \<in> {''HOURLY'', ''MINUTELY'', ''SECONDLY''} then Inl ErrUnsupportedRule
      else Inl ErrInvalidRule)"

definition isWeekday :: "string \<Rightarrow> bool" where
  "isWeekday v \<longleftrightarrow> v \<in> {''MO'', ''TU'', ''WE'', ''TH'', ''FR'', ''SA'', ''SU''}"

definition add_weekday :: "string list \<Rightarrow> string \<Rightarrow> recurrence_error + string list" where
  "add_weekday seen part =
     (if \<not> isWeekday part then Inl ErrUnsupportedRule
      else if part \<in> set seen then Inl ErrInvalidRule else Inr (seen @ [part]))"

definition validateWeekdays :: "string \<Rightarrow> recurrence_error + unit" where
  "validateWeekdays v =
     (let parts = split_on (CHR '','') v in
      if parts = [] \<or> length parts > 7 then Inl ErrInvalidRule
      else try_res (fold_res add_weekday [] parts) (\<lambda>_. Inr ()))"

definition add_integer :: "int \<Rightarrow> int \<Rightarrow> bool \<Rightarrow> int list \<Rightarrow> string \<Rightarrow> recurrence_error + int list" where
  "add_integer minimum maximum rejectZero seen part = (case atoi part of
      None \<Rightarrow> Inl ErrInvalidRule
    | Some n \<Rightarrow>
        if n < minimum \<or> n > maximum \<or> (rejectZero \<and> n = 0) then Inl ErrInvalidRule
        else if n \<in> set seen then Inl ErrInvalidRule else Inr (seen @ [n]))"

definition validateIntegerList :: "string \<Rightarrow> int \<Rightarrow> int \<Rightarrow> bool \<Rightarrow> nat \<Rightarrow> recurrence_error + unit" where
  "validateIntegerList v minimum maximum rejectZero maxItems =
     (let parts = split_on (CHR '','') v in
      if parts = [] \<or> length parts > maxItems then Inl ErrInvalidRule
      else try_res (fold_res (add_integer minimum maximum rejectZero) [] parts) (\<lambda>_. Inr ()))"

definition boundedPositiveInteger :: "string \<Rightarrow> int \<Rightarrow> recurrence_error + int" where
  "boundedPositiveInteger v maximum =
     (if v = [] \<or> \<not> list_all is_digit v then Inl ErrInvalidRule
      else case atoi v of None \<Rightarrow> Inl ErrInvalidRule
        | Some n \<Rightarrow> if n < 1 \<or> n > maximum then Inl ErrInvalidRule else Inr n)"

text \<open>\<open>20060102T150405Z\<close> is an instant, \<open>20060102T150405\<close> a civil time of the series' zone.\<close>

definition parseUntil :: "string \<Rightarrow> location \<Rightarrow> overlap_policy \<Rightarrow> recurrence_error + instant" where
  "parseUntil v loc policy =
     (if length v = 16 \<and> last v = CHR ''Z''
        then (case parse_layout [] [] ''Z'' v of None \<Rightarrow> Inl ErrInvalidRule | Some c \<Rightarrow> Inr (utc_instant c))
      else if length v \<noteq> 15 then Inl ErrInvalidRule
      else case parse_layout [] [] [] v of None \<Rightarrow> Inl ErrInvalidRule
        | Some c \<Rightarrow> resolveCivil c loc policy)"

text \<open>The checks of \<open>parseAndValidateRule\<close> before the library parses the text; the COUNT, if any.\<close>

definition validateOptional :: "properties \<Rightarrow> string \<Rightarrow> (string \<Rightarrow> recurrence_error + unit) \<Rightarrow> recurrence_error + unit" where
  "validateOptional props key check = (case map_of props key of None \<Rightarrow> Inr () | Some v \<Rightarrow> check v)"

definition validateProperties :: "properties \<Rightarrow> recurrence_error + int option" where
  "validateProperties props =
     try_res (validateFrequency (case map_of props ''FREQ'' of Some v \<Rightarrow> v | None \<Rightarrow> [])) (\<lambda>_.
     try_res (validateOptional props ''INTERVAL'' (\<lambda>v. try_res (boundedPositiveInteger v maxInterval) (\<lambda>_. Inr ()))) (\<lambda>_.
     try_res (validateOptional props ''WKST'' (\<lambda>v. if isWeekday v then Inr () else Inl ErrInvalidRule)) (\<lambda>_.
     try_res (validateOptional props ''BYDAY'' validateWeekdays) (\<lambda>_.
     try_res (validateOptional props ''BYMONTHDAY'' (\<lambda>v. validateIntegerList v (-31) 31 True 31)) (\<lambda>_.
     try_res (validateOptional props ''BYMONTH'' (\<lambda>v. validateIntegerList v 1 12 False 12)) (\<lambda>_.
       if (map_of props ''COUNT'' \<noteq> None) = (map_of props ''UNTIL'' \<noteq> None) then Inl ErrInvalidRule
       else case map_of props ''COUNT'' of None \<Rightarrow> Inr None
         | Some v \<Rightarrow> try_res (boundedPositiveInteger v MaxOccurrences) (\<lambda>n. Inr (Some n))))))))"

definition seriesHorizon :: "civil_time \<Rightarrow> location \<Rightarrow> overlap_policy \<Rightarrow> recurrence_error + instant" where
  "seriesHorizon startCivil loc policy =
     resolveCivil (civil_of_instant (add_days utc_location MaxSeriesHorizonDays (utc_instant startCivil))) loc policy"

definition validateCountHorizon :: "'o rrule_library \<Rightarrow> 'o \<Rightarrow> int \<Rightarrow> instant \<Rightarrow> recurrence_error + unit" where
  "validateCountHorizon lib option count horizon =
     (let bounded = lib_Until lib horizon option in
      if \<not> lib_NewRRule lib bounded then Inl ErrInvalidRule
      else if list_ex (\<lambda>i. lib_next lib bounded i = None) [0..<nat count] then Inl ErrSeriesHorizonExceeded
      else Inr ())"

definition parseAndValidateRule ::
  "'o rrule_library \<Rightarrow> string \<Rightarrow> civil_time \<Rightarrow> instant \<Rightarrow> location \<Rightarrow> overlap_policy \<Rightarrow> recurrence_error + 'o" where
  "parseAndValidateRule lib raw startCivil start loc policy =
     try_res (parseProperties raw) (\<lambda>(canonical, props).
     try_res (validateProperties props) (\<lambda>count.
     case lib_StrToROption lib canonical loc of
       None \<Rightarrow> Inl ErrInvalidRule
     | Some parsed \<Rightarrow>
         let option = lib_Dtstart lib start parsed in
         (case seriesHorizon startCivil loc policy of
            Inl _ \<Rightarrow> Inl ErrInvalidRule
          | Inr maxUntil \<Rightarrow>
              (case map_of props ''UNTIL'' of
                 Some v \<Rightarrow>
                   (case parseUntil v loc policy of
                      Inl _ \<Rightarrow> Inl ErrInvalidRule
                    | Inr until \<Rightarrow>
                        if until < start then Inl ErrInvalidRule
                        else if until > maxUntil then Inl ErrSeriesHorizonExceeded
                        else Inr (lib_Until lib until option))
               | None \<Rightarrow> (case count of
                     None \<Rightarrow> Inr option
                   | Some n \<Rightarrow> try_res (validateCountHorizon lib option n maxUntil) (\<lambda>_. Inr option))))))"

subsection \<open>Plans and expansion (adapter.go)\<close>

record recurrence_series =
  rs_ID :: string
  rs_StartLocal :: string
  rs_TimeZone :: string
  rs_Duration :: duration
  rs_Rule :: string
  rs_OverlapPolicy :: overlap_policy

record time_window =
  wd_Start :: instant
  wd_End :: instant

record occurrence =
  oc_Key :: string
  oc_OriginalLocal :: string
  oc_StartsAt :: instant
  oc_EndsAt :: instant

record 'o recurrence_plan =
  pl_series :: recurrence_series
  pl_location :: location
  pl_startCivil :: civil_time
  pl_start :: instant
  pl_option :: 'o

definition validOverlapPolicy :: "overlap_policy \<Rightarrow> bool" where
  "validOverlapPolicy p \<longleftrightarrow> p \<in> {OverlapReject, OverlapEarlier, OverlapLater}"

definition normalize_policy :: "overlap_policy \<Rightarrow> overlap_policy" where
  "normalize_policy p = (if p = OverlapOther [] then OverlapReject else p)"

text \<open>\<open>Compile\<close>; \<open>tz\<close> is \<open>time.LoadLocation\<close>.\<close>

definition CompileSeries ::
  "'o rrule_library \<Rightarrow> (string \<Rightarrow> location option) \<Rightarrow> recurrence_series \<Rightarrow> recurrence_error + 'o recurrence_plan" where
  "CompileSeries lib tz series0 =
     (let policy = normalize_policy (rs_OverlapPolicy series0);
          series = series0\<lparr>rs_OverlapPolicy := policy\<rparr> in
      if rs_ID series = [] \<or> length (rs_ID series) > 128 then Inl ErrInvalidSeries
      else if rs_TimeZone series = [] \<or> length (rs_TimeZone series) > 128 then Inl ErrInvalidSeries
      else if rs_Duration series < time_Minute \<or> rs_Duration series > 24 * time_Hour then Inl ErrInvalidSeries
      else if \<not> validOverlapPolicy policy then Inl ErrInvalidOverlapPolicy
      else case tz (rs_TimeZone series) of
        None \<Rightarrow> Inl ErrInvalidSeries
      | Some loc \<Rightarrow>
          (case parse_civil (rs_StartLocal series) of
             None \<Rightarrow> Inl ErrInvalidSeries
           | Some startCivil \<Rightarrow>
               (case resolveCivil startCivil loc policy of
                  Inl e \<Rightarrow> Inl (InvalidSeriesCause e)
                | Inr start \<Rightarrow>
                    try_res (parseAndValidateRule lib (rs_Rule series) startCivil start loc policy) (\<lambda>parsed.
                    let option = lib_Dtstart lib start parsed in
                    if \<not> lib_NewRRule lib option then Inl ErrInvalidRule
                    else Inr \<lparr>pl_series = series, pl_location = loc, pl_startCivil = startCivil,
                      pl_start = start, pl_option = option\<rparr>))))"

definition validateWindow :: "'o recurrence_plan \<Rightarrow> time_window \<Rightarrow> recurrence_error + unit" where
  "validateWindow plan window =
     (if wd_Start window = zero_time \<or> wd_End window = zero_time \<or> \<not> wd_Start window < wd_End window
        then Inl ErrInvalidWindow
      else if wd_End window - wd_Start window > (MaxQueryWindowDays * 24 + 2) * time_Hour
        then Inl ErrInvalidWindow
      else if wd_End window > add_days (pl_location plan) MaxSeriesHorizonDays (pl_start plan) + 1
        then Inl ErrSeriesHorizonExceeded
      else Inr ())"

definition normalizeItemLimit :: "int \<Rightarrow> recurrence_error + int" where
  "normalizeItemLimit requested =
     (if requested = 0 then Inr MaxOccurrences
      else if requested < 1 \<or> requested > MaxOccurrences then Inl ErrInvalidWindow
      else Inr requested)"

datatype context_error = DeadlineExceeded | Canceled

definition executionError :: "context_error \<Rightarrow> recurrence_error" where
  "executionError e = (case e of DeadlineExceeded \<Rightarrow> ErrExecutionBudget | Canceled \<Rightarrow> ErrContextCanceled)"

definition occurrenceKey ::
  "(string \<Rightarrow> string) \<Rightarrow> string \<Rightarrow> string \<Rightarrow> string \<Rightarrow> int \<Rightarrow> string" where
  "occurrenceKey sha256 seriesID originalLocal timeZone offsetSeconds =
     ''occ_'' @ base64_EncodeToString (take 18 (sha256 (seriesID @ [CHR 0x00] @ originalLocal @ [CHR 0x00] @
       timeZone @ [CHR 0x00] @ itoa offsetSeconds)))"

text \<open>The civil time of a candidate: its date in the zone, with the clock of the series.\<close>

definition candidate_civil :: "'o recurrence_plan \<Rightarrow> instant \<Rightarrow> civil_time" where
  "candidate_civil plan candidate = (let v = civil_in (pl_location plan) candidate; s = pl_startCivil plan in
     \<lparr>cv_Year = cv_Year v, cv_Month = cv_Month v, cv_Day = cv_Day v,
      cv_Hour = cv_Hour s, cv_Minute = cv_Minute s, cv_Second = cv_Second s\<rparr>)"

definition plan_occurrence :: "(string \<Rightarrow> string) \<Rightarrow> 'o recurrence_plan \<Rightarrow> civil_time \<Rightarrow> instant \<Rightarrow> occurrence" where
  "plan_occurrence sha256 plan v start =
     \<lparr>oc_Key = occurrenceKey sha256 (rs_ID (pl_series plan)) (format_civil v) (rs_TimeZone (pl_series plan))
        (pl_location plan start),
      oc_OriginalLocal = format_civil v, oc_StartsAt = start, oc_EndsAt = start + rs_Duration (pl_series plan)\<rparr>"

text \<open>
  The loop of \<open>Plan.Expand\<close>: what is left of \<open>MaxIterations\<close>, the number of results taken from
  the iterator, and the occurrences found so far.  \<open>ctx\<close> is what the n-th look at the bounded
  context finds; the context is looked at before and after every call of the iterator.
\<close>

fun expand_loop ::
  "(string \<Rightarrow> string) \<Rightarrow> 'o rrule_library \<Rightarrow> (nat \<Rightarrow> context_error option) \<Rightarrow> 'o recurrence_plan \<Rightarrow> time_window \<Rightarrow>
   int \<Rightarrow> nat \<Rightarrow> nat \<Rightarrow> occurrence list \<Rightarrow> recurrence_error + occurrence list" where
  "expand_loop sha256 lib ctx plan window itemLimit 0 i found = Inl ErrIterationLimit"
| "expand_loop sha256 lib ctx plan window itemLimit (Suc k) i found =
     (case ctx (2 * i + 1) of Some e \<Rightarrow> Inl (executionError e) | None \<Rightarrow>
      case ctx (2 * i + 2) of Some e \<Rightarrow> Inl (executionError e) | None \<Rightarrow>
      case lib_next lib (pl_option plan) i of
        None \<Rightarrow> Inr found
      | Some candidate \<Rightarrow>
          let v = candidate_civil plan candidate in
          try_res (resolveCivil v (pl_location plan) (rs_OverlapPolicy (pl_series plan))) (\<lambda>start.
          if \<not> start < wd_End window then Inr found
          else if start + rs_Duration (pl_series plan) > wd_Start window
          then if int (length found) = itemLimit then Inl ErrOccurrenceLimit
            else expand_loop sha256 lib ctx plan window itemLimit k (Suc i)
              (found @ [plan_occurrence sha256 plan v start])
          else expand_loop sha256 lib ctx plan window itemLimit k (Suc i) found))"

definition ExpandPlan ::
  "(string \<Rightarrow> string) \<Rightarrow> 'o rrule_library \<Rightarrow> (nat \<Rightarrow> context_error option) \<Rightarrow> 'o recurrence_plan \<Rightarrow> time_window \<Rightarrow>
   int \<Rightarrow> recurrence_error + occurrence list" where
  "ExpandPlan sha256 lib ctx plan window maxOccurrences =
     try_res (validateWindow plan window) (\<lambda>_.
     try_res (normalizeItemLimit maxOccurrences) (\<lambda>itemLimit.
     case ctx 0 of Some e \<Rightarrow> Inl (executionError e) | None \<Rightarrow>
     if \<not> lib_NewRRule lib (pl_option plan) then Inl ErrCandidateIteratorFault
     else expand_loop sha256 lib ctx plan window itemLimit MaxIterations 0 []))"

subsection \<open>Typed rules (recurrence/adapter.go)\<close>

datatype end_type = EndOnDate | EndAfterCount | EndOther string

record rule_end =
  re_Type :: end_type
  re_Date :: string
  re_Count :: int

record recurrence_rule =
  rr_Frequency :: string
  rr_Interval :: int
  rr_Weekdays :: "string list"
  rr_MonthDays :: "int list"
  rr_Months :: "int list"
  rr_End :: rule_end

definition weekdayOrder :: "string \<Rightarrow> nat option" where
  "weekdayOrder v = map_of [(''MO'', 1), (''TU'', 2), (''WE'', 3), (''TH'', 4), (''FR'', 5), (''SA'', 6), (''SU'', 7)] v"

definition weekday_rank :: "string \<Rightarrow> nat" where
  "weekday_rank v = (case weekdayOrder v of None \<Rightarrow> 0 | Some n \<Rightarrow> n)"

definition canonicalWeekdays :: "string list \<Rightarrow> recurrence_error + string" where
  "canonicalWeekdays weekdays =
     (let ordered = sort_key weekday_rank weekdays in
      if list_ex (\<lambda>v. weekdayOrder v = None) ordered \<or> \<not> distinct ordered \<or> length ordered > 7
      then Inl ErrInvalidRule else Inr (join_with '','' ordered))"

definition canonicalIntegers :: "int list \<Rightarrow> int \<Rightarrow> int \<Rightarrow> bool \<Rightarrow> recurrence_error + string" where
  "canonicalIntegers values minimum maximum allowNegative =
     (let normalized = sort values in
      if list_ex (\<lambda>n. n < minimum \<or> n > maximum \<or> (\<not> allowNegative \<and> n < 0) \<or> n = 0) normalized \<or>
         \<not> distinct normalized \<or> normalized = []
      then Inl ErrInvalidRule else Inr (join_with '','' (map itoa normalized)))"

definition optional_part :: "string \<Rightarrow> 'a list \<Rightarrow> recurrence_error + string \<Rightarrow> recurrence_error + string list" where
  "optional_part name values text = (if values = [] then Inr [] else try_res text (\<lambda>t. Inr [name @ t]))"

definition end_part :: "rule_end \<Rightarrow> recurrence_error + string" where
  "end_part e = (case re_Type e of
      EndAfterCount \<Rightarrow>
        if re_Count e < 1 \<or> re_Count e > MaxOccurrences then Inl ErrInvalidRule
        else Inr (''COUNT='' @ itoa (re_Count e))
    | EndOnDate \<Rightarrow> (case parse_date (trim_space (re_Date e)) of
          None \<Rightarrow> Inl ErrInvalidRule
        | Some _ \<Rightarrow> Inr (''UNTIL='' @ filter (\<lambda>c. c \<noteq> CHR ''-'') (trim_space (re_Date e)) @ ''T235959''))
    | EndOther _ \<Rightarrow> Inl ErrInvalidRule)"

definition canonicalRRULE :: "recurrence_rule \<Rightarrow> recurrence_error + string" where
  "canonicalRRULE rule =
     (let frequency = to_upper (rr_Frequency rule);
          interval = (if rr_Interval rule = 0 then 1 else rr_Interval rule) in
      if frequency \<notin> {''DAILY'', ''WEEKLY'', ''MONTHLY'', ''YEARLY''}
        then Inl (if frequency = [] then ErrInvalidRule else ErrUnsupportedRule)
      else if interval < 1 \<or> interval > 366 then Inl ErrInvalidRule
      else if re_Type (rr_End rule) \<notin> {EndOnDate, EndAfterCount} then Inl ErrInvalidRule
      else
        try_res (optional_part ''BYDAY='' (rr_Weekdays rule) (canonicalWeekdays (rr_Weekdays rule))) (\<lambda>days.
        try_res (optional_part ''BYMONTHDAY='' (rr_MonthDays rule)
          (canonicalIntegers (rr_MonthDays rule) (-31) 31 True)) (\<lambda>monthdays.
        try_res (optional_part ''BYMONTH='' (rr_Months rule) (canonicalIntegers (rr_Months rule) 1 12 False)) (\<lambda>months.
        try_res (end_part (rr_End rule)) (\<lambda>ending.
          Inr (join_with '';'' ([''FREQ='' @ frequency, ''INTERVAL='' @ itoa interval] @
            days @ monthdays @ months @ [ending])))))))"

record recurrence_definition =
  df_ID :: string
  df_StartLocal :: string
  df_TimeZone :: string
  df_Duration :: duration
  df_Rule :: recurrence_rule
  df_OverlapPolicy :: overlap_policy

definition CompileDefinition ::
  "'o rrule_library \<Rightarrow> (string \<Rightarrow> location option) \<Rightarrow> recurrence_definition \<Rightarrow> recurrence_error + 'o recurrence_plan" where
  "CompileDefinition lib tz d =
     try_res (canonicalRRULE (df_Rule d)) (\<lambda>rule.
       CompileSeries lib tz \<lparr>rs_ID = df_ID d, rs_StartLocal = df_StartLocal d, rs_TimeZone = df_TimeZone d,
         rs_Duration = df_Duration d, rs_Rule = rule, rs_OverlapPolicy = df_OverlapPolicy d\<rparr>)"

definition ExpandDefinition ::
  "(string \<Rightarrow> string) \<Rightarrow> 'o rrule_library \<Rightarrow> (string \<Rightarrow> location option) \<Rightarrow> (nat \<Rightarrow> context_error option) \<Rightarrow>
   recurrence_definition \<Rightarrow> time_window \<Rightarrow> int \<Rightarrow> recurrence_error + occurrence list" where
  "ExpandDefinition sha256 lib tz ctx d window maxOccurrences =
     try_res (CompileDefinition lib tz d) (\<lambda>plan. ExpandPlan sha256 lib ctx plan window maxOccurrences)"

text \<open>\<open>ParseInLocation\<close> yields the instant \<open>time.Date\<close> picks for the civil time.\<close>

definition ResolveOccurrence ::
  "(string \<Rightarrow> string) \<Rightarrow> 'o rrule_library \<Rightarrow> (string \<Rightarrow> location option) \<Rightarrow> (nat \<Rightarrow> context_error option) \<Rightarrow>
   recurrence_definition \<Rightarrow> string \<Rightarrow> recurrence_error + occurrence" where
  "ResolveOccurrence sha256 lib tz ctx d original0 =
     (let original = trim_space original0 in
      if original = [] then Inl ErrInvalidSeries
      else case tz (trim_space (df_TimeZone d)) of
        None \<Rightarrow> Inl ErrInvalidSeries
      | Some loc \<Rightarrow>
          (case parse_civil original of
             None \<Rightarrow> Inl ErrInvalidSeries
           | Some v \<Rightarrow>
               let local = date_in loc (utc_instant v);
                   single = d\<lparr>df_StartLocal := original, df_Rule := \<lparr>rr_Frequency = ''daily'', rr_Interval = 1,
                     rr_Weekdays = [], rr_MonthDays = [], rr_Months = [],
                     rr_End = \<lparr>re_Type = EndAfterCount, re_Date = [], re_Count = 1\<rparr>\<rparr>\<rparr>;
                   window = \<lparr>wd_Start = local - 48 * time_Hour, wd_End = local + 48 * time_Hour\<rparr> in
               try_res (ExpandDefinition sha256 lib tz ctx single window 1) (\<lambda>found.
                 case found of
                   [o1] \<Rightarrow> if oc_OriginalLocal o1 = original then Inr o1 else Inl ErrInvalidSeries
                 | _ \<Rightarrow> Inl ErrInvalidSeries)))"

definition IsBoundedError :: "recurrence_error \<Rightarrow> bool" where
  "IsBoundedError e \<longleftrightarrow> errors_Is e ErrOccurrenceLimit \<or> errors_Is e ErrIterationLimit \<or>
     errors_Is e ErrExecutionBudget \<or> errors_Is e ErrSeriesHorizonExceeded"

end
