(* ===== verification/Calendar_Series.thy ===== *)
theory Calendar_Series imports Calendar_Recurrence begin

section \<open>Exceptions and edit scopes (modules/calendar/recurrence/scope.go, override.go)\<close>

text \<open>
  What an edit of one occurrence, of an occurrence and those after it, or of the whole series
  would touch, and the projection of a series with its exceptions to calendar entries.
\<close>

datatype edit_scope = ScopeThisOccurrence | ScopeFollowing | ScopeEntireSeries | ScopeOther string

datatype future_policy = ExceptionCarry | ExceptionRebase | ExceptionDiscard | PolicyNone | PolicyOther string

datatype exception_type = ExceptionCancel | ExceptionOverride | ExceptionTypeOther string

datatype preview_error = ErrOccurrenceNotInSeries | PreviewInvalidRule

record series_exception =
  ex_OccurrenceKey :: string
  ex_Type :: exception_type

record scope_preview =
  sp_Scope :: edit_scope
  sp_BoundaryKey :: string
  sp_BoundaryLocal :: string
  sp_Affected :: int
  sp_Future :: int
  sp_Retained :: int
  sp_Discarded :: int
  sp_Policy :: future_policy

definition validFutureExceptionPolicy :: "future_policy \<Rightarrow> bool" where
  "validFutureExceptionPolicy p \<longleftrightarrow> p \<in> {ExceptionCarry, ExceptionRebase, ExceptionDiscard}"

text \<open>The first occurrence with the key, or -1.\<close>

fun boundary_index :: "string \<Rightarrow> occurrence list \<Rightarrow> nat option" where
  "boundary_index key [] = None"
| "boundary_index key (x # xs) =
     (if oc_Key x = key then Some 0 else map_option Suc (boundary_index key xs))"

definition PreviewScope ::
  "occurrence list \<Rightarrow> series_exception list \<Rightarrow> string \<Rightarrow> edit_scope \<Rightarrow> future_policy \<Rightarrow> preview_error + scope_preview" where
  "PreviewScope occurrences exceptions boundaryKey scope policy =
     (case boundary_index boundaryKey occurrences of
        None \<Rightarrow> Inl ErrOccurrenceNotInSeries
      | Some boundary \<Rightarrow>
          if scope \<notin> {ScopeThisOccurrence, ScopeFollowing, ScopeEntireSeries} then Inl PreviewInvalidRule
          else if scope = ScopeFollowing \<and> \<not> validFutureExceptionPolicy policy then Inl PreviewInvalidRule
          else if scope \<noteq> ScopeFollowing \<and> policy \<noteq> PolicyNone then Inl PreviewInvalidRule
          else
            let futureKeys = map oc_Key (drop boundary occurrences);
                future = int (length (filter (\<lambda>e. ex_OccurrenceKey e \<in> set futureKeys) exceptions));
                preview = \<lparr>sp_Scope = scope, sp_BoundaryKey = boundaryKey,
                  sp_BoundaryLocal = oc_OriginalLocal (occurrences ! boundary), sp_Affected = 0, sp_Future = 0,
                  sp_Retained = 0, sp_Discarded = 0, sp_Policy = PolicyNone\<rparr> in
            (case scope of
               ScopeThisOccurrence \<Rightarrow> Inr (preview\<lparr>sp_Affected := 1,
                 sp_Retained := if list_ex (\<lambda>e. ex_OccurrenceKey e = boundaryKey) exceptions then 1 else 0\<rparr>)
             | ScopeFollowing \<Rightarrow>
                 let p = preview\<lparr>sp_Affected := int (length occurrences) - int boundary, sp_Future := future,
                       sp_Policy := policy\<rparr> in
                 Inr (if policy = ExceptionDiscard then p\<lparr>sp_Discarded := future\<rparr> else p\<lparr>sp_Retained := future\<rparr>)
             | _ \<Rightarrow> Inr (preview\<lparr>sp_Affected := int (length occurrences), sp_Future := future,
                 sp_Retained := int (length exceptions)\<rparr>)))"

subsection \<open>Projection with exceptions\<close>

record series_projection =
  sj_ID :: uuid
  sj_ClassID :: uuid
  sj_ClassTitle :: string
  sj_Title :: string
  sj_Definition :: recurrence_definition
  sj_DisplayTimezone :: string

record exception_projection =
  xj_OccurrenceKey :: string
  xj_Type :: exception_type
  xj_LocalStart :: "string option"
  xj_Timezone :: "string option"
  xj_Duration :: "duration option"
  xj_Title :: "string option"

record projected_occurrence =
  po_SeriesID :: uuid
  po_ClassID :: uuid
  po_ClassTitle :: string
  po_Title :: string
  po_OccurrenceKey :: string
  po_OriginalLocal :: string
  po_StartsAt :: instant
  po_EndsAt :: instant
  po_DisplayTimezone :: string

definition MaxOccurrencesPerRequest :: int where "MaxOccurrencesPerRequest = 2000"

definition add_exception ::
  "(string \<times> exception_projection) list \<Rightarrow> exception_projection \<Rightarrow>
   recurrence_error + (string \<times> exception_projection) list" where
  "add_exception byKey e =
     (let key = trim_space (xj_OccurrenceKey e) in
      if key = [] then Inl ErrInvalidRule
      else if map_of byKey key \<noteq> None then Inl ErrInvalidRule
      else if xj_Type e \<notin> {ExceptionCancel, ExceptionOverride} then Inl ErrInvalidRule
      else Inr (byKey @ [(key, e)]))"

text \<open>
  An override resolves its own civil time; \<open>resolve\<close> is \<open>ResolveOccurrence\<close> with the context of
  the expansion.  The result is the start, the end, the title and the display zone.
\<close>

definition apply_override ::
  "(recurrence_definition \<Rightarrow> string \<Rightarrow> recurrence_error + occurrence) \<Rightarrow> series_projection \<Rightarrow> occurrence \<Rightarrow>
   exception_projection \<Rightarrow> recurrence_error + instant \<times> instant \<times> string \<times> string" where
  "apply_override resolve series oc e =
     (let localStart = (case xj_LocalStart e of None \<Rightarrow> oc_OriginalLocal oc | Some l \<Rightarrow> trim_space l);
          zone = (case xj_Timezone e of None \<Rightarrow> sj_DisplayTimezone series | Some z \<Rightarrow> trim_space z);
          d = sj_Definition series;
          override = d\<lparr>df_TimeZone := (case xj_Timezone e of None \<Rightarrow> df_TimeZone d | Some z \<Rightarrow> trim_space z),
            df_Duration := (case xj_Duration e of None \<Rightarrow> oc_EndsAt oc - oc_StartsAt oc | Some n \<Rightarrow> n)\<rparr> in
      try_res (resolve override localStart) (\<lambda>resolved.
        Inr (oc_StartsAt resolved, oc_EndsAt resolved,
          (case xj_Title e of None \<Rightarrow> sj_Title series | Some t \<Rightarrow> trim_space t), zone)))"

definition project_entry :: "series_projection \<Rightarrow> occurrence \<Rightarrow> instant \<times> instant \<times> string \<times> string \<Rightarrow> projected_occurrence" where
  "project_entry series oc = (\<lambda>(starts, ends, title, zone).
     \<lparr>po_SeriesID = sj_ID series, po_ClassID = sj_ClassID series, po_ClassTitle = sj_ClassTitle series,
      po_Title = title, po_OccurrenceKey = oc_Key oc, po_OriginalLocal = oc_OriginalLocal oc,
      po_StartsAt = starts, po_EndsAt = ends, po_DisplayTimezone = zone\<rparr>)"

definition project_one ::
  "(recurrence_definition \<Rightarrow> string \<Rightarrow> recurrence_error + occurrence) \<Rightarrow> series_projection \<Rightarrow>
   (string \<times> exception_projection) list \<Rightarrow> int \<Rightarrow> projected_occurrence list \<Rightarrow> occurrence \<Rightarrow>
   recurrence_error + projected_occurrence list" where
  "project_one resolve series byKey maxOccurrences projected oc =
     (let plain = (oc_StartsAt oc, oc_EndsAt oc, sj_Title series, sj_DisplayTimezone series);
          add = (\<lambda>entry. let all = projected @ [project_entry series oc entry] in
            if int (length all) > maxOccurrences then Inl ErrOccurrenceLimit else Inr all) in
      case map_of byKey (oc_Key oc) of
        None \<Rightarrow> add plain
      | Some e \<Rightarrow> if xj_Type e = ExceptionCancel then Inr projected
          else try_res (apply_override resolve series oc e) add)"

definition ProjectSeries ::
  "(string \<Rightarrow> string) \<Rightarrow> 'o rrule_library \<Rightarrow> (string \<Rightarrow> location option) \<Rightarrow> (nat \<Rightarrow> context_error option) \<Rightarrow>
   (recurrence_definition \<Rightarrow> string \<Rightarrow> recurrence_error + occurrence) \<Rightarrow> series_projection \<Rightarrow> time_window \<Rightarrow>
   exception_projection list \<Rightarrow> int \<Rightarrow> recurrence_error + projected_occurrence list" where
  "ProjectSeries sha256 lib tz ctx resolve series window exceptions maxOccurrences =
     (if sj_ID series = uuid_Nil \<or> sj_ClassID series = uuid_Nil then Inl ErrInvalidSeries
      else if maxOccurrences < 1 \<or> maxOccurrences > MaxOccurrencesPerRequest then Inl ErrInvalidRule
      else
        try_res (ExpandDefinition sha256 lib tz ctx (sj_Definition series) window MaxOccurrences) (\<lambda>occurrences.
        try_res (fold_res add_exception [] exceptions) (\<lambda>byKey.
        try_res (fold_res (project_one resolve series byKey maxOccurrences) [] occurrences) (\<lambda>projected.
          Inr (sort_key (\<lambda>p. (po_StartsAt p, po_OccurrenceKey p)) projected)))))"

end
