(* ===== verification/Calendar_Rules.thy ===== *)
theory Calendar_Rules imports Calendar_Recurrence begin

section \<open>Typed rules and their text\<close>

text \<open>
  The calendar module writes a typed rule as RRULE text, and the bounded engine reads that text
  back.  The writer and the reader were written apart; here they are compared.
\<close>

subsection \<open>Reading a list of properties back\<close>

definition plain_text :: "string \<Rightarrow> bool" where
  "plain_text s \<longleftrightarrow> list_all (\<lambda>c. visible_ascii c \<and> \<not> is_lower c) s"

definition safe_char :: "char \<Rightarrow> bool" where
  "safe_char c \<longleftrightarrow> visible_ascii c \<and> \<not> is_lower c \<and> c \<noteq> CHR '';''"

definition safe_text :: "string \<Rightarrow> bool" where
  "safe_text s \<longleftrightarrow> list_all safe_char s"

lemma plain_text_simps [simp]:
  "plain_text []" "plain_text (c # s) \<longleftrightarrow> visible_ascii c \<and> \<not> is_lower c \<and> plain_text s"
  "plain_text (s @ t) \<longleftrightarrow> plain_text s \<and> plain_text t"
  by (simp_all add: plain_text_def)

lemma safe_text_simps [simp]:
  "safe_text []" "safe_text (c # s) \<longleftrightarrow> safe_char c \<and> safe_text s" "safe_text (s @ t) \<longleftrightarrow> safe_text s \<and> safe_text t"
  by (simp_all add: safe_text_def)

lemma safe_plain: "safe_text s \<Longrightarrow> plain_text s"
  by (auto simp: safe_text_def plain_text_def safe_char_def list_all_iff)

lemma safe_digit: "is_digit c \<Longrightarrow> safe_char c"
  by (auto simp: safe_char_def is_digit_visible is_digit_def is_lower_def less_eq_char_def)

lemma safe_digits: "list_all is_digit s \<Longrightarrow> safe_text s"
  by (auto simp: safe_text_def list_all_iff safe_digit)

lemma safe_itoa: "safe_text (itoa n)"
  using format_uint_digits by (auto simp: itoa_def safe_digits) (simp_all add: safe_char_def is_lower_def less_eq_char_def)

lemma join_with_Cons: "xs \<noteq> [] \<Longrightarrow> join_with sep (x # xs) = x @ sep @ join_with sep xs"
  by (cases xs) (simp_all add: join_with_def)

lemma join_with_single [simp]: "join_with sep [x] = x" "join_with sep [] = []"
  by (simp_all add: join_with_def)

lemma safe_join: "safe_text sep \<Longrightarrow> \<forall>x\<in>set xs. safe_text x \<Longrightarrow> safe_text (join_with sep xs)"
  by (induction xs rule: induct_list012) (simp_all add: join_with_Cons)

lemma length_join: "length (join_with [d] xs) \<le> sum_list (map (\<lambda>x. length x + 1) xs)"
  by (induction xs rule: induct_list012) (simp_all add: join_with_Cons)

lemma plain_join: "plain_text sep \<Longrightarrow> \<forall>x\<in>set xs. plain_text x \<Longrightarrow> plain_text (join_with sep xs)"
  by (induction xs rule: induct_list012) (simp_all add: join_with_Cons)

lemma to_upper_plain: "plain_text s \<Longrightarrow> to_upper s = s"
proof (induction s rule: to_upper.induct)
  case (3 c d s)
  then have "c \<noteq> CHR 0xC4" "c \<noteq> CHR 0xC5" by (auto simp: visible_ascii_def less_eq_char_def)
  with 3 show ?case by (simp add: ascii_upper_def)
qed (simp_all add: ascii_upper_def)

definition property_text :: "string \<times> string \<Rightarrow> string" where
  "property_text p = fst p @ ''='' @ snd p"

lemma split_first_text: "d \<notin> set k \<Longrightarrow> split_first d (k @ d # v) = Some (k, v)"
  by (induction k) auto

definition good_property :: "string \<times> string \<Rightarrow> bool" where
  "good_property p \<longleftrightarrow> fst p \<in> set allowedProperties \<and> snd p \<noteq> [] \<and> safe_text (snd p)"

lemma allowed_key: "k \<in> set allowedProperties \<Longrightarrow> safe_text k \<and> k \<noteq> [] \<and> CHR ''='' \<notin> set k"
  by (auto simp: allowedProperties_def safe_char_def is_lower_def visible_ascii_def less_eq_char_def)

lemma good_property_text:
  assumes "good_property p"
  shows "safe_text (property_text p)" and "CHR '';'' \<notin> set (property_text p)"
proof -
  show s: "safe_text (property_text p)"
    using assms allowed_key[of "fst p"]
    by (simp add: property_text_def good_property_def) (simp add: safe_char_def is_lower_def visible_ascii_def less_eq_char_def)
  then show "CHR '';'' \<notin> set (property_text p)" by (auto simp: safe_text_def safe_char_def list_all_iff)
qed

lemma add_properties:
  "\<forall>p\<in>set ps. good_property p \<Longrightarrow> distinct (map fst (seen @ ps)) \<Longrightarrow>
   fold_res add_property seen (map property_text ps) = Inr (seen @ ps)"
proof (induction ps arbitrary: seen)
  case (Cons p ps)
  have k: "fst p \<in> set allowedProperties" "snd p \<noteq> []" using Cons.prems(1) by (simp_all add: good_property_def)
  have "split_first (CHR ''='') (property_text p) = Some (fst p, snd p)"
    using allowed_key[OF k(1)] by (simp add: property_text_def split_first_text)
  moreover have "map_of seen (fst p) = None" using Cons.prems(2) by (auto simp: map_of_eq_None_iff)
  ultimately have "add_property seen (property_text p) = Inr (seen @ [p])"
    using k allowed_key[OF k(1)] by (cases p) (simp add: add_property_def)
  with Cons.IH[of "seen @ [p]"] Cons.prems show ?case by simp
qed simp

lemma parse_properties_text:
  assumes "ps \<noteq> []" and "\<forall>p\<in>set ps. good_property p" and "distinct (map fst ps)"
    and "fst (hd ps) = ''FREQ''" and "length (join_with '';'' (map property_text ps)) \<le> maxRuleBytes"
  shows "parseProperties (join_with '';'' (map property_text ps)) = Inr (join_with '';'' (map property_text ps), ps)"
proof -
  define t where "t = join_with '';'' (map property_text ps)"
  obtain v qs where ps: "ps = (''FREQ'', v) # qs" using assms(1,4) by (cases ps) auto
  have start: "\<exists>r. t = ''FREQ='' @ r"
    by (cases qs) (simp_all add: t_def ps join_with_Cons property_text_def)
  have plain: "plain_text t"
    unfolding t_def using assms(2) good_property_text(1) safe_plain
    by (intro plain_join) (auto simp: visible_ascii_def is_lower_def less_eq_char_def)
  then have vis: "list_all visible_ascii t" and up: "to_upper t = t"
    by (simp_all add: to_upper_plain) (simp add: plain_text_def list_all_iff)
  have split: "split_on (CHR '';'') t = map property_text ps"
    unfolding t_def by (rule split_on_join) (use assms(1,2) good_property_text in auto)
  have "map_of ps ''FREQ'' \<noteq> None" by (simp add: ps)
  moreover have "strip_prefix ''RRULE:'' t = None" using start by auto
  moreover have "t \<noteq> []" using start by auto
  ultimately show ?thesis
    using assms(5) vis up split add_properties[of ps "[]"] assms(2,3)
    by (simp add: parseProperties_def t_def[symmetric] trim_space_visible Let_def)
qed

subsection \<open>The properties of a typed rule\<close>

definition rule_interval :: "recurrence_rule \<Rightarrow> int" where
  "rule_interval rule = (if rr_Interval rule = 0 then 1 else rr_Interval rule)"

definition optional_property :: "string \<Rightarrow> 'a list \<Rightarrow> string \<Rightarrow> properties" where
  "optional_property key values text = (if values = [] then [] else [(key, text)])"

definition end_property :: "rule_end \<Rightarrow> string \<times> string" where
  "end_property e = (if re_Type e = EndAfterCount then (''COUNT'', itoa (re_Count e))
     else (''UNTIL'', filter (\<lambda>c. c \<noteq> CHR ''-'') (trim_space (re_Date e)) @ ''T235959''))"

definition rule_properties :: "recurrence_rule \<Rightarrow> properties" where
  "rule_properties rule =
     [(''FREQ'', to_upper (rr_Frequency rule)), (''INTERVAL'', itoa (rule_interval rule))] @
     optional_property ''BYDAY'' (rr_Weekdays rule) (join_with '','' (sort_key weekday_rank (rr_Weekdays rule))) @
     optional_property ''BYMONTHDAY'' (rr_MonthDays rule) (join_with '','' (map itoa (sort (rr_MonthDays rule)))) @
     optional_property ''BYMONTH'' (rr_Months rule) (join_with '','' (map itoa (sort (rr_Months rule)))) @
     [end_property (rr_End rule)]"

definition weekday_names :: "string list" where
  "weekday_names = [''MO'', ''TU'', ''WE'', ''TH'', ''FR'', ''SA'', ''SU'']"

text \<open>What \<open>canonicalRRULE\<close> checks.\<close>

definition good_rule :: "recurrence_rule \<Rightarrow> bool" where
  "good_rule rule \<longleftrightarrow>
     to_upper (rr_Frequency rule) \<in> {''DAILY'', ''WEEKLY'', ''MONTHLY'', ''YEARLY''} \<and>
     1 \<le> rule_interval rule \<and> rule_interval rule \<le> 366 \<and>
     set (rr_Weekdays rule) \<subseteq> set weekday_names \<and> distinct (rr_Weekdays rule) \<and>
     set (rr_MonthDays rule) \<subseteq> {-31..31} - {0} \<and> distinct (rr_MonthDays rule) \<and>
     set (rr_Months rule) \<subseteq> {1..12} \<and> distinct (rr_Months rule) \<and>
     (re_Type (rr_End rule) = EndAfterCount \<and> 1 \<le> re_Count (rr_End rule) \<and> re_Count (rr_End rule) \<le> MaxOccurrences \<or>
      re_Type (rr_End rule) = EndOnDate \<and> parse_date (trim_space (re_Date (rr_End rule))) \<noteq> None)"

lemma weekdayOrder_names: "weekdayOrder v \<noteq> None \<longleftrightarrow> v \<in> set weekday_names"
  by (auto simp: weekdayOrder_def weekday_names_def)

lemma canonicalWeekdays_Inr:
  "canonicalWeekdays ws = Inr t \<Longrightarrow> set ws \<subseteq> set weekday_names \<and> distinct ws \<and>
    t = join_with '','' (sort_key weekday_rank ws)"
  by (auto simp: canonicalWeekdays_def Let_def list_ex_iff weekdayOrder_names[symmetric] split: if_split_asm)

lemma canonicalIntegers_Inr:
  "canonicalIntegers xs low high neg = Inr t \<Longrightarrow> set xs \<subseteq> {low..high} - {0} \<and> distinct xs \<and>
    t = join_with '','' (map itoa (sort xs))"
  by (auto simp: canonicalIntegers_def Let_def list_ex_iff split: if_split_asm)

lemma optional_part_Inr:
  "optional_part (key @ ''='') xs r = Inr parts \<Longrightarrow>
    \<exists>t. (xs \<noteq> [] \<longrightarrow> r = Inr t) \<and> parts = map property_text (optional_property key xs t)"
  by (auto simp: optional_part_def optional_property_def property_text_def split: if_split_asm)

lemma end_part_Inr:
  "end_part e = Inr t \<Longrightarrow> t = property_text (end_property e) \<and>
    (re_Type e = EndAfterCount \<and> 1 \<le> re_Count e \<and> re_Count e \<le> MaxOccurrences \<or>
     re_Type e = EndOnDate \<and> parse_date (trim_space (re_Date e)) \<noteq> None)"
  by (auto simp: end_part_def end_property_def property_text_def split: end_type.split_asm if_split_asm option.split_asm)

lemma canonicalRRULE_text:
  assumes "canonicalRRULE rule = Inr text"
  shows "good_rule rule" and "text = join_with '';'' (map property_text (rule_properties rule))"
proof -
  obtain days monthdays months ending where parts:
    "optional_part ''BYDAY='' (rr_Weekdays rule) (canonicalWeekdays (rr_Weekdays rule)) = Inr days"
    "optional_part ''BYMONTHDAY='' (rr_MonthDays rule) (canonicalIntegers (rr_MonthDays rule) (-31) 31 True) = Inr monthdays"
    "optional_part ''BYMONTH='' (rr_Months rule) (canonicalIntegers (rr_Months rule) 1 12 False) = Inr months"
    "end_part (rr_End rule) = Inr ending"
    and head: "to_upper (rr_Frequency rule) \<in> {''DAILY'', ''WEEKLY'', ''MONTHLY'', ''YEARLY''}"
      "1 \<le> rule_interval rule" "rule_interval rule \<le> 366"
    and whole: "text = join_with '';'' ([''FREQ='' @ to_upper (rr_Frequency rule), ''INTERVAL='' @ itoa (rule_interval rule)] @
      days @ monthdays @ months @ [ending])"
    using assms by (auto simp: canonicalRRULE_def Let_def rule_interval_def split: if_split_asm)
  obtain d where d: "rr_Weekdays rule \<noteq> [] \<longrightarrow> canonicalWeekdays (rr_Weekdays rule) = Inr d"
    "days = map property_text (optional_property ''BYDAY'' (rr_Weekdays rule) d)"
    using optional_part_Inr[of "''BYDAY''"] parts(1) by fastforce
  obtain md where md: "rr_MonthDays rule \<noteq> [] \<longrightarrow> canonicalIntegers (rr_MonthDays rule) (-31) 31 True = Inr md"
    "monthdays = map property_text (optional_property ''BYMONTHDAY'' (rr_MonthDays rule) md)"
    using optional_part_Inr[of "''BYMONTHDAY''"] parts(2) by fastforce
  obtain m where m: "rr_Months rule \<noteq> [] \<longrightarrow> canonicalIntegers (rr_Months rule) 1 12 False = Inr m"
    "months = map property_text (optional_property ''BYMONTH'' (rr_Months rule) m)"
    using optional_part_Inr[of "''BYMONTH''"] parts(3) by fastforce
  note e = end_part_Inr[OF parts(4)]
  have w: "set (rr_Weekdays rule) \<subseteq> set weekday_names \<and> distinct (rr_Weekdays rule) \<and>
      optional_property ''BYDAY'' (rr_Weekdays rule) d =
      optional_property ''BYDAY'' (rr_Weekdays rule) (join_with '','' (sort_key weekday_rank (rr_Weekdays rule)))"
    using d(1) canonicalWeekdays_Inr[of "rr_Weekdays rule" d] by (cases "rr_Weekdays rule = []") (simp_all add: optional_property_def)
  have x: "set (rr_MonthDays rule) \<subseteq> {-31..31} - {0} \<and> distinct (rr_MonthDays rule) \<and>
      optional_property ''BYMONTHDAY'' (rr_MonthDays rule) md =
      optional_property ''BYMONTHDAY'' (rr_MonthDays rule) (join_with '','' (map itoa (sort (rr_MonthDays rule))))"
    using md(1) canonicalIntegers_Inr[of "rr_MonthDays rule" "-31" 31 True md] by (cases "rr_MonthDays rule = []") (simp_all add: optional_property_def)
  have y: "set (rr_Months rule) \<subseteq> {1..12} \<and> distinct (rr_Months rule) \<and>
      optional_property ''BYMONTH'' (rr_Months rule) m =
      optional_property ''BYMONTH'' (rr_Months rule) (join_with '','' (map itoa (sort (rr_Months rule))))"
    using m(1) canonicalIntegers_Inr[of "rr_Months rule" 1 12 False m] by (cases "rr_Months rule = []") (auto simp: optional_property_def)
  show "good_rule rule" using head w x y e by (simp add: good_rule_def)
  show "text = join_with '';'' (map property_text (rule_properties rule))"
    using w x y e by (simp add: whole d(2) md(2) m(2) rule_properties_def property_text_def)
qed

subsection \<open>They are read back\<close>

text \<open>A date that \<open>time.Parse\<close> accepts has ten characters.\<close>

lemma get_num_fixed: "get_num True s = Some (n, r) \<Longrightarrow>
    \<exists>c d. s = c # d # r \<and> is_digit c \<and> is_digit d \<and> n = 10 * int (digit_value c) + int (digit_value d)"
  by (cases "(True, s)" rule: get_num.cases) (auto split: if_split_asm)

lemma get_date_text:
  assumes "get_date [sep] s = Some ((y, m, d), r)"
  shows "\<exists>ys ms ds. s = ys @ [sep] @ ms @ [sep] @ ds @ r \<and> length ys = 4 \<and> length ms = 2 \<and> length ds = 2 \<and>
    list_all is_digit (ys @ ms @ ds) \<and> (\<forall>t. get_date [] (ys @ ms @ ds @ t) = Some ((y, m, d), t))"
proof -
  obtain s1 s2 s3 s4 where g: "get_year s = Some (y, s1)" "strip_prefix [sep] s1 = Some s2"
    "get_range True 1 12 s2 = Some (m, s3)" "strip_prefix [sep] s3 = Some s4" "get_num True s4 = Some (d, r)"
    using assms by (auto simp: get_date_def split: Option.bind_split_asm)
  obtain a b where m: "s2 = a # b # s3" "is_digit a" "is_digit b" "m = 10 * int (digit_value a) + int (digit_value b)" "1 \<le> m" "m \<le> 12"
    using g(3) get_num_fixed by (fastforce simp: get_range_def split: Option.bind_split_asm if_split_asm)
  obtain c e where d: "s4 = c # e # r" "is_digit c" "is_digit e" "d = 10 * int (digit_value c) + int (digit_value e)"
    using get_num_fixed[OF g(5)] by blast
  have y: "4 \<le> length s" "list_all is_digit (take 4 s)" "y = int (digits_value (take 4 s))" "s1 = drop 4 s"
    using g(1) by (auto simp: get_year_def split: if_split_asm)
  have rest: "s1 = [sep] @ [a, b] @ [sep] @ [c, e] @ r" using g(2,4) m(1) d(1) by (simp add: strip_prefix_Some)
  then have "s = take 4 s @ [sep] @ [a, b] @ [sep] @ [c, e] @ r" by (metis append_take_drop_id y(4))
  moreover have "get_date [] (take 4 s @ [a, b] @ [c, e] @ t) = Some ((y, m, d), t)" for t
    using y m d by (simp add: get_date_def get_year_def get_range_def)
  ultimately show ?thesis using y(1,2) m d
    by (intro exI[of _ "take 4 s"] exI[of _ "[a, b]"] exI[of _ "[c, e]"]) simp
qed

lemma until_text:
  assumes "parse_date s = Some v"
  shows "list_all is_digit (filter (\<lambda>c. c \<noteq> CHR ''-'') s)" and "length (filter (\<lambda>c. c \<noteq> CHR ''-'') s) = 8"
    and "parse_layout [] [] [] (filter (\<lambda>c. c \<noteq> CHR ''-'') s @ ''T235959'') =
      Some (v\<lparr>cv_Hour := 23, cv_Minute := 59, cv_Second := 59\<rparr>)"
proof -
  obtain y m d r where p: "get_date [CHR ''-''] s = Some ((y, m, d), r)" "r = []" "day_valid y m d"
    "v = \<lparr>cv_Year = y, cv_Month = m, cv_Day = d, cv_Hour = 0, cv_Minute = 0, cv_Second = 0\<rparr>"
    using assms by (auto simp: parse_date_def split: Option.bind_split_asm if_split_asm)
  obtain ys ms ds where t: "s = ys @ [CHR ''-''] @ ms @ [CHR ''-''] @ ds @ r" "length ys = 4" "length ms = 2" "length ds = 2"
    "list_all is_digit (ys @ ms @ ds)" "\<And>t. get_date [] (ys @ ms @ ds @ t) = Some ((y, m, d), t)"
    using get_date_text[OF p(1)] by blast
  have "filter (\<lambda>c. c \<noteq> CHR ''-'') (ys @ ms @ ds) = ys @ ms @ ds"
    using t(5) digit_not_sign by (auto simp: filter_id_conv list_all_iff)
  then have f: "filter (\<lambda>c. c \<noteq> CHR ''-'') s = ys @ ms @ ds" using t(1) p(2) by simp
  have clock: "get_clock [] ''235959'' = Some ((23, 59, 59), [])" by code_simp
  show "list_all is_digit (filter (\<lambda>c. c \<noteq> CHR ''-'') s)" "length (filter (\<lambda>c. c \<noteq> CHR ''-'') s) = 8"
    unfolding f using t(2-5) by simp_all
  show "parse_layout [] [] [] (filter (\<lambda>c. c \<noteq> CHR ''-'') s @ ''T235959'') =
      Some (v\<lparr>cv_Hour := 23, cv_Minute := 59, cv_Second := 59\<rparr>)"
    using t(6)[of "''T235959''"] p(3) clock by (simp add: f parse_layout_def p(4))
qed

lemma add_weekdays:
  "set xs \<subseteq> set weekday_names \<Longrightarrow> distinct (seen @ xs) \<Longrightarrow> fold_res add_weekday seen xs = Inr (seen @ xs)"
proof (induction xs arbitrary: seen)
  case (Cons x xs)
  then have "add_weekday seen x = Inr (seen @ [x])"
    by (auto simp: add_weekday_def isWeekday_def weekday_names_def)
  with Cons show ?case by simp
qed simp

lemma distinct_length_le: "distinct xs \<Longrightarrow> set xs \<subseteq> A \<Longrightarrow> finite A \<Longrightarrow> length xs \<le> card A"
  by (metis card_mono distinct_card)

lemma weekday_no_comma: "x \<in> set weekday_names \<Longrightarrow> CHR '','' \<notin> set x \<and> safe_text x \<and> length x = 2"
  by (auto simp: weekday_names_def safe_char_def visible_ascii_def is_lower_def less_eq_char_def)

lemma validateWeekdays_join:
  assumes "xs \<noteq> []" and "set xs \<subseteq> set weekday_names" and "distinct xs"
  shows "validateWeekdays (join_with '','' xs) = Inr ()"
proof -
  have "split_on (CHR '','') (join_with '','' xs) = xs"
    by (rule split_on_join) (use assms weekday_no_comma in auto)
  moreover have "length xs \<le> 7"
    using distinct_length_le[OF assms(3,2)] card_length[of weekday_names] by (simp add: weekday_names_def)
  ultimately show ?thesis
    using assms add_weekdays[of xs "[]"] by (simp add: validateWeekdays_def)
qed

lemma add_integers:
  "\<forall>n\<in>set ns. low \<le> n \<and> n \<le> high \<and> (reject \<longrightarrow> n \<noteq> 0) \<and> \<bar>n\<bar> < 1000 \<Longrightarrow> distinct (seen @ ns) \<Longrightarrow>
   fold_res (add_integer low high reject) seen (map itoa ns) = Inr (seen @ ns)"
proof (induction ns arbitrary: seen)
  case (Cons n ns)
  then have "atoi (itoa n) = Some n" by (intro atoi_itoa) auto
  with Cons.prems have "add_integer low high reject seen (itoa n) = Inr (seen @ [n])"
    by (simp add: add_integer_def)
  with Cons show ?case by simp
qed simp

lemma itoa_chars: "c \<in> set (itoa n) \<Longrightarrow> is_digit c \<or> c = CHR ''-''"
  using format_uint_digits by (auto simp: itoa_def list_all_iff split: if_split_asm)

lemma itoa_no_comma: "CHR '','' \<notin> set (itoa n)"
  using itoa_chars[of "CHR '',''" n] by (auto simp: is_digit_def less_eq_char_def)

lemma validateIntegerList_join:
  assumes "ns \<noteq> []" and "\<forall>n\<in>set ns. low \<le> n \<and> n \<le> high \<and> (reject \<longrightarrow> n \<noteq> 0) \<and> \<bar>n\<bar> < 1000" and "distinct ns"
  shows "validateIntegerList (join_with '','' (map itoa ns)) low high reject maxItems =
    (if length ns \<le> maxItems then Inr () else Inl ErrInvalidRule)"
proof -
  have "split_on (CHR '','') (join_with '','' (map itoa ns)) = map itoa ns"
    by (rule split_on_join) (use assms(1) itoa_no_comma in auto)
  then show ?thesis
    using assms add_integers[of ns low high reject "[]"] by (simp add: validateIntegerList_def)
qed

lemma boundedPositiveInteger_itoa:
  assumes "1 \<le> n" and "n \<le> maximum" and "maximum < 1000"
  shows "boundedPositiveInteger (itoa n) maximum = Inr n"
proof -
  have "atoi (itoa n) = Some n" using assms by (intro atoi_itoa) auto
  moreover have "itoa n \<noteq> [] \<and> list_all is_digit (itoa n)"
    using assms(1) format_uint_digits by (simp add: itoa_def)
  ultimately show ?thesis using assms by (simp add: boundedPositiveInteger_def)
qed

lemma sort_eq_Nil: "sort_key f xs = [] \<longleftrightarrow> xs = []"
  by (metis set_empty set_sort)

definition end_count :: "rule_end \<Rightarrow> int option" where
  "end_count e = (if re_Type e = EndAfterCount then Some (re_Count e) else None)"

lemma lookup_rule:
  "map_of (rule_properties rule) ''FREQ'' = Some (to_upper (rr_Frequency rule))"
  "map_of (rule_properties rule) ''INTERVAL'' = Some (itoa (rule_interval rule))"
  "map_of (rule_properties rule) ''WKST'' = None"
  "map_of (rule_properties rule) ''BYDAY'' =
    (if rr_Weekdays rule = [] then None else Some (join_with '','' (sort_key weekday_rank (rr_Weekdays rule))))"
  "map_of (rule_properties rule) ''BYMONTHDAY'' =
    (if rr_MonthDays rule = [] then None else Some (join_with '','' (map itoa (sort (rr_MonthDays rule)))))"
  "map_of (rule_properties rule) ''BYMONTH'' =
    (if rr_Months rule = [] then None else Some (join_with '','' (map itoa (sort (rr_Months rule)))))"
  "map_of (rule_properties rule) ''COUNT'' =
    (if re_Type (rr_End rule) = EndAfterCount then Some (itoa (re_Count (rr_End rule))) else None)"
  "map_of (rule_properties rule) ''UNTIL'' =
    (if re_Type (rr_End rule) = EndAfterCount then None
     else Some (filter (\<lambda>c. c \<noteq> CHR ''-'') (trim_space (re_Date (rr_End rule))) @ ''T235959''))"
  by (simp_all add: rule_properties_def optional_property_def end_property_def)

lemma validate_rule:
  assumes "good_rule rule"
  shows "validateProperties (rule_properties rule) =
    (if length (rr_MonthDays rule) \<le> 31 then Inr (end_count (rr_End rule)) else Inl ErrInvalidRule)"
proof -
  note g = assms[unfolded good_rule_def]
  have freq: "validateFrequency (to_upper (rr_Frequency rule)) = Inr ()" using g by (auto simp: validateFrequency_def)
  have interval: "boundedPositiveInteger (itoa (rule_interval rule)) maxInterval = Inr (rule_interval rule)"
    using g by (intro boundedPositiveInteger_itoa) (auto simp: maxInterval_def)
  have days: "rr_Weekdays rule \<noteq> [] \<Longrightarrow> validateWeekdays (join_with '','' (sort_key weekday_rank (rr_Weekdays rule))) = Inr ()"
    using g by (intro validateWeekdays_join) (auto simp: sort_eq_Nil)
  have monthdays: "rr_MonthDays rule \<noteq> [] \<Longrightarrow> validateIntegerList (join_with '','' (map itoa (sort (rr_MonthDays rule)))) (-31) 31 True 31 =
      (if length (rr_MonthDays rule) \<le> 31 then Inr () else Inl ErrInvalidRule)"
    using g validateIntegerList_join[of "sort (rr_MonthDays rule)" "-31" 31 True 31] by (force simp: sort_eq_Nil)
  have few: "length (rr_Months rule) \<le> 12"
    using g distinct_length_le[of "rr_Months rule" "{1..12}"] by simp
  have months: "rr_Months rule \<noteq> [] \<Longrightarrow> validateIntegerList (join_with '','' (map itoa (sort (rr_Months rule)))) 1 12 False 12 = Inr ()"
    using g few validateIntegerList_join[of "sort (rr_Months rule)" 1 12 False 12] by (force simp: sort_eq_Nil)
  have count: "re_Type (rr_End rule) = EndAfterCount \<Longrightarrow> boundedPositiveInteger (itoa (re_Count (rr_End rule))) MaxOccurrences = Inr (re_Count (rr_End rule))"
    using g by (intro boundedPositiveInteger_itoa) (auto simp: MaxOccurrences_def)
  show ?thesis
    unfolding validateProperties_def lookup_rule validateOptional_def
    using freq interval days monthdays months count by (auto simp: end_count_def)
qed

lemma length_itoa: "\<bar>n\<bar> < 1000 \<Longrightarrow> length (itoa n) \<le> 4"
proof -
  assume "\<bar>n\<bar> < 1000"
  then have "length (format_uint (nat n)) \<le> 3" "length (format_uint (nat (- n))) \<le> 3"
    by (auto intro!: length_format_uint)
  then show ?thesis by (simp add: itoa_def)
qed

lemma length_join_bound:
  assumes "\<forall>x\<in>set xs. length x \<le> m"
  shows "length (join_with [d] xs) \<le> length xs * (m + 1)"
proof -
  have "sum_list (map (\<lambda>x. length x + 1) xs) \<le> length xs * (m + 1)" using assms by (induction xs) auto
  with length_join[of d xs] show ?thesis by simp
qed

lemma end_property_good:
  assumes "good_rule rule"
  shows "good_property (end_property (rr_End rule))" and "length (property_text (end_property (rr_End rule))) \<le> 21"
proof -
  note g = assms[unfolded good_rule_def]
  have t: "safe_text ''T235959''" by (simp add: safe_char_def visible_ascii_def is_lower_def less_eq_char_def)
  show "good_property (end_property (rr_End rule))" "length (property_text (end_property (rr_End rule))) \<le> 21"
    using g until_text(1,2)[of "trim_space (re_Date (rr_End rule))"] safe_digits[of "filter (\<lambda>c. c \<noteq> CHR ''-'') (trim_space (re_Date (rr_End rule)))"]
      safe_itoa[of "re_Count (rr_End rule)"] length_itoa[of "re_Count (rr_End rule)"] t
    by (auto simp: good_property_def end_property_def property_text_def allowedProperties_def itoa_def MaxOccurrences_def
        simp del: safe_text_simps(2))
qed

lemma join_bounds:
  "set ws \<subseteq> set weekday_names \<Longrightarrow> distinct ws \<Longrightarrow> length (join_with '','' ws) \<le> 21"
  "set ns \<subseteq> {-31..31} \<Longrightarrow> distinct ns \<Longrightarrow> length (join_with '','' (map itoa ns)) \<le> 315"
proof -
  assume w: "set ws \<subseteq> set weekday_names" "distinct ws"
  then have "length ws \<le> 7"
    using distinct_length_le[OF w(2,1)] card_length[of weekday_names] by (simp add: weekday_names_def)
  moreover have "length (join_with '','' ws) \<le> length ws * (2 + 1)"
    by (rule length_join_bound) (use w weekday_no_comma in auto)
  ultimately show "length (join_with '','' ws) \<le> 21" by simp
next
  assume n: "set ns \<subseteq> {-31..31}" "distinct ns"
  then have "length ns \<le> 63" using distinct_length_le[OF n(2,1)] by simp
  moreover have "length (join_with '','' (map itoa ns)) \<le> length (map itoa ns) * (4 + 1)"
    by (rule length_join_bound) (use n in \<open>force intro!: length_itoa\<close>)
  ultimately show "length (join_with '','' (map itoa ns)) \<le> 315" by simp
qed

lemma optional_good:
  assumes "key \<in> set allowedProperties" and "xs \<noteq> [] \<Longrightarrow> safe_text t \<and> t \<noteq> []"
  shows "\<forall>p\<in>set (optional_property key xs t). good_property p"
  using assms by (simp add: optional_property_def good_property_def)

lemma comma_safe: "safe_text '',''"
  by (simp add: safe_char_def visible_ascii_def is_lower_def less_eq_char_def)

lemma rule_properties_good:
  assumes "good_rule rule"
  shows "\<forall>p\<in>set (rule_properties rule). good_property p"
proof -
  note g = assms[unfolded good_rule_def]
  have f: "good_property (''FREQ'', to_upper (rr_Frequency rule))"
    using g by (auto simp: good_property_def allowedProperties_def safe_char_def visible_ascii_def is_lower_def less_eq_char_def)
  have i: "good_property (''INTERVAL'', itoa n)" for n
    using safe_itoa[of n] by (auto simp: good_property_def allowedProperties_def itoa_def)
  have ne: "itoa n \<noteq> []" for n by (simp add: itoa_def)
  have join_ne: "xs \<noteq> [] \<Longrightarrow> \<forall>x\<in>set xs. x \<noteq> [] \<Longrightarrow> join_with sep xs \<noteq> []" for sep xs
    by (cases xs) (auto simp: join_with_def)
  have d: "\<forall>p\<in>set (optional_property ''BYDAY'' (rr_Weekdays rule) (join_with '','' (sort_key weekday_rank (rr_Weekdays rule)))). good_property p"
  proof (intro optional_good conjI safe_join join_ne comma_safe ballI)
    show "''BYDAY'' \<in> set allowedProperties" by (simp add: allowedProperties_def)
    fix x assume "x \<in> set (sort_key weekday_rank (rr_Weekdays rule))"
    then have "x \<in> set weekday_names" using g by auto
    from weekday_no_comma[OF this] show "safe_text x" "x \<noteq> []" by auto
  qed (simp_all add: sort_eq_Nil)
  have n: "key \<in> set allowedProperties \<Longrightarrow> \<forall>p\<in>set (optional_property key xs (join_with '','' (map itoa (sort xs)))). good_property p"
    for key and xs :: "int list"
    by (intro optional_good conjI safe_join join_ne comma_safe) (auto simp: sort_eq_Nil safe_itoa ne)
  show ?thesis
    using f i d n[of "''BYMONTHDAY''"] n[of "''BYMONTH''"] end_property_good(1)[OF assms]
    by (auto simp: rule_properties_def allowedProperties_def)
qed

lemma rule_properties_distinct: "distinct (map fst (rule_properties rule))"
  by (simp add: rule_properties_def optional_property_def end_property_def)

lemma rule_text_length:
  assumes "good_rule rule"
  shows "length (join_with '';'' (map property_text (rule_properties rule))) \<le> maxRuleBytes"
proof -
  note g = assms[unfolded good_rule_def]
  have f: "length (to_upper (rr_Frequency rule)) \<le> 7" using g by auto
  have i: "length (itoa (rule_interval rule)) \<le> 4" using g by (intro length_itoa) auto
  have d: "length (join_with '','' (sort_key weekday_rank (rr_Weekdays rule))) \<le> 21"
    using g by (intro join_bounds(1)) auto
  have n: "length (join_with '','' (map itoa (sort (rr_MonthDays rule)))) \<le> 315"
    using g by (intro join_bounds(2)) auto
  have m: "length (join_with '','' (map itoa (sort (rr_Months rule)))) \<le> 60"
  proof -
    have "length (rr_Months rule) \<le> 12" using g distinct_length_le[of "rr_Months rule" "{1..12}"] by simp
    moreover have "length (join_with '','' (map itoa (sort (rr_Months rule)))) \<le> length (map itoa (sort (rr_Months rule))) * (4 + 1)"
      by (rule length_join_bound) (use g in \<open>force intro!: length_itoa\<close>)
    ultimately show ?thesis by simp
  qed
  have "sum_list (map (\<lambda>x. length x + 1) (map property_text (rule_properties rule))) \<le> 512"
    using f i d n m end_property_good(2)[OF assms] by (simp add: rule_properties_def optional_property_def property_text_def)
  with length_join[of "CHR '';''" "map property_text (rule_properties rule)"] show ?thesis by (simp add: maxRuleBytes_def)
qed

lemma written_rule_read:
  assumes "canonicalRRULE rule = Inr text"
  shows "parseProperties text = Inr (text, rule_properties rule)"
proof -
  note r = canonicalRRULE_text[OF assms]
  show ?thesis
    unfolding r(2)
    by (rule parse_properties_text)
      (use rule_properties_good[OF r(1)] rule_properties_distinct rule_text_length[OF r(1)] in \<open>auto simp: rule_properties_def\<close>)
qed

text \<open>C28.  A typed rule and its text agree: what the calendar module writes for a rule, the validator of
  the engine reads back as the same frequency, interval, weekdays, days of the month, months and end, in
  canonical order; it accepts the rule with its COUNT, unless it lists more than 31 days of the month,
  which the writer allows and the reader refuses; an end date reads back as the last second of that day.\<close>

theorem canonicalRRULE_reads_back:
  assumes "canonicalRRULE rule = Inr text"
  shows "parseProperties text = Inr (text, rule_properties rule) \<and>
    validateProperties (rule_properties rule) =
      (if length (rr_MonthDays rule) \<le> 31 then Inr (end_count (rr_End rule)) else Inl ErrInvalidRule) \<and>
    (\<forall>v. re_Type (rr_End rule) = EndOnDate \<and> parse_date (trim_space (re_Date (rr_End rule))) = Some v \<longrightarrow>
      parseUntil (the (map_of (rule_properties rule) ''UNTIL'')) loc policy =
        resolveCivil (v\<lparr>cv_Hour := 23, cv_Minute := 59, cv_Second := 59\<rparr>) loc policy)"
proof -
  note r = canonicalRRULE_text[OF assms]
  have "parseProperties text = Inr (text, rule_properties rule)" by (rule written_rule_read[OF assms])
  moreover have "parseUntil (the (map_of (rule_properties rule) ''UNTIL'')) loc policy =
        resolveCivil (v\<lparr>cv_Hour := 23, cv_Minute := 59, cv_Second := 59\<rparr>) loc policy"
    if "re_Type (rr_End rule) = EndOnDate" "parse_date (trim_space (re_Date (rr_End rule))) = Some v" for v
    using until_text[OF that(2)] that(1) by (simp add: lookup_rule parseUntil_def)
  ultimately show ?thesis using validate_rule[OF r(1)] by blast
qed

definition weekly_rule :: recurrence_rule where
  "weekly_rule = \<lparr>rr_Frequency = ''weekly'', rr_Interval = 2, rr_Weekdays = [''WE'', ''MO''], rr_MonthDays = [], rr_Months = [],
     rr_End = \<lparr>re_Type = EndOnDate, re_Date = ''2026-12-31'', re_Count = 0\<rparr>\<rparr>"

theorem canonicalRRULE_reads_back_witness:
  "canonicalRRULE weekly_rule = Inr ''FREQ=WEEKLY;INTERVAL=2;BYDAY=MO,WE;UNTIL=20261231T235959'' \<and>
   parseProperties ''FREQ=WEEKLY;INTERVAL=2;BYDAY=MO,WE;UNTIL=20261231T235959'' =
     Inr (''FREQ=WEEKLY;INTERVAL=2;BYDAY=MO,WE;UNTIL=20261231T235959'',
       [(''FREQ'', ''WEEKLY''), (''INTERVAL'', ''2''), (''BYDAY'', ''MO,WE''), (''UNTIL'', ''20261231T235959'')])"
proof -
  have w: "canonicalRRULE weekly_rule = Inr ''FREQ=WEEKLY;INTERVAL=2;BYDAY=MO,WE;UNTIL=20261231T235959''" by code_simp
  have p: "rule_properties weekly_rule =
      [(''FREQ'', ''WEEKLY''), (''INTERVAL'', ''2''), (''BYDAY'', ''MO,WE''), (''UNTIL'', ''20261231T235959'')]" by code_simp
  show ?thesis using canonicalRRULE_reads_back[OF w] w unfolding p by blast
qed

end
