(* ===== verification/Calendar_Expansion.thy ===== *)
theory Calendar_Expansion imports Calendar_Series Calendar_Rules "HOL-Library.Multiset" begin

section \<open>Properties of series, their occurrences and their exceptions\<close>

text \<open>
  What the expansion of a compiled series finds, that an occurrence keeps the wall clock of its
  series across changes of the offset, and what the exceptions of a series make of it.
\<close>

subsection \<open>The loop of the expansion\<close>

text \<open>The n-th candidate of the iterator, as the loop reads it.\<close>

definition nth_occurrence ::
  "(string \<Rightarrow> string) \<Rightarrow> 'o rrule_library \<Rightarrow> 'o recurrence_plan \<Rightarrow> nat \<Rightarrow> (recurrence_error + occurrence) option" where
  "nth_occurrence sha256 lib plan n = map_option (\<lambda>candidate. let v = candidate_civil plan candidate in
     try_res (resolveCivil v (pl_location plan) (rs_OverlapPolicy (pl_series plan)))
       (\<lambda>start. Inr (plan_occurrence sha256 plan v start))) (lib_next lib (pl_option plan) n)"

definition ends_after :: "time_window \<Rightarrow> occurrence \<Rightarrow> bool" where
  "ends_after window oc \<longleftrightarrow> wd_Start window < oc_EndsAt oc"

text \<open>The loop passed the candidates before the n-th and stopped there.\<close>

definition stops_at ::
  "(string \<Rightarrow> string) \<Rightarrow> 'o rrule_library \<Rightarrow> 'o recurrence_plan \<Rightarrow> time_window \<Rightarrow> nat \<Rightarrow> bool" where
  "stops_at sha256 lib plan window n \<longleftrightarrow> nth_occurrence sha256 lib plan n = None \<or>
     (\<exists>oc. nth_occurrence sha256 lib plan n = Some (Inr oc) \<and> wd_End window \<le> oc_StartsAt oc)"

definition passes ::
  "(string \<Rightarrow> string) \<Rightarrow> 'o rrule_library \<Rightarrow> 'o recurrence_plan \<Rightarrow> time_window \<Rightarrow> nat \<Rightarrow> occurrence \<Rightarrow> bool" where
  "passes sha256 lib plan window n oc \<longleftrightarrow> nth_occurrence sha256 lib plan n = Some (Inr oc) \<and>
     oc_StartsAt oc < wd_End window"

lemma plan_occurrence_fields [simp]:
  "oc_StartsAt (plan_occurrence sha256 plan v s) = s"
  "oc_EndsAt (plan_occurrence sha256 plan v s) = s + rs_Duration (pl_series plan)"
  "oc_OriginalLocal (plan_occurrence sha256 plan v s) = format_civil v"
  by (simp_all add: plan_occurrence_def)

lemma expand_loop_step:
  assumes "expand_loop sha256 lib ctx plan window limit (Suc k) i found = Inr result"
  shows "stops_at sha256 lib plan window i \<and> result = found \<or>
    (\<exists>oc. passes sha256 lib plan window i oc \<and>
      (ends_after window oc \<longrightarrow> int (length found) \<noteq> limit) \<and>
      expand_loop sha256 lib ctx plan window limit k (Suc i) (found @ filter (ends_after window) [oc]) = Inr result)"
  using assms
  by (auto simp: stops_at_def passes_def nth_occurrence_def ends_after_def Let_def
      split: option.split_asm if_split_asm)

lemma expand_loop_finds:
  assumes "expand_loop sha256 lib ctx plan window limit k i found = Inr result"
  shows "\<exists>ocs. length ocs < k \<and> (\<forall>j<length ocs. passes sha256 lib plan window (i + j) (ocs ! j)) \<and>
    stops_at sha256 lib plan window (i + length ocs) \<and> result = found @ filter (ends_after window) ocs \<and>
    (int (length found) \<le> limit \<longrightarrow> int (length result) \<le> limit)"
  using assms
proof (induction k arbitrary: i found)
  case (Suc k)
  from expand_loop_step[OF Suc.prems] show ?case
  proof (elim disjE exE conjE)
    assume "stops_at sha256 lib plan window i" "result = found"
    then show ?thesis by (intro exI[of _ "[]"]) simp
  next
    fix oc assume oc: "passes sha256 lib plan window i oc" "ends_after window oc \<longrightarrow> int (length found) \<noteq> limit"
      and rest: "expand_loop sha256 lib ctx plan window limit k (Suc i) (found @ filter (ends_after window) [oc]) = Inr result"
    obtain ocs where ocs: "length ocs < k" "\<forall>j<length ocs. passes sha256 lib plan window (Suc i + j) (ocs ! j)"
      "stops_at sha256 lib plan window (Suc i + length ocs)"
      "result = (found @ filter (ends_after window) [oc]) @ filter (ends_after window) ocs"
      "int (length (found @ filter (ends_after window) [oc])) \<le> limit \<longrightarrow> int (length result) \<le> limit"
      using Suc.IH[OF rest] by blast
    have "\<forall>j<length (oc # ocs). passes sha256 lib plan window (i + j) ((oc # ocs) ! j)"
      using oc(1) ocs(2) by (auto simp: less_Suc_eq_0_disj)
    moreover have "int (length found) \<le> limit \<longrightarrow> int (length result) \<le> limit"
      using oc(2) ocs(5) by (cases "ends_after window oc") simp_all
    ultimately show ?thesis using ocs by (intro exI[of _ "oc # ocs"]) simp
  qed
qed simp

lemma normalizeItemLimit_bounds: "normalizeItemLimit n = Inr limit \<Longrightarrow> 1 \<le> limit \<and> limit \<le> MaxOccurrences"
  by (auto simp: normalizeItemLimit_def MaxOccurrences_def split: if_split_asm)

lemma ExpandPlan_loop:
  assumes "ExpandPlan sha256 lib ctx plan window n = Inr found"
  obtains limit where "normalizeItemLimit n = Inr limit"
    "expand_loop sha256 lib ctx plan window limit MaxIterations 0 [] = Inr found"
  using assms by (auto simp: ExpandPlan_def split: option.split_asm if_split_asm)

subsection \<open>An example\<close>

text \<open>A daily class at nine, on the three days around the change of the clocks on 2026-10-25.\<close>

definition daily_library :: "instant rrule_library" where
  "daily_library = \<lparr>lib_StrToROption = (\<lambda>_ _. Some 0), lib_Dtstart = (\<lambda>t _. t), lib_Until = (\<lambda>_ option. option),
     lib_NewRRule = (\<lambda>_. True), lib_next = (\<lambda>option n. if n < 3 then Some (option + int n * 24 * time_Hour) else None)\<rparr>"

lemma daily_library_simps [simp]:
  "lib_StrToROption daily_library t loc = Some 0" "lib_Dtstart daily_library s option = s"
  "lib_Until daily_library u option = option" "lib_NewRRule daily_library option"
  "lib_next daily_library option n = (if n < 3 then Some (option + int n * 24 * time_Hour) else None)"
  by (simp_all add: daily_library_def)

definition autumn_zone :: "string \<Rightarrow> location option" where
  "autumn_zone name = (if name = ''Europe/Berlin'' then Some autumn_location else None)"

definition autumn_series :: recurrence_series where
  "autumn_series = \<lparr>rs_ID = ''s'', rs_StartLocal = ''2026-10-24T09:00:00'', rs_TimeZone = ''Europe/Berlin'',
     rs_Duration = 60 * time_Minute, rs_Rule = ''FREQ=DAILY;INTERVAL=1;COUNT=3'', rs_OverlapPolicy = OverlapReject\<rparr>"

definition autumn_start :: civil_time where
  "autumn_start = \<lparr>cv_Year = 2026, cv_Month = 10, cv_Day = 24, cv_Hour = 9, cv_Minute = 0, cv_Second = 0\<rparr>"

definition autumn_plan :: "instant recurrence_plan" where
  "autumn_plan = \<lparr>pl_series = autumn_series, pl_location = autumn_location, pl_startCivil = autumn_start,
     pl_start = 63928422000 * time_Second, pl_option = 63928422000 * time_Second\<rparr>"

definition autumn_window :: time_window where
  "autumn_window = \<lparr>wd_Start = 63928422000 * time_Second, wd_End = 63928422000 * time_Second + 72 * time_Hour\<rparr>"

lemma autumn_candidates:
  "candidate_civil autumn_plan (63928422000 * time_Second) = autumn_start"
  "candidate_civil autumn_plan (63928422000 * time_Second + 24 * time_Hour) = autumn_start\<lparr>cv_Day := 25\<rparr>"
  "candidate_civil autumn_plan (63928422000 * time_Second + 48 * time_Hour) = autumn_start\<lparr>cv_Day := 26\<rparr>"
  "resolveCivil autumn_start autumn_location OverlapReject = Inr (63928422000 * time_Second)"
  "resolveCivil (autumn_start\<lparr>cv_Day := 25\<rparr>) autumn_location OverlapReject = Inr (63928422000 * time_Second + 25 * time_Hour)"
  "resolveCivil (autumn_start\<lparr>cv_Day := 26\<rparr>) autumn_location OverlapReject = Inr (63928422000 * time_Second + 49 * time_Hour)"
  by code_simp+

definition daily_rule :: recurrence_rule where
  "daily_rule = \<lparr>rr_Frequency = ''daily'', rr_Interval = 1, rr_Weekdays = [], rr_MonthDays = [], rr_Months = [],
     rr_End = \<lparr>re_Type = EndAfterCount, re_Date = [], re_Count = 3\<rparr>\<rparr>"

lemma daily_rule_text: "canonicalRRULE daily_rule = Inr ''FREQ=DAILY;INTERVAL=1;COUNT=3''"
  by code_simp

lemma autumn_compiled: "CompileSeries daily_library autumn_zone autumn_series = Inr autumn_plan"
proof -
  have civil: "parse_civil ''2026-10-24T09:00:00'' = Some autumn_start" by code_simp
  have props: "rule_properties daily_rule = [(''FREQ'', ''DAILY''), (''INTERVAL'', ''1''), (''COUNT'', ''3'')]" by code_simp
  have parsed: "parseProperties ''FREQ=DAILY;INTERVAL=1;COUNT=3'' = Inr (''FREQ=DAILY;INTERVAL=1;COUNT=3'', rule_properties daily_rule)"
    by (rule written_rule_read[OF daily_rule_text])
  have valid: "validateProperties (rule_properties daily_rule) = Inr (Some 3)"
    using validate_rule[OF canonicalRRULE_text(1)[OF daily_rule_text]] by (simp add: daily_rule_def end_count_def)
  have horizon: "seriesHorizon autumn_start autumn_location OverlapReject = Inr (63991497600 * time_Second)" by code_simp
  have rule: "parseAndValidateRule daily_library ''FREQ=DAILY;INTERVAL=1;COUNT=3'' autumn_start (63928422000 * time_Second)
      autumn_location OverlapReject = Inr (63928422000 * time_Second)"
    unfolding parseAndValidateRule_def parsed try_res_simps prod.case valid horizon
    by (simp add: props validateCountHorizon_def Let_def list_ex_iff)
  show ?thesis
    by (simp add: CompileSeries_def autumn_series_def autumn_plan_def normalize_policy_def validOverlapPolicy_def
        autumn_zone_def civil autumn_candidates[unfolded time_units, simplified] rule[unfolded time_units, simplified] time_units)
qed

lemma autumn_expanded:
  "ExpandPlan (\<lambda>s. s) daily_library (\<lambda>_. None) autumn_plan autumn_window 0 = Inr
    [plan_occurrence (\<lambda>s. s) autumn_plan autumn_start (63928422000 * time_Second),
     plan_occurrence (\<lambda>s. s) autumn_plan (autumn_start\<lparr>cv_Day := 25\<rparr>) (63928422000 * time_Second + 25 * time_Hour),
     plan_occurrence (\<lambda>s. s) autumn_plan (autumn_start\<lparr>cv_Day := 26\<rparr>) (63928422000 * time_Second + 49 * time_Hour)]"
proof -
  note step = expand_loop.simps(2)[where k="pred_numeral k" for k, folded numeral_eq_Suc]
  have w: "validateWindow autumn_plan autumn_window = Inr ()" by code_simp
  have f: "pl_location autumn_plan = autumn_location" "rs_OverlapPolicy (pl_series autumn_plan) = OverlapReject"
    "rs_Duration (pl_series autumn_plan) = 60 * time_Minute" "pl_option autumn_plan = 63928422000 * time_Second"
    by (simp_all add: autumn_plan_def autumn_series_def)
  note c = autumn_candidates[unfolded time_units, simplified]
  show ?thesis
    unfolding ExpandPlan_def w
    by (simp add: autumn_window_def MaxIterations_def step normalizeItemLimit_def MaxOccurrences_def f Let_def time_units c)
qed

subsection \<open>What the expansion finds\<close>

text \<open>C26.  The expansion of a plan finds exactly the occurrences of the window: it reads the candidates
  of the rule in order up to the first that starts at or after the window's end (or the last of all),
  fewer than 2048 of them, keeps those that end after the window's start and leaves none of them out;
  they are within the limit asked for, which is at most 512.\<close>

theorem expansion_exact:
  assumes "ExpandPlan sha256 lib ctx plan window n = Inr found"
  shows "\<exists>ocs. length ocs < MaxIterations \<and>
    (\<forall>j<length ocs. nth_occurrence sha256 lib plan j = Some (Inr (ocs ! j)) \<and> oc_StartsAt (ocs ! j) < wd_End window) \<and>
    stops_at sha256 lib plan window (length ocs) \<and>
    found = filter (\<lambda>oc. wd_Start window < oc_EndsAt oc) ocs \<and>
    int (length found) \<le> (if n = 0 then MaxOccurrences else n) \<and> int (length found) \<le> MaxOccurrences"
proof -
  obtain limit where limit: "normalizeItemLimit n = Inr limit"
    and loop: "expand_loop sha256 lib ctx plan window limit MaxIterations 0 [] = Inr found"
    by (rule ExpandPlan_loop[OF assms])
  have "limit = (if n = 0 then MaxOccurrences else n)"
    using limit by (auto simp: normalizeItemLimit_def split: if_split_asm)
  with expand_loop_finds[OF loop] normalizeItemLimit_bounds[OF limit] show ?thesis
    by (fastforce simp: passes_def ends_after_def[abs_def])
qed

theorem expansion_exact_witness:
  "\<exists>ocs. length ocs < MaxIterations \<and> stops_at (\<lambda>s. s) daily_library autumn_plan autumn_window (length ocs) \<and>
     [plan_occurrence (\<lambda>s. s) autumn_plan autumn_start (63928422000 * time_Second),
      plan_occurrence (\<lambda>s. s) autumn_plan (autumn_start\<lparr>cv_Day := 25\<rparr>) (63928422000 * time_Second + 25 * time_Hour),
      plan_occurrence (\<lambda>s. s) autumn_plan (autumn_start\<lparr>cv_Day := 26\<rparr>) (63928422000 * time_Second + 49 * time_Hour)] =
     filter (\<lambda>oc. wd_Start autumn_window < oc_EndsAt oc) ocs"
  using expansion_exact[OF autumn_expanded] by blast

subsection \<open>Occurrences keep the clock of their series\<close>

lemma resolveCivil_shows: "resolveCivil v loc policy = Inr t \<Longrightarrow> civil_in loc t = v"
proof -
  assume r: "resolveCivil v loc policy = Inr t"
  have "set (civilCandidates v loc) \<subseteq> {t. civil_in loc t = v}" by (auto simp: civilCandidates_def reads_as_def Let_def)
  moreover have "t \<in> set (civilCandidates v loc)"
    using r by (auto simp: resolveCivil_def split: list.split_asm overlap_policy.split_asm)
  ultimately show ?thesis by blast
qed

lemma found_occurrence:
  assumes "ExpandPlan sha256 lib ctx plan window n = Inr found" and "oc \<in> set found"
  obtains candidate start where "oc = plan_occurrence sha256 plan (candidate_civil plan candidate) start"
    "resolveCivil (candidate_civil plan candidate) (pl_location plan) (rs_OverlapPolicy (pl_series plan)) = Inr start"
    "oc_StartsAt oc < wd_End window" "wd_Start window < oc_EndsAt oc"
proof -
  obtain limit where "expand_loop sha256 lib ctx plan window limit MaxIterations 0 [] = Inr found"
    by (rule ExpandPlan_loop[OF assms(1)])
  from expand_loop_finds[OF this] obtain ocs where ocs: "\<forall>j<length ocs. passes sha256 lib plan window j (ocs ! j)"
    "found = filter (ends_after window) ocs" by auto
  with assms(2) obtain j where "passes sha256 lib plan window j oc" "ends_after window oc"
    by (auto simp: in_set_conv_nth)
  then show thesis
    using that by (auto simp: passes_def ends_after_def nth_occurrence_def Let_def)
qed

lemma compiled_plan:
  assumes "CompileSeries lib tz series = Inr plan"
  shows "tz (rs_TimeZone series) = Some (pl_location plan)"
    and "parse_civil (rs_StartLocal series) = Some (pl_startCivil plan)"
    and "rs_Duration (pl_series plan) = rs_Duration series" and "rs_ID (pl_series plan) = rs_ID series"
    and "time_Minute \<le> rs_Duration series" and "rs_Duration series \<le> 24 * time_Hour"
  using assms by (auto simp: CompileSeries_def Let_def split: if_split_asm option.split_asm sum.split_asm)

lemma candidate_clock:
  "cv_Hour (candidate_civil plan c) = cv_Hour (pl_startCivil plan)"
  "cv_Minute (candidate_civil plan c) = cv_Minute (pl_startCivil plan)"
  "cv_Second (candidate_civil plan c) = cv_Second (pl_startCivil plan)"
  by (simp_all add: candidate_civil_def Let_def)

text \<open>C25.  A class that starts at nine starts at nine: whatever the rule's candidates and the zone's
  changes of offset are, the clock of the series' zone shows at each occurrence the hour, minute and
  second of the series' first start, and the local time of which the occurrence is the image; the
  occurrence lasts as long as the series says, and meets the window.\<close>

theorem occurrences_keep_wall_clock:
  assumes "CompileSeries lib tz series = Inr plan"
    and "ExpandPlan sha256 lib ctx plan window n = Inr found" and "oc \<in> set found"
  shows "\<exists>loc first. tz (rs_TimeZone series) = Some loc \<and> parse_civil (rs_StartLocal series) = Some first \<and>
    cv_Hour (civil_in loc (oc_StartsAt oc)) = cv_Hour first \<and>
    cv_Minute (civil_in loc (oc_StartsAt oc)) = cv_Minute first \<and>
    cv_Second (civil_in loc (oc_StartsAt oc)) = cv_Second first \<and>
    oc_OriginalLocal oc = format_civil (civil_in loc (oc_StartsAt oc)) \<and>
    oc_EndsAt oc = oc_StartsAt oc + rs_Duration series \<and>
    oc_StartsAt oc < wd_End window \<and> wd_Start window < oc_EndsAt oc"
proof -
  note plan = compiled_plan[OF assms(1)]
  obtain candidate start where oc: "oc = plan_occurrence sha256 plan (candidate_civil plan candidate) start"
    and r: "resolveCivil (candidate_civil plan candidate) (pl_location plan) (rs_OverlapPolicy (pl_series plan)) = Inr start"
    and window: "oc_StartsAt oc < wd_End window" "wd_Start window < oc_EndsAt oc"
    by (rule found_occurrence[OF assms(2,3)])
  show ?thesis
    using plan window resolveCivil_shows[OF r] by (simp add: oc candidate_clock)
qed

theorem occurrences_keep_wall_clock_witness:
  "cv_Hour (civil_in autumn_location (63928422000 * time_Second + 25 * time_Hour)) = 9"
proof -
  have l: "autumn_zone (rs_TimeZone autumn_series) = Some autumn_location"
    "parse_civil (rs_StartLocal autumn_series) = Some autumn_start"
    using compiled_plan(1,2)[OF autumn_compiled] by (simp_all add: autumn_plan_def)
  show ?thesis
    using occurrences_keep_wall_clock[OF autumn_compiled autumn_expanded,
        of "plan_occurrence (\<lambda>s. s) autumn_plan (autumn_start\<lparr>cv_Day := 25\<rparr>) (63928422000 * time_Second + 25 * time_Hour)"]
    by (simp add: l) (simp add: autumn_start_def)
qed

subsection \<open>Exceptions\<close>

text \<open>What the exceptions say of an occurrence.\<close>

definition cancelled :: "exception_projection list \<Rightarrow> string \<Rightarrow> bool" where
  "cancelled exceptions key \<longleftrightarrow> (\<exists>e\<in>set exceptions. trim_space (xj_OccurrenceKey e) = key \<and> xj_Type e = ExceptionCancel)"

definition overridden :: "exception_projection list \<Rightarrow> string \<Rightarrow> bool" where
  "overridden exceptions key \<longleftrightarrow> (\<exists>e\<in>set exceptions. trim_space (xj_OccurrenceKey e) = key \<and> xj_Type e = ExceptionOverride)"

lemma add_exception_entry:
  assumes "add_exception byKey e = Inr all" and "distinct (map fst byKey)"
  shows "all = byKey @ [(trim_space (xj_OccurrenceKey e), e)]" and "distinct (map fst all)"
  using assms by (auto simp: add_exception_def Let_def map_of_eq_None_iff split: if_split_asm)

lemma add_exceptions:
  "fold_res add_exception byKey exceptions = Inr all \<Longrightarrow> distinct (map fst byKey) \<Longrightarrow>
   distinct (map fst all) \<and> all = byKey @ map (\<lambda>e. (trim_space (xj_OccurrenceKey e), e)) exceptions"
proof (induction exceptions arbitrary: byKey)
  case (Cons e es)
  then obtain mid where mid: "add_exception byKey e = Inr mid" and rest: "fold_res add_exception mid es = Inr all"
    by auto
  note m = add_exception_entry[OF mid Cons.prems(2)]
  have "distinct (map fst all)" and "all = mid @ map (\<lambda>e. (trim_space (xj_OccurrenceKey e), e)) es"
    using Cons.IH[OF rest m(2)] by blast+
  moreover from this(2) have "all = byKey @ map (\<lambda>e. (trim_space (xj_OccurrenceKey e), e)) (e # es)"
    by (simp add: m(1))
  ultimately show ?case by blast
qed simp

text \<open>Each occurrence that is not cancelled becomes one entry, under its own key.\<close>

definition entry_of :: "series_projection \<Rightarrow> (string \<times> exception_projection) list \<Rightarrow> occurrence \<Rightarrow> projected_occurrence \<Rightarrow> bool" where
  "entry_of series byKey oc p \<longleftrightarrow> po_OccurrenceKey p = oc_Key oc \<and> po_OriginalLocal p = oc_OriginalLocal oc \<and>
     po_SeriesID p = sj_ID series \<and>
     (map_of byKey (oc_Key oc) = None \<longrightarrow>
       po_StartsAt p = oc_StartsAt oc \<and> po_EndsAt p = oc_EndsAt oc \<and> po_Title p = sj_Title series)"

definition dropped :: "(string \<times> exception_projection) list \<Rightarrow> occurrence \<Rightarrow> bool" where
  "dropped byKey oc \<longleftrightarrow> (\<exists>e. map_of byKey (oc_Key oc) = Some e \<and> xj_Type e = ExceptionCancel)"

lemma project_one_entry:
  assumes "project_one resolve series byKey limit projected oc = Inr all"
  shows "dropped byKey oc \<and> all = projected \<or>
    \<not> dropped byKey oc \<and> (\<exists>p. entry_of series byKey oc p \<and> all = projected @ [p] \<and> int (length all) \<le> limit)"
  using assms
  by (auto simp: project_one_def Let_def dropped_def entry_of_def project_entry_def
      split: option.split_asm if_split_asm)

lemma project_all:
  assumes "fold_res (project_one resolve series byKey limit) projected ocs = Inr all"
  shows "\<exists>ps. all = projected @ ps \<and> list_all2 (entry_of series byKey) (filter (\<lambda>oc. \<not> dropped byKey oc) ocs) ps \<and>
    (int (length projected) \<le> limit \<longrightarrow> int (length all) \<le> limit)"
  using assms
proof (induction ocs arbitrary: projected)
  case (Cons oc ocs)
  then obtain mid where mid: "project_one resolve series byKey limit projected oc = Inr mid"
    and rest: "fold_res (project_one resolve series byKey limit) mid ocs = Inr all" by auto
  from project_one_entry[OF mid] Cons.IH[OF rest] show ?case
    by (elim disjE exE conjE) simp_all
qed simp

lemma dropped_cancelled:
  assumes "distinct (map fst byKey)" and "byKey = map (\<lambda>e. (trim_space (xj_OccurrenceKey e), e)) exceptions"
  shows "dropped byKey oc \<longleftrightarrow> cancelled exceptions (oc_Key oc)"
  using map_of_eq_Some_iff[OF assms(1)] by (auto simp: dropped_def cancelled_def assms(2) image_iff)

lemma not_excepted:
  "\<not> (\<exists>e\<in>set exceptions. trim_space (xj_OccurrenceKey e) = key) \<Longrightarrow>
   map_of (map (\<lambda>e. (trim_space (xj_OccurrenceKey e), e)) exceptions) key = None"
  by (auto simp: map_of_eq_None_iff)

lemma entry_of_plain:
  assumes "entry_of series (map (\<lambda>e. (trim_space (xj_OccurrenceKey e), e)) exceptions) oc p"
  shows "po_OccurrenceKey p = oc_Key oc \<and> po_OriginalLocal p = oc_OriginalLocal oc \<and>
    (\<not> (\<exists>e\<in>set exceptions. trim_space (xj_OccurrenceKey e) = oc_Key oc) \<longrightarrow>
      po_StartsAt p = oc_StartsAt oc \<and> po_EndsAt p = oc_EndsAt oc \<and> po_Title p = sj_Title series)"
proof (cases "\<exists>e\<in>set exceptions. trim_space (xj_OccurrenceKey e) = oc_Key oc")
  case False
  with assms not_excepted[OF False] show ?thesis unfolding entry_of_def by simp
qed (use assms in \<open>simp add: entry_of_def\<close>)

lemma list_all2_member: "list_all2 P xs ys \<Longrightarrow> y \<in> set ys \<Longrightarrow> \<exists>x\<in>set xs. P x y"
  by (induction rule: list_all2_induct) auto

lemma entries_keys: "list_all2 (entry_of series byKey) ocs ps \<Longrightarrow> map po_OccurrenceKey ps = map oc_Key ocs"
  by (induction rule: list_all2_induct) (simp_all add: entry_of_def)

text \<open>C32.  The projection of a series shows each of its occurrences in the window once, under the key it
  has in the series, except those an exception cancels; an occurrence without an exception keeps its
  times and the title of the series; the entries are in the order of their starts and no more than the
  request allows.\<close>

theorem projection_applies_exceptions:
  assumes "ProjectSeries sha256 lib tz ctx resolve series window exceptions limit = Inr entries"
  shows "\<exists>occurrences. ExpandDefinition sha256 lib tz ctx (sj_Definition series) window MaxOccurrences = Inr occurrences \<and>
    mset (map po_OccurrenceKey entries) =
      mset (filter (\<lambda>key. \<not> cancelled exceptions key) (map oc_Key occurrences)) \<and>
    (\<forall>p\<in>set entries. \<exists>oc\<in>set occurrences. po_OccurrenceKey p = oc_Key oc \<and> po_OriginalLocal p = oc_OriginalLocal oc \<and>
      (\<not> (\<exists>e\<in>set exceptions. trim_space (xj_OccurrenceKey e) = oc_Key oc) \<longrightarrow>
        po_StartsAt p = oc_StartsAt oc \<and> po_EndsAt p = oc_EndsAt oc \<and> po_Title p = sj_Title series)) \<and>
    sorted (map po_StartsAt entries) \<and> int (length entries) \<le> limit"
proof -
  obtain ocs byKey ps where ocs: "ExpandDefinition sha256 lib tz ctx (sj_Definition series) window MaxOccurrences = Inr ocs"
    and byKey: "fold_res add_exception [] exceptions = Inr byKey"
    and ps: "fold_res (project_one resolve series byKey limit) [] ocs = Inr ps"
    and entries: "entries = sort_key (\<lambda>p. (po_StartsAt p, po_OccurrenceKey p)) ps" and limit: "1 \<le> limit"
    using assms by (auto simp: ProjectSeries_def split: if_split_asm)
  have all: "distinct (map fst byKey) \<and> byKey = [] @ map (\<lambda>e. (trim_space (xj_OccurrenceKey e), e)) exceptions"
    by (rule add_exceptions[OF byKey]) simp
  have keys: "byKey = map (\<lambda>e. (trim_space (xj_OccurrenceKey e), e)) exceptions" "distinct (map fst byKey)"
    using conjunct2[OF all] by (simp only: append_Nil) (rule conjunct1[OF all])
  have made: "list_all2 (entry_of series byKey) (filter (\<lambda>oc. \<not> dropped byKey oc) ocs) ps" "int (length ps) \<le> limit"
    using project_all[OF ps] limit by auto
  have "map po_OccurrenceKey ps = filter (\<lambda>key. \<not> cancelled exceptions key) (map oc_Key ocs)"
    using entries_keys[OF made(1)] by (simp add: dropped_cancelled[OF keys(2,1)] filter_map comp_def)
  moreover have "mset (map po_OccurrenceKey entries) = mset (map po_OccurrenceKey ps)"
    by (simp only: entries mset_map mset_sort)
  ultimately have "mset (map po_OccurrenceKey entries) = mset (filter (\<lambda>key. \<not> cancelled exceptions key) (map oc_Key ocs))"
    by (simp only:)
  moreover have "\<forall>p\<in>set entries. \<exists>oc\<in>set ocs. po_OccurrenceKey p = oc_Key oc \<and> po_OriginalLocal p = oc_OriginalLocal oc \<and>
      (\<not> (\<exists>e\<in>set exceptions. trim_space (xj_OccurrenceKey e) = oc_Key oc) \<longrightarrow>
        po_StartsAt p = oc_StartsAt oc \<and> po_EndsAt p = oc_EndsAt oc \<and> po_Title p = sj_Title series)"
  proof
    fix p assume "p \<in> set entries"
    then obtain oc where oc: "oc \<in> set (filter (\<lambda>oc. \<not> dropped byKey oc) ocs)" "entry_of series byKey oc p"
      using list_all2_member[OF made(1)] unfolding entries set_sort by blast
    from oc(1) have "oc \<in> set ocs" by simp
    with entry_of_plain[OF oc(2)[unfolded keys(1)]]
    show "\<exists>oc\<in>set ocs. po_OccurrenceKey p = oc_Key oc \<and> po_OriginalLocal p = oc_OriginalLocal oc \<and>
      (\<not> (\<exists>e\<in>set exceptions. trim_space (xj_OccurrenceKey e) = oc_Key oc) \<longrightarrow>
        po_StartsAt p = oc_StartsAt oc \<and> po_EndsAt p = oc_EndsAt oc \<and> po_Title p = sj_Title series)"
      by (rule bexI)
  qed
  moreover have "sorted (map po_StartsAt entries)"
  proof -
    have "sorted (map (\<lambda>p. (po_StartsAt p, po_OccurrenceKey p)) entries)" by (simp add: entries)
    then have "sorted_wrt (\<lambda>p q. (po_StartsAt p, po_OccurrenceKey p) \<le> (po_StartsAt q, po_OccurrenceKey q)) entries"
      by (simp only: sorted_map)
    then have "sorted_wrt (\<lambda>p q. po_StartsAt p \<le> po_StartsAt q) entries"
      by (rule sorted_wrt_mono_rel[rotated]) auto
    then show ?thesis by (simp only: sorted_map)
  qed
  moreover have "int (length entries) \<le> limit" using made(2) by (simp add: entries)
  ultimately show ?thesis using ocs by (intro exI[of _ ocs] conjI)
qed

definition autumn_projection :: series_projection where
  "autumn_projection = \<lparr>sj_ID = 1, sj_ClassID = 2, sj_ClassTitle = ''Class'', sj_Title = ''Lesson'',
     sj_Definition = \<lparr>df_ID = ''s'', df_StartLocal = ''2026-10-24T09:00:00'', df_TimeZone = ''Europe/Berlin'',
       df_Duration = 60 * time_Minute,
       df_Rule = daily_rule,
       df_OverlapPolicy = OverlapReject\<rparr>,
     sj_DisplayTimezone = ''Europe/Berlin''\<rparr>"

definition autumn_key :: "civil_time \<Rightarrow> instant \<Rightarrow> string" where
  "autumn_key v start = occurrenceKey (\<lambda>s. s) ''s'' (format_civil v) ''Europe/Berlin'' (autumn_location start)"

definition autumn_cancel :: exception_projection where
  "autumn_cancel = \<lparr>xj_OccurrenceKey = autumn_key (autumn_start\<lparr>cv_Day := 25\<rparr>) (63928422000 * time_Second + 25 * time_Hour),
     xj_Type = ExceptionCancel, xj_LocalStart = None, xj_Timezone = None, xj_Duration = None, xj_Title = None\<rparr>"

lemma autumn_occurrence_key [simp]: "oc_Key (plan_occurrence (\<lambda>s. s) autumn_plan v start) = autumn_key v start"
  by (simp add: plan_occurrence_def autumn_key_def autumn_plan_def autumn_series_def)

lemma autumn_formats:
  "format_civil autumn_start = ''2026-10-24T09:00:00''"
  "format_civil (autumn_start\<lparr>cv_Day := 25\<rparr>) = ''2026-10-25T09:00:00''"
  "format_civil (autumn_start\<lparr>cv_Day := 26\<rparr>) = ''2026-10-26T09:00:00''"
  by code_simp+

lemma autumn_key_eq: "autumn_key v s = autumn_key w t \<longleftrightarrow>
    take 18 (''s'' @ [CHR 0x00] @ format_civil v @ [CHR 0x00] @ ''Europe/Berlin'' @ [CHR 0x00] @ itoa (autumn_location s)) =
    take 18 (''s'' @ [CHR 0x00] @ format_civil w @ [CHR 0x00] @ ''Europe/Berlin'' @ [CHR 0x00] @ itoa (autumn_location t))"
  by (simp add: autumn_key_def occurrenceKey_def base64_Encode_inject)

lemma autumn_key_trim: "autumn_key v s \<noteq> [] \<and> trim_space (autumn_key v s) = autumn_key v s"
proof -
  have "list_all visible_ascii (base64_EncodeToString t)" for t
    by (simp add: list_all_iff base64_alphabet_visible base64_Encode_alphabet)
  moreover have "list_all visible_ascii ''occ_''" by code_simp
  ultimately have "list_all visible_ascii (autumn_key v s)" unfolding autumn_key_def occurrenceKey_def by simp
  then show ?thesis by (simp add: trim_space_visible) (simp add: autumn_key_def occurrenceKey_def)
qed

lemma autumn_projected:
  "\<exists>entries. ProjectSeries (\<lambda>s. s) daily_library autumn_zone (\<lambda>_. None) (\<lambda>_ _. Inl ErrInvalidSeries) autumn_projection
     autumn_window [autumn_cancel] 10 = Inr entries"
proof -
  have rule: "canonicalRRULE (df_Rule (sj_Definition autumn_projection)) = Inr ''FREQ=DAILY;INTERVAL=1;COUNT=3''"
    using daily_rule_text by (simp add: autumn_projection_def)
  have d: "CompileDefinition daily_library autumn_zone (sj_Definition autumn_projection) = Inr autumn_plan"
    unfolding CompileDefinition_def rule using autumn_compiled by (simp add: autumn_projection_def autumn_series_def)
  have expanded: "ExpandDefinition (\<lambda>s. s) daily_library autumn_zone (\<lambda>_. None) (sj_Definition autumn_projection) autumn_window MaxOccurrences =
      Inr [plan_occurrence (\<lambda>s. s) autumn_plan autumn_start (63928422000 * time_Second),
     plan_occurrence (\<lambda>s. s) autumn_plan (autumn_start\<lparr>cv_Day := 25\<rparr>) (63928422000 * time_Second + 25 * time_Hour),
     plan_occurrence (\<lambda>s. s) autumn_plan (autumn_start\<lparr>cv_Day := 26\<rparr>) (63928422000 * time_Second + 49 * time_Hour)]"
    using autumn_expanded by (simp add: ExpandDefinition_def d ExpandPlan_def normalizeItemLimit_def MaxOccurrences_def)
  have byKey: "fold_res add_exception [] [autumn_cancel] = Inr [(xj_OccurrenceKey autumn_cancel, autumn_cancel)]"
    by (simp add: add_exception_def Let_def autumn_cancel_def autumn_key_trim)
  show ?thesis
    unfolding ProjectSeries_def expanded byKey
    by (simp add: project_one_def Let_def autumn_cancel_def autumn_key_eq autumn_formats,
        simp add: autumn_projection_def MaxOccurrencesPerRequest_def)
qed

theorem projection_applies_exceptions_witness:
  "\<exists>entries. ProjectSeries (\<lambda>s. s) daily_library autumn_zone (\<lambda>_. None) (\<lambda>_ _. Inl ErrInvalidSeries) autumn_projection
     autumn_window [autumn_cancel] 10 = Inr entries \<and> xj_OccurrenceKey autumn_cancel \<notin># mset (map po_OccurrenceKey entries)"
proof -
  obtain entries where entries: "ProjectSeries (\<lambda>s. s) daily_library autumn_zone (\<lambda>_. None) (\<lambda>_ _. Inl ErrInvalidSeries) autumn_projection
     autumn_window [autumn_cancel] 10 = Inr entries"
    using autumn_projected by blast
  have "cancelled [autumn_cancel] (xj_OccurrenceKey autumn_cancel)"
    by (simp add: cancelled_def autumn_cancel_def autumn_key_trim)
  with projection_applies_exceptions[OF entries] have "xj_OccurrenceKey autumn_cancel \<notin># mset (map po_OccurrenceKey entries)"
    by (elim exE conjE, simp only:) simp
  with entries show ?thesis by blast
qed

end
