(* ===== verification/Calendar_Hours.thy ===== *)
theory Calendar_Hours imports Calendar_Grid begin

section \<open>Working hours do not overlap\<close>

text \<open>
  The service compares clock times as strings; padded to two digits they are ordered as the
  minutes of the day are.  A normalised week has its intervals in order, and none meets another.
\<close>

subsection \<open>Sorting\<close>

lemma insort_key_cong: "(\<And>y. y \<in> insert x (set xs) \<Longrightarrow> f x \<le> f y \<longleftrightarrow> g x \<le> g y) \<Longrightarrow> insort_key f x xs = insort_key g x xs"
  by (induction xs) auto

lemma sort_key_same:
  assumes "\<And>x y. x \<in> set xs \<Longrightarrow> y \<in> set xs \<Longrightarrow> f x \<le> f y \<longleftrightarrow> g x \<le> g y"
  shows "sort_key f xs = sort_key g xs"
  using assms
proof (induction xs)
  case (Cons x xs)
  then have "insort_key f x (sort_key g xs) = insort_key g x (sort_key g xs)" by (intro insort_key_cong) auto
  with Cons show ?case by simp
qed simp

lemma sort_key_map: "sort_key f (map g xs) = map g (sort_key (\<lambda>x. f (g x)) xs)"
proof (induction xs)
  case (Cons x xs)
  have "insort_key f (g x) (map g ys) = map g (insort_key (\<lambda>x. f (g x)) x ys)" for ys by (induction ys) auto
  with Cons show ?case by simp
qed simp

subsection \<open>Intervals\<close>

definition good_interval :: "clock_interval \<Rightarrow> bool" where
  "good_interval i \<longleftrightarrow> iv_StartsAt i < iv_EndsAt i"

definition clock_text :: "int \<Rightarrow> string" where
  "clock_text m = pad_int 2 (m div 60) @ '':'' @ pad_int 2 (m mod 60)"

lemma clock_text_less:
  assumes "0 \<le> m" "m < 1440" "0 \<le> n" "n < 1440"
  shows "clock_text m < clock_text n \<longleftrightarrow> m < n"
proof -
  have h: "0 \<le> m div 60" "m div 60 < 100" "0 \<le> n div 60" "n div 60 < 100" "0 \<le> m mod 60" "m mod 60 < 100" "0 \<le> n mod 60" "n mod 60 < 100"
    using assms by simp_all
  have "clock_text m < clock_text n \<longleftrightarrow> m div 60 < n div 60 \<or> m div 60 = n div 60 \<and> m mod 60 < n mod 60"
    using h by (simp add: clock_text_def append_less pad_int_length pad_int_less pad_int_eq)
  also have "\<dots> \<longleftrightarrow> 60 * (m div 60) + m mod 60 < 60 * (n div 60) + n mod 60"
    using pos_mod_bound[of 60 m] pos_mod_bound[of 60 n] pos_mod_sign[of 60 m] pos_mod_sign[of 60 n] by linarith
  also have "\<dots> \<longleftrightarrow> m < n" by simp
  finally show ?thesis .
qed

lemma parseCivilMinute_text:
  assumes "parseCivilMinute s = Inr (t, m)"
  shows "t = clock_text m" and "0 \<le> m" and "m < 1440"
  using assms by (auto simp: parseCivilMinute_def clock_text_def split: list.split_asm option.split_asm if_split_asm)

lemma normalizeCivilInterval_good: "normalizeCivilInterval i = Inr j \<Longrightarrow> good_interval j"
proof -
  assume n: "normalizeCivilInterval i = Inr j"
  obtain s m e k where p: "parseCivilMinute (iv_StartsAt i) = Inr (s, m)" "parseCivilMinute (iv_EndsAt i) = Inr (e, k)"
    and lt: "m < k" and j: "j = \<lparr>iv_StartsAt = s, iv_EndsAt = e\<rparr>"
    using n by (auto simp: normalizeCivilInterval_def split: if_split_asm)
  note t = parseCivilMinute_text[OF p(1)] parseCivilMinute_text[OF p(2)]
  show ?thesis using lt t by (simp add: j good_interval_def clock_text_less)
qed

text \<open>Neighbours that do not overlap, in the order of their starts: no two overlap.\<close>

lemma adjacent_disjoint:
  assumes "sorted (map iv_StartsAt xs)" and "\<forall>x\<in>set xs. good_interval x" and "\<not> adjacent_overlap xs"
  shows "sorted_wrt (\<lambda>a b. iv_EndsAt a \<le> iv_StartsAt b) xs"
  using assms
proof (induction xs rule: adjacent_overlap.induct)
  case (1 a b r)
  have "iv_EndsAt a \<le> iv_StartsAt b" using 1(4) by (simp add: not_less)
  moreover have "iv_StartsAt b \<le> iv_StartsAt c" if "c \<in> set r" for c using that 1(2) by simp
  ultimately have "\<forall>c\<in>set (b # r). iv_EndsAt a \<le> iv_StartsAt c" by force
  with 1 show ?case by simp
qed simp_all

definition day_start :: "weekly_interval \<Rightarrow> nat \<times> string" where
  "day_start w = (weekday_number (wi_Weekday w), iv_StartsAt (wi_Interval w))"

lemma day_disjoint:
  assumes "\<not> day_refused weekly day" and "\<forall>w\<in>set weekly. good_interval (wi_Interval w)"
  shows "sorted_wrt (\<lambda>a b. iv_EndsAt (wi_Interval a) \<le> iv_StartsAt (wi_Interval b)) (filter (\<lambda>w. wi_Weekday w = day) (sort_key day_start weekly))"
    and "length (filter (\<lambda>w. wi_Weekday w = day) (sort_key day_start weekly)) \<le> MaximumWorkingIntervalsDay"
proof -
  define ws where "ws = filter (\<lambda>w. wi_Weekday w = day) weekly"
  define by_start where "by_start = sort_key (\<lambda>w. iv_StartsAt (wi_Interval w)) ws"
  have same: "filter (\<lambda>w. wi_Weekday w = day) (sort_key day_start weekly) = by_start"
    unfolding by_start_def ws_def filter_sort by (rule sort_key_same) (auto simp: day_start_def)
  have "\<not> adjacent_overlap (map wi_Interval by_start)"
    using assms(1) by (simp add: day_refused_def Let_def hasCivilOverlap_def hasSimpleCivilOverlap_def sort_key_map ws_def by_start_def)
  then have "sorted_wrt (\<lambda>a b. iv_EndsAt a \<le> iv_StartsAt b) (map wi_Interval by_start)"
    using assms(2) by (intro adjacent_disjoint) (auto simp: by_start_def ws_def comp_def)
  then show "sorted_wrt (\<lambda>a b. iv_EndsAt (wi_Interval a) \<le> iv_StartsAt (wi_Interval b)) (filter (\<lambda>w. wi_Weekday w = day) (sort_key day_start weekly))"
    unfolding same by (simp add: sorted_wrt_map)
  show "length (filter (\<lambda>w. wi_Weekday w = day) (sort_key day_start weekly)) \<le> MaximumWorkingIntervalsDay"
    unfolding same using assms(1) by (simp add: day_refused_def Let_def ws_def by_start_def)
qed

lemma normalizeWeekly_good: "normalizeWeekly w = Inr n \<Longrightarrow> good_interval (wi_Interval n) \<and> wi_Weekday n \<in> dom calendarWeekdayOrder"
  by (auto simp: normalizeWeekly_def Let_def dest: normalizeCivilInterval_good split: if_split_asm)

text \<open>The working hours the service accepts are a timetable: each interval ends after it starts, the
  intervals of one weekday are at most eight, in order, and none begins before the one before it has
  ended, for any spelling of the times and days of the request.\<close>

theorem working_hours_disjoint:
  assumes "normalizeWeeklyIntervals intervals = Inr weekly"
  shows "length weekly = length intervals \<and>
    (\<forall>w\<in>set weekly. wi_Weekday w \<in> dom calendarWeekdayOrder \<and> iv_StartsAt (wi_Interval w) < iv_EndsAt (wi_Interval w)) \<and>
    (\<forall>day. length (filter (\<lambda>w. wi_Weekday w = day) weekly) \<le> MaximumWorkingIntervalsDay \<and>
      sorted_wrt (\<lambda>a b. iv_EndsAt (wi_Interval a) \<le> iv_StartsAt (wi_Interval b)) (filter (\<lambda>w. wi_Weekday w = day) weekly))"
proof -
  obtain ns where ns: "map_res normalizeWeekly intervals = Inr ns"
    and ok: "\<not> list_ex (day_refused ns) (map wi_Weekday ns)" and weekly: "weekly = sort_key day_start ns"
    using assms by (auto simp: normalizeWeeklyIntervals_def day_start_def[abs_def] split: if_split_asm)
  have good: "good_interval (wi_Interval n) \<and> wi_Weekday n \<in> dom calendarWeekdayOrder" if "n \<in> set ns" for n
    using map_res_in_set[OF ns that] normalizeWeekly_good by blast
  have accepted: "\<not> day_refused ns day" for day
  proof (cases "day \<in> set (map wi_Weekday ns)")
    case False
    then have "filter (\<lambda>w. wi_Weekday w = day) ns = []" by (auto simp: filter_empty_conv)
    then show ?thesis by (simp add: day_refused_def hasCivilOverlap_def hasSimpleCivilOverlap_def)
  qed (use ok in \<open>auto simp: list_ex_iff\<close>)
  show ?thesis
    using day_disjoint[OF accepted] good map_res_length[OF ns] by (auto simp: weekly good_interval_def)
qed

theorem working_hours_disjoint_witness:
  "\<exists>weekly. normalizeWeeklyIntervals [\<lparr>wi_Weekday = ''Monday'', wi_Interval = \<lparr>iv_StartsAt = ''13:00'', iv_EndsAt = ''17:30''\<rparr>\<rparr>,
      \<lparr>wi_Weekday = '' monday '', wi_Interval = \<lparr>iv_StartsAt = ''8:00'', iv_EndsAt = ''12:00''\<rparr>\<rparr>] = Inr weekly \<and>
    sorted_wrt (\<lambda>a b. iv_EndsAt (wi_Interval a) \<le> iv_StartsAt (wi_Interval b)) (filter (\<lambda>w. wi_Weekday w = ''monday'') weekly)"
proof -
  have w: "normalizeWeeklyIntervals [\<lparr>wi_Weekday = ''Monday'', wi_Interval = \<lparr>iv_StartsAt = ''13:00'', iv_EndsAt = ''17:30''\<rparr>\<rparr>,
      \<lparr>wi_Weekday = '' monday '', wi_Interval = \<lparr>iv_StartsAt = ''8:00'', iv_EndsAt = ''12:00''\<rparr>\<rparr>] =
    Inr [\<lparr>wi_Weekday = ''monday'', wi_Interval = \<lparr>iv_StartsAt = ''08:00'', iv_EndsAt = ''12:00''\<rparr>\<rparr>,
      \<lparr>wi_Weekday = ''monday'', wi_Interval = \<lparr>iv_StartsAt = ''13:00'', iv_EndsAt = ''17:30''\<rparr>\<rparr>]"
    by code_simp
  show ?thesis using working_hours_disjoint[OF w] w by blast
qed

end
