(* ===== verification/Spec2Isabelle.thy ===== *)
theory Spec2Isabelle
  imports Policy_Engine Outbox_System Feature_Properties
    Media_Properties Media_Authorization Media_Retries
    Media_Moderation_Properties Media_Service_Properties
    Calendar_Conflicts Calendar_Properties Calendar_Expansion Calendar_Hours
begin

text \<open>
  TutorHub core API: authorization, outbox worker, feature controls, classroom media and calendar.

  The program is the Go service under src/services/core-api.  The development models the parts
  of internal/ that decide something: who may do what (policy), what a tenant may use
  (modules/featurecontrol), the life of a media space with its rooms, participants and the
  reports of the media provider (modules/media, with the part of modules/classroom it calls),
  when classes take place and when people could meet (modules/calendar, with the recurrence engine
  of spikes/calendarrecurrence), and the delivery of domain events (platform/outboxworker).  The media component asks the
  policy engine through the classroom's \<open>ClassSourceAuthority\<close>, the feature controls for
  features, quotas and rates, and appends one event per change of a space.

  Parts and theories.

  \<^item> Shared: \<open>Go_Prelude\<close>, \<open>Go_Strings\<close> and \<open>Go_Encoding\<close> hold Go's base types, the functions of
    package strings, UTF-8 and the forms of a uuid; \<open>Sql_Tables\<close> an UPDATE with its WHERE clause
    and row count, and constraints; \<open>Rate_Windows\<close> the upsert that every rate limit uses, with the
    locale \<open>windowed_limit\<close>.
  \<^item> \<open>Policy_Engine\<close>: policy/policy.go, the permission tables, \<open>Authorize\<close> and \<open>CanMutateRoster\<close>.
  \<^item> \<open>Outbox_Events\<close>, \<open>Outbox_Failures\<close>, \<open>Outbox_Store\<close>, \<open>Outbox_Runner\<close>: event.go, failure.go and
    backoff.go, store.go, registry.go with metrics.go and runner.go of platform/outboxworker.
    \<open>Outbox_Contract\<close> states the interface \<open>Store\<close> as a locale and interprets it on the PostgreSQL
    store; \<open>Outbox_System\<close> is any number of workers over one table, as a step relation.
  \<^item> \<open>Feature_Catalog\<close>, \<open>Feature_Enforcement\<close>, \<open>Feature_Properties\<close>: catalog.go, model.go, service.go
    and postgres_repository.go of modules/featurecontrol.
  \<^item> \<open>Media_Model\<close>: lifecycle_model.go and lifecycle_service.go.  \<open>Media_Sources\<close>: the classroom's
    media_source.go.  \<open>Media_Tables\<close>: the tables of migrations 1, 22, 29 to 33 and 35.
    \<open>Media_Authority\<close>, \<open>Media_Lifecycle\<close>, \<open>Media_Transitions\<close>: postgres_lifecycle_repository.go.
    \<open>Media_Instances\<close>, \<open>Media_Participants\<close>, \<open>Media_Webhooks\<close>: postgres_instance_repository.go.
    \<open>Media_Lobby\<close>, \<open>Media_Decisions\<close>: postgres_lobby_repository.go, the access to the lobby and its
    transactions; \<open>Media_Lobby_Service\<close>: lobby_service.go.  \<open>Media_Moderation\<close>,
    \<open>Media_Moderation_Service\<close>: postgres_moderation_repository.go and moderation_service.go.
    \<open>Media_Convergence\<close>: provider_effect_reconciler.go and postgres_provider_effect_repository.go.
  \<^item> \<open>Media_Effects\<close>, \<open>Media_Changes\<close>, \<open>Media_Attendance\<close>: what each transaction leaves behind.
    \<open>Media_Refinement\<close>: the abstract lifecycle machine and the abstraction of the tables.
    \<open>Media_Attendees\<close>: the abstract attendance of participants and their requests, as a relation of
    small steps, and what holds along it.  \<open>Media_Invariant\<close>, \<open>Media_Soundness\<close>, \<open>Media_Orderly\<close>,
    \<open>Media_Lobby_Sound\<close>, \<open>Media_Moderation_Sound\<close>: every transaction keeps the invariant and is made
    of steps of the two abstract machines.  \<open>Media_Entitlement\<close>: whose authority a space follows, by its
    rows, under the contract of the classroom.  \<open>Media_System\<close>: the step relation of the component, in
    which every transaction and the changes of the other components are interleaved at will.
    \<open>Media_Example\<close>: a run evaluated by the kernel, to which the properties are applied in
    \<open>Media_Properties\<close>, \<open>Media_Authorization\<close>, \<open>Media_Delivery\<close> and \<open>Media_Retries\<close>.
    \<open>Media_Lobby_Queue\<close>, \<open>Media_Lobby_Properties\<close>, \<open>Media_Moderation_Properties\<close>,
    \<open>Media_Convergence_Properties\<close>, \<open>Media_Service_Properties\<close>: the properties of the lobby, of
    moderation, of the reconciler and of the services.
  \<^item> \<open>Go_Calendar\<close>, \<open>Go_Base64\<close>: the Gregorian calendar, the layouts of package time, locations, and
    unpadded base64.  \<open>Calendar_Civil\<close>, \<open>Calendar_Recurrence\<close>: civil.go, validator.go and adapter.go of
    spikes/calendarrecurrence and recurrence/adapter.go of modules/calendar.  \<open>Calendar_Series\<close>:
    recurrence/scope.go and override.go.  \<open>Calendar_Conflicts\<close>: conflict.go.  \<open>Calendar_Scheduling\<close>,
    \<open>Calendar_Availability\<close>: scheduling_model.go, scheduling_service.go and availability.go.
    \<open>Calendar_Rules\<close> compares the writer and the reader of rules, \<open>Calendar_Expansion\<close> treats series,
    \<open>Calendar_Grid\<close> and \<open>Calendar_Properties\<close> the search for slots, \<open>Calendar_Hours\<close> working hours.

  How the state corresponds to the code.  A table is the list of its rows in the order of
  insertion, a row a record with the columns the code reads or writes; CHECK constraints and
  unique indexes are executable predicates, and a statement that would break one is an error.
  A transaction is a function from the database to an error, where it is rolled back, or to its
  result and the new database; an error value of Go is a constructor.  A Go interface is a record
  of functions, and its contract a locale that the model of its implementation interprets.

  What the lemmas show.  Policy: the decision follows the permission matrix of docs/DOMAIN_MODEL.md,
  isolation of tenants, what an archived class permits, monotonicity in the class role, and the
  strict hierarchy of the roster.  Outbox: the constraints hold in every reachable table, a lease is
  exclusive and a late worker is fenced off, settled events stay settled, and the outcome of an
  event is decided by the handler's result and the attempts used; the delay is exponential within
  bounds.  Features: what is enforced is what is shown, limits stay within the guardrails, counters
  are exact and overrides are replaced optimistically.  Media: the transactions refine the lifecycle
  machine, every space has a history of consecutively numbered rooms, nobody is present outside the
  running room, ended spaces stay ended, transitions are authorized, not lost and applied once,
  quotas bound spaces and places, credentials go only to those let in and at most thirty in ten
  minutes, reports count once and an effect has one holder; only a moderator lets somebody in from
  the lobby, requests are decided once, who was removed stays out, the queue moves, moderation keeps
  to its ranks, changes its target only and is applied once, a key names one decision of the lobby
  service, the moderation service reports an effect only as it is recorded, and the rounds of the
  reconciler make exactly the calls to the provider that are due.  Calendar: no class is booked
  twice, the sampled search for the instants of a civil time is exact, occurrences keep the clock of
  their series, an expansion finds the occurrences of its window, the text of a rule reads back,
  exceptions change what they name, the search for slots returns and finds the slots between the
  clocks of its window, the best slots are suggested first, and working hours are disjoint.  Some
  lemmas show what the code does not do as meant (listed as findings of the manifest).

  Bounds.  The expansion of a series has the code's own bound of 2048 iterations as its fuel, and
  running out is its error.  The search for slots has no bound in the code: its model returns an
  option, and that it is never \<open>None\<close> is a property.  Every other loop is over a list.  64-bit wrap-around
  is written out where the code multiplies before it compares (the length of an instant
  meeting); elsewhere counters are unbounded integers, which 64-bit columns do not exhaust.

  Parameters.  SHA-256, the time zone database, the uuids that are drawn, the float64 rounding of
  the backoff and the jitter, the handlers and JSON decoders of the worker, \<open>uuid.Parse\<close>, the package
  rrule-go (its parser, its check and its iterator), and the classroom
  behind \<open>ClassSourceAuthority\<close> (instantiated by \<open>classroom_sources\<close>).

  Simplifications.  One transaction is one step, since the row and advisory locks of the code
  serialise the transactions that touch the same rows; a lost connection rolls a transaction
  back, and a commit whose answer is lost appears as a step whose result the caller never sees.
  A caller's clock is an argument; the workers of the outbox read one clock.  A location
  is its offset at every instant; where its changes matter they are six hours apart at least
  (\<open>steady_location\<close>).  Timestamps are
  integers in nanoseconds, where PostgreSQL keeps microseconds.  Foreign keys and the audit
  entries' own validation are left out.

  Not modelled.  Signals and diagnostics of media, the services above credentials, join attempts
  and webhooks, and the polling loop of the reconciler; enrollment, roster
  and series of the classroom; the calendar's polls, listings and stored schedules; participation, identity, conversation, collaboration,
  content, notification, discovery and audit modules; the LiveKit client, HTTP routing,
  configuration, logging and metrics export; the web front end.  They are either not yet
  reached or input and output only; PROJECT.json gives the reason for each.
\<close>

end
